(* ===== verification/Pal_Prelude.thy ===== *)
theory Pal_Prelude
  imports Main "HOL-Library.Word"
begin

text \<open>
  Shared vocabulary of the development: the Linux error numbers the code returns, the
  fixed-width arithmetic of C++ (\<^verbatim>\<open>size_t\<close>, \<^verbatim>\<open>uint32_t\<close>, \<^verbatim>\<open>int32_t\<close>) written on
  \<open>nat\<close> and \<open>int\<close> with the wrap-around explicit, byte regions of memory, and the
  generic list lemmas that the component theories share.  Four collections carry the
  component proofs: \<open>pal_arith\<close> (wrap-around operations inside their range),
  \<open>pal_step\<close> (the effect of one modelled operation), \<open>pal_frame\<close> (what an operation leaves alone)
  and \<open>pal_mem\<close> (memory regions).
\<close>

named_theorems pal_arith "wrap-around operations in range"
named_theorems pal_step "what one operation does"
named_theorems pal_frame "what an operation does not change"
named_theorems pal_mem "memory regions"

section \<open>Error numbers\<close>

text \<open>The values of \<^verbatim>\<open>errno.h\<close> on Linux; the code returns their negations.\<close>

abbreviation (input) ENOENT :: int where "ENOENT \<equiv> 2"
abbreviation (input) EIO :: int where "EIO \<equiv> 5"
abbreviation (input) EAGAIN :: int where "EAGAIN \<equiv> 11"
abbreviation (input) ENOMEM :: int where "ENOMEM \<equiv> 12"
abbreviation (input) ENODEV :: int where "ENODEV \<equiv> 19"
abbreviation (input) EINVAL :: int where "EINVAL \<equiv> 22"
abbreviation (input) ENOSYS :: int where "ENOSYS \<equiv> 38"
abbreviation (input) ENETRESET :: int where "ENETRESET \<equiv> 102"

section \<open>Fixed-width arithmetic\<close>

type_synonym byte = "8 word"

text \<open>
  \<open>size_t\<close> (64 bit) and \<open>uint32_t\<close> values are natural numbers below the modulus;
  subtraction wraps around, as in C++.
\<close>

definition sz_add :: "nat \<Rightarrow> nat \<Rightarrow> nat" where
  "sz_add a b = (a + b) mod 2 ^ 64"

definition sz_sub :: "nat \<Rightarrow> nat \<Rightarrow> nat" where
  "sz_sub a b = (if b \<le> a then a - b else a + 2 ^ 64 - b)"

definition u32_sub :: "nat \<Rightarrow> nat \<Rightarrow> nat" where
  "u32_sub a b = (if b \<le> a then a - b else a + 2 ^ 32 - b)"

text \<open>
  Conversions between the signed 32-bit type and \<open>size_t\<close>: \<open>to_i32\<close> keeps the low 32
  bits and reads them as two's complement, \<open>i32_to_sz\<close> sign-extends.
\<close>

definition to_i32 :: "int \<Rightarrow> int" where
  "to_i32 x = (x + 2 ^ 31) mod 2 ^ 32 - 2 ^ 31"

definition i32_to_sz :: "int \<Rightarrow> nat" where
  "i32_to_sz x = nat (x mod 2 ^ 64)"

lemma sz_add_in [pal_arith]: "a + b < 2 ^ 64 \<Longrightarrow> sz_add a b = a + b"
  by (simp add: sz_add_def)

lemma sz_sub_in [pal_arith]: "b \<le> a \<Longrightarrow> sz_sub a b = a - b"
  by (simp add: sz_sub_def)

lemma u32_sub_in [pal_arith]: "b \<le> a \<Longrightarrow> u32_sub a b = a - b"
  by (simp add: u32_sub_def)

lemma to_i32_in [pal_arith]: "- (2 ^ 31) \<le> x \<Longrightarrow> x < 2 ^ 31 \<Longrightarrow> to_i32 x = x"
  by (simp add: to_i32_def)

lemma i32_to_sz_in [pal_arith]: "0 \<le> x \<Longrightarrow> x < 2 ^ 31 \<Longrightarrow> i32_to_sz x = nat x"
  by (simp add: i32_to_sz_def)

section \<open>Memory regions\<close>

text \<open>
  \<open>poke b off xs\<close> stores the bytes \<open>xs\<close> at offset \<open>off\<close> of the region \<open>b\<close>;
  \<open>circ n b off k\<close> reads \<open>k\<close> bytes of the circular region of \<open>n\<close> bytes from \<open>off\<close> on.
\<close>

definition poke :: "'a list \<Rightarrow> nat \<Rightarrow> 'a list \<Rightarrow> 'a list" where
  "poke b off xs = take off b @ xs @ drop (off + length xs) b"

definition circ :: "nat \<Rightarrow> 'a list \<Rightarrow> nat \<Rightarrow> nat \<Rightarrow> 'a list" where
  "circ n b off k = map (\<lambda>j. b ! ((off + j) mod n)) [0..<k]"

lemma length_poke [simp, pal_mem]: "off + length xs \<le> length b \<Longrightarrow> length (poke b off xs) = length b"
  by (simp add: poke_def)

lemma length_circ [simp, pal_mem]: "length (circ n b off k) = k"
  by (simp add: circ_def)

lemma poke_Nil [simp, pal_mem]: "poke b off [] = b"
  by (simp add: poke_def)

lemma poke_nth:
  "off + length xs \<le> length b \<Longrightarrow> i < length b \<Longrightarrow>
   poke b off xs ! i = (if off \<le> i \<and> i < off + length xs then xs ! (i - off) else b ! i)"
  by (auto simp: poke_def nth_append min_def not_less)

lemma poke_all [pal_mem]: "length xs = length b \<Longrightarrow> poke b 0 xs = xs"
  by (simp add: poke_def)

lemma take_poke_0 [pal_mem]: "take (length xs) (poke b 0 xs) = xs"
  by (simp add: poke_def)

lemma take_poke_append [pal_mem]:
  "off = length ys \<Longrightarrow> take off b = ys \<Longrightarrow> length ys \<le> length b \<Longrightarrow>
   take (off + length xs) (poke b off xs) = ys @ xs"
  by (simp add: poke_def)

lemma circ_0 [simp, pal_mem]: "circ n b off 0 = []"
  by (simp add: circ_def)

lemma circ_add [pal_mem]: "circ n b off (j + k) = circ n b off j @ circ n b (off + j) k"
  by (rule nth_equalityI) (auto simp: circ_def nth_append add.assoc)

lemma circ_mod [pal_mem]: "circ n b (off mod n) k = circ n b off k"
  by (simp add: circ_def mod_add_left_eq)

lemma circ_linear [pal_mem]:
  "off + k \<le> n \<Longrightarrow> n \<le> length b \<Longrightarrow> circ n b off k = take k (drop off b)"
  by (rule nth_equalityI) (auto simp: circ_def)

lemma take_circ [pal_mem]: "j \<le> k \<Longrightarrow> take j (circ n b off k) = circ n b off j"
  by (simp add: circ_def take_map)

lemma drop_circ [pal_mem]: "j \<le> k \<Longrightarrow> drop j (circ n b off k) = circ n b (off + j) (k - j)"
  by (rule nth_equalityI) (auto simp: circ_def add.assoc)

lemma circ_cong:
  "(\<And>j. j < k \<Longrightarrow> b ! ((off + j) mod n) = c ! ((off + j) mod n)) \<Longrightarrow> circ n b off k = circ n c off k"
  by (simp add: circ_def)

section \<open>Lists\<close>

text \<open>\<^verbatim>\<open>std::find\<close> followed by \<^verbatim>\<open>erase\<close> removes the first occurrence: \<^const>\<open>remove1\<close>.\<close>

lemma foldr_min_le: "foldr (\<lambda>x. min (f x)) xs (m :: nat) \<le> m"
  by (induction xs) (auto simp: min.coboundedI2)

lemma foldr_min_mem: "x \<in> set xs \<Longrightarrow> foldr (\<lambda>x. min (f x)) xs (m :: nat) \<le> f x"
  by (induction xs) (auto simp: min.coboundedI2)

lemma foldl_min_eq: "foldl (\<lambda>m x. min m (f x)) (m :: nat) xs = Min (insert m (f ` set xs))"
proof (induction xs arbitrary: m)
  case Nil
  then show ?case by simp
next
  case (Cons x xs)
  have "foldl (\<lambda>m x. min m (f x)) m (x # xs) = Min (insert (min m (f x)) (f ` set xs))"
    by (simp add: Cons.IH)
  also have "\<dots> = Min (insert m (insert (f x) (f ` set xs)))"
    by (cases "f ` set xs = {}") (auto simp: min.assoc)
  finally show ?case by simp
qed

end
