(* ===== verification/Pal_RingBuffer.thy ===== *)
theory Pal_RingBuffer
  imports Pal_Prelude
begin

text \<open>
  The shared detection buffer of \<^verbatim>\<open>stream/StreamSoundTrigger/src/PalRingBuffer.cpp\<close>: one
  circular byte region, one writer, any number of readers each with its own offset, unread
  count and state.  Reader objects live in the store \<open>robj\<close>, addressed by number;
  \<open>readers\<close> is the vector \<^verbatim>\<open>readers_\<close> of pointers.  The locks are not modelled: every
  operation below runs under \<^verbatim>\<open>mutex_\<close> in the source and is one atomic step here, but for
  \<^verbatim>\<open>waitForBuffers\<close>, whose wait is split in two steps.  The copy routine
  \<^verbatim>\<open>ar_mem_cpy\<close> is not part of the repository: it is the parameter \<open>cpy\<close>, the number of
  bytes copied for a destination and a source size.

  The theory shows that the buffer implements an append-only log with one cursor per
  reader, as long as the cursors stay within one buffer length of the end.
\<close>

section \<open>Data\<close>

datatype pal_ring_buffer_reader_state = READER_DISABLED | READER_ENABLED | READER_PREPARED

record kwdConfig =
  startIdx :: nat
  endIdx :: nat
  ftrtSize :: nat

record PalRingBufferReader =
  unreadSize :: nat
  readOffset :: nat
  rstate :: pal_ring_buffer_reader_state
  requestedSize :: nat

record PalRingBuffer =
  buffer :: "byte list"
  kwCfg :: "nat \<Rightarrow> kwdConfig option"
  writeOffset :: nat
  bufferEnd :: nat
  readers :: "nat list"
  robj :: "nat \<Rightarrow> PalRingBufferReader"
  next_reader :: nat

type_synonym mem_cpy_t = "nat \<Rightarrow> nat \<Rightarrow> nat"

text \<open>
  What the code relies on of \<^verbatim>\<open>ar_mem_cpy(dst, dst_size, src, src_size)\<close>: a source that
  fits the destination is copied whole.
\<close>

definition ar_mem_cpy_spec :: "mem_cpy_t \<Rightarrow> bool" where
  "ar_mem_cpy_spec cpy \<longleftrightarrow> (\<forall>d s. s \<le> d \<longrightarrow> cpy d s = s)"

definition mem_cpy :: "mem_cpy_t \<Rightarrow> byte list \<Rightarrow> nat \<Rightarrow> nat \<Rightarrow> byte list \<Rightarrow> nat \<Rightarrow> nat \<Rightarrow> byte list" where
  "mem_cpy cpy dst doff dsz src soff ssz = poke dst doff (take (cpy dsz ssz) (drop soff src))"

definition set_reader :: "PalRingBuffer \<Rightarrow> nat \<Rightarrow> PalRingBufferReader \<Rightarrow> PalRingBuffer" where
  "set_reader rb r x = rb\<lparr>robj := (robj rb)(r := x)\<rparr>"

section \<open>Operations of the buffer\<close>

definition new_PalRingBufferReader :: PalRingBufferReader where
  "new_PalRingBufferReader =
     \<lparr>unreadSize = 0, readOffset = 0, rstate = READER_DISABLED, requestedSize = 0\<rparr>"

definition new_PalRingBuffer :: "nat \<Rightarrow> PalRingBuffer" where
  "new_PalRingBuffer bufferSize =
     \<lparr>buffer = replicate bufferSize 0, kwCfg = (\<lambda>_. None), writeOffset = 0,
      bufferEnd = bufferSize, readers = [], robj = (\<lambda>_. new_PalRingBufferReader),
      next_reader = 0\<rparr>"

definition PalRingBuffer_newReader :: "PalRingBuffer \<Rightarrow> nat \<times> PalRingBuffer" where
  "PalRingBuffer_newReader rb =
     (let r = next_reader rb
      in (r, (set_reader rb r new_PalRingBufferReader)\<lparr>readers := readers rb @ [r], next_reader := r + 1\<rparr>))"

definition PalRingBuffer_removeReader :: "PalRingBuffer \<Rightarrow> nat \<Rightarrow> int \<times> PalRingBuffer" where
  "PalRingBuffer_removeReader rb r = (0, rb\<lparr>readers := remove1 r (readers rb)\<rparr>)"

text \<open>The stub \<^verbatim>\<open>PalRingBuffer::read\<close> reads nothing; readers read for themselves.\<close>

definition PalRingBuffer_read :: "PalRingBuffer \<Rightarrow> nat \<Rightarrow> byte list \<Rightarrow> nat \<Rightarrow> nat" where
  "PalRingBuffer_read rb reader readBuffer readSize = 0"

definition PalRingBuffer_getFreeSize :: "PalRingBuffer \<Rightarrow> nat" where
  "PalRingBuffer_getFreeSize rb =
     foldl (\<lambda>freeSize r.
              if rstate (robj rb r) = READER_ENABLED
              then min freeSize (sz_sub (bufferEnd rb) (unreadSize (robj rb r)))
              else freeSize)
       (bufferEnd rb) (readers rb)"

text \<open>
  \<open>updateUnReadSize_loop\<close> also returns the readers whose condition variable is notified.
\<close>

fun updateUnReadSize_loop :: "nat list \<Rightarrow> nat \<Rightarrow> PalRingBuffer \<Rightarrow> PalRingBuffer \<times> nat list" where
  "updateUnReadSize_loop [] writtenSize rb = (rb, [])"
| "updateUnReadSize_loop (r # rs) writtenSize rb =
     (let x = (robj rb r)\<lparr>unreadSize := sz_add (unreadSize (robj rb r)) writtenSize\<rparr>;
          (rb', ns) = updateUnReadSize_loop rs writtenSize (set_reader rb r x)
      in (rb', if requestedSize x > 0 \<and> unreadSize x \<ge> requestedSize x then r # ns else ns))"

definition PalRingBuffer_updateUnReadSize :: "PalRingBuffer \<Rightarrow> nat \<Rightarrow> PalRingBuffer \<times> nat list" where
  "PalRingBuffer_updateUnReadSize rb writtenSize =
     updateUnReadSize_loop (readers rb) writtenSize rb"

text \<open>
  The stream's own readers (\<^verbatim>\<open>GetReaders()\<close>) are the argument \<open>rs\<close>; \<open>%\<close> by a
  zero \<open>bufferEnd\<close> is undefined in the source and excluded by \<open>ring_wf\<close> below.
\<close>

definition kwd_adjust :: "nat \<Rightarrow> nat \<Rightarrow> PalRingBufferReader \<Rightarrow> PalRingBufferReader" where
  "kwd_adjust bufEnd sz x =
     (let x = (if unreadSize x > sz then x\<lparr>unreadSize := sz_sub (unreadSize x) sz\<rparr> else x)
      in x\<lparr>unreadSize := unreadSize x mod bufEnd, readOffset := sz mod bufEnd\<rparr>)"

definition PalRingBuffer_updateKwdConfig ::
    "PalRingBuffer \<Rightarrow> nat \<Rightarrow> nat list \<Rightarrow> nat \<Rightarrow> nat \<Rightarrow> nat \<Rightarrow> PalRingBuffer" where
  "PalRingBuffer_updateKwdConfig rb s rs sIdx eIdx preRoll =
     (let sz = (if sIdx \<ge> preRoll then u32_sub sIdx preRoll else 0);
          rb' = foldl (\<lambda>b r. set_reader b r (kwd_adjust (bufferEnd b) sz (robj b r))) rb rs
      in rb'\<lparr>kwCfg := (kwCfg rb')(s \<mapsto> \<lparr>startIdx = u32_sub sIdx sz, endIdx = u32_sub eIdx sz,
                                            ftrtSize = eIdx\<rparr>)\<rparr>)"

text \<open>\<^verbatim>\<open>kwCfg_[s]\<close> inserts a zero entry for a stream it does not know.\<close>

definition PalRingBuffer_getIndices :: "PalRingBuffer \<Rightarrow> nat \<Rightarrow> (nat \<times> nat \<times> nat) \<times> PalRingBuffer" where
  "PalRingBuffer_getIndices rb s =
     (case kwCfg rb s of
        Some kc \<Rightarrow> ((startIdx kc, endIdx kc, ftrtSize kc), rb)
      | None \<Rightarrow> ((0, 0, 0), rb\<lparr>kwCfg := (kwCfg rb)(s \<mapsto> \<lparr>startIdx = 0, endIdx = 0, ftrtSize = 0\<rparr>)\<rparr>))"

text \<open>
  \<open>PalRingBuffer_write cpy rb wbuf writeSize\<close> returns the size written, the buffer and
  the readers notified.
\<close>

definition PalRingBuffer_write ::
    "mem_cpy_t \<Rightarrow> PalRingBuffer \<Rightarrow> byte list \<Rightarrow> nat \<Rightarrow> nat \<times> PalRingBuffer \<times> nat list" where
  "PalRingBuffer_write cpy rb writeBuffer writeSize =
     (let freeSize = PalRingBuffer_getFreeSize rb;
          sizeToCopy = (if writeSize \<le> freeSize then writeSize else freeSize);
          (writtenSize, rb1) =
            (if sizeToCopy \<noteq> 0 then
               (if sz_add (writeOffset rb) sizeToCopy > bufferEnd rb then
                  (let i = sz_sub (bufferEnd rb) (writeOffset rb);
                       b1 = mem_cpy cpy (buffer rb) (writeOffset rb) i writeBuffer 0 i;
                       rest = sz_sub sizeToCopy i;
                       b2 = mem_cpy cpy b1 0 rest writeBuffer i rest
                   in (sz_add i rest, rb\<lparr>buffer := b2, writeOffset := rest\<rparr>))
                else (sizeToCopy,
                      rb\<lparr>buffer := mem_cpy cpy (buffer rb) (writeOffset rb) sizeToCopy writeBuffer 0 sizeToCopy,
                         writeOffset := sz_add (writeOffset rb) sizeToCopy\<rparr>))
             else (0, rb));
          (rb2, notified) = PalRingBuffer_updateUnReadSize rb1 writtenSize
      in (writtenSize, rb2\<lparr>writeOffset := writeOffset rb2 mod bufferEnd rb2\<rparr>, notified))"

definition PalRingBuffer_resizeRingBuffer :: "PalRingBuffer \<Rightarrow> byte list \<Rightarrow> nat \<Rightarrow> PalRingBuffer" where
  "PalRingBuffer_resizeRingBuffer rb fresh bufferSize =
     rb\<lparr>buffer := take bufferSize fresh, bufferEnd := bufferSize\<rparr>"

section \<open>Operations of a reader\<close>

definition PalRingBufferReader_reset :: "PalRingBuffer \<Rightarrow> nat \<Rightarrow> PalRingBuffer" where
  "PalRingBufferReader_reset rb r =
     set_reader rb r ((robj rb r)\<lparr>readOffset := 0, unreadSize := 0, rstate := READER_DISABLED,
                                  requestedSize := 0\<rparr>)"

definition PalRingBuffer_reset :: "PalRingBuffer \<Rightarrow> PalRingBuffer" where
  "PalRingBuffer_reset rb =
     foldl PalRingBufferReader_reset (rb\<lparr>kwCfg := (\<lambda>_. None), writeOffset := 0\<rparr>) (readers rb)"

text \<open>
  \<^verbatim>\<open>waitForBuffers\<close>: the first step either finds the data at once or records the request
  and waits (the result says which); the second runs after the wake-up or the timeout.
\<close>

definition waitForBuffers_enter :: "PalRingBuffer \<Rightarrow> nat \<Rightarrow> nat \<Rightarrow> bool \<times> PalRingBuffer" where
  "waitForBuffers_enter rb r buffer_size =
     (let x = robj rb r
      in if rstate x = READER_ENABLED \<and> \<not> unreadSize x \<ge> buffer_size
         then (True, set_reader rb r (x\<lparr>requestedSize := buffer_size\<rparr>))
         else (False, rb))"

definition waitForBuffers_exit :: "PalRingBuffer \<Rightarrow> nat \<Rightarrow> nat \<Rightarrow> bool \<times> PalRingBuffer" where
  "waitForBuffers_exit rb r buffer_size =
     (let x = robj rb r
      in (unreadSize x \<ge> buffer_size, set_reader rb r (x\<lparr>requestedSize := 0\<rparr>)))"

definition PalRingBufferReader_getKwData ::
    "mem_cpy_t \<Rightarrow> PalRingBuffer \<Rightarrow> nat \<Rightarrow> byte list \<Rightarrow> nat \<Rightarrow> int \<times> byte list" where
  "PalRingBufferReader_getKwData cpy rb r data sz =
     (let ro = readOffset (robj rb r)
      in if sz_add ro sz > bufferEnd rb then
           (let offset = sz_sub (bufferEnd rb) ro;
                d1 = mem_cpy cpy data 0 offset (buffer rb) ro offset
            in (to_i32 (int sz),
                mem_cpy cpy d1 offset (sz_sub sz offset) (buffer rb) 0 (sz_sub sz offset)))
         else (to_i32 (int sz), mem_cpy cpy data 0 sz (buffer rb) ro sz))"

text \<open>\<open>PalRingBufferReader_read\<close> returns the status or size, the client buffer and the ring.\<close>

definition PalRingBufferReader_read ::
    "mem_cpy_t \<Rightarrow> PalRingBuffer \<Rightarrow> nat \<Rightarrow> byte list \<Rightarrow> nat \<Rightarrow> int \<times> byte list \<times> PalRingBuffer" where
  "PalRingBufferReader_read cpy rb r readBuffer bufferSize =
     (let x0 = robj rb r
      in if rstate x0 = READER_DISABLED then (- EINVAL, readBuffer, rb)
         else
         let x = (if rstate x0 = READER_PREPARED then x0\<lparr>rstate := READER_ENABLED\<rparr> else x0);
             wo = writeOffset rb; ro = readOffset x; b = buffer rb
         in if unreadSize x = 0 then (0, readBuffer, set_reader rb r x)
            else if wo > ro then
              (let u = sz_sub wo ro
               in if bufferSize \<ge> u then
                    (to_i32 (int u), mem_cpy cpy readBuffer 0 u b ro u,
                     set_reader rb r (x\<lparr>readOffset := sz_add ro u, unreadSize := 0\<rparr>))
                  else
                    (to_i32 (int bufferSize), mem_cpy cpy readBuffer 0 u b ro bufferSize,
                     set_reader rb r (x\<lparr>readOffset := sz_add ro bufferSize,
                                        unreadSize := sz_sub wo (sz_add ro bufferSize)\<rparr>)))
            else
              (let freeClientSize = to_i32 (int bufferSize);
                   i = to_i32 (int (sz_sub (bufferEnd rb) ro))
               in if bufferSize \<ge> i32_to_sz i then
                    (let buf1 = mem_cpy cpy readBuffer 0 (i32_to_sz i) b ro (i32_to_sz i);
                         free = to_i32 (freeClientSize - i);
                         u = wo
                     in if i32_to_sz free > u then
                          (to_i32 (i + int u), mem_cpy cpy buf1 (nat i) u b 0 u,
                           set_reader rb r (x\<lparr>readOffset := u, unreadSize := 0\<rparr>))
                        else
                          (to_i32 (i + free),
                           mem_cpy cpy buf1 (nat i) (i32_to_sz free) b 0 (i32_to_sz free),
                           set_reader rb r (x\<lparr>readOffset := i32_to_sz free,
                                              unreadSize := sz_sub wo (i32_to_sz free)\<rparr>)))
                  else
                    (to_i32 (int bufferSize), mem_cpy cpy readBuffer 0 bufferSize b ro bufferSize,
                     set_reader rb r (x\<lparr>readOffset := sz_add ro bufferSize,
                                        unreadSize := sz_add (sz_sub (bufferEnd rb) (sz_add ro bufferSize)) wo\<rparr>))))"

definition PalRingBufferReader_advanceReadOffset ::
    "PalRingBuffer \<Rightarrow> nat \<Rightarrow> nat \<Rightarrow> nat \<times> PalRingBuffer" where
  "PalRingBufferReader_advanceReadOffset rb r advanceSize =
     (let x = (robj rb r)\<lparr>readOffset := sz_add (readOffset (robj rb r)) advanceSize mod bufferEnd rb\<rparr>
      in (advanceSize,
          set_reader rb r (if unreadSize x > advanceSize
                           then x\<lparr>unreadSize := sz_sub (unreadSize x) advanceSize\<rparr> else x)))"

definition PalRingBufferReader_updateState ::
    "PalRingBuffer \<Rightarrow> nat \<Rightarrow> pal_ring_buffer_reader_state \<Rightarrow> PalRingBuffer" where
  "PalRingBufferReader_updateState rb r st = set_reader rb r ((robj rb r)\<lparr>rstate := st\<rparr>)"

definition PalRingBufferReader_getIndices :: "PalRingBuffer \<Rightarrow> nat \<Rightarrow> (nat \<times> nat \<times> nat) \<times> PalRingBuffer" where
  "PalRingBufferReader_getIndices rb s = PalRingBuffer_getIndices rb s"

definition PalRingBufferReader_getUnreadSize :: "PalRingBuffer \<Rightarrow> nat \<Rightarrow> nat" where
  "PalRingBufferReader_getUnreadSize rb r = unreadSize (robj rb r)"

definition PalRingBufferReader_getBufferSize :: "PalRingBuffer \<Rightarrow> nat" where
  "PalRingBufferReader_getBufferSize rb = bufferEnd rb"

section \<open>Well-formed buffers\<close>

definition ring_wf :: "PalRingBuffer \<Rightarrow> bool" where
  "ring_wf rb \<longleftrightarrow>
     0 < bufferEnd rb \<and> bufferEnd rb < 2 ^ 31 \<and> length (buffer rb) = bufferEnd rb \<and>
     writeOffset rb < bufferEnd rb \<and> distinct (readers rb) \<and> list_all (\<lambda>r. r < next_reader rb) (readers rb)"

lemma ring_wf_new: "0 < n \<Longrightarrow> n < 2 ^ 31 \<Longrightarrow> ring_wf (new_PalRingBuffer n)"
  by (simp add: ring_wf_def new_PalRingBuffer_def)

lemma set_reader_simps [simp, pal_frame]:
  "buffer (set_reader rb r x) = buffer rb" "kwCfg (set_reader rb r x) = kwCfg rb"
  "writeOffset (set_reader rb r x) = writeOffset rb" "bufferEnd (set_reader rb r x) = bufferEnd rb"
  "readers (set_reader rb r x) = readers rb" "next_reader (set_reader rb r x) = next_reader rb"
  "robj (set_reader rb r x) = (robj rb)(r := x)"
  by (simp_all add: set_reader_def)

lemma ring_wf_set_reader [simp]: "ring_wf (set_reader rb r x) = ring_wf rb"
  by (simp add: ring_wf_def)

lemma mem_cpy_fits [pal_mem]:
  "ar_mem_cpy_spec cpy \<Longrightarrow> ssz \<le> dsz \<Longrightarrow>
   mem_cpy cpy dst doff dsz src soff ssz = poke dst doff (take ssz (drop soff src))"
  by (simp add: mem_cpy_def ar_mem_cpy_spec_def)

lemma updateUnReadSize_loop_frame [simp, pal_frame]:
  "buffer (fst (updateUnReadSize_loop rs w rb)) = buffer rb"
  "kwCfg (fst (updateUnReadSize_loop rs w rb)) = kwCfg rb"
  "writeOffset (fst (updateUnReadSize_loop rs w rb)) = writeOffset rb"
  "bufferEnd (fst (updateUnReadSize_loop rs w rb)) = bufferEnd rb"
  "readers (fst (updateUnReadSize_loop rs w rb)) = readers rb"
  "next_reader (fst (updateUnReadSize_loop rs w rb)) = next_reader rb"
  by (induction rs w rb rule: updateUnReadSize_loop.induct) (auto simp: Let_def split: prod.splits)

lemma updateUnReadSize_loop_robj [pal_step]:
  "distinct rs \<Longrightarrow>
   robj (fst (updateUnReadSize_loop rs w rb)) r =
     (if r \<in> set rs then (robj rb r)\<lparr>unreadSize := sz_add (unreadSize (robj rb r)) w\<rparr> else robj rb r)"
  by (induction rs w rb rule: updateUnReadSize_loop.induct) (auto simp: Let_def split: prod.splits)

lemma updateUnReadSize_loop_notified [pal_step]:
  "distinct rs \<Longrightarrow>
   snd (updateUnReadSize_loop rs w rb) =
     filter (\<lambda>r. requestedSize (robj rb r) > 0 \<and>
                  requestedSize (robj rb r) \<le> sz_add (unreadSize (robj rb r)) w) rs"
  by (induction rs w rb rule: updateUnReadSize_loop.induct)
    (auto simp: Let_def split: prod.splits intro!: filter_cong)

text \<open>The free size never exceeds the buffer, nor the room an enabled reader leaves.\<close>

lemma getFreeSize_Min:
  "PalRingBuffer_getFreeSize rb =
     Min (insert (bufferEnd rb)
       ((\<lambda>r. sz_sub (bufferEnd rb) (unreadSize (robj rb r))) `
          {r \<in> set (readers rb). rstate (robj rb r) = READER_ENABLED}))"
proof -
  let ?en = "\<lambda>r. rstate (robj rb r) = READER_ENABLED"
  let ?room = "\<lambda>r. sz_sub (bufferEnd rb) (unreadSize (robj rb r))"
  have "foldl (\<lambda>m r. if ?en r then min m (?room r) else m) m rs =
        foldl (\<lambda>m r. min m (?room r)) m (filter ?en rs)" for m rs
    by (induction rs arbitrary: m) auto
  then show ?thesis
    by (simp add: PalRingBuffer_getFreeSize_def foldl_min_eq)
qed

lemma getFreeSize_le_end: "PalRingBuffer_getFreeSize rb \<le> bufferEnd rb"
  by (simp add: getFreeSize_Min)

lemma getFreeSize_le_room:
  "r \<in> set (readers rb) \<Longrightarrow> rstate (robj rb r) = READER_ENABLED \<Longrightarrow>
   PalRingBuffer_getFreeSize rb \<le> sz_sub (bufferEnd rb) (unreadSize (robj rb r))"
  by (simp add: getFreeSize_Min)

text \<open>
  Inside a well-formed buffer a write is one circular store of the accepted prefix: the
  wrapped and the straight branch of the source do the same.
\<close>

definition accepted :: "PalRingBuffer \<Rightarrow> nat \<Rightarrow> nat" where
  "accepted rb writeSize = min writeSize (PalRingBuffer_getFreeSize rb)"

definition circ_poke :: "byte list \<Rightarrow> nat \<Rightarrow> byte list \<Rightarrow> byte list" where
  "circ_poke b off xs =
     (if off + length xs > length b
      then poke (poke b off (take (length b - off) xs)) 0 (drop (length b - off) xs)
      else poke b off xs)"

lemma length_circ_poke [simp]:
  "off < length b \<Longrightarrow> length xs \<le> length b \<Longrightarrow> length (circ_poke b off xs) = length b"
  by (auto simp: circ_poke_def)

lemma nth_circ_poke:
  assumes "off < length b" "length xs \<le> length b" "i < length b"
  shows "circ_poke b off xs ! i =
     (if off \<le> i \<and> i < off + length xs then xs ! (i - off)
      else if i + length b < off + length xs then xs ! (i + length b - off) else b ! i)"
proof (cases "off + length xs > length b")
  case True
  let ?b1 = "poke b off (take (length b - off) xs)"
  have 1: "length ?b1 = length b" using assms True by simp
  have 2: "circ_poke b off xs ! i =
      (if i < length xs - (length b - off) then drop (length b - off) xs ! i else ?b1 ! i)"
    using assms True 1 by (simp add: circ_poke_def poke_nth)
  have 3: "?b1 ! i = (if off \<le> i then xs ! (i - off) else b ! i)"
    using assms True by (auto simp: poke_nth)
  show ?thesis using 2 3 assms True
    by (auto simp: nth_drop algebra_simps)
next
  case False
  then show ?thesis using assms by (auto simp: circ_poke_def poke_nth)
qed

lemma circ_poke_hit:
  assumes "off < length b" "length xs \<le> length b" "t < length xs"
  shows "circ_poke b off xs ! ((off + t) mod length b) = xs ! t"
proof (cases "off + t < length b")
  case True
  then show ?thesis using assms by (simp add: nth_circ_poke)
next
  case False
  then have "(off + t) mod length b = off + t - length b" "off + t - length b < off"
    using assms by (auto simp: mod_if)
  then show ?thesis using assms False by (simp add: nth_circ_poke)
qed

lemma circ_poke_miss:
  assumes "off < length b" "length xs \<le> length b" "i < length b"
    and miss: "\<And>t. t < length xs \<Longrightarrow> i \<noteq> (off + t) mod length b"
  shows "circ_poke b off xs ! i = b ! i"
proof -
  have "\<not> (off \<le> i \<and> i < off + length xs)"
  proof
    assume *: "off \<le> i \<and> i < off + length xs"
    then have "i - off < length xs" "i = (off + (i - off)) mod length b" using assms(3) by auto
    then show False using miss by blast
  qed
  moreover have "\<not> i + length b < off + length xs"
  proof
    assume *: "i + length b < off + length xs"
    then have "i + length b - off < length xs" "i = (off + (i + length b - off)) mod length b"
      using assms by auto
    then show False using miss by blast
  qed
  ultimately show ?thesis using assms by (auto simp: nth_circ_poke)
qed

text \<open>Both branches of the source store the accepted prefix circularly.\<close>

lemma write_as_store:
  assumes wf: "ring_wf rb" and cpy: "ar_mem_cpy_spec cpy" and len: "n \<le> length d"
  defines "N \<equiv> bufferEnd rb" and "wo \<equiv> writeOffset rb" and "a \<equiv> accepted rb n"
  shows "PalRingBuffer_write cpy rb d n =
      (let (rb2, ns) = PalRingBuffer_updateUnReadSize
             (rb\<lparr>buffer := circ_poke (buffer rb) wo (take a d),
                 writeOffset := if wo + a > N then a - (N - wo) else wo + a\<rparr>) a
       in (a, rb2\<lparr>writeOffset := writeOffset rb2 mod bufferEnd rb2\<rparr>, ns))"
proof -
  have bounds: "wo < N" "N < 2 ^ 31" "length (buffer rb) = N"
    using wf by (auto simp: ring_wf_def N_def wo_def)
  have a: "a \<le> N" "a \<le> length d"
    using getFreeSize_le_end[of rb] len by (auto simp: a_def N_def accepted_def)
  have add: "sz_add wo a = wo + a" using bounds a by (simp add: sz_add_def)
  have sel: "(if n \<le> PalRingBuffer_getFreeSize rb then n else PalRingBuffer_getFreeSize rb) = a"
    by (simp add: a_def accepted_def)
  show ?thesis
  proof (cases "wo + a > N")
    case True
    have s: "sz_sub N wo = N - wo" "sz_sub a (N - wo) = a - (N - wo)"
      "sz_add (N - wo) (a - (N - wo)) = a" "a \<noteq> 0"
      using bounds a True by (auto simp: sz_sub_def sz_add_def)
    have "circ_poke (buffer rb) wo (take a d) =
        poke (poke (buffer rb) wo (take (N - wo) d)) 0 (take (a - (N - wo)) (drop (N - wo) d))"
      using True bounds a by (simp add: circ_poke_def min_absorb2 drop_take)
    then show ?thesis using True cpy s
      unfolding PalRingBuffer_write_def sel Let_def add N_def[symmetric] wo_def[symmetric] s
      by (simp add: mem_cpy_fits)
  next
    case False
    then have "circ_poke (buffer rb) wo (take a d) = poke (buffer rb) wo (take a d)"
      using bounds a by (simp add: circ_poke_def min_absorb2)
    then show ?thesis using False cpy
      unfolding PalRingBuffer_write_def sel Let_def add N_def[symmetric] wo_def[symmetric]
      by (cases "a = 0") (simp_all add: mem_cpy_fits wo_def)
  qed
qed

lemma write_store:
  assumes wf: "ring_wf rb" and cpy: "ar_mem_cpy_spec cpy" and len: "n \<le> length d"
    and w: "PalRingBuffer_write cpy rb d n = (k, rb', ns)"
  shows "k = accepted rb n" "buffer rb' = circ_poke (buffer rb) (writeOffset rb) (take k d)"
    "writeOffset rb' = (writeOffset rb + k) mod bufferEnd rb"
    "bufferEnd rb' = bufferEnd rb" "readers rb' = readers rb" "kwCfg rb' = kwCfg rb"
    "next_reader rb' = next_reader rb"
    "robj rb' = (\<lambda>r. if r \<in> set (readers rb)
       then (robj rb r)\<lparr>unreadSize := sz_add (unreadSize (robj rb r)) k\<rparr> else robj rb r)"
    "ns = filter (\<lambda>r. requestedSize (robj rb r) > 0 \<and>
                      requestedSize (robj rb r) \<le> unreadSize (robj rb' r)) (readers rb)"
proof -
  let ?N = "bufferEnd rb" and ?wo = "writeOffset rb" and ?a = "accepted rb n"
  have bounds: "?wo < ?N" "distinct (readers rb)" using wf by (auto simp: ring_wf_def)
  let ?off = "if ?wo + ?a > ?N then ?a - (?N - ?wo) else ?wo + ?a"
  let ?mid = "rb\<lparr>buffer := circ_poke (buffer rb) ?wo (take ?a d), writeOffset := ?off\<rparr>"
  let ?rb2 = "fst (updateUnReadSize_loop (readers rb) ?a ?mid)"
  have kr: "k = ?a" "rb' = ?rb2\<lparr>writeOffset := writeOffset ?rb2 mod bufferEnd ?rb2\<rparr>"
    "ns = snd (updateUnReadSize_loop (readers rb) ?a ?mid)"
    using w unfolding write_as_store[OF wf cpy len]
    by (auto simp: PalRingBuffer_updateUnReadSize_def case_prod_beta)
  have off: "?off mod ?N = (?wo + ?a) mod ?N"
    using bounds by (simp add: le_mod_geq add.commute)
  show "k = ?a" by (rule kr(1))
  show "buffer rb' = circ_poke (buffer rb) ?wo (take k d)" "bufferEnd rb' = ?N"
    "readers rb' = readers rb" "kwCfg rb' = kwCfg rb" "next_reader rb' = next_reader rb"
    using kr by simp_all
  show "writeOffset rb' = (?wo + k) mod ?N" using kr off by simp
  show "robj rb' = (\<lambda>r. if r \<in> set (readers rb)
       then (robj rb r)\<lparr>unreadSize := sz_add (unreadSize (robj rb r)) k\<rparr> else robj rb r)"
    using kr bounds by (simp add: fun_eq_iff updateUnReadSize_loop_robj)
  show "ns = filter (\<lambda>r. requestedSize (robj rb r) > 0 \<and>
                      requestedSize (robj rb r) \<le> unreadSize (robj rb' r)) (readers rb)"
    using kr bounds
    by (auto simp: updateUnReadSize_loop_notified updateUnReadSize_loop_robj intro!: filter_cong)
qed

section \<open>The log behind the buffer\<close>

text \<open>
  The abstract view: \<open>h\<close> is everything written since the last reset, and a reader is a
  cursor into \<open>h\<close>.  The buffer keeps the last \<open>bufferEnd\<close> bytes of \<open>h\<close>.
\<close>

definition ring_hist :: "PalRingBuffer \<Rightarrow> byte list \<Rightarrow> bool" where
  "ring_hist rb h \<longleftrightarrow>
     writeOffset rb = length h mod bufferEnd rb \<and>
     (\<forall>k. k < length h \<and> length h \<le> k + bufferEnd rb \<longrightarrow> buffer rb ! (k mod bufferEnd rb) = h ! k)"

definition cursor_ok :: "PalRingBuffer \<Rightarrow> byte list \<Rightarrow> nat \<Rightarrow> nat \<Rightarrow> bool" where
  "cursor_ok rb h r p \<longleftrightarrow>
     p \<le> length h \<and> length h \<le> p + bufferEnd rb \<and>
     readOffset (robj rb r) = p mod bufferEnd rb \<and> unreadSize (robj rb r) = length h - p"

definition log_rel :: "PalRingBuffer \<Rightarrow> byte list \<Rightarrow> (nat \<Rightarrow> nat) \<Rightarrow> bool" where
  "log_rel rb h cur \<longleftrightarrow>
     ring_wf rb \<and> ring_hist rb h \<and>
     (\<forall>r. r \<in> set (readers rb) \<and> rstate (robj rb r) = READER_ENABLED \<longrightarrow> cursor_ok rb h r (cur r))"

lemma mod_clash:
  fixes n :: nat
  assumes "j mod n = i mod n" "j < i" "i < j + n"
  shows False
proof -
  have "n dvd i - j" using assms mod_eq_dvd_iff_nat[of j i n] by simp
  moreover have "0 < i - j" "i - j < n" using assms by auto
  ultimately show False using nat_dvd_not_less by blast
qed

lemma ring_hist_write:
  assumes wf: "ring_wf rb" and h: "ring_hist rb h" and cpy: "ar_mem_cpy_spec cpy" and len: "n \<le> length d"
    and w: "PalRingBuffer_write cpy rb d n = (k, rb', ns)"
  shows "ring_hist rb' (h @ take k d)"
proof -
  let ?N = "bufferEnd rb" and ?xs = "take k d"
  note st = write_store[OF wf cpy len w]
  have N: "0 < ?N" "length (buffer rb) = ?N" "writeOffset rb < ?N" using wf by (auto simp: ring_wf_def)
  have k: "k \<le> ?N" "length ?xs = k"
    using st(1) getFreeSize_le_end[of rb] len by (auto simp: accepted_def)
  have wo: "writeOffset rb = length h mod ?N" using h by (simp add: ring_hist_def)
  have at: "buffer rb' ! (j mod ?N) = (h @ ?xs) ! j"
    if j: "j < length h + k" "length h + k \<le> j + ?N" for j
  proof (cases "j < length h")
    case True
    have "j mod ?N \<noteq> (writeOffset rb + t) mod ?N" if "t < k" for t
      using mod_clash[of j ?N "length h + t"] True that j wo by (auto simp: mod_add_left_eq)
    then have "buffer rb' ! (j mod ?N) = buffer rb ! (j mod ?N)"
      using N k unfolding st(2) by (intro circ_poke_miss[where b = "buffer rb", simplified N(2)]) auto
    also have "\<dots> = h ! j" using h True j by (auto simp: ring_hist_def)
    finally show ?thesis using True by (simp add: nth_append)
  next
    case False
    then obtain t where t: "j = length h + t" "t < k" using j by (metis add_diff_inverse_nat nat_add_left_cancel_less)
    have "buffer rb' ! ((writeOffset rb + t) mod ?N) = ?xs ! t"
      using N k t unfolding st(2) by (intro circ_poke_hit[where b = "buffer rb", simplified N(2)]) auto
    then show ?thesis using t wo by (simp add: mod_add_left_eq)
  qed
  show ?thesis
    unfolding ring_hist_def using at st(3,4) wo k by (auto simp: mod_add_left_eq)
qed

lemma hist_window:
  assumes wf: "ring_wf rb" and h: "ring_hist rb h" and p: "p \<le> length h" "length h \<le> p + bufferEnd rb"
  shows "circ (bufferEnd rb) (buffer rb) (p mod bufferEnd rb) (length h - p) = drop p h"
  unfolding circ_mod
  by (rule nth_equalityI) (use h p in \<open>auto simp: circ_def ring_hist_def\<close>)

lemma ring_wf_write:
  assumes wf: "ring_wf rb" and cpy: "ar_mem_cpy_spec cpy" and len: "n \<le> length d"
    and w: "PalRingBuffer_write cpy rb d n = (k, rb', ns)"
  shows "ring_wf rb'"
proof -
  note st = write_store[OF wf cpy len w]
  have k: "length (take k d) \<le> length (buffer rb)"
    using st(1) wf getFreeSize_le_end[of rb] len by (auto simp: accepted_def ring_wf_def)
  then show ?thesis using wf st by (auto simp: ring_wf_def)
qed

text \<open>A write appends what it accepts to the log and moves no cursor.\<close>

lemma log_rel_write:
  assumes rel: "log_rel rb h cur" and cpy: "ar_mem_cpy_spec cpy" and len: "n \<le> length d"
    and w: "PalRingBuffer_write cpy rb d n = (k, rb', ns)"
  shows "log_rel rb' (h @ take k d) cur"
proof -
  have wf: "ring_wf rb" and h: "ring_hist rb h" using rel by (auto simp: log_rel_def)
  note st = write_store[OF wf cpy len w]
  have k: "length (take k d) = k" using st(1) len by (simp add: accepted_def)
  have "cursor_ok rb' (h @ take k d) r (cur r)"
    if r: "r \<in> set (readers rb')" "rstate (robj rb' r) = READER_ENABLED" for r
  proof -
    have r0: "r \<in> set (readers rb)" "rstate (robj rb r) = READER_ENABLED"
      using r st(5,8) by (auto split: if_splits)
    then have c: "cursor_ok rb h r (cur r)" using rel by (auto simp: log_rel_def)
    let ?u = "unreadSize (robj rb r)"
    have u: "?u = length h - cur r" "?u \<le> bufferEnd rb" using c by (auto simp: cursor_ok_def)
    have "k \<le> bufferEnd rb - ?u"
      using st(1) getFreeSize_le_room[OF r0] u by (simp add: accepted_def sz_sub_def)
    then have "?u + k \<le> bufferEnd rb" using u by simp
    moreover have "bufferEnd rb < 2 ^ 31" using wf by (simp add: ring_wf_def)
    ultimately show ?thesis using c u k st(4,8) r0 by (auto simp: cursor_ok_def sz_add_def)
  qed
  then show ?thesis
    using ring_wf_write[OF wf cpy len w] ring_hist_write[OF wf h cpy len w] by (simp add: log_rel_def)
qed

text \<open>
  Reading: the segments the two branches of \<^verbatim>\<open>read\<close> copy are segments of the log.
\<close>

lemma offset_cases:
  fixes p u n :: nat
  assumes "0 < n" "u \<le> n" "0 < u"
  defines "ro \<equiv> p mod n" and "wo \<equiv> (p + u) mod n"
  shows "wo > ro \<Longrightarrow> wo = ro + u" "\<not> wo > ro \<Longrightarrow> n - ro + wo = u" "ro < n" "wo < n"
proof -
  have ro: "ro < n" and wo: "wo = (ro + u) mod n" using assms by (auto simp: mod_add_left_eq)
  show "ro < n" "wo < n" using ro wo assms by auto
  have "ro + u - n < n" using ro assms(2) by simp
  then have split: "wo = (if ro + u < n then ro + u else ro + u - n)"
    unfolding wo by (simp add: le_mod_geq)
  show "wo > ro \<Longrightarrow> wo = ro + u" "\<not> wo > ro \<Longrightarrow> n - ro + wo = u"
    using split ro assms(2,3) by (auto split: if_splits)
qed

lemma segment_straight:
  assumes "length b = n" "circ n b ro u = D" "s \<le> u" "ro + s \<le> n"
  shows "take s (drop ro b) = take s D"
  using assms take_circ[of s u n b ro] circ_linear[of ro s n b] by simp

lemma segment_wrapped:
  assumes "length b = n" "circ n b ro u = D" "ro < n" "n - ro + s \<le> u" "s \<le> n"
  shows "take s b = take s (drop (n - ro) D)"
proof -
  have "drop (n - ro) D = circ n b n (u - (n - ro))"
    using assms drop_circ[of "n - ro" u n b ro] by simp
  then have "take s (drop (n - ro) D) = circ n b n s" using assms by (simp add: take_circ)
  also have "\<dots> = circ n b 0 s" using circ_mod[of n b n s] by simp
  also have "\<dots> = take s b" using assms by (simp add: circ_linear)
  finally show ?thesis by simp
qed

lemma take_poke: "length xs \<le> length b \<Longrightarrow> take (length xs) (poke b 0 xs) = xs"
  by (simp add: poke_def)

lemma read_straight:
  assumes wf: "ring_wf rb" and cpy: "ar_mem_cpy_spec cpy" and D: "circ (bufferEnd rb) (buffer rb) ro u = D"
    and ro: "ro = readOffset (robj rb r)" "ro < bufferEnd rb" and u: "unreadSize (robj rb r) = u" "0 < u"
    and st: "rstate (robj rb r) = READER_ENABLED"
    and wo: "writeOffset rb = ro + u" and sz: "bufferSize < 2 ^ 31" "bufferSize \<le> length buf"
    and rd: "PalRingBufferReader_read cpy rb r buf bufferSize = (ret, out, rb')"
  defines "m \<equiv> min bufferSize u"
  shows "ret = int m" "out = poke buf 0 (take m D)"
    "rb' = set_reader rb r ((robj rb r)\<lparr>readOffset := ro + m, unreadSize := u - m\<rparr>)"
proof -
  let ?N = "bufferEnd rb"
  have N: "?N < 2 ^ 31" "writeOffset rb < ?N" "length (buffer rb) = ?N" using wf by (auto simp: ring_wf_def)
  have mN: "ro + m \<le> ?N" using N wo by (simp add: m_def)
  have seg: "take m (drop ro (buffer rb)) = take m D"
    by (rule segment_straight[OF N(3) D]) (use mN in \<open>simp_all add: m_def\<close>)
  have ar: "sz_sub (ro + u) ro = u" "sz_add ro u = ro + u" "sz_add ro bufferSize = ro + bufferSize"
    "bufferSize < u \<Longrightarrow> sz_sub (ro + u) (ro + bufferSize) = u - bufferSize"
    "to_i32 (int u) = int u" "to_i32 (int bufferSize) = int bufferSize"
    using N wo sz by (auto simp: sz_sub_def sz_add_def to_i32_def)
  note rdd = rd[unfolded PalRingBufferReader_read_def, folded ro(1)]
  have "ret = int m \<and> out = poke buf 0 (take m D) \<and>
    rb' = set_reader rb r ((robj rb r)\<lparr>readOffset := ro + m, unreadSize := u - m\<rparr>)"
  proof (cases "u \<le> bufferSize")
    case True
    then have "m = u" by (simp add: m_def)
    then show ?thesis using rdd True st u wo cpy seg ar by (simp add: Let_def mem_cpy_fits ro(1)[symmetric])
  next
    case False
    then have "m = bufferSize" by (simp add: m_def)
    then show ?thesis using rdd False st u wo cpy seg ar by (simp add: Let_def mem_cpy_fits ro(1)[symmetric])
  qed
  then show "ret = int m" "out = poke buf 0 (take m D)"
    "rb' = set_reader rb r ((robj rb r)\<lparr>readOffset := ro + m, unreadSize := u - m\<rparr>)" by auto
qed

text \<open>The wrapped branch: up to the end of the region first, then from its start.\<close>

lemma read_wrapped:
  assumes wf: "ring_wf rb" and cpy: "ar_mem_cpy_spec cpy" and D: "circ (bufferEnd rb) (buffer rb) ro u = D"
    and ro: "ro = readOffset (robj rb r)" "ro < bufferEnd rb" and u: "unreadSize (robj rb r) = u" "0 < u"
    and st: "rstate (robj rb r) = READER_ENABLED"
    and wo: "\<not> writeOffset rb > ro" "bufferEnd rb - ro + writeOffset rb = u"
    and sz: "bufferSize < 2 ^ 31" "bufferSize \<le> length buf"
    and rd: "PalRingBufferReader_read cpy rb r buf bufferSize = (ret, out, rb')"
  defines "m \<equiv> min bufferSize u"
  shows "ret = int m" "take m out = take m D"
    "rb' = set_reader rb r ((robj rb r)\<lparr>readOffset := (ro + m) mod bufferEnd rb, unreadSize := u - m\<rparr>)"
proof -
  let ?N = "bufferEnd rb" and ?w = "writeOffset rb"
  define i where "i = ?N - ro"
  have N: "?N < 2 ^ 31" "?w < ?N" "length (buffer rb) = ?N" using wf by (auto simp: ring_wf_def)
  have lenD: "length D = u" using D by auto
  have i: "0 < i" "i \<le> u" "i < 2 ^ 31" "u = i + ?w" using ro wo N by (auto simp: i_def)
  have ar: "sz_sub ?N ro = i" "to_i32 (int i) = int i" "i32_to_sz (int i) = i"
    "to_i32 (int bufferSize) = int bufferSize" "sz_add ro bufferSize = ro + bufferSize"
    using N ro i sz by (auto simp: sz_sub_def sz_add_def to_i32_def i32_to_sz_def i_def)
  note rdd = rd[unfolded PalRingBufferReader_read_def, folded ro(1), unfolded Let_def]
  have goal: "ret = int m \<and> take m out = take m D \<and>
    rb' = set_reader rb r ((robj rb r)\<lparr>readOffset := (ro + m) mod ?N, unreadSize := u - m\<rparr>)"
  proof (cases "i \<le> bufferSize")
    case True
    define f where "f = bufferSize - i"
    have f: "to_i32 (int bufferSize - int i) = int f" "i32_to_sz (int f) = f"
      "f \<le> ?w \<Longrightarrow> sz_sub ?w f = ?w - f" "to_i32 (int i + int f) = int (i + f)"
      "to_i32 (int i + int ?w) = int (i + ?w)"
      using True sz N ro wo(1) by (auto simp: f_def to_i32_def i32_to_sz_def sz_sub_def i_def)
    have seg1: "take i (drop ro (buffer rb)) = take i D"
      by (rule segment_straight[OF N(3) D]) (use i ro in \<open>auto simp: i_def\<close>)
    have seg2: "take s (buffer rb) = take s (drop i D)" if "s \<le> ?w" for s
      unfolding i_def by (rule segment_wrapped[OF N(3) D]) (use that i ro N in \<open>auto simp: i_def\<close>)
    define s where "s = min f ?w"
    have ms: "m = i + s" "s \<le> ?w" "i + s \<le> length buf"
      using True i sz by (auto simp: m_def s_def f_def)
    let ?o = "poke (poke buf 0 (take i D)) i (take s (drop i D))"
    have o: "take (i + s) ?o = take (i + s) D"
      using ms i lenD by (simp add: poke_def take_add min_absorb2)
    have "(ro + (i + s)) mod ?N = s" using ro N ms by (simp add: i_def add.assoc)
    moreover have "s = (if f > ?w then ?w else f)" by (simp add: s_def)
    ultimately show ?thesis
      using rdd True st u wo cpy ar f seg1 seg2[of s] o ms i
      by (auto simp: mem_cpy_fits ro(1)[symmetric] split: if_splits)
  next
    case False
    then have m: "m = bufferSize" "m < i" using i by (auto simp: m_def)
    have seg: "take m (drop ro (buffer rb)) = take m D"
      by (rule segment_straight[OF N(3) D]) (use m i ro in \<open>auto simp: i_def\<close>)
    have "sz_add (sz_sub ?N (ro + m)) ?w = u - m" "(ro + m) mod ?N = ro + m"
      using m i ro N by (auto simp: sz_add_def sz_sub_def i_def)
    then show ?thesis
      using rdd False st u wo cpy ar seg m sz lenD i
      by (auto simp: mem_cpy_fits ro(1)[symmetric] poke_def)
  qed
  then show "ret = int m" "take m out = take m D"
    "rb' = set_reader rb r ((robj rb r)\<lparr>readOffset := (ro + m) mod ?N, unreadSize := u - m\<rparr>)" by auto
qed

text \<open>
  A read returns the next bytes of the log at the reader's cursor, as many as fit, and
  moves the cursor past them.
\<close>

lemma log_rel_read:
  assumes rel: "log_rel rb h cur" and cpy: "ar_mem_cpy_spec cpy"
    and r: "r \<in> set (readers rb)" "rstate (robj rb r) = READER_ENABLED"
    and sz: "bufferSize < 2 ^ 31" "bufferSize \<le> length buf"
    and rd: "PalRingBufferReader_read cpy rb r buf bufferSize = (ret, out, rb')"
  defines "m \<equiv> min bufferSize (length h - cur r)"
  shows "ret = int m" "take m out = take m (drop (cur r) h)" "log_rel rb' h (cur(r := cur r + m))"
    "readers rb' = readers rb" "rstate (robj rb' r) = READER_ENABLED"
proof -
  let ?N = "bufferEnd rb" and ?p = "cur r"
  define u where "u = length h - ?p"
  define ro where "ro = readOffset (robj rb r)"
  define x where "x = (robj rb r)\<lparr>readOffset := (?p + m) mod ?N, unreadSize := u - m\<rparr>"
  have wf: "ring_wf rb" and hist: "ring_hist rb h" and c: "cursor_ok rb h r ?p"
    using rel r by (auto simp: log_rel_def)
  have N: "0 < ?N" "?N < 2 ^ 31" using wf by (auto simp: ring_wf_def)
  have p: "?p \<le> length h" "u \<le> ?N" "ro = ?p mod ?N" "unreadSize (robj rb r) = u"
    using c by (auto simp: cursor_ok_def u_def ro_def)
  have W: "writeOffset rb = (?p + u) mod ?N" using hist p by (simp add: ring_hist_def u_def)
  have D: "circ ?N (buffer rb) ro u = drop ?p h"
    using hist_window[OF wf hist] p by (simp add: u_def)
  have res: "ret = int m \<and> take m out = take m (drop ?p h) \<and> rb' = set_reader rb r x"
  proof (cases "u = 0")
    case True
    then have "m = 0" by (simp add: m_def u_def)
    moreover have "x = robj rb r" using True \<open>m = 0\<close> p(3,4) ro_def by (simp add: x_def)
    ultimately show ?thesis using rd True p r by (simp add: PalRingBufferReader_read_def Let_def set_reader_def)
  next
    case False
    then have u0: "0 < u" by simp
    note oc = offset_cases[OF N(1) p(2) u0, of ?p, folded p(3) W]
    have m: "m = min bufferSize u" by (simp add: m_def u_def)
    have x': "x = (robj rb r)\<lparr>readOffset := (ro + m) mod ?N, unreadSize := u - m\<rparr>"
      by (simp add: x_def p(3) mod_add_left_eq)
    show ?thesis
    proof (cases "writeOffset rb > ro")
      case True
      note rs = read_straight[OF wf cpy D ro_def oc(3) p(4) u0 r(2) oc(1)[OF True] sz rd, folded m]
      have "(ro + m) mod ?N = ro + m" using oc(1)[OF True] oc(4) m by simp
      moreover have "take m (poke buf 0 (take m (drop ?p h))) = take m (drop ?p h)"
        using sz m by (simp add: poke_def u_def)
      ultimately show ?thesis using rs x' by simp
    next
      case False
      note rs = read_wrapped[OF wf cpy D ro_def oc(3) p(4) u0 r(2) False oc(2)[OF False] sz rd, folded m]
      then show ?thesis using x' by simp
    qed
  qed
  then show "ret = int m" "take m out = take m (drop ?p h)" "readers rb' = readers rb"
    "rstate (robj rb' r) = READER_ENABLED" using r by (auto simp: x_def)
  have "m \<le> u" by (simp add: m_def u_def)
  then show "log_rel rb' h (cur(r := ?p + m))"
    using res rel p by (auto simp: log_rel_def ring_hist_def cursor_ok_def x_def u_def)
qed

section \<open>The other operations\<close>

text \<open>A prepared reader is enabled by its first read, a disabled one reads nothing.\<close>

lemma read_prepared:
  "rstate (robj rb r) = READER_PREPARED \<Longrightarrow>
   PalRingBufferReader_read cpy rb r buf n =
   PalRingBufferReader_read cpy (PalRingBufferReader_updateState rb r READER_ENABLED) r buf n"
  by (simp add: PalRingBufferReader_read_def PalRingBufferReader_updateState_def Let_def set_reader_def)

lemma read_disabled:
  "rstate (robj rb r) = READER_DISABLED \<Longrightarrow>
   PalRingBufferReader_read cpy rb r buf n = (- EINVAL, buf, rb)"
  by (simp add: PalRingBufferReader_read_def)

lemma log_rel_enable:
  "log_rel rb h cur \<Longrightarrow> cursor_ok rb h r p \<Longrightarrow>
   log_rel (PalRingBufferReader_updateState rb r READER_ENABLED) h (cur(r := p))"
  by (auto simp: log_rel_def PalRingBufferReader_updateState_def cursor_ok_def ring_hist_def)

lemma log_rel_disable:
  "st \<noteq> READER_ENABLED \<Longrightarrow> log_rel rb h cur \<Longrightarrow>
   log_rel (PalRingBufferReader_updateState rb r st) h cur"
  by (auto simp: log_rel_def PalRingBufferReader_updateState_def cursor_ok_def ring_hist_def)

lemma reader_resets_frame:
  "buffer (foldl PalRingBufferReader_reset rb rs) = buffer rb"
  "writeOffset (foldl PalRingBufferReader_reset rb rs) = writeOffset rb"
  "bufferEnd (foldl PalRingBufferReader_reset rb rs) = bufferEnd rb"
  "readers (foldl PalRingBufferReader_reset rb rs) = readers rb"
  "next_reader (foldl PalRingBufferReader_reset rb rs) = next_reader rb"
  "kwCfg (foldl PalRingBufferReader_reset rb rs) = kwCfg rb"
  by (induction rs arbitrary: rb) (auto simp: PalRingBufferReader_reset_def)

lemma reader_resets_robj:
  "r \<in> set rs \<Longrightarrow> robj (foldl PalRingBufferReader_reset rb rs) r = new_PalRingBufferReader"
proof (induction rs arbitrary: rb rule: rev_induct)
  case Nil
  then show ?case by simp
next
  case (snoc q qs)
  then show ?case
    by (cases "r = q")
      (auto simp: PalRingBufferReader_reset_def new_PalRingBufferReader_def)
qed

lemma log_rel_reset:
  assumes "ring_wf rb"
  shows "log_rel (PalRingBuffer_reset rb) [] (\<lambda>_. 0)"
  using assms
  by (auto simp: log_rel_def ring_wf_def ring_hist_def PalRingBuffer_reset_def reader_resets_frame
      reader_resets_robj new_PalRingBufferReader_def)

lemma log_rel_new: "0 < n \<Longrightarrow> n < 2 ^ 31 \<Longrightarrow> log_rel (new_PalRingBuffer n) [] (\<lambda>_. 0)"
  by (simp add: log_rel_def ring_wf_new ring_hist_def) (simp add: new_PalRingBuffer_def)

lemma log_rel_newReader:
  assumes "log_rel rb h cur" "PalRingBuffer_newReader rb = (r, rb')"
  shows "log_rel rb' h cur" "r \<notin> set (readers rb)" "robj rb' r = new_PalRingBufferReader"
  using assms
  by (auto simp: log_rel_def PalRingBuffer_newReader_def Let_def ring_wf_def ring_hist_def cursor_ok_def
      new_PalRingBufferReader_def list_all_iff less_Suc_eq split: if_splits)

lemma log_rel_removeReader:
  "log_rel rb h cur \<Longrightarrow> log_rel (snd (PalRingBuffer_removeReader rb r)) h cur"
  by (auto simp: log_rel_def PalRingBuffer_removeReader_def ring_wf_def ring_hist_def cursor_ok_def
      list_all_iff dest: notin_set_remove1)

text \<open>
  A reader that is not enabled counts every byte written since the reset; aligning it to a
  keyword puts its cursor on the pre-roll position.
\<close>

definition linear_reader :: "PalRingBuffer \<Rightarrow> byte list \<Rightarrow> nat \<Rightarrow> bool" where
  "linear_reader rb h r \<longleftrightarrow> unreadSize (robj rb r) = length h"

lemma linear_reader_write:
  assumes "ring_wf rb" "ar_mem_cpy_spec cpy" "n \<le> length d"
    and "PalRingBuffer_write cpy rb d n = (k, rb', ns)"
    and "linear_reader rb h r" "r \<in> set (readers rb)" "length h + n < 2 ^ 64"
  shows "linear_reader rb' (h @ take k d) r"
proof -
  note st = write_store[OF assms(1-4)]
  have "k \<le> n" "length (take k d) = k" using st(1) assms(3) by (auto simp: accepted_def)
  then show ?thesis using st(8) assms by (simp add: linear_reader_def sz_add_def)
qed

lemma kwd_fold_frame:
  defines "f \<equiv> \<lambda>sz b r. set_reader b r (kwd_adjust (bufferEnd b) sz (robj b r))"
  shows "buffer (foldl (f sz) rb rs) = buffer rb" "writeOffset (foldl (f sz) rb rs) = writeOffset rb"
    "bufferEnd (foldl (f sz) rb rs) = bufferEnd rb" "kwCfg (foldl (f sz) rb rs) = kwCfg rb"
    "readers (foldl (f sz) rb rs) = readers rb" "next_reader (foldl (f sz) rb rs) = next_reader rb"
  by (induction rs arbitrary: rb) (auto simp: f_def)

lemma kwd_fold_robj:
  "distinct rs \<Longrightarrow>
   robj (foldl (\<lambda>b r. set_reader b r (kwd_adjust (bufferEnd b) sz (robj b r))) rb rs) r =
     (if r \<in> set rs then kwd_adjust (bufferEnd rb) sz (robj rb r) else robj rb r)"
  by (induction rs arbitrary: rb) auto

lemma updateKwdConfig_cursor:
  assumes wf: "ring_wf rb" and lin: "linear_reader rb h r" and rs: "r \<in> set rs" "distinct rs"
    and sz: "sz = (if sIdx \<ge> preRoll then sIdx - preRoll else 0)"
      "sz < length h" "length h < sz + bufferEnd rb"
  shows "cursor_ok (PalRingBuffer_updateKwdConfig rb s rs sIdx eIdx preRoll) h r sz"
proof -
  let ?rb' = "PalRingBuffer_updateKwdConfig rb s rs sIdx eIdx preRoll"
  have sz': "(if sIdx \<ge> preRoll then u32_sub sIdx preRoll else 0) = sz"
    using sz(1) by (simp add: u32_sub_def)
  have N: "bufferEnd ?rb' = bufferEnd rb" and x: "robj ?rb' r = kwd_adjust (bufferEnd rb) sz (robj rb r)"
    using rs unfolding PalRingBuffer_updateKwdConfig_def Let_def sz'
    by (simp_all add: kwd_fold_frame kwd_fold_robj)
  show ?thesis using sz lin
    by (simp add: cursor_ok_def N x kwd_adjust_def linear_reader_def sz_sub_def)
qed

lemma advance_cursor:
  assumes wf: "ring_wf rb" and c: "cursor_ok rb h r p" and a: "p + a < length h"
  shows "cursor_ok (snd (PalRingBufferReader_advanceReadOffset rb r a)) h r (p + a)"
proof -
  have N: "bufferEnd rb < 2 ^ 31" "0 < bufferEnd rb" using wf by (auto simp: ring_wf_def)
  have ro: "readOffset (robj rb r) = p mod bufferEnd rb" "a < unreadSize (robj rb r)"
    "unreadSize (robj rb r) \<le> bufferEnd rb" "unreadSize (robj rb r) = length h - p"
    using c a by (auto simp: cursor_ok_def)
  have "2 * bufferEnd rb \<le> 2 ^ 64" using N by simp
  then have "p mod bufferEnd rb + a < 2 ^ 64"
    using ro mod_less_divisor[OF N(2), of p] by linarith
  then have "sz_add (p mod bufferEnd rb) a = p mod bufferEnd rb + a" by (rule sz_add_in)
  then show ?thesis using ro a c
    by (auto simp: PalRingBufferReader_advanceReadOffset_def Let_def cursor_ok_def sz_sub_def
        mod_add_left_eq)
qed

section \<open>The interface of the detection engines\<close>

text \<open>
  The engines write and read through two operations.  \<open>run_log\<close> runs a sequence of them
  and collects the bytes accepted and the bytes each reader got.
\<close>

datatype log_op = LWrite "byte list" | LRead nat nat

fun run_log :: "('s \<Rightarrow> byte list \<Rightarrow> nat \<times> 's) \<Rightarrow> ('s \<Rightarrow> nat \<Rightarrow> nat \<Rightarrow> byte list \<times> 's) \<Rightarrow> 's \<Rightarrow>
    log_op list \<Rightarrow> byte list \<times> (nat \<times> byte list) list \<times> 's" where
  "run_log wr rd s [] = ([], [], s)"
| "run_log wr rd s (LWrite d # ops) =
     (let (k, s1) = wr s d; (acc, outs, s2) = run_log wr rd s1 ops in (take k d @ acc, outs, s2))"
| "run_log wr rd s (LRead r n # ops) =
     (let (out, s1) = rd s r n; (acc, outs, s2) = run_log wr rd s1 ops in (acc, (r, out) # outs, s2))"

lemma run_LWriteE:
  assumes "run_log wr rd s (LWrite d # ops) = (acc, outs, s')"
  obtains k s1 acc1 where "wr s d = (k, s1)" "run_log wr rd s1 ops = (acc1, outs, s')" "acc = take k d @ acc1"
  using assms by (auto simp: Let_def split: prod.splits)

lemma run_LReadE:
  assumes "run_log wr rd s (LRead q n # ops) = (acc, outs, s')"
  obtains out s1 outs1 where "rd s q n = (out, s1)" "run_log wr rd s1 ops = (acc, outs1, s')" "outs = (q, out) # outs1"
  using assms by (auto simp: Let_def split: prod.splits)

definition reads_of :: "nat \<Rightarrow> (nat \<times> byte list) list \<Rightarrow> byte list" where
  "reads_of r outs = concat (map snd (filter (\<lambda>x. fst x = r) outs))"

lemma reads_of_simps [simp]:
  "reads_of r [] = []"
  "reads_of r ((q, out) # outs) = (if q = r then out @ reads_of r outs else reads_of r outs)"
  by (simp_all add: reads_of_def)

fun reads_ok :: "(nat \<Rightarrow> bool) \<Rightarrow> (nat \<Rightarrow> bool) \<Rightarrow> log_op list \<Rightarrow> bool" where
  "reads_ok act ok [] = True"
| "reads_ok act ok (LWrite d # ops) = reads_ok act ok ops"
| "reads_ok act ok (LRead r n # ops) = (act r \<and> ok n \<and> reads_ok act ok ops)"

text \<open>
  The contract: writing appends what it accepts, reading returns the next bytes at the
  reader's cursor, and neither changes which readers are active.
\<close>

locale cursor_log =
  fixes wr :: "'s \<Rightarrow> byte list \<Rightarrow> nat \<times> 's"
    and rd :: "'s \<Rightarrow> nat \<Rightarrow> nat \<Rightarrow> byte list \<times> 's"
    and rel :: "'s \<Rightarrow> byte list \<Rightarrow> (nat \<Rightarrow> nat) \<Rightarrow> bool"
    and act :: "'s \<Rightarrow> nat \<Rightarrow> bool"
    and ok :: "nat \<Rightarrow> bool"
  assumes wr_appends: "rel s h c \<Longrightarrow> wr s d = (k, s') \<Longrightarrow> rel s' (h @ take k d) c"
    and wr_active: "rel s h c \<Longrightarrow> wr s d = (k, s') \<Longrightarrow> act s' = act s"
    and rd_next: "rel s h c \<Longrightarrow> act s r \<Longrightarrow> ok n \<Longrightarrow> rd s r n = (out, s') \<Longrightarrow> out = take n (drop (c r) h)"
    and rd_moves: "rel s h c \<Longrightarrow> act s r \<Longrightarrow> ok n \<Longrightarrow> rd s r n = (out, s') \<Longrightarrow>
          rel s' h (c(r := c r + length out))"
    and rd_active: "rel s h c \<Longrightarrow> act s r \<Longrightarrow> ok n \<Longrightarrow> rd s r n = (out, s') \<Longrightarrow> act s' = act s"
    and rel_cursor: "rel s h c \<Longrightarrow> act s r \<Longrightarrow> c r \<le> length h"
begin

lemma run_rel:
  "rel s h c \<Longrightarrow> reads_ok (act s) ok ops \<Longrightarrow> run_log wr rd s ops = (acc, outs, s') \<Longrightarrow>
   rel s' (h @ acc) (\<lambda>r. c r + length (reads_of r outs)) \<and> act s' = act s"
proof (induction ops arbitrary: s h c acc outs)
  case Nil
  then show ?case by simp
next
  case (Cons op ops)
  show ?case
  proof (cases op)
    case (LWrite d)
    obtain k s1 acc1 where w: "wr s d = (k, s1)" and r: "run_log wr rd s1 ops = (acc1, outs, s')"
      and acc: "acc = take k d @ acc1" using Cons.prems(3) LWrite by (blast elim: run_LWriteE)
    from wr_active[OF Cons.prems(1) w] Cons.prems(2) LWrite have ok1: "reads_ok (act s1) ok ops" by simp
    from Cons.IH[OF wr_appends[OF Cons.prems(1) w] ok1 r] show ?thesis
      using acc wr_active[OF Cons.prems(1) w] by simp
  next
    case (LRead q n)
    obtain out s1 outs1 where d: "rd s q n = (out, s1)" and r: "run_log wr rd s1 ops = (acc, outs1, s')"
      and o: "outs = (q, out) # outs1" using Cons.prems(3) LRead by (blast elim: run_LReadE)
    have a: "act s q" "ok n" "reads_ok (act s) ok ops" using Cons.prems(2) LRead by auto
    note act = rd_active[OF Cons.prems(1) a(1,2) d]
    have "reads_ok (act s1) ok ops" using act a by simp
    from Cons.IH[OF rd_moves[OF Cons.prems(1) a(1,2) d] this r]
    have "rel s' (h @ acc) (\<lambda>r. (c(q := c q + length out)) r + length (reads_of r outs1)) \<and> act s' = act s1" .
    moreover have "(\<lambda>r. (c(q := c q + length out)) r + length (reads_of r outs1)) =
        (\<lambda>r. c r + length (reads_of r outs))" using o by auto
    ultimately show ?thesis using act by metis
  qed
qed

lemma run_fifo:
  "rel s h c \<Longrightarrow> reads_ok (act s) ok ops \<Longrightarrow> run_log wr rd s ops = (acc, outs, s') \<Longrightarrow> act s r \<Longrightarrow>
   reads_of r outs = take (length (reads_of r outs)) (drop (c r) (h @ acc))"
proof (induction ops arbitrary: s h c acc outs)
  case Nil
  then show ?case by simp
next
  case (Cons op ops)
  show ?case
  proof (cases op)
    case (LWrite d)
    obtain k s1 acc1 where w: "wr s d = (k, s1)" and r: "run_log wr rd s1 ops = (acc1, outs, s')"
      and acc: "acc = take k d @ acc1" using Cons.prems(3) LWrite by (blast elim: run_LWriteE)
    note act = wr_active[OF Cons.prems(1) w]
    have "reads_ok (act s1) ok ops" "act s1 r" using act Cons.prems(2,4) LWrite by simp_all
    from Cons.IH[OF wr_appends[OF Cons.prems(1) w] this(1) r this(2)] acc show ?thesis by simp
  next
    case (LRead q n)
    obtain out s1 outs1 where d: "rd s q n = (out, s1)" and r: "run_log wr rd s1 ops = (acc, outs1, s')"
      and o: "outs = (q, out) # outs1" using Cons.prems(3) LRead by (blast elim: run_LReadE)
    have a: "act s q" "ok n" "reads_ok (act s) ok ops" using Cons.prems(2) LRead by auto
    note act = rd_active[OF Cons.prems(1) a(1,2) d]
    have "reads_ok (act s1) ok ops" "act s1 r" using act a Cons.prems(4) by simp_all
    note IH = Cons.IH[OF rd_moves[OF Cons.prems(1) a(1,2) d] this(1) r this(2)]
    note out = rd_next[OF Cons.prems(1) a(1,2) d]
    show ?thesis
    proof (cases "q = r")
      case True
      have len: "length out \<le> length h - c r" "out = take (length out) (drop (c r) (h @ acc))"
        using out True by (auto simp: min_def)
      from IH True have "reads_of r outs1 =
          take (length (reads_of r outs1)) (drop (length out) (drop (c r) (h @ acc)))"
        by (simp add: add.commute del: drop_append take_append)
      then show ?thesis using o True len(2) by (metis length_append reads_of_simps(2) take_add)
    next
      case False
      then show ?thesis using IH o by simp
    qed
  qed
qed

end

text \<open>The ring buffer provides the interface; its state carries the copy routine it runs on.\<close>

type_synonym ring_state = "mem_cpy_t \<times> PalRingBuffer"

fun ring_wr :: "ring_state \<Rightarrow> byte list \<Rightarrow> nat \<times> ring_state" where
  "ring_wr (cpy, rb) d = (let (k, rb', ns) = PalRingBuffer_write cpy rb d (length d) in (k, (cpy, rb')))"

fun ring_rd :: "ring_state \<Rightarrow> nat \<Rightarrow> nat \<Rightarrow> byte list \<times> ring_state" where
  "ring_rd (cpy, rb) r n =
     (let (ret, out, rb') = PalRingBufferReader_read cpy rb r (replicate n 0) n
      in (take (nat ret) out, (cpy, rb')))"

fun ring_rel :: "ring_state \<Rightarrow> byte list \<Rightarrow> (nat \<Rightarrow> nat) \<Rightarrow> bool" where
  "ring_rel (cpy, rb) h c \<longleftrightarrow> ar_mem_cpy_spec cpy \<and> log_rel rb h c"

fun ring_act :: "ring_state \<Rightarrow> nat \<Rightarrow> bool" where
  "ring_act (cpy, rb) r \<longleftrightarrow> r \<in> set (readers rb) \<and> rstate (robj rb r) = READER_ENABLED"

definition ring_req_ok :: "nat \<Rightarrow> bool" where
  "ring_req_ok n \<longleftrightarrow> n < 2 ^ 31"

lemma ring_rd_sim:
  assumes rel: "ring_rel s h c" and a: "ring_act s r" and n: "ring_req_ok n" and d: "ring_rd s r n = (out, s')"
  shows "out = take n (drop (c r) h)" "ring_rel s' h (c(r := c r + length out))" "ring_act s' = ring_act s"
proof -
  obtain cpy rb where s: "s = (cpy, rb)" by (cases s)
  obtain ret buf rb' where rd: "PalRingBufferReader_read cpy rb r (replicate n 0) n = (ret, buf, rb')"
    by (cases "PalRingBufferReader_read cpy rb r (replicate n 0) n") auto
  have out: "out = take (nat ret) buf" "s' = (cpy, rb')" using d s rd by auto
  have pre: "log_rel rb h c" "ar_mem_cpy_spec cpy" "r \<in> set (readers rb)" "rstate (robj rb r) = READER_ENABLED"
    "n < 2 ^ 31" "n \<le> length (replicate n (0::byte))"
    using rel a n s by (auto simp: ring_req_ok_def)
  note lr = log_rel_read[OF pre rd]
  show "out = take n (drop (c r) h)" using lr out by (auto simp: min_def)
  moreover have "ring_rel s' h (c(r := c r + min n (length h - c r)))" using lr pre out by simp
  ultimately show "ring_rel s' h (c(r := c r + length out))" by (simp add: min.commute)
  have "\<And>q. q \<noteq> r \<Longrightarrow> robj rb' q = robj rb q"
    using rd by (auto simp: PalRingBufferReader_read_def Let_def split: if_splits)
  then show "ring_act s' = ring_act s"
    using lr pre out s by (auto simp: fun_eq_iff) metis+
qed

lemma ring_wr_sim:
  assumes rel: "ring_rel s h c" and w: "ring_wr s d = (k, s')"
  shows "ring_rel s' (h @ take k d) c" "ring_act s' = ring_act s"
proof -
  obtain cpy rb where s: "s = (cpy, rb)" by (cases s)
  obtain ns rb' where wr: "PalRingBuffer_write cpy rb d (length d) = (k, rb', ns)" and s': "s' = (cpy, rb')"
    using w s by (auto split: prod.splits)
  have pre: "log_rel rb h c" "ar_mem_cpy_spec cpy" "ring_wf rb" using rel s by (auto simp: log_rel_def)
  show "ring_rel s' (h @ take k d) c" using log_rel_write[OF pre(1,2) order_refl wr] pre s' by simp
  show "ring_act s' = ring_act s"
    using write_store(5,8)[OF pre(3,2) order_refl wr] s s' by (auto simp: fun_eq_iff)
qed

interpretation ring: cursor_log ring_wr ring_rd ring_rel ring_act ring_req_ok
proof (unfold_locales, goal_cases)
  case (6 s h c r)
  then show ?case by (cases s) (auto simp: log_rel_def cursor_ok_def)
qed (auto dest: ring_wr_sim ring_rd_sim)

lemmas ring_ops_defs =
  PalRingBuffer_write_def PalRingBuffer_getFreeSize_def PalRingBuffer_updateUnReadSize_def
  PalRingBufferReader_read_def PalRingBufferReader_updateState_def PalRingBuffer_newReader_def
  new_PalRingBuffer_def new_PalRingBufferReader_def mem_cpy_def poke_def set_reader_def Let_def

section \<open>Properties\<close>

text \<open>
  C31: the bytes a reader gets are exactly the log from its cursor on.  Over any interleaving
  of writes and of reads by enabled readers, what reader \<open>r\<close> read, concatenated, is the
  contiguous run of bytes starting at its cursor in the history followed by the bytes
  accepted during the run: nothing is lost, duplicated, reordered or overwritten.
\<close>

theorem ring_fifo:
  assumes "ring_rel s h c" "reads_ok (ring_act s) ring_req_ok ops" "ring_act s r"
    and "run_log ring_wr ring_rd s ops = (acc, outs, s')"
  shows "reads_of r outs = take (length (reads_of r outs)) (drop (c r) (h @ acc))"
  using ring.run_fifo[OF assms(1,2,4,3)] .

definition demo_ring :: PalRingBuffer where
  "demo_ring = PalRingBufferReader_updateState
     (snd (PalRingBuffer_newReader (new_PalRingBuffer 4))) 0 READER_ENABLED"

lemma demo_ring_rel: "log_rel demo_ring [] (\<lambda>_. 0)"
proof -
  have "log_rel (snd (PalRingBuffer_newReader (new_PalRingBuffer 4))) [] (\<lambda>_. 0)"
    by (rule log_rel_newReader(1)[OF log_rel_new prod.collapse[symmetric]]) simp_all
  then have "log_rel demo_ring [] ((\<lambda>_. 0)(0 := 0))"
    unfolding demo_ring_def
    by (rule log_rel_enable) (simp add: cursor_ok_def PalRingBuffer_newReader_def new_PalRingBuffer_def
        new_PalRingBufferReader_def Let_def)
  then show ?thesis by (simp add: fun_upd_idem)
qed

lemma demo_ring_act: "ring_act (min, demo_ring) 0"
  by (simp add: demo_ring_def PalRingBufferReader_updateState_def PalRingBuffer_newReader_def
      new_PalRingBuffer_def Let_def)

lemma min_ar_mem_cpy_spec: "ar_mem_cpy_spec min"
  by (simp add: ar_mem_cpy_spec_def)

theorem ring_fifo_witness:
  "let (acc, outs, s') = run_log ring_wr ring_rd (min, demo_ring)
         [LWrite [1, 2, 3], LRead 0 2, LWrite [4, 5, 6], LRead 0 9]
   in acc = [1, 2, 3, 4, 5, 6] \<and> reads_of 0 outs = [1, 2, 3, 4, 5, 6]"
proof -
  let ?ops = "[LWrite [1, 2, 3], LRead 0 2, LWrite [4, 5, 6], LRead 0 9]"
  obtain acc outs s' where r: "run_log ring_wr ring_rd (min, demo_ring) ?ops = (acc, outs, s')"
    by (cases "run_log ring_wr ring_rd (min, demo_ring) ?ops") auto
  have ok: "reads_ok (ring_act (min, demo_ring)) ring_req_ok ?ops"
    using demo_ring_act by (simp add: ring_req_ok_def)
  have rel: "ring_rel (min, demo_ring) [] (\<lambda>_. 0)" using demo_ring_rel min_ar_mem_cpy_spec by simp
  have e: "fst (run_log ring_wr ring_rd (min, demo_ring) ?ops) = [1, 2, 3, 4, 5, 6] \<and>
      length (reads_of 0 (fst (snd (run_log ring_wr ring_rd (min, demo_ring) ?ops)))) = 6"
    by (simp add: demo_ring_def ring_ops_defs sz_add_def sz_sub_def to_i32_def i32_to_sz_def)
  from ring_fifo[OF rel ok demo_ring_act r] e r show ?thesis by simp
qed

text \<open>
  C32: a write accepts as many bytes as every enabled reader leaves room for, no more and no
  fewer, appends exactly those to the log, keeps every cursor and wakes exactly the readers
  whose request is now met.
\<close>

theorem ring_write_correct:
  assumes "log_rel rb h cur" "ar_mem_cpy_spec cpy" "n \<le> length d"
    and "PalRingBuffer_write cpy rb d n = (k, rb', ns)"
  shows "k = min n (Min (insert (bufferEnd rb)
               ((\<lambda>r. bufferEnd rb - (length h - cur r)) `
                  {r \<in> set (readers rb). rstate (robj rb r) = READER_ENABLED}))) \<and>
     log_rel rb' (h @ take k d) cur \<and>
     ns = filter (\<lambda>r. requestedSize (robj rb r) > 0 \<and>
                       requestedSize (robj rb r) \<le> unreadSize (robj rb' r)) (readers rb)"
proof -
  have wf: "ring_wf rb" using assms(1) by (simp add: log_rel_def)
  let ?en = "{r \<in> set (readers rb). rstate (robj rb r) = READER_ENABLED}"
  have "sz_sub (bufferEnd rb) (unreadSize (robj rb r)) = bufferEnd rb - (length h - cur r)" if "r \<in> ?en" for r
    using assms(1) that by (auto simp: log_rel_def cursor_ok_def sz_sub_def)
  then have "(\<lambda>r. sz_sub (bufferEnd rb) (unreadSize (robj rb r))) ` ?en =
      (\<lambda>r. bufferEnd rb - (length h - cur r)) ` ?en" by (intro image_cong) auto
  then show ?thesis
    using write_store(1,9)[OF wf assms(2-4)] log_rel_write[OF assms]
    by (simp add: accepted_def getFreeSize_Min)
qed

theorem ring_write_correct_witness:
  "let (k, rb', ns) = PalRingBuffer_write min demo_ring [1, 2, 3, 4, 5, 6] 6
   in k = 4 \<and> log_rel rb' [1, 2, 3, 4] (\<lambda>_. 0)"
proof -
  obtain k rb' ns where w: "PalRingBuffer_write min demo_ring [1, 2, 3, 4, 5, 6] 6 = (k, rb', ns)"
    by (cases "PalRingBuffer_write min demo_ring [1, 2, 3, 4, 5, 6] 6") auto
  have "bufferEnd demo_ring = 4" "{r \<in> set (readers demo_ring). rstate (robj demo_ring r) = READER_ENABLED} = {0}"
    by (auto simp: demo_ring_def ring_ops_defs)
  note facts = this
  have len: "6 \<le> length [1, 2, 3, 4, 5, 6 :: byte]" by simp
  note c = ring_write_correct[OF demo_ring_rel min_ar_mem_cpy_spec len w]
  from c have k: "k = 4" unfolding facts by simp
  from c have "log_rel rb' ([] @ take k [1, 2, 3, 4, 5, 6]) (\<lambda>_. 0)" by blast
  then show ?thesis using w k by simp
qed

text \<open>
  C33: a read by an enabled reader returns the size read, at most the client's buffer and at
  most what is unread, fills the client buffer with the next bytes of the log and moves only
  that reader's cursor.
\<close>

theorem ring_read_correct:
  assumes "log_rel rb h cur" "ar_mem_cpy_spec cpy" "r \<in> set (readers rb)"
    and "rstate (robj rb r) = READER_ENABLED" "bufferSize < 2 ^ 31" "bufferSize \<le> length buf"
    and "PalRingBufferReader_read cpy rb r buf bufferSize = (ret, out, rb')"
  shows "ret = int (min bufferSize (length h - cur r)) \<and>
     take (nat ret) out = take bufferSize (drop (cur r) h) \<and>
     log_rel rb' h (cur(r := cur r + nat ret))"
  using log_rel_read[OF assms] by (auto simp: min_def)

theorem ring_read_correct_witness:
  "let (k, rb1, ns) = PalRingBuffer_write min demo_ring [1, 2, 3] 3;
       (ret, out, rb2) = PalRingBufferReader_read min rb1 0 [0, 0] 2
   in ret = 2 \<and> out = [1, 2] \<and> log_rel rb2 [1, 2, 3] ((\<lambda>_. 0)(0 := 2))"
proof -
  obtain k rb1 ns where w: "PalRingBuffer_write min demo_ring [1, 2, 3] 3 = (k, rb1, ns)"
    by (cases "PalRingBuffer_write min demo_ring [1, 2, 3] 3") auto
  obtain ret out rb2 where r: "PalRingBufferReader_read min rb1 0 [0, 0] 2 = (ret, out, rb2)"
    by (cases "PalRingBufferReader_read min rb1 0 [0, 0] 2") auto
  have "k = 3 \<and> 0 \<in> set (readers rb1) \<and> rstate (robj rb1 0) = READER_ENABLED \<and> length out = 2"
    using w r by (auto simp: demo_ring_def ring_ops_defs sz_add_def sz_sub_def)
  moreover from this log_rel_write[OF demo_ring_rel min_ar_mem_cpy_spec _ w]
  have "log_rel rb1 [1, 2, 3] (\<lambda>_. 0)" by simp
  ultimately show ?thesis
    using ring_read_correct[OF _ min_ar_mem_cpy_spec _ _ _ _ r, of "[1, 2, 3]" "\<lambda>_. 0"] w r
    by auto
qed

text \<open>Reading at a cursor without moving it, as \<^verbatim>\<open>getKwData\<close> does.\<close>

lemma getKwData_slice:
  assumes wf: "ring_wf rb" and cpy: "ar_mem_cpy_spec cpy" and hist: "ring_hist rb h" and c: "cursor_ok rb h r p"
    and sz: "sz \<le> length h - p" "sz = length data"
  shows "PalRingBufferReader_getKwData cpy rb r data sz = (int sz, take sz (drop p h))"
proof -
  let ?N = "bufferEnd rb" and ?b = "buffer rb"
  define ro where "ro = readOffset (robj rb r)"
  have N: "0 < ?N" "?N < 2 ^ 31" "length ?b = ?N" using wf by (auto simp: ring_wf_def)
  have ro: "ro = p mod ?N" "ro < ?N" using c N by (auto simp: cursor_ok_def ro_def)
  have p: "p \<le> length h" "length h \<le> p + ?N" using c by (auto simp: cursor_ok_def)
  have D: "circ ?N ?b ro (length h - p) = drop p h" using hist_window[OF wf hist p] ro by simp
  have szN: "sz \<le> ?N" using p sz by simp
  have ar: "sz_add ro sz = ro + sz" "sz_sub ?N ro = ?N - ro" "to_i32 (int sz) = int sz"
    using N ro szN by (auto simp: sz_add_def sz_sub_def to_i32_def)
  show ?thesis
  proof (cases "ro + sz > ?N")
    case True
    let ?o = "?N - ro"
    have s: "sz_sub sz ?o = sz - ?o" using True by (simp add: sz_sub_def)
    have seg1: "take ?o (drop ro ?b) = take ?o (drop p h)"
      by (rule segment_straight[OF N(3) D]) (use True sz ro in auto)
    have seg2: "take (sz - ?o) ?b = take (sz - ?o) (drop ?o (drop p h))"
      by (rule segment_wrapped[OF N(3) D]) (use True sz ro szN in auto)
    have "take ?o (drop p h) @ take (sz - ?o) (drop ?o (drop p h)) = take sz (drop p h)"
      using True take_add[of ?o "sz - ?o" "drop p h"] by simp
    then have "poke (poke data 0 (take ?o (drop p h))) ?o (take (sz - ?o) (drop ?o (drop p h))) = take sz (drop p h)"
      using True sz p by (simp add: poke_def min_absorb2 del: drop_drop)
    then show ?thesis using True cpy ar s seg1 seg2
      by (simp add: PalRingBufferReader_getKwData_def Let_def ro_def[symmetric] mem_cpy_fits)
  next
    case False
    have "take sz (drop ro ?b) = take sz (drop p h)"
      by (rule segment_straight[OF N(3) D]) (use False sz in auto)
    then show ?thesis using False cpy ar sz
      by (simp add: PalRingBufferReader_getKwData_def Let_def ro_def[symmetric] mem_cpy_fits poke_def)
  qed
qed

lemma updateKwdConfig_hist:
  "ring_wf rb \<Longrightarrow> ring_hist rb h \<Longrightarrow>
   ring_wf (PalRingBuffer_updateKwdConfig rb s rs sIdx eIdx preRoll) \<and>
   ring_hist (PalRingBuffer_updateKwdConfig rb s rs sIdx eIdx preRoll) h"
  unfolding PalRingBuffer_updateKwdConfig_def Let_def ring_wf_def ring_hist_def
  by (simp add: kwd_fold_frame)

text \<open>
  C34: keyword extraction.  After a detection, aligning the stream's reader and reading the
  keyword data gives a buffer in which the indices that \<^verbatim>\<open>getIndices\<close> reports delimit
  exactly the keyword, the bytes \<open>sIdx\<close> to \<open>eIdx\<close> of everything captured since the reset.
\<close>

theorem keyword_extraction:
  assumes wf: "ring_wf rb" and cpy: "ar_mem_cpy_spec cpy" and hist: "ring_hist rb h"
    and lin: "linear_reader rb h r" and rs: "r \<in> set rs" "distinct rs"
    and idx: "sIdx < eIdx" "eIdx < 2 ^ 32" "preRoll < 2 ^ 32" "eIdx \<le> length h"
    and win: "length h < sIdx - preRoll + bufferEnd rb"
    and rb': "rb' = PalRingBuffer_updateKwdConfig rb s rs sIdx eIdx preRoll"
    and gi: "PalRingBuffer_getIndices rb' s = ((si, ei, ft), rb'')"
    and kd: "PalRingBufferReader_getKwData cpy rb' r (replicate ei 0) ei = (ret, data)"
  shows "si = min sIdx preRoll \<and> ei - si = eIdx - sIdx \<and> ret = int ei \<and>
     take (ei - si) (drop si data) = take (eIdx - sIdx) (drop sIdx h)"
proof -
  define sz where "sz = sIdx - preRoll"
  have szc: "sz = (if sIdx \<ge> preRoll then sIdx - preRoll else 0)" by (simp add: sz_def)
  have sub: "(if sIdx \<ge> preRoll then u32_sub sIdx preRoll else 0) = sz"
    "u32_sub sIdx sz = sIdx - sz" "u32_sub eIdx sz = eIdx - sz"
    using idx by (auto simp: sz_def u32_sub_def)
  have i: "si = sIdx - sz" "ei = eIdx - sz"
    using gi unfolding rb' PalRingBuffer_getIndices_def PalRingBuffer_updateKwdConfig_def Let_def sub
    by auto
  have c: "cursor_ok rb' h r sz"
    unfolding rb' by (rule updateKwdConfig_cursor[OF wf lin rs szc]) (use idx win in \<open>auto simp: sz_def\<close>)
  have "ei \<le> length h - sz" using i idx by (auto simp: sz_def)
  then have d: "ret = int ei" "data = take ei (drop sz h)"
    using getKwData_slice[OF _ cpy _ c, of ei "replicate ei 0"] kd updateKwdConfig_hist[OF wf hist]
    by (auto simp: rb')
  have "drop si data = take (eIdx - sIdx) (drop sIdx h)"
    using d(2) i idx by (simp add: drop_take sz_def)
  moreover have "ei - si = eIdx - sIdx" "si = min sIdx preRoll" using i idx by (auto simp: sz_def)
  ultimately show ?thesis using d by simp
qed

theorem keyword_extraction_witness:
  "let rb0 = snd (PalRingBuffer_newReader (new_PalRingBuffer 8));
       (k, rb, ns) = PalRingBuffer_write min rb0 [1, 2, 3, 4, 5, 6] 6;
       rb' = PalRingBuffer_updateKwdConfig rb 7 [0] 3 5 2;
       ((si, ei, ft), rb'') = PalRingBuffer_getIndices rb' 7;
       (ret, data) = PalRingBufferReader_getKwData min rb' 0 (replicate ei 0) ei
   in (si, ei) = (2, 4) \<and> take (ei - si) (drop si data) = [4, 5]"
proof -
  let ?rb0 = "snd (PalRingBuffer_newReader (new_PalRingBuffer 8))" and ?h = "[1, 2, 3, 4, 5, 6 :: byte]"
  obtain k rb ns where w: "PalRingBuffer_write min ?rb0 ?h 6 = (k, rb, ns)"
    by (cases "PalRingBuffer_write min ?rb0 ?h 6") auto
  define rb' where "rb' = PalRingBuffer_updateKwdConfig rb 7 [0] 3 5 2"
  obtain si ei ft rb'' where gi: "PalRingBuffer_getIndices rb' 7 = ((si, ei, ft), rb'')"
    by (cases "PalRingBuffer_getIndices rb' 7") auto
  obtain ret data where kd: "PalRingBufferReader_getKwData min rb' 0 (replicate ei 0) ei = (ret, data)"
    by (cases "PalRingBufferReader_getKwData min rb' 0 (replicate ei 0) ei") auto
  have rel0: "log_rel ?rb0 [] (\<lambda>_. 0)"
    by (rule log_rel_newReader(1)[OF log_rel_new prod.collapse[symmetric]]) simp_all
  have k: "k = 6" "unreadSize (robj rb 0) = 6" "bufferEnd rb = 8" "6 \<le> length ?h"
    using w by (auto simp: ring_ops_defs sz_add_def)
  have "log_rel rb ([] @ take k ?h) (\<lambda>_. 0)" by (rule log_rel_write[OF rel0 min_ar_mem_cpy_spec k(4) w])
  then have wf: "ring_wf rb" "ring_hist rb ?h" using k(1) by (auto simp: log_rel_def)
  have lin: "linear_reader rb ?h 0" using k by (simp add: linear_reader_def)
  have "si = min 3 2 \<and> ei - si = 5 - 3 \<and> ret = int ei \<and> take (ei - si) (drop si data) = take (5 - 3) (drop 3 ?h)"
    by (rule keyword_extraction[OF wf(1) min_ar_mem_cpy_spec wf(2) lin _ _ _ _ _ _ _ rb'_def gi kd])
      (use k in simp_all)
  then show ?thesis using w gi kd by (auto simp: rb'_def[symmetric])
qed

text \<open>
  The room check wraps.  A reader that fell behind by more than the buffer before it was
  enabled does not limit the writer: \<open>bufferEnd - unreadSize\<close> wraps around, so the free
  size is the whole buffer although unread data is in it.
\<close>

theorem getFreeSize_wraps:
  assumes "readers rb = [r]" "rstate (robj rb r) = READER_ENABLED"
    and "bufferEnd rb < unreadSize (robj rb r)" "unreadSize (robj rb r) < 2 ^ 63" "bufferEnd rb < 2 ^ 31"
  shows "PalRingBuffer_getFreeSize rb = bufferEnd rb"
  using assms by (simp add: PalRingBuffer_getFreeSize_def sz_sub_def)

theorem getFreeSize_wraps_witness:
  "let rb0 = snd (PalRingBuffer_newReader (new_PalRingBuffer 4));
       (k1, rb1, n1) = PalRingBuffer_write min rb0 [1, 2, 3] 3;
       (k2, rb2, n2) = PalRingBuffer_write min rb1 [4, 5, 6] 3;
       rb3 = PalRingBufferReader_updateState rb2 0 READER_ENABLED
   in PalRingBufferReader_getUnreadSize rb3 0 = 6 \<and> PalRingBuffer_getFreeSize rb3 = 4"
proof -
  let ?rb0 = "snd (PalRingBuffer_newReader (new_PalRingBuffer 4))"
  obtain k1 rb1 n1 where w1: "PalRingBuffer_write min ?rb0 [1, 2, 3] 3 = (k1, rb1, n1)"
    by (cases "PalRingBuffer_write min ?rb0 [1, 2, 3] 3") auto
  obtain k2 rb2 n2 where w2: "PalRingBuffer_write min rb1 [4, 5, 6] 3 = (k2, rb2, n2)"
    by (cases "PalRingBuffer_write min rb1 [4, 5, 6] 3") auto
  let ?rb3 = "PalRingBufferReader_updateState rb2 0 READER_ENABLED"
  have f1: "rb1 = ?rb0\<lparr>buffer := [1, 2, 3, 0], writeOffset := 3,
      robj := (robj ?rb0)(0 := (robj ?rb0 0)\<lparr>unreadSize := 3\<rparr>)\<rparr>"
    using w1 by (auto simp: ring_ops_defs sz_add_def)
  have f: "readers ?rb3 = [0]" "rstate (robj ?rb3 0) = READER_ENABLED" "unreadSize (robj ?rb3 0) = 6"
    "bufferEnd ?rb3 = 4"
    using w2 unfolding f1 by (auto simp: ring_ops_defs sz_add_def sz_sub_def)
  from getFreeSize_wraps[OF f(1,2)] f w1 w2 show ?thesis
    by (simp add: PalRingBufferReader_getUnreadSize_def)
qed

text \<open>
  advancing a reader by exactly its unread size leaves the unread count as it was: the
  read offset reaches the write offset, but the reader still claims unread bytes and the
  next read returns stale ones.
\<close>

theorem advance_to_end_keeps_unread:
  assumes "ring_wf rb" "ring_hist rb h" "cursor_ok rb h r p"
    and "rb' = snd (PalRingBufferReader_advanceReadOffset rb r (unreadSize (robj rb r)))"
  shows "readOffset (robj rb' r) = writeOffset rb \<and> unreadSize (robj rb' r) = unreadSize (robj rb r)"
proof -
  have c: "readOffset (robj rb r) = p mod bufferEnd rb" "unreadSize (robj rb r) = length h - p" "p \<le> length h"
    "length h \<le> p + bufferEnd rb"
    using assms(3) by (auto simp: cursor_ok_def)
  have N: "0 < bufferEnd rb" "bufferEnd rb < 2 ^ 31" using assms(1) by (auto simp: ring_wf_def)
  have "2 * bufferEnd rb \<le> 2 ^ 64" using N by simp
  then have "p mod bufferEnd rb + (length h - p) < 2 ^ 64"
    using c(4) mod_less_divisor[OF N(1), of p] by linarith
  then have "sz_add (p mod bufferEnd rb) (length h - p) mod bufferEnd rb = (p + (length h - p)) mod bufferEnd rb"
    by (simp only: sz_add_in mod_add_left_eq)
  then show ?thesis using c assms(2,4)
    by (simp add: PalRingBufferReader_advanceReadOffset_def Let_def ring_hist_def)
qed

theorem advance_to_end_keeps_unread_witness:
  "let (k, rb, ns) = PalRingBuffer_write min demo_ring [1, 2, 3] 3;
       rb' = snd (PalRingBufferReader_advanceReadOffset rb 0 3)
   in readOffset (robj rb' 0) = 3 \<and> unreadSize (robj rb' 0) = 3"
proof -
  obtain k rb ns where w: "PalRingBuffer_write min demo_ring [1, 2, 3] 3 = (k, rb, ns)"
    by (cases "PalRingBuffer_write min demo_ring [1, 2, 3] 3") auto
  have k: "k = 3" "unreadSize (robj rb 0) = 3" "writeOffset rb = 3" "0 \<in> set (readers rb)"
    "rstate (robj rb 0) = READER_ENABLED" "3 \<le> length [1, 2, 3 :: byte]"
    using w by (auto simp: demo_ring_def ring_ops_defs sz_add_def sz_sub_def)
  have "log_rel rb ([] @ take k [1, 2, 3]) (\<lambda>_. 0)" by (rule log_rel_write[OF demo_ring_rel min_ar_mem_cpy_spec k(6) w])
  then have "ring_wf rb" "ring_hist rb [1, 2, 3]" "cursor_ok rb [1, 2, 3] 0 0"
    using k by (auto simp: log_rel_def)
  from advance_to_end_keeps_unread[OF this refl] k w show ?thesis by simp
qed

end
