(* ===== verification/Ring_Types.thy ===== *)
theory Ring_Types
  imports Pal_RingBuffer
begin

text \<open>
  The type of a ring buffer: the sizes and offsets every operation of
  \<^verbatim>\<open>stream/StreamSoundTrigger/src/PalRingBuffer.cpp\<close> keeps, in any order of calls by the
  stream, its readers and the engines.
\<close>

definition ring_typed :: "PalRingBuffer \<Rightarrow> bool" where
  "ring_typed rb \<longleftrightarrow> ring_wf rb \<and> (\<forall>r. readOffset (robj rb r) < bufferEnd rb)"

datatype ring_op =
  Write "byte list" | Read nat nat | NewReader | RemoveReader nat | UpdateState nat pal_ring_buffer_reader_state
| UpdateKwd nat "nat list" nat nat nat | GetIndices nat | Reset | ResetReader nat | Resize "byte list" nat
| WaitEnter nat nat | WaitExit nat nat | Advance nat nat | UpdateUnread nat

fun ring_do :: "mem_cpy_t \<Rightarrow> ring_op \<Rightarrow> PalRingBuffer \<Rightarrow> PalRingBuffer" where
  "ring_do cpy (Write d) rb = fst (snd (PalRingBuffer_write cpy rb d (length d)))"
| "ring_do cpy (Read r n) rb = snd (snd (PalRingBufferReader_read cpy rb r (replicate n 0) n))"
| "ring_do cpy NewReader rb = snd (PalRingBuffer_newReader rb)"
| "ring_do cpy (RemoveReader r) rb = snd (PalRingBuffer_removeReader rb r)"
| "ring_do cpy (UpdateState r st) rb = PalRingBufferReader_updateState rb r st"
| "ring_do cpy (UpdateKwd s rs a b p) rb = PalRingBuffer_updateKwdConfig rb s rs a b p"
| "ring_do cpy (GetIndices s) rb = snd (PalRingBuffer_getIndices rb s)"
| "ring_do cpy Reset rb = PalRingBuffer_reset rb"
| "ring_do cpy (ResetReader r) rb = PalRingBufferReader_reset rb r"
| "ring_do cpy (Resize fresh n) rb = PalRingBuffer_resizeRingBuffer rb fresh n"
| "ring_do cpy (WaitEnter r n) rb = snd (waitForBuffers_enter rb r n)"
| "ring_do cpy (WaitExit r n) rb = snd (waitForBuffers_exit rb r n)"
| "ring_do cpy (Advance r n) rb = snd (PalRingBufferReader_advanceReadOffset rb r n)"
| "ring_do cpy (UpdateUnread n) rb = fst (PalRingBuffer_updateUnReadSize rb n)"

text \<open>A read asks for less than 2 GB.  Memory of the new size comes with a resize, which takes place
  when the offsets fit, as after a reset.\<close>

fun ring_op_ok :: "ring_op \<Rightarrow> PalRingBuffer \<Rightarrow> bool" where
  "ring_op_ok (Read r n) rb \<longleftrightarrow> n < 2 ^ 31"
| "ring_op_ok (Resize fresh n) rb \<longleftrightarrow> n < 2 ^ 31 \<and> n \<le> length fresh \<and> writeOffset rb < n \<and> (\<forall>r. readOffset (robj rb r) < n)"
| "ring_op_ok _ _ \<longleftrightarrow> True"

lemma typed_set: "ring_typed rb \<Longrightarrow> readOffset x < bufferEnd rb \<Longrightarrow> ring_typed (set_reader rb r x)"
  by (simp add: ring_typed_def)

lemma typed_read:
  assumes "ring_typed rb" "n < 2 ^ 31"
  shows "ring_typed (snd (snd (PalRingBufferReader_read cpy rb r buf n)))"
proof -
  define x where "x = (if rstate (robj rb r) = READER_PREPARED then (robj rb r)\<lparr>rstate := READER_ENABLED\<rparr> else robj rb r)"
  let ?ro = "readOffset x" and ?wo = "writeOffset rb" and ?e = "bufferEnd rb"
  have o: "?ro < ?e" "?wo < ?e" "?e < 2 ^ 31" using assms(1) by (auto simp: ring_typed_def ring_wf_def x_def)
  note in_range = sz_sub_in sz_add_in to_i32_in i32_to_sz_in
  show ?thesis
  proof (cases "?wo > ?ro")
    case True
    then show ?thesis
      using o assms typed_set [OF assms(1), of _ r]
      by (auto simp: PalRingBufferReader_read_def Let_def x_def [symmetric] in_range)
  next
    case False
    define i where "i = ?e - ?ro"
    have i: "sz_sub ?e ?ro = i" "to_i32 (int i) = int i" "i32_to_sz (int i) = i" "to_i32 (int n) = int n"
      using o assms(2) by (simp_all add: in_range i_def)
    show ?thesis
    proof (cases "n \<ge> i")
      case True
      then obtain m where m: "n = i + m" using le_Suc_ex by blast
      have "to_i32 (int m) = int m" "i32_to_sz (int m) = m" using assms(2) m by (simp_all add: in_range)
      then show ?thesis
        using False o assms(1) typed_set [OF assms(1), of _ r] m
        by (auto simp: PalRingBufferReader_read_def Let_def x_def [symmetric] i)
    next
      case n: False
      then have "?ro + n < ?e" by (simp add: i_def)
      then have "sz_add ?ro n < ?e" using o by (simp add: sz_add_in)
      then show ?thesis
        using False n o assms(1) typed_set [OF assms(1), of _ r]
        by (auto simp: PalRingBufferReader_read_def Let_def x_def [symmetric] i)
    qed
  qed
qed

lemma typed_kwd: "ring_typed rb \<Longrightarrow> ring_typed (foldl (\<lambda>b r. set_reader b r (kwd_adjust (bufferEnd b) sz (robj b r))) rb rs)"
proof (induction rs arbitrary: rb)
  case (Cons r rs)
  have "readOffset (kwd_adjust (bufferEnd rb) sz (robj rb r)) < bufferEnd rb"
    using Cons.prems by (simp add: kwd_adjust_def Let_def ring_typed_def ring_wf_def)
  then show ?case using Cons typed_set [of rb] by simp
qed simp

lemma typed_reset: "ring_typed rb \<Longrightarrow> ring_typed (PalRingBufferReader_reset rb r)"
  using typed_set [of rb _ r] by (auto simp: PalRingBufferReader_reset_def ring_typed_def ring_wf_def)

lemma typed_unread: "ring_typed rb \<Longrightarrow> ring_typed (fst (updateUnReadSize_loop rs n rb))"
proof (induction rs arbitrary: rb)
  case (Cons r rs)
  have "ring_typed (set_reader rb r ((robj rb r)\<lparr>unreadSize := sz_add (unreadSize (robj rb r)) n\<rparr>))"
    using Cons.prems typed_set by (simp add: ring_typed_def)
  from Cons.IH [OF this] show ?case by (auto simp: Let_def split: prod.splits)
qed simp

lemma typed_write:
  assumes t: "ring_typed rb" and c: "ar_mem_cpy_spec cpy"
  shows "ring_typed (fst (snd (PalRingBuffer_write cpy rb d (length d))))"
proof -
  obtain k rb' ns where w: "PalRingBuffer_write cpy rb d (length d) = (k, rb', ns)" by (metis prod.exhaust)
  have wf: "ring_wf rb" using t by (simp add: ring_typed_def)
  have "ring_wf rb'" by (rule ring_wf_write [OF wf c order_refl w])
  moreover have "readOffset (robj rb' r) = readOffset (robj rb r)" for r
    using write_store(8) [OF wf c order_refl w] by simp
  moreover have "bufferEnd rb' = bufferEnd rb" using write_store [OF wf c order_refl w] by simp
  ultimately show ?thesis using t w by (simp add: ring_typed_def)
qed

lemma ring_do_typed:
  assumes t: "ring_typed rb" and c: "ar_mem_cpy_spec cpy" and ok: "ring_op_ok op rb"
  shows "ring_typed (ring_do cpy op rb)"
proof (cases op)
  case (Write d)
  then show ?thesis using typed_write [OF t c] by simp
next
  case (Read r n)
  then show ?thesis using typed_read [OF t] ok by simp
next
  case Reset
  have "ring_typed (foldl PalRingBufferReader_reset b rs)" if "ring_typed b" for b rs
    using that by (induction rs arbitrary: b) (auto intro: typed_reset)
  moreover have "ring_typed (rb\<lparr>kwCfg := (\<lambda>_. None), writeOffset := 0\<rparr>)" using t by (simp add: ring_typed_def ring_wf_def)
  ultimately show ?thesis using Reset by (simp add: PalRingBuffer_reset_def)
next
  case (UpdateKwd s rs a b p)
  have "ring_typed (b\<lparr>kwCfg := k\<rparr>) = ring_typed b" for b k by (simp add: ring_typed_def ring_wf_def)
  then show ?thesis using UpdateKwd typed_kwd [OF t] by (simp add: PalRingBuffer_updateKwdConfig_def Let_def)
next
  case (UpdateUnread n)
  then show ?thesis using typed_unread [OF t] by (simp add: PalRingBuffer_updateUnReadSize_def)
next
  case NewReader
  have "\<forall>x\<in>set (readers rb). x < next_reader rb" using t by (simp add: ring_typed_def ring_wf_def list_all_iff)
  then show ?thesis
    using NewReader t by (auto simp: PalRingBuffer_newReader_def Let_def ring_typed_def ring_wf_def new_PalRingBufferReader_def
      list_all_iff less_Suc_eq)
next
  case (RemoveReader r)
  then show ?thesis
    using t by (auto simp: PalRingBuffer_removeReader_def ring_typed_def ring_wf_def list_all_iff dest: notin_set_remove1 in_set_remove1 [THEN iffD1])
next
  case (Resize fresh n)
  then show ?thesis using t ok by (auto simp: PalRingBuffer_resizeRingBuffer_def ring_typed_def ring_wf_def)
next
  case (Advance r n)
  then show ?thesis
    using t typed_set [OF t, of _ r] by (auto simp: PalRingBufferReader_advanceReadOffset_def Let_def ring_typed_def ring_wf_def)
next
  case (GetIndices s)
  then show ?thesis using t by (auto simp: PalRingBuffer_getIndices_def ring_typed_def ring_wf_def split: option.split)
next
  case (UpdateState r st)
  then show ?thesis using t by (simp add: PalRingBufferReader_updateState_def ring_typed_def)
next
  case (ResetReader r)
  then show ?thesis using typed_reset [OF t] by simp
next
  case (WaitEnter r n)
  then show ?thesis using t by (simp add: waitForBuffers_enter_def Let_def ring_typed_def)
next
  case (WaitExit r n)
  then show ?thesis using t by (simp add: waitForBuffers_exit_def Let_def ring_typed_def)
qed

fun ring_ops :: "mem_cpy_t \<Rightarrow> ring_op list \<Rightarrow> PalRingBuffer \<Rightarrow> PalRingBuffer" where
  "ring_ops cpy [] rb = rb"
| "ring_ops cpy (op # ops) rb = ring_ops cpy ops (ring_do cpy op rb)"

fun ring_ops_ok :: "mem_cpy_t \<Rightarrow> ring_op list \<Rightarrow> PalRingBuffer \<Rightarrow> bool" where
  "ring_ops_ok cpy [] rb \<longleftrightarrow> True"
| "ring_ops_ok cpy (op # ops) rb \<longleftrightarrow> ring_op_ok op rb \<and> ring_ops_ok cpy ops (ring_do cpy op rb)"



end
