(* ===== verification/Pal_Defs.thy ===== *)
theory Pal_Defs
  imports Complex_Main Pal_Prelude
begin

text \<open>
  The public data types of \<^verbatim>\<open>inc/PalDefs.h\<close> that the components share.  C enumerations keep
  their numeric values, because the code compares them with \<open><\<close> and \<open>\<ge>\<close>; they are
  abbreviations of naturals.
\<close>

section \<open>Enumerations\<close>

text \<open>Audio formats (lines 82-112).\<close>

abbreviation (input) PAL_AUDIO_FMT_DEFAULT_PCM :: nat where "PAL_AUDIO_FMT_DEFAULT_PCM \<equiv> 1"
abbreviation (input) PAL_AUDIO_FMT_PCM_S16_LE :: nat where "PAL_AUDIO_FMT_PCM_S16_LE \<equiv> 1"
abbreviation (input) PAL_AUDIO_FMT_DEFAULT_COMPRESSED :: nat where "PAL_AUDIO_FMT_DEFAULT_COMPRESSED \<equiv> 2"
abbreviation (input) PAL_AUDIO_FMT_MP3 :: nat where "PAL_AUDIO_FMT_MP3 \<equiv> 2"
abbreviation (input) PAL_AUDIO_FMT_AAC :: nat where "PAL_AUDIO_FMT_AAC \<equiv> 3"
abbreviation (input) PAL_AUDIO_FMT_AAC_ADTS :: nat where "PAL_AUDIO_FMT_AAC_ADTS \<equiv> 4"
abbreviation (input) PAL_AUDIO_FMT_AAC_ADIF :: nat where "PAL_AUDIO_FMT_AAC_ADIF \<equiv> 5"
abbreviation (input) PAL_AUDIO_FMT_AAC_LATM :: nat where "PAL_AUDIO_FMT_AAC_LATM \<equiv> 6"
abbreviation (input) PAL_AUDIO_FMT_WMA_STD :: nat where "PAL_AUDIO_FMT_WMA_STD \<equiv> 7"
abbreviation (input) PAL_AUDIO_FMT_ALAC :: nat where "PAL_AUDIO_FMT_ALAC \<equiv> 8"
abbreviation (input) PAL_AUDIO_FMT_APE :: nat where "PAL_AUDIO_FMT_APE \<equiv> 9"
abbreviation (input) PAL_AUDIO_FMT_WMA_PRO :: nat where "PAL_AUDIO_FMT_WMA_PRO \<equiv> 10"
abbreviation (input) PAL_AUDIO_FMT_FLAC :: nat where "PAL_AUDIO_FMT_FLAC \<equiv> 11"
abbreviation (input) PAL_AUDIO_FMT_FLAC_OGG :: nat where "PAL_AUDIO_FMT_FLAC_OGG \<equiv> 12"
abbreviation (input) PAL_AUDIO_FMT_VORBIS :: nat where "PAL_AUDIO_FMT_VORBIS \<equiv> 13"
abbreviation (input) PAL_AUDIO_FMT_AMR_NB :: nat where "PAL_AUDIO_FMT_AMR_NB \<equiv> 14"
abbreviation (input) PAL_AUDIO_FMT_AMR_WB :: nat where "PAL_AUDIO_FMT_AMR_WB \<equiv> 15"
abbreviation (input) PAL_AUDIO_FMT_AMR_WB_PLUS :: nat where "PAL_AUDIO_FMT_AMR_WB_PLUS \<equiv> 16"
abbreviation (input) PAL_AUDIO_FMT_EVRC :: nat where "PAL_AUDIO_FMT_EVRC \<equiv> 17"
abbreviation (input) PAL_AUDIO_FMT_G711 :: nat where "PAL_AUDIO_FMT_G711 \<equiv> 18"
abbreviation (input) PAL_AUDIO_FMT_QCELP :: nat where "PAL_AUDIO_FMT_QCELP \<equiv> 19"
abbreviation (input) PAL_AUDIO_FMT_PCM_S8 :: nat where "PAL_AUDIO_FMT_PCM_S8 \<equiv> 20"
abbreviation (input) PAL_AUDIO_FMT_PCM_S24_3LE :: nat where "PAL_AUDIO_FMT_PCM_S24_3LE \<equiv> 21"
abbreviation (input) PAL_AUDIO_FMT_PCM_S24_LE :: nat where "PAL_AUDIO_FMT_PCM_S24_LE \<equiv> 22"
abbreviation (input) PAL_AUDIO_FMT_PCM_S32_LE :: nat where "PAL_AUDIO_FMT_PCM_S32_LE \<equiv> 23"
abbreviation (input) PAL_AUDIO_FMT_OPUS :: nat where "PAL_AUDIO_FMT_OPUS \<equiv> 24"

text \<open>Channel positions (lines 280-316).\<close>

abbreviation (input) PAL_CHMAP_CHANNEL_FL :: nat where "PAL_CHMAP_CHANNEL_FL \<equiv> 1"
abbreviation (input) PAL_CHMAP_CHANNEL_FR :: nat where "PAL_CHMAP_CHANNEL_FR \<equiv> 2"
abbreviation (input) PAL_CHMAP_CHANNEL_C :: nat where "PAL_CHMAP_CHANNEL_C \<equiv> 3"
abbreviation (input) PAL_CHMAP_CHANNEL_LS :: nat where "PAL_CHMAP_CHANNEL_LS \<equiv> 4"
abbreviation (input) PAL_CHMAP_CHANNEL_RS :: nat where "PAL_CHMAP_CHANNEL_RS \<equiv> 5"
abbreviation (input) PAL_CHMAP_CHANNEL_LFE :: nat where "PAL_CHMAP_CHANNEL_LFE \<equiv> 6"
abbreviation (input) PAL_CHMAP_CHANNEL_RC :: nat where "PAL_CHMAP_CHANNEL_RC \<equiv> 7"
abbreviation (input) PAL_CHMAP_CHANNEL_CB :: nat where "PAL_CHMAP_CHANNEL_CB \<equiv> 7"
abbreviation (input) PAL_CHMAP_CHANNEL_LB :: nat where "PAL_CHMAP_CHANNEL_LB \<equiv> 8"
abbreviation (input) PAL_CHMAP_CHANNEL_RB :: nat where "PAL_CHMAP_CHANNEL_RB \<equiv> 9"
abbreviation (input) PAL_CHMAP_CHANNEL_TS :: nat where "PAL_CHMAP_CHANNEL_TS \<equiv> 10"
abbreviation (input) PAL_CHMAP_CHANNEL_CVH :: nat where "PAL_CHMAP_CHANNEL_CVH \<equiv> 11"
abbreviation (input) PAL_CHMAP_CHANNEL_TFC :: nat where "PAL_CHMAP_CHANNEL_TFC \<equiv> 11"
abbreviation (input) PAL_CHMAP_CHANNEL_MS :: nat where "PAL_CHMAP_CHANNEL_MS \<equiv> 12"
abbreviation (input) PAL_CHMAP_CHANNEL_FLC :: nat where "PAL_CHMAP_CHANNEL_FLC \<equiv> 13"
abbreviation (input) PAL_CHMAP_CHANNEL_FRC :: nat where "PAL_CHMAP_CHANNEL_FRC \<equiv> 14"
abbreviation (input) PAL_CHMAP_CHANNEL_RLC :: nat where "PAL_CHMAP_CHANNEL_RLC \<equiv> 15"
abbreviation (input) PAL_CHMAP_CHANNEL_RRC :: nat where "PAL_CHMAP_CHANNEL_RRC \<equiv> 16"
abbreviation (input) PAL_CHMAP_CHANNEL_LFE2 :: nat where "PAL_CHMAP_CHANNEL_LFE2 \<equiv> 17"
abbreviation (input) PAL_CHMAP_CHANNEL_SL :: nat where "PAL_CHMAP_CHANNEL_SL \<equiv> 18"
abbreviation (input) PAL_CHMAP_CHANNEL_SR :: nat where "PAL_CHMAP_CHANNEL_SR \<equiv> 19"
abbreviation (input) PAL_CHMAP_CHANNEL_TFL :: nat where "PAL_CHMAP_CHANNEL_TFL \<equiv> 20"
abbreviation (input) PAL_CHMAP_CHANNEL_LVH :: nat where "PAL_CHMAP_CHANNEL_LVH \<equiv> 20"
abbreviation (input) PAL_CHMAP_CHANNEL_TFR :: nat where "PAL_CHMAP_CHANNEL_TFR \<equiv> 21"
abbreviation (input) PAL_CHMAP_CHANNEL_RVH :: nat where "PAL_CHMAP_CHANNEL_RVH \<equiv> 21"
abbreviation (input) PAL_CHMAP_CHANNEL_TC :: nat where "PAL_CHMAP_CHANNEL_TC \<equiv> 22"
abbreviation (input) PAL_CHMAP_CHANNEL_TBL :: nat where "PAL_CHMAP_CHANNEL_TBL \<equiv> 23"
abbreviation (input) PAL_CHMAP_CHANNEL_TBR :: nat where "PAL_CHMAP_CHANNEL_TBR \<equiv> 24"
abbreviation (input) PAL_CHMAP_CHANNEL_TSL :: nat where "PAL_CHMAP_CHANNEL_TSL \<equiv> 25"
abbreviation (input) PAL_CHMAP_CHANNEL_TSR :: nat where "PAL_CHMAP_CHANNEL_TSR \<equiv> 26"
abbreviation (input) PAL_CHMAP_CHANNEL_TBC :: nat where "PAL_CHMAP_CHANNEL_TBC \<equiv> 27"
abbreviation (input) PAL_CHMAP_CHANNEL_BFC :: nat where "PAL_CHMAP_CHANNEL_BFC \<equiv> 28"
abbreviation (input) PAL_CHMAP_CHANNEL_BFL :: nat where "PAL_CHMAP_CHANNEL_BFL \<equiv> 29"
abbreviation (input) PAL_CHMAP_CHANNEL_BFR :: nat where "PAL_CHMAP_CHANNEL_BFR \<equiv> 30"
abbreviation (input) PAL_CHMAP_CHANNEL_LW :: nat where "PAL_CHMAP_CHANNEL_LW \<equiv> 31"
abbreviation (input) PAL_CHMAP_CHANNEL_RW :: nat where "PAL_CHMAP_CHANNEL_RW \<equiv> 32"
abbreviation (input) PAL_CHMAP_CHANNEL_LSD :: nat where "PAL_CHMAP_CHANNEL_LSD \<equiv> 33"

text \<open>Stream directions (lines 327-331).\<close>

abbreviation (input) PAL_AUDIO_OUTPUT :: nat where "PAL_AUDIO_OUTPUT \<equiv> 1"
abbreviation (input) PAL_AUDIO_INPUT :: nat where "PAL_AUDIO_INPUT \<equiv> 2"
abbreviation (input) PAL_AUDIO_INPUT_OUTPUT :: nat where "PAL_AUDIO_INPUT_OUTPUT \<equiv> 3"

text \<open>Stream types (lines 342-379).\<close>

abbreviation (input) PAL_STREAM_LOW_LATENCY :: nat where "PAL_STREAM_LOW_LATENCY \<equiv> 1"
abbreviation (input) PAL_STREAM_DEEP_BUFFER :: nat where "PAL_STREAM_DEEP_BUFFER \<equiv> 2"
abbreviation (input) PAL_STREAM_COMPRESSED :: nat where "PAL_STREAM_COMPRESSED \<equiv> 3"
abbreviation (input) PAL_STREAM_VOIP :: nat where "PAL_STREAM_VOIP \<equiv> 4"
abbreviation (input) PAL_STREAM_VOIP_RX :: nat where "PAL_STREAM_VOIP_RX \<equiv> 5"
abbreviation (input) PAL_STREAM_VOIP_TX :: nat where "PAL_STREAM_VOIP_TX \<equiv> 6"
abbreviation (input) PAL_STREAM_VOICE_CALL_MUSIC :: nat where "PAL_STREAM_VOICE_CALL_MUSIC \<equiv> 7"
abbreviation (input) PAL_STREAM_GENERIC :: nat where "PAL_STREAM_GENERIC \<equiv> 8"
abbreviation (input) PAL_STREAM_RAW :: nat where "PAL_STREAM_RAW \<equiv> 9"
abbreviation (input) PAL_STREAM_VOICE_RECOGNITION :: nat where "PAL_STREAM_VOICE_RECOGNITION \<equiv> 10"
abbreviation (input) PAL_STREAM_VOICE_CALL_RECORD :: nat where "PAL_STREAM_VOICE_CALL_RECORD \<equiv> 11"
abbreviation (input) PAL_STREAM_VOICE_CALL_TX :: nat where "PAL_STREAM_VOICE_CALL_TX \<equiv> 12"
abbreviation (input) PAL_STREAM_VOICE_CALL_RX_TX :: nat where "PAL_STREAM_VOICE_CALL_RX_TX \<equiv> 13"
abbreviation (input) PAL_STREAM_VOICE_CALL :: nat where "PAL_STREAM_VOICE_CALL \<equiv> 14"
abbreviation (input) PAL_STREAM_LOOPBACK :: nat where "PAL_STREAM_LOOPBACK \<equiv> 15"
abbreviation (input) PAL_STREAM_TRANSCODE :: nat where "PAL_STREAM_TRANSCODE \<equiv> 16"
abbreviation (input) PAL_STREAM_VOICE_UI :: nat where "PAL_STREAM_VOICE_UI \<equiv> 17"
abbreviation (input) PAL_STREAM_PCM_OFFLOAD :: nat where "PAL_STREAM_PCM_OFFLOAD \<equiv> 18"
abbreviation (input) PAL_STREAM_ULTRA_LOW_LATENCY :: nat where "PAL_STREAM_ULTRA_LOW_LATENCY \<equiv> 19"
abbreviation (input) PAL_STREAM_PROXY :: nat where "PAL_STREAM_PROXY \<equiv> 20"
abbreviation (input) PAL_STREAM_NON_TUNNEL :: nat where "PAL_STREAM_NON_TUNNEL \<equiv> 21"
abbreviation (input) PAL_STREAM_HAPTICS :: nat where "PAL_STREAM_HAPTICS \<equiv> 22"
abbreviation (input) PAL_STREAM_ACD :: nat where "PAL_STREAM_ACD \<equiv> 23"
abbreviation (input) PAL_STREAM_CONTEXT_PROXY :: nat where "PAL_STREAM_CONTEXT_PROXY \<equiv> 24"
abbreviation (input) PAL_STREAM_SENSOR_PCM_DATA :: nat where "PAL_STREAM_SENSOR_PCM_DATA \<equiv> 25"
abbreviation (input) PAL_STREAM_ULTRASOUND :: nat where "PAL_STREAM_ULTRASOUND \<equiv> 26"
abbreviation (input) PAL_STREAM_SPATIAL_AUDIO :: nat where "PAL_STREAM_SPATIAL_AUDIO \<equiv> 27"
abbreviation (input) PAL_STREAM_COMMON_PROXY :: nat where "PAL_STREAM_COMMON_PROXY \<equiv> 28"
abbreviation (input) PAL_STREAM_SENSOR_PCM_RENDERER :: nat where "PAL_STREAM_SENSOR_PCM_RENDERER \<equiv> 29"
abbreviation (input) PAL_STREAM_ASR :: nat where "PAL_STREAM_ASR \<equiv> 30"
abbreviation (input) PAL_STREAM_HPCM :: nat where "PAL_STREAM_HPCM \<equiv> 31"
abbreviation (input) PAL_STREAM_DUMMY :: nat where "PAL_STREAM_DUMMY \<equiv> 32"
abbreviation (input) PAL_STREAM_CALL_TRANSLATION :: nat where "PAL_STREAM_CALL_TRANSLATION \<equiv> 33"
abbreviation (input) PAL_STREAM_PLAYBACK_BUS :: nat where "PAL_STREAM_PLAYBACK_BUS \<equiv> 34"
abbreviation (input) PAL_STREAM_CAPTURE_BUS :: nat where "PAL_STREAM_CAPTURE_BUS \<equiv> 35"
abbreviation (input) PAL_STREAM_MAX :: nat where "PAL_STREAM_MAX \<equiv> 36"

text \<open>Devices (lines 382-450).\<close>

abbreviation (input) PAL_DEVICE_OUT_MIN :: nat where "PAL_DEVICE_OUT_MIN \<equiv> 0"
abbreviation (input) PAL_DEVICE_NONE :: nat where "PAL_DEVICE_NONE \<equiv> 1"
abbreviation (input) PAL_DEVICE_OUT_HANDSET :: nat where "PAL_DEVICE_OUT_HANDSET \<equiv> 2"
abbreviation (input) PAL_DEVICE_OUT_SPEAKER :: nat where "PAL_DEVICE_OUT_SPEAKER \<equiv> 3"
abbreviation (input) PAL_DEVICE_OUT_WIRED_HEADSET :: nat where "PAL_DEVICE_OUT_WIRED_HEADSET \<equiv> 4"
abbreviation (input) PAL_DEVICE_OUT_WIRED_HEADPHONE :: nat where "PAL_DEVICE_OUT_WIRED_HEADPHONE \<equiv> 5"
abbreviation (input) PAL_DEVICE_OUT_LINE :: nat where "PAL_DEVICE_OUT_LINE \<equiv> 6"
abbreviation (input) PAL_DEVICE_OUT_BLUETOOTH_SCO :: nat where "PAL_DEVICE_OUT_BLUETOOTH_SCO \<equiv> 7"
abbreviation (input) PAL_DEVICE_OUT_BLUETOOTH_A2DP :: nat where "PAL_DEVICE_OUT_BLUETOOTH_A2DP \<equiv> 8"
abbreviation (input) PAL_DEVICE_OUT_AUX_DIGITAL :: nat where "PAL_DEVICE_OUT_AUX_DIGITAL \<equiv> 9"
abbreviation (input) PAL_DEVICE_OUT_HDMI :: nat where "PAL_DEVICE_OUT_HDMI \<equiv> 10"
abbreviation (input) PAL_DEVICE_OUT_USB_DEVICE :: nat where "PAL_DEVICE_OUT_USB_DEVICE \<equiv> 11"
abbreviation (input) PAL_DEVICE_OUT_USB_HEADSET :: nat where "PAL_DEVICE_OUT_USB_HEADSET \<equiv> 12"
abbreviation (input) PAL_DEVICE_OUT_SPDIF :: nat where "PAL_DEVICE_OUT_SPDIF \<equiv> 13"
abbreviation (input) PAL_DEVICE_OUT_FM :: nat where "PAL_DEVICE_OUT_FM \<equiv> 14"
abbreviation (input) PAL_DEVICE_OUT_AUX_LINE :: nat where "PAL_DEVICE_OUT_AUX_LINE \<equiv> 15"
abbreviation (input) PAL_DEVICE_OUT_PROXY :: nat where "PAL_DEVICE_OUT_PROXY \<equiv> 16"
abbreviation (input) PAL_DEVICE_OUT_AUX_DIGITAL_1 :: nat where "PAL_DEVICE_OUT_AUX_DIGITAL_1 \<equiv> 17"
abbreviation (input) PAL_DEVICE_OUT_HEARING_AID :: nat where "PAL_DEVICE_OUT_HEARING_AID \<equiv> 18"
abbreviation (input) PAL_DEVICE_OUT_HAPTICS_DEVICE :: nat where "PAL_DEVICE_OUT_HAPTICS_DEVICE \<equiv> 19"
abbreviation (input) PAL_DEVICE_OUT_ULTRASOUND :: nat where "PAL_DEVICE_OUT_ULTRASOUND \<equiv> 20"
abbreviation (input) PAL_DEVICE_OUT_ULTRASOUND_DEDICATED :: nat where "PAL_DEVICE_OUT_ULTRASOUND_DEDICATED \<equiv> 21"
abbreviation (input) PAL_DEVICE_OUT_BLUETOOTH_BLE :: nat where "PAL_DEVICE_OUT_BLUETOOTH_BLE \<equiv> 22"
abbreviation (input) PAL_DEVICE_OUT_BLUETOOTH_BLE_BROADCAST :: nat where "PAL_DEVICE_OUT_BLUETOOTH_BLE_BROADCAST \<equiv> 23"
abbreviation (input) PAL_DEVICE_OUT_DUMMY :: nat where "PAL_DEVICE_OUT_DUMMY \<equiv> 24"
abbreviation (input) PAL_DEVICE_OUT_RECORD_PROXY :: nat where "PAL_DEVICE_OUT_RECORD_PROXY \<equiv> 25"
abbreviation (input) PAL_DEVICE_OUT_SOUND_DOSE :: nat where "PAL_DEVICE_OUT_SOUND_DOSE \<equiv> 26"
abbreviation (input) PAL_DEVICE_OUT_BLUETOOTH_HFP :: nat where "PAL_DEVICE_OUT_BLUETOOTH_HFP \<equiv> 27"
abbreviation (input) PAL_DEVICE_OUT_SPEAKER2 :: nat where "PAL_DEVICE_OUT_SPEAKER2 \<equiv> 28"
abbreviation (input) PAL_DEVICE_OUT_SPEAKER3 :: nat where "PAL_DEVICE_OUT_SPEAKER3 \<equiv> 29"
abbreviation (input) PAL_DEVICE_OUT_MAX :: nat where "PAL_DEVICE_OUT_MAX \<equiv> 30"
abbreviation (input) PAL_DEVICE_IN_MIN :: nat where "PAL_DEVICE_IN_MIN \<equiv> 30"
abbreviation (input) PAL_DEVICE_IN_HANDSET_MIC :: nat where "PAL_DEVICE_IN_HANDSET_MIC \<equiv> 31"
abbreviation (input) PAL_DEVICE_IN_SPEAKER_MIC :: nat where "PAL_DEVICE_IN_SPEAKER_MIC \<equiv> 32"
abbreviation (input) PAL_DEVICE_IN_BLUETOOTH_SCO_HEADSET :: nat where "PAL_DEVICE_IN_BLUETOOTH_SCO_HEADSET \<equiv> 33"
abbreviation (input) PAL_DEVICE_IN_WIRED_HEADSET :: nat where "PAL_DEVICE_IN_WIRED_HEADSET \<equiv> 34"
abbreviation (input) PAL_DEVICE_IN_AUX_DIGITAL :: nat where "PAL_DEVICE_IN_AUX_DIGITAL \<equiv> 35"
abbreviation (input) PAL_DEVICE_IN_HDMI :: nat where "PAL_DEVICE_IN_HDMI \<equiv> 36"
abbreviation (input) PAL_DEVICE_IN_USB_ACCESSORY :: nat where "PAL_DEVICE_IN_USB_ACCESSORY \<equiv> 37"
abbreviation (input) PAL_DEVICE_IN_USB_DEVICE :: nat where "PAL_DEVICE_IN_USB_DEVICE \<equiv> 38"
abbreviation (input) PAL_DEVICE_IN_USB_HEADSET :: nat where "PAL_DEVICE_IN_USB_HEADSET \<equiv> 39"
abbreviation (input) PAL_DEVICE_IN_FM_TUNER :: nat where "PAL_DEVICE_IN_FM_TUNER \<equiv> 40"
abbreviation (input) PAL_DEVICE_IN_LINE :: nat where "PAL_DEVICE_IN_LINE \<equiv> 41"
abbreviation (input) PAL_DEVICE_IN_SPDIF :: nat where "PAL_DEVICE_IN_SPDIF \<equiv> 42"
abbreviation (input) PAL_DEVICE_IN_PROXY :: nat where "PAL_DEVICE_IN_PROXY \<equiv> 43"
abbreviation (input) PAL_DEVICE_IN_HANDSET_VA_MIC :: nat where "PAL_DEVICE_IN_HANDSET_VA_MIC \<equiv> 44"
abbreviation (input) PAL_DEVICE_IN_BLUETOOTH_A2DP :: nat where "PAL_DEVICE_IN_BLUETOOTH_A2DP \<equiv> 45"
abbreviation (input) PAL_DEVICE_IN_HEADSET_VA_MIC :: nat where "PAL_DEVICE_IN_HEADSET_VA_MIC \<equiv> 46"
abbreviation (input) PAL_DEVICE_IN_VI_FEEDBACK :: nat where "PAL_DEVICE_IN_VI_FEEDBACK \<equiv> 47"
abbreviation (input) PAL_DEVICE_IN_TELEPHONY_RX :: nat where "PAL_DEVICE_IN_TELEPHONY_RX \<equiv> 48"
abbreviation (input) PAL_DEVICE_IN_ULTRASOUND_MIC :: nat where "PAL_DEVICE_IN_ULTRASOUND_MIC \<equiv> 49"
abbreviation (input) PAL_DEVICE_IN_EXT_EC_REF :: nat where "PAL_DEVICE_IN_EXT_EC_REF \<equiv> 50"
abbreviation (input) PAL_DEVICE_IN_ECHO_REF :: nat where "PAL_DEVICE_IN_ECHO_REF \<equiv> 51"
abbreviation (input) PAL_DEVICE_IN_HAPTICS_VI_FEEDBACK :: nat where "PAL_DEVICE_IN_HAPTICS_VI_FEEDBACK \<equiv> 52"
abbreviation (input) PAL_DEVICE_IN_BLUETOOTH_BLE :: nat where "PAL_DEVICE_IN_BLUETOOTH_BLE \<equiv> 53"
abbreviation (input) PAL_DEVICE_IN_CPS_FEEDBACK :: nat where "PAL_DEVICE_IN_CPS_FEEDBACK \<equiv> 54"
abbreviation (input) PAL_DEVICE_IN_DUMMY :: nat where "PAL_DEVICE_IN_DUMMY \<equiv> 55"
abbreviation (input) PAL_DEVICE_IN_CPS2_FEEDBACK :: nat where "PAL_DEVICE_IN_CPS2_FEEDBACK \<equiv> 56"
abbreviation (input) PAL_DEVICE_IN_RECORD_PROXY :: nat where "PAL_DEVICE_IN_RECORD_PROXY \<equiv> 57"
abbreviation (input) PAL_DEVICE_IN_BLUETOOTH_HFP :: nat where "PAL_DEVICE_IN_BLUETOOTH_HFP \<equiv> 58"
abbreviation (input) PAL_DEVICE_IN_SPEAKER_MIC2 :: nat where "PAL_DEVICE_IN_SPEAKER_MIC2 \<equiv> 59"
abbreviation (input) PAL_DEVICE_IN_SPEAKER_MIC3 :: nat where "PAL_DEVICE_IN_SPEAKER_MIC3 \<equiv> 60"
abbreviation (input) PAL_DEVICE_IN_MAX :: nat where "PAL_DEVICE_IN_MAX \<equiv> 61"

text \<open>Sound card states (lines 1734-1739).\<close>

abbreviation (input) CARD_STATUS_OFFLINE :: nat where "CARD_STATUS_OFFLINE \<equiv> 0"
abbreviation (input) CARD_STATUS_ONLINE :: nat where "CARD_STATUS_ONLINE \<equiv> 1"
abbreviation (input) CARD_STATUS_STANDBY :: nat where "CARD_STATUS_STANDBY \<equiv> 2"
abbreviation (input) CARD_STATUS_NONE :: nat where "CARD_STATUS_NONE \<equiv> 3"

definition PAL_CARD_STATUS_DOWN :: "int \<Rightarrow> bool" where
  "PAL_CARD_STATUS_DOWN n \<longleftrightarrow> n = int CARD_STATUS_OFFLINE \<or> n = int CARD_STATUS_STANDBY"

definition PAL_CARD_STATUS_UP :: "int \<Rightarrow> bool" where
  "PAL_CARD_STATUS_UP n \<longleftrightarrow> n = int CARD_STATUS_ONLINE"

section \<open>Records\<close>

text \<open>
  Floats (volumes) are reals: the code only compares them and takes differences; rounding is
  not modelled.  A C string is a HOL string.  \<open>pal_device_address\<close> stands for the USB and V1
  addresses, which the modelled code only copies.
\<close>

record pal_media_config =
  sample_rate :: nat
  bit_width :: nat
  aud_fmt_id :: nat
  channels :: nat
  ch_map :: "nat list"

record pal_device =
  dev_id :: nat
  config :: pal_media_config
  card_id :: nat
  sndDevName :: string
  custom_key :: string

record pal_stream_attributes =
  stype :: nat
  sflags :: nat
  direction :: nat
  in_media_config :: pal_media_config
  out_media_config :: pal_media_config
  has_address :: bool

record pal_channel_vol_kv =
  channel_mask :: nat
  vol :: real

record pal_volume_data =
  no_of_volpair :: nat
  volume_pair :: "pal_channel_vol_kv list"

record pal_device_info =
  di_channels :: int
  di_max_channels :: int
  di_samplerate :: int
  di_sndDevName :: string
  isExternalECRefEnabledFlag :: bool
  isUSBUUIdBasedTuningEnabledFlag :: bool
  priority :: nat
  fractionalSRSupported :: bool
  channels_overwrite :: bool
  samplerate_overwrite :: bool
  sndDevName_overwrite :: bool
  bit_width_overwrite :: bool
  di_bit_width :: nat
  bitFormatSupported :: nat
  is32BitSupported :: bool

datatype stream_state_t =
  STREAM_IDLE | STREAM_INIT | STREAM_OPENED | STREAM_STARTED | STREAM_PAUSED
| STREAM_SUSPENDED | STREAM_STOPPED

end
