(* ===== verification/ST_Platform.thy ===== *)
theory ST_Platform
  imports Pal_Defs "HOL-Library.Word" "HOL-Library.List_Lexorder"
begin

text \<open>
  The values the sound trigger platform files hold (\<^verbatim>\<open>utils/inc/SoundTriggerPlatformInfo.h\<close>,
  \<^verbatim>\<open>utils/inc/VoiceUIPlatformInfo.h\<close>): vendor UUIDs and their order, capture profiles and their
  priorities, the configuration of a voice UI stream.
\<close>

section \<open>UUIDs\<close>

text \<open>\<^verbatim>\<open>class SoundTriggerUUID\<close>: the fields at their widths, the array \<^verbatim>\<open>node\<close> of six
  bytes as six components.\<close>

datatype uuid_node = Node "8 word" "8 word" "8 word" "8 word" "8 word" "8 word"

fun node_bytes :: "uuid_node \<Rightarrow> 8 word list" where
  "node_bytes (Node a b c d e f) = [a, b, c, d, e, f]"

datatype SoundTriggerUUID =
  UUID (timeLow: "32 word") (timeMid: "16 word") (timeHiAndVersion: "16 word") (clockSeq: "16 word")
    (node: uuid_node)

text \<open>The loop over the bytes of \<^verbatim>\<open>node\<close> in \<^verbatim>\<open>operator<\<close>.\<close>

fun node_loop :: "8 word list \<Rightarrow> 8 word list \<Rightarrow> bool" where
  "node_loop (x # xs) (y # ys) = (if x > y then False else if x < y then True else node_loop xs ys)"
| "node_loop xs ys = False"

definition uuid_operator_less :: "SoundTriggerUUID \<Rightarrow> SoundTriggerUUID \<Rightarrow> bool" where
  "uuid_operator_less u rhs =
     (if timeLow u > timeLow rhs then False
      else if timeLow u < timeLow rhs then True
      else if timeMid u > timeMid rhs then False
      else if timeMid u < timeMid rhs then True
      else if timeHiAndVersion u > timeHiAndVersion rhs then False
      else if timeHiAndVersion u < timeHiAndVersion rhs then True
      else if clockSeq u > clockSeq rhs then False
      else if clockSeq u < clockSeq rhs then True
      else node_loop (node_bytes (node u)) (node_bytes (node rhs)))"

definition CompareUUID :: "SoundTriggerUUID \<Rightarrow> SoundTriggerUUID \<Rightarrow> bool" where
  "CompareUUID u uuid =
     (if timeLow uuid \<noteq> timeLow u \<or> timeMid uuid \<noteq> timeMid u \<or>
        timeHiAndVersion uuid \<noteq> timeHiAndVersion u \<or> clockSeq uuid \<noteq> clockSeq u
      then False
      else list_all (\<lambda>i. node_bytes (node uuid) ! i = node_bytes (node u) ! i) [0..<6])"

text \<open>The reference: the ten numbers of a UUID, most significant first, compared as lists.\<close>

definition uuid_key :: "SoundTriggerUUID \<Rightarrow> nat list" where
  "uuid_key u = unat (timeLow u) # unat (timeMid u) # unat (timeHiAndVersion u) # unat (clockSeq u)
     # List.map unat (node_bytes (node u))"

lemma uuid_key_inj: "uuid_key u = uuid_key v \<longleftrightarrow> u = v"
proof
  assume "uuid_key u = uuid_key v"
  then show "u = v"
    by (cases u; cases v; cases "node u"; cases "node v") (simp add: uuid_key_def word_unat_eq_iff)
qed simp

lemma node_loop_key:
  "length xs = length ys \<Longrightarrow> node_loop xs ys \<longleftrightarrow> List.map unat xs < List.map unat ys"
  by (induction xs ys rule: node_loop.induct) (auto simp: word_less_nat_alt)

lemma length_node_bytes [simp]: "length (node_bytes n) = 6"
  by (cases n) simp

lemma uuid_less_key: "uuid_operator_less u v \<longleftrightarrow> uuid_key u < uuid_key v"
  by (auto simp: uuid_operator_less_def uuid_key_def node_loop_key word_less_nat_alt word_unat_eq_iff)

text \<open>Hence the order is the library's linear order, and maps keyed by UUIDs are well defined.\<close>

instantiation SoundTriggerUUID :: linorder
begin

definition less_SoundTriggerUUID :: "SoundTriggerUUID \<Rightarrow> SoundTriggerUUID \<Rightarrow> bool" where
  "less_SoundTriggerUUID = uuid_operator_less"

definition less_eq_SoundTriggerUUID :: "SoundTriggerUUID \<Rightarrow> SoundTriggerUUID \<Rightarrow> bool" where
  "less_eq_SoundTriggerUUID u v \<longleftrightarrow> u = v \<or> uuid_operator_less u v"

instance
proof
  fix u v x :: SoundTriggerUUID
  note defs = less_SoundTriggerUUID_def less_eq_SoundTriggerUUID_def uuid_less_key
  show "(u < v) = (u \<le> v \<and> \<not> v \<le> u)" by (auto simp: defs)
  show "u \<le> u" by (simp add: defs)
  show "u \<le> x" if "u \<le> v" "v \<le> x" using that by (auto simp: defs)
  show "u = v" if "u \<le> v" "v \<le> u" using that by (auto simp: defs)
  show "u \<le> v \<or> v \<le> u" by (metis defs linorder_neqE uuid_key_inj)
qed

end

section \<open>Capture profiles\<close>

record CaptureProfile =
  cp_name :: string
  cp_device_id :: nat
  cp_sample_rate :: nat
  cp_channels :: nat
  cp_bitwidth :: nat
  cp_snd_name :: string
  cp_is_ec_req :: bool
  cp_backend :: string

abbreviation (input) CAPTURE_PROFILE_PRIORITY_HIGH :: int where "CAPTURE_PROFILE_PRIORITY_HIGH \<equiv> 1"

definition new_CaptureProfile :: "string \<Rightarrow> CaptureProfile" where
  "new_CaptureProfile name = \<lparr>cp_name = name, cp_device_id = PAL_DEVICE_IN_MIN, cp_sample_rate = 16000,
     cp_channels = 1, cp_bitwidth = 16, cp_snd_name = ''va-mic'', cp_is_ec_req = False, cp_backend = ''va_macro''\<rparr>"

definition vote :: "nat \<Rightarrow> nat \<Rightarrow> int" where
  "vote a b = (if a \<noteq> b then (if a > b then 1 else - 1) else 0)"

definition ComparePriority :: "CaptureProfile \<Rightarrow> CaptureProfile option \<Rightarrow> int" where
  "ComparePriority p cap_prof =
     (case cap_prof of
        None \<Rightarrow> CAPTURE_PROFILE_PRIORITY_HIGH
      | Some q \<Rightarrow>
          if cp_backend p \<noteq> cp_backend q then - EINVAL
          else vote (cp_channels p) (cp_channels q) + vote (cp_sample_rate p) (cp_sample_rate q)
             + vote (cp_bitwidth p) (cp_bitwidth q))"

text \<open>\<open>higher p q\<close> is how every caller reads the result.\<close>

definition higher :: "CaptureProfile \<Rightarrow> CaptureProfile option \<Rightarrow> bool" where
  "higher p q \<longleftrightarrow> ComparePriority p q \<ge> CAPTURE_PROFILE_PRIORITY_HIGH"

section \<open>Configuration of a voice UI stream\<close>

datatype StOperatingModes =
  ST_OPERATING_MODE_LOW_POWER | ST_OPERATING_MODE_LOW_POWER_NS | ST_OPERATING_MODE_LOW_POWER_TX_MACRO
| ST_OPERATING_MODE_HIGH_PERF | ST_OPERATING_MODE_HIGH_PERF_NS | ST_OPERATING_MODE_HIGH_PERF_TX_MACRO
| ST_OPERATING_MODE_HIGH_PERF_AND_CHARGING

datatype StInputModes = ST_INPUT_MODE_HANDSET | ST_INPUT_MODE_HEADSET

text \<open>Sound model and module types (\<^verbatim>\<open>SoundTriggerUtils.h\<close>, lines 91-119).\<close>

abbreviation (input) ST_SM_ID_SVA_F_STAGE_GMM :: nat where "ST_SM_ID_SVA_F_STAGE_GMM \<equiv> 1"
abbreviation (input) ST_SM_ID_SVA_S_STAGE_USER :: nat where "ST_SM_ID_SVA_S_STAGE_USER \<equiv> 4"
abbreviation (input) ST_SM_ID_SVA_S_STAGE_KWD :: nat where "ST_SM_ID_SVA_S_STAGE_KWD \<equiv> 74"
abbreviation (input) ST_SM_ID_SVA_S_STAGE_CTIUV :: nat where "ST_SM_ID_SVA_S_STAGE_CTIUV \<equiv> 128"
abbreviation (input) ST_MODULE_TYPE_NONE :: nat where "ST_MODULE_TYPE_NONE \<equiv> 0"
abbreviation (input) ST_MODULE_TYPE_GMM :: nat where "ST_MODULE_TYPE_GMM \<equiv> 3"
abbreviation (input) ST_MODULE_TYPE_PDK5 :: nat where "ST_MODULE_TYPE_PDK5 \<equiv> 5"
abbreviation (input) ST_MODULE_TYPE_PDK6 :: nat where "ST_MODULE_TYPE_PDK6 \<equiv> 6"
abbreviation (input) ST_MODULE_TYPE_MFCN :: nat where "ST_MODULE_TYPE_MFCN \<equiv> 8"
abbreviation (input) ST_MODULE_TYPE_PDK :: nat where "ST_MODULE_TYPE_PDK \<equiv> 100"
abbreviation (input) ST_MODULE_TYPE_MMA :: nat where "ST_MODULE_TYPE_MMA \<equiv> 200"
abbreviation (input) ST_MODULE_TYPE_HIST_CAP :: nat where "ST_MODULE_TYPE_HIST_CAP \<equiv> 300"

definition IS_MODULE_TYPE_PDK :: "nat \<Rightarrow> bool" where
  "IS_MODULE_TYPE_PDK t \<longleftrightarrow> t = ST_MODULE_TYPE_PDK5 \<or> t = ST_MODULE_TYPE_PDK6 \<or> t = ST_MODULE_TYPE_MFCN"

record VUIFirstStageConfig =
  fs_module_type :: nat
  fs_module_name :: string
  fs_lpi_supported :: bool
  fs_enable_lpi_lab_ec :: bool

text \<open>The members of \<^verbatim>\<open>class VUIStreamConfig\<close> that streams read; maps are functions.  The two
  lookups \<^verbatim>\<open>GetVUIFirstStageConfig\<close> differ: by the UUID of the configuration, and by module type.\<close>

record VUIStreamConfig =
  vc_lpi_enable :: bool
  vc_sample_rate :: nat
  vc_bit_width :: nat
  vc_out_channels :: nat
  vc_capture_keyword :: nat
  vc_pre_roll_duration :: nat
  vc_client_capture_read_delay :: nat
  vc_mmap_enable :: bool
  vc_mmap_buffer_duration :: nat
  vc_mmap_frame_length :: nat
  vc_merge_first_stage_sound_models :: bool
  vc_supported_first_stage_engine_count :: nat
  vc_ext_det_prop_list :: "nat list"
  vc_op_modes :: "StOperatingModes \<times> StInputModes \<Rightarrow> CaptureProfile option"
  vc_1st_stage_cfg_list :: "nat \<Rightarrow> VUIFirstStageConfig option"
  vc_uuid_1st_stage_cfg :: "VUIFirstStageConfig option"

definition GetVUIFirstStageConfig :: "VUIStreamConfig \<Rightarrow> nat \<Rightarrow> VUIFirstStageConfig option" where
  "GetVUIFirstStageConfig c t =
     vc_1st_stage_cfg_list c (if IS_MODULE_TYPE_PDK t then ST_MODULE_TYPE_PDK else t)"

definition GetVUIModuleType :: "VUIStreamConfig \<Rightarrow> nat" where
  "GetVUIModuleType c =
     (case vc_uuid_1st_stage_cfg c of Some i \<Rightarrow> fs_module_type i | None \<Rightarrow> ST_MODULE_TYPE_NONE)"

definition GetEnableLPILabEC :: "VUIStreamConfig \<Rightarrow> nat \<Rightarrow> bool" where
  "GetEnableLPILabEC c t =
     (case GetVUIFirstStageConfig c t of Some i \<Rightarrow> fs_enable_lpi_lab_ec i | None \<Rightarrow> False)"

section \<open>What a client hands in\<close>

text \<open>\<^verbatim>\<open>pal_st_sound_model\<close> with what of \<^verbatim>\<open>pal_st_phrase_sound_model\<close> the code reads: the number
  of phrases and the recognition mode of the first one.\<close>

abbreviation (input) PAL_SOUND_MODEL_TYPE_KEYPHRASE :: int where "PAL_SOUND_MODEL_TYPE_KEYPHRASE \<equiv> 0"
abbreviation (input) PAL_SOUND_MODEL_TYPE_GENERIC :: int where "PAL_SOUND_MODEL_TYPE_GENERIC \<equiv> 1"
abbreviation (input) PAL_RECOGNITION_MODE_VOICE_TRIGGER :: nat where "PAL_RECOGNITION_MODE_VOICE_TRIGGER \<equiv> 1"
abbreviation (input) PAL_RECOGNITION_STATUS_SUCCESS :: nat where "PAL_RECOGNITION_STATUS_SUCCESS \<equiv> 0"
abbreviation (input) PAL_RECOGNITION_STATUS_ABORT :: nat where "PAL_RECOGNITION_STATUS_ABORT \<equiv> 1"
abbreviation (input) PAL_RECOGNITION_STATUS_FAILURE :: nat where "PAL_RECOGNITION_STATUS_FAILURE \<equiv> 2"

record pal_st_sound_model =
  sm_type :: int
  vendor_uuid :: SoundTriggerUUID
  sm_data_size :: nat
  sm_data_offset :: nat
  sm_num_phrases :: nat
  sm_recognition_mode :: nat

record pal_st_phrase_recognition_extra =
  ph_id :: nat
  ph_recognition_modes :: nat
  ph_confidence_level :: nat
  ph_num_levels :: nat
  ph_levels :: "(nat \<times> nat) list"

record pal_st_recognition_config =
  capture_handle :: int
  capture_device :: nat
  capture_requested :: bool
  num_phrases :: nat
  phrases :: "pal_st_phrase_recognition_extra list"
  rc_data_size :: nat
  rc_data_offset :: nat
  rc_data :: "nat list"

section \<open>Properties\<close>

text \<open>
  C40: The order of vendor UUIDs that the maps of configurations are sorted by is the
  lexicographic order of their ten fields; two UUIDs neither of which is smaller are exactly the
  ones \<open>CompareUUID\<close> accepts, which are the equal ones, so a lookup finds a configuration if and
  only if its UUID is the one asked for.
\<close>

theorem uuid_order_lexicographic:
  "(uuid_operator_less u v \<longleftrightarrow> uuid_key u < uuid_key v) \<and>
   (CompareUUID u v \<longleftrightarrow> \<not> uuid_operator_less u v \<and> \<not> uuid_operator_less v u) \<and>
   (CompareUUID u v \<longleftrightarrow> u = v)"
proof -
  have "CompareUUID u v \<longleftrightarrow> u = v"
    by (cases u; cases v; cases "node u"; cases "node v")
       (auto simp: CompareUUID_def list_all_iff upt_rec numeral_eq_Suc)
  then show ?thesis
    using uuid_key_inj [of u v] by (auto simp: uuid_less_key)
qed

text \<open>
  Whether one capture profile takes precedence over another is decided by a majority of
  three criteria, so the relation is not transitive: three profiles of one backend can each be
  beaten by the next.
\<close>

theorem priority_cycle:
  "\<exists>p q r. cp_backend p = cp_backend q \<and> cp_backend q = cp_backend r \<and>
     higher q (Some p) \<and> higher r (Some q) \<and> higher p (Some r)"
proof -
  let ?p = "\<lambda>c sr bw. (new_CaptureProfile ''p'')\<lparr>cp_channels := c, cp_sample_rate := sr, cp_bitwidth := bw\<rparr>"
  have "cp_backend (?p 1 16000 32) = cp_backend (?p 2 48000 16) \<and>
      cp_backend (?p 2 48000 16) = cp_backend (?p 4 8000 24) \<and>
      higher (?p 2 48000 16) (Some (?p 1 16000 32)) \<and> higher (?p 4 8000 24) (Some (?p 2 48000 16)) \<and>
      higher (?p 1 16000 32) (Some (?p 4 8000 24))"
    by (simp add: higher_def ComparePriority_def vote_def new_CaptureProfile_def)
  then show ?thesis by blast
qed

end
