(* ===== verification/Pal_World.thy ===== *)
theory Pal_World
  imports ST_Platform "HOL-Library.State_Monad"
begin

text \<open>
  The state the components share and the steps they are built from.  A \<open>world\<close> holds every
  device object (\<open>wdev\<close>, by address), every stream object (\<open>wstr\<close>, and \<open>wst\<close> for the members
  of sound trigger streams), the resource manager (\<open>wrm\<close>), the globals of the sound trigger
  utilities (\<open>wstu\<close>) and the log of all interactions with what lies outside the modelled components:
  the session layer, the mixer, the audio route, the C library.  Operations are state monad
  programs over the world, written in the order of the statements of the source.

  Every value that comes from outside is an answer of the environment \<open>env\<close>, which sees the
  whole log, so that a session may fail at any call, the sound card may go offline between
  any two calls and \<^verbatim>\<open>errno\<close> may hold anything.  Locks are calls in the log too, and
  \<open>held\<close> replays them.
\<close>

section \<open>Objects\<close>

text \<open>\<^verbatim>\<open>class Device\<close> of \<^verbatim>\<open>device/inc/Device.h\<close>; the multimap \<^verbatim>\<open>mStreamDevAttr\<close> is
  the list of its entries in iteration order.\<close>

record Device =
  created :: bool
  mPALDeviceName :: string
  deviceAttr :: pal_device
  deviceCount :: int
  deviceStartStopCount :: int
  mSndDeviceName :: string
  customPayload :: "nat list option"
  customPayloadSize :: nat
  UpdatedSndName :: string
  mCurrentPriority :: nat
  mStreamDevAttr :: "(nat \<times> nat \<times> pal_device) list"
  mSampleRate :: nat
  mBitWidth :: nat

text \<open>\<^verbatim>\<open>class Stream\<close> of \<^verbatim>\<open>stream/inc/Stream.h\<close>; \<^verbatim>\<open>StreamPCM\<close> adds no field.  A null
  pointer is \<open>None\<close>; \<open>session\<close> says whether the session object exists.\<close>

record Stream =
  mInitialized :: bool
  mDevices :: "nat list"
  mPalDevices :: "nat list"
  session :: bool
  mStreamAttr :: "pal_stream_attributes option"
  deviceMuteStateRx :: bool
  deviceMuteStateTx :: bool
  mGainLevel :: int
  inBufSize :: nat
  outBufSize :: nat
  inBufCount :: nat
  outBufCount :: nat
  inMaxMetadataSz :: nat
  outMaxMetadataSz :: nat
  currentState :: stream_state_t
  cachedState :: stream_state_t
  mInstanceID :: nat
  skipSSRHandling :: bool
  mInUse :: "int option"
  mVolumeData :: "pal_volume_data option"
  streamCb :: nat
  cookie :: nat
  isPaused :: bool
  a2dpMuted :: bool
  unMutePending :: bool
  a2dpPaused :: bool
  isMMap :: bool
  isComboHeadsetActive :: bool
  suspendedOutDevIds :: "nat list"
  mStreamSelector :: string

text \<open>The part of \<^verbatim>\<open>class ResourceManager\<close> the modelled operations use.  Tables that the
  source indexes by device id are functions.\<close>

record group_dev_config_t =
  grp_sample_rate :: nat
  grp_channels :: nat
  grp_aud_fmt_id :: nat
  grp_slot_mask :: nat

text \<open>\<^verbatim>\<open>struct deviceIn\<close>, \<^verbatim>\<open>usecase_info\<close> and \<^verbatim>\<open>usecase_custom_config_info\<close>: what
  the platform file says of a device, in general, for a stream type and for a custom key.\<close>

record usecase_custom_config_info =
  cc_key :: string
  cc_sndDevName :: string
  cc_channel :: int
  cc_samplerate :: int
  cc_priority :: nat
  cc_bit_width :: nat
  cc_ec_enable :: bool

record usecase_info =
  uc_type :: nat
  uc_samplerate :: int
  uc_sndDevName :: string
  uc_channel :: int
  uc_config :: "usecase_custom_config_info list"
  uc_priority :: nat
  uc_bit_width :: nat
  uc_ec_enable :: bool

record deviceIn =
  dv_deviceId :: nat
  dv_max_channel :: int
  dv_channel :: int
  dv_samplerate :: int
  dv_usecase :: "usecase_info list"
  dv_sndDevName :: string
  dv_isExternalECRefEnabled :: bool
  dv_isUSBUUIdBasedTuningEnabled :: bool
  dv_fractionalSRSupported :: bool
  dv_bit_width :: nat
  dv_bitFormatSupported :: nat
  dv_is32BitSupported :: bool
  dv_ec_enable :: bool
  dv_rx_dev_ids :: "nat list"
  dv_ec_ref_count_map :: "(nat \<times> (nat \<times> int) list) list"

text \<open>\<^verbatim>\<open>vote_type_t\<close> of \<^verbatim>\<open>inc/PalDefs.h\<close>.\<close>

datatype vote_type_t = LPI_VOTE | NLPI_VOTE | AVOID_VOTE

record RM =
  deviceInfo :: "deviceIn list"
  listAllBackEndIds :: "nat \<Rightarrow> string"
  sndDeviceNameLUT :: "nat \<Rightarrow> string"
  deviceLinkName :: "nat \<Rightarrow> string"
  devicePcmId :: "nat \<Rightarrow> int"
  deviceNameLUT :: "nat \<Rightarrow> string"
  isVbatEnabled :: bool
  isSpeakerProtectionEnabled :: bool
  isDeviceDedicatedBEEnabled :: bool
  isQmpEnabled :: bool
  isDummyDevEnabled :: bool
  isUPDVirtualPortEnabled :: bool
  isI2sDualMonoEnabled :: bool
  isUpdSetCustomGainEnabled :: bool
  is_multiple_sample_rate_combo_supported :: bool
  isVolumeUsingSetParam :: bool
  volumeSetParamStreams :: "nat list"
  num_proxy_channels :: nat
  isProxyRecordActive :: bool
  activeGroupDevConfig :: "group_dev_config_t option"
  currentGroupDevConfig :: "group_dev_config_t option"
  avail_devices :: "nat list"
  active_devices :: "(nat \<times> nat) list"
  mActiveStreams :: "nat list"
  activeStreamMap :: "nat \<Rightarrow> nat list option"
  mActiveStreamUserCounter :: "nat \<Rightarrow> (nat \<times> bool) option"
  maxSessionMap :: "nat \<Rightarrow> nat option"
  wake_lock_fd :: int
  wake_unlock_fd :: int
  wake_lock_cnt :: int
  callback_event :: bool
  globalCb :: bool
  cardState :: nat
  msgQ :: "nat list"
  isContextManagerEnabled :: bool
  isDeviceSwitch :: bool
  txEcInfo :: "(nat \<times> nat list) list"
  sleepmon_fd :: int
  lpi_counter :: int
  nlpi_counter :: int
  sleep_monitor_vote_type :: "nat \<Rightarrow> vote_type_t"
  stream_instances :: "nat \<Rightarrow> 64 word"
  in_stream_instances :: "nat \<Rightarrow> 64 word"
  STInstancesLists :: "(string \<times> (nat \<times> bool) list) list"
  mNTStreamInstancesList :: "nat \<Rightarrow> nat \<Rightarrow> bool option"
  max_session_num :: nat
  max_nt_sessions :: nat

text \<open>\<^verbatim>\<open>class StreamSoundTrigger\<close>, what it adds to \<^verbatim>\<open>class Stream\<close> (\<^verbatim>\<open>force_nlpi_vote\<close> is a member
  of the base class only these streams use).  The state objects are their ids, a null state is
  \<open>ST_STATE_NONE\<close>; an engine is its address, paired with its id in \<open>engines\<close>.\<close>

datatype st_state_id_t =
  ST_STATE_NONE | ST_STATE_IDLE | ST_STATE_LOADED | ST_STATE_ACTIVE | ST_STATE_DETECTED
| ST_STATE_BUFFERING | ST_STATE_SSR

record StreamSoundTrigger =
  cur_state :: st_state_id_t
  prev_state :: st_state_id_t
  state_for_restore :: st_state_id_t
  paused :: bool
  device_opened :: bool
  pending_stop :: bool
  timer_stop_waiting :: bool
  exit_timer_thread :: bool
  rejection_notified :: bool
  mutex_unlocked_after_cb :: bool
  common_cp_update_disable :: bool
  second_stage_processing :: bool
  is_backend_shared :: bool
  is_abort_event_notifying :: bool
  batchModeReadDone :: bool
  capture_requested_flag :: bool
  conc_notified :: bool
  force_nlpi_vote :: bool
  vote_lpi :: bool
  st_callback :: nat
  sound_model_type :: int
  sm_cfg :: "VUIStreamConfig option"
  sm_config :: "pal_st_sound_model option"
  rec_config :: "pal_st_recognition_config option"
  engines :: "(nat \<times> nat) list"
  gsl_engine :: "nat option"
  gsl_engine_model :: "nat option"
  vui_intf :: bool
  st_reader :: bool
  reader_list :: nat
  detection_state :: nat
  notification_state :: nat
  recognition_mode :: nat
  model_id :: nat
  model_type :: nat
  hist_buf_duration :: nat
  pre_roll_duration :: nat
  ec_rx_dev :: "nat option"
  cap_prof :: "CaptureProfile option"
  dattr_specified :: "pal_device option"

text \<open>The globals of \<^verbatim>\<open>utils/src/STUtils.cpp\<close> and the flags of the platform files they are
  read with.\<close>

datatype defer_switch_state_t = NO_DEFER | DEFER_LPI_NLPI_SWITCH | DEFER_NLPI_LPI_SWITCH

record STUtils =
  TxconcurrencyEnableCount :: int
  concurrencyDisableCount :: int
  ACDConcurrencyDisableCount :: int
  ASRConcurrencyDisableCount :: int
  SNSPCMDataConcurrencyDisableCount :: int
  deferredSwitchState :: defer_switch_state_t
  deferred_switch_cnt :: int
  SoundTriggerCaptureProfile :: "CaptureProfile option"
  TXMacroCaptureProfile :: "CaptureProfile option"
  mStCaptureInfo :: "int \<Rightarrow> nat option"
  mNLPIStreams :: "nat set"
  mStartDeferredStreams :: "nat list"
  onResourceAvailCbList :: "(nat \<times> nat) list"
  use_lpi :: bool
  charging_state :: bool
  support_nlpi_switch :: bool
  support_device_switch :: bool
  concurrent_capture :: bool
  concurrent_voice_call :: bool
  concurrent_voip_call :: bool
  low_latency_bargein_enable :: bool
  IsCRSCallEnabled :: bool
  IsTransitToNonLPIOnChargingSupported :: bool
  notify_second_stage_failure :: bool
  stream_cfg_list :: "SoundTriggerUUID \<Rightarrow> VUIStreamConfig option"

section \<open>Calls that leave the model\<close>

datatype lock_id =
  ActiveStreamMutex | StreamMutex nat | PauseMutex | GraphMutex | ResourceManagerMutex
| DeviceMutex nat | GetParamMutex nat | VuiSwitchMutex | StUtilsMutex | TimerMutex nat
| PalMutex | BaseStreamMutex | SleepMonitorMutex | CvMutex

text \<open>\<open>sess_op\<close> is one constructor per virtual method of \<^verbatim>\<open>class Session\<close> the streams call.\<close>

datatype (plugins only: code size) sess_op =
  SOpen | SClose | SPrepare | SStart | SStop | SPause | SResume | SFlush
| SSetVolume | SSetParameters nat | SMute bool | SRead nat | SWrite nat
| SAddRemoveEffect nat bool | SSetECRef nat bool | SCreateMmapBuffer int | SGetMmapPosition
| SSetupSessionDevice nat | SConnectSessionDevice nat | SDisconnectSessionDevice nat
| SGetTimestamp | SSetCustomParam string | SGetCustomParam string | SDelete

text \<open>The virtual methods of \<^verbatim>\<open>class SoundTriggerEngine\<close>, of the voice UI interface a plugin
  provides and of the reader of the detection buffer that a sound trigger stream calls.\<close>

datatype (plugins only: code size) eng_op =
  ELoadSoundModel | EUnloadSoundModel | EStartRecognition | ERestartRecognition | EStopRecognition
| EUpdateBufConfig nat nat | ECreateBuffer nat nat | ESetBufferReader | EResetBufferReaders
| ESetupSessionDevice nat | EConnectSessionDevice nat | EDisconnectSessionDevice nat bool
| EReconfigureDetectionGraph | ESetECRef "nat option" bool bool | ECheckForStartRecognition
| EForceRecognition | EIsBatchMode | EReadIfBatchMode | ESetDetected nat | ESetCaptureRequested bool
| EGetUpdatedBufConfig | EGetParameters nat | EGetVoiceUIInterface | ESetVoiceUIInterface | EFillMmapBufInfo | EGetMmapPosition

datatype vui_op =
  VGetInterface | VRelease | VDetachStream | VSetParameter string | VGetParameter string | VProcessLabData int

datatype reader_op =
  RReset | RUpdateState nat | RRead nat | RGetUnreadSize | RGetBufferSize | RGetKwData nat
| RAdvanceReadOffset nat | RIsEnabled | RIsPrepared | RDelete

text \<open>The virtual methods of a stream that the concurrency handling of \<^verbatim>\<open>STUtils.cpp\<close> calls.\<close>

datatype st_call =
  CPause bool | CResume bool | CHandleConcurrentStream bool | CDisconnectDevice nat | CConnectDevice nat
| CStart_l

datatype (plugins only: code size) st_event =
  Eng nat nat eng_op | EngCreate nat nat nat | Vui nat vui_op | Reader nat reader_op
| StreamCall nat st_call | StreamIsActive nat | StreamConfigSupportLPI nat | StreamInBuffering nat
| WakeLockWrite bool | VoteSleepMonitorForced bool | TimerNotify nat bool | TryLock lock_id
| ClientCallback nat nat | ResourcesAvailable nat nat | ConcurrentStreamStatus nat bool
| GetStreamInstanceID nat | CheckECRef nat nat | SleepMs nat | SwitchNotify

text \<open>What the client interface and the resource manager call outside the modelled components:
  the parts of the start-up, the plugin manager, the callbacks of the client, the parameters and
  handlers of other classes.  \<open>Hang\<close> marks a wait that no step of the same thread can end.\<close>

datatype (plugins only: code size) rm_event =
  RmGetInstance | InitSndMonitor | RmInit | InitContextManager | InitHapticsInterface
| DeInitContextManager | RmDeinit
| EventCallback nat "nat list" "nat list" bool | GlobalCallback nat
| OpenPlugin nat | ClosePlugin nat | CreateStream nat | IsStreamSupported nat
| CheckGroupDevConfig nat | CheckHeadsetDevConfig nat | CreateFailureCallback nat
| CtxSsrDown | CtxSsrUp | UpdateCaptureProfiles | CvWait | CvNotify
| SleepMonIoctl nat | VoteType nat
| RmSetParameter nat | RmGetParameter nat | RmCustomParam bool string
| CshmAlloc nat | CshmDealloc nat | Hang nat | SwitchDevice nat "nat list"
| StreamSetECRef nat "nat option" bool

datatype (plugins only: code size) event =
  Lock lock_id | Unlock lock_id
| Sess nat sess_op
| MakeSession nat
| GetSoundCardState | Errno | SsrHandler nat | Usleep nat | AllocFails nat
| GetInstance nat | IsDeviceReady nat | IsA2dpSuspended nat | IsDeviceConnected nat
| IsPluginPlaybackDevice nat | IsSsrDownFeasible nat
| GetAudioRoute | GetVirtualAudioMixer | GetHwAudioMixer
| EnableDevice string | DisableDevice string | InitHdrRoutine string
| MixerGetCtl string | MixerSetArray string "nat list" | MixerSetValue string nat
| VoteSleepMonitor bool
| CheckAndSetDutyCycleParam | CheckandEnableEC nat nat bool | SetUltrasoundGain nat nat
| UpdateDeviceConfig nat | RestoreDevice nat | ResetStreamInstanceID nat
| GetDeviceConfig nat | ChargerBoost nat
| ZeroBuffer nat | OutOfBounds | St st_event | Rm rm_event

record world =
  wdev :: "nat \<Rightarrow> Device"
  wstr :: "nat \<Rightarrow> Stream"
  wrm :: RM
  wst :: "nat \<Rightarrow> StreamSoundTrigger"
  wstu :: STUtils
  pal_init_ref_cnt :: "32 word"
  wlog :: "event list"

text \<open>
  \<open>ans\<close> is the value a call returns, \<open>outv\<close> the number it stores through a pointer
  argument, \<open>devcfg\<close> what a device's own \<^verbatim>\<open>getDeviceConfig\<close> makes of the attributes and \<open>stackinfo\<close> what an
  uninitialised \<^verbatim>\<open>pal_device_info\<close> on the stack holds, \<open>stackdev\<close> the same for a \<^verbatim>\<open>pal_device\<close>.  \<open>soundmodels\<close> is the list of
  sound models (address and type) a voice UI plugin finds in a model file, and \<open>streamprof\<close> the
  capture profile a stream of another class reports.  The two AGM data formats are
  constants of a header outside the repository.
\<close>

record env =
  ans :: "event list \<Rightarrow> event \<Rightarrow> int"
  outv :: "event list \<Rightarrow> event \<Rightarrow> int"
  devcfg :: "event list \<Rightarrow> pal_device \<Rightarrow> pal_device"
  stackinfo :: "event list \<Rightarrow> pal_device_info"
  stackdev :: "event list \<Rightarrow> pal_device"
  soundmodels :: "event list \<Rightarrow> (nat \<times> nat) list"
  streamprof :: "event list \<Rightarrow> nat \<Rightarrow> CaptureProfile option"
  AGM_DATA_FORMAT_FIXED_POINT :: nat
  AGM_DATA_FORMAT_COMPR_OVER_PCM_PACKETIZED :: nat

type_synonym 'a io = "(world, 'a) state"

end
