(* ===== verification/Pal_Monad.thy ===== *)
theory Pal_Monad
  imports Pal_World
begin

text \<open>
  The steps programs are made of, the rules to reason about them, and the lock discipline.
  \<open>valid\<close> is the Hoare triple of a program; the collection \<open>pal_wp\<close> holds the triples of the
  primitive steps.  \<open>lk H m H'\<close> says that \<open>m\<close>, started with exactly the locks \<open>H\<close> held, never
  takes a lock out of order or twice, never releases one it does not hold, and ends with
  exactly \<open>H'\<close>.
\<close>

section \<open>Steps\<close>

definition call :: "env \<Rightarrow> event \<Rightarrow> int io" where
  "call E c = State (\<lambda>w. (ans E (wlog w) c, w\<lparr>wlog := c # wlog w\<rparr>))"

text \<open>A call that also stores a number through a pointer argument.\<close>

definition call_out :: "env \<Rightarrow> event \<Rightarrow> (int \<times> int) io" where
  "call_out E c = State (\<lambda>w. ((ans E (wlog w) c, outv E (wlog w) c), w\<lparr>wlog := c # wlog w\<rparr>))"

definition tell :: "event \<Rightarrow> unit io" where
  "tell c = State (\<lambda>w. ((), w\<lparr>wlog := c # wlog w\<rparr>))"

definition gets :: "(world \<Rightarrow> 'a) \<Rightarrow> 'a io" where
  "gets f = State (\<lambda>w. (f w, w))"

definition modify :: "(world \<Rightarrow> world) \<Rightarrow> unit io" where
  "modify f = State (\<lambda>w. ((), f w))"

abbreviation return :: "'a \<Rightarrow> 'a io" where
  "return \<equiv> State_Monad.return"

definition lock :: "lock_id \<Rightarrow> unit io" where
  "lock l = tell (Lock l)"

definition unlock :: "lock_id \<Rightarrow> unit io" where
  "unlock l = tell (Unlock l)"

definition str :: "nat \<Rightarrow> (Stream \<Rightarrow> 'a) \<Rightarrow> 'a io" where
  "str s f = gets (\<lambda>w. f (wstr w s))"

definition dev :: "nat \<Rightarrow> (Device \<Rightarrow> 'a) \<Rightarrow> 'a io" where
  "dev d f = gets (\<lambda>w. f (wdev w d))"

definition rmg :: "(RM \<Rightarrow> 'a) \<Rightarrow> 'a io" where
  "rmg f = gets (\<lambda>w. f (wrm w))"

definition upd_str :: "nat \<Rightarrow> (Stream \<Rightarrow> Stream) \<Rightarrow> unit io" where
  "upd_str s f = modify (\<lambda>w. w\<lparr>wstr := (wstr w)(s := f (wstr w s))\<rparr>)"

definition upd_dev :: "nat \<Rightarrow> (Device \<Rightarrow> Device) \<Rightarrow> unit io" where
  "upd_dev d f = modify (\<lambda>w. w\<lparr>wdev := (wdev w)(d := f (wdev w d))\<rparr>)"

definition upd_rm :: "(RM \<Rightarrow> RM) \<Rightarrow> unit io" where
  "upd_rm f = modify (\<lambda>w. w\<lparr>wrm := f (wrm w)\<rparr>)"

definition sst :: "nat \<Rightarrow> (StreamSoundTrigger \<Rightarrow> 'a) \<Rightarrow> 'a io" where
  "sst s f = gets (\<lambda>w. f (wst w s))"

definition stu :: "(STUtils \<Rightarrow> 'a) \<Rightarrow> 'a io" where
  "stu f = gets (\<lambda>w. f (wstu w))"

definition upd_sst :: "nat \<Rightarrow> (StreamSoundTrigger \<Rightarrow> StreamSoundTrigger) \<Rightarrow> unit io" where
  "upd_sst s f = modify (\<lambda>w. w\<lparr>wst := (wst w)(s := f (wst w s))\<rparr>)"

definition upd_stu :: "(STUtils \<Rightarrow> STUtils) \<Rightarrow> unit io" where
  "upd_stu f = modify (\<lambda>w. w\<lparr>wstu := f (wstu w)\<rparr>)"

definition when_io :: "bool \<Rightarrow> unit io \<Rightarrow> unit io" where
  "when_io b m = (if b then m else return ())"

text \<open>\<open>for_each\<close> runs a body over a list, \<open>sum_status\<close> style loops are written out where
  they occur.\<close>

fun for_each :: "'a list \<Rightarrow> ('a \<Rightarrow> unit io) \<Rightarrow> unit io" where
  "for_each [] f = return ()"
| "for_each (x # xs) f = do { f x; for_each xs f }"

text \<open>A loop whose body may leave it: a non-zero status stops it.\<close>

fun until_fail :: "'a list \<Rightarrow> ('a \<Rightarrow> int io) \<Rightarrow> int io" where
  "until_fail [] f = return 0"
| "until_fail (x # xs) f = do { r \<leftarrow> f x; if r \<noteq> 0 then return r else until_fail xs f }"

text \<open>A loop that runs to its end and keeps the status of its last step.\<close>

fun last_status :: "int \<Rightarrow> 'a list \<Rightarrow> ('a \<Rightarrow> int io) \<Rightarrow> int io" where
  "last_status st [] f = return st"
| "last_status st (x # xs) f = do { r \<leftarrow> f x; last_status r xs f }"

lemma run_call [simp]:
  "run_state (call E c) w = (ans E (wlog w) c, w\<lparr>wlog := c # wlog w\<rparr>)"
  by (simp add: call_def)

lemma run_call_out [simp]:
  "run_state (call_out E c) w = ((ans E (wlog w) c, outv E (wlog w) c), w\<lparr>wlog := c # wlog w\<rparr>)"
  by (simp add: call_out_def)

lemma run_tell [simp]: "run_state (tell c) w = ((), w\<lparr>wlog := c # wlog w\<rparr>)"
  by (simp add: tell_def)

lemma run_gets [simp]: "run_state (gets f) w = (f w, w)"
  by (simp add: gets_def)

lemma run_modify [simp]: "run_state (modify f) w = ((), f w)"
  by (simp add: modify_def)

lemma run_lock [simp]: "run_state (lock l) w = ((), w\<lparr>wlog := Lock l # wlog w\<rparr>)"
  by (simp add: lock_def)

lemma run_unlock [simp]: "run_state (unlock l) w = ((), w\<lparr>wlog := Unlock l # wlog w\<rparr>)"
  by (simp add: unlock_def)

lemma run_str [simp]: "run_state (str s f) w = (f (wstr w s), w)"
  by (simp add: str_def)

lemma run_dev [simp]: "run_state (dev d f) w = (f (wdev w d), w)"
  by (simp add: dev_def)

lemma run_rmg [simp]: "run_state (rmg f) w = (f (wrm w), w)"
  by (simp add: rmg_def)

lemma run_upd_str [simp]:
  "run_state (upd_str s f) w = ((), w\<lparr>wstr := (wstr w)(s := f (wstr w s))\<rparr>)"
  by (simp add: upd_str_def)

lemma run_upd_dev [simp]:
  "run_state (upd_dev d f) w = ((), w\<lparr>wdev := (wdev w)(d := f (wdev w d))\<rparr>)"
  by (simp add: upd_dev_def)

lemma run_upd_rm [simp]: "run_state (upd_rm f) w = ((), w\<lparr>wrm := f (wrm w)\<rparr>)"
  by (simp add: upd_rm_def)

lemma run_sst [simp]: "run_state (sst s f) w = (f (wst w s), w)"
  by (simp add: sst_def)

lemma run_stu [simp]: "run_state (stu f) w = (f (wstu w), w)"
  by (simp add: stu_def)

lemma run_upd_sst [simp]:
  "run_state (upd_sst s f) w = ((), w\<lparr>wst := (wst w)(s := f (wst w s))\<rparr>)"
  by (simp add: upd_sst_def)

lemma run_upd_stu [simp]: "run_state (upd_stu f) w = ((), w\<lparr>wstu := f (wstu w)\<rparr>)"
  by (simp add: upd_stu_def)

lemma run_when [simp]: "run_state (when_io b m) w = (if b then run_state m w else ((), w))"
  by (simp add: when_io_def)

lemma run_if [simp]:
  "run_state (if b then m else n) w = (if b then run_state m w else run_state n w)"
  by simp

lemma run_bindE:
  assumes "run_state (State_Monad.bind m f) w = (r, w')"
  obtains a w1 where "run_state m w = (a, w1)" "run_state (f a) w1 = (r, w')"
  using assms by (auto split: prod.splits)

section \<open>Hoare triples\<close>

definition valid :: "(world \<Rightarrow> bool) \<Rightarrow> 'a io \<Rightarrow> ('a \<Rightarrow> world \<Rightarrow> bool) \<Rightarrow> bool" where
  "valid P m Q \<longleftrightarrow> (\<forall>w. P w \<longrightarrow> Q (fst (run_state m w)) (snd (run_state m w)))"

named_theorems pal_wp

lemma validI: "(\<And>w r w'. P w \<Longrightarrow> run_state m w = (r, w') \<Longrightarrow> Q r w') \<Longrightarrow> valid P m Q"
  by (auto simp: valid_def)

lemma validD: "valid P m Q \<Longrightarrow> P w \<Longrightarrow> run_state m w = (r, w') \<Longrightarrow> Q r w'"
  by (force simp: valid_def)

lemma valid_pre: "valid P m Q \<Longrightarrow> (\<And>w. P' w \<Longrightarrow> P w) \<Longrightarrow> valid P' m Q"
  by (auto simp: valid_def)

lemma valid_post: "valid P m Q \<Longrightarrow> (\<And>r w. Q r w \<Longrightarrow> Q' r w) \<Longrightarrow> valid P m Q'"
  by (auto simp: valid_def)

lemma valid_bind [pal_wp]:
  assumes "valid P m R" "\<And>r. valid (R r) (f r) Q"
  shows "valid P (State_Monad.bind m f) Q"
  using assms by (auto simp: valid_def split: prod.splits)

lemma valid_if [pal_wp]:
  assumes "b \<Longrightarrow> valid P m Q" "\<not> b \<Longrightarrow> valid P n Q"
  shows "valid P (if b then m else n) Q"
  using assms by simp

lemma valid_return [pal_wp]:
  assumes "\<And>w. P w \<Longrightarrow> Q x w"
  shows "valid P (return x) Q"
  using assms by (simp add: valid_def)

lemma valid_when [pal_wp]:
  assumes "b \<Longrightarrow> valid P m Q" "\<not> b \<Longrightarrow> (\<And>w. P w \<Longrightarrow> Q () w)"
  shows "valid P (when_io b m) Q"
  using assms by (auto simp: when_io_def valid_def)

lemma valid_split [pal_wp]:
  "(\<And>a b. p = (a, b) \<Longrightarrow> valid P (f a b) Q) \<Longrightarrow> valid P (case p of (a, b) \<Rightarrow> f a b) Q"
  by (cases p) simp

lemma valid_option [pal_wp]:
  "(v = None \<Longrightarrow> valid P m Q) \<Longrightarrow> (\<And>x. v = Some x \<Longrightarrow> valid P (f x) Q) \<Longrightarrow>
   valid P (case v of None \<Rightarrow> m | Some x \<Rightarrow> f x) Q"
  by (cases v) simp_all

lemma valid_for_each:
  assumes "\<And>x. x \<in> set xs \<Longrightarrow> valid P (f x) (\<lambda>_. P)"
  shows "valid P (for_each xs f) (\<lambda>_. P)"
  using assms
proof (induction xs)
  case (Cons x xs)
  have "valid P (f x) (\<lambda>_. P)" "valid P (for_each xs f) (\<lambda>_. P)"
    using Cons.prems by (auto intro: Cons.IH)
  then show ?case by (auto intro: valid_bind)
qed (simp add: valid_def)

lemma valid_until_fail:
  assumes "\<And>x. x \<in> set xs \<Longrightarrow> valid P (f x) (\<lambda>_. P)"
  shows "valid P (until_fail xs f) (\<lambda>_. P)"
  using assms
proof (induction xs)
  case (Cons x xs)
  have "valid P (f x) (\<lambda>_. P)" "valid P (until_fail xs f) (\<lambda>_. P)"
    using Cons.prems by (auto intro: Cons.IH)
  then show ?case
    unfolding until_fail.simps by (blast intro: valid_bind valid_if valid_return)
qed (simp add: valid_def)

lemma valid_last_status:
  assumes "\<And>x. x \<in> set xs \<Longrightarrow> valid P (f x) (\<lambda>_. P)"
  shows "valid P (last_status st xs f) (\<lambda>_. P)"
  using assms
proof (induction xs arbitrary: st)
  case (Cons x xs)
  have "valid P (f x) (\<lambda>_. P)" "\<And>st. valid P (last_status st xs f) (\<lambda>_. P)"
    using Cons.prems by (auto intro: Cons.IH)
  then show ?case by (auto intro: valid_bind)
qed (simp add: valid_def)

section \<open>Locks\<close>

text \<open>
  The order in which the streams, the resource manager and the devices take their mutexes.
  Two locks of the same rank are never held together.
\<close>

fun lock_rank :: "lock_id \<Rightarrow> int" where
  "lock_rank ActiveStreamMutex = 0"
| "lock_rank (StreamMutex s) = 1"
| "lock_rank PauseMutex = 2"
| "lock_rank GraphMutex = 3"
| "lock_rank ResourceManagerMutex = 4"
| "lock_rank (DeviceMutex d) = 5"
| "lock_rank (GetParamMutex s) = 6"
| "lock_rank VuiSwitchMutex = 7"
| "lock_rank StUtilsMutex = 8"
| "lock_rank (TimerMutex s) = 9"
| "lock_rank SleepMonitorMutex = 10"
| "lock_rank BaseStreamMutex = - 1"
| "lock_rank PalMutex = - 2"
| "lock_rank CvMutex = - 3"

text \<open>The locks held at the end of a log, newest event first; \<open>None\<close> after a violation.\<close>

fun held :: "event list \<Rightarrow> lock_id list option" where
  "held [] = Some []"
| "held (Lock l # es) =
     (case held es of
        None \<Rightarrow> None
      | Some H \<Rightarrow> if \<forall>k\<in>set H. lock_rank k < lock_rank l then Some (l # H) else None)"
| "held (Unlock l # es) =
     (case held es of
        None \<Rightarrow> None
      | Some H \<Rightarrow> if l \<in> set H then Some (remove1 l H) else None)"
| "held (e # es) = held es"

definition not_lock :: "event \<Rightarrow> bool" where
  "not_lock e = (case e of Lock l \<Rightarrow> False | Unlock l \<Rightarrow> False | _ \<Rightarrow> True)"

lemma held_not_lock: "not_lock e \<Longrightarrow> held (e # es) = held es"
  by (cases e) (auto simp: not_lock_def)

definition lk :: "lock_id list \<Rightarrow> 'a io \<Rightarrow> lock_id list \<Rightarrow> bool" where
  "lk H m H' \<longleftrightarrow> valid (\<lambda>w. held (wlog w) = Some H) m (\<lambda>_ w. held (wlog w) = Some H')"

named_theorems lk_rules

lemma lkD: "lk H m H' \<Longrightarrow> held (wlog w) = Some H \<Longrightarrow> held (wlog (snd (run_state m w))) = Some H'"
  by (auto simp: lk_def valid_def)

lemma lk_bind [lk_rules]:
  assumes "lk H m H1" "\<And>r. lk H1 (f r) H2"
  shows "lk H (State_Monad.bind m f) H2"
  using assms unfolding lk_def by (rule valid_bind)

lemma lk_if [lk_rules]:
  assumes "b \<Longrightarrow> lk H m H'" "\<not> b \<Longrightarrow> lk H n H'"
  shows "lk H (if b then m else n) H'"
  using assms by simp

lemma lk_when [lk_rules]:
  assumes "b \<Longrightarrow> lk H m H" "H' = H"
  shows "lk H (when_io b m) H'"
  using assms by (auto simp: when_io_def lk_def valid_def)

lemma lk_split [lk_rules]: "(\<And>a b. lk H (f a b) H') \<Longrightarrow> lk H (case p of (a, b) \<Rightarrow> f a b) H'"
  by (cases p) simp

lemma lk_option [lk_rules]:
  "lk H m H' \<Longrightarrow> (\<And>x. lk H (f x) H') \<Longrightarrow> lk H (case v of None \<Rightarrow> m | Some x \<Rightarrow> f x) H'"
  by (cases v) simp_all

lemma lk_list [lk_rules]:
  "lk H m H' \<Longrightarrow> (\<And>x xs. lk H (f x xs) H') \<Longrightarrow> lk H (case v of [] \<Rightarrow> m | x # xs \<Rightarrow> f x xs) H'"
  by (cases v) simp_all

lemma lk_let [lk_rules]: "lk H (f x) H' \<Longrightarrow> lk H (let y = x in f y) H'"
  by simp

lemma lk_return [lk_rules]: "H' = H \<Longrightarrow> lk H (return x) H'"
  by (simp add: lk_def valid_def)

lemma lk_call [lk_rules]: "not_lock c \<Longrightarrow> H' = H \<Longrightarrow> lk H (call E c) H'"
  by (simp add: lk_def valid_def held_not_lock)

lemma lk_call_out [lk_rules]: "not_lock c \<Longrightarrow> H' = H \<Longrightarrow> lk H (call_out E c) H'"
  by (simp add: lk_def valid_def held_not_lock)

lemma lk_tell [lk_rules]: "not_lock c \<Longrightarrow> H' = H \<Longrightarrow> lk H (tell c) H'"
  by (simp add: lk_def valid_def held_not_lock)

lemma lk_gets [lk_rules]:
  "H' = H \<Longrightarrow> lk H (gets g) H'" "H' = H \<Longrightarrow> lk H (str s f1) H'"
  "H' = H \<Longrightarrow> lk H (dev d f2) H'" "H' = H \<Longrightarrow> lk H (rmg f3) H'"
  "H' = H \<Longrightarrow> lk H (sst s f4) H'" "H' = H \<Longrightarrow> lk H (stu f5) H'"
  by (simp_all add: lk_def valid_def)

lemma lk_upd [lk_rules]:
  "H' = H \<Longrightarrow> lk H (upd_str s f1) H'" "H' = H \<Longrightarrow> lk H (upd_dev d f2) H'"
  "H' = H \<Longrightarrow> lk H (upd_rm f3) H'" "H' = H \<Longrightarrow> lk H (upd_sst s f4) H'"
  "H' = H \<Longrightarrow> lk H (upd_stu f5) H'"
  by (simp_all add: lk_def valid_def)

lemma lk_lock [lk_rules]:
  "\<forall>k\<in>set H. lock_rank k < lock_rank l \<Longrightarrow> H' = l # H \<Longrightarrow> lk H (lock l) H'"
  by (simp add: lk_def valid_def)

lemma lk_unlock [lk_rules]:
  "l \<in> set H \<Longrightarrow> H' = remove1 l H \<Longrightarrow> lk H (unlock l) H'"
  by (simp add: lk_def valid_def)

lemma lk_for_each [lk_rules]:
  "(\<And>x. x \<in> set xs \<Longrightarrow> lk H (f x) H) \<Longrightarrow> H' = H \<Longrightarrow> lk H (for_each xs f) H'"
  unfolding lk_def by (auto intro: valid_for_each)

lemma lk_until_fail [lk_rules]:
  "(\<And>x. x \<in> set xs \<Longrightarrow> lk H (f x) H) \<Longrightarrow> H' = H \<Longrightarrow> lk H (until_fail xs f) H'"
  unfolding lk_def by (auto intro: valid_until_fail)

lemma lk_last_status [lk_rules]:
  "(\<And>x. x \<in> set xs \<Longrightarrow> lk H (f x) H) \<Longrightarrow> H' = H \<Longrightarrow> lk H (last_status st xs f) H'"
  unfolding lk_def by (auto intro: valid_last_status)

section \<open>Frames\<close>

text \<open>\<open>keeps f m\<close>: the program \<open>m\<close> does not change the observation \<open>f\<close> of the world.\<close>

definition keeps :: "(world \<Rightarrow> 'b) \<Rightarrow> 'a io \<Rightarrow> bool" where
  "keeps f m \<longleftrightarrow> (\<forall>w. f (snd (run_state m w)) = f w)"

named_theorems kp_rules

lemma keepsD: "keeps f m \<Longrightarrow> run_state m w = (r, w') \<Longrightarrow> f w' = f w"
  by (metis keeps_def snd_conv)

lemma keeps_snd: "keeps f m \<Longrightarrow> f (snd (run_state m w)) = f w"
  by (simp add: keeps_def)

lemma kp_bind [kp_rules]:
  assumes "keeps f m" "\<And>r. keeps f (g r)"
  shows "keeps f (State_Monad.bind m g)"
  unfolding keeps_def
proof
  fix w
  obtain r w' where r: "run_state m w = (r, w')" by fastforce
  show "f (snd (run_state (State_Monad.bind m g) w)) = f w"
    using keepsD [OF assms(1) r] keeps_snd [OF assms(2), of r w'] by (simp add: r)
qed

lemma kp_if [kp_rules]:
  "(b \<Longrightarrow> keeps f m) \<Longrightarrow> (\<not> b \<Longrightarrow> keeps f n) \<Longrightarrow> keeps f (if b then m else n)"
  by simp

lemma kp_when [kp_rules]: "(b \<Longrightarrow> keeps f m) \<Longrightarrow> keeps f (when_io b m)"
  by (simp add: keeps_def)

lemma kp_cases [kp_rules]:
  "(\<And>a b. keeps f (g a b)) \<Longrightarrow> keeps f (case p of (a, b) \<Rightarrow> g a b)"
  "keeps f m \<Longrightarrow> (\<And>x. keeps f (h x)) \<Longrightarrow> keeps f (case v of None \<Rightarrow> m | Some x \<Rightarrow> h x)"
  "keeps f m' \<Longrightarrow> (\<And>x xs. keeps f (k x xs)) \<Longrightarrow> keeps f (case l of [] \<Rightarrow> m' | x # xs \<Rightarrow> k x xs)"
  by (auto split: prod.splits option.splits list.splits)

lemma kp_let [kp_rules]: "keeps f (g x) \<Longrightarrow> keeps f (let y = x in g y)"
  by simp

lemma kp_pure [kp_rules]:
  "keeps f (return x)" "keeps f (gets g)" "keeps f (str s g1)" "keeps f (dev d g2)"
  "keeps f (rmg g3)" "keeps f (sst s g4)" "keeps f (stu g5)"
  by (simp_all add: keeps_def)

lemma kp_log [kp_rules]:
  assumes "\<And>w l. f (w\<lparr>wlog := l\<rparr>) = f w"
  shows "keeps f (call E c)" "keeps f (call_out E c)" "keeps f (tell c)" "keeps f (lock k)"
    "keeps f (unlock k)"
  using assms by (simp_all add: keeps_def)

lemma kp_upd_str [kp_rules]:
  "(\<And>w. f (w\<lparr>wstr := (wstr w)(s := g (wstr w s))\<rparr>) = f w) \<Longrightarrow> keeps f (upd_str s g)"
  by (simp add: keeps_def)

lemma kp_upd_dev [kp_rules]:
  "(\<And>w. f (w\<lparr>wdev := (wdev w)(d := g (wdev w d))\<rparr>) = f w) \<Longrightarrow> keeps f (upd_dev d g)"
  by (simp add: keeps_def)

lemma kp_upd_rm [kp_rules]:
  "(\<And>w. f (w\<lparr>wrm := g (wrm w)\<rparr>) = f w) \<Longrightarrow> keeps f (upd_rm g)"
  by (simp add: keeps_def)

lemma kp_upd_sst [kp_rules]:
  "(\<And>w. f (w\<lparr>wst := (wst w)(s := g (wst w s))\<rparr>) = f w) \<Longrightarrow> keeps f (upd_sst s g)"
  by (simp add: keeps_def)

lemma kp_upd_stu [kp_rules]:
  "(\<And>w. f (w\<lparr>wstu := g (wstu w)\<rparr>) = f w) \<Longrightarrow> keeps f (upd_stu g)"
  by (simp add: keeps_def)

lemma kp_for_each [kp_rules]:
  "(\<And>x. x \<in> set xs \<Longrightarrow> keeps f (g x)) \<Longrightarrow> keeps f (for_each xs g)"
  by (induction xs) (auto intro: kp_bind kp_pure)

lemma kp_until_fail [kp_rules]:
  "(\<And>x. x \<in> set xs \<Longrightarrow> keeps f (g x)) \<Longrightarrow> keeps f (until_fail xs g)"
  by (induction xs) (auto simp del: if_split intro!: kp_bind kp_if kp_pure)

lemma kp_last_status [kp_rules]:
  "(\<And>x. x \<in> set xs \<Longrightarrow> keeps f (g x)) \<Longrightarrow> keeps f (last_status st xs g)"
  by (induction xs arbitrary: st) (auto intro!: kp_bind kp_pure)

end
