(* ===== verification/RM_Config.thy ===== *)
theory RM_Config
  imports Pal_Monad
begin

text \<open>
  The static side of \<^verbatim>\<open>resource_manager/src/ResourceManager.cpp\<close>: the classification of
  devices, streams and formats, the tables indexed by device id, and the computation of the
  device configuration from the platform file (\<^verbatim>\<open>getDeviceInfo\<close>, \<^verbatim>\<open>getDeviceConfig\<close>).
  \<^verbatim>\<open>std::map::at\<close> on an absent key throws: such a function returns \<open>None\<close>.
\<close>

section \<open>Formats and classifications\<close>

definition isPalPCMFormat :: "nat \<Rightarrow> bool" where
  "isPalPCMFormat fmt_id \<longleftrightarrow>
     fmt_id = PAL_AUDIO_FMT_PCM_S32_LE \<or> fmt_id = PAL_AUDIO_FMT_PCM_S8 \<or>
     fmt_id = PAL_AUDIO_FMT_PCM_S24_3LE \<or> fmt_id = PAL_AUDIO_FMT_PCM_S24_LE \<or>
     fmt_id = PAL_AUDIO_FMT_PCM_S16_LE"

definition RM_isBitWidthSupported :: "nat \<Rightarrow> bool" where
  "RM_isBitWidthSupported bitWidth \<longleftrightarrow> bitWidth = 16 \<or> bitWidth = 24 \<or> bitWidth = 32"

definition bitWidthToFormat :: "nat \<Rightarrow> nat option" where
  "bitWidthToFormat bw =
     (if bw = 16 then Some PAL_AUDIO_FMT_PCM_S16_LE
      else if bw = 24 then Some PAL_AUDIO_FMT_PCM_S24_LE
      else if bw = 32 then Some PAL_AUDIO_FMT_PCM_S32_LE
      else None)"

definition getAudioFmt :: "nat \<Rightarrow> nat option" where
  "getAudioFmt bitWidth = bitWidthToFormat bitWidth"

definition palFormatToBitwidthLookup :: "nat \<Rightarrow> nat" where
  "palFormatToBitwidthLookup format =
     (if format = PAL_AUDIO_FMT_PCM_S8 then 8
      else if format = PAL_AUDIO_FMT_PCM_S24_3LE \<or> format = PAL_AUDIO_FMT_PCM_S24_LE then 24
      else if format = PAL_AUDIO_FMT_PCM_S32_LE then 32
      else 16)"

definition streamPriorityLUT :: "(nat \<times> nat) list" where
  "streamPriorityLUT =
     [(PAL_STREAM_LOW_LATENCY, 3), (PAL_STREAM_DEEP_BUFFER, 3), (PAL_STREAM_COMPRESSED, 3),
      (PAL_STREAM_VOIP, 2), (PAL_STREAM_VOIP_RX, 2), (PAL_STREAM_VOIP_TX, 2),
      (PAL_STREAM_VOICE_CALL_MUSIC, 2), (PAL_STREAM_GENERIC, 3), (PAL_STREAM_RAW, 3),
      (PAL_STREAM_VOICE_RECOGNITION, 3), (PAL_STREAM_VOICE_CALL_RECORD, 2),
      (PAL_STREAM_VOICE_CALL_TX, 1), (PAL_STREAM_VOICE_CALL_RX_TX, 1),
      (PAL_STREAM_VOICE_CALL, 1), (PAL_STREAM_LOOPBACK, 3), (PAL_STREAM_TRANSCODE, 3),
      (PAL_STREAM_VOICE_UI, 4), (PAL_STREAM_PCM_OFFLOAD, 3),
      (PAL_STREAM_ULTRA_LOW_LATENCY, 3), (PAL_STREAM_PROXY, 3), (PAL_STREAM_NON_TUNNEL, 3),
      (PAL_STREAM_HAPTICS, 3), (PAL_STREAM_ACD, 3), (PAL_STREAM_ASR, 4),
      (PAL_STREAM_CONTEXT_PROXY, 3), (PAL_STREAM_SENSOR_PCM_DATA, 3),
      (PAL_STREAM_ULTRASOUND, 4), (PAL_STREAM_SPATIAL_AUDIO, 3),
      (PAL_STREAM_SENSOR_PCM_RENDERER, 4), (PAL_STREAM_CALL_TRANSLATION, 2),
      (PAL_STREAM_PLAYBACK_BUS, 3), (PAL_STREAM_CAPTURE_BUS, 3)]"

definition isValidDevId :: "int \<Rightarrow> bool" where
  "isValidDevId deviceId \<longleftrightarrow>
     (deviceId \<ge> int PAL_DEVICE_NONE \<and> deviceId < int PAL_DEVICE_OUT_MAX) \<or>
     (deviceId > int PAL_DEVICE_IN_MIN \<and> deviceId < int PAL_DEVICE_IN_MAX)"

definition isValidStreamId :: "int \<Rightarrow> bool" where
  "isValidStreamId streamId \<longleftrightarrow>
     \<not> (streamId < int PAL_STREAM_LOW_LATENCY \<or> streamId \<ge> int PAL_STREAM_MAX)"

definition isOutputDevId :: "int \<Rightarrow> bool" where
  "isOutputDevId deviceId \<longleftrightarrow> deviceId > int PAL_DEVICE_NONE \<and> deviceId < int PAL_DEVICE_OUT_MAX"

definition isInputDevId :: "int \<Rightarrow> bool" where
  "isInputDevId deviceId \<longleftrightarrow> deviceId > int PAL_DEVICE_IN_MIN \<and> deviceId < int PAL_DEVICE_IN_MAX"

definition matchDevDir :: "int \<Rightarrow> int \<Rightarrow> bool" where
  "matchDevDir devId1 devId2 \<longleftrightarrow>
     (isOutputDevId devId1 \<and> isOutputDevId devId2) \<or> (isInputDevId devId1 \<and> isInputDevId devId2)"

definition getDeviceDirection :: "nat \<Rightarrow> int" where
  "getDeviceDirection beDevId =
     (if beDevId < PAL_DEVICE_OUT_MAX then int PAL_AUDIO_OUTPUT
      else if beDevId < PAL_DEVICE_IN_MAX then int PAL_AUDIO_INPUT
      else - EINVAL)"

definition isBtA2dpDevice :: "nat \<Rightarrow> bool" where
  "isBtA2dpDevice devid \<longleftrightarrow>
     devid = PAL_DEVICE_OUT_BLUETOOTH_A2DP \<or> devid = PAL_DEVICE_OUT_BLUETOOTH_BLE \<or>
     devid = PAL_DEVICE_OUT_BLUETOOTH_BLE_BROADCAST \<or> devid = PAL_DEVICE_IN_BLUETOOTH_A2DP \<or>
     devid = PAL_DEVICE_IN_BLUETOOTH_BLE"

definition isBtScoDevice :: "nat \<Rightarrow> bool" where
  "isBtScoDevice devid \<longleftrightarrow>
     devid = PAL_DEVICE_OUT_BLUETOOTH_SCO \<or> devid = PAL_DEVICE_IN_BLUETOOTH_SCO_HEADSET \<or>
     devid = PAL_DEVICE_IN_BLUETOOTH_HFP \<or> devid = PAL_DEVICE_OUT_BLUETOOTH_HFP"

definition isBtDevice :: "nat \<Rightarrow> bool" where
  "isBtDevice devid \<longleftrightarrow>
     devid = PAL_DEVICE_OUT_BLUETOOTH_A2DP \<or> devid = PAL_DEVICE_IN_BLUETOOTH_A2DP \<or>
     devid = PAL_DEVICE_OUT_BLUETOOTH_SCO \<or> devid = PAL_DEVICE_IN_BLUETOOTH_SCO_HEADSET \<or>
     devid = PAL_DEVICE_OUT_BLUETOOTH_BLE \<or> devid = PAL_DEVICE_OUT_BLUETOOTH_BLE_BROADCAST \<or>
     devid = PAL_DEVICE_IN_BLUETOOTH_BLE"

definition isStStream :: "nat \<Rightarrow> bool" where
  "isStStream t \<longleftrightarrow>
     t = PAL_STREAM_VOICE_UI \<or> t = PAL_STREAM_ACD \<or> t = PAL_STREAM_ASR \<or>
     t = PAL_STREAM_SENSOR_PCM_DATA"

definition ifVoiceorVoipCall :: "nat \<Rightarrow> bool" where
  "ifVoiceorVoipCall streamType \<longleftrightarrow>
     streamType = PAL_STREAM_VOIP \<or> streamType = PAL_STREAM_VOIP_RX \<or>
     streamType = PAL_STREAM_VOIP_TX \<or> streamType = PAL_STREAM_VOICE_CALL"

definition getCallPriority :: "bool \<Rightarrow> int" where
  "getCallPriority ifVoiceCall = (if ifVoiceCall then 100 else 0)"

definition getStreamAttrPriority :: "pal_stream_attributes option \<Rightarrow> int" where
  "getStreamAttrPriority sAttr =
     (case sAttr of
        None \<Rightarrow> 0
      | Some a \<Rightarrow>
          getCallPriority (ifVoiceorVoipCall (stype a))
          + (if sample_rate (in_media_config a) mod 44100 = 0 then 50 else 0)
          + (if bit_width (in_media_config a) = 24 then 25 else 0))"

section \<open>Tables indexed by device\<close>

definition getPALDeviceName :: "RM \<Rightarrow> nat \<Rightarrow> string" where
  "getPALDeviceName rm devid = (if isValidDevId (int devid) then deviceNameLUT rm devid else [])"

definition getBackendName :: "RM \<Rightarrow> nat \<Rightarrow> string \<Rightarrow> int \<times> string" where
  "getBackendName rm deviceId backendName =
     (if isValidDevId (int deviceId) \<and> deviceId \<noteq> PAL_DEVICE_NONE
      then (0, listAllBackEndIds rm deviceId) else (- EINVAL, backendName))"

definition getDeviceEpName :: "RM \<Rightarrow> nat \<Rightarrow> string \<Rightarrow> int \<times> string" where
  "getDeviceEpName rm deviceId epName =
     (if isValidDevId (int deviceId) then (0, deviceLinkName rm deviceId) else (- EINVAL, epName))"

definition getPcmDeviceId :: "RM \<Rightarrow> nat \<Rightarrow> int" where
  "getPcmDeviceId rm deviceId =
     (if \<not> isValidDevId (int deviceId) then - EINVAL else devicePcmId rm deviceId)"

definition updatePcmId :: "nat \<Rightarrow> int \<Rightarrow> RM \<Rightarrow> RM" where
  "updatePcmId deviceId pcmId rm =
     (if isValidDevId (int deviceId)
      then rm\<lparr>devicePcmId := (devicePcmId rm)(deviceId := pcmId)\<rparr> else rm)"

definition updateLinkName :: "nat \<Rightarrow> string \<Rightarrow> RM \<Rightarrow> RM" where
  "updateLinkName deviceId linkName rm =
     (if isValidDevId (int deviceId)
      then rm\<lparr>deviceLinkName := (deviceLinkName rm)(deviceId := linkName)\<rparr> else rm)"

definition updateSndName :: "nat \<Rightarrow> string \<Rightarrow> RM \<Rightarrow> RM" where
  "updateSndName deviceId sndName rm =
     (if isValidDevId (int deviceId)
      then rm\<lparr>sndDeviceNameLUT := (sndDeviceNameLUT rm)(deviceId := sndName)\<rparr> else rm)"

text \<open>The table has an entry for every valid id, so the size test of the source is true.\<close>

definition updateBackEndName :: "nat \<Rightarrow> string \<Rightarrow> RM \<Rightarrow> RM" where
  "updateBackEndName deviceId backEndName rm =
     (if isValidDevId (int deviceId)
      then rm\<lparr>listAllBackEndIds := (listAllBackEndIds rm)(deviceId := backEndName)\<rparr> else rm)"

section \<open>Sound device names\<close>

text \<open>\<^verbatim>\<open>strstr\<close>, and the bounded copies \<^verbatim>\<open>strlcpy\<close> and \<^verbatim>\<open>strlcat\<close> into a buffer of
  \<^verbatim>\<open>DEVICE_NAME_MAX_SIZE\<close> bytes.\<close>

fun is_prefix :: "string \<Rightarrow> string \<Rightarrow> bool" where
  "is_prefix [] ys = True"
| "is_prefix (x # xs) [] = False"
| "is_prefix (x # xs) (y # ys) = (x = y \<and> is_prefix xs ys)"

fun strstr :: "string \<Rightarrow> string \<Rightarrow> bool" where
  "strstr [] needle = (needle = [])"
| "strstr (c # hay) needle = (is_prefix needle (c # hay) \<or> strstr hay needle)"

definition strlcpy :: "string \<Rightarrow> nat \<Rightarrow> string" where
  "strlcpy src n = take (n - 1) src"

definition strlcat :: "string \<Rightarrow> string \<Rightarrow> nat \<Rightarrow> string" where
  "strlcat dst src n = dst @ take (n - 1 - length dst) src"

abbreviation (input) DEVICE_NAME_MAX_SIZE :: nat where "DEVICE_NAME_MAX_SIZE \<equiv> 128"

definition getSndDeviceName :: "RM \<Rightarrow> nat \<Rightarrow> int \<times> string" where
  "getSndDeviceName rm deviceId =
     (if isValidDevId (int deviceId) then
        let name = strlcpy (sndDeviceNameLUT rm deviceId) DEVICE_NAME_MAX_SIZE;
            vbat = isVbatEnabled rm \<and>
                   (deviceId = PAL_DEVICE_OUT_SPEAKER \<or> deviceId = PAL_DEVICE_OUT_ULTRASOUND) \<and>
                   \<not> strstr name ''-vbat'';
            backEndName = snd (getBackendName rm deviceId [])
        in if vbat \<and> deviceId = PAL_DEVICE_OUT_ULTRASOUND \<and>
              (\<not> strstr backEndName ''CODEC_DMA-LPAIF_WSA-RX'' \<or> strstr name ''handset'')
           then (0, name)
           else
             let name = (if vbat then strlcat name ''-vbat'' DEVICE_NAME_MAX_SIZE else name);
                 name = (if isSpeakerProtectionEnabled rm \<and> deviceId = PAL_DEVICE_OUT_SPEAKER
                         then strlcat name ''-prot'' DEVICE_NAME_MAX_SIZE else name);
                 name = (if deviceId = PAL_DEVICE_OUT_ULTRASOUND_DEDICATED \<and>
                            isDeviceDedicatedBEEnabled rm
                         then strlcat name ''-ultrasound'' DEVICE_NAME_MAX_SIZE else name)
             in (0, name)
      else (- EINVAL, []))"

section \<open>Channel maps\<close>

text \<open>The positions \<^verbatim>\<open>getChannelMap\<close> writes at the front of the buffer; a count without a
  case leaves the buffer alone.\<close>

definition channel_order_16 :: "nat list" where
  "channel_order_16 =
     [PAL_CHMAP_CHANNEL_FL, PAL_CHMAP_CHANNEL_FR, PAL_CHMAP_CHANNEL_C, PAL_CHMAP_CHANNEL_LS,
      PAL_CHMAP_CHANNEL_RS, PAL_CHMAP_CHANNEL_LFE, PAL_CHMAP_CHANNEL_LB, PAL_CHMAP_CHANNEL_RB,
      PAL_CHMAP_CHANNEL_RC, PAL_CHMAP_CHANNEL_TS, PAL_CHMAP_CHANNEL_TFC, PAL_CHMAP_CHANNEL_MS,
      PAL_CHMAP_CHANNEL_FLC, PAL_CHMAP_CHANNEL_FRC, PAL_CHMAP_CHANNEL_RLC, PAL_CHMAP_CHANNEL_RRC]"

definition channel_positions :: "int \<Rightarrow> nat list" where
  "channel_positions n =
     (if n = 1 then [PAL_CHMAP_CHANNEL_C]
      else if n = 2 then [PAL_CHMAP_CHANNEL_FL, PAL_CHMAP_CHANNEL_FR]
      else if n = 3 then [PAL_CHMAP_CHANNEL_FL, PAL_CHMAP_CHANNEL_FR, PAL_CHMAP_CHANNEL_C]
      else if n = 4 then [PAL_CHMAP_CHANNEL_FL, PAL_CHMAP_CHANNEL_FR, PAL_CHMAP_CHANNEL_LB,
                          PAL_CHMAP_CHANNEL_RB]
      else if n = 5 then [PAL_CHMAP_CHANNEL_FL, PAL_CHMAP_CHANNEL_FR, PAL_CHMAP_CHANNEL_C,
                          PAL_CHMAP_CHANNEL_LB, PAL_CHMAP_CHANNEL_RB]
      else if n = 6 then [PAL_CHMAP_CHANNEL_FL, PAL_CHMAP_CHANNEL_FR, PAL_CHMAP_CHANNEL_C,
                          PAL_CHMAP_CHANNEL_LFE, PAL_CHMAP_CHANNEL_LB, PAL_CHMAP_CHANNEL_RB]
      else if n = 7 then [PAL_CHMAP_CHANNEL_FL, PAL_CHMAP_CHANNEL_FR, PAL_CHMAP_CHANNEL_C,
                          PAL_CHMAP_CHANNEL_LFE, PAL_CHMAP_CHANNEL_LB, PAL_CHMAP_CHANNEL_RB,
                          PAL_CHMAP_CHANNEL_RC]
      else if n = 8 then [PAL_CHMAP_CHANNEL_FL, PAL_CHMAP_CHANNEL_FR, PAL_CHMAP_CHANNEL_C,
                          PAL_CHMAP_CHANNEL_LFE, PAL_CHMAP_CHANNEL_LB, PAL_CHMAP_CHANNEL_RB,
                          PAL_CHMAP_CHANNEL_LS, PAL_CHMAP_CHANNEL_RS]
      else if n = 10 then take 10 channel_order_16
      else if n = 12 then take 12 channel_order_16
      else if n = 14 then take 14 channel_order_16
      else if n = 16 then channel_order_16
      else [])"

definition getChannelMap :: "nat list \<Rightarrow> int \<Rightarrow> nat list" where
  "getChannelMap channel_map n =
     channel_positions n @ drop (length (channel_positions n)) channel_map"

definition getSpViChannelMapCfg :: "nat list \<Rightarrow> nat list option \<Rightarrow> nat \<Rightarrow> nat list option" where
  "getSpViChannelMapCfg spViChannelMapCfg channelMap numOfChannels =
     (case channelMap of
        None \<Rightarrow> None
      | Some cm \<Rightarrow>
          if spViChannelMapCfg \<noteq> [] \<and> length spViChannelMapCfg = numOfChannels
          then Some (spViChannelMapCfg @ drop numOfChannels cm)
          else Some ([1..<numOfChannels + 1] @ drop numOfChannels cm))"

section \<open>Device information\<close>

abbreviation (input) MIN_USECASE_PRIORITY :: nat where "MIN_USECASE_PRIORITY \<equiv> 0xFFFFFFFF"

definition apply_custom_config :: "usecase_custom_config_info \<Rightarrow> pal_device_info \<Rightarrow> pal_device_info" where
  "apply_custom_config c di =
     (let di = (if cc_channel c \<noteq> 0
                then di\<lparr>di_channels := cc_channel c, channels_overwrite := True\<rparr> else di);
          di = (if cc_samplerate c \<noteq> 0
                then di\<lparr>di_samplerate := cc_samplerate c, samplerate_overwrite := True\<rparr> else di);
          di = (if cc_sndDevName c \<noteq> []
                then di\<lparr>di_sndDevName := cc_sndDevName c, sndDevName_overwrite := True\<rparr> else di);
          di = (if cc_priority c \<noteq> 0 \<and> cc_priority c \<noteq> MIN_USECASE_PRIORITY
                then di\<lparr>priority := cc_priority c\<rparr> else di)
      in if cc_bit_width c \<noteq> 0
         then di\<lparr>di_bit_width := cc_bit_width c, bit_width_overwrite := True\<rparr> else di)"

fun custom_config_loop :: "usecase_custom_config_info list \<Rightarrow> string \<Rightarrow> pal_device_info \<Rightarrow> pal_device_info" where
  "custom_config_loop [] key di = di"
| "custom_config_loop (c # cs) key di =
     (if cc_key c = key then apply_custom_config c di else custom_config_loop cs key di)"

definition apply_usecase :: "usecase_info \<Rightarrow> string \<Rightarrow> pal_device_info \<Rightarrow> pal_device_info" where
  "apply_usecase u key di =
     (let di = (if uc_channel u \<noteq> 0
                then di\<lparr>di_channels := uc_channel u, channels_overwrite := True\<rparr> else di);
          di = (if uc_samplerate u \<noteq> 0
                then di\<lparr>di_samplerate := uc_samplerate u, samplerate_overwrite := True\<rparr> else di);
          di = (if uc_sndDevName u \<noteq> []
                then di\<lparr>di_sndDevName := uc_sndDevName u, sndDevName_overwrite := True\<rparr> else di);
          di = (if uc_priority u \<noteq> 0 \<and> uc_priority u \<noteq> MIN_USECASE_PRIORITY
                then di\<lparr>priority := uc_priority u\<rparr> else di);
          di = (if uc_bit_width u \<noteq> 0
                then di\<lparr>di_bit_width := uc_bit_width u, bit_width_overwrite := True\<rparr> else di)
      in custom_config_loop (uc_config u) key di)"

fun usecase_loop :: "usecase_info list \<Rightarrow> nat \<Rightarrow> string \<Rightarrow> pal_device_info \<Rightarrow> pal_device_info" where
  "usecase_loop [] t key di = di"
| "usecase_loop (u # us) t key di =
     usecase_loop us t key (if t = uc_type u then apply_usecase u key di else di)"

definition default_info :: "deviceIn \<Rightarrow> nat \<Rightarrow> pal_device_info" where
  "default_info d prio =
     \<lparr>di_channels = dv_channel d, di_max_channels = dv_max_channel d,
      di_samplerate = dv_samplerate d, di_sndDevName = dv_sndDevName d,
      isExternalECRefEnabledFlag = dv_isExternalECRefEnabled d,
      isUSBUUIdBasedTuningEnabledFlag = dv_isUSBUUIdBasedTuningEnabled d,
      priority = prio, fractionalSRSupported = dv_fractionalSRSupported d,
      channels_overwrite = False, samplerate_overwrite = False, sndDevName_overwrite = False,
      bit_width_overwrite = False, di_bit_width = dv_bit_width d,
      bitFormatSupported = dv_bitFormatSupported d, is32BitSupported = dv_is32BitSupported d\<rparr>"

definition stream_priority :: "nat \<Rightarrow> nat option" where
  "stream_priority t =
     (if t \<ge> PAL_STREAM_LOW_LATENCY \<and> t < PAL_STREAM_MAX then map_of streamPriorityLUT t
      else Some MIN_USECASE_PRIORITY)"

fun getDeviceInfo_loop :: "deviceIn list \<Rightarrow> nat \<Rightarrow> nat \<Rightarrow> string \<Rightarrow> pal_device_info \<Rightarrow> pal_device_info option" where
  "getDeviceInfo_loop [] deviceId t key di = Some di"
| "getDeviceInfo_loop (d # ds) deviceId t key di =
     (if deviceId = dv_deviceId d then
        (case stream_priority t of
           None \<Rightarrow> None
         | Some prio \<Rightarrow>
             getDeviceInfo_loop ds deviceId t key
               (usecase_loop (dv_usecase d) t key (default_info d prio)))
      else getDeviceInfo_loop ds deviceId t key di)"

definition getDeviceInfo :: "RM \<Rightarrow> nat \<Rightarrow> nat \<Rightarrow> string \<Rightarrow> pal_device_info \<Rightarrow> pal_device_info option" where
  "getDeviceInfo rm deviceId t key di = getDeviceInfo_loop (deviceInfo rm) deviceId t key di"

section \<open>Device configuration\<close>

definition zero_info :: pal_device_info where
  "zero_info =
     \<lparr>di_channels = 0, di_max_channels = 0, di_samplerate = 0, di_sndDevName = [],
      isExternalECRefEnabledFlag = False, isUSBUUIdBasedTuningEnabledFlag = False, priority = 0,
      fractionalSRSupported = False, channels_overwrite = False, samplerate_overwrite = False,
      sndDevName_overwrite = False, bit_width_overwrite = False, di_bit_width = 0,
      bitFormatSupported = 0, is32BitSupported = False\<rparr>"

definition attr_rate :: "pal_stream_attributes option \<Rightarrow> nat" where
  "attr_rate sAttr =
     (case sAttr of None \<Rightarrow> 48000
      | Some a \<Rightarrow> if direction a = PAL_AUDIO_INPUT then sample_rate (in_media_config a)
                 else sample_rate (out_media_config a))"

definition attr_width :: "pal_stream_attributes option \<Rightarrow> nat" where
  "attr_width sAttr =
     (case sAttr of None \<Rightarrow> 16
      | Some a \<Rightarrow> if direction a = PAL_AUDIO_INPUT then bit_width (in_media_config a)
                 else bit_width (out_media_config a))"

text \<open>The bit width: from the platform file, or else from the stream, with the speaker limited
  to its supported format and anything unsupported replaced by 16.\<close>

definition config_width :: "nat \<Rightarrow> pal_device_info \<Rightarrow> pal_stream_attributes option \<Rightarrow> nat" where
  "config_width devid di sAttr =
     (let bw = (if di_bit_width di \<noteq> 0 then di_bit_width di
                else
                  let bw = attr_width sAttr
                  in if bw = 32 \<and> devid = PAL_DEVICE_OUT_SPEAKER \<and>
                        bitFormatSupported di \<noteq> PAL_AUDIO_FMT_PCM_S32_LE
                     then palFormatToBitwidthLookup (bitFormatSupported di) else bw)
      in if \<not> RM_isBitWidthSupported bw then 16 else bw)"

definition limit_input_width :: "pal_stream_attributes option \<Rightarrow> pal_device_info \<Rightarrow> pal_media_config \<Rightarrow> pal_media_config" where
  "limit_input_width sAttr di c =
     (case sAttr of
        None \<Rightarrow> c
      | Some a \<Rightarrow>
          if direction a = PAL_AUDIO_INPUT \<and> bit_width c = 32 \<and> \<not> is32BitSupported di
          then c\<lparr>aud_fmt_id := PAL_AUDIO_FMT_PCM_S24_LE, bit_width := 24\<rparr> else c)"

text \<open>
  \<^verbatim>\<open>getDeviceConfig\<close> up to the virtual call of the device's own \<^verbatim>\<open>getDeviceConfig\<close>:
  status and attributes.  \<open>junk\<close> is what the channel map on the stack holds.  A negative
  channel count of the platform file becomes a \<^verbatim>\<open>uint16_t\<close>.
\<close>

definition getDeviceConfig_base ::
    "RM \<Rightarrow> nat list \<Rightarrow> pal_device \<Rightarrow> pal_stream_attributes option \<Rightarrow> (int \<times> pal_device) option" where
  "getDeviceConfig_base rm junk attr sAttr =
     (case getDeviceInfo rm (dev_id attr) (case sAttr of None \<Rightarrow> 0 | Some a \<Rightarrow> stype a)
             (custom_key attr) zero_info of
        None \<Rightarrow> None
      | Some di \<Rightarrow>
          let attr = attr\<lparr>sndDevName := strlcpy (di_sndDevName di) DEVICE_NAME_MAX_SIZE\<rparr>
          in if di_channels di = 0 \<or> di_channels di > di_max_channels di
             then Some (- EINVAL, attr)
             else
               let c = (config attr)\<lparr>channels := nat (di_channels di mod 2 ^ 16),
                                     ch_map := getChannelMap junk (di_channels di)\<rparr>;
                   c = c\<lparr>sample_rate := (if di_samplerate di \<noteq> 0
                                         then nat (di_samplerate di mod 2 ^ 32)
                                         else attr_rate sAttr)\<rparr>;
                   bw = config_width (dev_id attr) di sAttr
               in (case bitWidthToFormat bw of
                     None \<Rightarrow> None
                   | Some fmt \<Rightarrow>
                       Some (0, attr\<lparr>config :=
                                limit_input_width sAttr di (c\<lparr>bit_width := bw, aud_fmt_id := fmt\<rparr>)\<rparr>)))"

section \<open>Other tables\<close>

text \<open>\<^verbatim>\<open>getEcRefStatus\<close>: the table lists, for a capture stream type, the playback types
  that are not to be echo cancelled.\<close>

definition getEcRefStatus :: "(nat \<times> nat list) list \<Rightarrow> nat \<Rightarrow> nat \<Rightarrow> bool" where
  "getEcRefStatus ec_info tx rx =
     (if tx = PAL_STREAM_LOW_LATENCY then False
      else foldl (\<lambda>st (t, disabled). if tx = t \<and> rx \<in> set disabled then False else st) True ec_info)"

definition isStreamSupportedInsndCardStandy :: "nat list \<Rightarrow> nat \<Rightarrow> bool" where
  "isStreamSupportedInsndCardStandy sndCardStandbySupportedStreams t \<longleftrightarrow>
     t \<in> set sndCardStandbySupportedStreams"

definition isDeviceAvailable :: "RM \<Rightarrow> nat \<Rightarrow> bool" where
  "isDeviceAvailable rm devid \<longleftrightarrow> devid \<in> set (avail_devices rm)"

definition isDeviceAvailable_attr :: "pal_device list \<Rightarrow> nat \<Rightarrow> bool" where
  "isDeviceAvailable_attr devices devid \<longleftrightarrow> (\<exists>d\<in>set devices. dev_id d = devid)"

text \<open>\<^verbatim>\<open>isDeviceReady\<close> of the devices is the parameter \<open>ready\<close>.\<close>

definition isDisconnectedDeviceStillActive ::
    "RM \<Rightarrow> (nat \<Rightarrow> bool) \<Rightarrow> nat list \<Rightarrow> nat list \<Rightarrow> nat list \<Rightarrow> bool" where
  "isDisconnectedDeviceStillActive rm ready curPalDevices activeDevices extDeviceList \<longleftrightarrow>
     (\<exists>devid\<in>set extDeviceList.
        devid \<in> set curPalDevices \<and> devid \<in> set activeDevices \<and>
        ((isBtDevice devid \<and> \<not> ready devid) \<or> \<not> isDeviceAvailable rm devid))"

definition isDeviceGroupInList :: "nat list \<Rightarrow> nat list \<Rightarrow> bool" where
  "isDeviceGroupInList devicelist devicegroup \<longleftrightarrow> (\<exists>devid\<in>set devicelist. devid \<in> set devicegroup)"

section \<open>Front end ids\<close>

text \<open>\<open>frontEndIdMap\<close> maps a key to the free ids; the last one is handed out.\<close>

type_synonym fe_map = "string \<Rightarrow> int list option"

definition removeDuplicates :: "int list \<Rightarrow> int list" where
  "removeDuplicates vec = remdups_adj (sort vec)"

definition allocateFrontEndIds :: "string \<Rightarrow> fe_map \<Rightarrow> int \<times> fe_map" where
  "allocateFrontEndIds key m =
     (case m key of
        None \<Rightarrow> (-1, m)
      | Some ids \<Rightarrow> if ids = [] then (-1, m) else (last ids, m(key \<mapsto> butlast ids)))"

definition freeFrontEndIds :: "string \<Rightarrow> int list \<Rightarrow> fe_map \<Rightarrow> fe_map" where
  "freeFrontEndIds key frontend m =
     (if frontend = [] then m
      else case m key of
        None \<Rightarrow> m
      | Some ids \<Rightarrow> m(key \<mapsto> removeDuplicates (ids @ frontend)))"

section \<open>Non-tunnel instances\<close>

abbreviation (input) NT_PATH_ENCODE :: nat where "NT_PATH_ENCODE \<equiv> 0"
abbreviation (input) NT_PATH_DECODE :: nat where "NT_PATH_DECODE \<equiv> 1"

definition getNTPathForStreamAttr :: "pal_stream_attributes \<Rightarrow> nat" where
  "getNTPathForStreamAttr attr =
     (let f = aud_fmt_id (out_media_config attr)
      in if f = PAL_AUDIO_FMT_PCM_S16_LE \<or> f = PAL_AUDIO_FMT_PCM_S8 \<or>
            f = PAL_AUDIO_FMT_PCM_S24_3LE \<or> f = PAL_AUDIO_FMT_PCM_S24_LE \<or>
            f = PAL_AUDIO_FMT_PCM_S32_LE
         then NT_PATH_ENCODE else NT_PATH_DECODE)"

fun nt_instance_loop :: "nat list \<Rightarrow> (nat \<Rightarrow> bool option) \<Rightarrow> int \<times> (nat \<Rightarrow> bool option)" where
  "nt_instance_loop [] m = (- EINVAL, m)"
| "nt_instance_loop (inst # is) m =
     (case m inst of
        None \<Rightarrow> (int inst, m(inst \<mapsto> True))
      | Some used \<Rightarrow> if \<not> used then (int inst, m(inst \<mapsto> True)) else nt_instance_loop is m)"

definition getAvailableNTStreamInstance ::
    "nat \<Rightarrow> pal_stream_attributes \<Rightarrow> (nat \<Rightarrow> nat \<Rightarrow> bool option) \<Rightarrow> int \<times> (nat \<Rightarrow> nat \<Rightarrow> bool option)" where
  "getAvailableNTStreamInstance max_nt attr insts =
     (let p = getNTPathForStreamAttr attr;
          (r, m) = nt_instance_loop [1..<max_nt + 1] (insts p)
      in (r, insts(p := m)))"

end
