(* ===== verification/Pal_Device.thy ===== *)
theory Pal_Device
  imports RM_Config "HOL-Library.Multiset"
begin

text \<open>
  The base class of \<^verbatim>\<open>device/src/Device.cpp\<close>: reference counted open and close, start and
  stop, the backend configuration written to the mixer, and the list of the attributes each
  stream asked for, ordered by stream priority.  Device objects are singletons per device
  id, so the id of the attributes a device is created with is its address.

  The theory shows that a device is routed exactly while its count is positive, that open
  and close balance, and that the attribute list stays sorted and serves the stream of the
  best priority.
\<close>

section \<open>Creation and attributes\<close>

definition new_Device :: "pal_device \<Rightarrow> Device" where
  "new_Device attr =
     \<lparr>created = True, mPALDeviceName = [], deviceAttr = attr, deviceCount = 0,
      deviceStartStopCount = 0, mSndDeviceName = [], customPayload = None, customPayloadSize = 0, UpdatedSndName = [],
      mCurrentPriority = MIN_USECASE_PRIORITY, mStreamDevAttr = [], mSampleRate = 0,
      mBitWidth = 0\<rparr>"

text \<open>The plugin of the device type creates the object at the first call and returns it at every
  later one; a plugin that cannot be opened or a failed creation gives a null pointer.\<close>

definition Device_getInstance :: "env \<Rightarrow> pal_device \<Rightarrow> nat option io" where
  "Device_getInstance E attr =
     (let d = dev_id attr
      in if d = PAL_DEVICE_NONE then return None
         else do {
           r \<leftarrow> call E (GetInstance d);
           if r \<noteq> 0 then return None
           else do {
             c \<leftarrow> dev d created;
             when_io (\<not> c) (upd_dev d (\<lambda>_. new_Device attr));
             return (Some d)
           }
         })"

text \<open>\<^verbatim>\<open>ResourceManager::getDeviceConfig\<close>, the virtual call of the device included.\<close>

definition RM_getDeviceConfig ::
    "env \<Rightarrow> nat list \<Rightarrow> pal_device \<Rightarrow> pal_stream_attributes option \<Rightarrow> (int \<times> pal_device) option io" where
  "RM_getDeviceConfig E junk attr sAttr = do {
     base \<leftarrow> rmg (\<lambda>rm. getDeviceConfig_base rm junk attr sAttr);
     case base of
       None \<Rightarrow> return None
     | Some (st, attr) \<Rightarrow>
         if st \<noteq> 0 \<or> dev_id attr = PAL_DEVICE_NONE then return (Some (st, attr))
         else do {
           inst \<leftarrow> Device_getInstance E attr;
           case inst of
             None \<Rightarrow> return (Some (- EINVAL, attr))
           | Some d \<Rightarrow> do {
               attr' \<leftarrow> gets (\<lambda>w. devcfg E (wlog w) attr);
               st \<leftarrow> call E (GetDeviceConfig d);
               return (Some (st, attr'))
             }
         }
   }"

definition Device_getSndDeviceId :: "nat \<Rightarrow> nat io" where
  "Device_getSndDeviceId d = dev d (\<lambda>x. dev_id (deviceAttr x))"

fun find_stream_attr :: "(nat \<times> nat \<times> pal_device) list \<Rightarrow> nat \<Rightarrow> pal_device option" where
  "find_stream_attr [] s = None"
| "find_stream_attr ((p, s', a) # es) s = (if s' = s then Some a else find_stream_attr es s)"

text \<open>A null result pointer and a null stream are \<open>False\<close> and \<open>None\<close>.\<close>

definition Device_getDeviceAttributes :: "nat \<Rightarrow> bool \<Rightarrow> nat option \<Rightarrow> (int \<times> pal_device option) io" where
  "Device_getDeviceAttributes d has_result streamHandle =
     (if \<not> has_result then return (- EINVAL, None)
      else do {
        dattr \<leftarrow> dev d deviceAttr;
        lock (DeviceMutex d);
        entries \<leftarrow> dev d mStreamDevAttr;
        unlock (DeviceMutex d);
        return (0, Some (case streamHandle of
                           None \<Rightarrow> dattr
                         | Some s \<Rightarrow>
                             (case find_stream_attr entries s of
                                None \<Rightarrow> dattr
                              | Some a \<Rightarrow> dattr\<lparr>custom_key := custom_key a\<rparr>)))
      })"

definition Device_setDeviceAttributes :: "nat \<Rightarrow> pal_device \<Rightarrow> int io" where
  "Device_setDeviceAttributes d dattr = do {
     lock (DeviceMutex d);
     upd_dev d (deviceAttr_update (\<lambda>_. dattr));
     unlock (DeviceMutex d);
     return 0
   }"

text \<open>A custom payload is its bytes, or \<open>None\<close> for a null pointer.  A failed \<^verbatim>\<open>realloc\<close> has
  already overwritten the pointer, and leaves the size.\<close>

definition Device_updateCustomPayload :: "env \<Rightarrow> nat \<Rightarrow> nat list \<Rightarrow> int io" where
  "Device_updateCustomPayload E d payload = do {
     n \<leftarrow> dev d customPayloadSize;
     r \<leftarrow> call E (AllocFails (n + length payload));
     if r \<noteq> 0 then do { upd_dev d (customPayload_update (\<lambda>_. None)); return (- ENOMEM) }
     else do {
       upd_dev d (\<lambda>x. x\<lparr>customPayload :=
                       Some ((case customPayload x of None \<Rightarrow> [] | Some p \<Rightarrow> p) @ payload),
                     customPayloadSize := n + length payload\<rparr>);
       return 0
     }
   }"

definition Device_freeCustomPayload :: "nat list option \<Rightarrow> nat \<Rightarrow> int \<times> nat list option \<times> nat" where
  "Device_freeCustomPayload payload payloadSize =
     (case payload of None \<Rightarrow> (0, None, payloadSize) | Some p \<Rightarrow> (0, None, 0))"

definition Device_getDeviceCount :: "nat \<Rightarrow> int io" where
  "Device_getDeviceCount d = do {
     lock (DeviceMutex d);
     n \<leftarrow> dev d deviceCount;
     unlock (DeviceMutex d);
     return n
   }"

section \<open>Backend configuration\<close>

text \<open>ALSA's \<^verbatim>\<open>SNDRV_PCM_FORMAT_*\<close>: S8 = 0, S16_LE = 2, S24_LE = 6, S32_LE = 10, S24_3LE = 32.\<close>

definition palToSndDriverFormat :: "nat \<Rightarrow> nat" where
  "palToSndDriverFormat fmt_id =
     (if fmt_id = PAL_AUDIO_FMT_PCM_S32_LE then 10
      else if fmt_id = PAL_AUDIO_FMT_PCM_S8 then 0
      else if fmt_id = PAL_AUDIO_FMT_PCM_S24_3LE then 32
      else if fmt_id = PAL_AUDIO_FMT_PCM_S24_LE then 6
      else 2)"

definition bitsToAlsaFormat :: "nat \<Rightarrow> nat" where
  "bitsToAlsaFormat bits =
     (if bits = 32 then 10 else if bits = 8 then 0 else if bits = 24 then 32 else 2)"

text \<open>A control that is not found is a null pointer, answer 0.\<close>

definition getBeMixerControl :: "env \<Rightarrow> string \<Rightarrow> string \<Rightarrow> int io" where
  "getBeMixerControl E beName ctrl = call E (MixerGetCtl (beName @ ctrl))"

definition Device_setCustomPayload :: "env \<Rightarrow> string \<Rightarrow> nat list \<Rightarrow> int io" where
  "Device_setCustomPayload E backEndName payload = do {
     st \<leftarrow> call E GetVirtualAudioMixer;
     if st \<noteq> 0 then return st
     else do {
       ctl \<leftarrow> getBeMixerControl E backEndName '' setParam'';
       if ctl = 0 then return (- EINVAL)
       else call E (MixerSetArray (backEndName @ '' setParam'') payload)
     }
   }"

definition aif_media_config :: "env \<Rightarrow> pal_device \<Rightarrow> nat list" where
  "aif_media_config E dAttr =
     (let c = config dAttr
      in if \<not> isPalPCMFormat (aud_fmt_id c)
         then [sample_rate c, channels c, bitsToAlsaFormat (bit_width c),
               AGM_DATA_FORMAT_COMPR_OVER_PCM_PACKETIZED E]
         else [sample_rate c, channels c, palToSndDriverFormat (aud_fmt_id c),
               AGM_DATA_FORMAT_FIXED_POINT E])"

definition aif_group_config :: "env \<Rightarrow> group_dev_config_t \<Rightarrow> pal_device \<Rightarrow> nat list" where
  "aif_group_config E g dAttr =
     [if grp_sample_rate g \<noteq> 0 then grp_sample_rate g else sample_rate (config dAttr),
      if grp_channels g \<noteq> 0 then grp_channels g else channels (config dAttr),
      palToSndDriverFormat (grp_aud_fmt_id g), AGM_DATA_FORMAT_FIXED_POINT E, grp_slot_mask g]"

text \<open>The group attributes of a virtual port: the suffix of the backend name is cut off, the
  group control is written and the group configuration in use is remembered.\<close>

definition set_group_attr :: "env \<Rightarrow> string \<Rightarrow> nat \<Rightarrow> group_dev_config_t \<Rightarrow> pal_device \<Rightarrow> int io" where
  "set_group_attr E backEndName cutn g dAttr =
     (let be = take (length backEndName - cutn) backEndName; cfg = aif_group_config E g dAttr
      in do {
        ctl \<leftarrow> getBeMixerControl E be '' grp config'';
        if ctl = 0 then return (- EINVAL)
        else do {
          call E (MixerSetArray (be @ '' grp config'') cfg);
          upd_rm (\<lambda>rm. rm\<lparr>currentGroupDevConfig :=
            Some (g\<lparr>grp_sample_rate := cfg ! 0, grp_channels := cfg ! 1\<rparr>)\<rparr>);
          return 0
        }
      })"

definition Device_setMediaConfig :: "env \<Rightarrow> string \<Rightarrow> pal_device \<Rightarrow> int io" where
  "Device_setMediaConfig E backEndName dAttr = do {
     st \<leftarrow> call E GetVirtualAudioMixer;
     if st \<noteq> 0 then return st
     else do {
       grp \<leftarrow> rmg activeGroupDevConfig;
       vport \<leftarrow> rmg isUPDVirtualPortEnabled;
       mono \<leftarrow> rmg isI2sDualMonoEnabled;
       let d = dev_id dAttr;
       st \<leftarrow> (case grp of
               None \<Rightarrow> return 0
             | Some g \<Rightarrow>
                 if (d = PAL_DEVICE_OUT_SPEAKER \<or> d = PAL_DEVICE_OUT_HANDSET \<or>
                     d = PAL_DEVICE_OUT_ULTRASOUND) \<and> vport
                 then set_group_attr E backEndName 7 g dAttr
                 else if (d = PAL_DEVICE_OUT_SPEAKER \<or> d = PAL_DEVICE_OUT_HAPTICS_DEVICE) \<and> mono
                 then set_group_attr E backEndName 10 g dAttr
                 else return 0);
       if st \<noteq> 0 then return st
       else do {
         ctl \<leftarrow> getBeMixerControl E backEndName '' rate ch fmt'';
         if ctl = 0 then return (- EINVAL)
         else call E (MixerSetArray (backEndName @ '' rate ch fmt'') (aif_media_config E dAttr))
       }
     }
   }"

definition Device_configureDeviceClockSrc :: "env \<Rightarrow> string option \<Rightarrow> nat \<Rightarrow> int io" where
  "Device_configureDeviceClockSrc E mixerStrClockSrc clockSrc =
     (case mixerStrClockSrc of
        None \<Rightarrow> return (- EINVAL)
      | Some name \<Rightarrow> do {
          ret \<leftarrow> call E GetHwAudioMixer;
          if ret \<noteq> 0 then return ret
          else do {
            ctl \<leftarrow> call E (MixerGetCtl name);
            if ctl = 0 then return ret else call E (MixerSetValue name clockSrc)
          }
        })"

section \<open>Open, close, start and stop\<close>

text \<open>The first open of a device: backend configuration, audio route, sound device name.\<close>

definition Device_first_open :: "env \<Rightarrow> nat \<Rightarrow> int io" where
  "Device_first_open E d = do {
     attr \<leftarrow> dev d deviceAttr;
     be \<leftarrow> rmg (\<lambda>rm. snd (getBackendName rm (dev_id attr) []));
     when_io (be \<noteq> []) (do { Device_setMediaConfig E be attr; return () });
     st \<leftarrow> call E GetAudioRoute;
     if st \<noteq> 0 then return st
     else do {
       (st, name) \<leftarrow> rmg (\<lambda>rm. getSndDeviceName rm (dev_id attr));
       upd_dev d (mSndDeviceName_update (\<lambda>_. name));
       upd \<leftarrow> dev d UpdatedSndName;
       when_io (upd \<noteq> [])
         (upd_dev d (mSndDeviceName_update (\<lambda>_. strlcpy upd DEVICE_NAME_MAX_SIZE)));
       if st \<noteq> 0 then return st
       else do {
         qmp \<leftarrow> rmg isQmpEnabled;
         when_io (qmp \<and> strstr (custom_key attr) ''unprocessed-hdr-mic'')
           (do { call E (InitHdrRoutine (custom_key attr)); return () });
         tell (VoteSleepMonitor True);
         name \<leftarrow> dev d mSndDeviceName;
         tell (EnableDevice name);
         tell (VoteSleepMonitor False);
         return 0
       }
     }
   }"

definition Device_open :: "env \<Rightarrow> nat \<Rightarrow> int io" where
  "Device_open E d = do {
     lock (DeviceMutex d);
     attr \<leftarrow> dev d deviceAttr;
     name \<leftarrow> rmg (\<lambda>rm. getPALDeviceName rm (dev_id attr));
     upd_dev d (mPALDeviceName_update (\<lambda>_. name));
     Device_getInstance E attr;
     n \<leftarrow> dev d deviceCount;
     st \<leftarrow> (if n = 0 then Device_first_open E d else return 0);
     when_io (st = 0) (upd_dev d (deviceCount_update (\<lambda>n. n + 1)));
     unlock (DeviceMutex d);
     return st
   }"

definition Device_close :: "nat \<Rightarrow> int io" where
  "Device_close d = do {
     lock (DeviceMutex d);
     n \<leftarrow> dev d deviceCount;
     when_io (n > 0) (do {
       upd_dev d (deviceCount_update (\<lambda>n. n - 1));
       n \<leftarrow> dev d deviceCount;
       when_io (n = 0) (do {
         name \<leftarrow> dev d mSndDeviceName;
         tell (DisableDevice name);
         upd_dev d (\<lambda>x. x\<lparr>mCurrentPriority := MIN_USECASE_PRIORITY, deviceStartStopCount := 0\<rparr>);
         pc \<leftarrow> rmg num_proxy_channels;
         when_io (pc \<noteq> 0) (upd_rm (num_proxy_channels_update (\<lambda>_. 0)));
         p \<leftarrow> dev d customPayload;
         when_io (p \<noteq> None) (upd_dev d (\<lambda>x. x\<lparr>customPayload := None, customPayloadSize := 0\<rparr>));
         upd_dev d (UpdatedSndName_update (\<lambda>_. []))
       })
     });
     unlock (DeviceMutex d);
     return 0
   }"

text \<open>The defaults a disconnected plugin or display port device gets before it is started.\<close>

definition plugin_defaults :: "pal_media_config \<Rightarrow> pal_media_config" where
  "plugin_defaults c =
     (let c = (if sample_rate c = 0 then c\<lparr>sample_rate := 48000\<rparr> else c);
          c = (if bit_width c = 0 then c\<lparr>bit_width := 16\<rparr> else c);
          c = (if channels c = 0
               then c\<lparr>channels := 2,
                      ch_map := PAL_CHMAP_CHANNEL_FL # PAL_CHMAP_CHANNEL_FR # drop 2 (ch_map c)\<rparr>
               else c)
      in if aud_fmt_id c = 0 then c\<lparr>aud_fmt_id := PAL_AUDIO_FMT_PCM_S16_LE\<rparr> else c)"

text \<open>The first start; it returns the status and whether the counter is then incremented.\<close>

definition Device_first_start :: "env \<Rightarrow> nat \<Rightarrow> (int \<times> bool) io" where
  "Device_first_start E d = do {
     attr \<leftarrow> dev d deviceAttr;
     be \<leftarrow> rmg (\<lambda>rm. snd (getBackendName rm (dev_id attr) []));
     if be = [] then return (- EINVAL, False)
     else do {
       Device_getInstance E attr;
       plugin \<leftarrow> call E (IsPluginPlaybackDevice (dev_id attr));
       when_io (plugin \<noteq> 0)
         (upd_dev d (deviceAttr_update (\<lambda>a. a\<lparr>config := plugin_defaults (config a)\<rparr>)));
       attr \<leftarrow> dev d deviceAttr;
       Device_setMediaConfig E be attr;
       payload \<leftarrow> dev d customPayload;
       n \<leftarrow> dev d customPayloadSize;
       if n \<noteq> 0
       then do {
         st \<leftarrow> Device_setCustomPayload E be (case payload of None \<Rightarrow> [] | Some p \<Rightarrow> p);
         return (st, True)
       }
       else return (0, True)
     }
   }"

definition Device_start_l :: "env \<Rightarrow> nat \<Rightarrow> int io" where
  "Device_start_l E d = do {
     n \<leftarrow> dev d deviceStartStopCount;
     (st, inc) \<leftarrow> (if n = 0 then Device_first_start E d else return (0, True));
     when_io inc (upd_dev d (deviceStartStopCount_update (\<lambda>n. n + 1)));
     return st
   }"

definition Device_start :: "env \<Rightarrow> nat \<Rightarrow> int io" where
  "Device_start E d = do {
     lock (DeviceMutex d);
     st \<leftarrow> Device_start_l E d;
     unlock (DeviceMutex d);
     return st
   }"

definition Device_stop_l :: "nat \<Rightarrow> int io" where
  "Device_stop_l d = do {
     n \<leftarrow> dev d deviceStartStopCount;
     when_io (n > 0) (upd_dev d (deviceStartStopCount_update (\<lambda>n. n - 1)));
     return 0
   }"

definition Device_stop :: "nat \<Rightarrow> int io" where
  "Device_stop d = do {
     lock (DeviceMutex d);
     st \<leftarrow> Device_stop_l d;
     unlock (DeviceMutex d);
     return st
   }"

section \<open>Attributes per stream\<close>

definition Device_compareStreamDevAttr ::
    "pal_device \<Rightarrow> pal_device_info \<Rightarrow> pal_device \<Rightarrow> pal_device_info \<Rightarrow> bool" where
  "Device_compareStreamDevAttr inA inI curA curI =
     (let inr = sample_rate (config inA); curr = sample_rate (config curA);
          bw_check =
            (if bit_width_overwrite inI \<and> \<not> bit_width_overwrite curI
             then isPalPCMFormat (aud_fmt_id (config inA))
             else bit_width_overwrite inI = bit_width_overwrite curI \<and>
                  isPalPCMFormat (aud_fmt_id (config inA)) \<and>
                  bit_width (config inA) > bit_width (config curA))
      in if sndDevName_overwrite inI \<and> \<not> sndDevName_overwrite curI then True
         else if channels_overwrite inI \<and> \<not> channels_overwrite curI then True
         else if channels_overwrite inI = channels_overwrite curI \<and>
                 channels (config inA) > channels (config curA) then True
         else if samplerate_overwrite inI \<and> \<not> samplerate_overwrite curI then True
         else if samplerate_overwrite inI \<and> samplerate_overwrite curI \<and> inr > curr then True
         else if \<not> samplerate_overwrite inI \<and> \<not> samplerate_overwrite curI then
           (if inr mod 44100 = 0 \<and> curr mod 44100 \<noteq> 0 then True
            else if inr > curr \<and> \<not> (curr mod 44100 = 0 \<and> inr mod 48000 = 0) then True
            else bw_check)
         else bw_check)"

definition stream_type :: "world \<Rightarrow> nat \<Rightarrow> nat" where
  "stream_type w s = (case mStreamAttr (wstr w s) of None \<Rightarrow> 0 | Some a \<Rightarrow> stype a)"

text \<open>
  The walk of \<^verbatim>\<open>insertStreamDeviceAttr\<close> to the place of the new entry.  \<open>typ\<close> gives the
  type of a stream, \<open>force\<close> is the preference of combo headset streams, and \<open>ci\<close> is the
  variable \<^verbatim>\<open>curDevInfo\<close>, which is declared outside the loop.  \<open>None\<close> is the exception of
  \<^verbatim>\<open>getDeviceInfo\<close>.
\<close>

fun insert_attr :: "RM \<Rightarrow> (nat \<Rightarrow> nat) \<Rightarrow> bool \<Rightarrow> pal_device_info \<Rightarrow> nat \<times> nat \<times> pal_device \<Rightarrow>
    (nat \<times> nat \<times> pal_device) list \<Rightarrow> pal_device_info \<Rightarrow> (nat \<times> nat \<times> pal_device) list option" where
  "insert_attr rm typ force inI new [] ci = Some [new]"
| "insert_attr rm typ force inI new ((p, s, a) # es) ci =
     (case getDeviceInfo rm (dev_id a) (typ s) (custom_key a) ci of
        None \<Rightarrow> None
      | Some ci \<Rightarrow>
          if priority inI < p then Some (new # (p, s, a) # es)
          else if priority inI = p \<and>
                  (Device_compareStreamDevAttr (snd (snd new)) inI a ci \<or> force)
          then Some (new # (p, s, a) # es)
          else map_option (\<lambda>r. (p, s, a) # r) (insert_attr rm typ force inI new es ci))"

text \<open>\<open>None\<close> as a result is an exception that leaves the function.\<close>

definition Device_insertStreamDeviceAttr ::
    "env \<Rightarrow> nat \<Rightarrow> pal_device option \<Rightarrow> nat option \<Rightarrow> int option io" where
  "Device_insertStreamDeviceAttr E d inDevAttr streamHandle =
     (case streamHandle of
        None \<Rightarrow> return (Some (- EINVAL))
      | Some s \<Rightarrow>
     (case inDevAttr of
        None \<Rightarrow> return (Some (- EINVAL))
      | Some inA \<Rightarrow> do {
          typ \<leftarrow> gets stream_type;
          r \<leftarrow> call E (AllocFails 1);
          if r \<noteq> 0 then return (Some (- ENOMEM))
          else do {
            rm \<leftarrow> rmg (\<lambda>rm. rm);
            junk \<leftarrow> gets (\<lambda>w. stackinfo E (wlog w));
            (case getDeviceInfo rm (dev_id inA) (typ s) (custom_key inA) junk of
               None \<Rightarrow> return None
             | Some inI \<Rightarrow> do {
                 lock (DeviceMutex d);
                 es \<leftarrow> dev d mStreamDevAttr;
                 combo \<leftarrow> str s isComboHeadsetActive;
                 (case insert_attr rm typ (combo \<and> \<not> is_multiple_sample_rate_combo_supported rm)
                         inI (priority inI, s, inA) es junk of
                    None \<Rightarrow> return None
                  | Some es' \<Rightarrow> do {
                      upd_dev d (mStreamDevAttr_update (\<lambda>_. es'));
                      unlock (DeviceMutex d);
                      return (Some 0)
                    })
               })
          }
        }))"

fun remove_attr :: "nat \<Rightarrow> (nat \<times> nat \<times> pal_device) list \<Rightarrow> (nat \<times> nat \<times> pal_device) list" where
  "remove_attr s [] = []"
| "remove_attr s ((p, s', a) # es) = (if s' = s then es else (p, s', a) # remove_attr s es)"

definition Device_removeStreamDeviceAttr :: "nat \<Rightarrow> nat \<Rightarrow> unit io" where
  "Device_removeStreamDeviceAttr d s = do {
     lock (DeviceMutex d);
     upd_dev d (mStreamDevAttr_update (remove_attr s));
     unlock (DeviceMutex d)
   }"

text \<open>The result carries the attributes and the priority; \<open>None\<close> is the exception of
  \<^verbatim>\<open>getAudioFmt\<close> on a bit width without a format.\<close>

definition Device_getTopPriorityDeviceAttr :: "nat \<Rightarrow> (int \<times> (nat \<times> pal_device) option) option io" where
  "Device_getTopPriorityDeviceAttr d = do {
     lock (DeviceMutex d);
     es \<leftarrow> dev d mStreamDevAttr;
     case es of
       [] \<Rightarrow> do { unlock (DeviceMutex d); return (Some (- EINVAL, None)) }
     | (p, s, a) # _ \<Rightarrow> do {
         upd_rm (updateSndName (dev_id a) (sndDevName a));
         sr \<leftarrow> dev d mSampleRate;
         bw \<leftarrow> dev d mBitWidth;
         let a = (if sr \<noteq> 0 then a\<lparr>config := (config a)\<lparr>sample_rate := sr\<rparr>\<rparr> else a);
         if bw = 0 then do { unlock (DeviceMutex d); return (Some (0, Some (p, a))) }
         else case getAudioFmt bw of
           None \<Rightarrow> return None
         | Some fmt \<Rightarrow> do {
             unlock (DeviceMutex d);
             return (Some (0, Some (p, a\<lparr>config := (config a)\<lparr>bit_width := bw, aud_fmt_id := fmt\<rparr>\<rparr>)))
           }
       }
   }"

section \<open>Locks\<close>

lemma lk_getInstance [lk_rules]: "H' = H \<Longrightarrow> lk H (Device_getInstance E attr) H'"
  unfolding Device_getInstance_def Let_def
  by (rule lk_rules | rule refl | simp add: not_lock_def)+

lemma lk_setMediaConfig [lk_rules]: "H' = H \<Longrightarrow> lk H (Device_setMediaConfig E be attr) H'"
  unfolding Device_setMediaConfig_def set_group_attr_def getBeMixerControl_def Let_def
  by (rule lk_rules | rule refl | simp add: not_lock_def)+

lemma lk_setCustomPayload [lk_rules]: "H' = H \<Longrightarrow> lk H (Device_setCustomPayload E be p) H'"
  unfolding Device_setCustomPayload_def getBeMixerControl_def
  by (rule lk_rules | rule refl | simp add: not_lock_def)+

lemma lk_first_open [lk_rules]: "H' = H \<Longrightarrow> lk H (Device_first_open E d) H'"
  unfolding Device_first_open_def
  by (rule lk_rules | rule refl | simp add: not_lock_def)+

lemma lk_first_start [lk_rules]: "H' = H \<Longrightarrow> lk H (Device_first_start E d) H'"
  unfolding Device_first_start_def
  by (rule lk_rules | rule refl | simp add: not_lock_def)+

lemma lk_start_l [lk_rules]: "H' = H \<Longrightarrow> lk H (Device_start_l E d) H'"
  unfolding Device_start_l_def
  by (rule lk_rules | rule refl | simp add: not_lock_def)+

lemma lk_stop_l [lk_rules]: "H' = H \<Longrightarrow> lk H (Device_stop_l d) H'"
  unfolding Device_stop_l_def
  by (rule lk_rules | rule refl | simp add: not_lock_def)+

lemma lk_device_ops [lk_rules]:
  assumes "\<forall>k\<in>set H. lock_rank k < 5" "H' = H"
  shows "lk H (Device_open E d) H'" "lk H (Device_close d) H'" "lk H (Device_start E d) H'"
    "lk H (Device_stop d) H'" "lk H (Device_getDeviceCount d) H'"
    "lk H (Device_setDeviceAttributes d a) H'" "lk H (Device_getDeviceAttributes d b so) H'"
    "lk H (Device_removeStreamDeviceAttr d s) H'"
  unfolding assms(2) Device_open_def Device_close_def Device_start_def Device_stop_def
    Device_getDeviceCount_def Device_setDeviceAttributes_def Device_getDeviceAttributes_def
    Device_removeStreamDeviceAttr_def
  by (rule lk_rules | rule refl | simp add: not_lock_def assms(1))+

section \<open>Frames of the operations\<close>

text \<open>What no device operation touches: the streams, and the lists of the resource manager.\<close>

definition rm_lists :: "world \<Rightarrow> (nat \<times> nat) list \<times> nat list \<times> (nat \<Rightarrow> nat list option)" where
  "rm_lists w = (active_devices (wrm w), mActiveStreams (wrm w), activeStreamMap (wrm w))"

definition dev_counts :: "nat \<Rightarrow> world \<Rightarrow> int \<times> int" where
  "dev_counts d w = (deviceCount (wdev w d), deviceStartStopCount (wdev w d))"

lemmas obs_defs = rm_lists_def dev_counts_def

lemma kp_getInstance_other:
  "keeps wstr (Device_getInstance E attr)" "keeps wrm (Device_getInstance E attr)"
  unfolding Device_getInstance_def Let_def
  by (rule kp_rules | simp)+

lemma kp_setMediaConfig [kp_rules]:
  assumes "\<And>w l. f (w\<lparr>wlog := l\<rparr>) = f w"
    "\<And>w g. f (w\<lparr>wrm := (wrm w)\<lparr>currentGroupDevConfig := g\<rparr>\<rparr>) = f w"
  shows "keeps f (Device_setMediaConfig E be attr)"
  unfolding Device_setMediaConfig_def set_group_attr_def getBeMixerControl_def Let_def
  by (rule kp_rules | simp add: assms)+

lemma kp_setCustomPayload [kp_rules]:
  assumes "\<And>w l. f (w\<lparr>wlog := l\<rparr>) = f w"
  shows "keeps f (Device_setCustomPayload E be p)"
  unfolding Device_setCustomPayload_def getBeMixerControl_def
  by (rule kp_rules | simp add: assms)+

text \<open>A device that exists under its own id: \<^verbatim>\<open>getInstance\<close> returns it unchanged.\<close>

definition dev_wf :: "nat \<Rightarrow> world \<Rightarrow> bool" where
  "dev_wf d w \<longleftrightarrow> created (wdev w d) \<and> dev_id (deviceAttr (wdev w d)) = d"

lemma getInstance_self:
  assumes "dev_wf d w"
  shows "wdev (snd (run_state (Device_getInstance E (deviceAttr (wdev w d))) w)) = wdev w"
  using assms by (simp add: Device_getInstance_def Let_def dev_wf_def fun_upd_idem)

lemma kp_first_open [kp_rules]:
  assumes "\<And>w l. f (w\<lparr>wlog := l\<rparr>) = f w"
    "\<And>w g. f (w\<lparr>wrm := (wrm w)\<lparr>currentGroupDevConfig := g\<rparr>\<rparr>) = f w"
    "\<And>w n. f (w\<lparr>wdev := (wdev w)(d := (wdev w d)\<lparr>mSndDeviceName := n\<rparr>)\<rparr>) = f w"
  shows "keeps f (Device_first_open E d)"
  unfolding Device_first_open_def
  by (rule kp_rules | simp add: assms)+

lemma kp_close [kp_rules]:
  assumes "\<And>w l. f (w\<lparr>wlog := l\<rparr>) = f w"
    "\<And>w g. f (w\<lparr>wrm := (wrm w)\<lparr>num_proxy_channels := g\<rparr>\<rparr>) = f w"
    "\<And>w x. f (w\<lparr>wdev := (wdev w)(d := x)\<rparr>) = f w"
  shows "keeps f (Device_close d)"
  unfolding Device_close_def
  by (rule kp_rules | simp add: assms)+

lemma kp_stop [kp_rules]:
  assumes "\<And>w l. f (w\<lparr>wlog := l\<rparr>) = f w"
    "\<And>w x. f (w\<lparr>wdev := (wdev w)(d := x)\<rparr>) = f w"
  shows "keeps f (Device_stop d)"
  unfolding Device_stop_def Device_stop_l_def
  by (rule kp_rules | simp add: assms)+

lemma kp_getDeviceCount [kp_rules]:
  assumes "\<And>w l. f (w\<lparr>wlog := l\<rparr>) = f w"
  shows "keeps f (Device_getDeviceCount d)"
  unfolding Device_getDeviceCount_def
  by (rule kp_rules | simp add: assms)+

lemma kp_setDeviceAttributes [kp_rules]:
  assumes "\<And>w l. f (w\<lparr>wlog := l\<rparr>) = f w"
    "\<And>w a. f (w\<lparr>wdev := (wdev w)(d := (wdev w d)\<lparr>deviceAttr := a\<rparr>)\<rparr>) = f w"
  shows "keeps f (Device_setDeviceAttributes d attr)"
  unfolding Device_setDeviceAttributes_def
  by (rule kp_rules | simp add: assms)+

lemma kp_removeStreamDeviceAttr [kp_rules]:
  assumes "\<And>w l. f (w\<lparr>wlog := l\<rparr>) = f w"
    "\<And>w h. f (w\<lparr>wdev := (wdev w)(d := mStreamDevAttr_update h (wdev w d))\<rparr>) = f w"
  shows "keeps f (Device_removeStreamDeviceAttr d s)"
  unfolding Device_removeStreamDeviceAttr_def
  by (rule kp_rules | simp add: assms)+

section \<open>Reference counts\<close>

definition opens :: "world \<Rightarrow> nat \<Rightarrow> int" where
  "opens w d = deviceCount (wdev w d)"

definition starts :: "world \<Rightarrow> nat \<Rightarrow> int" where
  "starts w d = deviceStartStopCount (wdev w d)"

text \<open>What an operation of a device leaves alone.\<close>

definition dev_frame :: "world \<Rightarrow> world \<Rightarrow> bool" where
  "dev_frame w w' \<longleftrightarrow> wstr w' = wstr w \<and> rm_lists w' = rm_lists w \<and>
     listAllBackEndIds (wrm w') = listAllBackEndIds (wrm w) \<and>
     (\<forall>d. dev_wf d w \<longrightarrow> dev_wf d w')"

lemma dev_frame_refl: "dev_frame w w"
  by (simp add: dev_frame_def)

lemma dev_frame_trans: "dev_frame w w' \<Longrightarrow> dev_frame w' w'' \<Longrightarrow> dev_frame w w''"
  by (simp add: dev_frame_def)

definition frame_obs where
  "frame_obs w = (wstr w, rm_lists w, listAllBackEndIds (wrm w), \<lambda>d. dev_wf d w)"

lemma frame_obs_dev_frame: "frame_obs w' = frame_obs w \<Longrightarrow> dev_frame w w'"
  by (simp add: frame_obs_def dev_frame_def fun_eq_iff)

lemma frame_obs_upd:
  "frame_obs (w\<lparr>wlog := l\<rparr>) = frame_obs w"
  "frame_obs (w\<lparr>wrm := (wrm w)\<lparr>currentGroupDevConfig := g\<rparr>\<rparr>) = frame_obs w"
  "frame_obs (w\<lparr>wrm := (wrm w)\<lparr>num_proxy_channels := n\<rparr>\<rparr>) = frame_obs w"
  "frame_obs (w\<lparr>wdev := (wdev w)(d := (wdev w d)\<lparr>mSndDeviceName := nm\<rparr>)\<rparr>) = frame_obs w"
  "frame_obs (w\<lparr>wdev := (wdev w)(d := (wdev w d)\<lparr>mPALDeviceName := nm\<rparr>)\<rparr>) = frame_obs w"
  "frame_obs (w\<lparr>wdev := (wdev w)(d := deviceCount_update h (wdev w d))\<rparr>) = frame_obs w"
  "frame_obs (w\<lparr>wdev := (wdev w)(d := deviceStartStopCount_update h (wdev w d))\<rparr>) = frame_obs w"
  "frame_obs (w\<lparr>wdev := (wdev w)(d := (wdev w d)\<lparr>UpdatedSndName := nm\<rparr>)\<rparr>) = frame_obs w"
  "frame_obs (w\<lparr>wdev := (wdev w)(d := (wdev w d)\<lparr>customPayload := p, customPayloadSize := k\<rparr>)\<rparr>) = frame_obs w"
  "frame_obs (w\<lparr>wdev := (wdev w)(d := (wdev w d)\<lparr>mCurrentPriority := k, deviceStartStopCount := i\<rparr>)\<rparr>) = frame_obs w"
  by (auto simp: frame_obs_def obs_defs dev_wf_def fun_eq_iff)

lemma close_frame: "run_state (Device_close d) w = (st, w') \<Longrightarrow> dev_frame w w'"
proof -
  have "keeps frame_obs (Device_close d)"
    unfolding Device_close_def by (rule kp_rules | simp add: frame_obs_upd)+
  then show "run_state (Device_close d) w = (st, w') \<Longrightarrow> dev_frame w w'"
    by (blast intro: frame_obs_dev_frame dest: keepsD)
qed

lemma stop_frame: "run_state (Device_stop d) w = (st, w') \<Longrightarrow> dev_frame w w'"
proof -
  have "keeps frame_obs (Device_stop d)"
    unfolding Device_stop_def Device_stop_l_def by (rule kp_rules | simp add: frame_obs_upd)+
  then show "run_state (Device_stop d) w = (st, w') \<Longrightarrow> dev_frame w w'"
    by (blast intro: frame_obs_dev_frame dest: keepsD)
qed

lemma close_counts:
  assumes "run_state (Device_close d) w = (st, w')"
  shows "st = 0" "opens w' = (opens w)(d := if opens w d > 0 then opens w d - 1 else opens w d)"
    "starts w' = (if opens w d = 1 then (starts w)(d := 0) else starts w)"
  using assms by (auto simp: Device_close_def opens_def starts_def fun_eq_iff split: if_splits)

lemma stop_counts:
  assumes "run_state (Device_stop d) w = (st, w')"
  shows "st = 0" "opens w' = opens w"
    "starts w' = (starts w)(d := if starts w d > 0 then starts w d - 1 else starts w d)"
  using assms by (auto simp: Device_stop_def Device_stop_l_def opens_def starts_def fun_eq_iff split: if_splits)

lemma getInstance_run:
  assumes "dev_wf d w" "attr = deviceAttr (wdev w d)"
  obtains r l where "run_state (Device_getInstance E attr) w = (r, w\<lparr>wlog := l\<rparr>)"
proof -
  have "\<exists>r l. run_state (Device_getInstance E attr) w = (r, w\<lparr>wlog := l\<rparr>)"
    using assms by (cases "dev_id attr = PAL_DEVICE_NONE"; cases w)
      (auto simp: Device_getInstance_def Let_def dev_wf_def)
  then show thesis using that by blast
qed

definition count_obs where
  "count_obs w = (frame_obs w, opens w, starts w)"

lemma count_obs_upd:
  "count_obs (w\<lparr>wlog := l\<rparr>) = count_obs w"
  "count_obs (w\<lparr>wrm := (wrm w)\<lparr>currentGroupDevConfig := g\<rparr>\<rparr>) = count_obs w"
  "count_obs (w\<lparr>wdev := (wdev w)(d := (wdev w d)\<lparr>mSndDeviceName := nm\<rparr>)\<rparr>) = count_obs w"
  "count_obs (w\<lparr>wdev := (wdev w)(d := (wdev w d)\<lparr>mPALDeviceName := nm\<rparr>)\<rparr>) = count_obs w"
  by (auto simp: count_obs_def frame_obs_upd opens_def starts_def fun_eq_iff)

lemma count_obs_dest:
  assumes "count_obs w' = count_obs w"
  shows "opens w' = opens w" "starts w' = starts w" "dev_frame w w'"
  using assms by (auto simp: count_obs_def intro: frame_obs_dev_frame)

lemma first_open_obs:
  "run_state (Device_first_open E d) w = (st, w') \<Longrightarrow> count_obs w' = count_obs w"
  by (rule keepsD [of count_obs, OF kp_first_open]) (simp_all add: count_obs_upd)

lemma open_counts:
  assumes wf: "dev_wf d w" and run: "run_state (Device_open E d) w = (st, w')"
  shows "opens w' = (opens w)(d := opens w d + (if st = 0 then 1 else 0))"
    "starts w' = starts w" "dev_frame w w'"
proof -
  let ?w1 = "w\<lparr>wlog := Lock (DeviceMutex d) # wlog w, wdev := (wdev w)(d := (wdev w d)
     \<lparr>mPALDeviceName := getPALDeviceName (wrm w) (dev_id (deviceAttr (wdev w d)))\<rparr>)\<rparr>"
  obtain r l where g: "run_state (Device_getInstance E (deviceAttr (wdev w d))) ?w1 = (r, ?w1\<lparr>wlog := l\<rparr>)"
    using wf by (rule_tac getInstance_run [of d ?w1]) (auto simp: dev_wf_def)
  obtain w2 where f: "run_state (if opens w d = 0 then Device_first_open E d else return 0)
      (?w1\<lparr>wlog := l\<rparr>) = (st, w2)"
    and w': "w' = (if st = 0 then w2\<lparr>wdev := (wdev w2)(d := deviceCount_update (\<lambda>n. n + 1) (wdev w2 d))\<rparr>
                   else w2)\<lparr>wlog := Unlock (DeviceMutex d) # wlog w2\<rparr>"
    using run g unfolding Device_open_def
    by (elim run_bindE) (auto simp: opens_def split: if_splits)
  have "count_obs (?w1\<lparr>wlog := l\<rparr>) = count_obs w"
    by (simp add: count_obs_def frame_obs_def obs_defs dev_wf_def opens_def starts_def fun_eq_iff)
  then have c2: "count_obs w2 = count_obs w"
    using f first_open_obs by (auto split: if_splits)
  note d = count_obs_dest [OF c2]
  show "opens w' = (opens w)(d := opens w d + (if st = 0 then 1 else 0))"
    and "starts w' = starts w"
    using d(1,2) unfolding w' by (auto simp: opens_def starts_def fun_eq_iff)
  have "frame_obs w' = frame_obs w2"
    unfolding w' by (simp add: frame_obs_upd)
  then show "dev_frame w w'"
    using d(3) frame_obs_dev_frame dev_frame_trans by blast
qed

definition backend :: "world \<Rightarrow> nat \<Rightarrow> string" where
  "backend w d = snd (getBackendName (wrm w) (dev_id (deviceAttr (wdev w d))) [])"

lemma count_obs_config:
  "count_obs (w\<lparr>wdev := (wdev w)(d := deviceAttr_update (\<lambda>a. a\<lparr>config := h a\<rparr>) (wdev w d))\<rparr>) = count_obs w"
  by (auto simp: count_obs_def frame_obs_def obs_defs dev_wf_def opens_def starts_def fun_eq_iff)

text \<open>The part of the first start after the device instance is fetched.\<close>

definition Device_configure :: "env \<Rightarrow> nat \<Rightarrow> string \<Rightarrow> nat \<Rightarrow> (int \<times> bool) io" where
  "Device_configure E d be i = do {
     plugin \<leftarrow> call E (IsPluginPlaybackDevice i);
     when_io (plugin \<noteq> 0)
       (upd_dev d (deviceAttr_update (\<lambda>a. a\<lparr>config := plugin_defaults (config a)\<rparr>)));
     attr \<leftarrow> dev d deviceAttr;
     Device_setMediaConfig E be attr;
     payload \<leftarrow> dev d customPayload;
     n \<leftarrow> dev d customPayloadSize;
     if n \<noteq> 0
     then do {
       st \<leftarrow> Device_setCustomPayload E be (case payload of None \<Rightarrow> [] | Some p \<Rightarrow> p);
       return (st, True)
     }
     else return (0, True)
   }"

lemma first_start_configure:
  "Device_first_start E d = do {
     attr \<leftarrow> dev d deviceAttr;
     be \<leftarrow> rmg (\<lambda>rm. snd (getBackendName rm (dev_id attr) []));
     if be = [] then return (- EINVAL, False)
     else do { Device_getInstance E attr; Device_configure E d be (dev_id attr) }
   }"
  unfolding Device_first_start_def Device_configure_def by (rule refl)

lemma configure_obs: "keeps count_obs (Device_configure E d be i)"
  unfolding Device_configure_def
  by (rule kp_rules | simp add: count_obs_upd count_obs_config)+

lemma configure_result: "run_state (Device_configure E d be i) w = ((st, inc), w') \<Longrightarrow> inc"
  unfolding Device_configure_def by (elim run_bindE) (auto split: if_splits prod.splits)

lemma first_start_run:
  assumes wf: "dev_wf d w" and run: "run_state (Device_first_start E d) w = ((st, inc), w')"
  shows "count_obs w' = count_obs w" "inc = (backend w d \<noteq> [])" "\<not> inc \<Longrightarrow> st = - EINVAL"
proof -
  obtain r l where g: "run_state (Device_getInstance E (deviceAttr (wdev w d))) w = (r, w\<lparr>wlog := l\<rparr>)"
    using wf by (rule getInstance_run) auto
  have "(backend w d = [] \<and> (st, inc) = (- EINVAL, False) \<and> w' = w) \<or>
        (backend w d \<noteq> [] \<and> run_state (Device_configure E d (backend w d)
            (dev_id (deviceAttr (wdev w d)))) (w\<lparr>wlog := l\<rparr>) = ((st, inc), w'))"
    using run g unfolding first_start_configure
    by (elim run_bindE) (auto simp: backend_def split: if_splits prod.splits)
  then show "count_obs w' = count_obs w" "inc = (backend w d \<noteq> [])" "\<not> inc \<Longrightarrow> st = - EINVAL"
    by (auto simp: count_obs_upd dest: keepsD [OF configure_obs] configure_result)
qed

lemma start_counts:
  assumes wf: "dev_wf d w" and run: "run_state (Device_start E d) w = (st, w')"
  defines "inc \<equiv> starts w d \<noteq> 0 \<or> backend w d \<noteq> []"
  shows "opens w' = opens w" "starts w' = (starts w)(d := starts w d + (if inc then 1 else 0))"
    "dev_frame w w'" "\<not> inc \<Longrightarrow> st = - EINVAL" "starts w d \<noteq> 0 \<Longrightarrow> st = 0"
proof -
  let ?w0 = "w\<lparr>wlog := Lock (DeviceMutex d) # wlog w\<rparr>"
  obtain inc' w2 where f: "run_state (if starts w d = 0 then Device_first_start E d else return (0, True)) ?w0
      = ((st, inc'), w2)"
    and w': "w' = (if inc' then w2\<lparr>wdev := (wdev w2)(d := deviceStartStopCount_update (\<lambda>n. n + 1) (wdev w2 d))\<rparr>
                   else w2)\<lparr>wlog := Unlock (DeviceMutex d) # wlog w2\<rparr>"
    using run unfolding Device_start_def Device_start_l_def
    by (elim run_bindE) (auto simp: starts_def split: if_splits prod.splits elim: run_bindE)
  have wf0: "dev_wf d ?w0" and b0: "backend ?w0 d = backend w d"
    using wf by (simp_all add: dev_wf_def backend_def)
  have c0: "count_obs ?w0 = count_obs w" by (simp add: count_obs_upd)
  have fr: "count_obs w2 = count_obs ?w0 \<and> inc' = inc \<and> (\<not> inc \<longrightarrow> st = - EINVAL)
      \<and> (starts w d \<noteq> 0 \<longrightarrow> st = 0)"
    using f b0 first_start_run(2,3) [OF wf0, of E st inc' w2] unfolding inc_def
    by (auto split: if_splits dest: first_start_run(1) [OF wf0])
  note d = count_obs_dest [of w2 w]
  show "opens w' = opens w" "starts w' = (starts w)(d := starts w d + (if inc then 1 else 0))"
    using d(1,2) fr c0 unfolding w' by (auto simp: opens_def starts_def fun_eq_iff)
  have "frame_obs w' = frame_obs w2" unfolding w' by (simp add: frame_obs_upd)
  then show "dev_frame w w'"
    using d(3) fr c0 frame_obs_dev_frame dev_frame_trans by metis
  show "\<not> inc \<Longrightarrow> st = - EINVAL" "starts w d \<noteq> 0 \<Longrightarrow> st = 0" using fr by blast+
qed

section \<open>Routing follows the open count\<close>

text \<open>How many more times a sound device was enabled than disabled.\<close>

fun routes :: "event list \<Rightarrow> string \<Rightarrow> int" where
  "routes [] n = 0"
| "routes (EnableDevice m # l) n = routes l n + (if m = n then 1 else 0)"
| "routes (DisableDevice m # l) n = routes l n - (if m = n then 1 else 0)"
| "routes (e # l) n = routes l n"

definition not_route :: "event \<Rightarrow> bool" where
  "not_route e = (case e of EnableDevice n \<Rightarrow> False | DisableDevice n \<Rightarrow> False | _ \<Rightarrow> True)"

lemma routes_other: "not_route e \<Longrightarrow> routes (e # l) = routes l"
  by (cases e) (auto simp: not_route_def)

definition route_obs :: "nat \<Rightarrow> world \<Rightarrow> string \<times> (string \<Rightarrow> int)" where
  "route_obs d w = (mSndDeviceName (wdev w d), routes (wlog w))"

lemma kp_route:
  "not_route c \<Longrightarrow> keeps (route_obs d) (call E c)"
  "not_route c \<Longrightarrow> keeps (route_obs d) (tell c)"
  "keeps (route_obs d) (lock k)" "keeps (route_obs d) (unlock k)"
  by (auto simp: keeps_def route_obs_def routes_other not_route_def fun_eq_iff)

lemma route_setMediaConfig: "keeps (route_obs d) (Device_setMediaConfig E be attr)"
  unfolding Device_setMediaConfig_def set_group_attr_def getBeMixerControl_def Let_def
  by (rule kp_route kp_rules | simp add: not_route_def route_obs_def)+

lemma route_configure: "keeps (route_obs d) (Device_configure E d be i)"
  unfolding Device_configure_def Device_setCustomPayload_def getBeMixerControl_def
  by (rule kp_route route_setMediaConfig kp_rules | simp add: not_route_def route_obs_def)+

lemma route_getInstance:
  assumes "dev_wf d w" "attr = deviceAttr (wdev w d)"
    "run_state (Device_getInstance E attr) w = (r, w')"
  shows "route_obs d w' = route_obs d w"
  using assms
  by (auto simp: Device_getInstance_def Let_def dev_wf_def route_obs_def routes_other not_route_def
      fun_eq_iff split: if_splits)

lemma route_first_start:
  assumes wf: "dev_wf d w" and run: "run_state (Device_first_start E d) w = (x, w')"
  shows "route_obs d w' = route_obs d w"
  using run route_getInstance [OF wf refl] unfolding first_start_configure
  by (elim run_bindE) (auto split: if_splits prod.splits dest!: keepsD [OF route_configure])

lemma route_start:
  assumes wf: "dev_wf d w" and run: "run_state (Device_start E d) w = (st, w')"
  shows "route_obs d w' = route_obs d w"
proof -
  have "dev_wf d (w\<lparr>wlog := Lock (DeviceMutex d) # wlog w\<rparr>)" using wf by (simp add: dev_wf_def)
  note fs = route_first_start [OF this]
  show ?thesis
    using run unfolding Device_start_def Device_start_l_def
    by (elim run_bindE)
       (auto simp: route_obs_def split: if_splits prod.splits elim!: run_bindE dest!: fs)
qed

lemma first_open_route:
  assumes "run_state (Device_first_open E d) w = (st, w')"
  shows "routes (wlog w') n =
    routes (wlog w) n + (if st = 0 \<and> n = mSndDeviceName (wdev w' d) then 1 else 0)"
  using assms unfolding Device_first_open_def
  by (elim run_bindE)
     (auto simp: routes_other not_route_def route_obs_def split: if_splits prod.splits
        elim!: run_bindE dest!: keepsD [OF route_setMediaConfig])

lemma open_route:
  assumes wf: "dev_wf d w" and run: "run_state (Device_open E d) w = (st, w')"
  shows "opens w d = 0 \<Longrightarrow> routes (wlog w') n =
      routes (wlog w) n + (if st = 0 \<and> n = mSndDeviceName (wdev w' d) then 1 else 0)"
    and "opens w d \<noteq> 0 \<Longrightarrow> route_obs d w' = route_obs d w"
proof -
  let ?w1 = "w\<lparr>wlog := Lock (DeviceMutex d) # wlog w, wdev := (wdev w)(d := (wdev w d)
     \<lparr>mPALDeviceName := getPALDeviceName (wrm w) (dev_id (deviceAttr (wdev w d)))\<rparr>)\<rparr>"
  obtain r l where g: "run_state (Device_getInstance E (deviceAttr (wdev w d))) ?w1 = (r, ?w1\<lparr>wlog := l\<rparr>)"
    using wf by (rule_tac getInstance_run [of d ?w1]) (auto simp: dev_wf_def)
  have l: "routes l = routes (wlog w)"
    using route_getInstance [OF _ _ g, of d] wf by (simp add: dev_wf_def route_obs_def fun_eq_iff)
  show "opens w d = 0 \<Longrightarrow> routes (wlog w') n =
      routes (wlog w) n + (if st = 0 \<and> n = mSndDeviceName (wdev w' d) then 1 else 0)"
    and "opens w d \<noteq> 0 \<Longrightarrow> route_obs d w' = route_obs d w"
    using run g l unfolding Device_open_def
    by (elim run_bindE; auto simp: opens_def route_obs_def fun_eq_iff split: if_splits
          dest!: first_open_route [where n = n])+
qed

lemma close_route:
  assumes run: "run_state (Device_close d) w = (st, w')"
  shows "routes (wlog w') n =
      routes (wlog w) n - (if opens w d = 1 \<and> n = mSndDeviceName (wdev w d) then 1 else 0)"
    "mSndDeviceName (wdev w' d) = mSndDeviceName (wdev w d)"
  using run by (auto simp: Device_close_def opens_def split: if_splits)

lemma stop_route:
  assumes run: "run_state (Device_stop d) w = (st, w')"
  shows "route_obs d w' = route_obs d w"
  using run by (auto simp: Device_stop_def Device_stop_l_def route_obs_def fun_eq_iff split: if_splits)

text \<open>The life of one device: any sequence of the operations the streams call on it, and of the
  setters the resource manager uses.\<close>

inductive dev_reach :: "env \<Rightarrow> nat \<Rightarrow> world \<Rightarrow> world \<Rightarrow> bool" for E d w0 where
  dr_init: "dev_reach E d w0 w0"
| dr_open: "dev_reach E d w0 w \<Longrightarrow> run_state (Device_open E d) w = (st, w') \<Longrightarrow> dev_reach E d w0 w'"
| dr_close: "dev_reach E d w0 w \<Longrightarrow> run_state (Device_close d) w = (st, w') \<Longrightarrow> dev_reach E d w0 w'"
| dr_start: "dev_reach E d w0 w \<Longrightarrow> run_state (Device_start E d) w = (st, w') \<Longrightarrow> dev_reach E d w0 w'"
| dr_stop: "dev_reach E d w0 w \<Longrightarrow> run_state (Device_stop d) w = (st, w') \<Longrightarrow> dev_reach E d w0 w'"
| dr_setSndName: "dev_reach E d w0 w \<Longrightarrow>
    dev_reach E d w0 (w\<lparr>wdev := (wdev w)(d := (wdev w d)\<lparr>UpdatedSndName := n\<rparr>)\<rparr>)"
| dr_setAttr: "dev_reach E d w0 w \<Longrightarrow> dev_id a = d \<Longrightarrow>
    run_state (Device_setDeviceAttributes d a) w = (st, w') \<Longrightarrow> dev_reach E d w0 w'"

definition routed :: "(string \<Rightarrow> int) \<Rightarrow> nat \<Rightarrow> world \<Rightarrow> bool" where
  "routed r0 d w \<longleftrightarrow> dev_wf d w \<and> opens w d \<ge> 0 \<and>
     (\<forall>n. routes (wlog w) n = r0 n + (if opens w d > 0 \<and> n = mSndDeviceName (wdev w d) then 1 else 0))"

lemma open_keeps_routed:
  assumes "routed r0 d w" and run: "run_state (Device_open E d) w = (st, w')"
  shows "routed r0 d w'"
proof -
  have wf: "dev_wf d w" using assms(1) by (simp add: routed_def)
  show ?thesis
    using assms(1) open_counts [OF wf run] open_route [OF wf run]
    by (cases "opens w d = 0") (auto simp: routed_def dev_frame_def route_obs_def)
qed

lemma close_keeps_routed:
  assumes "routed r0 d w" and run: "run_state (Device_close d) w = (st, w')"
  shows "routed r0 d w'"
  using assms(1) close_counts(2) [OF run] close_route [OF run] close_frame [OF run]
  by (auto simp: routed_def dev_frame_def)

lemma start_stop_keep_routed:
  assumes "routed r0 d w"
  shows "run_state (Device_start E d) w = (st, w') \<Longrightarrow> routed r0 d w'"
    "run_state (Device_stop d) w = (st', w'') \<Longrightarrow> routed r0 d w''"
proof -
  have wf: "dev_wf d w" using assms by (simp add: routed_def)
  show "run_state (Device_start E d) w = (st, w') \<Longrightarrow> routed r0 d w'"
    using assms start_counts(1,3) [OF wf] route_start [OF wf]
    by (force simp: routed_def dev_frame_def route_obs_def fun_eq_iff)
  show "run_state (Device_stop d) w = (st', w'') \<Longrightarrow> routed r0 d w''"
    using assms stop_counts(2) stop_frame stop_route
    by (force simp: routed_def dev_frame_def route_obs_def fun_eq_iff)
qed

text \<open>
  C20: Whatever sequence of opens, closes, starts and stops the streams make on a device, with
  any failures and any changes of its attributes and of its sound device name in between, the
  device is routed on the audio hardware exactly once while its open count is positive, under
  the name it was enabled with, and not at all when the count is zero.
\<close>

theorem device_routed_iff_open:
  assumes "dev_reach E d w0 w" and "dev_wf d w0" and "opens w0 d = 0"
  shows "opens w d \<ge> 0 \<and>
    (\<forall>n. routes (wlog w) n - routes (wlog w0) n =
       (if opens w d > 0 \<and> n = mSndDeviceName (wdev w d) then 1 else 0))"
proof -
  have "routed (routes (wlog w0)) d w"
    using assms
  proof (induction rule: dev_reach.induct)
    case dr_init
    then show ?case by (simp add: routed_def)
  next
    case (dr_setSndName w n)
    then show ?case by (auto simp: routed_def dev_wf_def opens_def)
  next
    case (dr_setAttr w a st w')
    then show ?case
      by (auto simp: routed_def dev_wf_def opens_def Device_setDeviceAttributes_def)
  qed (auto intro: open_keeps_routed close_keeps_routed start_stop_keep_routed)
  then show ?thesis by (auto simp: routed_def)
qed

definition demo_info :: pal_device_info where
  "demo_info = zero_info\<lparr>priority := 3\<rparr>"

definition demo_config :: pal_media_config where
  "demo_config = \<lparr>sample_rate = 48000, bit_width = 16, aud_fmt_id = PAL_AUDIO_FMT_PCM_S16_LE,
     channels = 2, ch_map = [PAL_CHMAP_CHANNEL_FL, PAL_CHMAP_CHANNEL_FR]\<rparr>"

definition demo_attr :: "nat \<Rightarrow> pal_device" where
  "demo_attr d = \<lparr>dev_id = d, config = demo_config, card_id = 0, sndDevName = ''spk'', custom_key = []\<rparr>"

text \<open>A platform with one speaker backend, on which every call succeeds, for the examples.\<close>

definition demo_env :: env where
  "demo_env = \<lparr>ans = (\<lambda>l c. case c of GetSoundCardState \<Rightarrow> 1 | MixerGetCtl n \<Rightarrow> 1 | _ \<Rightarrow> 0),
     outv = (\<lambda>l c. 0), devcfg = (\<lambda>l a. a), stackinfo = (\<lambda>l. demo_info),
     stackdev = (\<lambda>l. demo_attr 0), soundmodels = (\<lambda>l. []), streamprof = (\<lambda>l s. None),
     AGM_DATA_FORMAT_FIXED_POINT = 1, AGM_DATA_FORMAT_COMPR_OVER_PCM_PACKETIZED = 7\<rparr>"

definition demo_rm :: RM where
  "demo_rm = \<lparr>deviceInfo = [], listAllBackEndIds = (\<lambda>d. ''BE''), sndDeviceNameLUT = (\<lambda>d. ''spk''),
     deviceLinkName = (\<lambda>d. []), devicePcmId = (\<lambda>d. 0), deviceNameLUT = (\<lambda>d. ''DEV''),
     isVbatEnabled = False, isSpeakerProtectionEnabled = False, isDeviceDedicatedBEEnabled = False,
     isQmpEnabled = False, isDummyDevEnabled = False, isUPDVirtualPortEnabled = False,
     isI2sDualMonoEnabled = False, isUpdSetCustomGainEnabled = False,
     is_multiple_sample_rate_combo_supported = True, isVolumeUsingSetParam = False,
     volumeSetParamStreams = [], num_proxy_channels = 0, isProxyRecordActive = False,
     activeGroupDevConfig = None, currentGroupDevConfig = None, avail_devices = [],
     active_devices = [], mActiveStreams = [], activeStreamMap = (\<lambda>t. None),
     mActiveStreamUserCounter = (\<lambda>s. None), maxSessionMap = (\<lambda>t. None),
     wake_lock_fd = 3, wake_unlock_fd = 4, wake_lock_cnt = 0, callback_event = False, globalCb = False,
     cardState = CARD_STATUS_ONLINE, msgQ = [], isContextManagerEnabled = False, isDeviceSwitch = False,
     txEcInfo = [], sleepmon_fd = 5, lpi_counter = 0, nlpi_counter = 0,
     sleep_monitor_vote_type = (\<lambda>t. NLPI_VOTE), stream_instances = (\<lambda>t. 0),
     in_stream_instances = (\<lambda>t. 0), STInstancesLists = [], mNTStreamInstancesList = (\<lambda>p i. None),
     max_session_num = 8, max_nt_sessions = 8\<rparr>"

definition demo_attrs :: "nat \<Rightarrow> nat \<Rightarrow> pal_stream_attributes" where
  "demo_attrs t dir = \<lparr>stype = t, sflags = 0, direction = dir, in_media_config = demo_config,
     out_media_config = demo_config, has_address = False\<rparr>"

definition demo_stream :: "nat list \<Rightarrow> nat \<Rightarrow> Stream" where
  "demo_stream ds dir = \<lparr>mInitialized = True, mDevices = ds, mPalDevices = ds, session = True,
     mStreamAttr = Some (demo_attrs PAL_STREAM_DEEP_BUFFER dir), deviceMuteStateRx = False,
     deviceMuteStateTx = False, mGainLevel = - 1, inBufSize = 960, outBufSize = 1024,
     inBufCount = 4, outBufCount = 4, inMaxMetadataSz = 0, outMaxMetadataSz = 0,
     currentState = STREAM_IDLE, cachedState = STREAM_IDLE, mInstanceID = 0,
     skipSSRHandling = False, mInUse = Some 1,
     mVolumeData = Some \<lparr>no_of_volpair = 1, volume_pair = [\<lparr>channel_mask = 3, vol = 1\<rparr>]\<rparr>,
     streamCb = 0, cookie = 0, isPaused = False, a2dpMuted = False, unMutePending = False,
     a2dpPaused = False, isMMap = False, isComboHeadsetActive = False, suspendedOutDevIds = [],
     mStreamSelector = []\<rparr>"

definition demo_st :: StreamSoundTrigger where
  "demo_st = \<lparr>cur_state = ST_STATE_IDLE, prev_state = ST_STATE_NONE, state_for_restore = ST_STATE_NONE,
     paused = False, device_opened = False, pending_stop = False, timer_stop_waiting = False,
     exit_timer_thread = False, rejection_notified = False,
     mutex_unlocked_after_cb = False, common_cp_update_disable = False, second_stage_processing = False,
     is_backend_shared = False, is_abort_event_notifying = False, batchModeReadDone = False,
     capture_requested_flag = False, conc_notified = False, force_nlpi_vote = False, vote_lpi = True,
     st_callback = 0, sound_model_type = 0, sm_cfg = None, sm_config = None, rec_config = None, engines = [], gsl_engine = None,
     gsl_engine_model = None, vui_intf = False, st_reader = False, reader_list = 0, detection_state = 0,
     notification_state = 0, recognition_mode = 0, model_id = 0, model_type = 0, hist_buf_duration = 0,
     pre_roll_duration = 0, ec_rx_dev = None, cap_prof = None, dattr_specified = None\<rparr>"

definition demo_stu :: STUtils where
  "demo_stu = \<lparr>TxconcurrencyEnableCount = 0, concurrencyDisableCount = 0, ACDConcurrencyDisableCount = 0,
     ASRConcurrencyDisableCount = 0, SNSPCMDataConcurrencyDisableCount = 0, deferredSwitchState = NO_DEFER,
     deferred_switch_cnt = - 1, SoundTriggerCaptureProfile = None, TXMacroCaptureProfile = None,
     mStCaptureInfo = (\<lambda>h. None), mNLPIStreams = {}, mStartDeferredStreams = [], onResourceAvailCbList = [],
     use_lpi = True, charging_state = False, support_nlpi_switch = True, support_device_switch = False,
     concurrent_capture = False, concurrent_voice_call = False, concurrent_voip_call = False,
     low_latency_bargein_enable = False, IsCRSCallEnabled = False,
     IsTransitToNonLPIOnChargingSupported = False, notify_second_stage_failure = False,
     stream_cfg_list = (\<lambda>u. None)\<rparr>"

definition demo_world :: "nat list \<Rightarrow> nat \<Rightarrow> world" where
  "demo_world ds dir = \<lparr>wdev = (\<lambda>d. new_Device (demo_attr d)), wstr = (\<lambda>s. demo_stream ds dir),
     wrm = demo_rm, wst = (\<lambda>s. demo_st), wstu = demo_stu, pal_init_ref_cnt = 1, wlog = []\<rparr>"

lemmas demo_defs = demo_world_def demo_stream_def demo_attrs_def demo_rm_def demo_env_def
  demo_attr_def demo_config_def demo_info_def zero_info_def new_Device_def

lemma demo_reach:
  "dev_reach demo_env 3 (demo_world [3] 1) (snd (run_state (Device_open demo_env 3) (demo_world [3] 1)))"
  by (rule dr_open [OF dr_init]) (rule prod.collapse [symmetric])

theorem device_routed_iff_open_witness:
  "opens (snd (run_state (Device_open demo_env 3) (demo_world [3] 1))) 3 \<ge> 0 \<and>
   (\<forall>n. routes (wlog (snd (run_state (Device_open demo_env 3) (demo_world [3] 1)))) n - routes (wlog (demo_world [3] 1)) n =
      (if opens (snd (run_state (Device_open demo_env 3) (demo_world [3] 1))) 3 > 0 \<and>
          n = mSndDeviceName (wdev (snd (run_state (Device_open demo_env 3) (demo_world [3] 1))) 3)
       then 1 else 0))"
  by (rule device_routed_iff_open [OF demo_reach]) (simp_all add: demo_defs dev_wf_def opens_def)

section \<open>The attribute list\<close>

text \<open>Where the new entry goes: behind every entry of a better priority and every equal one it
  does not beat, directly in front of the first it beats.\<close>

lemma insert_attr_place:
  assumes "insert_attr rm ty force inI new es ci = Some es'" and "fst new = priority inI"
    and "sorted (map fst es)"
  obtains xs ys where "es = xs @ ys" "es' = xs @ new # ys" "\<forall>e\<in>set xs. fst e \<le> fst new"
    "\<forall>e\<in>set ys. fst new \<le> fst e"
  using assms
proof (induction rm ty force inI new es ci arbitrary: es' thesis rule: insert_attr.induct)
  case (1 rm ty force inI new ci)
  show ?case by (rule "1.prems"(1) [of "[]" "[]"]) (use "1.prems"(2) in auto)
next
  case (2 rm ty force inI new p s a es ci)
  obtain ci' where ci: "getDeviceInfo rm (dev_id a) (ty s) (custom_key a) ci = Some ci'"
    using "2.prems"(2) by (auto split: option.splits)
  show ?case
  proof (cases "priority inI < p \<or>
      priority inI = p \<and> (Device_compareStreamDevAttr (snd (snd new)) inI a ci' \<or> force)")
    case True
    show ?thesis
      by (rule "2.prems"(1) [of "[]" "(p, s, a) # es"])
         (use True ci "2.prems"(2-4) in \<open>auto split: if_splits\<close>)
  next
    case False
    then obtain r where r: "insert_attr rm ty force inI new es ci' = Some r" "es' = (p, s, a) # r"
      using "2.prems"(2) ci by (auto split: if_splits)
    obtain xs ys where s: "es = xs @ ys" "r = xs @ new # ys" "\<forall>e\<in>set xs. fst e \<le> fst new"
      "\<forall>e\<in>set ys. fst new \<le> fst e"
      by (rule "2.IH" [OF ci _ _ _ r(1)]) (use False "2.prems"(3,4) in auto)
    show ?thesis
      by (rule "2.prems"(1) [of "(p, s, a) # xs" ys]) (use s r(2) False "2.prems"(3) in auto)
  qed
qed

lemma insert_attr_sorted:
  assumes "insert_attr rm ty force inI new es ci = Some es'" and "fst new = priority inI"
    and "sorted (map fst es)"
  shows "sorted (map fst es')" "mset es' = add_mset new (mset es)"
proof -
  obtain xs ys where s: "es = xs @ ys" "es' = xs @ new # ys" "\<forall>e\<in>set xs. fst e \<le> fst new"
    "\<forall>e\<in>set ys. fst new \<le> fst e"
    using insert_attr_place [OF assms] by metis
  show "sorted (map fst es')" "mset es' = add_mset new (mset es)"
    using assms(3) s by (auto simp: sorted_append)
qed

lemma remove_attr_append:
  "remove_attr s (xs @ (p, s, a) # ys) = xs @ ys" if "\<forall>e\<in>set xs. fst (snd e) \<noteq> s"
  using that by (induction xs) auto

lemma insert_remove_attr:
  assumes "insert_attr rm ty force inI (p, s, a) es ci = Some es'" and "p = priority inI"
    and "sorted (map fst es)" and "\<forall>e\<in>set es. fst (snd e) \<noteq> s"
  shows "remove_attr s es' = es"
proof -
  obtain xs ys where "es = xs @ ys" "es' = xs @ (p, s, a) # ys"
    using insert_attr_place [OF assms(1) _ assms(3)] assms(2) by (metis fst_conv)
  then show ?thesis using assms(4) by (simp add: remove_attr_append)
qed

lemma sorted_remove_attr: "sorted (map fst es) \<Longrightarrow> sorted (map fst (remove_attr s es))"
proof (induction es)
  case (Cons e es)
  have "set (remove_attr s es) \<subseteq> set es"
    by (induction es) (auto split: if_splits)
  then show ?case using Cons by (cases e) auto
qed simp

lemma insertStreamDeviceAttr_run:
  assumes run: "run_state (Device_insertStreamDeviceAttr E d (Some inA) (Some s)) w = (Some st, w')"
  shows "(st = - ENOMEM \<and> mStreamDevAttr (wdev w' d) = mStreamDevAttr (wdev w d)) \<or>
    (st = 0 \<and> (\<exists>inI ci force. insert_attr (wrm w) (stream_type w) force inI (priority inI, s, inA)
       (mStreamDevAttr (wdev w d)) ci = Some (mStreamDevAttr (wdev w' d))))"
  using run unfolding Device_insertStreamDeviceAttr_def
  by (auto simp: stream_type_def elim!: run_bindE split: if_splits option.splits) blast+



lemma configure_fails:
  assumes run: "run_state (Device_configure E d be i) w = (x, w')"
    and "customPayloadSize (wdev w d) \<noteq> 0"
    and "\<And>l. ans E l GetVirtualAudioMixer = 0" and "\<And>l n. ans E l (MixerGetCtl n) \<noteq> 0"
    and "\<And>l p. ans E l (MixerSetArray (be @ '' setParam'') p) = e"
  shows "x = (e, True)"
proof -
  have k: "keeps wdev (Device_setMediaConfig E be a)" for a
    by (rule kp_setMediaConfig) simp_all
  show ?thesis
    using run assms(2-) unfolding Device_configure_def Device_setCustomPayload_def getBeMixerControl_def
    by (elim run_bindE) (auto split: if_splits prod.splits dest!: keepsD [OF k])
qed

lemma start_fails:
  assumes "dev_wf d w" and "starts w d = 0" and "backend w d \<noteq> []" and "customPayloadSize (wdev w d) \<noteq> 0"
    and "\<And>l. ans E l GetVirtualAudioMixer = 0" and "\<And>l n. ans E l (MixerGetCtl n) \<noteq> 0"
    and "\<And>l p. ans E l (MixerSetArray (backend w d @ '' setParam'') p) = e"
    and run: "run_state (Device_start E d) w = (st, w')"
  shows "st = e"
proof -
  let ?w0 = "w\<lparr>wlog := Lock (DeviceMutex d) # wlog w\<rparr>"
  have wf: "dev_wf d ?w0" using assms(1) by (simp add: dev_wf_def)
  obtain r l where g: "run_state (Device_getInstance E (deviceAttr (wdev ?w0 d))) ?w0 = (r, ?w0\<lparr>wlog := l\<rparr>)"
    using wf by (rule getInstance_run) auto
  obtain x w2 where x: "run_state (Device_configure E d (backend w d) (dev_id (deviceAttr (wdev w d)))) (?w0\<lparr>wlog := l\<rparr>) = (x, w2)"
    by fastforce
  have "x = (e, True)" by (rule configure_fails [OF x]) (use assms(4-7) in simp_all)
  then show ?thesis
    using run g x assms(2,3) unfolding Device_start_def Device_start_l_def first_start_configure
    by (auto simp: starts_def backend_def split: if_splits prod.splits)
qed

text \<open>
  A failed write of the custom payload makes the first start of a device report the error,
  and still counts the device as started: the next start succeeds without configuring it.
\<close>

theorem failed_start_is_counted:
  assumes "dev_wf d w" and "starts w d = 0" and "backend w d \<noteq> []" and "customPayloadSize (wdev w d) \<noteq> 0"
    and "\<And>l. ans E l GetVirtualAudioMixer = 0" and "\<And>l n. ans E l (MixerGetCtl n) \<noteq> 0"
    and "\<And>l p. ans E l (MixerSetArray (backend w d @ '' setParam'') p) = e"
  shows "fst (run_state (Device_start E d) w) = e \<and>
    starts (snd (run_state (Device_start E d) w)) d = 1 \<and>
    fst (run_state (Device_start E d) (snd (run_state (Device_start E d) w))) = 0"
proof -
  obtain st w1 where r1: "run_state (Device_start E d) w = (st, w1)" by fastforce
  obtain st2 w2 where r2: "run_state (Device_start E d) w1 = (st2, w2)" by fastforce
  have c: "starts w1 = (starts w)(d := 1)" "dev_frame w w1"
    using start_counts [OF assms(1) r1] assms(2,3) by auto
  have "st2 = 0"
    using start_counts(5) [OF _ r2] c assms(1) by (simp add: dev_frame_def)
  then show ?thesis using r1 r2 c(1) start_fails [OF assms r1] by simp
qed

definition demo_payload_world :: world where
  "demo_payload_world = (demo_world [3] 1)\<lparr>wdev := (\<lambda>d. (new_Device (demo_attr d))
     \<lparr>customPayload := Some [7], customPayloadSize := 1\<rparr>)\<rparr>"

definition demo_payload_env :: env where
  "demo_payload_env = demo_env\<lparr>ans := (\<lambda>l c. case c of
     MixerGetCtl n \<Rightarrow> 1 | MixerSetArray n p \<Rightarrow> - EIO | _ \<Rightarrow> 0)\<rparr>"

theorem failed_start_is_counted_witness:
  "fst (run_state (Device_start demo_payload_env 3) demo_payload_world) = - EIO \<and>
    starts (snd (run_state (Device_start demo_payload_env 3) demo_payload_world)) 3 = 1 \<and>
    fst (run_state (Device_start demo_payload_env 3)
      (snd (run_state (Device_start demo_payload_env 3) demo_payload_world))) = 0"
  by (rule failed_start_is_counted)
     (simp_all add: demo_payload_world_def demo_payload_env_def demo_defs dev_wf_def starts_def
        backend_def getBackendName_def isValidDevId_def)

text \<open>
  The comparison of two entries of the same stream priority does not order them: an entry
  with its own sound device name beats one without it, and is beaten by the same entry when
  that one has more channels.
\<close>

theorem compare_attr_not_antisymmetric:
  assumes "sndDevName_overwrite i1" and "\<not> sndDevName_overwrite i2"
    and "channels_overwrite i1 = channels_overwrite i2"
    and "channels (config a1) < channels (config a2)"
  shows "Device_compareStreamDevAttr a1 i1 a2 i2 \<and> Device_compareStreamDevAttr a2 i2 a1 i1"
  using assms by (simp add: Device_compareStreamDevAttr_def Let_def)

theorem compare_attr_not_antisymmetric_witness:
  "Device_compareStreamDevAttr (demo_attr 3) (demo_info\<lparr>sndDevName_overwrite := True\<rparr>)
     ((demo_attr 3)\<lparr>config := demo_config\<lparr>channels := 4\<rparr>\<rparr>) demo_info \<and>
   Device_compareStreamDevAttr ((demo_attr 3)\<lparr>config := demo_config\<lparr>channels := 4\<rparr>\<rparr>) demo_info
     (demo_attr 3) (demo_info\<lparr>sndDevName_overwrite := True\<rparr>)"
  by (rule compare_attr_not_antisymmetric) (simp_all add: demo_defs)

end
