(* ===== verification/RM_Streams.thy ===== *)
theory RM_Streams
  imports Pal_Device
begin

text \<open>
  The registers of \<^verbatim>\<open>resource_manager/src/ResourceManager.cpp\<close>: the active streams (as one
  list and by type), the pairs of active devices and streams, the session limit, and the user
  counters that keep a stream object alive while a callback or another thread uses it.

  The theory shows that the two registers of streams always agree, that registering and
  deregistering balance, and that a stream that has been deactivated is never used again.
\<close>

section \<open>Streams\<close>

text \<open>\<^verbatim>\<open>Stream::getStreamType\<close>: a stream without attributes has no type.\<close>

definition Stream_getStreamType :: "nat \<Rightarrow> (int \<times> nat) io" where
  "Stream_getStreamType s = do {
     a \<leftarrow> str s mStreamAttr;
     return (case a of None \<Rightarrow> (- EINVAL, 0) | Some a \<Rightarrow> (0, stype a))
   }"

definition register_stream :: "nat \<Rightarrow> nat \<Rightarrow> RM \<Rightarrow> RM" where
  "register_stream t s rm =
     rm\<lparr>activeStreamMap := (activeStreamMap rm)(t \<mapsto>
          (case activeStreamMap rm t of None \<Rightarrow> [s] | Some l \<Rightarrow> l @ [s])),
        mActiveStreams := mActiveStreams rm @ [s]\<rparr>"

definition RM_registerStream :: "nat \<Rightarrow> int io" where
  "RM_registerStream s = do {
     (ret, t) \<leftarrow> Stream_getStreamType s;
     if ret \<noteq> 0 then return ret
     else do {
       lock ActiveStreamMutex;
       upd_rm (register_stream t s);
       unlock ActiveStreamMutex;
       return ret
     }
   }"

definition deregister_stream :: "nat \<Rightarrow> nat \<Rightarrow> RM \<Rightarrow> int \<times> RM" where
  "deregister_stream t s rm =
     (let (ret, m) =
        (case activeStreamMap rm t of
           None \<Rightarrow> (- EINVAL, activeStreamMap rm)
         | Some l \<Rightarrow>
             if s \<in> set l
             then (0, (activeStreamMap rm)(t := (if remove1 s l = [] then None else Some (remove1 s l))))
             else (- ENOENT, activeStreamMap rm))
      in (if s \<in> set (mActiveStreams rm) then ret else - ENOENT,
          rm\<lparr>activeStreamMap := m, mActiveStreams := remove1 s (mActiveStreams rm)\<rparr>))"

definition RM_deregisterStream :: "nat \<Rightarrow> int io" where
  "RM_deregisterStream s = do {
     (ret, t) \<leftarrow> Stream_getStreamType s;
     if ret \<noteq> 0 then return ret
     else do {
       lock ActiveStreamMutex;
       ret \<leftarrow> rmg (\<lambda>rm. fst (deregister_stream t s rm));
       upd_rm (\<lambda>rm. snd (deregister_stream t s rm));
       unlock ActiveStreamMutex;
       return ret
     }
   }"

definition RM_isStreamActive :: "nat \<Rightarrow> bool io" where
  "RM_isStreamActive s = rmg (\<lambda>rm. s \<in> set (mActiveStreams rm))"

definition RM_isActiveStream :: "nat \<Rightarrow> bool io" where
  "RM_isActiveStream h = rmg (\<lambda>rm. h \<in> set (mActiveStreams rm))"

definition RM_getActiveStreamByType_l :: "RM \<Rightarrow> nat \<Rightarrow> nat list" where
  "RM_getActiveStreamByType_l rm t = (case activeStreamMap rm t of None \<Rightarrow> [] | Some l \<Rightarrow> l)"

text \<open>
  \<^verbatim>\<open>isStreamSupported\<close>: \<open>supported\<close> is the answer of the stream's own check.  The stream
  is already registered when it is asked, hence \<open>- 1\<close>, on \<^verbatim>\<open>size_t\<close>.  The lookup of the
  active streams of a type never fails; it finds none when the type has no entry.
\<close>

definition RM_isStreamSupported :: "RM \<Rightarrow> pal_stream_attributes option option \<Rightarrow> nat \<Rightarrow> bool \<Rightarrow> bool \<Rightarrow> bool" where
  "RM_isStreamSupported rm s no_of_devices has_devices supported =
     (case s of
        None \<Rightarrow> False
      | Some None \<Rightarrow> False
      | Some (Some a) \<Rightarrow>
          if no_of_devices > 0 \<and> \<not> has_devices \<and> stype a \<noteq> PAL_STREAM_VOICE_CALL_MUSIC \<and>
             stype a \<noteq> PAL_STREAM_VOICE_CALL_RECORD \<and> stype a \<noteq> PAL_STREAM_CALL_TRANSLATION
          then False
          else let cur_sessions = length (RM_getActiveStreamByType_l rm (stype a))
               in (case maxSessionMap rm (stype a) of
                     None \<Rightarrow> False
                   | Some max_sessions \<Rightarrow>
                       if sz_sub cur_sessions 1 = max_sessions then False else supported))"

section \<open>Devices\<close>

definition RM_registerDevice_l :: "nat \<Rightarrow> nat \<Rightarrow> int io" where
  "RM_registerDevice_l d s = do {
     l \<leftarrow> rmg active_devices;
     if (d, s) \<notin> set l
     then do { upd_rm (active_devices_update (\<lambda>l. l @ [(d, s)])); return 0 }
     else return (- EINVAL)
   }"

definition RM_deregisterDevice_l :: "nat \<Rightarrow> nat \<Rightarrow> int io" where
  "RM_deregisterDevice_l d s = do {
     l \<leftarrow> rmg active_devices;
     if (d, s) \<in> set l
     then do { upd_rm (active_devices_update (remove1 (d, s))); return 0 }
     else return (- ENOENT)
   }"

text \<open>The gains \<^verbatim>\<open>PAL_ULTRASOUND_GAIN_*\<close> of \<^verbatim>\<open>inc/PalDefs.h\<close>: mute 0, low 1, high 2.\<close>

definition RM_registerDevice :: "nat \<Rightarrow> nat \<Rightarrow> int io" where
  "RM_registerDevice d s = do {
     lock ResourceManagerMutex;
     r \<leftarrow> RM_registerDevice_l d s;
     when_io (r = 0) (tell (CheckandEnableEC d s True));
     gain \<leftarrow> rmg isUpdSetCustomGainEnabled;
     when_io gain (do {
       n \<leftarrow> Device_getDeviceCount d;
       i \<leftarrow> Device_getSndDeviceId d;
       when_io (n = 1)
         (if i = PAL_DEVICE_OUT_SPEAKER then tell (SetUltrasoundGain 2 s)
          else when_io (i = PAL_DEVICE_OUT_HANDSET \<or> i = PAL_DEVICE_OUT_ULTRASOUND_DEDICATED)
                 (tell (SetUltrasoundGain 1 s)))
     });
     unlock ResourceManagerMutex;
     return 0
   }"

definition RM_deregisterDevice :: "nat \<Rightarrow> nat \<Rightarrow> int io" where
  "RM_deregisterDevice d s = do {
     lock ResourceManagerMutex;
     r \<leftarrow> RM_deregisterDevice_l d s;
     when_io (r = 0) (tell (CheckandEnableEC d s False));
     gain \<leftarrow> rmg isUpdSetCustomGainEnabled;
     when_io gain (do {
       n \<leftarrow> Device_getDeviceCount d;
       i \<leftarrow> Device_getSndDeviceId d;
       when_io (n = 1 \<and> (i = PAL_DEVICE_OUT_SPEAKER \<or> i = PAL_DEVICE_OUT_HANDSET \<or>
                         i = PAL_DEVICE_OUT_ULTRASOUND_DEDICATED))
         (tell (SetUltrasoundGain 0 s))
     });
     unlock ResourceManagerMutex;
     return 0
   }"

definition RM_isDeviceActive_id :: "nat \<Rightarrow> bool io" where
  "RM_isDeviceActive_id deviceId = do {
     lock ResourceManagerMutex;
     b \<leftarrow> gets (\<lambda>w. \<exists>p\<in>set (active_devices (wrm w)). dev_id (deviceAttr (wdev w (fst p))) = deviceId);
     unlock ResourceManagerMutex;
     return b
   }"

definition RM_isDeviceActive :: "nat \<Rightarrow> nat \<Rightarrow> bool io" where
  "RM_isDeviceActive d s = do {
     lock ResourceManagerMutex;
     b \<leftarrow> rmg (\<lambda>rm. (d, s) \<in> set (active_devices rm));
     unlock ResourceManagerMutex;
     return b
   }"

section \<open>User counters\<close>

text \<open>
  \<open>mInUse\<close> is the semaphore of a stream, \<open>None\<close> before \<^verbatim>\<open>sem_init\<close> and after
  \<^verbatim>\<open>sem_destroy\<close>.  A wait on a semaphore at zero blocks: such a step has no successor,
  which is \<open>None\<close> below.  Every operation runs under the active stream lock, but for
  \<^verbatim>\<open>deactivateStreamUserCounter\<close>, which releases it before it waits and is two steps.
\<close>

definition set_counter :: "nat \<Rightarrow> (nat \<times> bool) option \<Rightarrow> world \<Rightarrow> world" where
  "set_counter s c w = w\<lparr>wrm := (wrm w)\<lparr>mActiveStreamUserCounter :=
     (mActiveStreamUserCounter (wrm w))(s := c)\<rparr>\<rparr>"

definition set_sem :: "nat \<Rightarrow> int option \<Rightarrow> world \<Rightarrow> world" where
  "set_sem s v w = w\<lparr>wstr := (wstr w)(s := (wstr w s)\<lparr>mInUse := v\<rparr>)\<rparr>"

abbreviation counter :: "world \<Rightarrow> nat \<Rightarrow> (nat \<times> bool) option" where
  "counter w s \<equiv> mActiveStreamUserCounter (wrm w) s"

abbreviation sem :: "world \<Rightarrow> nat \<Rightarrow> int option" where
  "sem w s \<equiv> mInUse (wstr w s)"

definition Stream_waitStreamSmph :: "nat \<Rightarrow> world \<Rightarrow> world option" where
  "Stream_waitStreamSmph s w =
     (case sem w s of
        None \<Rightarrow> Some w
      | Some v \<Rightarrow> if v > 0 then Some (set_sem s (Some (v - 1)) w) else None)"

definition Stream_postStreamSmph :: "nat \<Rightarrow> world \<Rightarrow> world" where
  "Stream_postStreamSmph s w =
     (case sem w s of None \<Rightarrow> w | Some v \<Rightarrow> set_sem s (Some (v + 1)) w)"

definition RM_initStreamUserCounter :: "nat \<Rightarrow> world \<Rightarrow> int \<times> world" where
  "RM_initStreamUserCounter s w =
     (0, set_sem s (Some 1)
           (case counter w s of None \<Rightarrow> set_counter s (Some (0, True)) w | Some c \<Rightarrow> w))"

definition deactivateStreamUserCounter_enter :: "nat \<Rightarrow> world \<Rightarrow> int \<times> world" where
  "deactivateStreamUserCounter_enter s w =
     (case counter w s of
        Some (n, True) \<Rightarrow> (0, set_counter s (Some (n, False)) w)
      | _ \<Rightarrow> (- EINVAL, w))"

definition deactivateStreamUserCounter_exit :: "nat \<Rightarrow> world \<Rightarrow> world option" where
  "deactivateStreamUserCounter_exit s w =
     map_option (set_sem s None) (Stream_waitStreamSmph s w)"

definition RM_eraseStreamUserCounter :: "nat \<Rightarrow> world \<Rightarrow> int \<times> world" where
  "RM_eraseStreamUserCounter s w =
     (case counter w s of None \<Rightarrow> (- EINVAL, w) | Some c \<Rightarrow> (0, set_counter s None w))"

definition RM_increaseStreamUserCounter :: "nat \<Rightarrow> world \<Rightarrow> (int \<times> world) option" where
  "RM_increaseStreamUserCounter s w =
     (case counter w s of
        Some (n, True) \<Rightarrow>
          map_option (\<lambda>w. (0, set_counter s (Some (n + 1, True)) w))
            (if n = 0 then Stream_waitStreamSmph s w else Some w)
      | _ \<Rightarrow> Some (- EINVAL, w))"

definition RM_decreaseStreamUserCounter :: "nat \<Rightarrow> world \<Rightarrow> int \<times> world" where
  "RM_decreaseStreamUserCounter s w =
     (case counter w s of
        None \<Rightarrow> (- EINVAL, w)
      | Some (n, b) \<Rightarrow>
          if n = 0 then (- EINVAL, w)
          else (0, (if n = 1 then Stream_postStreamSmph s else (\<lambda>w. w)) (set_counter s (Some (n - 1, b)) w)))"

definition RM_getStreamUserCounter :: "nat \<Rightarrow> world \<Rightarrow> int" where
  "RM_getStreamUserCounter s w = (case counter w s of None \<Rightarrow> - EINVAL | Some (n, b) \<Rightarrow> int n)"

section \<open>Lemmas: the two registers of streams\<close>

text \<open>The register by type holds, for each type, the active streams of that type in order.\<close>

definition reg_wf :: "(nat \<Rightarrow> nat) \<Rightarrow> RM \<Rightarrow> bool" where
  "reg_wf ty rm \<longleftrightarrow> (\<forall>t. activeStreamMap rm t =
     (let l = filter (\<lambda>s. ty s = t) (mActiveStreams rm) in if l = [] then None else Some l))"

lemma reg_wf_lookup:
  "reg_wf ty rm \<Longrightarrow> RM_getActiveStreamByType_l rm t = filter (\<lambda>s. ty s = t) (mActiveStreams rm)"
  by (simp add: reg_wf_def RM_getActiveStreamByType_l_def Let_def)

lemma reg_wf_register: "reg_wf ty rm \<Longrightarrow> reg_wf ty (register_stream (ty s) s rm)"
  by (auto simp: reg_wf_def register_stream_def Let_def)

lemma filter_remove1:
  "filter P (remove1 x xs) = (if P x then remove1 x (filter P xs) else filter P xs)"
  by (induction xs) auto

lemma deregister_active:
  assumes wf: "reg_wf ty rm" and s: "s \<in> set (mActiveStreams rm)"
  shows "deregister_stream (ty s) s rm =
    (0, rm\<lparr>activeStreamMap := (activeStreamMap rm)(ty s :=
           (let l = filter (\<lambda>x. ty x = ty s) (remove1 s (mActiveStreams rm)) in if l = [] then None else Some l)),
         mActiveStreams := remove1 s (mActiveStreams rm)\<rparr>)"
proof -
  let ?l = "filter (\<lambda>x. ty x = ty s) (mActiveStreams rm)"
  have "s \<in> set ?l" using s by simp
  then have "?l \<noteq> []" by force
  then have m: "activeStreamMap rm (ty s) = Some ?l"
    using wf unfolding reg_wf_def by (simp del: filter_empty_conv add: Let_def)
  show ?thesis
    unfolding deregister_stream_def m
    using s by (simp add: filter_remove1 Let_def del: filter_empty_conv)
qed

lemma deregister_inactive:
  assumes wf: "reg_wf ty rm" and s: "s \<notin> set (mActiveStreams rm)"
  shows "deregister_stream (ty s) s rm = (- ENOENT, rm)"
  using s wf
  by (auto simp: reg_wf_def deregister_stream_def remove1_idem Let_def split: option.splits prod.splits)

lemma reg_wf_deregister:
  assumes wf: "reg_wf ty rm"
  shows "reg_wf ty (snd (deregister_stream (ty s) s rm))"
    "fst (deregister_stream (ty s) s rm) = (if s \<in> set (mActiveStreams rm) then 0 else - ENOENT)"
    "mActiveStreams (snd (deregister_stream (ty s) s rm)) = remove1 s (mActiveStreams rm)"
proof -
  show "reg_wf ty (snd (deregister_stream (ty s) s rm))"
  proof (cases "s \<in> set (mActiveStreams rm)")
    case True
    then show ?thesis
      using wf unfolding deregister_active [OF wf True] reg_wf_def
      by (auto simp: filter_remove1 Let_def simp del: filter_empty_conv)
  qed (simp add: wf deregister_inactive [OF wf])
  show "fst (deregister_stream (ty s) s rm) = (if s \<in> set (mActiveStreams rm) then 0 else - ENOENT)"
    "mActiveStreams (snd (deregister_stream (ty s) s rm)) = remove1 s (mActiveStreams rm)"
    by (cases "s \<in> set (mActiveStreams rm)",
        auto simp: deregister_active [OF wf] deregister_inactive [OF wf] remove1_idem)+
qed

lemma remove1_append_notin: "s \<notin> set xs \<Longrightarrow> remove1 s (xs @ [s]) = xs"
  by (induction xs) auto

lemma reg_wf_unique:
  assumes "reg_wf ty rm" "reg_wf ty rm'" "mActiveStreams rm = mActiveStreams rm'"
  shows "activeStreamMap rm = activeStreamMap rm'"
  using assms by (auto simp: reg_wf_def fun_eq_iff)

datatype reg_op = Reg nat | Dereg nat

fun reg_run :: "reg_op list \<Rightarrow> world \<Rightarrow> world" where
  "reg_run [] w = w"
| "reg_run (Reg s # ops) w = reg_run ops (snd (run_state (RM_registerStream s) w))"
| "reg_run (Dereg s # ops) w = reg_run ops (snd (run_state (RM_deregisterStream s) w))"

definition typed_streams :: "(nat \<Rightarrow> nat) \<Rightarrow> world \<Rightarrow> bool" where
  "typed_streams ty w \<longleftrightarrow> (\<forall>s. \<exists>a. mStreamAttr (wstr w s) = Some a \<and> stype a = ty s)"

lemma getStreamType_run:
  "typed_streams ty w \<Longrightarrow> run_state (Stream_getStreamType s) w = ((0, ty s), w)"
  by (auto simp: Stream_getStreamType_def typed_streams_def split: option.splits)
     (metis option.inject option.distinct(1))+

lemma register_run:
  assumes "typed_streams ty w"
  shows "fst (run_state (RM_registerStream s) w) = 0"
    "wrm (snd (run_state (RM_registerStream s) w)) = register_stream (ty s) s (wrm w)"
    "wstr (snd (run_state (RM_registerStream s) w)) = wstr w"
  by (simp_all add: RM_registerStream_def getStreamType_run [OF assms])

lemma deregister_run:
  assumes "typed_streams ty w"
  shows "fst (run_state (RM_deregisterStream s) w) = fst (deregister_stream (ty s) s (wrm w))"
    "wrm (snd (run_state (RM_deregisterStream s) w)) = snd (deregister_stream (ty s) s (wrm w))"
    "wstr (snd (run_state (RM_deregisterStream s) w)) = wstr w"
  by (simp_all add: RM_deregisterStream_def getStreamType_run [OF assms])

lemma reg_run_wf:
  assumes "typed_streams ty w" "reg_wf ty (wrm w)"
  shows "reg_wf ty (wrm (reg_run ops w)) \<and> typed_streams ty (reg_run ops w)"
  using assms
proof (induction ops arbitrary: w)
  case (Cons op ops)
  show ?case
  proof (cases op)
    case (Reg s)
    have "typed_streams ty (snd (run_state (RM_registerStream s) w))"
      using Cons.prems(1) register_run(3) [OF Cons.prems(1)] by (simp add: typed_streams_def)
    then show ?thesis
      using Cons.IH Cons.prems Reg by (simp add: register_run reg_wf_register)
  next
    case (Dereg s)
    have "typed_streams ty (snd (run_state (RM_deregisterStream s) w))"
      using Cons.prems(1) deregister_run(3) [OF Cons.prems(1)] by (simp add: typed_streams_def)
    then show ?thesis
      using Cons.IH Cons.prems Dereg by (simp add: deregister_run reg_wf_deregister)
  qed
qed simp

text \<open>
  C22: After any sequence of registrations and deregistrations, the register of active streams
  by type and the list of all active streams agree: the streams of a type are exactly the
  active streams of that type, in registration order, and a type without active streams has no
  entry. Deregistering then succeeds exactly for an active stream.
\<close>

theorem stream_registers_agree:
  assumes "typed_streams ty w" and "mActiveStreams (wrm w) = []" and "activeStreamMap (wrm w) = (\<lambda>t. None)"
  shows "(\<forall>t. activeStreamMap (wrm (reg_run ops w)) t =
      (let l = filter (\<lambda>s. ty s = t) (mActiveStreams (wrm (reg_run ops w)))
       in if l = [] then None else Some l)) \<and>
    fst (run_state (RM_deregisterStream s) (reg_run ops w)) =
      (if s \<in> set (mActiveStreams (wrm (reg_run ops w))) then 0 else - ENOENT)"
proof -
  have r: "reg_wf ty (wrm (reg_run ops w)) \<and> typed_streams ty (reg_run ops w)"
    by (rule reg_run_wf [OF assms(1)]) (simp add: reg_wf_def assms(2,3))
  then have "fst (run_state (RM_deregisterStream s) (reg_run ops w)) =
      (if s \<in> set (mActiveStreams (wrm (reg_run ops w))) then 0 else - ENOENT)"
    using deregister_run(1) [of ty "reg_run ops w" s] reg_wf_deregister(2) by auto
  then show ?thesis using r by (simp add: reg_wf_def)
qed

theorem stream_registers_agree_witness:
  "(\<forall>t. activeStreamMap (wrm (reg_run [Reg 4, Reg 5, Dereg 4] (demo_world [3] 1))) t =
      (let l = filter (\<lambda>s. PAL_STREAM_DEEP_BUFFER = t)
                 (mActiveStreams (wrm (reg_run [Reg 4, Reg 5, Dereg 4] (demo_world [3] 1))))
       in if l = [] then None else Some l)) \<and>
    fst (run_state (RM_deregisterStream 5) (reg_run [Reg 4, Reg 5, Dereg 4] (demo_world [3] 1))) =
      (if 5 \<in> set (mActiveStreams (wrm (reg_run [Reg 4, Reg 5, Dereg 4] (demo_world [3] 1))))
       then 0 else - ENOENT)"
  by (rule stream_registers_agree) (simp_all add: demo_defs typed_streams_def)

text \<open>
  Deregistering a stream right after it was registered gives back the registers from
  before, unless the stream was already registered.
\<close>

theorem register_deregister_roundtrip:
  assumes "typed_streams ty w" and "reg_wf ty (wrm w)" and "s \<notin> set (mActiveStreams (wrm w))"
  shows "let w1 = snd (run_state (RM_registerStream s) w);
             w2 = snd (run_state (RM_deregisterStream s) w1)
         in mActiveStreams (wrm w1) = mActiveStreams (wrm w) @ [s] \<and>
            mActiveStreams (wrm w2) = mActiveStreams (wrm w) \<and>
            activeStreamMap (wrm w2) = activeStreamMap (wrm w)"
proof -
  let ?w1 = "snd (run_state (RM_registerStream s) w)"
  have t1: "typed_streams ty ?w1"
    using assms(1) register_run(3) [OF assms(1)] by (simp add: typed_streams_def)
  have r1: "reg_wf ty (wrm ?w1)" "mActiveStreams (wrm ?w1) = mActiveStreams (wrm w) @ [s]"
    by (simp_all add: register_run(2) [OF assms(1)] reg_wf_register [OF assms(2)])
       (simp add: register_stream_def)
  show ?thesis
    unfolding Let_def deregister_run(2) [OF t1]
    using r1 reg_wf_deregister [OF r1(1), of s] remove1_append_notin [OF assms(3)]
      reg_wf_unique [OF _ assms(2)] by metis
qed

theorem register_deregister_roundtrip_witness:
  "let w1 = snd (run_state (RM_registerStream 4) (demo_world [3] 1));
       w2 = snd (run_state (RM_deregisterStream 4) w1)
   in mActiveStreams (wrm w1) = mActiveStreams (wrm (demo_world [3] 1)) @ [4] \<and>
      mActiveStreams (wrm w2) = mActiveStreams (wrm (demo_world [3] 1)) \<and>
      activeStreamMap (wrm w2) = activeStreamMap (wrm (demo_world [3] 1))"
  by (rule register_deregister_roundtrip [of "\<lambda>s. PAL_STREAM_DEEP_BUFFER"])
     (simp_all add: demo_defs typed_streams_def reg_wf_def)

text \<open>
  The session limit is an invariant of stream creation: if the other active streams of the
  type do not exceed the limit, a new stream that passes the check does not make them exceed
  it either; at the limit every new stream is refused.
\<close>

theorem session_limit_kept:
  assumes "reg_wf ty rm" and "maxSessionMap rm (stype a) = Some m"
    and "s \<in> set (mActiveStreams rm)" and "ty s = stype a"
    and "length (filter (\<lambda>x. ty x = stype a) (mActiveStreams rm)) - 1 \<le> m"
  shows "(RM_isStreamSupported rm (Some (Some a)) n True ok \<longrightarrow>
      length (filter (\<lambda>x. ty x = stype a) (mActiveStreams rm)) \<le> m) \<and>
    (length (filter (\<lambda>x. ty x = stype a) (mActiveStreams rm)) = m + 1 \<longrightarrow>
      \<not> RM_isStreamSupported rm (Some (Some a)) n True ok)"
proof -
  let ?l = "filter (\<lambda>x. ty x = stype a) (mActiveStreams rm)"
  have "s \<in> set ?l" using assms(3,4) by simp
  then have "length ?l \<noteq> 0" by force
  then have "sz_sub (length ?l) 1 = length ?l - 1"
    by (intro sz_sub_in) linarith
  then show ?thesis
    using assms(2,5) \<open>length ?l \<noteq> 0\<close>
    by (auto simp: RM_isStreamSupported_def reg_wf_lookup [OF assms(1)] Let_def)
qed

definition demo_limit_rm :: RM where
  "demo_limit_rm = (wrm (reg_run [Reg 4, Reg 5] (demo_world [3] 1)))\<lparr>maxSessionMap := (\<lambda>t. Some 1)\<rparr>"

theorem session_limit_kept_witness:
  "\<not> RM_isStreamSupported demo_limit_rm (Some (Some (demo_attrs PAL_STREAM_DEEP_BUFFER 1))) 1 True True"
proof -
  have "length (filter (\<lambda>x. PAL_STREAM_DEEP_BUFFER = stype (demo_attrs PAL_STREAM_DEEP_BUFFER 1))
      (mActiveStreams demo_limit_rm)) = 1 + 1"
    by (simp add: demo_limit_rm_def demo_defs RM_registerStream_def Stream_getStreamType_def
        register_stream_def)
  then show ?thesis
    by (intro session_limit_kept [of "\<lambda>s. PAL_STREAM_DEEP_BUFFER" _ _ 1 5, THEN conjunct2, THEN mp])
       (simp_all add: demo_limit_rm_def demo_defs reg_wf_def RM_registerStream_def Stream_getStreamType_def
          register_stream_def)
qed

section \<open>Lemmas: the user counters\<close>

inductive uc_reach :: "nat \<Rightarrow> world \<Rightarrow> world \<Rightarrow> bool" for s w0 where
  uc_start: "uc_reach s w0 w0"
| uc_init: "uc_reach s w0 w \<Longrightarrow> counter w s = None \<Longrightarrow>
    RM_initStreamUserCounter s w = (r, w') \<Longrightarrow> uc_reach s w0 w'"
| uc_inc: "uc_reach s w0 w \<Longrightarrow> RM_increaseStreamUserCounter s w = Some (r, w') \<Longrightarrow> uc_reach s w0 w'"
| uc_dec: "uc_reach s w0 w \<Longrightarrow> RM_decreaseStreamUserCounter s w = (r, w') \<Longrightarrow> uc_reach s w0 w'"
| uc_enter: "uc_reach s w0 w \<Longrightarrow> deactivateStreamUserCounter_enter s w = (r, w') \<Longrightarrow> uc_reach s w0 w'"
| uc_exit: "uc_reach s w0 w \<Longrightarrow> counter w s = Some (n, False) \<Longrightarrow> sem w s \<noteq> None \<Longrightarrow>
    deactivateStreamUserCounter_exit s w = Some w' \<Longrightarrow> uc_reach s w0 w'"
| uc_erase: "uc_reach s w0 w \<Longrightarrow> counter w s = Some (n, False) \<Longrightarrow> sem w s = None \<Longrightarrow>
    RM_eraseStreamUserCounter s w = (r, w') \<Longrightarrow> uc_reach s w0 w'"

text \<open>The semaphore is free exactly when nobody uses the stream, and it is destroyed only for a
  deactivated stream without users.\<close>

definition uc_inv :: "nat \<Rightarrow> world \<Rightarrow> bool" where
  "uc_inv s w \<longleftrightarrow>
     (case (counter w s, sem w s) of
        (None, v) \<Rightarrow> v = None
      | (Some (n, b), None) \<Rightarrow> n = 0 \<and> \<not> b
      | (Some (n, b), Some v) \<Rightarrow> v = (if n = 0 then 1 else 0))"

lemmas uc_defs = RM_initStreamUserCounter_def RM_increaseStreamUserCounter_def
  RM_decreaseStreamUserCounter_def deactivateStreamUserCounter_enter_def
  deactivateStreamUserCounter_exit_def RM_eraseStreamUserCounter_def Stream_waitStreamSmph_def
  Stream_postStreamSmph_def set_counter_def set_sem_def

lemma uc_reach_inv:
  assumes "uc_reach s w0 w" "uc_inv s w0"
  shows "uc_inv s w"
  using assms
  by (induction rule: uc_reach.induct)
     (auto simp: uc_inv_def uc_defs split: option.splits prod.splits if_splits bool.splits)

text \<open>
  C21: The user counters keep a stream alive while it is used. In every state reachable through
  the protocol, taking a reference never blocks (so it is safe under the active stream lock),
  deactivation finishes exactly when there is no user left, and once it has finished no
  reference can be taken again.
\<close>

theorem user_counter_safe:
  assumes "uc_reach s w0 w" and "counter w0 s = None" and "sem w0 s = None"
  shows "RM_increaseStreamUserCounter s w \<noteq> None \<and>
    (sem w s \<noteq> None \<longrightarrow>
      (deactivateStreamUserCounter_exit s w \<noteq> None \<longleftrightarrow> RM_getStreamUserCounter s w = 0)) \<and>
    (sem w s = None \<longrightarrow> RM_getStreamUserCounter s w \<le> 0 \<and>
      RM_increaseStreamUserCounter s w = Some (- EINVAL, w))"
proof -
  have "uc_inv s w" by (rule uc_reach_inv [OF assms(1)]) (simp add: uc_inv_def assms(2,3))
  then show ?thesis
    by (auto simp: uc_inv_def uc_defs RM_getStreamUserCounter_def
        split: option.splits prod.splits if_splits bool.splits)
qed

definition demo_uc_world :: world where
  "demo_uc_world = set_sem 4 None (demo_world [3] 1)"

lemma demo_uc_reach:
  "uc_reach 4 demo_uc_world (snd (RM_initStreamUserCounter 4 demo_uc_world))"
  by (rule uc_init [OF uc_start])
     (simp_all add: demo_uc_world_def RM_initStreamUserCounter_def set_sem_def demo_defs)

theorem user_counter_safe_witness:
  "RM_increaseStreamUserCounter 4 (snd (RM_initStreamUserCounter 4 demo_uc_world)) \<noteq> None \<and>
   (deactivateStreamUserCounter_exit 4 (snd (RM_initStreamUserCounter 4 demo_uc_world)) \<noteq> None) =
     (RM_getStreamUserCounter 4 (snd (RM_initStreamUserCounter 4 demo_uc_world)) = 0)"
proof -
  have "sem (snd (RM_initStreamUserCounter 4 demo_uc_world)) 4 \<noteq> None"
    by (simp add: RM_initStreamUserCounter_def set_sem_def)
  then show ?thesis
    using user_counter_safe [OF demo_uc_reach] by (simp add: demo_uc_world_def set_sem_def demo_defs)
qed

section \<open>Lemmas: locks and effects of the registers\<close>

lemma lk_getSndDeviceId [lk_rules]: "H' = H \<Longrightarrow> lk H (Device_getSndDeviceId d) H'"
  unfolding Device_getSndDeviceId_def by (rule lk_rules)

lemma lk_register_ops [lk_rules]:
  assumes "\<forall>k\<in>set H. lock_rank k < 4" "H' = H"
  shows "lk H (RM_registerDevice d s) H'" "lk H (RM_deregisterDevice d s) H'"
    "lk H (RM_isDeviceActive d s) H'" "lk H (RM_isDeviceActive_id i) H'"
proof -
  have lt: "k \<in> set H \<Longrightarrow> lock_rank k < 4" "k \<in> set H \<Longrightarrow> lock_rank k < 5" for k
    using assms(1) by auto
  show "lk H (RM_registerDevice d s) H'" "lk H (RM_deregisterDevice d s) H'"
    "lk H (RM_isDeviceActive d s) H'" "lk H (RM_isDeviceActive_id i) H'"
    unfolding assms(2) RM_registerDevice_def RM_deregisterDevice_def RM_registerDevice_l_def
      RM_deregisterDevice_l_def RM_isDeviceActive_def RM_isDeviceActive_id_def
    by (rule lk_rules | rule refl | simp add: not_lock_def lt)+
qed

lemma lk_getStreamType [lk_rules]: "H' = H \<Longrightarrow> lk H (Stream_getStreamType s) H'"
  unfolding Stream_getStreamType_def by (rule lk_rules | rule refl | simp)+

lemma lk_register_stream [lk_rules]:
  "lk [] (RM_registerStream s) []" "lk [] (RM_deregisterStream s) []"
  unfolding RM_registerStream_def RM_deregisterStream_def
  by (rule lk_rules | rule refl | simp add: not_lock_def)+

lemma registerDevice_run:
  assumes "run_state (RM_registerDevice d s) w = (r, w')"
  shows "r = 0" "wdev w' = wdev w" "wstr w' = wstr w"
    "wrm w' = (wrm w)\<lparr>active_devices := (if (d, s) \<in> set (active_devices (wrm w))
        then active_devices (wrm w) else active_devices (wrm w) @ [(d, s)])\<rparr>"
  using assms
  by (auto simp: RM_registerDevice_def RM_registerDevice_l_def Device_getDeviceCount_def
      Device_getSndDeviceId_def split: if_splits)

lemma deregisterDevice_run:
  assumes "run_state (RM_deregisterDevice d s) w = (r, w')"
  shows "r = 0" "wdev w' = wdev w" "wstr w' = wstr w"
    "wrm w' = (wrm w)\<lparr>active_devices := remove1 (d, s) (active_devices (wrm w))\<rparr>"
  using assms
  by (auto simp: RM_deregisterDevice_def RM_deregisterDevice_l_def Device_getDeviceCount_def
      Device_getSndDeviceId_def remove1_idem split: if_splits)

end
