(* ===== verification/Pal_Stream.thy ===== *)
theory Pal_Stream
  imports RM_Streams
begin

text \<open>
  The base class of \<^verbatim>\<open>stream/src/Stream.cpp\<close>: attributes, buffer sizes and latencies, the
  lists of devices a stream runs on, and connecting a running stream to a device or
  disconnecting it.  \<^verbatim>\<open>close\<close>, \<^verbatim>\<open>start\<close> and \<^verbatim>\<open>stop\<close> of a device are virtual: streams
  call them through a table \<open>dev_vt\<close>.  \<^verbatim>\<open>switchDevice\<close> is not modelled.

  The theory states the contract of the table as a locale, shows that the base class meets it,
  and that connecting and disconnecting keep counts and registers balanced.
\<close>

section \<open>Virtual devices\<close>

record dev_vt =
  vt_close :: "nat \<Rightarrow> int io"
  vt_start :: "nat \<Rightarrow> int io"
  vt_stop :: "nat \<Rightarrow> int io"

definition Device_vt :: "env \<Rightarrow> dev_vt" where
  "Device_vt E = \<lparr>vt_close = Device_close, vt_start = Device_start E, vt_stop = Device_stop\<rparr>"

section \<open>Attributes, latencies and buffers\<close>

definition Stream_getStreamAttributes :: "nat \<Rightarrow> (int \<times> pal_stream_attributes option) io" where
  "Stream_getStreamAttributes s = do {
     a \<leftarrow> str s mStreamAttr;
     return (case a of None \<Rightarrow> (- EINVAL, None) | Some a \<Rightarrow> (0, Some a))
   }"

definition Stream_getStreamDirection :: "nat \<Rightarrow> (int \<times> nat option) io" where
  "Stream_getStreamDirection s = do {
     a \<leftarrow> str s mStreamAttr;
     return (case a of None \<Rightarrow> (- EINVAL, None) | Some a \<Rightarrow> (0, Some (direction a)))
   }"

definition Stream_getRenderLatency :: "Stream \<Rightarrow> nat" where
  "Stream_getRenderLatency x =
     (case mStreamAttr x of
        None \<Rightarrow> 0
      | Some a \<Rightarrow>
          let t = stype a
          in if t = PAL_STREAM_DEEP_BUFFER then 29 * 1000 div 1000
             else if t = PAL_STREAM_GENERIC then 29 * 1000 div 1000
             else if t = PAL_STREAM_LOW_LATENCY then 13 * 1000 div 1000
             else if t = PAL_STREAM_SPATIAL_AUDIO then 13 * 1000 div 1000
             else if t = PAL_STREAM_COMPRESSED \<or> t = PAL_STREAM_PCM_OFFLOAD then 30 * 1000 div 1000
             else if t = PAL_STREAM_ULTRA_LOW_LATENCY then 4 * 1000 div 1000
             else if t = PAL_STREAM_VOIP_RX then 29 * 1000 div 1000
             else 0)"

definition Stream_getLatency :: "Stream \<Rightarrow> nat" where
  "Stream_getLatency x =
     (case mStreamAttr x of
        None \<Rightarrow> 0
      | Some a \<Rightarrow>
          let t = stype a
          in (if t = PAL_STREAM_GENERIC then 40 * 2
              else if t = PAL_STREAM_DEEP_BUFFER then 40 * 2
              else if t = PAL_STREAM_LOW_LATENCY then 5 * 2
              else if t = PAL_STREAM_SPATIAL_AUDIO then 10 * 2
              else if t = PAL_STREAM_COMPRESSED \<or> t = PAL_STREAM_PCM_OFFLOAD then 80 * 2
              else if t = PAL_STREAM_VOIP_RX then 20 * 2
              else if t = PAL_STREAM_ULTRA_LOW_LATENCY then 10 * 2
              else 0) + Stream_getRenderLatency x)"

definition Stream_getVolumeData :: "bool \<Rightarrow> Stream \<Rightarrow> int \<times> pal_volume_data option" where
  "Stream_getVolumeData has_result x =
     (if \<not> has_result then (- EINVAL, None)
      else case mVolumeData x of None \<Rightarrow> (- EINVAL, None) | Some v \<Rightarrow> (0, Some v))"

text \<open>
  \<^verbatim>\<open>setBufInfo\<close>.  The block size is an \<^verbatim>\<open>int16_t\<close>; as the divisor of a \<^verbatim>\<open>size_t\<close> a
  negative one becomes huge, and zero is a division by zero, which is \<open>None\<close>.  A buffer
  configuration is its count, size and metadata size.
\<close>

type_synonym buf_cfg = "nat \<times> nat \<times> nat"

definition block_align :: "pal_media_config \<Rightarrow> nat" where
  "block_align c =
     (let v = (bit_width c div 8 * channels c) mod 2 ^ 16
      in if v < 2 ^ 15 then v else v + 2 ^ 64 - 2 ^ 16)"

definition align_down :: "nat \<Rightarrow> nat \<Rightarrow> nat option" where
  "align_down n b =
     (if b = 0 then None else Some (if n mod b \<noteq> 0 then n div b * b else n))"

abbreviation (input) PAL_STREAM_FLAG_EXTERN_MEM :: nat where "PAL_STREAM_FLAG_EXTERN_MEM \<equiv> 16"

definition set_out_size :: "pal_stream_attributes \<Rightarrow> buf_cfg \<Rightarrow> Stream \<Rightarrow> (Stream \<times> buf_cfg) option" where
  "set_out_size a cfg x =
     (case cfg of (cnt, sz, md) \<Rightarrow>
        map_option (\<lambda>n. (x\<lparr>outBufSize := n\<rparr>, (cnt, n, md)))
          (align_down sz (block_align (out_media_config a))))"

definition set_in_size :: "pal_stream_attributes \<Rightarrow> buf_cfg \<Rightarrow> Stream \<Rightarrow> (Stream \<times> buf_cfg) option" where
  "set_in_size a cfg x =
     (case cfg of (cnt, sz, md) \<Rightarrow>
        map_option (\<lambda>n. (x\<lparr>inBufSize := n\<rparr>, (cnt, n, md)))
          (align_down sz (block_align (in_media_config a))))"

definition note_cfgs :: "buf_cfg option \<Rightarrow> buf_cfg option \<Rightarrow> Stream \<Rightarrow> Stream" where
  "note_cfgs icfg ocfg x =
     (let x = (case icfg of None \<Rightarrow> x | Some (cnt, sz, md) \<Rightarrow> x\<lparr>inBufCount := cnt, inMaxMetadataSz := md\<rparr>)
      in case ocfg of None \<Rightarrow> x | Some (cnt, sz, md) \<Rightarrow> x\<lparr>outBufCount := cnt, outMaxMetadataSz := md\<rparr>)"

text \<open>The result: status, stream and the two configurations, which carry the sizes back.  The
  attributes are those of the stream, which exist once it is initialised.\<close>

definition Stream_setBufInfo :: "pal_stream_attributes \<Rightarrow> buf_cfg option \<Rightarrow> buf_cfg option \<Rightarrow> Stream \<Rightarrow>
    (int \<times> Stream \<times> buf_cfg option \<times> buf_cfg option) option" where
  "Stream_setBufInfo a icfg ocfg x =
     (if sflags a div PAL_STREAM_FLAG_EXTERN_MEM mod 2 = 1 then
        Some (0, (let x = (case ocfg of None \<Rightarrow> x | Some (c, sz, md) \<Rightarrow> x\<lparr>outMaxMetadataSz := md\<rparr>);
                      x = (case icfg of None \<Rightarrow> x | Some (c, sz, md) \<Rightarrow> x\<lparr>inMaxMetadataSz := md\<rparr>)
                  in x\<lparr>inBufCount := 0, inBufSize := 0, outBufCount := 0, outBufSize := 0\<rparr>),
              icfg, ocfg)
      else
        let x = note_cfgs icfg ocfg x
        in if direction a = PAL_AUDIO_OUTPUT then
             (case ocfg of
                None \<Rightarrow> Some (- EINVAL, x, icfg, ocfg)
              | Some oc \<Rightarrow> map_option (\<lambda>(x, oc). (0, x, icfg, Some oc)) (set_out_size a oc x))
           else if direction a = PAL_AUDIO_INPUT then
             (case icfg of
                None \<Rightarrow> Some (- EINVAL, x, icfg, ocfg)
              | Some ic \<Rightarrow> map_option (\<lambda>(x, ic). (0, x, Some ic, ocfg)) (set_in_size a ic x))
           else
             (case (icfg, ocfg) of
                (Some ic, Some oc) \<Rightarrow>
                  (case set_out_size a oc x of
                     None \<Rightarrow> None
                   | Some (x, oc) \<Rightarrow>
                       map_option (\<lambda>(x, ic). (0, x, Some ic, Some oc)) (set_in_size a ic x))
              | _ \<Rightarrow> Some (- EINVAL, x, icfg, ocfg)))"

text \<open>\<^verbatim>\<open>getBufSize\<close>; the product is computed in \<^verbatim>\<open>uint32_t\<close>.  The input case uses the output
  configuration, as the source does.\<close>

definition ms_bytes :: "pal_media_config \<Rightarrow> nat \<Rightarrow> nat" where
  "ms_bytes c ms = ((bit_width c div 8) * sample_rate c * channels c) mod 2 ^ 32 div 1000 * ms"

definition Stream_getBufSize :: "pal_stream_attributes \<Rightarrow> nat option \<Rightarrow> nat option \<Rightarrow> int \<times> nat option \<times> nat option" where
  "Stream_getBufSize a in_buf out_buf =
     (let pick = (\<lambda>old ms. if stype a = PAL_STREAM_DEEP_BUFFER \<or> stype a = PAL_STREAM_PCM_OFFLOAD
                           then ms_bytes (out_media_config a) ms
                           else if stype a = PAL_STREAM_COMPRESSED then 32 * 1024 else old)
      in if direction a = PAL_AUDIO_OUTPUT then
           (case out_buf of None \<Rightarrow> (- EINVAL, in_buf, None) | Some v \<Rightarrow> (0, in_buf, Some (pick v 40)))
         else if direction a = PAL_AUDIO_INPUT then
           (case in_buf of None \<Rightarrow> (- EINVAL, None, out_buf) | Some v \<Rightarrow> (0, Some (pick v 20), out_buf))
         else (0, in_buf, out_buf))"

definition Stream_isStreamAudioOutFmtSupported :: "nat \<Rightarrow> bool" where
  "Stream_isStreamAudioOutFmtSupported format \<longleftrightarrow>
     format \<in> {PAL_AUDIO_FMT_PCM_S8, PAL_AUDIO_FMT_PCM_S16_LE, PAL_AUDIO_FMT_PCM_S24_3LE,
       PAL_AUDIO_FMT_PCM_S24_LE, PAL_AUDIO_FMT_PCM_S32_LE, PAL_AUDIO_FMT_MP3, PAL_AUDIO_FMT_AAC,
       PAL_AUDIO_FMT_AAC_ADTS, PAL_AUDIO_FMT_AAC_ADIF, PAL_AUDIO_FMT_AAC_LATM,
       PAL_AUDIO_FMT_WMA_STD, PAL_AUDIO_FMT_ALAC, PAL_AUDIO_FMT_APE, PAL_AUDIO_FMT_WMA_PRO,
       PAL_AUDIO_FMT_FLAC, PAL_AUDIO_FMT_VORBIS, PAL_AUDIO_FMT_AMR_NB, PAL_AUDIO_FMT_AMR_WB,
       PAL_AUDIO_FMT_AMR_WB_PLUS, PAL_AUDIO_FMT_EVRC, PAL_AUDIO_FMT_G711, PAL_AUDIO_FMT_QCELP,
       PAL_AUDIO_FMT_OPUS}"

section \<open>Device lists\<close>

definition sndId :: "world \<Rightarrow> nat \<Rightarrow> nat" where
  "sndId w d = dev_id (deviceAttr (wdev w d))"

definition Stream_getAssociatedDevices :: "nat \<Rightarrow> nat list \<Rightarrow> (int \<times> nat list) io" where
  "Stream_getAssociatedDevices s aDevices = do {
     ds \<leftarrow> str s mDevices;
     return (0, aDevices @ ds)
   }"

definition Stream_getAssociatedOutDevices :: "nat \<Rightarrow> nat list \<Rightarrow> (int \<times> nat list) io" where
  "Stream_getAssociatedOutDevices s aDevices = do {
     ds \<leftarrow> gets (\<lambda>w. filter (\<lambda>d. isOutputDevId (int (sndId w d))) (mDevices (wstr w s)));
     return (0, aDevices @ ds)
   }"

definition Stream_getAssociatedInDevices :: "nat \<Rightarrow> nat list \<Rightarrow> (int \<times> nat list) io" where
  "Stream_getAssociatedInDevices s aDevices = do {
     ds \<leftarrow> gets (\<lambda>w. filter (\<lambda>d. isInputDevId (int (sndId w d))) (mDevices (wstr w s)));
     return (0, aDevices @ ds)
   }"

definition Stream_getPalDevices :: "nat \<Rightarrow> nat list \<Rightarrow> (int \<times> nat list) io" where
  "Stream_getPalDevices s palDevices = do {
     ds \<leftarrow> str s mPalDevices;
     return (0, palDevices @ ds)
   }"

text \<open>The two loops that take devices out of \<^verbatim>\<open>mPalDevices\<close> share their body; \<open>out\<close> says which
  device goes.\<close>

definition drop_pal_devices :: "nat \<Rightarrow> (nat \<Rightarrow> bool) \<Rightarrow> unit io" where
  "drop_pal_devices s out = do {
     ds \<leftarrow> str s mPalDevices;
     for_each ds (\<lambda>d. do {
       i \<leftarrow> Device_getSndDeviceId d;
       when_io (out i) (Device_removeStreamDeviceAttr d s)
     });
     keep \<leftarrow> gets (\<lambda>w. filter (\<lambda>d. \<not> out (sndId w d)) ds);
     upd_str s (mPalDevices_update (\<lambda>_. keep))
   }"

definition Stream_removePalDevice :: "nat \<Rightarrow> nat \<Rightarrow> unit io" where
  "Stream_removePalDevice s palDevId = drop_pal_devices s (\<lambda>i. i = palDevId)"

definition Stream_clearOutPalDevices :: "nat \<Rightarrow> unit io" where
  "Stream_clearOutPalDevices s = drop_pal_devices s (\<lambda>i. \<not> isInputDevId (int i))"

text \<open>The insertion throws only for a stream type without a priority, which the constructor of the
  stream already looked up: its result is dropped.\<close>

definition Stream_addPalDevice :: "env \<Rightarrow> nat \<Rightarrow> pal_device \<Rightarrow> unit io" where
  "Stream_addPalDevice E s dattr = do {
     r \<leftarrow> Device_getInstance E dattr;
     case r of
       None \<Rightarrow> return ()
     | Some d \<Rightarrow> do {
         Device_insertStreamDeviceAttr E d (Some dattr) (Some s);
         upd_str s (mPalDevices_update (\<lambda>ds. ds @ [d]))
       }
   }"

definition Stream_clearmDevices :: "nat \<Rightarrow> unit io" where
  "Stream_clearmDevices s = upd_str s (mDevices_update (\<lambda>_. []))"

definition Stream_removemDevice :: "nat \<Rightarrow> nat \<Rightarrow> unit io" where
  "Stream_removemDevice s palDevId = do {
     keep \<leftarrow> gets (\<lambda>w. filter (\<lambda>d. sndId w d \<noteq> palDevId) (mDevices (wstr w s)));
     upd_str s (mDevices_update (\<lambda>_. keep))
   }"

definition Stream_addmDevice :: "env \<Rightarrow> nat \<Rightarrow> pal_device \<Rightarrow> unit io" where
  "Stream_addmDevice E s dattr = do {
     r \<leftarrow> Device_getInstance E dattr;
     case r of
       None \<Rightarrow> return ()
     | Some d \<Rightarrow> do {
         Device_setDeviceAttributes d dattr;
         upd_str s (mDevices_update (\<lambda>ds. ds @ [d]))
       }
   }"

definition Stream_removeLastmDevice :: "nat \<Rightarrow> unit io" where
  "Stream_removeLastmDevice s = upd_str s (mDevices_update butlast)"

definition Stream_getSoundCardId :: "nat \<Rightarrow> int io" where
  "Stream_getSoundCardId s = do {
     ds \<leftarrow> str s mDevices;
     case ds of
       [] \<Rightarrow> return (- EINVAL)
     | d # _ \<Rightarrow> do {
         (st, a) \<leftarrow> Device_getDeviceAttributes d True None;
         return (case a of None \<Rightarrow> - EINVAL | Some a \<Rightarrow> int (card_id a))
       }
   }"

section \<open>Further operations of the base class\<close>

definition Stream_getTimestamp :: "env \<Rightarrow> nat \<Rightarrow> bool \<Rightarrow> int io" where
  "Stream_getTimestamp E s has_result =
     (if \<not> has_result then return (- EINVAL)
      else do {
        card \<leftarrow> call E GetSoundCardState;
        if PAL_CARD_STATUS_DOWN card then return (- EINVAL)
        else do {
          lock (GetParamMutex s);
          st \<leftarrow> call E (Sess s SGetTimestamp);
          unlock (GetParamMutex s);
          if st \<noteq> 0 then do {
            e \<leftarrow> call E Errno;
            card \<leftarrow> (if e = - ENETRESET then call E GetSoundCardState else return (int CARD_STATUS_NONE));
            if e = - ENETRESET \<and> PAL_CARD_STATUS_UP card
            then do { tell (SsrHandler CARD_STATUS_OFFLINE); return (- EINVAL) }
            else return st
          }
          else return st
        }
      })"

definition Stream_setCachedState :: "nat \<Rightarrow> stream_state_t \<Rightarrow> unit io" where
  "Stream_setCachedState s state = do {
     lock (StreamMutex s);
     upd_str s (cachedState_update (\<lambda>_. state));
     unlock (StreamMutex s)
   }"

definition Stream_isStreamSSRDownFeasibile :: "env \<Rightarrow> nat \<Rightarrow> bool io" where
  "Stream_isStreamSSRDownFeasibile E s = do {
     t \<leftarrow> gets (\<lambda>w. stream_type w s);
     r \<leftarrow> call E (IsSsrDownFeasible t);
     if r = 0 then do { upd_str s (skipSSRHandling_update (\<lambda>_. True)); return False }
     else return True
   }"

definition Stream_setCustomParam :: "env \<Rightarrow> nat \<Rightarrow> string \<Rightarrow> int io" where
  "Stream_setCustomParam E s param_str = do {
     lock (StreamMutex s);
     st \<leftarrow> str s currentState;
     if st = STREAM_IDLE then do { unlock (StreamMutex s); return (- EINVAL) }
     else do {
       r \<leftarrow> call E (Sess s (SSetCustomParam param_str));
       unlock (StreamMutex s);
       return r
     }
   }"

definition Stream_getCustomParam :: "env \<Rightarrow> nat \<Rightarrow> string \<Rightarrow> int io" where
  "Stream_getCustomParam E s param_str = do {
     lock (StreamMutex s);
     st \<leftarrow> str s currentState;
     if st = STREAM_IDLE then do { unlock (StreamMutex s); return (- EINVAL) }
     else do {
       lock (GetParamMutex s);
       r \<leftarrow> call E (Sess s (SGetCustomParam param_str));
       unlock (GetParamMutex s);
       unlock (StreamMutex s);
       return r
     }
   }"

text \<open>\<^verbatim>\<open>checkStreamMatch\<close>: by another stream, and by device and type.\<close>

definition Stream_checkStreamMatch :: "world \<Rightarrow> nat \<Rightarrow> nat \<Rightarrow> bool" where
  "Stream_checkStreamMatch w s ref =
     (if s = ref then True
      else case (mStreamAttr (wstr w s), mStreamAttr (wstr w ref)) of
             (Some a, Some r) \<Rightarrow> stype r = stype a \<or> stype r = PAL_STREAM_GENERIC
           | _ \<Rightarrow> False)"

definition Stream_checkStreamMatch_device :: "world \<Rightarrow> nat \<Rightarrow> nat \<Rightarrow> nat \<Rightarrow> bool" where
  "Stream_checkStreamMatch_device w s pal_device_id pal_stream_type =
     (case mStreamAttr (wstr w s) of
        None \<Rightarrow> False
      | Some a \<Rightarrow>
          (pal_stream_type = stype a \<or> pal_stream_type = PAL_STREAM_GENERIC) \<and>
          (mDevices (wstr w s) = [] \<or>
           (\<exists>d\<in>set (mDevices (wstr w s)). pal_device_id = sndId w d \<or> pal_device_id = PAL_DEVICE_NONE)))"

text \<open>\<^verbatim>\<open>isStreamSupported\<close> of the base class, over the stream's own three checks, whose status
  values are or-ed.\<close>

definition Stream_isStreamSupported ::
    "(nat \<Rightarrow> int) \<Rightarrow> (nat \<Rightarrow> int) \<Rightarrow> (nat \<Rightarrow> int) \<Rightarrow> pal_stream_attributes \<Rightarrow> bool" where
  "Stream_isStreamSupported bwSupported srSupported chSupported a =
     (let c = (if direction a = PAL_AUDIO_INPUT then in_media_config a else out_media_config a)
      in bwSupported (bit_width c) = 0 \<and> srSupported (sample_rate c) = 0 \<and> chSupported (channels c) = 0)"

section \<open>Connecting and disconnecting a device\<close>

text \<open>Card state queries stand where the source evaluates them; \<open>or\<close> evaluates its second
  operand only if the first is false.\<close>

definition idle_or_card_down :: "env \<Rightarrow> nat \<Rightarrow> bool io" where
  "idle_or_card_down E s = do {
     st \<leftarrow> str s currentState;
     if st = STREAM_IDLE then return True
     else do { card \<leftarrow> call E GetSoundCardState; return (PAL_CARD_STATUS_DOWN card) }
   }"

text \<open>Devices that are started although the stream is only opened: the ones of memory mapped
  streams.\<close>

definition mmap_started :: "nat \<Rightarrow> bool \<Rightarrow> bool" where
  "mmap_started i mmap \<longleftrightarrow>
     (i = PAL_DEVICE_OUT_BLUETOOTH_A2DP \<or> i = PAL_DEVICE_OUT_BLUETOOTH_BLE \<or>
      i = PAL_DEVICE_OUT_SPEAKER) \<and> mmap"

abbreviation (input) opened_only :: "stream_state_t \<Rightarrow> bool" where
  "opened_only st \<equiv> st = STREAM_INIT \<or> st = STREAM_STOPPED"

text \<open>From the graph lock on: disconnect, stop, close, erase.\<close>

definition disconnect_tail :: "env \<Rightarrow> dev_vt \<Rightarrow> nat \<Rightarrow> nat \<Rightarrow> bool \<Rightarrow> int io" where
  "disconnect_tail E D s d isDeviceStopped = do {
     lock GraphMutex;
     r \<leftarrow> call E (Sess s (SDisconnectSessionDevice d));
     if r \<noteq> 0 then do { unlock GraphMutex; return r }
     else do {
       st \<leftarrow> str s currentState;
       mmap \<leftarrow> str s isMMap;
       i \<leftarrow> Device_getSndDeviceId d;
       r \<leftarrow> (if (\<not> opened_only st \<or> mmap_started i mmap) \<and> \<not> isDeviceStopped
             then vt_stop D d else return 0);
       if r \<noteq> 0 then do { unlock GraphMutex; return r }
       else do {
         r \<leftarrow> vt_close D d;
         if r \<noteq> 0 then do { unlock GraphMutex; return r }
         else do {
           upd_str s (mDevices_update (remove1 d));
           unlock GraphMutex;
           tell CheckAndSetDutyCycleParam;
           return 0
         }
       }
     }
   }"

definition Stream_disconnectStreamDevice_l :: "env \<Rightarrow> dev_vt \<Rightarrow> nat \<Rightarrow> nat \<Rightarrow> int io" where
  "Stream_disconnectStreamDevice_l E D s devid = do {
     idle \<leftarrow> idle_or_card_down E s;
     found \<leftarrow> gets (\<lambda>w. List.find (\<lambda>d. sndId w d = devid) (mDevices (wstr w s)));
     if idle then
       (case found of
          None \<Rightarrow> return 0
        | Some d \<Rightarrow> do { upd_str s (mDevices_update (remove1 d)); return 0 })
     else
       (case found of
          None \<Rightarrow> do { tell CheckAndSetDutyCycleParam; return 0 }
        | Some d \<Rightarrow> do {
            st \<leftarrow> str s currentState;
            when_io (st \<noteq> STREAM_STOPPED) (do { RM_deregisterDevice d s; return () });
            prot \<leftarrow> rmg isSpeakerProtectionEnabled;
            i \<leftarrow> Device_getSndDeviceId d;
            if \<not> opened_only st \<and> i = PAL_DEVICE_OUT_SPEAKER \<and> prot
            then do {
              r \<leftarrow> vt_stop D d;
              if r \<noteq> 0 then return r else disconnect_tail E D s d True
            }
            else disconnect_tail E D s d False
          })
   }"

definition Stream_disconnectStreamDevice :: "env \<Rightarrow> dev_vt \<Rightarrow> nat \<Rightarrow> nat \<Rightarrow> int io" where
  "Stream_disconnectStreamDevice E D s devid = do {
     lock (StreamMutex s);
     r \<leftarrow> Stream_disconnectStreamDevice_l E D s devid;
     unlock (StreamMutex s);
     return r
   }"

text \<open>The comparison of backend names; \<open>cur\<close> is the variable the lookup leaves unchanged for an
  invalid id.\<close>

fun shares_backend :: "RM \<Rightarrow> string \<Rightarrow> string \<Rightarrow> nat list \<Rightarrow> bool" where
  "shares_backend rm new cur [] = False"
| "shares_backend rm new cur (i # is) =
     (let cur = snd (getBackendName rm i cur) in new = cur \<or> shares_backend rm new cur is)"

definition connect_dev_close :: "dev_vt \<Rightarrow> nat \<Rightarrow> nat \<Rightarrow> int \<Rightarrow> int io" where
  "connect_dev_close D s d st = do {
     when_io (st \<noteq> - ENETRESET) (do {
       upd_str s (mDevices_update butlast);
       vt_close D d;
       return ()
     });
     return st
   }"

definition connect_dev_stop :: "dev_vt \<Rightarrow> nat \<Rightarrow> nat \<Rightarrow> int \<Rightarrow> int io" where
  "connect_dev_stop D s d st = do {
     when_io (st \<noteq> - ENETRESET) (do { vt_stop D d; return () });
     connect_dev_close D s d st
   }"

text \<open>\<open>ChargerBoost 0\<close> and \<open>ChargerBoost 2\<close> ask whether the charger conditions hold,
  \<open>1\<close> and \<open>3\<close> are the calls made then.\<close>

definition connect_finish :: "env \<Rightarrow> dev_vt \<Rightarrow> nat \<Rightarrow> nat \<Rightarrow> int io" where
  "connect_finish E D s d = do {
     r \<leftarrow> call E (Sess s (SConnectSessionDevice d));
     unlock GraphMutex;
     if r \<noteq> 0 then connect_dev_stop D s d r
     else do {
       st \<leftarrow> str s currentState;
       when_io (st \<noteq> STREAM_STOPPED) (do { RM_registerDevice d s; return () });
       tell CheckAndSetDutyCycleParam;
       i \<leftarrow> Device_getSndDeviceId d;
       c \<leftarrow> call E (ChargerBoost 2);
       if c \<noteq> 0 \<and> i = PAL_DEVICE_OUT_SPEAKER then call E (ChargerBoost 3) else return 0
     }
   }"

definition connect_tail :: "env \<Rightarrow> dev_vt \<Rightarrow> nat \<Rightarrow> nat \<Rightarrow> int io" where
  "connect_tail E D s d = do {
     i \<leftarrow> Device_getSndDeviceId d;
     c \<leftarrow> call E (ChargerBoost 0);
     when_io (c \<noteq> 0 \<and> i = PAL_DEVICE_OUT_SPEAKER) (do { call E (ChargerBoost 1); return () });
     r \<leftarrow> Device_open E d;
     if r \<noteq> 0 then return r
     else do {
       upd_str s (mDevices_update (\<lambda>ds. ds @ [d]));
       lock GraphMutex;
       r \<leftarrow> call E (Sess s (SSetupSessionDevice d));
       if r \<noteq> 0 then do { unlock GraphMutex; connect_dev_close D s d r }
       else do {
         st \<leftarrow> str s currentState;
         mmap \<leftarrow> str s isMMap;
         if \<not> opened_only st \<or> mmap_started i mmap then do {
           r \<leftarrow> vt_start D d;
           if r \<noteq> 0 then do { unlock GraphMutex; connect_dev_close D s d r }
           else connect_finish E D s d
         }
         else if isBtDevice i \<and> st = STREAM_STOPPED then do { unlock GraphMutex; return 0 }
         else connect_finish E D s d
       }
     }
   }"

definition connect_usb_check :: "env \<Rightarrow> nat \<Rightarrow> int \<Rightarrow> int io" where
  "connect_usb_check E d st = do {
     i \<leftarrow> Device_getSndDeviceId d;
     if st \<noteq> 0 \<and> (i = PAL_DEVICE_OUT_USB_HEADSET \<or> i = PAL_DEVICE_IN_USB_HEADSET)
     then do {
       c \<leftarrow> call E (IsDeviceConnected d);
       return (if c \<noteq> 0 then st else - ENOSYS)
     }
     else return st
   }"

definition Stream_connectStreamDevice_l :: "env \<Rightarrow> dev_vt \<Rightarrow> nat \<Rightarrow> pal_device option \<Rightarrow> int io" where
  "Stream_connectStreamDevice_l E D s dattr =
     (case dattr of
        None \<Rightarrow> return (- EINVAL)
      | Some a \<Rightarrow> do {
          inst \<leftarrow> Device_getInstance E a;
          case inst of
            None \<Rightarrow> return 0
          | Some d \<Rightarrow> do {
              Device_setDeviceAttributes d a;
              idle \<leftarrow> idle_or_card_down E s;
              r \<leftarrow> (if idle then do { upd_str s (mDevices_update (\<lambda>ds. ds @ [d])); return 0 }
                   else do {
                     shared \<leftarrow> gets (\<lambda>w. shares_backend (wrm w)
                                 (snd (getBackendName (wrm w) (sndId w d) [])) []
                                 (map (sndId w) (mDevices (wstr w s))));
                     if shared then return 0 else connect_tail E D s d
                   });
              connect_usb_check E d r
            }
        })"

definition Stream_connectStreamDevice :: "env \<Rightarrow> dev_vt \<Rightarrow> nat \<Rightarrow> pal_device option \<Rightarrow> int io" where
  "Stream_connectStreamDevice E D s dattr = do {
     lock (StreamMutex s);
     r \<leftarrow> Stream_connectStreamDevice_l E D s dattr;
     unlock (StreamMutex s);
     return r
   }"

section \<open>Construction and destruction\<close>

text \<open>The base class initialises the fields it gives a value to, and throws while the card is
  down; an exception is \<open>None\<close>.\<close>

abbreviation (input) SSR_RECOVERY :: nat where "SSR_RECOVERY \<equiv> 10000"

definition Stream_init :: "Stream \<Rightarrow> Stream" where
  "Stream_init x = x\<lparr>mInitialized := False, mDevices := [], mPalDevices := [],
     deviceMuteStateRx := False, deviceMuteStateTx := False, inBufSize := 960, outBufSize := 1024,
     inBufCount := 4, outBufCount := 4, mInstanceID := 0, skipSSRHandling := False, mVolumeData := None,
     isPaused := False, a2dpMuted := False, unMutePending := False, a2dpPaused := False, isMMap := False,
     isComboHeadsetActive := False, suspendedOutDevIds := []\<rparr>"

definition Stream_new :: "env \<Rightarrow> nat \<Rightarrow> bool option io" where
  "Stream_new E s = do {
     upd_str s Stream_init;
     card \<leftarrow> call E GetSoundCardState;
     if PAL_CARD_STATUS_DOWN card then do { tell (Usleep SSR_RECOVERY); return None }
     else return (Some True)
   }"

definition Stream_delete :: "nat \<Rightarrow> unit io" where
  "Stream_delete s = do {
     upd_str s (\<lambda>x. x\<lparr>mVolumeData := None, mDevices := [], mPalDevices := []\<rparr>);
     sess \<leftarrow> str s session;
     when_io sess (do { tell (Sess s SDelete); upd_str s (session_update (\<lambda>_. False)) });
     upd_str s (mStreamAttr_update (\<lambda>_. None))
   }"

section \<open>The contract of a virtual device\<close>

text \<open>What streams rely on when they call a device under their own locks: the device takes only
  locks below the ones its caller may hold, and gives them back.\<close>

locale locking_device =
  fixes D :: dev_vt
  assumes vt_close_lk: "\<forall>k\<in>set H. lock_rank k < 5 \<Longrightarrow> lk H (vt_close D d) H"
    and vt_start_lk: "\<forall>k\<in>set H. lock_rank k < 5 \<Longrightarrow> lk H (vt_start D d) H"
    and vt_stop_lk: "\<forall>k\<in>set H. lock_rank k < 5 \<Longrightarrow> lk H (vt_stop D d) H"
begin

lemma lk_vt:
  assumes "\<forall>k\<in>set H. lock_rank k < 5" "H' = H"
  shows "lk H (vt_close D d) H'" "lk H (vt_start D d) H'" "lk H (vt_stop D d) H'"
  using assms vt_close_lk vt_start_lk vt_stop_lk by simp_all

end

text \<open>The counting contract: close and stop give back what open and start took, and a device
  touches nothing of the streams and of the resource manager's registers.\<close>

locale counting_device = locking_device +
  assumes vt_close_frame: "run_state (vt_close D d) w = (r, w') \<Longrightarrow> dev_frame w w'"
    and vt_close_opens: "run_state (vt_close D d) w = (r, w') \<Longrightarrow>
      opens w' = (opens w)(d := if opens w d > 0 then opens w d - 1 else opens w d)"
    and vt_close_starts: "run_state (vt_close D d) w = (r, w') \<Longrightarrow>
      starts w' = (if opens w d = 1 then (starts w)(d := 0) else starts w)"
    and vt_stop_frame: "run_state (vt_stop D d) w = (r, w') \<Longrightarrow> dev_frame w w'"
    and vt_stop_opens: "run_state (vt_stop D d) w = (r, w') \<Longrightarrow> opens w' = opens w"
    and vt_stop_starts: "run_state (vt_stop D d) w = (r, w') \<Longrightarrow>
      starts w' = (starts w)(d := if starts w d > 0 then starts w d - 1 else starts w d)"
    and vt_start_frame: "dev_wf d w \<Longrightarrow> run_state (vt_start D d) w = (r, w') \<Longrightarrow> dev_frame w w'"
    and vt_start_opens: "dev_wf d w \<Longrightarrow> run_state (vt_start D d) w = (r, w') \<Longrightarrow> opens w' = opens w"
    and vt_start_starts: "dev_wf d w \<Longrightarrow> run_state (vt_start D d) w = (r, w') \<Longrightarrow> r = 0 \<Longrightarrow>
      starts w' = (starts w)(d := starts w d + 1)"

text \<open>The base class meets both contracts.\<close>

interpretation base: counting_device "Device_vt E" for E
proof
  fix H d and w w' :: world and r :: int
  show "\<forall>k\<in>set H. lock_rank k < 5 \<Longrightarrow> lk H (vt_close (Device_vt E) d) H"
    "\<forall>k\<in>set H. lock_rank k < 5 \<Longrightarrow> lk H (vt_start (Device_vt E) d) H"
    "\<forall>k\<in>set H. lock_rank k < 5 \<Longrightarrow> lk H (vt_stop (Device_vt E) d) H"
    by (simp_all add: Device_vt_def lk_device_ops)
  show "run_state (vt_close (Device_vt E) d) w = (r, w') \<Longrightarrow> dev_frame w w'"
    "run_state (vt_stop (Device_vt E) d) w = (r, w') \<Longrightarrow> dev_frame w w'"
    by (simp_all add: Device_vt_def close_frame stop_frame)
  show "run_state (vt_close (Device_vt E) d) w = (r, w') \<Longrightarrow>
      opens w' = (opens w)(d := if opens w d > 0 then opens w d - 1 else opens w d)"
    "run_state (vt_close (Device_vt E) d) w = (r, w') \<Longrightarrow>
      starts w' = (if opens w d = 1 then (starts w)(d := 0) else starts w)"
    using close_counts by (simp_all add: Device_vt_def)
  show "run_state (vt_stop (Device_vt E) d) w = (r, w') \<Longrightarrow> opens w' = opens w"
    "run_state (vt_stop (Device_vt E) d) w = (r, w') \<Longrightarrow>
      starts w' = (starts w)(d := if starts w d > 0 then starts w d - 1 else starts w d)"
    using stop_counts by (simp_all add: Device_vt_def)
  show "dev_wf d w \<Longrightarrow> run_state (vt_start (Device_vt E) d) w = (r, w') \<Longrightarrow> dev_frame w w'"
    "dev_wf d w \<Longrightarrow> run_state (vt_start (Device_vt E) d) w = (r, w') \<Longrightarrow> opens w' = opens w"
    using start_counts(1,3) by (simp_all add: Device_vt_def)
  show "dev_wf d w \<Longrightarrow> run_state (vt_start (Device_vt E) d) w = (r, w') \<Longrightarrow> r = 0 \<Longrightarrow>
      starts w' = (starts w)(d := starts w d + 1)"
    using start_counts(2,4) [of d w E r w'] by (auto simp: Device_vt_def split: if_splits)
qed

section \<open>Locks of the base class\<close>

lemma lk_idle_or_card_down [lk_rules]: "H' = H \<Longrightarrow> lk H (idle_or_card_down E s) H'"
  unfolding idle_or_card_down_def by (rule lk_rules | rule refl | simp add: not_lock_def)+

lemma lk_isStreamSSRDownFeasibile [lk_rules]: "H' = H \<Longrightarrow> lk H (Stream_isStreamSSRDownFeasibile E s) H'"
  unfolding Stream_isStreamSSRDownFeasibile_def by (rule lk_rules | rule refl | simp add: not_lock_def)+

lemma lk_usb_check [lk_rules]: "H' = H \<Longrightarrow> lk H (connect_usb_check E d st) H'"
  unfolding connect_usb_check_def by (rule lk_rules | rule refl | simp add: not_lock_def)+

lemma lk_stream_params [lk_rules]:
  "lk [] (Stream_getTimestamp E s b) []" "lk [] (Stream_setCustomParam E s p) []"
  "lk [] (Stream_getCustomParam E s p) []" "lk [] (Stream_setCachedState s st) []"
  unfolding Stream_getTimestamp_def Stream_setCustomParam_def Stream_getCustomParam_def
    Stream_setCachedState_def
  by (rule lk_rules | rule refl | simp add: not_lock_def)+

context locking_device
begin

lemma lk_disconnect_tail:
  "H = [StreamMutex s] \<Longrightarrow> H' = H \<Longrightarrow> lk H (disconnect_tail E D s d b) H'"
  unfolding disconnect_tail_def
  by (rule lk_vt lk_rules | rule refl | simp add: not_lock_def)+

lemma lk_disconnectStreamDevice_l:
  "H = [StreamMutex s] \<Longrightarrow> H' = H \<Longrightarrow> lk H (Stream_disconnectStreamDevice_l E D s i) H'"
  unfolding Stream_disconnectStreamDevice_l_def
  by (rule lk_disconnect_tail lk_vt lk_rules | rule refl | simp add: not_lock_def)+

lemma lk_disconnectStreamDevice:
  "H = [] \<Longrightarrow> H' = H \<Longrightarrow> lk H (Stream_disconnectStreamDevice E D s i) H'"
  unfolding Stream_disconnectStreamDevice_def
  by (rule lk_disconnectStreamDevice_l lk_rules | rule refl | simp add: not_lock_def)+

lemma lk_connect_dev_close:
  "H = [StreamMutex s] \<Longrightarrow> H' = H \<Longrightarrow> lk H (connect_dev_close D s d st) H'"
  unfolding connect_dev_close_def
  by (rule lk_vt lk_rules | rule refl | simp add: not_lock_def)+

lemma lk_connect_dev_stop:
  "H = [StreamMutex s] \<Longrightarrow> H' = H \<Longrightarrow> lk H (connect_dev_stop D s d st) H'"
  unfolding connect_dev_stop_def
  by (rule lk_connect_dev_close lk_vt lk_rules | rule refl | simp add: not_lock_def)+

lemma lk_connect_finish:
  "H = [GraphMutex, StreamMutex s] \<Longrightarrow> H' = [StreamMutex s] \<Longrightarrow> lk H (connect_finish E D s d) H'"
  unfolding connect_finish_def
  by (rule lk_connect_dev_stop lk_rules | rule refl | simp add: not_lock_def)+

lemma lk_connect_tail: "H = [StreamMutex s] \<Longrightarrow> H' = H \<Longrightarrow> lk H (connect_tail E D s d) H'"
  unfolding connect_tail_def
  by (rule lk_connect_finish lk_connect_dev_close lk_vt lk_rules | rule refl | simp add: not_lock_def)+

lemma lk_connectStreamDevice_l:
  "H = [StreamMutex s] \<Longrightarrow> H' = H \<Longrightarrow> lk H (Stream_connectStreamDevice_l E D s a) H'"
  unfolding Stream_connectStreamDevice_l_def
  by (rule lk_connect_tail lk_rules | rule refl | simp add: not_lock_def)+

lemma lk_connectStreamDevice:
  "H = [] \<Longrightarrow> H' = H \<Longrightarrow> lk H (Stream_connectStreamDevice E D s a) H'"
  unfolding Stream_connectStreamDevice_def
  by (rule lk_connectStreamDevice_l lk_rules | rule refl | simp add: not_lock_def)+

end

end
