(* ===== verification/BT_Utils.thy ===== *)
theory BT_Utils
  imports Pal_Stream
begin

text \<open>
  The fallbacks of \<^verbatim>\<open>utils/src/BTUtils.cpp\<close> that an output stream runs when it starts on a
  Bluetooth device that is not ready: \<^verbatim>\<open>BTUtilsDeviceNotReady\<close> moves the stream to the
  speaker or the handset, \<^verbatim>\<open>BTUtilsDeviceNotReadyToDummy\<close> to the dummy device.  Both work on
  a copy of the stream's device list.  They are called with the stream's mutex held.
\<close>

section \<open>Helpers\<close>

text \<open>\<^verbatim>\<open>getActiveStream_l\<close>: the live streams on a device, in the order of their types.\<close>

definition RM_getActiveStream_l :: "world \<Rightarrow> nat \<Rightarrow> nat list" where
  "RM_getActiveStream_l w d =
     concat (map (\<lambda>t. filter (\<lambda>s. d \<in> set (mDevices (wstr w s)) \<and> currentState (wstr w s) \<noteq> STREAM_IDLE)
                       (RM_getActiveStreamByType_l (wrm w) t)) [0..<PAL_STREAM_MAX])"

definition on_device :: "nat list \<Rightarrow> nat \<Rightarrow> bool io" where
  "on_device ds i = gets (\<lambda>w. \<exists>d\<in>set ds. sndId w d = i)"

definition zero_attr :: "nat \<Rightarrow> pal_device" where
  "zero_attr i = \<lparr>dev_id = i, config = \<lparr>sample_rate = 0, bit_width = 0, aud_fmt_id = 0, channels = 0,
     ch_map = replicate 64 0\<rparr>, card_id = 0, sndDevName = [], custom_key = []\<rparr>"

text \<open>Disconnect one device from the stream, close it and take it out of the stream's list;
  \<open>stop_it\<close> for the memory mapped case, \<open>extra\<close> for the client's list.\<close>

definition bt_detach :: "env \<Rightarrow> dev_vt \<Rightarrow> nat \<Rightarrow> nat \<Rightarrow> bool \<Rightarrow> unit io \<Rightarrow> int io" where
  "bt_detach E D s d stop_it extra = do {
     lock GraphMutex;
     r \<leftarrow> call E (Sess s (SDisconnectSessionDevice d));
     if r \<noteq> 0 then do { unlock GraphMutex; return r }
     else do {
       when_io stop_it (do { vt_stop D d; return () });
       r \<leftarrow> vt_close D d;
       if r \<noteq> 0 then do { unlock GraphMutex; return r }
       else do {
         i \<leftarrow> Device_getSndDeviceId d;
         Stream_removemDevice s i;
         extra;
         unlock GraphMutex;
         return 0
       }
     }
   }"

definition bt_keep_speaker :: "env \<Rightarrow> dev_vt \<Rightarrow> nat \<Rightarrow> unit io \<Rightarrow> nat list \<Rightarrow> int io" where
  "bt_keep_speaker E D s extra ds = until_fail ds (\<lambda>d. do {
     i \<leftarrow> Device_getSndDeviceId d;
     if i = PAL_DEVICE_OUT_SPEAKER then return 0 else bt_detach E D s d False extra
   })"

text \<open>Which A2DP or LE device the stream is on.\<close>

definition bt_pick :: "nat list \<Rightarrow> nat io" where
  "bt_pick ds = do {
     a2dp \<leftarrow> on_device ds PAL_DEVICE_OUT_BLUETOOTH_A2DP;
     bcast \<leftarrow> on_device ds PAL_DEVICE_OUT_BLUETOOTH_BLE_BROADCAST;
     return (if a2dp then PAL_DEVICE_OUT_BLUETOOTH_A2DP
             else if bcast then PAL_DEVICE_OUT_BLUETOOTH_BLE_BROADCAST
             else PAL_DEVICE_OUT_BLUETOOTH_BLE)
   }"

definition on_a2dp :: "nat list \<Rightarrow> bool io" where
  "on_a2dp ds = do {
     a \<leftarrow> on_device ds PAL_DEVICE_OUT_BLUETOOTH_A2DP;
     b \<leftarrow> on_device ds PAL_DEVICE_OUT_BLUETOOTH_BLE;
     c \<leftarrow> on_device ds PAL_DEVICE_OUT_BLUETOOTH_BLE_BROADCAST;
     return (a \<or> b \<or> c)
   }"

section \<open>To the speaker or the handset\<close>

definition bt_sco_fallback :: "env \<Rightarrow> dev_vt \<Rightarrow> nat \<Rightarrow> unit io \<Rightarrow> nat list \<Rightarrow> (int \<times> nat list) io" where
  "bt_sco_fallback E D s extra ds = do {
     sco \<leftarrow> on_device ds PAL_DEVICE_OUT_BLUETOOTH_SCO;
     ready \<leftarrow> (if sco then call E (IsDeviceReady PAL_DEVICE_OUT_BLUETOOTH_SCO) else return 1);
     if sco \<and> ready = 0 then do {
       spk \<leftarrow> on_device ds PAL_DEVICE_OUT_SPEAKER;
       if spk then do {
         r \<leftarrow> bt_keep_speaker E D s extra ds;
         ds' \<leftarrow> gets (\<lambda>w. filter (\<lambda>d. sndId w d = PAL_DEVICE_OUT_SPEAKER) ds);
         return (r, ds')
       }
       else return (- EAGAIN, ds)
     }
     else return (0, ds)
   }"

text \<open>Closing all devices of a stream that only runs on Bluetooth; the stream's own list is left
  as it is.\<close>

definition bt_close_all :: "env \<Rightarrow> dev_vt \<Rightarrow> nat \<Rightarrow> nat list \<Rightarrow> int io" where
  "bt_close_all E D s ds = do {
     lock GraphMutex;
     r \<leftarrow> until_fail ds (\<lambda>d. do {
       r \<leftarrow> call E (Sess s (SDisconnectSessionDevice d));
       if r \<noteq> 0 then return r
       else do {
         i \<leftarrow> Device_getSndDeviceId d;
         mmap \<leftarrow> str s isMMap;
         when_io ((i = PAL_DEVICE_OUT_BLUETOOTH_A2DP \<or> i = PAL_DEVICE_OUT_BLUETOOTH_BLE) \<and> mmap)
           (do { vt_stop D d; return () });
         vt_close D d
       }
     });
     unlock GraphMutex;
     return r
   }"

text \<open>The device to fall back to, under the active stream lock.\<close>

definition bt_choose :: "env \<Rightarrow> nat \<Rightarrow> nat \<Rightarrow> (nat \<times> pal_device) io" where
  "bt_choose E spkr handset = do {
     lock ActiveStreamMutex;
     on_spkr \<leftarrow> gets (\<lambda>w. RM_getActiveStream_l w spkr \<noteq> []);
     on_handset \<leftarrow> gets (\<lambda>w. RM_getActiveStream_l w handset \<noteq> []);
     r \<leftarrow> (if on_spkr then return (spkr, zero_attr PAL_DEVICE_OUT_SPEAKER)
          else if on_handset then return (handset, zero_attr PAL_DEVICE_OUT_HANDSET)
          else do {
            c \<leftarrow> RM_getDeviceConfig E (replicate 64 0) (zero_attr PAL_DEVICE_OUT_SPEAKER) None;
            let (st, a) = (case c of None \<Rightarrow> (- EINVAL, zero_attr PAL_DEVICE_OUT_SPEAKER) | Some p \<Rightarrow> p);
            when_io (st = 0) (upd_rm (\<lambda>rm.
              case getDeviceInfo rm (dev_id a) 0 (custom_key a) zero_info of
                None \<Rightarrow> rm
              | Some di \<Rightarrow> updateSndName (dev_id a) (di_sndDevName di) rm));
            Device_setDeviceAttributes spkr a;
            return (spkr, a)
          });
     unlock ActiveStreamMutex;
     return r
   }"

text \<open>Open, set up, start and connect the fallback device.\<close>

definition bt_attach :: "env \<Rightarrow> dev_vt \<Rightarrow> nat \<Rightarrow> nat \<Rightarrow> pal_device \<Rightarrow> int io" where
  "bt_attach E D s d a = do {
     r \<leftarrow> Device_open E d;
     if r \<noteq> 0 then return r
     else do {
       Stream_addmDevice E s a;
       lock GraphMutex;
       r \<leftarrow> call E (Sess s (SSetupSessionDevice d));
       unlock GraphMutex;
       if r \<noteq> 0 then do { vt_close D d; return r }
       else do {
         i \<leftarrow> Device_getSndDeviceId d;
         mmap \<leftarrow> str s isMMap;
         r \<leftarrow> (if i = PAL_DEVICE_OUT_SPEAKER \<and> mmap then vt_start D d else return 0);
         if r \<noteq> 0 then do { vt_close D d; Stream_removeLastmDevice s; return r }
         else do {
           r \<leftarrow> call E (Sess s (SConnectSessionDevice d));
           if r \<noteq> 0 then do { vt_close D d; Stream_removeLastmDevice s; return r }
           else do {
             (st, da) \<leftarrow> Device_getDeviceAttributes d True (Some s);
             Stream_addPalDevice E s (case da of None \<Rightarrow> a | Some x \<Rightarrow> x);
             return 0
           }
         }
       }
     }
   }"

definition bt_move_to_speaker :: "env \<Rightarrow> dev_vt \<Rightarrow> nat \<Rightarrow> nat list \<Rightarrow> nat \<Rightarrow> int io" where
  "bt_move_to_speaker E D s ds btid = do {
     upd_str s (suspendedOutDevIds_update (\<lambda>_. [btid]));
     r \<leftarrow> bt_close_all E D s ds;
     if r \<noteq> 0 then return r
     else do {
       Stream_clearOutPalDevices s;
       spkr \<leftarrow> Device_getInstance E (zero_attr PAL_DEVICE_OUT_SPEAKER);
       handset \<leftarrow> Device_getInstance E (zero_attr PAL_DEVICE_OUT_HANDSET);
       case (spkr, handset) of
         (Some sd, Some ed) \<Rightarrow> do {
           (d, a) \<leftarrow> bt_choose E sd ed;
           bt_attach E D s d a
         }
       | _ \<Rightarrow> return (- ENODEV)
     }
   }"

definition bt_a2dp_fallback :: "env \<Rightarrow> dev_vt \<Rightarrow> nat \<Rightarrow> nat list \<Rightarrow> (int \<times> bool) io" where
  "bt_a2dp_fallback E D s ds = do {
     btid \<leftarrow> bt_pick ds;
     inst \<leftarrow> Device_getInstance E (zero_attr btid);
     case inst of
       None \<Rightarrow> return (- ENODEV, False)
     | Some d \<Rightarrow> do {
         susp \<leftarrow> call E (IsA2dpSuspended d);
         if susp = 0 then return (0, False)
         else do {
           spk \<leftarrow> on_device ds PAL_DEVICE_OUT_SPEAKER;
           if spk then do {
             upd_str s (suspendedOutDevIds_update (\<lambda>_. [PAL_DEVICE_OUT_SPEAKER, btid]));
             r \<leftarrow> bt_keep_speaker E D s (return ()) ds;
             return (r, False)
           }
           else do {
             r \<leftarrow> bt_move_to_speaker E D s ds btid;
             return (r, True)
           }
         }
       }
   }"

definition BTUtilsDeviceNotReady :: "env \<Rightarrow> dev_vt \<Rightarrow> nat \<Rightarrow> (int \<times> bool) io" where
  "BTUtilsDeviceNotReady E D s = do {
     a \<leftarrow> str s mStreamAttr;
     if a = None then return (- EINVAL, False)
     else do {
       ds \<leftarrow> str s mDevices;
       gone \<leftarrow> gets (\<lambda>w. \<exists>d\<in>set ds. isBtDevice (sndId w d) \<and> \<not> isDeviceAvailable (wrm w) (sndId w d));
       if gone then return (- ENODEV, False)
       else do {
         (r, ds) \<leftarrow> bt_sco_fallback E D s (return ()) ds;
         if r \<noteq> 0 then return (r, False)
         else do {
           a2dp \<leftarrow> on_a2dp ds;
           if a2dp then bt_a2dp_fallback E D s ds else return (0, False)
         }
       }
     }
   }"

section \<open>To the dummy device\<close>

definition bt_attach_dummy :: "env \<Rightarrow> dev_vt \<Rightarrow> nat \<Rightarrow> int io" where
  "bt_attach_dummy E D s = do {
     inst \<leftarrow> Device_getInstance E (zero_attr PAL_DEVICE_OUT_DUMMY);
     case inst of
       None \<Rightarrow> return (- ENODEV)
     | Some d \<Rightarrow> do {
         c \<leftarrow> RM_getDeviceConfig E (replicate 64 0) (zero_attr PAL_DEVICE_OUT_DUMMY) None;
         let (st, a) = (case c of None \<Rightarrow> (- EINVAL, zero_attr PAL_DEVICE_OUT_DUMMY) | Some p \<Rightarrow> p);
         if st \<noteq> 0 then return st
         else do {
           Device_setDeviceAttributes d a;
           r \<leftarrow> Device_open E d;
           if r \<noteq> 0 then return r
           else do {
             r \<leftarrow> call E (Sess s (SSetupSessionDevice d));
             if r \<noteq> 0 then do { vt_close D d; return r }
             else do {
               r \<leftarrow> call E (Sess s (SConnectSessionDevice d));
               if r \<noteq> 0 then do { vt_close D d; return r }
               else do {
                 Stream_addmDevice E s a;
                 Stream_addPalDevice E s a;
                 return 0
               }
             }
           }
         }
       }
   }"

definition bt_a2dp_to_dummy :: "env \<Rightarrow> dev_vt \<Rightarrow> nat \<Rightarrow> nat list \<Rightarrow> (int \<times> bool) io" where
  "bt_a2dp_to_dummy E D s ds = do {
     btid \<leftarrow> bt_pick ds;
     inst \<leftarrow> Device_getInstance E (zero_attr btid);
     case inst of
       None \<Rightarrow> return (- ENODEV, False)
     | Some d \<Rightarrow> do {
         susp \<leftarrow> call E (IsA2dpSuspended d);
         if susp = 0 then return (0, False)
         else do {
           upd_str s (suspendedOutDevIds_update (\<lambda>_. [btid]));
           r \<leftarrow> until_fail ds (\<lambda>d. do {
             i \<leftarrow> Device_getSndDeviceId d;
             mmap \<leftarrow> str s isMMap;
             if i = btid then bt_detach E D s d mmap (Stream_removePalDevice s i) else return 0
           });
           if r \<noteq> 0 then return (r, False)
           else do {
             left \<leftarrow> gets (\<lambda>w. filter (\<lambda>d. sndId w d \<noteq> btid) ds);
             if left = [] then do { r \<leftarrow> bt_attach_dummy E D s; return (r, True) }
             else do {
               upd_str s (suspendedOutDevIds_update (\<lambda>l. l @ [PAL_DEVICE_OUT_MIN]));
               return (0, False)
             }
           }
         }
       }
   }"

definition BTUtilsDeviceNotReadyToDummy :: "env \<Rightarrow> dev_vt \<Rightarrow> nat \<Rightarrow> (int \<times> bool) io" where
  "BTUtilsDeviceNotReadyToDummy E D s = do {
     a \<leftarrow> str s mStreamAttr;
     if a = None then return (- EINVAL, False)
     else do {
       ds \<leftarrow> str s mDevices;
       (r, ds) \<leftarrow> bt_sco_fallback E D s (Stream_removePalDevice s PAL_DEVICE_OUT_BLUETOOTH_SCO) ds;
       if r \<noteq> 0 then return (r, False)
       else do {
         a2dp \<leftarrow> on_a2dp ds;
         if a2dp then bt_a2dp_to_dummy E D s ds else return (0, False)
       }
     }
   }"

section \<open>Locks\<close>

lemma lk_insertStreamDeviceAttr_run:
  assumes "\<forall>k\<in>set H. lock_rank k < 5"
    and "\<And>w. fst (run_state (Device_insertStreamDeviceAttr E d a s) w) \<noteq> None"
  shows "lk H (Device_insertStreamDeviceAttr E d a s) H"
  unfolding lk_def
proof (rule validI)
  fix w r w'
  assume h: "held (wlog w) = Some H" and run: "run_state (Device_insertStreamDeviceAttr E d a s) w = (r, w')"
  have "r \<noteq> None" using assms(2) [of w] run by simp
  then show "held (wlog w') = Some H"
    using run h assms(1) unfolding Device_insertStreamDeviceAttr_def
    by (auto elim!: run_bindE split: if_splits option.splits)
qed

lemma lk_drop_pal_devices [lk_rules]:
  assumes "\<forall>k\<in>set H. lock_rank k < 5" "H' = H"
  shows "lk H (drop_pal_devices s out) H'"
  unfolding assms(2) drop_pal_devices_def
  by (rule lk_rules | rule refl | simp add: not_lock_def assms(1))+

lemma lk_bt_small [lk_rules]:
  "H' = H \<Longrightarrow> lk H (on_device ds i) H'" "H' = H \<Longrightarrow> lk H (on_a2dp ds) H'"
  "H' = H \<Longrightarrow> lk H (bt_pick ds) H'" "H' = H \<Longrightarrow> lk H (Stream_removemDevice s i) H'"
  "H' = H \<Longrightarrow> lk H (Stream_removeLastmDevice s) H'"
  unfolding on_device_def on_a2dp_def bt_pick_def Stream_removemDevice_def Stream_removeLastmDevice_def
  by (rule lk_rules | rule refl | simp)+

lemma lk_getDeviceConfig [lk_rules]: "H' = H \<Longrightarrow> lk H (RM_getDeviceConfig E j a sa) H'"
  unfolding RM_getDeviceConfig_def by (rule lk_rules | rule refl | simp add: not_lock_def)+

lemma lk_addmDevice [lk_rules]:
  assumes "\<forall>k\<in>set H. lock_rank k < 5" "H' = H"
  shows "lk H (Stream_addmDevice E s a) H'"
  unfolding assms(2) Stream_addmDevice_def
  by (rule lk_rules | rule refl | simp add: not_lock_def assms(1))+

context locking_device
begin

lemma lk_bt_detach:
  assumes "H = [StreamMutex s]" "H' = H"
    "lk [GraphMutex, StreamMutex s] extra [GraphMutex, StreamMutex s]"
  shows "lk H (bt_detach E D s d b extra) H'"
  unfolding assms(1,2) bt_detach_def
  by (rule assms(3) lk_vt lk_rules | rule refl | simp add: not_lock_def)+

lemma lk_bt_keep_speaker:
  assumes "H = [StreamMutex s]" "H' = H"
    "lk [GraphMutex, StreamMutex s] extra [GraphMutex, StreamMutex s]"
  shows "lk H (bt_keep_speaker E D s extra ds) H'"
  unfolding assms(1,2) bt_keep_speaker_def
  by (rule lk_bt_detach lk_rules | rule refl assms(3) | simp add: not_lock_def)+

lemma lk_bt_sco_fallback:
  assumes "H = [StreamMutex s]" "H' = H"
    "lk [GraphMutex, StreamMutex s] extra [GraphMutex, StreamMutex s]"
  shows "lk H (bt_sco_fallback E D s extra ds) H'"
  unfolding assms(1,2) bt_sco_fallback_def
  by (rule lk_bt_keep_speaker lk_rules | rule refl assms(3) | simp add: not_lock_def)+

lemma lk_bt_close_all: "H = [StreamMutex s] \<Longrightarrow> H' = H \<Longrightarrow> lk H (bt_close_all E D s ds) H'"
  unfolding bt_close_all_def
  by (rule lk_vt lk_rules | rule refl | simp add: not_lock_def)+

end

end
