(* ===== verification/Stream_PCM.thy ===== *)
theory Stream_PCM
  imports BT_Utils
begin

text \<open>
  \<^verbatim>\<open>stream/StreamPCM/src/StreamPCM.cpp\<close>: the stream of PCM playback, capture and loopback.
  Each method is one program over the world; \<open>goto exit\<close> is the end of a branch, and a block
  the source jumps to from several places (\<^verbatim>\<open>session_fail\<close>, \<^verbatim>\<open>closeDevice\<close>) is a program
  of its own.  The memory logger is not modelled.

  This theory holds the model; the theories \<^verbatim>\<open>PCM_*\<close> hold what is shown of it.
\<close>

section \<open>Volume and mute\<close>

definition all_volumes_zero :: "pal_volume_data option \<Rightarrow> bool" where
  "all_volumes_zero v =
     (case v of None \<Rightarrow> True | Some v \<Rightarrow> (\<forall>p\<in>set (take (no_of_volpair v) (volume_pair v)). vol p = 0))"

text \<open>The direction of the stream.  An initialised stream has its attributes; reading them through
  a null pointer is the event \<open>OutOfBounds\<close>.\<close>

definition StreamPCM_direction :: "nat \<Rightarrow> nat io" where
  "StreamPCM_direction s = do {
     a \<leftarrow> str s mStreamAttr;
     case a of None \<Rightarrow> do { tell OutOfBounds; return 0 } | Some a \<Rightarrow> return (direction a)
   }"

definition StreamPCM_mute_l :: "env \<Rightarrow> nat \<Rightarrow> bool \<Rightarrow> int io" where
  "StreamPCM_mute_l E s state = do {
     v \<leftarrow> str s mVolumeData;
     dir \<leftarrow> (if all_volumes_zero v then StreamPCM_direction s else return 0);
     if all_volumes_zero v \<and> dir = PAL_AUDIO_OUTPUT
     then do { upd_str s (unMutePending_update (\<lambda>_. \<not> state)); return 0 }
     else call E (Sess s (SMute state))
   }"

definition StreamPCM_mute :: "env \<Rightarrow> nat \<Rightarrow> bool \<Rightarrow> int io" where
  "StreamPCM_mute E s state = do {
     lock (StreamMutex s);
     r \<leftarrow> StreamPCM_mute_l E s state;
     unlock (StreamMutex s);
     return r
   }"

text \<open>The size of the volume data is kept in a \<^verbatim>\<open>uint8_t\<close>.\<close>

definition vol_size :: "nat \<Rightarrow> nat" where
  "vol_size n = (4 + 8 * n) mod 256"

definition copy_volume :: "pal_volume_data \<Rightarrow> pal_volume_data" where
  "copy_volume v = v\<lparr>volume_pair := take ((vol_size (no_of_volpair v) - 4) div 8) (volume_pair v)\<rparr>"

definition vol_at :: "pal_volume_data \<Rightarrow> nat \<Rightarrow> real" where
  "vol_at v i = (if i < length (volume_pair v) then vol (volume_pair v ! i) else 0)"

definition volumes_differ :: "pal_volume_data \<Rightarrow> bool" where
  "volumes_differ v \<longleftrightarrow>
     (\<exists>i\<in>set [0..<no_of_volpair v]. i > 0 \<and> \<bar>vol_at v 0 - vol_at v i\<bar> > 1 / 1000000)"

abbreviation (input) PAL_PARAM_ID_VOLUME_USING_SET_PARAM :: nat where
  "PAL_PARAM_ID_VOLUME_USING_SET_PARAM \<equiv> 55"

definition push_volume :: "env \<Rightarrow> nat \<Rightarrow> pal_volume_data \<Rightarrow> int io" where
  "push_volume E s v = do {
     t \<leftarrow> gets (\<lambda>w. stream_type w s);
     usp \<leftarrow> rmg isVolumeUsingSetParam;
     avail \<leftarrow> rmg (\<lambda>rm. t \<in> set (volumeSetParamStreams rm));
     let zero = \<not> volumes_differ v \<and> vol_at v 0 = 0 \<and> \<not> usp;
     when_io zero (do { call E (Sess s SSetVolume); return () });
     if (avail \<and> usp) \<or> volumes_differ v \<or> zero
     then call E (Sess s (SSetParameters PAL_PARAM_ID_VOLUME_USING_SET_PARAM))
     else call E (Sess s SSetVolume)
   }"

definition apply_volume :: "env \<Rightarrow> nat \<Rightarrow> pal_volume_data \<Rightarrow> int io" where
  "apply_volume E s v = do {
     muted \<leftarrow> str s a2dpMuted;
     if muted then return 0
     else do {
       card \<leftarrow> call E GetSoundCardState;
       st \<leftarrow> str s currentState;
       paused \<leftarrow> str s isPaused;
       if card = int CARD_STATUS_ONLINE \<and> st \<noteq> STREAM_IDLE \<and> st \<noteq> STREAM_INIT \<and> \<not> paused
       then do {
         r \<leftarrow> push_volume E s v;
         if r \<noteq> 0 then return r
         else do {
           pend \<leftarrow> str s unMutePending;
           when_io pend (do {
             upd_str s (unMutePending_update (\<lambda>_. False));
             StreamPCM_mute_l E s False;
             return ()
           });
           return 0
         }
       }
       else return 0
     }
   }"

definition StreamPCM_setVolume :: "env \<Rightarrow> nat \<Rightarrow> pal_volume_data option \<Rightarrow> int io" where
  "StreamPCM_setVolume E s volume =
     (case volume of
        None \<Rightarrow> return (- EINVAL)
      | Some v \<Rightarrow>
          if no_of_volpair v = 0 then return (- EINVAL)
          else do {
            upd_str s (mVolumeData_update (\<lambda>_. None));
            r \<leftarrow> call E (AllocFails (vol_size (no_of_volpair v)));
            if r \<noteq> 0 then return (- ENOMEM)
            else do {
              upd_str s (mVolumeData_update (\<lambda>_. Some (copy_volume v)));
              when_io (length (volume_pair (copy_volume v)) < no_of_volpair v) (tell OutOfBounds);
              apply_volume E s (copy_volume v)
            }
          })"

section \<open>Open and close\<close>


definition open_bt_check :: "env \<Rightarrow> nat list \<Rightarrow> int io" where
  "open_bt_check E ds = until_fail ds (\<lambda>d. do {
     i \<leftarrow> Device_getSndDeviceId d;
     if isBtDevice i then do {
       avail \<leftarrow> rmg (\<lambda>rm. isDeviceAvailable rm i);
       if \<not> avail then return (- ENODEV)
       else do {
         ready \<leftarrow> call E (IsDeviceReady i);
         return (if ready = 0 \<and> length ds = 1 then - ENODEV else 0)
       }
     }
     else return 0
   })"

definition open_idle :: "env \<Rightarrow> dev_vt \<Rightarrow> nat \<Rightarrow> nat list \<Rightarrow> int io" where
  "open_idle E D s ds = do {
     r \<leftarrow> until_fail ds (Device_open E);
     if r \<noteq> 0 then return r
     else do {
       lock GraphMutex;
       r \<leftarrow> call E (Sess s SOpen);
       unlock GraphMutex;
       if r \<noteq> 0 then last_status r ds (vt_close D)
       else do { upd_str s (currentState_update (\<lambda>_. STREAM_INIT)); return 0 }
     }
   }"

definition StreamPCM_open :: "env \<Rightarrow> dev_vt \<Rightarrow> nat \<Rightarrow> int io" where
  "StreamPCM_open E D s = do {
     lock (StreamMutex s);
     card \<leftarrow> call E GetSoundCardState;
     r \<leftarrow> (if PAL_CARD_STATUS_DOWN card then do { tell (Usleep SSR_RECOVERY); return (- EIO) }
          else do {
            ds \<leftarrow> str s mDevices;
            r \<leftarrow> open_bt_check E ds;
            if r \<noteq> 0 then return r
            else do {
              st \<leftarrow> str s currentState;
              if st = STREAM_IDLE then open_idle E D s ds
              else if st = STREAM_INIT then return 0
              else return (- EINVAL)
            }
          });
     unlock (StreamMutex s);
     return r
   }"

text \<open>Devices that stay started from the memory map's creation on are skipped by start and stop.\<close>

definition mmap_skips :: "nat \<Rightarrow> nat \<Rightarrow> bool io" where
  "mmap_skips s d = do {
     i \<leftarrow> Device_getSndDeviceId d;
     mmap \<leftarrow> str s isMMap;
     return ((isBtDevice i \<or> i = PAL_DEVICE_OUT_SPEAKER) \<and> mmap)
   }"

text \<open>A loop that leaves at the first error, and whose status is the one of the last step that
  was not skipped.\<close>

fun run_on :: "int \<Rightarrow> 'a list \<Rightarrow> ('a \<Rightarrow> int option io) \<Rightarrow> int io" where
  "run_on st [] f = return st"
| "run_on st (x # xs) f = do {
     r \<leftarrow> f x;
     case r of None \<Rightarrow> run_on st xs f | Some r \<Rightarrow> if r \<noteq> 0 then return r else run_on 0 xs f
   }"

definition on_side :: "(nat \<Rightarrow> bool) \<Rightarrow> (nat \<Rightarrow> int io) \<Rightarrow> nat \<Rightarrow> int option io" where
  "on_side side f d = do {
     i \<leftarrow> Device_getSndDeviceId d;
     if side i then do { r \<leftarrow> f d; return (Some r) } else return None
   }"

definition rx_id :: "nat \<Rightarrow> bool" where
  "rx_id i \<longleftrightarrow> PAL_DEVICE_OUT_MIN < i \<and> i < PAL_DEVICE_OUT_MAX"

definition tx_id :: "nat \<Rightarrow> bool" where
  "tx_id i \<longleftrightarrow> PAL_DEVICE_IN_MIN < i \<and> i < PAL_DEVICE_IN_MAX"

definition stop_output :: "env \<Rightarrow> dev_vt \<Rightarrow> nat \<Rightarrow> nat list \<Rightarrow> int io" where
  "stop_output E D s ds = do {
     lock GraphMutex;
     r \<leftarrow> call E (Sess s SStop);
     r \<leftarrow> run_on r ds (\<lambda>d. do {
       skip \<leftarrow> mmap_skips s d;
       if skip then return (Some 0) else do { r \<leftarrow> vt_stop D d; return (Some r) }
     });
     unlock GraphMutex;
     return r
   }"

definition stop_input :: "env \<Rightarrow> dev_vt \<Rightarrow> nat \<Rightarrow> nat list \<Rightarrow> int io" where
  "stop_input E D s ds = do {
     lock GraphMutex;
     for_each ds (\<lambda>d. do { vt_stop D d; return () });
     r \<leftarrow> call E (Sess s SStop);
     unlock GraphMutex;
     return r
   }"

definition stop_loopback :: "env \<Rightarrow> dev_vt \<Rightarrow> nat \<Rightarrow> nat list \<Rightarrow> int io" where
  "stop_loopback E D s ds = do {
     lock GraphMutex;
     for_each ds (\<lambda>d. do { on_side tx_id (vt_stop D) d; return () });
     r \<leftarrow> call E (Sess s SStop);
     r \<leftarrow> run_on r ds (on_side rx_id (vt_stop D));
     unlock GraphMutex;
     return r
   }"

definition stop_by_direction :: "env \<Rightarrow> dev_vt \<Rightarrow> nat \<Rightarrow> nat list \<Rightarrow> int io" where
  "stop_by_direction E D s ds = do {
     dir \<leftarrow> StreamPCM_direction s;
     if dir = PAL_AUDIO_OUTPUT then stop_output E D s ds
     else if dir = PAL_AUDIO_INPUT then stop_input E D s ds
     else if dir = PAL_AUDIO_INPUT_OUTPUT then stop_loopback E D s ds
     else return (- EINVAL)
   }"

definition StreamPCM_stop :: "env \<Rightarrow> dev_vt \<Rightarrow> nat \<Rightarrow> int io" where
  "StreamPCM_stop E D s = do {
     lock (StreamMutex s);
     st \<leftarrow> str s currentState;
     r \<leftarrow> (if st = STREAM_STARTED \<or> st = STREAM_PAUSED then do {
            unlock (StreamMutex s);
            lock ActiveStreamMutex;
            lock (StreamMutex s);
            upd_str s (currentState_update (\<lambda>_. STREAM_STOPPED));
            ds \<leftarrow> str s mDevices;
            for_each ds (\<lambda>d. do { RM_deregisterDevice d s; return () });
            unlock ActiveStreamMutex;
            stop_by_direction E D s ds
          }
          else if st = STREAM_STOPPED \<or> st = STREAM_IDLE then return 0
          else return (- EINVAL));
     unlock (StreamMutex s);
     return r
   }"

text \<open>\<open>close_stop\<close>: what close does first, with the stream's mutex held before and after.\<close>

definition close_stop :: "env \<Rightarrow> dev_vt \<Rightarrow> nat \<Rightarrow> stream_state_t \<Rightarrow> unit io" where
  "close_stop E D s st =
     (if st = STREAM_STARTED \<or> st = STREAM_PAUSED then do {
        unlock (StreamMutex s);
        StreamPCM_stop E D s;
        lock (StreamMutex s)
      }
      else when_io (st = STREAM_INIT \<or> st = STREAM_STOPPED) (do {
        ds \<leftarrow> str s mDevices;
        for_each ds (\<lambda>d. do {
          skipped \<leftarrow> mmap_skips s d;
          when_io skipped (do { vt_stop D d; return () })
        })
      }))"

definition StreamPCM_close :: "env \<Rightarrow> dev_vt \<Rightarrow> nat \<Rightarrow> int io" where
  "StreamPCM_close E D s = do {
     lock (StreamMutex s);
     st \<leftarrow> str s currentState;
     if st = STREAM_IDLE then do { unlock (StreamMutex s); return 0 }
     else do {
       close_stop E D s st;
       lock GraphMutex;
       r \<leftarrow> call E (Sess s SClose);
       ds \<leftarrow> str s mDevices;
       r \<leftarrow> last_status r ds (vt_close D);
       upd_str s (currentState_update (\<lambda>_. STREAM_IDLE));
       unlock GraphMutex;
       tell CheckAndSetDutyCycleParam;
       unlock (StreamMutex s);
       return r
     }
   }"

section \<open>Start\<close>

text \<open>\<^verbatim>\<open>session_fail\<close>: stop every device; a failing stop overrides the status.\<close>

fun stop_all :: "dev_vt \<Rightarrow> int \<Rightarrow> nat list \<Rightarrow> int io" where
  "stop_all D status [] = return status"
| "stop_all D status (d # ds) = do {
     devStatus \<leftarrow> vt_stop D d;
     stop_all D (if devStatus \<noteq> 0 then devStatus else status) ds
   }"

definition session_fail :: "dev_vt \<Rightarrow> nat \<Rightarrow> int \<Rightarrow> (bool \<times> int) io" where
  "session_fail D s status = do {
     unlock GraphMutex;
     ds \<leftarrow> str s mDevices;
     r \<leftarrow> stop_all D status ds;
     return (False, r)
   }"

definition inform_rm :: "env \<Rightarrow> unit io" where
  "inform_rm E = do {
     card \<leftarrow> call E GetSoundCardState;
     when_io (PAL_CARD_STATUS_UP card) (tell (SsrHandler CARD_STATUS_OFFLINE))
   }"

text \<open>Prepare and start the session, with the graph lock held on entry.  The result says whether
  the stream is started, and the status otherwise.\<close>

definition start_session :: "env \<Rightarrow> dev_vt \<Rightarrow> nat \<Rightarrow> (bool \<times> int) io" where
  "start_session E D s = do {
     r \<leftarrow> call E (Sess s SPrepare);
     if r \<noteq> 0 then session_fail D s r
     else do {
       r \<leftarrow> call E (Sess s SStart);
       errno \<leftarrow> call E Errno;
       if errno = - ENETRESET then do {
         inform_rm E;
         upd_str s (cachedState_update (\<lambda>_. STREAM_STARTED));
         session_fail D s 0
       }
       else if r \<noteq> 0 then session_fail D s r
       else do { unlock GraphMutex; return (True, 0) }
     }
   }"

text \<open>The start loop of an output stream.  A device that fails is disconnected, closed and
  erased from the list; \<open>pre\<close> are the devices before the index.\<close>

fun start_rx :: "env \<Rightarrow> dev_vt \<Rightarrow> nat \<Rightarrow> nat list \<Rightarrow> nat list \<Rightarrow> int \<Rightarrow> int \<Rightarrow> (int \<times> int) io" where
  "start_rx E D s pre [] status cachedStatus = return (status, cachedStatus)"
| "start_rx E D s pre (d # ds) status cachedStatus = do {
     skip \<leftarrow> mmap_skips s d;
     if skip then start_rx E D s (pre @ [d]) ds 0 cachedStatus
     else do {
       devStatus \<leftarrow> vt_start D d;
       if devStatus = 0 then start_rx E D s (pre @ [d]) ds 0 cachedStatus
       else do {
         call E (Sess s (SDisconnectSessionDevice d));
         vt_close D d;
         upd_str s (mDevices_update (\<lambda>_. pre @ ds));
         start_rx E D s pre ds status devStatus
       }
     }
   }"

definition start_output_devices :: "env \<Rightarrow> dev_vt \<Rightarrow> nat \<Rightarrow> (bool \<times> int) io" where
  "start_output_devices E D s = do {
     lock GraphMutex;
     ds \<leftarrow> str s mDevices;
     if ds = [] then do { unlock GraphMutex; return (False, - EINVAL) }
     else do {
       (status, cachedStatus) \<leftarrow> start_rx E D s [] ds (- EINVAL) 0;
       if status \<noteq> 0 then do { unlock GraphMutex; return (False, cachedStatus) }
       else start_session E D s
     }
   }"

definition mute_suspended :: "env \<Rightarrow> nat \<Rightarrow> unit io" where
  "mute_suspended E s = do {
     muted \<leftarrow> str s a2dpMuted;
     when_io (\<not> muted) (do {
       StreamPCM_mute_l E s True;
       upd_str s (a2dpMuted_update (\<lambda>_. True))
     })
   }"

definition start_bt_fallback :: "env \<Rightarrow> dev_vt \<Rightarrow> nat \<Rightarrow> (int \<times> bool) io" where
  "start_bt_fallback E D s = do {
     dummy \<leftarrow> rmg isDummyDevEnabled;
     if dummy then BTUtilsDeviceNotReadyToDummy E D s else BTUtilsDeviceNotReady E D s
   }"

definition start_output :: "env \<Rightarrow> dev_vt \<Rightarrow> nat \<Rightarrow> (bool \<times> int) io" where
  "start_output E D s = do {
     (r, a2dpSuspend) \<leftarrow> start_bt_fallback E D s;
     if r \<noteq> 0 then return (False, r)
     else do {
       (go, r) \<leftarrow> start_output_devices E D s;
       when_io (go \<and> a2dpSuspend) (mute_suspended E s);
       return (go, r)
     }
   }"

definition start_input :: "env \<Rightarrow> dev_vt \<Rightarrow> nat \<Rightarrow> (bool \<times> int) io" where
  "start_input E D s = do {
     lock GraphMutex;
     ds \<leftarrow> str s mDevices;
     r \<leftarrow> until_fail ds (vt_start D);
     if r \<noteq> 0 then do { unlock GraphMutex; return (False, r) }
     else start_session E D s
   }"

definition start_loopback :: "env \<Rightarrow> dev_vt \<Rightarrow> nat \<Rightarrow> (bool \<times> int) io" where
  "start_loopback E D s = do {
     lock GraphMutex;
     ds \<leftarrow> str s mDevices;
     r \<leftarrow> run_on 0 ds (on_side rx_id (vt_start D));
     if r \<noteq> 0 then do { unlock GraphMutex; return (False, r) }
     else do {
       r \<leftarrow> run_on 0 ds (on_side tx_id (vt_start D));
       if r \<noteq> 0 then do {
         run_on 0 ds (on_side rx_id (vt_stop D));
         unlock GraphMutex;
         return (False, r)
       }
       else start_session E D s
     }
   }"

definition start_by_direction :: "env \<Rightarrow> dev_vt \<Rightarrow> nat \<Rightarrow> (bool \<times> int) io" where
  "start_by_direction E D s = do {
     dir \<leftarrow> StreamPCM_direction s;
     if dir = PAL_AUDIO_OUTPUT then start_output E D s
     else if dir = PAL_AUDIO_INPUT then start_input E D s
     else if dir = PAL_AUDIO_INPUT_OUTPUT then start_loopback E D s
     else return (True, - EINVAL)
   }"

text \<open>The registration after a start: the stream's mutex is given up for the active stream lock
  and taken again.\<close>

definition start_register :: "nat \<Rightarrow> unit io" where
  "start_register s = do {
     upd_str s (currentState_update (\<lambda>_. STREAM_STARTED));
     unlock (StreamMutex s);
     lock ActiveStreamMutex;
     lock (StreamMutex s);
     ds \<leftarrow> str s mDevices;
     for_each ds (\<lambda>d. do { RM_registerDevice d s; return () });
     unlock ActiveStreamMutex;
     tell CheckAndSetDutyCycleParam
   }"

definition StreamPCM_start :: "env \<Rightarrow> dev_vt \<Rightarrow> nat \<Rightarrow> int io" where
  "StreamPCM_start E D s = do {
     lock (StreamMutex s);
     card \<leftarrow> call E GetSoundCardState;
     r \<leftarrow> (if PAL_CARD_STATUS_DOWN card then do {
            upd_str s (cachedState_update (\<lambda>_. STREAM_STARTED));
            return 0
          }
          else do {
            st \<leftarrow> str s currentState;
            if st = STREAM_INIT \<or> st = STREAM_STOPPED then do {
              (go, r) \<leftarrow> start_by_direction E D s;
              when_io go (start_register s);
              return r
            }
            else if st = STREAM_STARTED then return 0
            else return (- EINVAL)
          });
     unlock (StreamMutex s);
     return r
   }"

section \<open>Reading and writing\<close>

text \<open>The sizes are kept at their widths: \<^verbatim>\<open>size\<close> is an \<^verbatim>\<open>int32_t\<close>, the frame size a
  \<^verbatim>\<open>uint32_t\<close>, the sleep is computed on \<^verbatim>\<open>uint64_t\<close> and passed as 32 bits.\<close>

definition to_int32 :: "nat \<Rightarrow> int" where
  "to_int32 n = (int n + 2 ^ 31) mod 2 ^ 32 - 2 ^ 31"

definition frame_size :: "pal_media_config \<Rightarrow> nat" where
  "frame_size c = (bit_width c div 8 * channels c) mod 2 ^ 32"

definition drop_time :: "pal_media_config \<Rightarrow> int \<Rightarrow> nat" where
  "drop_time c len =
     ((nat (len mod 2 ^ 64) * 1000000) mod 2 ^ 64 div frame_size c div sample_rate c) mod 2 ^ 32"

definition in_config :: "Stream \<Rightarrow> pal_media_config option" where
  "in_config x = map_option in_media_config (mStreamAttr x)"

definition out_config :: "Stream \<Rightarrow> pal_media_config option" where
  "out_config x = map_option out_media_config (mStreamAttr x)"

text \<open>Dropping a buffer: sleep as long as it would have played; \<open>pre\<close> is what happens before the
  sleep.\<close>

definition drop_buffer :: "pal_media_config option \<Rightarrow> nat \<Rightarrow> unit io \<Rightarrow> int io" where
  "drop_buffer c n pre =
     (case c of
        None \<Rightarrow> do { tell OutOfBounds; return (- EINVAL) }
      | Some c \<Rightarrow>
          if frame_size c = 0 \<or> sample_rate c = 0 then return (- EINVAL)
          else do { pre; tell (Usleep (drop_time c (to_int32 n))); return (to_int32 n) })"

text \<open>After a failed transfer: an error that comes from a card restart counts as a dropped buffer.
  \<^verbatim>\<open>errno\<close> is compared with the negated code, and the card state is read again for each
  test.\<close>

definition transfer_failed :: "env \<Rightarrow> nat \<Rightarrow> int \<Rightarrow> int io" where
  "transfer_failed E n status = do {
     errno \<leftarrow> call E Errno;
     card \<leftarrow> (if errno = - ENETRESET then call E GetSoundCardState else return (int CARD_STATUS_NONE));
     if errno = - ENETRESET \<and> PAL_CARD_STATUS_UP card
     then do { tell (SsrHandler CARD_STATUS_OFFLINE); return (to_int32 n) }
     else do {
       card \<leftarrow> call E GetSoundCardState;
       return (if PAL_CARD_STATUS_DOWN card then to_int32 n else status)
     }
   }"

definition card_down_or :: "env \<Rightarrow> (world \<Rightarrow> bool) \<Rightarrow> bool io" where
  "card_down_or E b = do {
     card \<leftarrow> call E GetSoundCardState;
     if PAL_CARD_STATUS_DOWN card then return True else gets b
   }"

definition StreamPCM_read :: "env \<Rightarrow> nat \<Rightarrow> nat \<Rightarrow> int io" where
  "StreamPCM_read E s n = do {
     lock (StreamMutex s);
     drop \<leftarrow> card_down_or E (\<lambda>w. cachedState (wstr w s) \<noteq> STREAM_IDLE);
     r \<leftarrow> (if drop then do {
            c \<leftarrow> str s in_config;
            drop_buffer c n (tell (ZeroBuffer (nat (to_int32 n mod 2 ^ 64))))
          }
          else do {
            st \<leftarrow> str s currentState;
            if st = STREAM_STARTED then do {
              (status, size) \<leftarrow> call_out E (Sess s (SRead n));
              if status \<noteq> 0 then transfer_failed E n status else return size
            }
            else return (- EINVAL)
          });
     unlock (StreamMutex s);
     return r
   }"

text \<open>A successful write on a paused stream resumes it.\<close>

definition write_resumes :: "nat \<Rightarrow> unit io" where
  "write_resumes s = do {
     lock ActiveStreamMutex;
     lock (StreamMutex s);
     ds \<leftarrow> str s mDevices;
     for_each ds (\<lambda>d. do { RM_registerDevice d s; return () });
     unlock (StreamMutex s);
     unlock ActiveStreamMutex;
     upd_str s (currentState_update (\<lambda>_. STREAM_STARTED))
   }"

definition StreamPCM_write :: "env \<Rightarrow> nat \<Rightarrow> nat \<Rightarrow> int io" where
  "StreamPCM_write E s n = do {
     lock (StreamMutex s);
     drop \<leftarrow> card_down_or E (\<lambda>w. cachedState (wstr w s) \<noteq> STREAM_IDLE \<or> a2dpPaused (wstr w s));
     if drop then do {
       c \<leftarrow> str s out_config;
       r \<leftarrow> drop_buffer c n (return ());
       unlock (StreamMutex s);
       return r
     }
     else do {
       st \<leftarrow> str s currentState;
       if st = STREAM_STARTED \<or> st = STREAM_PAUSED then do {
         (status, size) \<leftarrow> call_out E (Sess s (SWrite n));
         unlock (StreamMutex s);
         if status \<noteq> 0 then transfer_failed E n status
         else do {
           resumes \<leftarrow> str s (\<lambda>x. currentState x = STREAM_PAUSED \<and> \<not> isPaused x);
           when_io resumes (write_resumes s);
           return size
         }
       }
       else do {
         unlock (StreamMutex s);
         return (if st = STREAM_STOPPED then - EIO else - EINVAL)
       }
     }
   }"

section \<open>Callbacks, parameters and checks\<close>

definition StreamPCM_registerCallBack :: "nat \<Rightarrow> nat \<Rightarrow> nat \<Rightarrow> int io" where
  "StreamPCM_registerCallBack s cb ck = do {
     upd_str s (\<lambda>x. x\<lparr>streamCb := cb, cookie := ck\<rparr>);
     return 0
   }"

definition StreamPCM_getCallBack :: "nat \<Rightarrow> (int \<times> nat) io" where
  "StreamPCM_getCallBack s = do { cb \<leftarrow> str s streamCb; return (0, cb) }"

definition StreamPCM_setDeviceMute :: "nat \<Rightarrow> nat \<Rightarrow> bool \<Rightarrow> int io" where
  "StreamPCM_setDeviceMute s dir state = do {
     upd_str s (if dir = PAL_AUDIO_OUTPUT then deviceMuteStateRx_update (\<lambda>_. state)
                else deviceMuteStateTx_update (\<lambda>_. state));
     return 0
   }"

definition StreamPCM_getDeviceMute :: "nat \<Rightarrow> nat \<Rightarrow> bool \<Rightarrow> (int \<times> bool option) io" where
  "StreamPCM_getDeviceMute s dir has_state = do {
     x \<leftarrow> str s (\<lambda>x. if dir = PAL_AUDIO_OUTPUT then deviceMuteStateRx x else deviceMuteStateTx x);
     return (if has_state then (0, Some x) else (- EINVAL, None))
   }"

definition StreamPCM_setParameters :: "env \<Rightarrow> nat \<Rightarrow> nat \<Rightarrow> bool \<Rightarrow> int io" where
  "StreamPCM_setParameters E s param_id payload =
     (if \<not> payload then return (- EINVAL)
      else do {
        lock (StreamMutex s);
        st \<leftarrow> str s currentState;
        if st = STREAM_IDLE then do { unlock (StreamMutex s); return (- EINVAL) }
        else do {
          sess \<leftarrow> str s session;
          r \<leftarrow> (if sess then call E (Sess s (SSetParameters param_id)) else return (- EINVAL));
          unlock (StreamMutex s);
          return r
        }
      })"

text \<open>The rates, channel counts and widths are constants of the generated header
  \<^verbatim>\<open>kvh2xml.h\<close>; \<^verbatim>\<open>StreamInCall.cpp\<close> has the same ones as macros.\<close>

definition StreamPCM_isSampleRateSupported :: "nat \<Rightarrow> int" where
  "StreamPCM_isSampleRateSupported sampleRate =
     (if sampleRate \<in> {8000, 16000, 22050, 32000, 44100, 48000, 96000, 192000, 384000} then 0 else 0)"

definition StreamPCM_isChannelSupported :: "nat \<Rightarrow> int" where
  "StreamPCM_isChannelSupported numChannels =
     (if numChannels \<in> {1, 2, 3, 4, 5, 6, 7, 8, 10, 12, 14, 16} then 0 else - EINVAL)"

definition StreamPCM_isBitWidthSupported :: "nat \<Rightarrow> int" where
  "StreamPCM_isBitWidthSupported bitWidth = (if bitWidth \<in> {16, 24, 32} then 0 else - EINVAL)"

definition StreamPCM_addRemoveEffect :: "env \<Rightarrow> nat \<Rightarrow> nat \<Rightarrow> bool \<Rightarrow> int io" where
  "StreamPCM_addRemoveEffect E s effect enable = do {
     lock (StreamMutex s);
     r \<leftarrow> call E (Sess s (SAddRemoveEffect effect enable));
     unlock (StreamMutex s);
     return r
   }"

definition StreamPCM_setECRef_l :: "env \<Rightarrow> nat \<Rightarrow> nat \<Rightarrow> bool \<Rightarrow> int io" where
  "StreamPCM_setECRef_l E s d is_enable = do {
     sess \<leftarrow> str s session;
     if \<not> sess then return (- EINVAL) else call E (Sess s (SSetECRef d is_enable))
   }"

definition StreamPCM_setECRef :: "env \<Rightarrow> nat \<Rightarrow> nat \<Rightarrow> bool \<Rightarrow> int io" where
  "StreamPCM_setECRef E s d is_enable = do {
     lock (StreamMutex s);
     r \<leftarrow> StreamPCM_setECRef_l E s d is_enable;
     unlock (StreamMutex s);
     return r
   }"

section \<open>Pause, resume, flush\<close>

definition StreamPCM_pause_l :: "env \<Rightarrow> nat \<Rightarrow> int io" where
  "StreamPCM_pause_l E s = do {
     lock PauseMutex;
     card \<leftarrow> call E GetSoundCardState;
     r \<leftarrow> (if PAL_CARD_STATUS_DOWN card then do {
            upd_str s (\<lambda>x. x\<lparr>cachedState := STREAM_PAUSED, isPaused := True\<rparr>);
            return 0
          }
          else do {
            paused \<leftarrow> str s isPaused;
            if paused then return 0 else call E (Sess s SPause)
          });
     when_io (r = 0) (upd_str s (\<lambda>x. x\<lparr>isPaused := True, currentState := STREAM_PAUSED\<rparr>));
     unlock PauseMutex;
     return r
   }"

definition StreamPCM_pause :: "env \<Rightarrow> nat \<Rightarrow> int io" where
  "StreamPCM_pause E s = do {
     lock (StreamMutex s);
     r \<leftarrow> StreamPCM_pause_l E s;
     unlock (StreamMutex s);
     return r
   }"

text \<open>Resuming sets the volume again, through a copy of the cached one.\<close>

definition resume_volume :: "env \<Rightarrow> nat \<Rightarrow> int io" where
  "resume_volume E s = do {
     v \<leftarrow> str s mVolumeData;
     fails \<leftarrow> (case v of None \<Rightarrow> return 1 | Some v \<Rightarrow> call E (AllocFails (4 + 8 * no_of_volpair v)));
     if fails \<noteq> 0 then return (- ENOMEM)
     else do {
       (r, v) \<leftarrow> str s (Stream_getVolumeData True);
       if r \<noteq> 0 then return r
       else do { StreamPCM_setVolume E s v; return 0 }
     }
   }"

definition StreamPCM_resume_l :: "env \<Rightarrow> nat \<Rightarrow> int io" where
  "StreamPCM_resume_l E s = do {
     card \<leftarrow> call E GetSoundCardState;
     if PAL_CARD_STATUS_DOWN card then do {
       upd_str s (cachedState_update (\<lambda>_. STREAM_STARTED));
       return 0
     }
     else do {
       r \<leftarrow> call E (Sess s SResume);
       if r \<noteq> 0 then return r
       else do {
         upd_str s (isPaused_update (\<lambda>_. False));
         resume_volume E s
       }
     }
   }"

definition StreamPCM_resume :: "env \<Rightarrow> nat \<Rightarrow> int io" where
  "StreamPCM_resume E s = do {
     lock (StreamMutex s);
     r \<leftarrow> StreamPCM_resume_l E s;
     unlock (StreamMutex s);
     return r
   }"

definition StreamPCM_flush :: "env \<Rightarrow> nat \<Rightarrow> int io" where
  "StreamPCM_flush E s = do {
     lock (StreamMutex s);
     x \<leftarrow> str s (\<lambda>x. x);
     t \<leftarrow> gets (\<lambda>w. stream_type w s);
     r \<leftarrow> (if \<not> isPaused x then return 0
          else if t \<noteq> PAL_STREAM_PCM_OFFLOAD \<and> t \<noteq> PAL_STREAM_PLAYBACK_BUS \<and> t \<noteq> PAL_STREAM_DEEP_BUFFER
          then return 0
          else if currentState x = STREAM_STOPPED \<or> currentState x = STREAM_IDLE then return 0
          else call E (Sess s SFlush));
     unlock (StreamMutex s);
     return r
   }"

section \<open>Sound card restarts\<close>

text \<open>Both handlers run with the active stream lock held and give it up around calls that take
  it.\<close>

definition ssr_close :: "env \<Rightarrow> dev_vt \<Rightarrow> nat \<Rightarrow> stream_state_t \<Rightarrow> int io" where
  "ssr_close E D s st =
     (if st = STREAM_INIT \<or> st = STREAM_STOPPED then StreamPCM_close E D s
      else if st = STREAM_STARTED \<or> st = STREAM_PAUSED then do {
        unlock ActiveStreamMutex;
        StreamPCM_stop E D s;
        r \<leftarrow> StreamPCM_close E D s;
        lock ActiveStreamMutex;
        return r
      }
      else return 0)"

definition StreamPCM_ssrDownHandler :: "env \<Rightarrow> dev_vt \<Rightarrow> nat \<Rightarrow> int io" where
  "StreamPCM_ssrDownHandler E D s = do {
     lock (StreamMutex s);
     feasible \<leftarrow> Stream_isStreamSSRDownFeasibile E s;
     if \<not> feasible then do { unlock (StreamMutex s); return 0 }
     else do {
       upd_str s (\<lambda>x. if cachedState x = STREAM_IDLE then x\<lparr>cachedState := currentState x\<rparr> else x);
       st \<leftarrow> str s currentState;
       unlock (StreamMutex s);
       r \<leftarrow> ssr_close E D s st;
       upd_str s (currentState_update (\<lambda>_. STREAM_IDLE));
       return r
     }
   }"

definition ssr_open_start :: "env \<Rightarrow> dev_vt \<Rightarrow> nat \<Rightarrow> int io" where
  "ssr_open_start E D s = do {
     r \<leftarrow> StreamPCM_open E D s;
     if r \<noteq> 0 then return r
     else do {
       unlock ActiveStreamMutex;
       r \<leftarrow> StreamPCM_start E D s;
       lock ActiveStreamMutex;
       return r
     }
   }"

definition ssr_restore :: "env \<Rightarrow> dev_vt \<Rightarrow> nat \<Rightarrow> stream_state_t \<Rightarrow> int io" where
  "ssr_restore E D s cached =
     (if cached = STREAM_INIT then StreamPCM_open E D s
      else if cached = STREAM_STARTED then ssr_open_start E D s
      else if cached = STREAM_PAUSED then do {
        r \<leftarrow> ssr_open_start E D s;
        st \<leftarrow> str s currentState;
        if r \<noteq> 0 \<or> st \<noteq> STREAM_STARTED then return r else StreamPCM_pause E s
      }
      else return 0)"

definition StreamPCM_ssrUpHandler :: "env \<Rightarrow> dev_vt \<Rightarrow> nat \<Rightarrow> int io" where
  "StreamPCM_ssrUpHandler E D s = do {
     lock (StreamMutex s);
     skip \<leftarrow> str s skipSSRHandling;
     if skip then do {
       upd_str s (skipSSRHandling_update (\<lambda>_. False));
       unlock (StreamMutex s);
       return 0
     }
     else do {
       cached \<leftarrow> str s cachedState;
       unlock (StreamMutex s);
       r \<leftarrow> ssr_restore E D s cached;
       upd_str s (cachedState_update (\<lambda>_. STREAM_IDLE));
       return r
     }
   }"

section \<open>Memory mapped streams\<close>

text \<open>The devices started before the map is created; a failure of the only device is
  \<open>Some\<close> status, the flag is whether the last one started.\<close>

fun mmap_start :: "dev_vt \<Rightarrow> nat \<Rightarrow> bool \<Rightarrow> nat list \<Rightarrow> (int option \<times> bool) io" where
  "mmap_start D n btDevStarted [] = return (None, btDevStarted)"
| "mmap_start D n btDevStarted (d # ds) = do {
     i \<leftarrow> Device_getSndDeviceId d;
     if isBtDevice i \<or> i = PAL_DEVICE_OUT_SPEAKER then do {
       r \<leftarrow> vt_start D d;
       if r \<noteq> 0 \<and> n = 1 then return (Some r, False) else mmap_start D n (r = 0) ds
     }
     else mmap_start D n btDevStarted ds
   }"

definition StreamPCM_createMmapBuffer :: "env \<Rightarrow> dev_vt \<Rightarrow> nat \<Rightarrow> int \<Rightarrow> int io" where
  "StreamPCM_createMmapBuffer E D s min_size_frames = do {
     lock (StreamMutex s);
     st \<leftarrow> str s currentState;
     r \<leftarrow> (if st = STREAM_INIT then do {
            lock GraphMutex;
            ds \<leftarrow> str s mDevices;
            (failed, btDevStarted) \<leftarrow> mmap_start D (length ds) False ds;
            r \<leftarrow> (case failed of
                   Some r \<Rightarrow> return r
                 | None \<Rightarrow> do {
                     r \<leftarrow> call E (Sess s (SCreateMmapBuffer min_size_frames));
                     if r \<noteq> 0
                     then do {
                       for_each ds (\<lambda>d. do {
                         i \<leftarrow> Device_getSndDeviceId d;
                         when_io (isBtDevice i \<and> btDevStarted) (do { vt_stop D d; return () })
                       });
                       return r
                     }
                     else do { upd_str s (isMMap_update (\<lambda>_. True)); return 0 }
                   });
            unlock GraphMutex;
            return r
          }
          else return (- EINVAL));
     unlock (StreamMutex s);
     return r
   }"

definition StreamPCM_GetMmapPosition :: "env \<Rightarrow> nat \<Rightarrow> int io" where
  "StreamPCM_GetMmapPosition E s = call E (Sess s SGetMmapPosition)"

section \<open>Construction and destruction\<close>

text \<open>
  A constructor's result is whether the object is initialised, \<open>None\<close> if an exception leaves it.
  \<^verbatim>\<open>updateDeviceConfig\<close> and \<^verbatim>\<open>restoreDevice\<close>, which switch other streams, and \<^verbatim>\<open>makeSession\<close> are
  events.
\<close>

definition unity_volume :: pal_volume_data where
  "unity_volume = \<lparr>no_of_volpair = 1, volume_pair = [\<lparr>channel_mask = 3, vol = 1\<rparr>]\<rparr>"

definition clamp_channels :: "pal_stream_attributes \<Rightarrow> pal_stream_attributes" where
  "clamp_channels a =
     a\<lparr>in_media_config := (in_media_config a)\<lparr>channels := min 64 (channels (in_media_config a))\<rparr>,
       out_media_config := (out_media_config a)\<lparr>channels := min 64 (channels (out_media_config a))\<rparr>\<rparr>"

definition combo_device :: "pal_device \<Rightarrow> bool" where
  "combo_device a \<longleftrightarrow> dev_id a = PAL_DEVICE_OUT_SPEAKER \<or> dev_id a = PAL_DEVICE_OUT_WIRED_HEADSET \<or>
     dev_id a = PAL_DEVICE_OUT_WIRED_HEADPHONE"

definition new_failed :: "nat \<Rightarrow> bool \<Rightarrow> unit io" where
  "new_failed s str_registered = do {
     when_io str_registered (do {
       unlock (StreamMutex s);
       RM_deregisterStream s;
       ps \<leftarrow> str s mPalDevices;
       for_each ps (\<lambda>d. Device_removeStreamDeviceAttr d s);
       lock (StreamMutex s)
     });
     upd_str s (\<lambda>x. x\<lparr>mStreamAttr := None, mVolumeData := None, session := False\<rparr>);
     tell (Sess s SDelete)
   }"

fun new_devices :: "env \<Rightarrow> nat \<Rightarrow> bool \<Rightarrow> pal_device list \<Rightarrow> bool option io" where
  "new_devices E s str_registered [] = return (Some True)"
| "new_devices E s str_registered (a # as) = do {
     inst \<leftarrow> Device_getInstance E a;
     case inst of
       None \<Rightarrow> do { new_failed s str_registered; return (Some False) }
     | Some d \<Rightarrow> do {
         r \<leftarrow> Device_insertStreamDeviceAttr E d (Some a) (Some s);
         case r of
           None \<Rightarrow> return None
         | Some _ \<Rightarrow> do {
             upd_str s (mPalDevices_update (\<lambda>ds. ds @ [d]));
             unlock (StreamMutex s);
             when_io (\<not> str_registered) (do { RM_registerStream s; return () });
             tell (UpdateDeviceConfig d);
             lock (StreamMutex s);
             when_io (dev_id a = PAL_DEVICE_IN_RECORD_PROXY)
               (upd_rm (isProxyRecordActive_update (\<lambda>_. True)));
             upd_str s (mDevices_update (\<lambda>ds. ds @ [d]));
             new_devices E s True as
           }
       }
   }"

definition new_attributes :: "env \<Rightarrow> nat \<Rightarrow> pal_stream_attributes \<Rightarrow> pal_device list \<Rightarrow> bool option io" where
  "new_attributes E s sattr dattr = do {
     fails \<leftarrow> call E (AllocFails 12);
     if fails \<noteq> 0 then return (Some False)
     else do {
       upd_str s (mVolumeData_update (\<lambda>_. Some unity_volume));
       fails \<leftarrow> call E (AllocFails 0);
       if fails \<noteq> 0 then do { upd_str s (mVolumeData_update (\<lambda>_. None)); return (Some False) }
       else do {
         upd_str s (mStreamAttr_update (\<lambda>_. Some (clamp_channels sattr)));
         fails \<leftarrow> call E (MakeSession (stype sattr));
         if fails \<noteq> 0 then do {
           upd_str s (\<lambda>x. x\<lparr>mVolumeData := None, mStreamAttr := None\<rparr>);
           return (Some False)
         }
         else do {
           upd_str s (session_update (\<lambda>_. True));
           when_io (length dattr > 1) (for_each dattr (\<lambda>a.
             upd_str s (isComboHeadsetActive_update (\<lambda>_. combo_device a))));
           new_devices E s False dattr
         }
       }
     }
   }"

definition StreamPCM_new :: "env \<Rightarrow> nat \<Rightarrow> pal_stream_attributes option \<Rightarrow> pal_device list option \<Rightarrow> bool option io" where
  "StreamPCM_new E s sattr dattr = do {
     base \<leftarrow> Stream_new E s;
     if base = None then return None
     else do {
       lock (StreamMutex s);
       upd_str s (\<lambda>x. x\<lparr>session := False, mGainLevel := - 1, mStreamAttr := None, mDevices := [],
         currentState := STREAM_IDLE, cachedState := STREAM_IDLE\<rparr>);
       r \<leftarrow> (case (sattr, dattr) of
              (Some sa, Some da) \<Rightarrow> new_attributes E s sa da
            | _ \<Rightarrow> return (Some False));
       case r of
         None \<Rightarrow> return None
       | Some ok \<Rightarrow> do {
           when_io ok (upd_str s (mInitialized_update (\<lambda>_. True)));
           unlock (StreamMutex s);
           return (Some ok)
         }
     }
   }"

definition StreamPCM_delete :: "nat \<Rightarrow> unit io" where
  "StreamPCM_delete s = do {
     upd_str s (cachedState_update (\<lambda>_. STREAM_IDLE));
     upd_rm (isProxyRecordActive_update (\<lambda>_. False));
     tell (ResetStreamInstanceID s);
     RM_deregisterStream s;
     ps \<leftarrow> str s mPalDevices;
     for_each ps (\<lambda>d. Device_removeStreamDeviceAttr d s);
     ds \<leftarrow> str s mDevices;
     for_each ds (\<lambda>d. tell (RestoreDevice d));
     Stream_delete s
   }"

definition CreatePCMStream :: "env \<Rightarrow> nat \<Rightarrow> pal_stream_attributes option \<Rightarrow> pal_device list option \<Rightarrow> bool option io" where
  "CreatePCMStream E s sattr dattr = do {
     r \<leftarrow> StreamPCM_new E s sattr dattr;
     case r of
       None \<Rightarrow> return None
     | Some _ \<Rightarrow> do {
         ok \<leftarrow> str s mInitialized;
         when_io (\<not> ok) (StreamPCM_delete s);
         return (Some ok)
       }
   }"

section \<open>The calls of a client\<close>

text \<open>What a client may call on an open stream, as data, so that sequences of calls can be
  quantified over.\<close>

datatype pcm_op =
  Open | Close | Start | Stop | Pause | Resume | Flush | Mute bool | Read nat | Write nat
| SetVolume "pal_volume_data option" | SetParameters nat bool | AddRemoveEffect nat bool
| SetECRef nat bool | CreateMmapBuffer int | GetTimestamp bool
| ConnectDevice "pal_device option" | DisconnectDevice nat

fun pcm_run :: "env \<Rightarrow> dev_vt \<Rightarrow> nat \<Rightarrow> pcm_op \<Rightarrow> int io" where
  "pcm_run E D s Open = StreamPCM_open E D s"
| "pcm_run E D s Close = StreamPCM_close E D s"
| "pcm_run E D s Start = StreamPCM_start E D s"
| "pcm_run E D s Stop = StreamPCM_stop E D s"
| "pcm_run E D s Pause = StreamPCM_pause E s"
| "pcm_run E D s Resume = StreamPCM_resume E s"
| "pcm_run E D s Flush = StreamPCM_flush E s"
| "pcm_run E D s (Mute b) = StreamPCM_mute E s b"
| "pcm_run E D s (Read n) = StreamPCM_read E s n"
| "pcm_run E D s (Write n) = StreamPCM_write E s n"
| "pcm_run E D s (SetVolume v) = StreamPCM_setVolume E s v"
| "pcm_run E D s (SetParameters p b) = StreamPCM_setParameters E s p b"
| "pcm_run E D s (AddRemoveEffect e b) = StreamPCM_addRemoveEffect E s e b"
| "pcm_run E D s (SetECRef d b) = StreamPCM_setECRef E s d b"
| "pcm_run E D s (CreateMmapBuffer n) = StreamPCM_createMmapBuffer E D s n"
| "pcm_run E D s (GetTimestamp b) = Stream_getTimestamp E s b"
| "pcm_run E D s (ConnectDevice a) = Stream_connectStreamDevice E D s a"
| "pcm_run E D s (DisconnectDevice i) = Stream_disconnectStreamDevice E D s i"

end
