(* ===== verification/Pal_Demo.thy ===== *)
theory Pal_Demo
  imports Stream_PCM
begin

text \<open>
  Worked examples shared by the theories below: a playback stream on the speaker, on a platform
  where every call succeeds, and the definitions that evaluate its operations.
\<close>

lemma demo_ans [simp]:
  "ans demo_env l c = (case c of GetSoundCardState \<Rightarrow> 1 | MixerGetCtl n \<Rightarrow> 1 | _ \<Rightarrow> 0)"
  by (simp add: demo_env_def)

lemmas demo_world_defs = demo_world_def demo_stream_def demo_attrs_def demo_rm_def demo_attr_def
  demo_config_def new_Device_def

lemmas device_eval = Device_vt_def Device_open_def Device_first_open_def Device_getInstance_def
  Device_setMediaConfig_def getBeMixerControl_def Device_close_def Device_start_def Device_start_l_def
  Device_first_start_def Device_stop_def Device_stop_l_def Device_getSndDeviceId_def
  getPALDeviceName_def getBackendName_def getSndDeviceName_def isValidDevId_def sndId_def strlcpy_def

lemmas start_eval = StreamPCM_start_def start_by_direction_def start_output_def start_bt_fallback_def
  BTUtilsDeviceNotReady_def bt_sco_fallback_def on_device_def on_a2dp_def start_output_devices_def
  start_session_def start_register_def RM_registerDevice_def RM_registerDevice_l_def

lemmas pcm_eval = StreamPCM_open_def open_bt_check_def open_idle_def StreamPCM_direction_def
  mmap_skips_def isBtDevice_def isBtA2dpDevice_def isBtScoDevice_def PAL_CARD_STATUS_DOWN_def
  PAL_CARD_STATUS_UP_def

definition demo_opened :: "nat list \<Rightarrow> nat \<Rightarrow> world" where
  "demo_opened ds dir = snd (run_state (StreamPCM_open demo_env (Device_vt demo_env) 5) (demo_world ds dir))"

lemma demo_open_run:
  "run_state (StreamPCM_open demo_env (Device_vt demo_env) 5) (demo_world [3] 1) = (0, demo_opened [3] 1)"
  by (simp add: demo_opened_def pcm_eval device_eval demo_world_defs)

definition demo_started :: "nat list \<Rightarrow> nat \<Rightarrow> world" where
  "demo_started ds dir = snd (run_state (StreamPCM_start demo_env (Device_vt demo_env) 5) (demo_opened ds dir))"

lemma demo_start_run:
  "run_state (StreamPCM_start demo_env (Device_vt demo_env) 5) (demo_opened [3] 1) = (0, demo_started [3] 1)"
  by (simp add: demo_started_def demo_opened_def start_eval pcm_eval device_eval demo_world_defs)

lemma demo_states:
  "currentState (wstr (demo_opened [3] 1) 5) = STREAM_INIT"
  "currentState (wstr (demo_started [3] 1) 5) = STREAM_STARTED"
  "active_devices (wrm (demo_opened [3] 1)) = []"
  by (simp_all add: demo_started_def demo_opened_def start_eval pcm_eval device_eval demo_world_defs)

end
