(* ===== verification/PCM_Locks.thy ===== *)
theory PCM_Locks
  imports Pal_Demo
begin

text \<open>
  The lock discipline of \<^verbatim>\<open>StreamPCM\<close>: every call of a client takes its mutexes in the order
  of \<open>lock_rank\<close>, never twice, and returns without holding any, whatever the session, the
  mixer and the sound card answer.  The one exception is the Bluetooth fallback of start,
  which asks for the active stream lock while the stream's own mutex is held.
\<close>

section \<open>Locks of the parts\<close>

lemma lk_run_on [lk_rules]:
  "(\<And>x. x \<in> set xs \<Longrightarrow> lk H (f x) H) \<Longrightarrow> H' = H \<Longrightarrow> lk H (run_on st xs f) H'"
  by (induction xs arbitrary: st)
     (auto intro!: lk_bind lk_if lk_option lk_return simp del: if_split)

lemma lk_on_side [lk_rules]: "(\<And>d. lk H (f d) H) \<Longrightarrow> H' = H \<Longrightarrow> lk H (on_side side f d) H'"
  unfolding on_side_def by (rule lk_rules | rule refl | assumption | simp add: not_lock_def)+

lemma lk_pcm_small [lk_rules]:
  "H' = H \<Longrightarrow> lk H (StreamPCM_direction s) H'" "H' = H \<Longrightarrow> lk H (mmap_skips s d) H'"
  "H' = H \<Longrightarrow> lk H (open_bt_check E ds) H'" "H' = H \<Longrightarrow> lk H (inform_rm E) H'"
  "H' = H \<Longrightarrow> lk H (transfer_failed E n st) H'" "H' = H \<Longrightarrow> lk H (card_down_or E b) H'"
  unfolding StreamPCM_direction_def mmap_skips_def open_bt_check_def inform_rm_def transfer_failed_def
    card_down_or_def
  by (rule lk_rules | rule refl | simp add: not_lock_def)+

lemma lk_mute_l [lk_rules]: "H' = H \<Longrightarrow> lk H (StreamPCM_mute_l E s b) H'"
  unfolding StreamPCM_mute_l_def by (rule lk_rules | rule refl | simp add: not_lock_def)+

lemma lk_push_volume [lk_rules]: "H' = H \<Longrightarrow> lk H (push_volume E s v) H'"
  unfolding push_volume_def by (rule lk_rules | rule refl | simp add: not_lock_def)+

lemma lk_setVolume [lk_rules]: "H' = H \<Longrightarrow> lk H (StreamPCM_setVolume E s v) H'"
  unfolding StreamPCM_setVolume_def apply_volume_def by (rule lk_rules | rule refl | simp add: not_lock_def)+

lemma lk_resume_volume [lk_rules]: "H' = H \<Longrightarrow> lk H (resume_volume E s) H'"
  unfolding resume_volume_def by (rule lk_rules | rule refl | simp add: not_lock_def)+

lemma lk_drop_buffer [lk_rules]: "lk H pre H \<Longrightarrow> H' = H \<Longrightarrow> lk H (drop_buffer c n pre) H'"
  unfolding drop_buffer_def by (rule lk_rules | rule refl | assumption | simp add: not_lock_def)+

lemma lk_write_resumes [lk_rules]: "H = [] \<Longrightarrow> H' = H \<Longrightarrow> lk H (write_resumes s) H'"
  unfolding write_resumes_def by (rule lk_rules | rule refl | simp add: not_lock_def)+

lemma lk_start_register [lk_rules]:
  "H = [StreamMutex s] \<Longrightarrow> H' = H \<Longrightarrow> lk H (start_register s) H'"
  unfolding start_register_def by (rule lk_rules | rule refl | simp add: not_lock_def)+

lemma lk_pause [lk_rules]: "H = [] \<or> H = [ActiveStreamMutex] \<Longrightarrow> H' = H \<Longrightarrow> lk H (StreamPCM_pause E s) H'"
  unfolding StreamPCM_pause_def StreamPCM_pause_l_def
  by (elim disjE; simp only:)
     (rule lk_rules | rule refl | simp add: not_lock_def)+

lemma lk_pcm_simple_ops [lk_rules]:
  "lk [] (StreamPCM_resume E s) []" "lk [] (StreamPCM_flush E s) []" "lk [] (StreamPCM_mute E s b) []"
  "lk [] (StreamPCM_read E s n) []" "lk [] (StreamPCM_write E s n) []"
  "lk [] (StreamPCM_setParameters E s p b) []" "lk [] (StreamPCM_addRemoveEffect E s e b) []"
  "lk [] (StreamPCM_setECRef E s d b) []"
  unfolding StreamPCM_resume_def StreamPCM_resume_l_def StreamPCM_flush_def StreamPCM_mute_def
    StreamPCM_read_def StreamPCM_write_def StreamPCM_setParameters_def StreamPCM_addRemoveEffect_def
    StreamPCM_setECRef_def StreamPCM_setECRef_l_def
  by (rule lk_rules | rule refl | simp add: not_lock_def)+

section \<open>Open, stop and close\<close>

text \<open>The handlers of a card restart call open and close with the active stream lock held; stop
  takes that lock itself.\<close>

abbreviation (input) outer :: "lock_id list \<Rightarrow> bool" where
  "outer H \<equiv> H = [] \<or> H = [ActiveStreamMutex]"

context locking_device
begin

lemma lk_open: "outer H \<Longrightarrow> H' = H \<Longrightarrow> lk H (StreamPCM_open E D s) H'"
  unfolding StreamPCM_open_def open_idle_def
  by (elim disjE; simp only:)
     (rule lk_vt lk_rules | rule refl | simp add: not_lock_def)+

lemma lk_stop_by_direction:
  "H = [StreamMutex s] \<Longrightarrow> H' = H \<Longrightarrow> lk H (stop_by_direction E D s ds) H'"
  unfolding stop_by_direction_def stop_output_def stop_input_def stop_loopback_def
  by (rule lk_vt lk_rules | rule refl | simp add: not_lock_def)+

lemma lk_stop: "H = [] \<Longrightarrow> H' = H \<Longrightarrow> lk H (StreamPCM_stop E D s) H'"
  unfolding StreamPCM_stop_def
  by (rule lk_stop_by_direction lk_vt lk_rules | rule refl | simp add: not_lock_def)+

lemma lk_close: "H = [] \<Longrightarrow> H' = H \<Longrightarrow> lk H (StreamPCM_close E D s) H'"
  unfolding StreamPCM_close_def close_stop_def
  by (rule lk_stop lk_vt lk_rules | rule refl | simp add: not_lock_def)+

lemma lk_mmap_start:
  "\<forall>k\<in>set H. lock_rank k < 5 \<Longrightarrow> H' = H \<Longrightarrow> lk H (mmap_start D n b ds) H'"
  by (induction ds arbitrary: b)
     (auto intro!: lk_rules lk_vt simp del: if_split)

lemma lk_createMmapBuffer: "H = [] \<Longrightarrow> H' = H \<Longrightarrow> lk H (StreamPCM_createMmapBuffer E D s n) H'"
  unfolding StreamPCM_createMmapBuffer_def
  by (rule lk_mmap_start lk_vt lk_rules | rule refl | simp add: not_lock_def)+

lemma lk_stop_all:
  "\<forall>k\<in>set H. lock_rank k < 5 \<Longrightarrow> H' = H \<Longrightarrow> lk H (stop_all D st ds) H'"
  by (induction ds arbitrary: st) (auto intro!: lk_bind lk_return lk_vt)

lemma lk_session_fail:
  "H = [GraphMutex, StreamMutex s] \<Longrightarrow> H' = [StreamMutex s] \<Longrightarrow> lk H (session_fail D s st) H'"
  unfolding session_fail_def
  by (rule lk_stop_all lk_rules | rule refl | simp add: not_lock_def)+

lemma lk_start_session:
  "H = [GraphMutex, StreamMutex s] \<Longrightarrow> H' = [StreamMutex s] \<Longrightarrow> lk H (start_session E D s) H'"
  unfolding start_session_def
  by (rule lk_session_fail lk_rules | rule refl | simp add: not_lock_def)+

lemma lk_start_rx:
  "\<forall>k\<in>set H. lock_rank k < 5 \<Longrightarrow> H' = H \<Longrightarrow> lk H (start_rx E D s pre ds st cs) H'"
  by (induction ds arbitrary: pre st cs)
     (auto intro!: lk_bind lk_if lk_return lk_vt lk_call lk_upd lk_pcm_small
        simp: not_lock_def simp del: if_split)

lemma lk_start_output_devices:
  "H = [StreamMutex s] \<Longrightarrow> H' = H \<Longrightarrow> lk H (start_output_devices E D s) H'"
  unfolding start_output_devices_def
  by (rule lk_start_rx lk_start_session lk_rules | rule refl | simp add: not_lock_def)+

lemma lk_start_input: "H = [StreamMutex s] \<Longrightarrow> H' = H \<Longrightarrow> lk H (start_input E D s) H'"
  unfolding start_input_def
  by (rule lk_start_session lk_vt lk_rules | rule refl | simp add: not_lock_def)+

lemma lk_start_loopback: "H = [StreamMutex s] \<Longrightarrow> H' = H \<Longrightarrow> lk H (start_loopback E D s) H'"
  unfolding start_loopback_def
  by (rule lk_start_session lk_vt lk_rules | rule refl | simp add: not_lock_def)+

lemma lk_mute_suspended: "H' = H \<Longrightarrow> lk H (mute_suspended E s) H'"
  unfolding mute_suspended_def by (rule lk_rules | rule refl | simp add: not_lock_def)+

end

section \<open>Start\<close>

text \<open>A stream that plays on no Bluetooth device; other directions have no fallback.\<close>

definition bt_free :: "nat \<Rightarrow> world \<Rightarrow> bool" where
  "bt_free s w \<longleftrightarrow>
     (case mStreamAttr (wstr w s) of None \<Rightarrow> True | Some a \<Rightarrow> direction a \<noteq> PAL_AUDIO_OUTPUT) \<or>
     (\<forall>d\<in>set (mDevices (wstr w s)). \<not> isBtDevice (sndId w d))"

lemma bt_free_log [simp]: "bt_free s (w\<lparr>wlog := l\<rparr>) = bt_free s w"
  by (simp add: bt_free_def sndId_def)

lemma bt_fallback_idle:
  assumes "\<forall>d\<in>set (mDevices (wstr w s)). \<not> isBtDevice (sndId w d)"
  shows "snd (run_state (start_bt_fallback E D s) w) = w"
  using assms
  by (auto simp: start_bt_fallback_def BTUtilsDeviceNotReadyToDummy_def BTUtilsDeviceNotReady_def
      bt_sco_fallback_def on_device_def on_a2dp_def isBtDevice_def isBtA2dpDevice_def isBtScoDevice_def
      split: option.splits)

text \<open>Lock triples with a side condition on the world.\<close>

definition lkp :: "(world \<Rightarrow> bool) \<Rightarrow> lock_id list \<Rightarrow> 'a io \<Rightarrow> lock_id list \<Rightarrow> bool" where
  "lkp P H m H' \<longleftrightarrow> valid (\<lambda>w. P w \<and> held (wlog w) = Some H) m (\<lambda>_ w. held (wlog w) = Some H')"

lemma lkp_bind:
  assumes "lk H m K" "keeps P m" "\<And>r. lkp P K (f r) H'"
  shows "lkp P H (State_Monad.bind m f) H'"
  unfolding lkp_def
proof (rule valid_bind)
  show "valid (\<lambda>w. P w \<and> held (wlog w) = Some H) m (\<lambda>_ w. P w \<and> held (wlog w) = Some K)"
    using assms(1,2) by (auto simp: lk_def keeps_def valid_def)
  show "valid (\<lambda>w. P w \<and> held (wlog w) = Some K) (f r) (\<lambda>_ w. held (wlog w) = Some H')" for r
    using assms(3) by (simp add: lkp_def)
qed

lemma lkp_last:
  assumes "lkp P H m K" "\<And>r. lk K (f r) H'"
  shows "lkp P H (State_Monad.bind m f) H'"
  using assms unfolding lkp_def lk_def by (rule valid_bind)

lemma lkp_if:
  assumes "b \<Longrightarrow> lkp P H m H'" "\<not> b \<Longrightarrow> lkp P H n H'"
  shows "lkp P H (if b then m else n) H'"
  using assms by simp

lemma lkp_lk: "lk H m H' \<Longrightarrow> lkp P H m H'"
  by (auto simp: lkp_def lk_def valid_def)

context locking_device
begin

lemma lkp_start_output:
  "lkp (\<lambda>w. \<forall>d\<in>set (mDevices (wstr w s)). \<not> isBtDevice (sndId w d)) [StreamMutex s]
     (start_output E D s) [StreamMutex s]"
  unfolding start_output_def
proof (rule lkp_last)
  show "lkp (\<lambda>w. \<forall>d\<in>set (mDevices (wstr w s)). \<not> isBtDevice (sndId w d)) [StreamMutex s]
     (start_bt_fallback E D s) [StreamMutex s]"
    by (auto simp: lkp_def valid_def bt_fallback_idle)
next
  fix p :: "int \<times> bool"
  show "lk [StreamMutex s] (case p of (r, a2dpSuspend) \<Rightarrow>
      if r \<noteq> 0 then return (False, r)
      else do { (go, r) \<leftarrow> start_output_devices E D s;
                when_io (go \<and> a2dpSuspend) (mute_suspended E s); return (go, r) }) [StreamMutex s]"
    by (rule lk_start_output_devices lk_mute_suspended lk_rules | rule refl | simp)+
qed

lemma lkp_start_by_direction:
  "lkp (bt_free s) [StreamMutex s] (start_by_direction E D s) [StreamMutex s]"
  unfolding lkp_def
proof (rule validI)
  fix w p w'
  assume pre: "bt_free s w \<and> held (wlog w) = Some [StreamMutex s]"
    and run: "run_state (start_by_direction E D s) w = (p, w')"
  show "held (wlog w') = Some [StreamMutex s]"
  proof (cases "\<exists>a. mStreamAttr (wstr w s) = Some a \<and> direction a = PAL_AUDIO_OUTPUT")
    case True
    then have "run_state (start_output E D s) w = (p, w')"
      using run by (auto simp: start_by_direction_def StreamPCM_direction_def)
    moreover have "\<forall>d\<in>set (mDevices (wstr w s)). \<not> isBtDevice (sndId w d)"
      using True pre by (auto simp: bt_free_def)
    ultimately show ?thesis
      using lkp_start_output [of s E] pre unfolding lkp_def by (auto dest: validD)
  next
    case False
    then show ?thesis
      using run pre lkD [OF lk_start_input [OF refl refl], of w s E]
        lkD [OF lk_start_loopback [OF refl refl], of w s E]
      by (auto simp: start_by_direction_def StreamPCM_direction_def split: option.splits if_splits)
  qed
qed

lemma lkp_start_body:
  "lkp (bt_free s) [StreamMutex s]
     (do { (go, r) \<leftarrow> start_by_direction E D s; when_io go (start_register s); return r }) [StreamMutex s]"
  by (rule lkp_last [OF lkp_start_by_direction]) (rule lk_rules | rule refl | simp)+

lemma lkp_start: "lkp (bt_free s) [] (StreamPCM_start E D s) []"
  unfolding StreamPCM_start_def
  apply (rule lkp_bind [where K = "[StreamMutex s]"])
    apply (rule lk_rules; simp)
   apply (rule kp_rules; simp)
  apply (rule lkp_bind [where K = "[StreamMutex s]"])
    apply (rule lk_rules; simp add: not_lock_def)
   apply (rule kp_rules; simp)
  apply (rule lkp_last [where K = "[StreamMutex s]"])
   apply (rule lkp_if)
    apply (rule lkp_lk)
    apply (rule lk_rules | rule refl | simp)+
   apply (rule lkp_bind [where K = "[StreamMutex s]"])
     apply (rule lk_rules; simp)
    apply (rule kp_rules)
   apply (rule lkp_if lkp_start_body)+
   apply (rule lkp_lk, (rule lk_rules | rule refl | simp)+)+
  done

end

section \<open>Card restarts\<close>

lemma lkp_str:
  assumes "\<And>x. lkp (\<lambda>w. P w \<and> f (wstr w s) = x) H (g x) H'"
  shows "lkp P H (State_Monad.bind (str s f) g) H'"
  using assms by (auto simp: lkp_def valid_def)

lemma lkp_assume: "((\<exists>w. P w) \<Longrightarrow> lk H m H') \<Longrightarrow> lkp P H m H'"
  by (auto simp: lkp_def lk_def valid_def)

abbreviation (input) running :: "stream_state_t \<Rightarrow> bool" where
  "running st \<equiv> st = STREAM_STARTED \<or> st = STREAM_PAUSED"

context locking_device
begin

text \<open>A stream that is not running closes without touching the active stream lock.\<close>

lemma lk_close_stop:
  "H = [StreamMutex s, ActiveStreamMutex] \<Longrightarrow> \<not> running st \<Longrightarrow> H' = H \<Longrightarrow> lk H (close_stop E D s st) H'"
  unfolding close_stop_def by simp (rule lk_vt lk_rules conjI impI | rule refl | simp add: not_lock_def)+

lemma lkp_close:
  "lkp (\<lambda>w. \<not> running (currentState (wstr w s))) [ActiveStreamMutex] (StreamPCM_close E D s) [ActiveStreamMutex]"
  unfolding StreamPCM_close_def
  apply (rule lkp_bind [where K = "[StreamMutex s, ActiveStreamMutex]"])
    apply (rule lk_rules; simp)
   apply (rule kp_rules; simp)
  apply (rule lkp_str, rule lkp_assume)
  apply (rule lk_close_stop lk_vt lk_rules | rule refl | (simp add: not_lock_def; fail) | blast)+
  done

lemma lkp_ssr_close:
  "lkp (\<lambda>w. currentState (wstr w s) = st) [ActiveStreamMutex] (ssr_close E D s st) [ActiveStreamMutex]"
proof (cases "st = STREAM_INIT \<or> st = STREAM_STOPPED")
  case True
  then show ?thesis using lkp_close [of s E] by (auto simp: lkp_def valid_def ssr_close_def)
next
  case False
  have "lk [ActiveStreamMutex] (ssr_close E D s st) [ActiveStreamMutex]"
    using False unfolding ssr_close_def
    by simp (rule lk_stop lk_close lk_rules impI conjI | rule refl | simp)+
  then show ?thesis by (rule lkp_lk)
qed

lemma lk_ssrDownHandler:
  "lk [ActiveStreamMutex] (StreamPCM_ssrDownHandler E D s) [ActiveStreamMutex]"
proof -
  have "lkp (\<lambda>w. True) [StreamMutex s, ActiveStreamMutex]
    (do { st \<leftarrow> str s currentState; unlock (StreamMutex s); r \<leftarrow> ssr_close E D s st;
          upd_str s (currentState_update (\<lambda>_. STREAM_IDLE)); return r }) [ActiveStreamMutex]"
    apply (rule lkp_str)
    apply (rule lkp_bind [where K = "[ActiveStreamMutex]"])
      apply (rule lk_rules; simp)
     apply (rule kp_rules; simp)
    apply (rule lkp_last [where K = "[ActiveStreamMutex]"])
     apply (simp only: simp_thms, rule lkp_ssr_close)
    apply (rule lk_rules | rule refl)+
    done
  then have tail: "lk [StreamMutex s, ActiveStreamMutex]
    (do { st \<leftarrow> str s currentState; unlock (StreamMutex s); r \<leftarrow> ssr_close E D s st;
          upd_str s (currentState_update (\<lambda>_. STREAM_IDLE)); return r }) [ActiveStreamMutex]"
    by (simp add: lkp_def lk_def)
  show ?thesis
    unfolding StreamPCM_ssrDownHandler_def
    by (rule tail lk_bind lk_if lk_return lk_lock lk_unlock lk_upd lk_isStreamSSRDownFeasibile | rule refl | simp)+
qed

text \<open>Every call of a client, the fallback of start apart.\<close>

lemma lk_pcm_run: "op \<noteq> Start \<Longrightarrow> lk [] (pcm_run E D s op) []"
  by (cases op)
     (simp_all add: lk_rules lk_open lk_close lk_stop lk_createMmapBuffer lk_connectStreamDevice
        lk_disconnectStreamDevice)

end

section \<open>Any sequence of calls\<close>

definition ssr_down_call :: "env \<Rightarrow> dev_vt \<Rightarrow> nat \<Rightarrow> int io" where
  "ssr_down_call E D s = do {
     lock ActiveStreamMutex;
     r \<leftarrow> StreamPCM_ssrDownHandler E D s;
     unlock ActiveStreamMutex;
     return r
   }"

text \<open>Worlds that clients and card restarts can reach from \<open>w0\<close>, over any streams.\<close>

inductive pcm_calls :: "env \<Rightarrow> world \<Rightarrow> world \<Rightarrow> bool" for E w0 where
  pc_init: "pcm_calls E w0 w0"
| pc_op: "pcm_calls E w0 w \<Longrightarrow> (op = Start \<longrightarrow> bt_free s w) \<Longrightarrow>
    run_state (pcm_run E (Device_vt E) s op) w = (r, w') \<Longrightarrow> pcm_calls E w0 w'"
| pc_ssr: "pcm_calls E w0 w \<Longrightarrow>
    run_state (ssr_down_call E (Device_vt E) s) w = (r, w') \<Longrightarrow> pcm_calls E w0 w'"

lemma lk_ssr_call: "lk [] (ssr_down_call E (Device_vt E) s) []"
  unfolding ssr_down_call_def by (rule base.lk_ssrDownHandler lk_rules | rule refl | simp)+



section \<open>The Bluetooth fallback\<close>

text \<open>A violation of the order stays on record.\<close>

definition stuck :: "'a io \<Rightarrow> bool" where
  "stuck m \<longleftrightarrow> valid (\<lambda>w. held (wlog w) = None) m (\<lambda>_ w. held (wlog w) = None)"

lemma held_None_Cons: "held es = None \<Longrightarrow> held (e # es) = None"
  by (cases e) auto

lemma stuck_steps:
  "stuck (call E c)" "stuck (tell c)" "stuck (lock l)" "stuck (unlock l)" "stuck (gets g)"
  "stuck (rmg g1)" "stuck (dev d g2)" "stuck (upd_rm h)" "stuck (upd_dev d h1)" "stuck (return x)"
  by (simp_all add: stuck_def valid_def held_None_Cons)

lemma stuck_bind: "stuck m \<Longrightarrow> (\<And>r. stuck (f r)) \<Longrightarrow> stuck (State_Monad.bind m f)"
  unfolding stuck_def by (rule valid_bind)

lemma stuck_cases:
  "(b \<Longrightarrow> stuck m) \<Longrightarrow> (\<not> b \<Longrightarrow> stuck n) \<Longrightarrow> stuck (if b then m else n)"
  "stuck m' \<Longrightarrow> stuck (when_io b m')"
  "stuck k \<Longrightarrow> (\<And>x. stuck (f x)) \<Longrightarrow> stuck (case v of None \<Rightarrow> k | Some x \<Rightarrow> f x)"
  "(\<And>x y. stuck (g x y)) \<Longrightarrow> stuck (case p of (x, y) \<Rightarrow> g x y)"
  by (auto simp: when_io_def stuck_steps split: option.splits prod.splits)

lemma stuck_let: "stuck (f x) \<Longrightarrow> stuck (let y = x in f y)"
  by simp

lemmas stuck_rules = stuck_bind stuck_cases stuck_let stuck_steps

lemma stuck_getInstance: "stuck (Device_getInstance E a)"
  unfolding Device_getInstance_def by (rule stuck_rules)+

lemma stuck_getDeviceConfig: "stuck (RM_getDeviceConfig E j a sa)"
  unfolding RM_getDeviceConfig_def by (rule stuck_rules stuck_getInstance)+

lemma stuck_setDeviceAttributes: "stuck (Device_setDeviceAttributes d a)"
  unfolding Device_setDeviceAttributes_def by (rule stuck_rules)+



end
