(* ===== verification/PCM_Frame.thy ===== *)
theory PCM_Frame
  imports Pal_Demo
begin

text \<open>
  What the inner steps of a PCM stream leave alone, proved once for every observation of the
  world that depends neither on the log and the devices nor, of the resource manager, on more
  than the registers of active devices and streams and the user counters, nor, of a stream, on
  more than its state, its semaphore and its attributes.
\<close>

section \<open>Quiet observations\<close>

text \<open>What an observation may depend on: the registers of active devices and streams, the
  user counters and the queue of card states of the resource manager, and the state, the semaphore
  and the attributes of a stream.\<close>

definition rm_core :: "RM \<Rightarrow> (nat \<times> nat) list \<times> nat list \<times> (nat \<Rightarrow> (nat \<times> bool) option) \<times> nat list \<times> nat \<times> bool" where
  "rm_core rm = (active_devices rm, mActiveStreams rm, mActiveStreamUserCounter rm, msgQ rm, cardState rm,
     isContextManagerEnabled rm)"

definition str_core :: "Stream \<Rightarrow> stream_state_t \<times> int option \<times> pal_stream_attributes option" where
  "str_core s = (currentState s, mInUse s, mStreamAttr s)"

lemmas core_defs [simp] = rm_core_def str_core_def

locale quiet_obs =
  fixes f :: "world \<Rightarrow> 'b"
  assumes q_log: "f (w\<lparr>wlog := l\<rparr>) = f w"
    and q_dev: "f (w\<lparr>wdev := x\<rparr>) = f w"
    and q_rm: "rm_core y = rm_core (wrm w) \<Longrightarrow> f (w\<lparr>wrm := y\<rparr>) = f w"
    and q_str: "str_core z = str_core (wstr w s) \<Longrightarrow> f (w\<lparr>wstr := (wstr w)(s := z)\<rparr>) = f w"
begin

lemma q_upd_str: "(\<And>x. str_core (h x) = str_core x) \<Longrightarrow> keeps f (upd_str t h)"
  by (simp add: keeps_def q_str)

lemma q_upd_dev: "keeps f (upd_dev d h)"
  by (simp add: keeps_def q_dev)

lemma q_upd_rm: "(\<And>x. rm_core (h x) = rm_core x) \<Longrightarrow> keeps f (upd_rm h)"
  by (simp add: keeps_def q_rm)

lemma q_log_steps:
  "keeps f (call E c)" "keeps f (call_out E c)" "keeps f (tell c)" "keeps f (lock k)" "keeps f (unlock k)"
  by (rule kp_log, rule q_log)+

lemmas q_steps = q_upd_str q_upd_dev q_upd_rm q_log_steps kp_bind kp_if kp_when kp_cases kp_let kp_pure
  kp_for_each kp_until_fail kp_last_status

lemma q_run_on: "(\<And>x. x \<in> set xs \<Longrightarrow> keeps f (g x)) \<Longrightarrow> keeps f (run_on st xs g)"
  by (induction xs arbitrary: st) (auto intro!: kp_bind kp_pure kp_cases kp_if simp del: if_split)

lemma q_on_side: "(\<And>d. keeps f (g d)) \<Longrightarrow> keeps f (on_side side g d)"
  unfolding on_side_def Device_getSndDeviceId_def by (rule q_steps | assumption)+

subsection \<open>Devices\<close>

lemma q_getInstance: "keeps f (Device_getInstance E a)"
  unfolding Device_getInstance_def Let_def by (rule q_steps | simp)+

lemma q_setMediaConfig: "keeps f (Device_setMediaConfig E be a)"
  by (rule kp_setMediaConfig) (simp_all add: q_log q_rm)

lemma q_device:
  "keeps f (Device_open E d)" "keeps f (Device_close d)" "keeps f (Device_start E d)" "keeps f (Device_stop d)"
  "keeps f (Device_getSndDeviceId d)" "keeps f (Device_setDeviceAttributes d a)"
  "keeps f (Device_getDeviceAttributes d b x)" "keeps f (Device_insertStreamDeviceAttr E d oa os)"
  "keeps f (Device_removeStreamDeviceAttr d s)"
  unfolding Device_open_def Device_first_open_def Device_close_def Device_start_def Device_start_l_def
    Device_first_start_def Device_stop_def Device_stop_l_def Device_getSndDeviceId_def
    Device_setDeviceAttributes_def Device_getDeviceAttributes_def Device_insertStreamDeviceAttr_def
    Device_removeStreamDeviceAttr_def Device_setCustomPayload_def getBeMixerControl_def
  by (rule q_getInstance q_setMediaConfig q_steps | simp)+

lemma q_getDeviceConfig: "keeps f (RM_getDeviceConfig E j a sa)"
  unfolding RM_getDeviceConfig_def by (rule q_getInstance q_steps | simp)+

lemma q_lists:
  "keeps f (Stream_removemDevice t i)" "keeps f (Stream_removeLastmDevice t)" "keeps f (Stream_addmDevice E t a)"
  "keeps f (Stream_addPalDevice E t a)" "keeps f (Stream_removePalDevice t i)"
  "keeps f (Stream_clearOutPalDevices t)"
  unfolding Stream_removemDevice_def Stream_removeLastmDevice_def Stream_addmDevice_def
    Stream_addPalDevice_def Stream_removePalDevice_def Stream_clearOutPalDevices_def drop_pal_devices_def
  by (rule q_device q_getInstance q_steps | simp)+

subsection \<open>Small parts of a stream\<close>

lemma q_small:
  "keeps f (StreamPCM_direction s)" "keeps f (mmap_skips s d)" "keeps f (open_bt_check E ds)"
  "keeps f (inform_rm E)" "keeps f (transfer_failed E n st)" "keeps f (card_down_or E b)"
  "keeps f (push_volume E s v)" "keeps f (StreamPCM_mute_l E s c)" "keeps f (idle_or_card_down E s)"
  "keeps f (connect_usb_check E d st)" "keeps f (Stream_isStreamSSRDownFeasibile E s)"
  unfolding StreamPCM_direction_def mmap_skips_def open_bt_check_def inform_rm_def transfer_failed_def
    card_down_or_def push_volume_def StreamPCM_mute_l_def idle_or_card_down_def connect_usb_check_def
    Stream_isStreamSSRDownFeasibile_def Device_getSndDeviceId_def
  by (rule q_steps | simp)+

lemma q_setVolume: "keeps f (StreamPCM_setVolume E s v)"
  unfolding StreamPCM_setVolume_def apply_volume_def by (rule q_small q_steps | simp)+

lemmas q_rules = q_lists q_device q_getInstance q_getDeviceConfig q_small q_setVolume q_run_on q_on_side q_steps

lemma q_simple_ops:
  "keeps f (StreamPCM_resume E s)" "keeps f (StreamPCM_flush E s)" "keeps f (StreamPCM_mute E s b)"
  "keeps f (StreamPCM_setParameters E s p b)" "keeps f (StreamPCM_addRemoveEffect E s e b)"
  "keeps f (StreamPCM_setECRef E s d b)" "keeps f (Stream_getTimestamp E s b)" "keeps f (StreamPCM_read E s n)"
  unfolding StreamPCM_resume_def StreamPCM_resume_l_def resume_volume_def StreamPCM_flush_def
    StreamPCM_mute_def StreamPCM_setParameters_def StreamPCM_addRemoveEffect_def StreamPCM_setECRef_def
    StreamPCM_setECRef_l_def Stream_getTimestamp_def StreamPCM_read_def drop_buffer_def
  by (rule q_rules | simp)+

end

section \<open>Over a virtual device\<close>

locale quiet_device = quiet_obs f for f :: "world \<Rightarrow> 'b" +
  fixes D :: dev_vt
  assumes q_vt_close: "keeps f (vt_close D d)"
    and q_vt_start: "keeps f (vt_start D d)"
    and q_vt_stop: "keeps f (vt_stop D d)"
begin

lemmas q_vt = q_vt_close q_vt_start q_vt_stop

lemma q_mmap_start: "keeps f (mmap_start D n b ds)"
  by (induction ds arbitrary: b) (auto intro!: q_rules q_vt simp del: if_split)

lemma q_createMmapBuffer: "keeps f (StreamPCM_createMmapBuffer E D s n)"
  unfolding StreamPCM_createMmapBuffer_def by (rule q_mmap_start q_vt q_rules | simp)+

lemma q_bt_detach: "keeps f extra \<Longrightarrow> keeps f (bt_detach E D t d b extra)"
  unfolding bt_detach_def by (rule q_vt q_rules | assumption | simp)+

lemma q_bt_sco: "keeps f extra \<Longrightarrow> keeps f (bt_sco_fallback E D t extra ds)"
  unfolding bt_sco_fallback_def bt_keep_speaker_def on_device_def
  by (rule q_bt_detach q_rules | assumption | simp)+

lemma q_bt_attach: "keeps f (bt_attach E D t d a)"
  unfolding bt_attach_def by (rule q_vt q_rules | simp)+

lemma core_updateSndName:
  "active_devices (updateSndName i n rm) = active_devices rm"
  "mActiveStreams (updateSndName i n rm) = mActiveStreams rm"
  "mActiveStreamUserCounter (updateSndName i n rm) = mActiveStreamUserCounter rm"
  "msgQ (updateSndName i n rm) = msgQ rm" "cardState (updateSndName i n rm) = cardState rm"
  "isContextManagerEnabled (updateSndName i n rm) = isContextManagerEnabled rm"
  by (simp_all add: updateSndName_def)

lemma q_bt_move: "keeps f (bt_move_to_speaker E D t ds b)"
  unfolding bt_move_to_speaker_def bt_close_all_def bt_choose_def
  by (rule q_bt_attach q_vt q_rules | simp add: core_updateSndName split: option.splits)+

lemma q_bt_fallback: "keeps f (start_bt_fallback E D t)"
  unfolding start_bt_fallback_def BTUtilsDeviceNotReady_def BTUtilsDeviceNotReadyToDummy_def
    bt_a2dp_fallback_def bt_a2dp_to_dummy_def bt_attach_dummy_def bt_keep_speaker_def on_a2dp_def
    on_device_def bt_pick_def
  by (rule q_bt_move q_bt_detach q_bt_sco q_vt q_rules | simp)+

lemma q_start_rx: "keeps f (start_rx E D t pre ds st cs)"
  by (induction ds arbitrary: pre st cs) (auto intro!: q_vt q_rules simp del: if_split)

lemma q_stop_all: "keeps f (stop_all D st ds)"
  by (induction ds arbitrary: st) (auto intro!: q_vt q_rules)

lemma q_start_session: "keeps f (start_session E D t)"
  unfolding start_session_def session_fail_def by (rule q_stop_all q_rules | simp)+

lemma q_start_by_direction: "keeps f (start_by_direction E D s)"
  unfolding start_by_direction_def start_output_def start_input_def start_loopback_def
    start_output_devices_def mute_suspended_def
  by (rule q_bt_fallback q_start_rx q_start_session q_vt q_rules | simp)+

lemma q_stop_by_direction: "keeps f (stop_by_direction E D t ds)"
  unfolding stop_by_direction_def stop_output_def stop_input_def stop_loopback_def
  by (rule q_vt q_rules | simp)+

end

text \<open>The base class is quiet for every quiet observation.\<close>

sublocale quiet_obs \<subseteq> base_quiet: quiet_device f "Device_vt E" for E
  by unfold_locales (simp_all add: Device_vt_def q_device)

section \<open>The state of a stream and the register of active devices\<close>

definition state_of :: "nat \<Rightarrow> world \<Rightarrow> stream_state_t" where
  "state_of s w = currentState (wstr w s)"

definition active_of :: "world \<Rightarrow> (nat \<times> nat) list" where
  "active_of w = active_devices (wrm w)"

interpretation st: quiet_obs "state_of s" for s
  by unfold_locales (simp_all add: state_of_def)

interpretation act: quiet_obs active_of
  by unfold_locales (simp_all add: active_of_def)

section \<open>Programs that only write to the log\<close>

abbreviation only_log :: "'a io \<Rightarrow> bool" where
  "only_log m \<equiv> keeps (\<lambda>w. w\<lparr>wlog := []\<rparr>) m"

lemma only_logD:
  assumes "only_log m" "run_state m w = (r, w')"
  obtains l where "w' = w\<lparr>wlog := l\<rparr>"
proof -
  have "w'\<lparr>wlog := []\<rparr> = w\<lparr>wlog := []\<rparr>" using keepsD [OF assms] .
  then have "w' = w\<lparr>wlog := wlog w'\<rparr>" by (cases w, cases w') simp
  then show thesis by (rule that)
qed

end
