(* ===== verification/PCM_States.thy ===== *)
theory PCM_States
  imports PCM_Frame
begin

text \<open>
  The state machine of \<^verbatim>\<open>StreamPCM\<close>: how \<open>currentState\<close> moves under every call, whatever the
  session, the mixer and the card answer.  \<open>pcm_next\<close> is the abstract machine; the calls refine
  it.
\<close>

section \<open>What devices leave alone\<close>

text \<open>A device never touches a stream object.\<close>

locale stream_blind_device =
  fixes D :: dev_vt
  assumes vt_close_str: "keeps wstr (vt_close D d)"
    and vt_start_str: "keeps wstr (vt_start D d)"
    and vt_stop_str: "keeps wstr (vt_stop D d)"

lemma keeps_state: "keeps wstr m \<Longrightarrow> keeps (state_of s) m"
  by (simp add: keeps_def state_of_def)

sublocale stream_blind_device \<subseteq> sq: quiet_device "state_of s" D for s
  by unfold_locales (rule keeps_state, rule vt_close_str vt_start_str vt_stop_str)+

lemma kp_device_str [kp_rules]:
  "keeps wstr (Device_close d)" "keeps wstr (Device_start E d)" "keeps wstr (Device_stop d)"
  unfolding Device_start_def Device_start_l_def Device_first_start_def
  by (rule kp_getInstance_other kp_rules | simp)+

interpretation base_blind: stream_blind_device "Device_vt E" for E
  by unfold_locales (simp_all add: Device_vt_def kp_device_str)

lemma kp_register [kp_rules]:
  "keeps wstr (RM_registerDevice d s)" "keeps wstr (RM_deregisterDevice d s)"
  unfolding RM_registerDevice_def RM_deregisterDevice_def RM_registerDevice_l_def RM_deregisterDevice_l_def
    Device_getSndDeviceId_def
  by (rule kp_rules | simp)+

lemmas state_register = kp_register [THEN keeps_state]

lemmas state_rules = state_register st.q_rules

context stream_blind_device
begin

lemma state_disconnect: "keeps (state_of s) (Stream_disconnectStreamDevice E D s i)"
  unfolding Stream_disconnectStreamDevice_def Stream_disconnectStreamDevice_l_def disconnect_tail_def
  by (rule sq.q_vt state_rules | simp)+

lemma state_connect: "keeps (state_of s) (Stream_connectStreamDevice E D s a)"
  unfolding Stream_connectStreamDevice_def Stream_connectStreamDevice_l_def
    connect_tail_def connect_finish_def connect_dev_stop_def connect_dev_close_def
  by (rule sq.q_vt state_rules | simp)+

end

section \<open>The machine\<close>

text \<open>\<open>pcm_next st op r st'\<close>: a stream in \<open>st\<close> may be in \<open>st'\<close> after the call \<open>op\<close>
  returned \<open>r\<close>.\<close>

fun pcm_next :: "stream_state_t \<Rightarrow> pcm_op \<Rightarrow> int \<Rightarrow> stream_state_t \<Rightarrow> bool" where
  "pcm_next st Open r st' =
     (if st = STREAM_IDLE then st' = STREAM_IDLE \<or> (st' = STREAM_INIT \<and> r = 0)
      else st' = st \<and> (st \<noteq> STREAM_INIT \<longrightarrow> r \<noteq> 0))"
| "pcm_next st Close r st' = (st' = STREAM_IDLE \<and> (st = STREAM_IDLE \<longrightarrow> r = 0))"
| "pcm_next st Start r st' =
     (if st = STREAM_INIT \<or> st = STREAM_STOPPED then st' = st \<or> st' = STREAM_STARTED
      else st' = st \<and> (st = STREAM_STARTED \<longrightarrow> r = 0))"
| "pcm_next st Stop r st' =
     (if st = STREAM_STARTED \<or> st = STREAM_PAUSED then st' = STREAM_STOPPED
      else st' = st \<and> r = (if st = STREAM_STOPPED \<or> st = STREAM_IDLE then 0 else - EINVAL))"
| "pcm_next st Pause r st' = (st' = (if r = 0 then STREAM_PAUSED else st))"
| "pcm_next st (Write n) r st' = (st' = st \<or> (st = STREAM_PAUSED \<and> st' = STREAM_STARTED))"
| "pcm_next st op r st' = (st' = st)"

text \<open>Triples whose precondition is the state of the stream.\<close>

lemma sv_keep:
  "keeps (state_of s) m \<Longrightarrow> (\<And>r. valid (\<lambda>w. state_of s w = x) (f r) Q) \<Longrightarrow>
   valid (\<lambda>w. state_of s w = x) (State_Monad.bind m f) Q"
  by (rule valid_bind [where R = "\<lambda>_ w. state_of s w = x"]) (auto simp: valid_def keeps_def)

lemma sv_str:
  "valid (\<lambda>w. state_of s w = x) (g x) Q \<Longrightarrow>
   valid (\<lambda>w. state_of s w = x) (State_Monad.bind (str s currentState) g) Q"
  by (simp add: valid_def state_of_def)

lemma sv_upd:
  "(\<And>z. currentState (h z) = y) \<Longrightarrow> valid (\<lambda>w. state_of s w = y) (f ()) Q \<Longrightarrow>
   valid (\<lambda>w. state_of s w = x) (State_Monad.bind (upd_str s h) f) Q"
  by (simp add: valid_def state_of_def)

lemma sv_str_any:
  "(\<And>z. currentState z = x \<Longrightarrow> valid (\<lambda>w. state_of s w = x) (g (f z)) Q) \<Longrightarrow>
   valid (\<lambda>w. state_of s w = x) (State_Monad.bind (str s f) g) Q"
  by (simp add: valid_def state_of_def)

lemma sv_skip:
  "(\<And>r. valid (\<lambda>_. True) (f r) Q) \<Longrightarrow> valid P (State_Monad.bind m f) Q"
  by (auto simp: valid_def split: prod.splits)

lemma sv_set:
  "(\<And>z. currentState (h z) = y) \<Longrightarrow> valid (\<lambda>w. state_of s w = y) (f ()) Q \<Longrightarrow>
   valid (\<lambda>_. True) (State_Monad.bind (upd_str s h) f) Q"
  by (simp add: valid_def state_of_def)

lemma bind_if:
  "State_Monad.bind (if b then m else n) f = (if b then State_Monad.bind m f else State_Monad.bind n f)"
  by simp

lemma bind_when:
  "State_Monad.bind (when_io b m) f = (if b then State_Monad.bind m f else f ())"
  by (simp add: when_io_def)

lemma bind_case_prod:
  "State_Monad.bind (case p of (a, b) \<Rightarrow> g a b) f = (case p of (a, b) \<Rightarrow> State_Monad.bind (g a b) f)"
  by (cases p) simp

lemmas bind_norm = State_Monad.bind_assoc State_Monad.bind_left_identity bind_if bind_when bind_case_prod

lemmas sv_rules = sv_upd valid_if valid_return valid_split

context stream_blind_device
begin

lemma sv_stop:
  "valid (\<lambda>w. state_of s w = st) (StreamPCM_stop E D s) (\<lambda>r w. pcm_next st Stop r (state_of s w))"
  unfolding StreamPCM_stop_def bind_norm
  by (rule sv_str sv_rules sv_keep sq.q_stop_by_direction state_rules | (simp; fail))+

lemma sv_open:
  "valid (\<lambda>w. state_of s w = st) (StreamPCM_open E D s) (\<lambda>r w. pcm_next st Open r (state_of s w))"
  unfolding StreamPCM_open_def open_idle_def bind_norm
  by (rule sv_str sv_rules sv_keep sq.q_vt state_rules | (simp; fail))+

lemma sv_close:
  "valid (\<lambda>w. state_of s w = st) (StreamPCM_close E D s) (\<lambda>r w. pcm_next st Close r (state_of s w))"
  unfolding StreamPCM_close_def
  apply (rule sv_keep, rule state_rules, simp)
  apply (rule sv_str valid_if)+
  subgoal by (rule sv_keep state_rules valid_return | (simp; fail))+
  subgoal by (rule sv_skip [where m = "close_stop E D s st"],
      (rule sv_set sv_skip sv_keep state_rules valid_return | (simp; fail))+)
  done

lemma sv_start:
  "valid (\<lambda>w. state_of s w = st) (StreamPCM_start E D s) (\<lambda>r w. pcm_next st Start r (state_of s w))"
  unfolding StreamPCM_start_def start_register_def bind_norm
  by (rule sv_str sv_rules sv_keep sq.q_start_by_direction state_rules st.q_upd_str | (simp; fail))+

end

lemma sv_pause:
  "valid (\<lambda>w. state_of s w = st) (StreamPCM_pause E s) (\<lambda>r w. pcm_next st Pause r (state_of s w))"
  unfolding StreamPCM_pause_def StreamPCM_pause_l_def bind_norm
  by (rule sv_keep sv_rules state_rules st.q_upd_str | (simp; fail))+

lemma sv_write:
  "valid (\<lambda>w. state_of s w = st) (StreamPCM_write E s n) (\<lambda>r w. pcm_next st (Write n) r (state_of s w))"
  unfolding StreamPCM_write_def write_resumes_def drop_buffer_def bind_norm
    transfer_failed_def
  by (rule sv_str sv_str_any sv_rules sv_keep state_rules | (simp; fail))+

context stream_blind_device
begin

lemma sv_run:
  "valid (\<lambda>w. state_of s w = st) (pcm_run E D s op) (\<lambda>r w. pcm_next st op r (state_of s w))"
proof -
  have keep: "keeps (state_of s) m \<Longrightarrow> valid (\<lambda>w. state_of s w = st) m (\<lambda>r w. state_of s w = st)"
    for m :: "int io"
    by (simp add: keeps_def valid_def)
  show ?thesis
    by (cases op)
       (simp_all only: pcm_run.simps sv_open sv_close sv_start sv_stop sv_pause sv_write,
        simp_all add: keep st.q_simple_ops st.q_setVolume sq.q_createMmapBuffer state_connect
          state_disconnect)
qed

end

text \<open>
  C9: Every call on a PCM stream moves its state as the abstract machine \<open>pcm_next\<close> allows, for
  every answer of the session, the devices and the card: only open leaves the idle state and only
  for the opened one, close always ends idle, start reaches only the started state and only from
  an opened or stopped stream, stop always stops a running stream even when it reports an error,
  pause takes effect exactly when it returns 0, a write may resume a paused stream, and no other
  call changes the state.
\<close>

theorem pcm_state_machine:
  "pcm_next (currentState (wstr w s)) op
     (fst (run_state (pcm_run E (Device_vt E) s op) w))
     (currentState (wstr (snd (run_state (pcm_run E (Device_vt E) s op) w)) s))"
  using base_blind.sv_run [of s "currentState (wstr w s)" E E op]
  by (simp add: valid_def state_of_def)

end
