(* ===== verification/PCM_Counts.thy ===== *)
theory PCM_Counts
  imports PCM_States
begin

text \<open>
  Reference counts over open and close of a PCM stream: what each way through open leaves on the
  devices, and that close gives back what open took.
\<close>

lemma count_upd [simp]:
  "opens (w\<lparr>wlog := l\<rparr>) = opens w" "opens (w\<lparr>wstr := x\<rparr>) = opens w" "opens (w\<lparr>wrm := y\<rparr>) = opens w"
  "starts (w\<lparr>wlog := l\<rparr>) = starts w" "starts (w\<lparr>wstr := x\<rparr>) = starts w" "starts (w\<lparr>wrm := y\<rparr>) = starts w"
  "rm_lists (w\<lparr>wlog := l\<rparr>) = rm_lists w" "rm_lists (w\<lparr>wstr := x\<rparr>) = rm_lists w"
  "dev_wf d (w\<lparr>wlog := l\<rparr>) = dev_wf d w" "dev_wf d (w\<lparr>wstr := x\<rparr>) = dev_wf d w"
  by (simp_all add: opens_def starts_def rm_lists_def dev_wf_def fun_eq_iff)

section \<open>Loops over devices\<close>

lemma open_all_run:
  assumes "run_state (until_fail ds (Device_open E)) w = (r, w')" "\<forall>d\<in>set ds. dev_wf d w"
  shows "\<exists>pre post. ds = pre @ post \<and> (r = 0) = (post = []) \<and> dev_frame w w' \<and> starts w' = starts w \<and>
    opens w' = (\<lambda>d. opens w d + int (count_list pre d))"
  using assms
proof (induction ds arbitrary: w)
  case Nil
  then show ?case by (simp add: dev_frame_refl)
next
  case (Cons d ds)
  obtain r1 w1 where o: "run_state (Device_open E d) w = (r1, w1)"
    and rest: "(r1 \<noteq> 0 \<and> r = r1 \<and> w' = w1) \<or> (r1 = 0 \<and> run_state (until_fail ds (Device_open E)) w1 = (r, w'))"
    using Cons.prems(1) by (auto split: prod.splits if_splits)
  have wf: "dev_wf d w" using Cons.prems(2) by simp
  note c = open_counts [OF wf o]
  show ?case
  proof (cases "r1 = 0")
    case False
    then show ?thesis using rest c by (intro exI [of _ "[]"] exI [of _ "d # ds"]) auto
  next
    case True
    then have run: "run_state (until_fail ds (Device_open E)) w1 = (r, w')" using rest by simp
    have "\<forall>d\<in>set ds. dev_wf d w1" using Cons.prems(2) c(3) by (auto simp: dev_frame_def)
    from Cons.IH [OF run this] obtain pre post where *: "ds = pre @ post" "(r = 0) = (post = [])"
      "dev_frame w1 w'" "starts w' = starts w1" "opens w' = (\<lambda>d. opens w1 d + int (count_list pre d))"
      by auto
    show ?thesis
      using * c True dev_frame_trans [OF c(3) *(3)]
      by (intro exI [of _ "d # pre"] exI [of _ post]) (auto simp: fun_eq_iff)
  qed
qed

context counting_device
begin

lemma close_all_run:
  assumes "run_state (last_status st ds (vt_close D)) w = (r, w')"
    "\<forall>d. int (count_list ds d) \<le> opens w d"
  shows "dev_frame w w' \<and> opens w' = (\<lambda>d. opens w d - int (count_list ds d))"
  using assms
proof (induction ds arbitrary: w st)
  case (Cons d ds)
  obtain r1 w1 where c: "run_state (vt_close D d) w = (r1, w1)"
    and run: "run_state (last_status r1 ds (vt_close D)) w1 = (r, w')"
    using Cons.prems(1) by (auto split: prod.splits)
  have pos: "opens w d > 0" using Cons.prems(2) [rule_format, of d] by simp
  have o1: "opens w1 = (opens w)(d := opens w d - 1)" using vt_close_opens [OF c] pos by simp
  have "\<forall>e. int (count_list ds e) \<le> opens w1 e"
    using Cons.prems(2) by (auto simp: o1 split: if_splits)
  from Cons.IH [OF run this] show ?case
    using o1 vt_close_frame [OF c] by (auto simp: fun_eq_iff intro: dev_frame_trans)
qed (simp add: dev_frame_refl)

lemma stop_some_run:
  assumes "run_state (for_each ds (\<lambda>d. do { b \<leftarrow> mmap_skips s d; when_io b (do { vt_stop D d; return () }) })) w = (u, w')"
  shows "dev_frame w w' \<and> opens w' = opens w"
  using assms
proof (induction ds arbitrary: w)
  case (Cons d ds)
  let ?b = "(isBtDevice (sndId w d) \<or> sndId w d = PAL_DEVICE_OUT_SPEAKER) \<and> isMMap (wstr w s)"
  have m: "run_state (mmap_skips s d) w = (?b, w)"
    by (simp add: mmap_skips_def Device_getSndDeviceId_def sndId_def)
  obtain r1 w1 where s1: "(\<not> ?b \<and> w1 = w) \<or> (?b \<and> run_state (vt_stop D d) w = (r1, w1))"
    and run: "run_state (for_each ds (\<lambda>d. do { b \<leftarrow> mmap_skips s d; when_io b (do { vt_stop D d; return () }) })) w1 = (u, w')"
    using Cons.prems m by (fastforce split: prod.splits if_splits)
  have "dev_frame w w1 \<and> opens w1 = opens w"
    using s1 vt_stop_frame vt_stop_opens by (auto simp: dev_frame_refl)
  then show ?case using Cons.IH [OF run] dev_frame_trans by auto
qed (simp add: dev_frame_refl)

text \<open>The three ways through open of an idle stream: opened; a device refused; the session refused.\<close>

lemma open_idle_run:
  assumes run: "run_state (open_idle E D s ds) w = (r, w')"
    and wf: "\<forall>d\<in>set ds. dev_wf d w" and nonneg: "\<forall>d. 0 \<le> opens w d"
  obtains
    (opened) "r = 0" "wstr w' = (wstr w)(s := (wstr w s)\<lparr>currentState := STREAM_INIT\<rparr>)"
      "opens w' = (\<lambda>d. opens w d + int (count_list ds d))" "rm_lists w' = rm_lists w" "\<forall>d. dev_wf d w \<longrightarrow> dev_wf d w'"
  | (device) pre x post where "r \<noteq> 0" "wstr w' = wstr w" "ds = pre @ x # post"
      "opens w' = (\<lambda>d. opens w d + int (count_list pre d))"
  | (session) "wstr w' = wstr w" "opens w' = opens w"
proof -
  obtain r1 w1 where o: "run_state (until_fail ds (Device_open E)) w = (r1, w1)" by fastforce
  from open_all_run [OF o wf] obtain pre post where p: "ds = pre @ post" "(r1 = 0) = (post = [])"
    and f: "dev_frame w w1" and c: "opens w1 = (\<lambda>d. opens w d + int (count_list pre d))" by auto
  show thesis
  proof (cases "r1 = 0")
    case False
    then obtain x post' where "post = x # post'" using p by (cases post) auto
    moreover have "r = r1" "w' = w1" using run o False by (simp_all add: open_idle_def)
    ultimately show thesis using device p f c False by (simp add: dev_frame_def)
  next
    case True
    let ?r = "ans E (Lock GraphMutex # wlog w1) (Sess s SOpen)"
    let ?w2 = "w1\<lparr>wlog := Unlock GraphMutex # Sess s SOpen # Lock GraphMutex # wlog w1\<rparr>"
    have c: "opens w1 = (\<lambda>d. opens w d + int (count_list ds d))" using c p True by simp
    show thesis
    proof (cases "?r = 0")
      case ok: True
      have "r = 0" "w' = ?w2\<lparr>wstr := (wstr ?w2)(s := (wstr ?w2 s)\<lparr>currentState := STREAM_INIT\<rparr>)\<rparr>"
        using run o True ok by (simp_all add: open_idle_def)
      then show thesis using opened f c by (simp add: dev_frame_def)
    next
      case bad: False
      have "run_state (last_status ?r ds (vt_close D)) ?w2 = (r, w')"
        using run o True bad by (simp add: open_idle_def)
      moreover have "\<forall>d. int (count_list ds d) \<le> opens ?w2 d"
        using c nonneg by simp
      ultimately have "dev_frame ?w2 w' \<and> opens w' = (\<lambda>d. opens ?w2 d - int (count_list ds d))"
        by (rule close_all_run)
      then show thesis using session f c by (simp add: dev_frame_def)
    qed
  qed
qed

lemma close_run:
  assumes run: "run_state (StreamPCM_close E D s) w = (r, w')"
    and st: "state_of s w = STREAM_INIT" and le: "\<forall>d. int (count_list (mDevices (wstr w s)) d) \<le> opens w d"
  shows "wstr w' = (wstr w)(s := (wstr w s)\<lparr>currentState := STREAM_IDLE\<rparr>) \<and>
    opens w' = (\<lambda>d. opens w d - int (count_list (mDevices (wstr w s)) d)) \<and> rm_lists w' = rm_lists w"
proof -
  let ?w0 = "w\<lparr>wlog := Lock (StreamMutex s) # wlog w\<rparr>"
  obtain w1 where a: "run_state (close_stop E D s STREAM_INIT) ?w0 = ((), w1)" by (metis surj_pair unit.exhaust)
  have f1: "dev_frame ?w0 w1 \<and> opens w1 = opens ?w0"
    using a unfolding close_stop_def by (simp, drule_tac stop_some_run, simp)
  let ?w2 = "w1\<lparr>wlog := Sess s SClose # Lock GraphMutex # wlog w1\<rparr>"
  have ds: "mDevices (wstr w1 s) = mDevices (wstr w s)" using f1 by (simp add: dev_frame_def)
  obtain r2 w3 where c: "run_state (last_status (ans E (Lock GraphMutex # wlog w1) (Sess s SClose))
      (mDevices (wstr w s)) (vt_close D)) ?w2 = (r2, w3)" by fastforce
  have w': "w' = w3\<lparr>wstr := (wstr w3)(s := (wstr w3 s)\<lparr>currentState := STREAM_IDLE\<rparr>),
      wlog := Unlock (StreamMutex s) # CheckAndSetDutyCycleParam # Unlock GraphMutex # wlog w3\<rparr>"
    using run st a c ds by (simp add: StreamPCM_close_def state_of_def)
  have "\<forall>d. int (count_list (mDevices (wstr w s)) d) \<le> opens ?w2 d"
    using le f1 by simp
  from close_all_run [OF c this] show ?thesis
    using f1 by (simp add: w' dev_frame_def)
qed

end

section \<open>Open\<close>

lemma only_log_bt_check: "only_log (open_bt_check E ds)"
  unfolding open_bt_check_def Device_getSndDeviceId_def by (rule kp_rules | simp)+

lemma open_run:
  assumes run: "run_state (StreamPCM_open E D s) w = (r, w')" and st: "state_of s w = STREAM_IDLE"
  obtains (refused) l where "w' = w\<lparr>wlog := l\<rparr>" "r \<noteq> 0"
  | (tried) l w1 where "run_state (open_idle E D s (mDevices (wstr w s))) (w\<lparr>wlog := l\<rparr>) = (r, w1)"
      "w' = w1\<lparr>wlog := Unlock (StreamMutex s) # wlog w1\<rparr>"
proof (cases "PAL_CARD_STATUS_DOWN (ans E (Lock (StreamMutex s) # wlog w) GetSoundCardState)")
  case True
  show thesis
    by (rule refused) (use run True in \<open>auto simp: StreamPCM_open_def\<close>)
next
  case False
  let ?w0 = "w\<lparr>wlog := GetSoundCardState # Lock (StreamMutex s) # wlog w\<rparr>"
  obtain r1 w1 where b: "run_state (open_bt_check E (mDevices (wstr w s))) ?w0 = (r1, w1)" by fastforce
  obtain l where w1: "w1 = w\<lparr>wlog := l\<rparr>" by (rule only_logD [OF only_log_bt_check b]) simp
  show thesis
  proof (cases "r1 = 0")
    case True
    obtain r2 w2 where o: "run_state (open_idle E D s (mDevices (wstr w s))) (w\<lparr>wlog := l\<rparr>) = (r2, w2)"
      by fastforce
    have "r = r2" "w' = w2\<lparr>wlog := Unlock (StreamMutex s) # wlog w2\<rparr>"
      using run False b w1 True o st by (simp_all add: StreamPCM_open_def state_of_def)
    then show thesis using tried o by simp
  next
    case bad: False
    show thesis
      by (rule refused) (use run False b w1 bad in \<open>auto simp: StreamPCM_open_def\<close>)
  qed
qed

text \<open>
  C11: Opening an idle stream takes one reference on each of its devices (as many as the device
  occurs in its list), and closing it gives back exactly these: every open count, the stream
  object and the registers are what they were, whatever the close of the session and of the
  devices reports.
\<close>

theorem open_close_roundtrip:
  assumes "run_state (StreamPCM_open E (Device_vt E) s) w = (r, w1)"
    and "run_state (StreamPCM_close E (Device_vt E) s) w1 = (r', w2)"
    and "currentState (wstr w s) = STREAM_IDLE" and "currentState (wstr w1 s) = STREAM_INIT"
    and "\<forall>d\<in>set (mDevices (wstr w s)). dev_wf d w" and "\<forall>d. 0 \<le> opens w d"
  shows "r = 0 \<and> opens w1 = (\<lambda>d. opens w d + int (count_list (mDevices (wstr w s)) d)) \<and>
    opens w2 = opens w \<and> wstr w2 = wstr w \<and> rm_lists w2 = rm_lists w"
proof -
  have idle: "state_of s w = STREAM_IDLE" using assms(3) by (simp add: state_of_def)
  have o: "r = 0 \<and> opens w1 = (\<lambda>d. opens w d + int (count_list (mDevices (wstr w s)) d)) \<and>
      wstr w1 = (wstr w)(s := (wstr w s)\<lparr>currentState := STREAM_INIT\<rparr>) \<and> rm_lists w1 = rm_lists w"
  proof (cases rule: open_run [OF assms(1) idle])
    case (1 l)
    then show ?thesis using assms(3,4) by simp
  next
    case (2 l v)
    show ?thesis
      by (cases rule: base.open_idle_run [OF 2(1)]) (use assms(3-6) 2 in \<open>auto simp: state_of_def\<close>)
  qed
  have "\<forall>d. int (count_list (mDevices (wstr w1 s)) d) \<le> opens w1 d"
    using o assms(6) by simp
  from base.close_run [OF assms(2) _ this] o assms(3,4) show ?thesis
    by (auto simp: state_of_def fun_eq_iff)
qed



lemma demo_counts:
  "currentState (wstr (demo_world ds dir) s) = STREAM_IDLE" "\<forall>d\<in>set ds. dev_wf d (demo_world ds dir)"
  "\<forall>d. 0 \<le> opens (demo_world ds dir) d" "mDevices (wstr (demo_world ds dir) s) = ds"
  by (simp_all add: demo_world_defs dev_wf_def opens_def)

theorem open_close_roundtrip_witness:
  "opens (demo_opened [3] 1) = (\<lambda>d. opens (demo_world [3] 1) d + int (count_list [3] d)) \<and>
   opens (snd (run_state (StreamPCM_close demo_env (Device_vt demo_env) 5) (demo_opened [3] 1))) =
     opens (demo_world [3] 1)"
  using open_close_roundtrip [OF demo_open_run prod.collapse [symmetric]] demo_states demo_counts
  by simp

text \<open>A platform on which the audio route of the handset cannot be had: the speaker opened before it
  stays open.\<close>

definition demo_leak_env :: env where
  "demo_leak_env = demo_env\<lparr>ans := (\<lambda>l c. if c = GetAudioRoute \<and> EnableDevice ''spk'' \<in> set l then - EIO
     else ans demo_env l c)\<rparr>"


lemma close_status: "fst (run_state (Device_close d) w) = 0"
  by (simp add: Device_close_def split: prod.splits)

lemma last_close_status:
  "ds \<noteq> [] \<Longrightarrow> fst (run_state (last_status st ds (vt_close (Device_vt E))) w) = 0"
proof (induction ds arbitrary: st w)
  case (Cons d ds)
  then show ?case
    using close_status [of d w]
    by (cases ds) (auto simp: Device_vt_def split: prod.splits)
qed simp

lemma kp_open_str: "keeps wstr (Device_open E d)"
  unfolding Device_open_def by (rule kp_getInstance_other kp_rules | simp)+

text \<open>
  If the session refuses to open a stream that has devices, the loop that closes the devices
  again overwrites the error: open reports success and the stream is still idle.
\<close>

theorem open_masks_session_error:
  assumes "fst (run_state (until_fail ds (Device_open E)) w) = 0" and "ds \<noteq> []"
    and "\<forall>l. ans E l (Sess s SOpen) \<noteq> 0"
  shows "fst (run_state (open_idle E (Device_vt E) s ds) w) = 0 \<and>
    wstr (snd (run_state (open_idle E (Device_vt E) s ds) w)) = wstr w"
proof -
  obtain w1 where o: "run_state (until_fail ds (Device_open E)) w = (0, w1)"
    using assms(1) by (metis fst_conv surj_pair)
  let ?w2 = "w1\<lparr>wlog := Unlock GraphMutex # Sess s SOpen # Lock GraphMutex # wlog w1\<rparr>"
  let ?c = "last_status (ans E (Lock GraphMutex # wlog w1) (Sess s SOpen)) ds (vt_close (Device_vt E))"
  have run: "run_state (open_idle E (Device_vt E) s ds) w = run_state ?c ?w2"
    using o assms(3) by (simp add: open_idle_def)
  have "keeps wstr (until_fail ds (Device_open E))" by (rule kp_until_fail, rule kp_open_str)
  then have "wstr w1 = wstr w" using o by (rule keepsD)
  moreover have "keeps wstr ?c" by (rule kp_last_status, rule base_blind.vt_close_str)
  ultimately show ?thesis
    using last_close_status [OF assms(2)] keeps_snd [of wstr ?c ?w2] by (simp add: run)
qed

definition demo_refusing_env :: env where
  "demo_refusing_env = demo_env\<lparr>ans := (\<lambda>l c. if c = Sess 5 SOpen then - EIO else ans demo_env l c)\<rparr>"

theorem open_masks_session_error_witness:
  "fst (run_state (open_idle demo_refusing_env (Device_vt demo_refusing_env) 5 [3]) (demo_world [3] 1)) = 0 \<and>
   currentState (wstr (snd (run_state (open_idle demo_refusing_env (Device_vt demo_refusing_env) 5 [3])
     (demo_world [3] 1))) 5) = STREAM_IDLE"
proof -
  have "fst (run_state (until_fail [3] (Device_open demo_refusing_env)) (demo_world [3] 1)) = 0"
    by (simp add: demo_refusing_env_def device_eval demo_world_defs)
  from open_masks_session_error [OF this, of 5] show ?thesis
    by (simp add: demo_refusing_env_def demo_counts)
qed

end
