(* ===== verification/PCM_Registers.thy ===== *)
theory PCM_Registers
  imports PCM_States
begin

text \<open>
  Starting and stopping a PCM stream against the resource manager's register of active devices:
  a started stream is registered with every device it runs on, a stopped one with none, and the
  two balance.
\<close>

section \<open>The register under a list of devices\<close>

fun reg_list :: "nat \<Rightarrow> nat list \<Rightarrow> (nat \<times> nat) list \<Rightarrow> (nat \<times> nat) list" where
  "reg_list s [] l = l"
| "reg_list s (d # ds) l = reg_list s ds (if (d, s) \<in> set l then l else l @ [(d, s)])"

fun dereg_list :: "nat \<Rightarrow> nat list \<Rightarrow> (nat \<times> nat) list \<Rightarrow> (nat \<times> nat) list" where
  "dereg_list s [] l = l"
| "dereg_list s (d # ds) l = dereg_list s ds (remove1 (d, s) l)"

lemma reg_list_props:
  "set (reg_list s ds l) = set l \<union> (\<lambda>d. (d, s)) ` set ds"
  "distinct l \<Longrightarrow> distinct (reg_list s ds l)"
  "filter (\<lambda>p. snd p \<noteq> s) (reg_list s ds l) = filter (\<lambda>p. snd p \<noteq> s) l"
  by (induction ds arbitrary: l) auto

lemma filter_remove1_other: "\<not> P x \<Longrightarrow> filter P (remove1 x l) = filter P l"
  by (induction l) auto

lemma dereg_list_props:
  "distinct l \<Longrightarrow> set (dereg_list s ds l) = set l - (\<lambda>d. (d, s)) ` set ds"
  "filter (\<lambda>p. snd p \<noteq> s) (dereg_list s ds l) = filter (\<lambda>p. snd p \<noteq> s) l"
  by (induction ds arbitrary: l) (auto simp: filter_remove1_other)

lemma dereg_reg_list:
  assumes "distinct l" "\<forall>p\<in>set l. snd p \<noteq> s"
  shows "dereg_list s ds (reg_list s ds l) = l"
proof -
  let ?l = "dereg_list s ds (reg_list s ds l)"
  have "set ?l = set l"
    using assms by (auto simp: dereg_list_props reg_list_props)
  then have "filter (\<lambda>p. snd p \<noteq> s) ?l = ?l" using assms(2) by simp
  then show ?thesis using assms(2) by (simp add: dereg_list_props reg_list_props)
qed

lemma register_all_run:
  assumes "run_state (for_each ds (\<lambda>d. do { RM_registerDevice d s; return () })) w = (u, w')"
  shows "wstr w' = wstr w \<and> active_of w' = reg_list s ds (active_of w)"
  using assms
proof (induction ds arbitrary: w)
  case (Cons d ds)
  obtain r w1 where 1: "run_state (RM_registerDevice d s) w = (r, w1)"
    and 2: "run_state (for_each ds (\<lambda>d. do { RM_registerDevice d s; return () })) w1 = (u, w')"
    using Cons.prems by (auto split: prod.splits)
  show ?case
    using Cons.IH [OF 2] registerDevice_run(3,4) [OF 1] by (simp add: active_of_def)
qed simp

lemma deregister_all_run:
  assumes "run_state (for_each ds (\<lambda>d. do { RM_deregisterDevice d s; return () })) w = (u, w')"
  shows "wstr w' = wstr w \<and> active_of w' = dereg_list s ds (active_of w)"
  using assms
proof (induction ds arbitrary: w)
  case (Cons d ds)
  obtain r w1 where 1: "run_state (RM_deregisterDevice d s) w = (r, w1)"
    and 2: "run_state (for_each ds (\<lambda>d. do { RM_deregisterDevice d s; return () })) w1 = (u, w')"
    using Cons.prems by (auto split: prod.splits)
  show ?case
    using Cons.IH [OF 2] deregisterDevice_run(3,4) [OF 1] by (simp add: active_of_def)
qed simp

section \<open>Start and stop\<close>

lemma obs_log [simp]:
  "active_of (w\<lparr>wlog := l\<rparr>) = active_of w" "active_of (w\<lparr>wstr := x\<rparr>) = active_of w"
  "state_of s (w\<lparr>wlog := l\<rparr>) = state_of s w"
  by (simp_all add: active_of_def state_of_def)

lemma start_register_run:
  assumes "run_state (start_register s) w = (u, w')"
  shows "active_of w' = reg_list s (mDevices (wstr w s)) (active_of w)"
    "wstr w' = (wstr w)(s := (wstr w s)\<lparr>currentState := STREAM_STARTED\<rparr>)"
  using assms unfolding start_register_def
  by (elim run_bindE, auto dest!: register_all_run)+

lemma start_run:
  assumes run: "run_state (StreamPCM_start E (Device_vt E) s) w = (r, w')"
    and "state_of s w \<noteq> STREAM_STARTED" "state_of s w' = STREAM_STARTED"
  shows "active_of w' = reg_list s (mDevices (wstr w' s)) (active_of w)"
proof -
  let ?w0 = "w\<lparr>wlog := GetSoundCardState # Lock (StreamMutex s) # wlog w\<rparr>"
  obtain go r1 w2 u w3 where b: "run_state (start_by_direction E (Device_vt E) s) ?w0 = ((go, r1), w2)"
    and reg: "run_state (when_io go (start_register s)) w2 = (u, w3)"
    and w': "w' = w3\<lparr>wlog := Unlock (StreamMutex s) # wlog w3\<rparr>"
    using run assms(2,3) unfolding StreamPCM_start_def
    by (elim run_bindE) (auto simp: state_of_def split: if_splits prod.splits elim!: run_bindE)
  have st: "state_of s w2 = state_of s w" and ac: "active_of w2 = active_of w"
    using keepsD [OF st.base_quiet.q_start_by_direction b] keepsD [OF act.base_quiet.q_start_by_direction b]
    by simp_all
  have go using reg st assms(2,3) w' by (cases go) simp_all
  then have "run_state (start_register s) w2 = (u, w3)" using reg by simp
  then show ?thesis using start_register_run ac w' by fastforce
qed

lemma stop_run:
  assumes run: "run_state (StreamPCM_stop E (Device_vt E) s) w = (r, w')"
    and "state_of s w = STREAM_STARTED \<or> state_of s w = STREAM_PAUSED"
  shows "active_of w' = dereg_list s (mDevices (wstr w s)) (active_of w)"
  using run assms(2) unfolding StreamPCM_stop_def
  by (elim run_bindE)
     (auto simp: state_of_def split: if_splits prod.splits elim!: run_bindE dest!: deregister_all_run
       keepsD [OF act.base_quiet.q_stop_by_direction])

text \<open>
  C10: When a start has taken the stream to the started state, the stream is registered with
  every device it then runs on, each pair once, and no other entry of the register changed;
  stopping it removes exactly these entries and leaves the register as it was before the start,
  whatever the session and the devices answered.
\<close>

theorem start_stop_register:
  assumes "run_state (StreamPCM_start E (Device_vt E) s) w = (r, w1)"
    and "run_state (StreamPCM_stop E (Device_vt E) s) w1 = (r', w2)"
    and "currentState (wstr w s) \<noteq> STREAM_STARTED" and "currentState (wstr w1 s) = STREAM_STARTED"
    and "distinct (active_devices (wrm w))" and "\<forall>p\<in>set (active_devices (wrm w)). snd p \<noteq> s"
  shows "set (active_devices (wrm w1)) =
      set (active_devices (wrm w)) \<union> {(d, s) |d. d \<in> set (mDevices (wstr w1 s))} \<and>
    distinct (active_devices (wrm w1)) \<and>
    active_devices (wrm w2) = active_devices (wrm w)"
proof -
  have a: "active_of w1 = reg_list s (mDevices (wstr w1 s)) (active_of w)"
    by (rule start_run [OF assms(1)]) (simp_all add: state_of_def assms(3,4))
  have b: "active_of w2 = dereg_list s (mDevices (wstr w1 s)) (active_of w1)"
    by (rule stop_run [OF assms(2)]) (simp add: state_of_def assms(4))
  have "active_of w2 = active_of w"
    unfolding b a by (rule dereg_reg_list) (use assms(5,6) in \<open>simp_all add: active_of_def\<close>)
  then show ?thesis
    using a reg_list_props(1,2) [where s = s and ds = "mDevices (wstr w1 s)" and l = "active_of w"] assms(5)
    by (auto simp: active_of_def)
qed

theorem start_stop_register_witness:
  "set (active_devices (wrm (demo_started [3] 1))) =
      {(d, 5) |d. d \<in> set (mDevices (wstr (demo_started [3] 1) 5))} \<and>
   distinct (active_devices (wrm (demo_started [3] 1))) \<and>
   active_devices (wrm (snd (run_state (StreamPCM_stop demo_env (Device_vt demo_env) 5) (demo_started [3] 1)))) = []"
  using start_stop_register [OF demo_start_run prod.collapse [symmetric]] demo_states by simp

end
