(* ===== verification/PCM_IO.thy ===== *)
theory PCM_IO
  imports PCM_Registers
begin

text \<open>
  Transfers, volume, mute and pause of a PCM stream: what a client gets while the sound card is
  down, what is cached and when it reaches the session.
\<close>

section \<open>Dropped buffers\<close>

lemma to_int32_small: "n < 2 ^ 31 \<Longrightarrow> to_int32 n = int n"
  by (simp add: to_int32_def)

lemma drop_time_exact:
  assumes "n < 2 ^ 31" and "n * 1000000 div (frame_size c * sample_rate c) < 2 ^ 32"
  shows "drop_time c (int n) = n * 1000000 div (frame_size c * sample_rate c)"
proof -
  have "n * 1000000 < 2 ^ 64" using assms(1) by simp
  then show ?thesis
    using assms by (simp add: drop_time_def div_mult2_eq nat_mod_distrib)
qed

definition card_down :: "env \<Rightarrow> nat \<Rightarrow> world \<Rightarrow> bool" where
  "card_down E s w \<longleftrightarrow> PAL_CARD_STATUS_DOWN (ans E (Lock (StreamMutex s) # wlog w) GetSoundCardState)"

text \<open>
  While the card is down or a restart is not finished, reading and writing never reach the
  session: the call sleeps for the playing time of the buffer, rounded down to a microsecond,
  reports the whole buffer as transferred (zeroed, for a read) and changes nothing else.
\<close>

theorem dropped_transfer_paced:
  assumes "mStreamAttr (wstr w s) = Some a"
    and "card_down E s w \<or> cachedState (wstr w s) \<noteq> STREAM_IDLE"
    and "n < 2 ^ 31"
    and "0 < frame_size (in_media_config a)" and "0 < sample_rate (in_media_config a)"
    and "n * 1000000 div (frame_size (in_media_config a) * sample_rate (in_media_config a)) < 2 ^ 32"
    and "0 < frame_size (out_media_config a)" and "0 < sample_rate (out_media_config a)"
    and "n * 1000000 div (frame_size (out_media_config a) * sample_rate (out_media_config a)) < 2 ^ 32"
  shows "run_state (StreamPCM_read E s n) w =
      (int n, w\<lparr>wlog := [Unlock (StreamMutex s),
         Usleep (n * 1000000 div (frame_size (in_media_config a) * sample_rate (in_media_config a))),
         ZeroBuffer n, GetSoundCardState, Lock (StreamMutex s)] @ wlog w\<rparr>) \<and>
    run_state (StreamPCM_write E s n) w =
      (int n, w\<lparr>wlog := [Unlock (StreamMutex s),
         Usleep (n * 1000000 div (frame_size (out_media_config a) * sample_rate (out_media_config a))),
         GetSoundCardState, Lock (StreamMutex s)] @ wlog w\<rparr>)"
proof -
  have z: "nat (to_int32 n mod 2 ^ 64) = n"
    using assms(3) by (simp add: to_int32_small nat_mod_distrib)
  note d = drop_time_exact [OF assms(3,6)] drop_time_exact [OF assms(3,9)]
  show ?thesis
    using assms z d to_int32_small [OF assms(3)]
    by (auto simp: StreamPCM_read_def StreamPCM_write_def card_down_or_def card_down_def drop_buffer_def
        in_config_def out_config_def)
qed

section \<open>Volume\<close>

definition volume_of :: "nat \<Rightarrow> world \<Rightarrow> pal_volume_data option" where
  "volume_of s w = mVolumeData (wstr w s)"

lemma kp_volume:
  "keeps (volume_of s) (push_volume E s v)" "keeps (volume_of s) (StreamPCM_mute_l E s b)"
  unfolding push_volume_def StreamPCM_mute_l_def StreamPCM_direction_def
  by (rule kp_rules | simp add: volume_of_def)+

lemma copy_volume_take:
  "copy_volume v = v\<lparr>volume_pair := take (no_of_volpair v mod 32) (volume_pair v)\<rparr>"
proof -
  have "(4 + 8 * n) mod 256 = 4 + 8 * (n mod 32)" for n :: nat
  proof -
    have "(8 * n) mod 256 = 8 * (n mod 32)" using mult_mod_right [of 8 n 32] by simp
    moreover have "n mod 32 < 32" by simp
    ultimately show ?thesis using mod_add_right_eq [of 4 "8 * n" 256] by simp
  qed
  then show ?thesis by (simp add: copy_volume_def vol_size_def)
qed


lemma kp_apply_volume: "keeps (volume_of s) (apply_volume E s v)"
  unfolding apply_volume_def by (rule kp_volume kp_rules | simp add: volume_of_def)+

text \<open>
  A volume the client sets is cached exactly as given, independent of the state of the stream
  and of what the session answers, if it has fewer than 32 channel pairs.  Its size is computed
  in eight bits: of a longer one only the number of pairs modulo 32 is copied.
\<close>

theorem set_volume_cached:
  assumes "0 < no_of_volpair v" and "length (volume_pair v) = no_of_volpair v"
    and "\<forall>l. ans E l (AllocFails (vol_size (no_of_volpair v))) = 0"
  shows "mVolumeData (wstr (snd (run_state (StreamPCM_setVolume E s (Some v)) w)) s) =
      Some (v\<lparr>volume_pair := take (no_of_volpair v mod 32) (volume_pair v)\<rparr>) \<and>
    (mVolumeData (wstr (snd (run_state (StreamPCM_setVolume E s (Some v)) w)) s) = Some v) =
      (no_of_volpair v < 32)"
proof -
  have "volume_of s (snd (run_state (StreamPCM_setVolume E s (Some v)) w)) = Some (copy_volume v)"
    using assms(1,3)
    by (simp add: StreamPCM_setVolume_def keeps_snd [OF kp_apply_volume]) (simp add: volume_of_def)
  moreover have "(copy_volume v = v) = (no_of_volpair v < 32)"
    using assms(2) mod_less_divisor [of 32 "no_of_volpair v"]
    unfolding copy_volume_take by (cases v) auto
  ultimately show ?thesis by (auto simp: volume_of_def copy_volume_take)
qed

theorem dropped_transfer_paced_witness:
  "run_state (StreamPCM_write demo_env 5 1920) ((demo_world [3] 1)
       \<lparr>wstr := (\<lambda>s. (demo_stream [3] 1)\<lparr>cachedState := STREAM_STARTED\<rparr>)\<rparr>) =
     (1920, (demo_world [3] 1)\<lparr>wstr := (\<lambda>s. (demo_stream [3] 1)\<lparr>cachedState := STREAM_STARTED\<rparr>),
        wlog := [Unlock (StreamMutex 5), Usleep 10000, GetSoundCardState, Lock (StreamMutex 5)]\<rparr>)"
proof -
  let ?w = "(demo_world [3] 1)\<lparr>wstr := (\<lambda>s. (demo_stream [3] 1)\<lparr>cachedState := STREAM_STARTED\<rparr>)\<rparr>"
  have c: "in_media_config (demo_attrs 2 1) = demo_config" "out_media_config (demo_attrs 2 1) = demo_config"
    "frame_size demo_config = 4" "sample_rate demo_config = 48000"
    by (simp_all add: demo_attrs_def frame_size_def demo_config_def)
  have s: "mStreamAttr (wstr ?w 5) = Some (demo_attrs 2 1)" "cachedState (wstr ?w 5) \<noteq> STREAM_IDLE"
    "wlog ?w = []"
    by (simp_all add: demo_stream_def demo_world_def)
  show ?thesis
    using dropped_transfer_paced [where w = ?w and s = 5 and n = 1920 and E = demo_env, OF s(1) disjI2 [OF s(2)]]
      s(3) c by simp
qed

definition demo_volume :: "nat \<Rightarrow> pal_volume_data" where
  "demo_volume n = \<lparr>no_of_volpair = n, volume_pair = replicate n \<lparr>channel_mask = 1, vol = 1 / 2\<rparr>\<rparr>"

theorem set_volume_cached_witness:
  "mVolumeData (wstr (snd (run_state (StreamPCM_setVolume demo_env 5 (Some (demo_volume 33))) (demo_world [3] 1))) 5) =
     Some ((demo_volume 33)\<lparr>volume_pair := [\<lparr>channel_mask = 1, vol = 1 / 2\<rparr>]\<rparr>)"
  using set_volume_cached [of "demo_volume 33" demo_env 5 "demo_world [3] 1"]
  by (simp add: demo_volume_def)

section \<open>Mute\<close>

lemma push_volume_ok:
  assumes "\<forall>l. ans E l (Sess s SSetVolume) = 0" "\<forall>l p. ans E l (Sess s (SSetParameters p)) = 0"
  obtains l where "run_state (push_volume E s v) w = (0, w\<lparr>wlog := l\<rparr>)"
proof -
  have "only_log (push_volume E s v)"
    unfolding push_volume_def by (rule kp_rules | simp)+
  then obtain l where "snd (run_state (push_volume E s v) w) = w\<lparr>wlog := l\<rparr>"
    by (rule only_logD) (rule prod.collapse [symmetric])
  moreover have "fst (run_state (push_volume E s v) w) = 0"
    using assms by (simp add: push_volume_def Let_def)
  ultimately show thesis using that by (metis prod.collapse)
qed

text \<open>
  Unmuting a playback stream that is silent because all its volumes are zero does not reach
  the session but is remembered, and the next volume that is not zero delivers it: the last thing
  the session sees is the unmute, and nothing stays pending.
\<close>

theorem unmute_delivered:
  assumes "mStreamAttr (wstr w s) = Some a" and "direction a = PAL_AUDIO_OUTPUT"
    and "mVolumeData (wstr w s) = Some z" and "\<forall>p\<in>set (volume_pair z). vol p = 0"
    and "currentState (wstr w s) \<noteq> STREAM_IDLE" and "currentState (wstr w s) \<noteq> STREAM_INIT"
    and "\<not> isPaused (wstr w s)" and "\<not> a2dpMuted (wstr w s)"
    and "length (volume_pair v) = no_of_volpair v" and "no_of_volpair v < 32"
    and "\<exists>p\<in>set (volume_pair v). vol p \<noteq> 0"
    and "\<forall>l n. ans E l (AllocFails n) = 0" and "\<forall>l. ans E l GetSoundCardState = int CARD_STATUS_ONLINE"
    and "\<forall>l. ans E l (Sess s SSetVolume) = 0" and "\<forall>l p. ans E l (Sess s (SSetParameters p)) = 0"
  defines "w1 \<equiv> snd (run_state (StreamPCM_mute E s False) w)"
  defines "w2 \<equiv> snd (run_state (StreamPCM_setVolume E s (Some v)) w1)"
  shows "wlog w1 = Unlock (StreamMutex s) # Lock (StreamMutex s) # wlog w \<and> unMutePending (wstr w1 s) \<and>
    hd (wlog w2) = Sess s (SMute False) \<and> \<not> unMutePending (wstr w2 s)"
proof -
  have z: "all_volumes_zero (Some z)" using assms(4) by (auto simp: all_volumes_zero_def dest: in_set_takeD)
  have w1: "w1 = w\<lparr>wlog := Unlock (StreamMutex s) # Lock (StreamMutex s) # wlog w,
      wstr := (wstr w)(s := (wstr w s)\<lparr>unMutePending := True\<rparr>)\<rparr>"
    using assms(1-3) z
    by (simp add: w1_def StreamPCM_mute_def StreamPCM_mute_l_def StreamPCM_direction_def)
  have cv: "copy_volume v = v" using assms(9,10) by (simp add: copy_volume_take)
  have "volume_pair v \<noteq> []" using assms(11) by auto
  then have "no_of_volpair v \<noteq> 0" using assms(9) by (metis length_0_conv)
  then have nz: "\<not> all_volumes_zero (Some v)" "no_of_volpair v \<noteq> 0"
    using assms(9,11) by (auto simp: all_volumes_zero_def)
  let ?w = "w\<lparr>wstr := (wstr w)(s := (wstr w s)\<lparr>unMutePending := True, mVolumeData := Some v\<rparr>),
      wlog := GetSoundCardState # AllocFails (vol_size (no_of_volpair v)) # Unlock (StreamMutex s)
        # Lock (StreamMutex s) # wlog w\<rparr>"
  obtain l where p: "run_state (push_volume E s v) ?w = (0, ?w\<lparr>wlog := l\<rparr>)"
    by (rule push_volume_ok [OF assms(14,15)])
  have "w2 = ?w\<lparr>wlog := Sess s (SMute False) # l,
      wstr := (wstr ?w)(s := (wstr ?w s)\<lparr>unMutePending := False\<rparr>)\<rparr>"
    using p nz assms(1,2,5-10,12,13) unfolding w2_def
    by (simp add: StreamPCM_setVolume_def apply_volume_def cv w1 StreamPCM_mute_l_def StreamPCM_direction_def)
  then show ?thesis by (simp add: w1)
qed

theorem unmute_delivered_witness:
  "let w = (demo_world [3] 1)\<lparr>wstr := (\<lambda>s. (demo_stream [3] 1)\<lparr>currentState := STREAM_STARTED,
           mVolumeData := Some \<lparr>no_of_volpair = 1, volume_pair = [\<lparr>channel_mask = 1, vol = 0\<rparr>]\<rparr>\<rparr>)\<rparr>;
       w1 = snd (run_state (StreamPCM_mute demo_env 5 False) w);
       w2 = snd (run_state (StreamPCM_setVolume demo_env 5 (Some (demo_volume 1))) w1)
   in unMutePending (wstr w1 5) \<and> hd (wlog w2) = Sess 5 (SMute False) \<and> \<not> unMutePending (wstr w2 5)"
  unfolding Let_def
  by (insert unmute_delivered [where E = demo_env and s = 5 and v = "demo_volume 1" and a = "demo_attrs 2 1"
      and z = "\<lparr>no_of_volpair = 1, volume_pair = [\<lparr>channel_mask = 1, vol = 0\<rparr>]\<rparr>"
      and w = "(demo_world [3] 1)\<lparr>wstr := (\<lambda>s. (demo_stream [3] 1)\<lparr>currentState := STREAM_STARTED,
           mVolumeData := Some \<lparr>no_of_volpair = 1, volume_pair = [\<lparr>channel_mask = 1, vol = 0\<rparr>]\<rparr>\<rparr>)\<rparr>"])
    (simp add: demo_stream_def demo_attrs_def demo_volume_def)

end
