(* ===== verification/ST_Utils.thy ===== *)
theory ST_Utils
  imports Pal_Stream
begin

text \<open>
  The concurrency handling of the detection streams, \<^verbatim>\<open>utils/src/STUtils.cpp\<close>: which capture
  profile they share, when they are paused by a concurrent stream, and when they move between
  the low power island (LPI) and the normal path (NLPI), at once or deferred.  The streams are
  reached through their virtual methods, the table \<open>stream_vt\<close>.
\<close>

section \<open>Virtual streams\<close>

record stream_vt =
  sv_isActive :: "nat \<Rightarrow> bool io"
  sv_IsStreamInBuffering :: "nat \<Rightarrow> bool io"
  sv_ConfigSupportLPI :: "nat \<Rightarrow> bool io"
  sv_GetCurrentCaptureProfile :: "nat \<Rightarrow> CaptureProfile option io"
  sv_Pause :: "nat \<Rightarrow> bool \<Rightarrow> int io"
  sv_Resume :: "nat \<Rightarrow> bool \<Rightarrow> int io"
  sv_HandleConcurrentStream :: "nat \<Rightarrow> bool \<Rightarrow> int io"
  sv_DisconnectDevice :: "nat \<Rightarrow> nat \<Rightarrow> int io"
  sv_ConnectDevice :: "nat \<Rightarrow> nat \<Rightarrow> int io"
  sv_start_l :: "nat \<Rightarrow> int io"
  sv_callback :: "nat \<Rightarrow> unit io"

text \<open>Streams of a class that is not modelled: every call is logged and answered by the
  environment, and the client's callback does nothing.\<close>

definition ask :: "env \<Rightarrow> st_event \<Rightarrow> bool io" where
  "ask E e = do { r \<leftarrow> call E (St e); return (r \<noteq> 0) }"

definition other_vt :: "env \<Rightarrow> stream_vt" where
  "other_vt E = \<lparr>
     sv_isActive = (\<lambda>s. ask E (StreamIsActive s)),
     sv_IsStreamInBuffering = (\<lambda>s. ask E (StreamInBuffering s)),
     sv_ConfigSupportLPI = (\<lambda>s. ask E (StreamConfigSupportLPI s)),
     sv_GetCurrentCaptureProfile = (\<lambda>s. gets (\<lambda>w. streamprof E (wlog w) s)),
     sv_Pause = (\<lambda>s b. call E (St (StreamCall s (CPause b)))),
     sv_Resume = (\<lambda>s b. call E (St (StreamCall s (CResume b)))),
     sv_HandleConcurrentStream = (\<lambda>s b. call E (St (StreamCall s (CHandleConcurrentStream b)))),
     sv_DisconnectDevice = (\<lambda>s d. call E (St (StreamCall s (CDisconnectDevice d)))),
     sv_ConnectDevice = (\<lambda>s d. call E (St (StreamCall s (CConnectDevice d)))),
     sv_start_l = (\<lambda>s. call E (St (StreamCall s CStart_l))),
     sv_callback = (\<lambda>s. return ())\<rparr>"

section \<open>Platform flags\<close>

definition CheckForForcedTransitToNonLPI :: "STUtils \<Rightarrow> bool" where
  "CheckForForcedTransitToNonLPI u \<longleftrightarrow> IsTransitToNonLPIOnChargingSupported u \<and> charging_state u"

definition IsVoiceCallConcurrencySupported :: "STUtils \<Rightarrow> bool" where
  "IsVoiceCallConcurrencySupported u = (if IsCRSCallEnabled u then True else concurrent_voice_call u)"

definition isTxConcurrencyActive :: "STUtils \<Rightarrow> bool" where
  "isTxConcurrencyActive u \<longleftrightarrow> TxconcurrencyEnableCount u > 0"

definition GetSTDisableConcurrencyCount_l :: "nat \<Rightarrow> STUtils \<Rightarrow> int option" where
  "GetSTDisableConcurrencyCount_l type u =
     (if type = PAL_STREAM_ACD then Some (ACDConcurrencyDisableCount u)
      else if type = PAL_STREAM_VOICE_UI then Some (concurrencyDisableCount u)
      else if type = PAL_STREAM_ASR then Some (ASRConcurrencyDisableCount u)
      else if type = PAL_STREAM_SENSOR_PCM_DATA then Some (SNSPCMDataConcurrencyDisableCount u)
      else None)"

definition GetSTDisableConcurrencyCount :: "nat \<Rightarrow> int option io" where
  "GetSTDisableConcurrencyCount type = do {
     lock ActiveStreamMutex;
     n \<leftarrow> stu (GetSTDisableConcurrencyCount_l type);
     unlock ActiveStreamMutex;
     return n
   }"

section \<open>The shared capture profile\<close>

definition shared_mic :: "nat \<Rightarrow> bool" where
  "shared_mic d \<longleftrightarrow> d = PAL_DEVICE_IN_HANDSET_MIC \<or> d = PAL_DEVICE_IN_SPEAKER_MIC \<or> d = PAL_DEVICE_IN_WIRED_HEADSET"

text \<open>The loop the four \<^verbatim>\<open>Get...CaptureProfileByPriority\<close> share: \<open>need_active\<close> for the classes
  that skip inactive streams, \<open>own_mic\<close> for voice UI, which skips profiles on a shared microphone.\<close>

fun profile_loop :: "stream_vt \<Rightarrow> bool \<Rightarrow> bool \<Rightarrow> nat option \<Rightarrow> string \<Rightarrow> nat list \<Rightarrow>
    CaptureProfile option \<Rightarrow> CaptureProfile option io" where
  "profile_loop V need_active own_mic s be [] prio = return prio"
| "profile_loop V need_active own_mic s be (t # ts) prio =
     (if Some t = s then profile_loop V need_active own_mic s be ts prio
      else do {
        act \<leftarrow> (if need_active then sv_isActive V t else return True);
        if \<not> act then profile_loop V need_active own_mic s be ts prio
        else do {
          cap \<leftarrow> sv_GetCurrentCaptureProfile V t;
          profile_loop V need_active own_mic s be ts
            (case cap of
               None \<Rightarrow> prio
             | Some c \<Rightarrow>
                 if own_mic \<and> shared_mic (cp_device_id c) then prio
                 else if cp_backend c \<noteq> be then prio
                 else if higher c prio then Some c else prio)
        }
      })"

definition profile_by_priority :: "stream_vt \<Rightarrow> nat \<Rightarrow> bool \<Rightarrow> bool \<Rightarrow> nat option \<Rightarrow>
    CaptureProfile option \<Rightarrow> string \<Rightarrow> CaptureProfile option io" where
  "profile_by_priority V type need_active own_mic s prio be = do {
     ts \<leftarrow> rmg (\<lambda>rm. RM_getActiveStreamByType_l rm type);
     profile_loop V need_active own_mic s be ts prio
   }"

definition GetSVACaptureProfileByPriority ::
    "stream_vt \<Rightarrow> nat option \<Rightarrow> CaptureProfile option \<Rightarrow> string \<Rightarrow> CaptureProfile option io" where
  "GetSVACaptureProfileByPriority V = profile_by_priority V PAL_STREAM_VOICE_UI True True"

definition GetACDCaptureProfileByPriority ::
    "stream_vt \<Rightarrow> nat option \<Rightarrow> CaptureProfile option \<Rightarrow> string \<Rightarrow> CaptureProfile option io" where
  "GetACDCaptureProfileByPriority V = profile_by_priority V PAL_STREAM_ACD True False"

definition GetSPDCaptureProfileByPriority ::
    "stream_vt \<Rightarrow> nat option \<Rightarrow> CaptureProfile option \<Rightarrow> string \<Rightarrow> CaptureProfile option io" where
  "GetSPDCaptureProfileByPriority V = profile_by_priority V PAL_STREAM_SENSOR_PCM_DATA False False"

definition GetASRCaptureProfileByPriority ::
    "stream_vt \<Rightarrow> nat option \<Rightarrow> CaptureProfile option \<Rightarrow> string \<Rightarrow> CaptureProfile option io" where
  "GetASRCaptureProfileByPriority V = profile_by_priority V PAL_STREAM_ASR True False"

definition GetCaptureProfileByPriority :: "stream_vt \<Rightarrow> nat option \<Rightarrow> string \<Rightarrow> CaptureProfile option io" where
  "GetCaptureProfileByPriority V s be = do {
     status \<leftarrow> (case s of None \<Rightarrow> return 0 | Some s \<Rightarrow> do { (r, a) \<leftarrow> Stream_getStreamAttributes s; return r });
     if status \<noteq> 0 then return None
     else do {
       p \<leftarrow> GetSVACaptureProfileByPriority V s None be;
       p \<leftarrow> GetACDCaptureProfileByPriority V s p be;
       p \<leftarrow> GetSPDCaptureProfileByPriority V s p be;
       GetASRCaptureProfileByPriority V s p be
     }
   }"

definition GetSoundTriggerCaptureProfile :: "CaptureProfile option io" where
  "GetSoundTriggerCaptureProfile = do {
     lock StUtilsMutex;
     p \<leftarrow> stu SoundTriggerCaptureProfile;
     unlock StUtilsMutex;
     return p
   }"

definition GetTXMacroCaptureProfile :: "CaptureProfile option io" where
  "GetTXMacroCaptureProfile = do {
     lock StUtilsMutex;
     p \<leftarrow> stu TXMacroCaptureProfile;
     unlock StUtilsMutex;
     return p
   }"

definition updateCaptureProfiles :: "stream_vt \<Rightarrow> unit io" where
  "updateCaptureProfiles V = do {
     st \<leftarrow> GetCaptureProfileByPriority V None ''va_macro'';
     tx \<leftarrow> GetCaptureProfileByPriority V None ''tx_macro'';
     lock StUtilsMutex;
     upd_stu (\<lambda>u. u\<lparr>SoundTriggerCaptureProfile := st, TXMacroCaptureProfile := tx\<rparr>);
     unlock StUtilsMutex
   }"

text \<open>One of the two comparisons that end the inactive branch: a missing profile resets the
  common one, a higher one replaces it and asks for an update of the backend.\<close>

definition settle_profile :: "CaptureProfile option \<Rightarrow> CaptureProfile option \<Rightarrow> CaptureProfile option \<times> bool" where
  "settle_profile new common =
     (case new of
        None \<Rightarrow> (None, False)
      | Some p \<Rightarrow> if higher p common then (Some p, True) else (common, False))"

definition settle_profiles :: "CaptureProfile option \<Rightarrow> CaptureProfile option \<Rightarrow> bool io" where
  "settle_profiles st tx = do {
     lock StUtilsMutex;
     (st', b1) \<leftarrow> stu (\<lambda>u. settle_profile st (SoundTriggerCaptureProfile u));
     upd_stu (SoundTriggerCaptureProfile_update (\<lambda>_. st'));
     (tx', b2) \<leftarrow> stu (\<lambda>u. settle_profile tx (TXMacroCaptureProfile u));
     upd_stu (TXMacroCaptureProfile_update (\<lambda>_. tx'));
     unlock StUtilsMutex;
     return (b1 \<or> b2)
   }"

definition detection_type :: "nat \<Rightarrow> bool" where
  "detection_type t \<longleftrightarrow> t = PAL_STREAM_VOICE_UI \<or> t = PAL_STREAM_ACD \<or> t = PAL_STREAM_SENSOR_PCM_DATA \<or> t = PAL_STREAM_ASR"

definition UpdateSoundTriggerCaptureProfile :: "stream_vt \<Rightarrow> nat \<Rightarrow> bool \<Rightarrow> bool io" where
  "UpdateSoundTriggerCaptureProfile V s is_active = do {
     (status, a) \<leftarrow> Stream_getStreamAttributes s;
     case a of
       None \<Rightarrow> return False
     | Some a \<Rightarrow>
         if status \<noteq> 0 \<or> \<not> detection_type (stype a) then return False
         else if is_active then do {
           cap \<leftarrow> sv_GetCurrentCaptureProfile V s;
           case cap of
             None \<Rightarrow> return False
           | Some c \<Rightarrow> do {
               lock StUtilsMutex;
               common \<leftarrow> stu (if cp_backend c \<noteq> ''tx_macro'' then SoundTriggerCaptureProfile else TXMacroCaptureProfile);
               let update = (common \<noteq> None \<and> higher c common);
               let common' = (if common = None \<or> update then Some c else common);
               upd_stu (if cp_backend c \<noteq> ''tx_macro'' then SoundTriggerCaptureProfile_update (\<lambda>_. common')
                        else TXMacroCaptureProfile_update (\<lambda>_. common'));
               unlock StUtilsMutex;
               return update
             }
         }
         else do {
           st \<leftarrow> GetCaptureProfileByPriority V (Some s) ''va_macro'';
           tx \<leftarrow> GetCaptureProfileByPriority V (Some s) ''tx_macro'';
           settle_profiles st tx
         }
   }"

section \<open>Actions on all detection streams of a type\<close>

datatype st_action =
  ST_PAUSE "nat option" | ST_RESUME "nat option" | ST_HANDLE_CONCURRENT_STREAM bool
| ST_HANDLE_DISCONNECT_DEVICE nat | ST_HANDLE_CONNECT_DEVICE nat
| ST_INTERNAL_PAUSE "nat option" | ST_INTERNAL_RESUME "nat option"

text \<open>\<open>data\<close> of the pausing actions is the stream to leave alone.\<close>

fun act_on :: "stream_vt \<Rightarrow> st_action \<Rightarrow> nat \<Rightarrow> int \<Rightarrow> int io" where
  "act_on V (ST_PAUSE d) t st = (if Some t \<noteq> d then sv_Pause V t False else return st)"
| "act_on V (ST_RESUME d) t st = (if Some t \<noteq> d then sv_Resume V t False else return st)"
| "act_on V (ST_HANDLE_CONCURRENT_STREAM b) t st = sv_HandleConcurrentStream V t b"
| "act_on V (ST_HANDLE_DISCONNECT_DEVICE i) t st = sv_DisconnectDevice V t i"
| "act_on V (ST_HANDLE_CONNECT_DEVICE i) t st = sv_ConnectDevice V t i"
| "act_on V (ST_INTERNAL_PAUSE d) t st = (if Some t \<noteq> d then sv_Pause V t True else return st)"
| "act_on V (ST_INTERNAL_RESUME d) t st = (if Some t \<noteq> d then sv_Resume V t True else return st)"

fun act_on_all :: "stream_vt \<Rightarrow> nat \<Rightarrow> st_action \<Rightarrow> nat list \<Rightarrow> int \<Rightarrow> int io" where
  "act_on_all V type action [] st = return st"
| "act_on_all V type action (t # ts) st = do {
     active \<leftarrow> RM_isStreamActive t;
     if \<not> active then act_on_all V type action ts st
     else do {
       (r, a) \<leftarrow> Stream_getStreamAttributes t;
       if map_option stype a \<noteq> Some type then act_on_all V type action ts st
       else do {
         st' \<leftarrow> act_on V action t st;
         act_on_all V type action ts st'
       }
     }
   }"

definition HandleDetectionStreamAction :: "stream_vt \<Rightarrow> nat \<Rightarrow> st_action \<Rightarrow> int io" where
  "HandleDetectionStreamAction V type action = do {
     m \<leftarrow> rmg activeStreamMap;
     if detection_type type \<and> m type = None then return 0
     else do {
       ts \<leftarrow> rmg mActiveStreams;
       act_on_all V type action ts 0
     }
   }"

definition StopOtherDetectionStreams :: "stream_vt \<Rightarrow> nat \<Rightarrow> int io" where
  "StopOtherDetectionStreams V s = do {
     HandleDetectionStreamAction V PAL_STREAM_VOICE_UI (ST_INTERNAL_PAUSE (Some s));
     HandleDetectionStreamAction V PAL_STREAM_ACD (ST_PAUSE (Some s));
     HandleDetectionStreamAction V PAL_STREAM_ASR (ST_INTERNAL_PAUSE (Some s));
     HandleDetectionStreamAction V PAL_STREAM_SENSOR_PCM_DATA (ST_PAUSE (Some s));
     return 0
   }"

definition StartOtherDetectionStreams :: "stream_vt \<Rightarrow> nat \<Rightarrow> int io" where
  "StartOtherDetectionStreams V s = do {
     HandleDetectionStreamAction V PAL_STREAM_VOICE_UI (ST_INTERNAL_RESUME (Some s));
     HandleDetectionStreamAction V PAL_STREAM_ACD (ST_RESUME (Some s));
     HandleDetectionStreamAction V PAL_STREAM_ASR (ST_INTERNAL_RESUME (Some s));
     HandleDetectionStreamAction V PAL_STREAM_SENSOR_PCM_DATA (ST_RESUME (Some s));
     return 0
   }"

section \<open>Pausing\<close>

text \<open>\<^verbatim>\<open>local_dis_count\<close> points to the count of the type.\<close>

definition dis_count :: "nat \<Rightarrow> STUtils \<Rightarrow> int" where
  "dis_count type u =
     (if type = PAL_STREAM_ACD then ACDConcurrencyDisableCount u
      else if type = PAL_STREAM_ASR then ASRConcurrencyDisableCount u
      else if type = PAL_STREAM_VOICE_UI then concurrencyDisableCount u
      else SNSPCMDataConcurrencyDisableCount u)"

definition set_dis_count :: "nat \<Rightarrow> int \<Rightarrow> STUtils \<Rightarrow> STUtils" where
  "set_dis_count type n u =
     (if type = PAL_STREAM_ACD then u\<lparr>ACDConcurrencyDisableCount := n\<rparr>
      else if type = PAL_STREAM_ASR then u\<lparr>ASRConcurrencyDisableCount := n\<rparr>
      else if type = PAL_STREAM_VOICE_UI then u\<lparr>concurrencyDisableCount := n\<rparr>
      else u\<lparr>SNSPCMDataConcurrencyDisableCount := n\<rparr>)"

definition HandleStreamPauseResume :: "stream_vt \<Rightarrow> nat \<Rightarrow> bool \<Rightarrow> unit io" where
  "HandleStreamPauseResume V type active =
     (if \<not> detection_type type then return ()
      else do {
        n \<leftarrow> stu (dis_count type);
        if active then do {
          upd_stu (set_dis_count type (n + 1));
          when_io (n + 1 = 1) (do { HandleDetectionStreamAction V type (ST_PAUSE None); return () })
        }
        else if n < 0 then upd_stu (set_dis_count type 0)
        else when_io (n > 0) (do {
          upd_stu (set_dis_count type (n - 1));
          when_io (n - 1 = 0) (do { HandleDetectionStreamAction V type (ST_RESUME None); return () })
        })
      })"

section \<open>Registers\<close>

definition RegisterSTCaptureHandle :: "int \<Rightarrow> nat \<Rightarrow> bool \<Rightarrow> unit io" where
  "RegisterSTCaptureHandle h s start =
     upd_stu (\<lambda>u. u\<lparr>mStCaptureInfo := (mStCaptureInfo u)(h := (if start then Some s else None))\<rparr>)"

definition registerNLPIStream :: "nat \<Rightarrow> unit io" where
  "registerNLPIStream s = do {
     lock StUtilsMutex;
     upd_stu (mNLPIStreams_update (insert s));
     unlock StUtilsMutex
   }"

definition deregisterNLPIStream :: "nat \<Rightarrow> unit io" where
  "deregisterNLPIStream s = do {
     lock StUtilsMutex;
     upd_stu (mNLPIStreams_update (\<lambda>S. S - {s}));
     unlock StUtilsMutex
   }"

definition getSTDeferedSwitchState :: "defer_switch_state_t io" where
  "getSTDeferedSwitchState = do {
     lock ActiveStreamMutex;
     d \<leftarrow> stu deferredSwitchState;
     unlock ActiveStreamMutex;
     return d
   }"

text \<open>\<^verbatim>\<open>std::list::remove\<close> removes every occurrence.\<close>

definition updateDeferredSTStreams :: "nat \<Rightarrow> bool \<Rightarrow> unit io" where
  "updateDeferredSTStreams s active = do {
     lock ActiveStreamMutex;
     upd_stu (mStartDeferredStreams_update (\<lambda>l. if active then l @ [s] else removeAll s l));
     unlock ActiveStreamMutex
   }"

section \<open>Switching between LPI and NLPI\<close>

fun any_buffering :: "stream_vt \<Rightarrow> nat list \<Rightarrow> bool io" where
  "any_buffering V [] = return False"
| "any_buffering V (t # ts) = do {
     b \<leftarrow> sv_IsStreamInBuffering V t;
     if b then return True else any_buffering V ts
   }"

definition RM_isAnyStreamBuffering :: "stream_vt \<Rightarrow> bool io" where
  "RM_isAnyStreamBuffering V = do { ts \<leftarrow> rmg mActiveStreams; any_buffering V ts }"

text \<open>Every branch returns through \<open>done\<close>, which releases the mutex.\<close>

definition checkAndUpdateDeferSwitchState :: "stream_vt \<Rightarrow> bool \<Rightarrow> bool io" where
  "checkAndUpdateDeferSwitchState V stream_active = do {
     lock VuiSwitchMutex;
     d \<leftarrow> stu deferredSwitchState;
     barge \<leftarrow> stu low_latency_bargein_enable;
     r \<leftarrow>
       (if \<not> stream_active then do {
          vui \<leftarrow> rmg (\<lambda>rm. RM_getActiveStreamByType_l rm PAL_STREAM_VOICE_UI);
          if d = DEFER_LPI_NLPI_SWITCH then do {
            upd_stu (deferredSwitchState_update (\<lambda>_. NO_DEFER));
            when_io barge (upd_stu (deferred_switch_cnt_update (\<lambda>_. - 1)));
            return True
          }
          else if barge \<and> vui \<noteq> [] then do {
            upd_stu (\<lambda>u. u\<lparr>deferredSwitchState := DEFER_NLPI_LPI_SWITCH, deferred_switch_cnt := 5\<rparr>);
            tell (St SwitchNotify);
            return True
          }
          else do {
            b \<leftarrow> RM_isAnyStreamBuffering V;
            if b then do {
              upd_stu (deferredSwitchState_update (\<lambda>_. DEFER_NLPI_LPI_SWITCH));
              return True
            }
            else return False
          }
        }
        else if d = DEFER_NLPI_LPI_SWITCH then do {
          upd_stu (deferredSwitchState_update (\<lambda>_. NO_DEFER));
          when_io barge (upd_stu (deferred_switch_cnt_update (\<lambda>_. - 1)));
          return True
        }
        else do {
          b \<leftarrow> RM_isAnyStreamBuffering V;
          if b then do {
            upd_stu (deferredSwitchState_update (\<lambda>_. DEFER_LPI_NLPI_SWITCH));
            return True
          }
          else return False
        });
     unlock VuiSwitchMutex;
     return r
   }"

fun act_for_types :: "stream_vt \<Rightarrow> st_action \<Rightarrow> nat list \<Rightarrow> unit io" where
  "act_for_types V action [] = return ()"
| "act_for_types V action (t # ts) = do {
     HandleDetectionStreamAction V t action;
     act_for_types V action ts
   }"

text \<open>The common profiles are cleared before they are looked up, so the comparison that follows
  always lets a profile through.\<close>

definition refresh_profiles :: "stream_vt \<Rightarrow> unit io" where
  "refresh_profiles V = do {
     upd_stu (SoundTriggerCaptureProfile_update (\<lambda>_. None));
     st \<leftarrow> GetCaptureProfileByPriority V None ''va_macro'';
     upd_stu (TXMacroCaptureProfile_update (\<lambda>_. None));
     tx \<leftarrow> GetCaptureProfileByPriority V None ''tx_macro'';
     settle_profiles st tx;
     return ()
   }"

definition handleConcurrentStreamSwitch :: "stream_vt \<Rightarrow> nat list \<Rightarrow> unit io" where
  "handleConcurrentStreamSwitch V st_streams = do {
     when_io (st_streams \<noteq> []) (refresh_profiles V);
     act_for_types V (ST_HANDLE_CONCURRENT_STREAM False) st_streams;
     act_for_types V (ST_HANDLE_CONCURRENT_STREAM True) st_streams
   }"

text \<open>\<^verbatim>\<open>GetConcurrencyInfo\<close>: whether the stream is receive or transmit concurrency and whether the
  detection streams may go on beside it.  The three results start as the caller sets them.\<close>

definition GetConcurrencyInfo :: "stream_vt \<Rightarrow> nat \<Rightarrow> (bool \<times> bool \<times> bool) io" where
  "GetConcurrencyInfo V s = do {
     u \<leftarrow> stu (\<lambda>u. u);
     (status, a) \<leftarrow> Stream_getStreamAttributes s;
     case a of
       None \<Rightarrow> return (False, False, True)
     | Some a \<Rightarrow> do {
         let t = stype a;
         let cap = concurrent_capture u;
         let rx = (direction a = PAL_AUDIO_OUTPUT \<and>
           \<not> (t = PAL_STREAM_LOW_LATENCY \<and> \<not> low_latency_bargein_enable u) \<and>
           t \<noteq> PAL_STREAM_SENSOR_PCM_RENDERER \<and> t \<noteq> PAL_STREAM_HAPTICS);
         if t = PAL_STREAM_VOICE_CALL then return (True, True, cap \<and> IsVoiceCallConcurrencySupported u)
         else if t = PAL_STREAM_VOIP_TX then return (rx, True, cap \<and> concurrent_voip_call u)
         else if detection_type t then do {
           lpi \<leftarrow> sv_ConfigSupportLPI V s;
           return (rx, \<not> lpi, True)
         }
         else if direction a = PAL_AUDIO_INPUT \<and> t \<noteq> PAL_STREAM_CONTEXT_PROXY
         then return (rx, True, cap \<or> t = PAL_STREAM_PROXY)
         else if t = PAL_STREAM_LOOPBACK then return (True, True, cap)
         else return (rx, False, True)
       }
   }"

definition effective_lpi :: "STUtils \<Rightarrow> bool" where
  "effective_lpi u =
     (case deferredSwitchState u of
        DEFER_LPI_NLPI_SWITCH \<Rightarrow> False
      | DEFER_NLPI_LPI_SWITCH \<Rightarrow> True
      | NO_DEFER \<Rightarrow> use_lpi u)"

text \<open>The middle of \<^verbatim>\<open>HandleConcurrencyForSoundTriggerStreams\<close>: whether to switch, and whether
  LPI is to be used afterwards.\<close>

definition plan_switch :: "nat \<Rightarrow> bool \<Rightarrow> bool \<Rightarrow> (bool \<times> bool) io" where
  "plan_switch s active use_lpi_temp = do {
     nlpi \<leftarrow> stu support_nlpi_switch;
     if \<not> nlpi then return (False, use_lpi_temp)
     else if active then do {
       registerNLPIStream s;
       S \<leftarrow> stu mNLPIStreams;
       if S \<noteq> {} \<and> use_lpi_temp then return (True, False) else return (False, use_lpi_temp)
     }
     else do {
       deregisterNLPIStream s;
       S \<leftarrow> stu mNLPIStreams;
       m \<leftarrow> rmg activeStreamMap;
       force \<leftarrow> stu CheckForForcedTransitToNonLPI;
       if S = {} \<and> \<not> (m PAL_STREAM_VOICE_UI \<noteq> None \<and> force) then return (True, True)
       else return (False, use_lpi_temp)
     }
   }"

abbreviation (input) detection_types :: "nat list" where
  "detection_types \<equiv> [PAL_STREAM_VOICE_UI, PAL_STREAM_ACD, PAL_STREAM_ASR, PAL_STREAM_SENSOR_PCM_DATA]"

fun pause_types :: "stream_vt \<Rightarrow> bool \<Rightarrow> bool \<Rightarrow> nat list \<Rightarrow> bool \<Rightarrow> bool io" where
  "pause_types V conc_en active [] notify = return notify"
| "pause_types V conc_en active (t # ts) notify =
     (if conc_en then pause_types V conc_en active ts notify
      else do {
        n \<leftarrow> stu concurrencyDisableCount;
        HandleStreamPauseResume V t active;
        pause_types V conc_en active ts (notify \<or> (t = PAL_STREAM_VOICE_UI \<and> n = 1 \<and> \<not> active))
      })"

fun resources_available :: "(nat \<times> nat) list \<Rightarrow> unit io" where
  "resources_available [] = return ()"
| "resources_available ((cb, c) # l) = do { tell (St (ResourcesAvailable cb c)); resources_available l }"

text \<open>The two halves of \<^verbatim>\<open>HandleConcurrencyForSoundTriggerStreams\<close>: the decision, and pausing and
  switching.\<close>

definition conc_plan :: "stream_vt \<Rightarrow> nat \<Rightarrow> bool \<Rightarrow> (bool \<times> bool \<times> bool) io" where
  "conc_plan V s active = do {
     use_lpi_temp \<leftarrow> stu effective_lpi;
     (rx, tx, conc_en) \<leftarrow> GetConcurrencyInfo V s;
     when_io tx (upd_stu (TxconcurrencyEnableCount_update (\<lambda>n. if active then n + 1 else if n > 0 then n - 1 else n)));
     (do_switch, use_lpi_temp) \<leftarrow>
       (if conc_en \<and> (rx \<or> tx) then plan_switch s active use_lpi_temp else return (False, use_lpi_temp));
     return (conc_en, do_switch, use_lpi_temp)
   }"

definition conc_settle :: "stream_vt \<Rightarrow> bool \<Rightarrow> bool \<times> bool \<times> bool \<Rightarrow> bool io" where
  "conc_settle V active plan =
     (case plan of (conc_en, do_switch, use_lpi_temp) \<Rightarrow> do {
        notify \<leftarrow> pause_types V conc_en active detection_types False;
        when_io do_switch (do {
          deferred \<leftarrow> checkAndUpdateDeferSwitchState V active;
          when_io (\<not> deferred) (do {
            upd_stu (use_lpi_update (\<lambda>_. use_lpi_temp));
            handleConcurrentStreamSwitch V detection_types
          })
        });
        return notify
      })"

definition HandleConcurrencyForSoundTriggerStreams :: "stream_vt \<Rightarrow> nat \<Rightarrow> bool \<Rightarrow> unit io" where
  "HandleConcurrencyForSoundTriggerStreams V s active = do {
     lock ActiveStreamMutex;
     plan \<leftarrow> conc_plan V s active;
     notify \<leftarrow> conc_settle V active plan;
     unlock ActiveStreamMutex;
     cbs \<leftarrow> stu onResourceAvailCbList;
     when_io notify (resources_available cbs)
   }"

definition active_types :: "nat list \<Rightarrow> RM \<Rightarrow> nat list" where
  "active_types ts rm = filter (\<lambda>t. RM_getActiveStreamByType_l rm t \<noteq> []) ts"

text \<open>Called with the active stream mutex held.\<close>

definition onChargingStateChange :: "stream_vt \<Rightarrow> unit io" where
  "onChargingStateChange V = do {
     lpi \<leftarrow> stu effective_lpi;
     vui \<leftarrow> rmg (\<lambda>rm. RM_getActiveStreamByType_l rm PAL_STREAM_VOICE_UI);
     charging \<leftarrow> stu charging_state;
     S \<leftarrow> stu mNLPIStreams;
     if vui = [] then return ()
     else if (charging \<and> lpi) \<or> (\<not> charging \<and> \<not> lpi \<and> S = {}) then do {
       st_streams \<leftarrow> rmg (active_types detection_types);
       deferred \<leftarrow> checkAndUpdateDeferSwitchState V lpi;
       when_io (\<not> deferred) (do {
         upd_stu (use_lpi_update (\<lambda>_. \<not> lpi));
         handleConcurrentStreamSwitch V st_streams
       })
     }
     else return ()
   }"

definition onVUIStreamRegistered :: "stream_vt \<Rightarrow> unit io" where
  "onVUIStreamRegistered V = do {
     lock ActiveStreamMutex;
     force \<leftarrow> stu CheckForForcedTransitToNonLPI;
     when_io force (do {
       st_streams \<leftarrow> rmg (active_types [PAL_STREAM_ACD, PAL_STREAM_SENSOR_PCM_DATA]);
       lpi \<leftarrow> stu use_lpi;
       when_io lpi (do {
         upd_stu (use_lpi_update (\<lambda>_. False));
         handleConcurrentStreamSwitch V st_streams
       })
     });
     unlock ActiveStreamMutex
   }"

definition onVUIStreamDeregistered :: "stream_vt \<Rightarrow> unit io" where
  "onVUIStreamDeregistered V = do {
     lock ActiveStreamMutex;
     force \<leftarrow> stu CheckForForcedTransitToNonLPI;
     when_io force (do {
       st_streams \<leftarrow> rmg (active_types [PAL_STREAM_ACD, PAL_STREAM_SENSOR_PCM_DATA]);
       lpi \<leftarrow> stu use_lpi;
       S \<leftarrow> stu mNLPIStreams;
       when_io (\<not> lpi \<and> S = {}) (do {
         upd_stu (use_lpi_update (\<lambda>_. True));
         handleConcurrentStreamSwitch V st_streams
       })
     });
     unlock ActiveStreamMutex
   }"

definition SwitchSoundTriggerDevices :: "stream_vt \<Rightarrow> bool \<Rightarrow> nat \<Rightarrow> unit io" where
  "SwitchSoundTriggerDevices V connect_state st_device = do {
     ok \<leftarrow> stu support_device_switch;
     if \<not> ok then return ()
     else do {
       refresh_profiles V;
       lock ActiveStreamMutex;
       st_streams \<leftarrow> rmg (active_types detection_types);
       act_for_types V (ST_HANDLE_DISCONNECT_DEVICE
         (if connect_state then PAL_DEVICE_IN_HANDSET_VA_MIC else st_device)) st_streams;
       act_for_types V (ST_HANDLE_CONNECT_DEVICE
         (if connect_state then st_device else PAL_DEVICE_IN_HANDSET_VA_MIC)) st_streams;
       unlock ActiveStreamMutex
     }
   }"

definition mapped_types :: "nat list \<Rightarrow> RM \<Rightarrow> nat list" where
  "mapped_types ts rm = filter (\<lambda>t. activeStreamMap rm t \<noteq> None) ts"

definition forceSwitchSoundTriggerStreams :: "env \<Rightarrow> stream_vt \<Rightarrow> bool \<Rightarrow> unit io" where
  "forceSwitchSoundTriggerStreams E V active = do {
     card \<leftarrow> call E GetSoundCardState;
     when_io (\<not> PAL_CARD_STATUS_DOWN card) (do {
       lock ActiveStreamMutex;
       st_streams \<leftarrow> rmg (mapped_types [PAL_STREAM_VOICE_UI, PAL_STREAM_ACD, PAL_STREAM_SENSOR_PCM_DATA]);
       deferred \<leftarrow> checkAndUpdateDeferSwitchState V active;
       when_io (\<not> deferred) (handleConcurrentStreamSwitch V st_streams);
       unlock ActiveStreamMutex
     })
   }"

fun start_deferred :: "stream_vt \<Rightarrow> nat list \<Rightarrow> unit io" where
  "start_deferred V [] = return ()"
| "start_deferred V (s # ss) = do {
     lock (StreamMutex s);
     sv_start_l V s;
     unlock (StreamMutex s);
     start_deferred V ss
   }"

text \<open>The body of \<^verbatim>\<open>stHandleDeferredSwitch\<close>.\<close>

definition deferred_switch :: "stream_vt \<Rightarrow> unit io" where
  "deferred_switch V = do {
     b \<leftarrow> RM_isAnyStreamBuffering V;
     d \<leftarrow> stu deferredSwitchState;
     when_io (\<not> b \<and> d \<noteq> NO_DEFER) (do {
       upd_stu (use_lpi_update (\<lambda>_. d \<noteq> DEFER_LPI_NLPI_SWITCH));
       st_streams \<leftarrow> rmg (mapped_types detection_types);
       handleConcurrentStreamSwitch V st_streams;
       upd_stu (deferredSwitchState_update (\<lambda>_. NO_DEFER));
       when_io (d = DEFER_LPI_NLPI_SWITCH) (do {
         l \<leftarrow> stu mStartDeferredStreams;
         start_deferred V l;
         upd_stu (mStartDeferredStreams_update (\<lambda>_. []))
       })
     })
   }"

text \<open>
  The loop around \<^verbatim>\<open>tryLockActiveStream\<close> spins until it gets the mutex or the card is not online;
  the iterations that do neither change nothing, so only the last one is here: it either takes
  the mutex or leaves because of the card.  The card is then asked once more.
\<close>

definition stHandleDeferredSwitch :: "env \<Rightarrow> stream_vt \<Rightarrow> unit io" where
  "stHandleDeferredSwitch E V = do {
     got \<leftarrow> ask E (TryLock ActiveStreamMutex);
     when_io got (lock ActiveStreamMutex);
     card \<leftarrow> call E GetSoundCardState;
     if card \<noteq> int CARD_STATUS_ONLINE then when_io got (unlock ActiveStreamMutex)
     else do {
       deferred_switch V;
       unlock ActiveStreamMutex
     }
   }"

text \<open>The two parameters; \<open>size_ok\<close> says that the payload has the size of its structure.\<close>

definition setSTParameter_charging :: "stream_vt \<Rightarrow> bool \<Rightarrow> bool \<Rightarrow> int io" where
  "setSTParameter_charging V size_ok state = do {
     sup \<leftarrow> stu IsTransitToNonLPIOnChargingSupported;
     if \<not> sup then return 0
     else if \<not> size_ok then return (- EINVAL)
     else do {
       old \<leftarrow> stu charging_state;
       if old = state then return 0
       else do {
         upd_stu (charging_state_update (\<lambda>_. state));
         lock ActiveStreamMutex;
         onChargingStateChange V;
         unlock ActiveStreamMutex;
         return 0
       }
     }
   }"

definition setSTParameter_resources :: "(nat \<times> nat) option \<Rightarrow> int io" where
  "setSTParameter_resources cb =
     (case cb of
        None \<Rightarrow> return (- EINVAL)
      | Some c \<Rightarrow> do {
          upd_stu (onResourceAvailCbList_update (\<lambda>l. if c \<in> set l then l else l @ [c]));
          return 0
        })"

section \<open>The device of a detection stream\<close>

text \<open>The structure is on the stack; the code fills in five fields of it.\<close>

definition profile_device :: "pal_device \<Rightarrow> nat \<Rightarrow> CaptureProfile \<Rightarrow> pal_device" where
  "profile_device junk i c = junk\<lparr>dev_id := i, config := (config junk)\<lparr>bit_width := cp_bitwidth c,
     channels := cp_channels c, sample_rate := cp_sample_rate c, aud_fmt_id := PAL_AUDIO_FMT_PCM_S16_LE\<rparr>\<rparr>"

definition GetPalDevice :: "env \<Rightarrow> stream_vt \<Rightarrow> nat \<Rightarrow> nat \<Rightarrow> nat option io" where
  "GetPalDevice E V s i = do {
     (status, a) \<leftarrow> Stream_getStreamAttributes s;
     if status \<noteq> 0 then return None
     else do {
       own \<leftarrow> sv_GetCurrentCaptureProfile V s;
       st \<leftarrow> GetSoundTriggerCaptureProfile;
       tx \<leftarrow> GetTXMacroCaptureProfile;
       let common = (if i = PAL_DEVICE_IN_ULTRASOUND_MIC then tx else st);
       let cap = (case common of None \<Rightarrow> own | Some c \<Rightarrow> if own = None \<or> higher c own then Some c else own);
       if own = None \<and> st = None \<and> tx = None then return None
       else case cap of
         None \<Rightarrow> do { tell OutOfBounds; return None }
       | Some c \<Rightarrow> do {
           attr \<leftarrow> gets (\<lambda>w. profile_device (stackdev E (wlog w)) i c);
           d \<leftarrow> Device_getInstance E attr;
           case d of
             None \<Rightarrow> return None
           | Some d \<Rightarrow> do {
               Device_setDeviceAttributes d attr;
               upd_dev d (UpdatedSndName_update (\<lambda>_. cp_snd_name c));
               return (Some d)
             }
         }
     }
   }"

end
