(* ===== verification/ST_Concurrency.thy ===== *)
theory ST_Concurrency
  imports ST_Utils
begin

text \<open>
  Properties of the concurrency handling of the detection streams: the counts that pause them,
  the register of streams that keep them out of the low power island, the deferred switch, and
  the choice of the common capture profile.
\<close>

section \<open>What the virtual streams leave alone\<close>

text \<open>The part of the globals that only the concurrency handling itself changes, and the part of
  the registers it reads.\<close>

definition hide :: "STUtils \<Rightarrow> STUtils" where
  "hide u = u\<lparr>SoundTriggerCaptureProfile := None, TXMacroCaptureProfile := None,
     mStCaptureInfo := (\<lambda>_. None), mStartDeferredStreams := []\<rparr>"

definition kind_of :: "world \<Rightarrow> nat \<Rightarrow> (nat \<times> nat) option" where
  "kind_of w s = map_option (\<lambda>a. (stype a, direction a)) (mStreamAttr (wstr w s))"

lemma kind_of_upd [simp]:
  "kind_of (w\<lparr>wlog := l\<rparr>) = kind_of w" "kind_of (w\<lparr>wstu := u\<rparr>) = kind_of w"
  by (simp_all add: kind_of_def fun_eq_iff)

definition sig :: "world \<Rightarrow> STUtils \<times> (nat \<Rightarrow> nat list option) \<times> nat list \<times> (nat \<Rightarrow> (nat \<times> nat) option)" where
  "sig w = (hide (wstu w), activeStreamMap (wrm w), mActiveStreams (wrm w), kind_of w)"

locale quiet_streams =
  fixes V :: stream_vt
  assumes quiet_queries: "keeps sig (sv_isActive V t)" "keeps sig (sv_IsStreamInBuffering V t)"
      "keeps sig (sv_GetCurrentCaptureProfile V t)" "keeps sig (sv_ConfigSupportLPI V t)"
    and quiet_calls: "keeps sig (sv_Pause V t b)" "keeps sig (sv_Resume V t b)"
      "keeps sig (sv_HandleConcurrentStream V t b)" "keeps sig (sv_DisconnectDevice V t i)"
      "keeps sig (sv_ConnectDevice V t i)" "keeps sig (sv_start_l V t)"
begin

lemma sg_log: "sig (w\<lparr>wlog := l\<rparr>) = sig w"
  by (simp add: sig_def kind_of_def fun_eq_iff)

lemma sg_stu: "(\<And>u. hide (f u) = hide u) \<Longrightarrow> keeps sig (upd_stu f)"
  by (simp add: keeps_def sig_def kind_of_def fun_eq_iff)

lemmas sg_steps = kp_log [of sig, OF sg_log] kp_bind kp_if kp_when kp_cases kp_let kp_pure sg_stu

lemma sg_getStreamAttributes: "keeps sig (Stream_getStreamAttributes s)"
  unfolding Stream_getStreamAttributes_def by (rule sg_steps)+

lemma sg_profile_loop: "keeps sig (profile_loop V na om s be ts p)"
  by (induction ts arbitrary: p)
     (auto simp del: if_split intro!: sg_steps quiet_queries)

lemma sg_profiles:
  "keeps sig (GetCaptureProfileByPriority V s be)" "keeps sig (settle_profiles st tx)"
  unfolding GetCaptureProfileByPriority_def GetSVACaptureProfileByPriority_def
    GetACDCaptureProfileByPriority_def GetSPDCaptureProfileByPriority_def
    GetASRCaptureProfileByPriority_def profile_by_priority_def settle_profiles_def
  by (rule sg_steps sg_getStreamAttributes sg_profile_loop | simp add: hide_def)+

lemma sg_act_on: "keeps sig (act_on V a t st)"
  by (cases "(V, a, t, st)" rule: act_on.cases) (auto simp del: if_split intro!: sg_steps quiet_calls)

lemma sg_act_on_all: "keeps sig (act_on_all V ty a ts st)"
  by (induction ts arbitrary: st)
     (auto simp del: if_split simp: RM_isStreamActive_def intro!: sg_steps sg_getStreamAttributes sg_act_on)

lemma sg_action: "keeps sig (HandleDetectionStreamAction V ty a)"
  unfolding HandleDetectionStreamAction_def by (rule sg_steps sg_act_on_all)+

lemma sg_act_for_types: "keeps sig (act_for_types V a ts)"
  by (induction ts) (auto intro!: sg_steps sg_action)

lemma sg_switch: "keeps sig (handleConcurrentStreamSwitch V ts)"
  unfolding handleConcurrentStreamSwitch_def refresh_profiles_def
  by (rule sg_steps sg_act_for_types sg_profiles | simp add: hide_def)+

lemma sg_any_buffering: "keeps sig (any_buffering V ts)"
  by (induction ts) (auto simp del: if_split intro!: sg_steps quiet_queries)

lemma sg_buffering: "keeps sig (RM_isAnyStreamBuffering V)"
  unfolding RM_isAnyStreamBuffering_def by (rule sg_steps sg_any_buffering)+

end

interpretation other: quiet_streams "other_vt E" for E
proof -
  have log: "sig (w\<lparr>wlog := l\<rparr>) = sig w" for w l
    by (simp add: sig_def kind_of_def fun_eq_iff)
  show "quiet_streams (other_vt E)"
    by unfold_locales
       (auto simp: other_vt_def ask_def intro!: kp_bind kp_pure kp_log log)
qed

section \<open>The counts and the switch\<close>

text \<open>What a stream that is not a detection stream means for them, from its type and direction.\<close>

definition conc_info :: "STUtils \<Rightarrow> nat \<times> nat \<Rightarrow> bool \<times> bool \<times> bool" where
  "conc_info u k =
     (let t = fst k; cap = concurrent_capture u;
          rx = (snd k = PAL_AUDIO_OUTPUT \<and> \<not> (t = PAL_STREAM_LOW_LATENCY \<and> \<not> low_latency_bargein_enable u) \<and>
            t \<noteq> PAL_STREAM_SENSOR_PCM_RENDERER \<and> t \<noteq> PAL_STREAM_HAPTICS)
      in if t = PAL_STREAM_VOICE_CALL then (True, True, cap \<and> IsVoiceCallConcurrencySupported u)
         else if t = PAL_STREAM_VOIP_TX then (rx, True, cap \<and> concurrent_voip_call u)
         else if snd k = PAL_AUDIO_INPUT \<and> t \<noteq> PAL_STREAM_CONTEXT_PROXY then (rx, True, cap \<or> t = PAL_STREAM_PROXY)
         else if t = PAL_STREAM_LOOPBACK then (True, True, cap)
         else (rx, False, True))"

lemma conc_info_hide: "conc_info (hide u) k = conc_info u k"
  by (simp add: conc_info_def hide_def IsVoiceCallConcurrencySupported_def Let_def)

lemma getConcurrencyInfo_run:
  assumes "kind_of w s = Some k" "\<not> detection_type (fst k)"
  shows "run_state (GetConcurrencyInfo V s) w = (conc_info (wstu w) k, w)"
  using assms
  by (auto simp: GetConcurrencyInfo_def Stream_getStreamAttributes_def conc_info_def kind_of_def Let_def)

text \<open>One more or one fewer pause for every type.\<close>

definition next_count :: "bool \<Rightarrow> int \<Rightarrow> int" where
  "next_count b n = (if b then n + 1 else if n > 0 then n - 1 else 0)"

definition count_all :: "bool \<Rightarrow> STUtils \<Rightarrow> STUtils" where
  "count_all b u = u\<lparr>concurrencyDisableCount := next_count b (concurrencyDisableCount u),
     ACDConcurrencyDisableCount := next_count b (ACDConcurrencyDisableCount u),
     ASRConcurrencyDisableCount := next_count b (ASRConcurrencyDisableCount u),
     SNSPCMDataConcurrencyDisableCount := next_count b (SNSPCMDataConcurrencyDisableCount u)\<rparr>"

definition upd_sig :: "(STUtils \<Rightarrow> STUtils) \<Rightarrow> world \<Rightarrow> world" where
  "upd_sig f w = w\<lparr>wstu := f (wstu w)\<rparr>"

definition open_update :: "(STUtils \<Rightarrow> STUtils) \<Rightarrow> bool" where
  "open_update f \<longleftrightarrow> (\<forall>u. hide (f u) = f (hide u))"

lemma sig_upd: "open_update f \<Longrightarrow> sig w' = sig w \<Longrightarrow> sig (upd_sig f w') = sig (upd_sig f w)"
  by (auto simp: sig_def upd_sig_def open_update_def kind_of_def fun_eq_iff)

lemma upd_sig_comp: "upd_sig f (upd_sig g w) = upd_sig (\<lambda>u. f (g u)) w"
  by (simp add: upd_sig_def)

lemma open_update_intros [intro]:
  "open_update (set_dis_count ty n)" "open_update (count_all b)"
  "open_update (deferredSwitchState_update (\<lambda>_. d))" "open_update (deferred_switch_cnt_update (\<lambda>_. n))"
  "open_update (use_lpi_update (\<lambda>_. b))" "open_update (mNLPIStreams_update g)"
  "open_update (TxconcurrencyEnableCount_update h)"
  by (auto simp: open_update_def hide_def set_dis_count_def count_all_def)

context quiet_streams
begin

lemma pause_resume_sig:
  assumes "detection_type ty"
  shows "sig (snd (run_state (HandleStreamPauseResume V ty b) w)) =
    sig (upd_sig (\<lambda>u. set_dis_count ty (next_count b (dis_count ty u)) u) w)"
proof -
  have same: "set_dis_count ty 0 (wstu w) = wstu w" if "dis_count ty (wstu w) = 0"
    using that by (auto simp: set_dis_count_def dis_count_def split: if_splits)
  have act: "sig (snd (case run_state (HandleDetectionStreamAction V ty a) x of (r, y) \<Rightarrow> ((), y))) = sig x" for a x
    using keeps_snd [OF sg_action, of ty a x] by (simp add: split_beta)
  consider "b" | "\<not> b" "dis_count ty (wstu w) < 0" | "\<not> b" "dis_count ty (wstu w) = 0"
    | "\<not> b" "dis_count ty (wstu w) > 0" by linarith
  then show ?thesis
    by cases (simp_all add: assms HandleStreamPauseResume_def next_count_def upd_sig_def act same)
qed

end

definition bump :: "bool \<Rightarrow> nat \<Rightarrow> STUtils \<Rightarrow> STUtils" where
  "bump b ty u = set_dis_count ty (next_count b (dis_count ty u)) u"

lemma open_bump [intro]: "open_update (bump b ty)"
  by (auto simp: open_update_def bump_def hide_def set_dis_count_def dis_count_def)

lemma bump_types: "fold (bump b) detection_types u = count_all b u"
  by (simp add: bump_def count_all_def set_dis_count_def dis_count_def)

lemma open_fold: "open_update (fold (bump b) ts)"
proof (induction ts)
  case (Cons t ts)
  then show ?case using open_bump [of b t] by (simp add: open_update_def)
qed (simp add: open_update_def)

definition defer_to :: "defer_switch_state_t \<Rightarrow> int \<Rightarrow> STUtils \<Rightarrow> STUtils" where
  "defer_to d c u = u\<lparr>deferredSwitchState := d, deferred_switch_cnt := c\<rparr>"

text \<open>What \<open>checkAndUpdateDeferSwitchState\<close> answers and where it leaves the deferred switch.\<close>

definition defer_rel :: "bool \<Rightarrow> defer_switch_state_t \<Rightarrow> bool \<Rightarrow> defer_switch_state_t \<Rightarrow> bool" where
  "defer_rel active d r d' =
     (let here = (if active then DEFER_LPI_NLPI_SWITCH else DEFER_NLPI_LPI_SWITCH);
          back = (if active then DEFER_NLPI_LPI_SWITCH else DEFER_LPI_NLPI_SWITCH)
      in if d = back then r \<and> d' = NO_DEFER else if r then d' = here else d' = d)"

lemma sig_globals:
  assumes "sig w' = sig w"
  shows "deferredSwitchState (wstu w') = deferredSwitchState (wstu w)"
    "low_latency_bargein_enable (wstu w') = low_latency_bargein_enable (wstu w)"
    "deferred_switch_cnt (wstu w') = deferred_switch_cnt (wstu w)"
  using assms by (auto simp: sig_def hide_def dest: arg_cong [where f = deferredSwitchState]
      arg_cong [where f = low_latency_bargein_enable] arg_cong [where f = deferred_switch_cnt])

lemma open_defer: "open_update (defer_to d c)"
  by (simp add: open_update_def defer_to_def hide_def)

context quiet_streams
begin

lemma pause_types_sig:
  assumes "\<forall>t\<in>set ts. detection_type t"
  shows "sig (snd (run_state (pause_types V False b ts nf) w)) = sig (upd_sig (fold (bump b) ts) w)"
  using assms
proof (induction ts arbitrary: nf w)
  case (Cons t ts)
  obtain r w1 where r: "run_state (HandleStreamPauseResume V t b) w = (r, w1)"
    using prod.exhaust by blast
  have "sig w1 = sig (upd_sig (bump b t) w)"
    using pause_resume_sig [of t b w] Cons.prems r by (simp add: bump_def [abs_def])
  then have "sig (upd_sig (fold (bump b) ts) w1) = sig (upd_sig (fold (bump b) (t # ts)) w)"
    using sig_upd [OF open_fold, of w1 "upd_sig (bump b t) w"] by (simp add: upd_sig_comp comp_def)
  then show ?case using Cons by (simp add: r comp_def)
qed (simp add: upd_sig_def)

lemma check_run:
  assumes "run_state (checkAndUpdateDeferSwitchState V b) w = (r, w')"
  obtains d' c' where "sig w' = sig (upd_sig (defer_to d' c') w)"
    "defer_rel b (deferredSwitchState (wstu w)) r d'"
proof -
  let ?u = "wstu w" and ?x = "w\<lparr>wlog := Lock VuiSwitchMutex # wlog w\<rparr>"
  let ?c = "if low_latency_bargein_enable ?u then - 1 else deferred_switch_cnt ?u"
  obtain bb y where bb: "run_state (RM_isAnyStreamBuffering V) ?x = (bb, y)"
    using prod.exhaust by blast
  have "sig y = sig ?x" using keepsD [OF sg_buffering bb] .
  then have y: "sig y = sig w" by (simp add: sg_log)
  have "\<exists>d' c' x l. w' = (upd_sig (defer_to d' c') x)\<lparr>wlog := l\<rparr> \<and> sig x = sig w \<and>
      defer_rel b (deferredSwitchState ?u) r d'"
  proof (cases "deferredSwitchState ?u = (if b then DEFER_NLPI_LPI_SWITCH else DEFER_LPI_NLPI_SWITCH)")
    case True
    then have "r \<and> w' = (upd_sig (defer_to NO_DEFER ?c) w)\<lparr>wlog := Unlock VuiSwitchMutex # Lock VuiSwitchMutex # wlog w\<rparr>"
      using assms by (auto simp: checkAndUpdateDeferSwitchState_def defer_to_def upd_sig_def split: if_splits)
    then show ?thesis using True by (auto simp: defer_rel_def)
  next
    case False
    let ?now = "\<not> b \<and> low_latency_bargein_enable ?u \<and> RM_getActiveStreamByType_l (wrm w) PAL_STREAM_VOICE_UI \<noteq> []"
    let ?here = "if b then DEFER_LPI_NLPI_SWITCH else DEFER_NLPI_LPI_SWITCH"
    have now: "?now \<Longrightarrow> r \<and> w' = (upd_sig (defer_to ?here 5) w)\<lparr>wlog := Unlock VuiSwitchMutex # St SwitchNotify # wlog ?x\<rparr>"
      and later: "\<not> ?now \<Longrightarrow> r = bb \<and> w' = (upd_sig (defer_to (if bb then ?here else deferredSwitchState ?u)
          (deferred_switch_cnt (wstu y))) y)\<lparr>wlog := Unlock VuiSwitchMutex # wlog y\<rparr>"
      using assms bb False sig_globals [OF y]
      by (auto simp: checkAndUpdateDeferSwitchState_def defer_to_def upd_sig_def split: if_splits)
    have rel: "defer_rel b (deferredSwitchState ?u) True ?here"
        "defer_rel b (deferredSwitchState ?u) bb (if bb then ?here else deferredSwitchState ?u)"
      using False by (auto simp: defer_rel_def)
    show ?thesis
    proof (cases ?now)
      case True
      have r: "r = True" using now [OF True] by simp
      show ?thesis using now [OF True] rel(1) unfolding r by blast
    next
      case nn: False
      have r: "r = bb" using later [OF nn] by simp
      show ?thesis using later [OF nn] rel(2) y unfolding r by blast
    qed
  qed
  then show thesis
    using that sig_upd [OF open_defer] by (metis sg_log)
qed

end

text \<open>The effect of a notification on the globals, for a stream of class \<open>info\<close>.\<close>

definition notified :: "nat \<Rightarrow> bool \<Rightarrow> bool \<times> bool \<times> bool \<Rightarrow> STUtils \<Rightarrow> STUtils" where
  "notified s b info u =
     (case info of (rx, tx, en) \<Rightarrow>
        (if en then id else count_all b)
          (u\<lparr>TxconcurrencyEnableCount := (if tx then next_count b (TxconcurrencyEnableCount u) else TxconcurrencyEnableCount u),
             mNLPIStreams := (if en \<and> (rx \<or> tx) then (if b then insert s (mNLPIStreams u) else mNLPIStreams u - {s})
                else mNLPIStreams u)\<rparr>))"

definition wants_switch :: "nat \<Rightarrow> bool \<Rightarrow> bool \<times> bool \<times> bool \<Rightarrow> STUtils \<Rightarrow> bool" where
  "wants_switch s b info u \<longleftrightarrow>
     (case info of (rx, tx, en) \<Rightarrow>
        en \<and> (rx \<or> tx) \<and> (if b then effective_lpi u else mNLPIStreams u - {s} = {}))"

definition notify_rel :: "nat \<Rightarrow> bool \<Rightarrow> bool \<times> bool \<times> bool \<Rightarrow> STUtils \<Rightarrow> STUtils \<Rightarrow> bool" where
  "notify_rel s b info u u' \<longleftrightarrow>
     (if wants_switch s b info u
      then \<exists>d' c' r. defer_rel b (deferredSwitchState u) r d' \<and>
             u' = (defer_to d' c' (notified s b info u))\<lparr>use_lpi := (if r then use_lpi u else \<not> b)\<rparr>
      else u' = notified s b info u)"

lemma open_notified: "open_update (notified s b info)"
  by (cases info) (auto simp: open_update_def notified_def hide_def count_all_def)

definition tx_ok :: "STUtils \<Rightarrow> bool" where
  "tx_ok u \<longleftrightarrow> 0 \<le> TxconcurrencyEnableCount u \<and> support_nlpi_switch u \<and> \<not> IsTransitToNonLPIOnChargingSupported u"

context quiet_streams
begin

lemma plan_run:
  assumes "kind_of w s = Some k" "\<not> detection_type (fst k)" "tx_ok (wstu w)"
    "conc_info (wstu w) k = (rx, tx, en)"
  shows "\<exists>l x. run_state (conc_plan V s b) w = ((en, wants_switch s b (rx, tx, en) (wstu w), l), x) \<and>
      (wants_switch s b (rx, tx, en) (wstu w) \<longrightarrow> l = (\<not> b)) \<and>
      sig (upd_sig (if en then id else count_all b) x) = sig (upd_sig (notified s b (rx, tx, en)) w)"
  using assms getConcurrencyInfo_run [OF assms(1,2), of V]
  by (auto simp: conc_plan_def plan_switch_def wants_switch_def registerNLPIStream_def
      deregisterNLPIStream_def CheckForForcedTransitToNonLPI_def tx_ok_def notified_def upd_sig_def
      next_count_def sig_def kind_of_def fun_eq_iff count_all_def hide_def split: if_splits)

end

lemma sig_wstu: "sig w' = sig w \<Longrightarrow> hide (wstu w') = hide (wstu w) \<and> kind_of w' = kind_of w"
  by (simp add: sig_def)

lemma sig_resources: "sig (snd (run_state (resources_available l) w)) = sig w"
  by (induction l arbitrary: w rule: resources_available.induct) (auto simp: sig_def kind_of_def fun_eq_iff)

context quiet_streams
begin

lemma pause_all_sig:
  assumes "run_state (pause_types V en b detection_types False) w = (nf, w')"
  shows "sig w' = sig (upd_sig (if en then id else count_all b) w)"
proof (cases en)
  case True
  then show ?thesis using assms by (simp add: upd_sig_def)
next
  case False
  have "fold (bump b) detection_types = count_all b" using bump_types by blast
  then show ?thesis
    using False assms pause_types_sig [of detection_types b False w] by (simp add: detection_type_def)
qed

lemma settle_run:
  assumes "run_state (conc_settle V b (en, sw, l)) x = (nf, w')"
  shows "if sw then \<exists>d' c' r. defer_rel b (deferredSwitchState (wstu x)) r d' \<and>
      sig w' = sig (upd_sig (\<lambda>u. (defer_to d' c' ((if en then id else count_all b) u))
        \<lparr>use_lpi := (if r then use_lpi u else l)\<rparr>) x)
    else sig w' = sig (upd_sig (if en then id else count_all b) x)"
proof (cases sw)
  case False
  then show ?thesis using assms pause_all_sig by (auto simp: conc_settle_def simp del: pause_types.simps split: prod.splits)
next
  case True
  let ?f = "if en then id else count_all b"
  obtain y where y: "run_state (pause_types V en b detection_types False) x = (nf, y)"
    using assms by (auto simp: conc_settle_def simp del: pause_types.simps split: prod.splits)
  note ys = pause_all_sig [OF y]
  obtain r z where z: "run_state (checkAndUpdateDeferSwitchState V b) y = (r, z)"
    using prod.exhaust by blast
  obtain d' c' where d: "sig z = sig (upd_sig (defer_to d' c') y)"
    "defer_rel b (deferredSwitchState (wstu y)) r d'" by (rule check_run [OF z])
  have dy: "deferredSwitchState (wstu y) = deferredSwitchState (wstu x)"
    using sig_globals(1) [OF ys] by (auto simp: upd_sig_def count_all_def)
  have "sig z = sig (upd_sig (\<lambda>u. defer_to d' c' (?f u)) x)"
    using d(1) sig_upd [OF open_defer ys] by (simp add: upd_sig_comp)
  moreover have "sig w' = sig (upd_sig (if r then id else use_lpi_update (\<lambda>_. l)) z)"
  proof (cases r)
    case True
    then show ?thesis using assms \<open>sw\<close> y z by (simp add: conc_settle_def upd_sig_def del: pause_types.simps)
  next
    case False
    then show ?thesis
      using assms \<open>sw\<close> y z keeps_snd [OF sg_switch, of detection_types "upd_sig (use_lpi_update (\<lambda>_. l)) z"]
      by (simp add: conc_settle_def upd_sig_def del: pause_types.simps split: prod.splits)
  qed
  ultimately have "sig w' = sig (upd_sig (\<lambda>u. (if r then id else use_lpi_update (\<lambda>_. l)) (defer_to d' c' (?f u))) x)"
    using sig_upd [of "if r then id else use_lpi_update (\<lambda>_. l)" z] open_update_intros(5) [of l]
    by (simp add: upd_sig_comp open_update_def)
  also have "(\<lambda>u. (if r then id else use_lpi_update (\<lambda>_. l)) (defer_to d' c' (?f u))) =
      (\<lambda>u. (defer_to d' c' (?f u))\<lparr>use_lpi := (if r then use_lpi u else l)\<rparr>)"
    by (auto simp: fun_eq_iff defer_to_def count_all_def)
  finally show ?thesis using \<open>sw\<close> d(2) dy by auto
qed

end

definition decide :: "bool \<Rightarrow> bool \<Rightarrow> defer_switch_state_t \<Rightarrow> int \<Rightarrow> STUtils \<Rightarrow> STUtils" where
  "decide r l d' c' u = (defer_to d' c' u)\<lparr>use_lpi := (if r then use_lpi u else l)\<rparr>"

lemma open_decide: "open_update (decide r l d' c')"
  by (simp add: open_update_def decide_def defer_to_def hide_def)

lemma decide_notified:
  "decide r l d' c' (notified s b info u) = (defer_to d' c' (notified s b info u))\<lparr>use_lpi := (if r then use_lpi u else l)\<rparr>"
  by (cases info) (simp add: decide_def notified_def defer_to_def count_all_def)

lemma decide_counted:
  "(defer_to d' c' ((if en then id else count_all b) u))\<lparr>use_lpi := (if r then use_lpi u else l)\<rparr> =
   decide r l d' c' ((if en then id else count_all b) u)"
  by (simp add: decide_def count_all_def defer_to_def)

context quiet_streams
begin

lemma notify_run:
  assumes k: "kind_of w s = Some k" "\<not> detection_type (fst k)" "tx_ok (wstu w)"
    and run: "run_state (HandleConcurrencyForSoundTriggerStreams V s b) w = (q, w')"
  shows "\<exists>u'. notify_rel s b (conc_info (wstu w) k) (wstu w) u' \<and> sig w' = sig (w\<lparr>wstu := u'\<rparr>)"
proof -
  obtain rx tx en where i: "conc_info (wstu w) k = (rx, tx, en)" by (metis prod_cases3)
  let ?i = "(rx, tx, en)" and ?f = "if en then id else count_all b"
  let ?w = "w\<lparr>wlog := Lock ActiveStreamMutex # wlog w\<rparr>"
  have kw: "kind_of ?w s = Some k" using k(1) by (simp add: kind_of_def)
  obtain l x where x: "run_state (conc_plan V s b) ?w = ((en, wants_switch s b ?i (wstu w), l), x)"
      "wants_switch s b ?i (wstu w) \<longrightarrow> l = (\<not> b)"
      and "sig (upd_sig ?f x) = sig (upd_sig (notified s b ?i) ?w)"
    using plan_run [OF kw k(2), of rx tx en b] k(3) i by auto
  then have xs: "sig (upd_sig ?f x) = sig (upd_sig (notified s b ?i) w)"
    by (simp add: upd_sig_def sig_def)
  obtain nf y where y: "run_state (conc_settle V b (en, wants_switch s b ?i (wstu w), l)) x = (nf, y)"
    using prod.exhaust by blast
  have wy: "sig w' = sig y"
    using run x(1) y sig_resources
    by (auto simp: HandleConcurrencyForSoundTriggerStreams_def sg_log split: if_splits)
      (metis sig_resources snd_conv sg_log)
  have dx: "deferredSwitchState (wstu x) = deferredSwitchState (wstu w)"
    using sig_globals(1) [OF xs] by (cases en) (auto simp: upd_sig_def notified_def count_all_def)
  have dec: "sig (upd_sig (\<lambda>u. decide r l d' c' (?f u)) x) =
      sig (w\<lparr>wstu := decide r l d' c' (notified s b ?i (wstu w))\<rparr>)" for r d' c'
    using sig_upd [OF open_decide xs, of r l d' c'] unfolding upd_sig_comp by (simp add: upd_sig_def)
  show ?thesis
  proof (cases "wants_switch s b ?i (wstu w)")
    case True
    then obtain d' c' r where dr: "defer_rel b (deferredSwitchState (wstu x)) r d'"
      and "sig y = sig (upd_sig (\<lambda>u. decide r l d' c' (?f u)) x)"
      using settle_run [OF y] unfolding decide_counted by auto
    then have "sig w' = sig (w\<lparr>wstu := decide r l d' c' (notified s b ?i (wstu w))\<rparr>)"
      using wy dec by simp
    moreover have "notify_rel s b ?i (wstu w) (decide r l d' c' (notified s b ?i (wstu w)))"
      using dr x(2) True unfolding notify_rel_def if_P [OF True] decide_notified dx
      by (intro exI [of _ d'] exI [of _ c'] exI [of _ r]) simp
    ultimately show ?thesis unfolding i by blast
  next
    case False
    then have "sig w' = sig (w\<lparr>wstu := notified s b ?i (wstu w)\<rparr>)"
      using settle_run [OF y] wy xs by (simp add: upd_sig_def)
    moreover have "notify_rel s b ?i (wstu w) (notified s b ?i (wstu w))"
      using False by (simp add: notify_rel_def)
    ultimately show ?thesis unfolding i by blast
  qed
qed

end

section \<open>The invariant\<close>

definition cls :: "(nat \<Rightarrow> (nat \<times> nat) option) \<Rightarrow> STUtils \<Rightarrow> nat \<Rightarrow> bool \<times> bool \<times> bool" where
  "cls K u s = (case K s of None \<Rightarrow> (False, False, True) | Some k \<Rightarrow> conc_info u k)"

text \<open>The streams during which detection is paused, which count as capture, and which keep the
  detection streams out of the low power island.\<close>

definition blocking :: "(nat \<Rightarrow> (nat \<times> nat) option) \<Rightarrow> STUtils \<Rightarrow> nat set \<Rightarrow> nat set" where
  "blocking K u A = {s \<in> A. \<not> snd (snd (cls K u s))}"

definition capturing :: "(nat \<Rightarrow> (nat \<times> nat) option) \<Rightarrow> STUtils \<Rightarrow> nat set \<Rightarrow> nat set" where
  "capturing K u A = {s \<in> A. fst (snd (cls K u s))}"

definition keeping_out :: "(nat \<Rightarrow> (nat \<times> nat) option) \<Rightarrow> STUtils \<Rightarrow> nat set \<Rightarrow> nat set" where
  "keeping_out K u A = {s \<in> A. case cls K u s of (rx, tx, en) \<Rightarrow> en \<and> (rx \<or> tx)}"

definition conc_ok :: "nat set \<Rightarrow> (nat \<Rightarrow> (nat \<times> nat) option) \<Rightarrow> STUtils \<Rightarrow> bool" where
  "conc_ok A K u \<longleftrightarrow> finite A \<and> support_nlpi_switch u \<and> \<not> IsTransitToNonLPIOnChargingSupported u \<and>
     concurrencyDisableCount u = int (card (blocking K u A)) \<and>
     ACDConcurrencyDisableCount u = int (card (blocking K u A)) \<and>
     ASRConcurrencyDisableCount u = int (card (blocking K u A)) \<and>
     SNSPCMDataConcurrencyDisableCount u = int (card (blocking K u A)) \<and>
     TxconcurrencyEnableCount u = int (card (capturing K u A)) \<and>
     mNLPIStreams u = keeping_out K u A \<and>
     (effective_lpi u \<longleftrightarrow> keeping_out K u A = {}) \<and>
     (deferredSwitchState u = DEFER_LPI_NLPI_SWITCH \<longrightarrow> use_lpi u) \<and>
     (deferredSwitchState u = DEFER_NLPI_LPI_SWITCH \<longrightarrow> \<not> use_lpi u)"


lemma card_insert_class:
  assumes "s \<notin> A" "finite A"
  shows "int (card {t \<in> insert s A. P t}) = (if P s then next_count True (int (card {t \<in> A. P t})) else int (card {t \<in> A. P t}))"
proof -
  have "{t \<in> insert s A. P t} = (if P s then insert s {t \<in> A. P t} else {t \<in> A. P t})" by auto
  then show ?thesis using assms by (simp add: next_count_def)
qed

lemma card_remove_class:
  assumes "s \<in> A" "finite A"
  shows "int (card {t \<in> A - {s}. P t}) = (if P s then next_count False (int (card {t \<in> A. P t})) else int (card {t \<in> A. P t}))"
proof (cases "P s")
  case True
  have "{t \<in> A - {s}. P t} = {t \<in> A. P t} - {s}" by auto
  moreover have "s \<in> {t \<in> A. P t}" "finite {t \<in> A. P t}" using True assms by auto
  moreover from this have "0 < card {t \<in> A. P t}" by (auto simp: card_gt_0_iff)
  ultimately show ?thesis using True by (simp add: next_count_def of_nat_diff Suc_leI)
next
  case False
  have "{t \<in> A - {s}. P t} = {t \<in> A. P t}" using False by auto
  then show ?thesis using False by simp
qed

definition after :: "nat \<Rightarrow> bool \<Rightarrow> nat set \<Rightarrow> nat set" where
  "after s b A = (if b then insert s A else A - {s})"

lemma card_after:
  assumes "b = (s \<notin> A)" "finite A"
  shows "int (card {t \<in> after s b A. P t}) = (if P s then next_count b (int (card {t \<in> A. P t})) else int (card {t \<in> A. P t}))"
  using assms card_insert_class [of s A P] card_remove_class [of s A P] by (cases b) (auto simp: after_def)


lemma keeping_after:
  assumes "P s \<or> s \<notin> {t \<in> A. P t}"
  shows "{t \<in> after s b A. P t} = (if P s then after s b {t \<in> A. P t} else {t \<in> A. P t})"
  using assms by (auto simp: after_def)

lemma conc_info_upd [simp]:
  "conc_info (notified s b i u) = conc_info u" "conc_info (defer_to d c u) = conc_info u"
  "conc_info (u\<lparr>use_lpi := l\<rparr>) = conc_info u" "conc_info (u\<lparr>deferredSwitchState := d\<rparr>) = conc_info u"
  by (auto simp: fun_eq_iff conc_info_def notified_def defer_to_def count_all_def
      IsVoiceCallConcurrencySupported_def Let_def split: prod.splits)

lemma cls_cong: "conc_info u' = conc_info u \<Longrightarrow> cls K u' = cls K u"
  by (rule ext) (simp add: cls_def split: option.split)

lemma sets_cong:
  assumes "conc_info u' = conc_info u"
  shows "blocking K u' = blocking K u" "capturing K u' = capturing K u" "keeping_out K u' = keeping_out K u"
  using cls_cong [OF assms] by (simp_all add: fun_eq_iff blocking_def capturing_def keeping_out_def)

lemma notified_ok:
  assumes ok: "conc_ok A K u" and k: "K s = Some k" and b: "b = (s \<notin> A)"
    and i: "conc_info u k = (rx, tx, en)"
  defines "v \<equiv> notified s b (rx, tx, en) u" and "B \<equiv> after s b A"
  shows "finite B" "support_nlpi_switch v" "\<not> IsTransitToNonLPIOnChargingSupported v"
    "concurrencyDisableCount v = int (card (blocking K u B))"
    "ACDConcurrencyDisableCount v = int (card (blocking K u B))"
    "ASRConcurrencyDisableCount v = int (card (blocking K u B))"
    "SNSPCMDataConcurrencyDisableCount v = int (card (blocking K u B))"
    "TxconcurrencyEnableCount v = int (card (capturing K u B))"
    "mNLPIStreams v = keeping_out K u B"
    "keeping_out K u B = (if en \<and> (rx \<or> tx) then after s b (keeping_out K u A) else keeping_out K u A)"
proof -
  have c: "cls K u s = (rx, tx, en)" using k i by (simp add: cls_def)
  have fin: "finite A" using ok by (simp add: conc_ok_def)
  then show "finite B" by (simp add: B_def after_def)
  show "support_nlpi_switch v" "\<not> IsTransitToNonLPIOnChargingSupported v"
    using ok by (simp_all add: conc_ok_def v_def notified_def count_all_def)
  have "int (card (blocking K u B)) = (if en then int (card (blocking K u A)) else next_count b (int (card (blocking K u A))))"
    unfolding blocking_def B_def using card_after [OF b fin] c by auto
  then show "concurrencyDisableCount v = int (card (blocking K u B))"
      "ACDConcurrencyDisableCount v = int (card (blocking K u B))"
      "ASRConcurrencyDisableCount v = int (card (blocking K u B))"
      "SNSPCMDataConcurrencyDisableCount v = int (card (blocking K u B))"
    using ok by (simp_all add: conc_ok_def v_def notified_def count_all_def)
  show "TxconcurrencyEnableCount v = int (card (capturing K u B))"
    using ok card_after [OF b fin, of "\<lambda>s. fst (snd (cls K u s))"] c
    by (simp add: conc_ok_def v_def notified_def count_all_def capturing_def B_def)
  show ko: "keeping_out K u B = (if en \<and> (rx \<or> tx) then after s b (keeping_out K u A) else keeping_out K u A)"
    unfolding keeping_out_def B_def using c by (subst keeping_after) auto
  show "mNLPIStreams v = keeping_out K u B"
    unfolding ko using ok by (simp add: conc_ok_def v_def notified_def count_all_def after_def)
qed

lemma notify_ok:
  assumes ok: "conc_ok A K u" and k: "K s = Some k" and b: "b = (s \<notin> A)"
    and rel: "notify_rel s b (conc_info u k) u u'"
  shows "conc_ok (after s b A) K u'"
proof -
  obtain rx tx en where i: "conc_info u k = (rx, tx, en)" by (metis prod_cases3)
  note n = notified_ok [OF ok k b i]
  have info: "conc_info u' = conc_info u"
    using rel by (auto simp: notify_rel_def split: if_splits)
  have same: "deferredSwitchState (notified s b' i' u) = deferredSwitchState u"
    "use_lpi (notified s b' i' u) = use_lpi u" for b' i'
    by (cases i'; simp add: notified_def count_all_def)+
  have e: "effective_lpi u \<longleftrightarrow> mNLPIStreams u = {}" "mNLPIStreams u = keeping_out K u A"
    "deferredSwitchState u = DEFER_LPI_NLPI_SWITCH \<longrightarrow> use_lpi u"
    "deferredSwitchState u = DEFER_NLPI_LPI_SWITCH \<longrightarrow> \<not> use_lpi u"
    using ok by (simp_all add: conc_ok_def)
  have "(effective_lpi u' \<longleftrightarrow> keeping_out K u (after s b A) = {}) \<and>
      (deferredSwitchState u' = DEFER_LPI_NLPI_SWITCH \<longrightarrow> use_lpi u') \<and>
      (deferredSwitchState u' = DEFER_NLPI_LPI_SWITCH \<longrightarrow> \<not> use_lpi u')"
  proof (cases "wants_switch s b (rx, tx, en) u")
    case True
    have "\<not> b \<Longrightarrow> s \<in> keeping_out K u A"
      using True b k i by (auto simp: wants_switch_def keeping_out_def cls_def)
    with True show ?thesis
      using rel e unfolding i n(10)
      by (auto simp: notify_rel_def wants_switch_def defer_rel_def defer_to_def effective_lpi_def after_def
          same Let_def split: if_splits defer_switch_state_t.splits)
  next
    case False
    then show ?thesis
      using rel e unfolding i n(10)
      by (auto simp: notify_rel_def wants_switch_def effective_lpi_def after_def same
          split: if_splits defer_switch_state_t.splits)
  qed
  moreover obtain d c l where "u' = (defer_to d c (notified s b (rx, tx, en) u))\<lparr>use_lpi := l\<rparr>"
  proof (cases "wants_switch s b (rx, tx, en) u")
    case True
    then show thesis using rel that unfolding i notify_rel_def by (auto split: if_splits)
  next
    case False
    then show thesis
      using rel that [where d = "deferredSwitchState u'" and c = "deferred_switch_cnt u'" and l = "use_lpi u'"]
      unfolding i notify_rel_def by (simp add: defer_to_def)
  qed
  ultimately show ?thesis
    using n(1-9) unfolding conc_ok_def sets_cong [OF info] by (simp add: defer_to_def)
qed

lemma conc_ok_hide: "conc_ok A K (hide u) = conc_ok A K u"
proof -
  have "conc_info (hide u) = conc_info u" by (rule ext) (rule conc_info_hide)
  from sets_cong [OF this]
  have "blocking K (hide u) = blocking K u" "capturing K (hide u) = capturing K u"
    "keeping_out K (hide u) = keeping_out K u" .
  moreover have "effective_lpi (hide u) = effective_lpi u"
    by (simp add: effective_lpi_def hide_def split: defer_switch_state_t.split)
  ultimately show ?thesis by (simp add: conc_ok_def) (simp add: hide_def)
qed

lemma conc_ok_sig:
  assumes "sig w' = sig w"
  shows "conc_ok A (kind_of w') (wstu w') = conc_ok A (kind_of w) (wstu w)"
  using sig_wstu [OF assms] conc_ok_hide by metis

lemma deferred_ok:
  "conc_ok A K u \<Longrightarrow> deferredSwitchState u \<noteq> NO_DEFER \<Longrightarrow>
   conc_ok A K (u\<lparr>use_lpi := (deferredSwitchState u \<noteq> DEFER_LPI_NLPI_SWITCH), deferredSwitchState := NO_DEFER\<rparr>)"
  using sets_cong [of "u\<lparr>use_lpi := (deferredSwitchState u \<noteq> DEFER_LPI_NLPI_SWITCH), deferredSwitchState := NO_DEFER\<rparr>" u]
  by (auto simp: conc_ok_def effective_lpi_def split: defer_switch_state_t.splits)

definition do_deferred :: "STUtils \<Rightarrow> STUtils" where
  "do_deferred u = u\<lparr>use_lpi := (deferredSwitchState u \<noteq> DEFER_LPI_NLPI_SWITCH), deferredSwitchState := NO_DEFER\<rparr>"

context quiet_streams
begin

lemma sg_start_deferred: "keeps sig (start_deferred V l)"
  by (induction l) (auto intro!: sg_steps quiet_calls)

lemma deferred_run:
  assumes "run_state (deferred_switch V) w = (r, w')"
  shows "sig w' = sig w \<or> (deferredSwitchState (wstu w) \<noteq> NO_DEFER \<and> sig w' = sig (upd_sig do_deferred w))"
proof -
  let ?d = "deferredSwitchState (wstu w)"
  obtain b y where y: "run_state (RM_isAnyStreamBuffering V) w = (b, y)"
    using prod.exhaust by blast
  have ys: "sig y = sig w" using keepsD [OF sg_buffering y] .
  let ?lpi = "use_lpi_update (\<lambda>_. ?d \<noteq> DEFER_LPI_NLPI_SWITCH)"
  let ?no = "deferredSwitchState_update (\<lambda>_. NO_DEFER)"
  obtain q z where z: "run_state (handleConcurrentStreamSwitch V (mapped_types detection_types (wrm y))) (upd_sig ?lpi y) = (q, z)"
    using prod.exhaust by blast
  have "sig z = sig (upd_sig ?lpi w)"
    using keepsD [OF sg_switch z] sig_upd [OF open_update_intros(5) ys] by simp
  then have zs: "sig (upd_sig ?no z) = sig (upd_sig do_deferred w)"
    using sig_upd [OF open_update_intros(3)] by (simp add: upd_sig_comp) (simp add: upd_sig_def do_deferred_def)
  obtain p x where x: "run_state (start_deferred V (mStartDeferredStreams (wstu (upd_sig ?no z)))) (upd_sig ?no z) = (p, x)"
    using prod.exhaust by blast
  have xs: "sig (x\<lparr>wstu := (wstu x)\<lparr>mStartDeferredStreams := []\<rparr>\<rparr>) = sig (upd_sig do_deferred w)"
    using keepsD [OF sg_start_deferred x] zs by (simp add: sig_def hide_def)
  show ?thesis
    using assms y z x xs zs ys sig_globals(1) [OF ys]
    by (auto simp: deferred_switch_def upd_sig_def split: if_splits)
qed

end

section \<open>Sequences of notifications\<close>

text \<open>What happens to the globals over time: streams start and stop, and the switch that was put
  off is tried again.\<close>

datatype conc_op = Notify nat bool | DeferredSwitch

fun conc_run :: "env \<Rightarrow> stream_vt \<Rightarrow> conc_op list \<Rightarrow> unit io" where
  "conc_run E V [] = return ()"
| "conc_run E V (Notify s b # ops) = do { HandleConcurrencyForSoundTriggerStreams V s b; conc_run E V ops }"
| "conc_run E V (DeferredSwitch # ops) = do { stHandleDeferredSwitch E V; conc_run E V ops }"

text \<open>The streams that run after a sequence, and sequences in which a stream starts only when it
  does not run and stops only when it does.\<close>

fun running :: "conc_op list \<Rightarrow> nat set \<Rightarrow> nat set" where
  "running [] A = A"
| "running (Notify s b # ops) A = running ops (after s b A)"
| "running (DeferredSwitch # ops) A = running ops A"

fun alternating :: "conc_op list \<Rightarrow> nat set \<Rightarrow> bool" where
  "alternating [] A \<longleftrightarrow> True"
| "alternating (Notify s b # ops) A \<longleftrightarrow> b = (s \<notin> A) \<and> alternating ops (after s b A)"
| "alternating (DeferredSwitch # ops) A \<longleftrightarrow> alternating ops A"

definition plain_streams :: "conc_op list \<Rightarrow> world \<Rightarrow> bool" where
  "plain_streams ops w \<longleftrightarrow> (\<forall>s b. Notify s b \<in> set ops \<longrightarrow> (\<exists>k. kind_of w s = Some k \<and> \<not> detection_type (fst k)))"

context quiet_streams
begin

lemma notify_step:
  assumes "conc_ok A (kind_of w) (wstu w)" "kind_of w s = Some k" "\<not> detection_type (fst k)" "b = (s \<notin> A)"
    and run: "run_state (HandleConcurrencyForSoundTriggerStreams V s b) w = (q, w')"
  shows "conc_ok (after s b A) (kind_of w') (wstu w') \<and> kind_of w' = kind_of w"
proof -
  have "tx_ok (wstu w)" using assms(1) by (simp add: conc_ok_def tx_ok_def)
  then obtain u' where u': "notify_rel s b (conc_info (wstu w) k) (wstu w) u'" "sig w' = sig (w\<lparr>wstu := u'\<rparr>)"
    using notify_run [OF assms(2,3) _ run] by blast
  then show ?thesis
    using notify_ok [OF assms(1,2,4) u'(1)] conc_ok_sig [OF u'(2)] sig_wstu [OF u'(2)] by simp
qed

lemma deferred_step:
  assumes "conc_ok A (kind_of w) (wstu w)" and run: "run_state (stHandleDeferredSwitch E V) w = (q, w')"
  shows "conc_ok A (kind_of w') (wstu w') \<and> kind_of w' = kind_of w"
proof -
  have "(\<exists>l. w' = w\<lparr>wlog := l\<rparr>) \<or>
      (\<exists>k y l. run_state (deferred_switch V) (w\<lparr>wlog := k\<rparr>) = (q, y) \<and> w' = y\<lparr>wlog := l\<rparr>)"
    using run by (auto simp: stHandleDeferredSwitch_def ask_def split: if_splits prod.splits)
  then obtain l x y where x: "sig x = sig w" "w' = y\<lparr>wlog := l\<rparr>"
      "y = x \<or> run_state (deferred_switch V) x = (q, y)"
    using sg_log by blast
  have ok: "conc_ok A (kind_of x) (wstu x)" "kind_of x = kind_of w"
    using assms(1) conc_ok_sig [OF x(1)] sig_wstu [OF x(1)] by simp_all
  from x(3) have "conc_ok A (kind_of y) (wstu y) \<and> kind_of y = kind_of w"
  proof
    assume "run_state (deferred_switch V) x = (q, y)"
    from deferred_run [OF this] show ?thesis
      using ok deferred_ok [OF ok(1)] conc_ok_sig [of y x A] conc_ok_sig [of y "upd_sig do_deferred x" A]
        sig_wstu [of y x] sig_wstu [of y "upd_sig do_deferred x"]
      by (auto simp: upd_sig_def do_deferred_def)
  qed (use ok in simp)
  then show ?thesis by (auto simp: x(2))
qed

lemma conc_run_ok:
  assumes "conc_ok A (kind_of w) (wstu w)" "alternating ops A" "plain_streams ops w"
    and "run_state (conc_run E V ops) w = (q, w')"
  shows "conc_ok (running ops A) (kind_of w') (wstu w') \<and> kind_of w' = kind_of w"
  using assms
proof (induction ops A arbitrary: w rule: running.induct)
  case (2 s b ops A)
  obtain p x where x: "run_state (HandleConcurrencyForSoundTriggerStreams V s b) w = (p, x)"
    using prod.exhaust by blast
  obtain k where k: "kind_of w s = Some k" "\<not> detection_type (fst k)"
    using "2.prems"(3) unfolding plain_streams_def by (metis list.set_intros(1))
  have st: "conc_ok (after s b A) (kind_of x) (wstu x)" "kind_of x = kind_of w"
    using notify_step [OF "2.prems"(1) k _ x] "2.prems"(2) by auto
  moreover have "plain_streams ops x"
    using "2.prems"(3) unfolding plain_streams_def st(2) by (metis list.set_intros(2))
  moreover have "run_state (conc_run E V ops) x = (q, w')" using "2.prems"(4) x by simp
  moreover have "alternating ops (after s b A)" using "2.prems"(2) unfolding alternating.simps by (rule conjunct2)
  ultimately show ?case using "2.IH" [of x] unfolding running.simps st(2) by blast
next
  case (3 ops A)
  obtain p x where x: "run_state (stHandleDeferredSwitch E V) w = (p, x)"
    using prod.exhaust by blast
  have st: "conc_ok A (kind_of x) (wstu x)" "kind_of x = kind_of w"
    using deferred_step [OF "3.prems"(1) x] by auto
  moreover have "plain_streams ops x"
    using "3.prems"(3) unfolding plain_streams_def st(2) by (metis list.set_intros(2))
  moreover have "run_state (conc_run E V ops) x = (q, w')" "alternating ops A"
    using "3.prems"(2,4) x by simp_all
  ultimately show ?case using "3.IH" [of x] unfolding running.simps st(2) by blast
qed simp

end

definition conc_fresh :: "STUtils \<Rightarrow> bool" where
  "conc_fresh u \<longleftrightarrow> support_nlpi_switch u \<and> \<not> IsTransitToNonLPIOnChargingSupported u \<and>
     concurrencyDisableCount u = 0 \<and> ACDConcurrencyDisableCount u = 0 \<and> ASRConcurrencyDisableCount u = 0 \<and>
     SNSPCMDataConcurrencyDisableCount u = 0 \<and> TxconcurrencyEnableCount u = 0 \<and> mNLPIStreams u = {} \<and>
     use_lpi u \<and> deferredSwitchState u = NO_DEFER"

lemma conc_fresh_ok: "conc_fresh u \<Longrightarrow> conc_ok {} K u"
  by (simp add: conc_fresh_def conc_ok_def blocking_def capturing_def keeping_out_def effective_lpi_def)

lemma dis_count_ok:
  "conc_ok A K u \<Longrightarrow> detection_type ty \<Longrightarrow> dis_count ty u = int (card (blocking K u A))"
  by (auto simp: conc_ok_def dis_count_def)



end
