(* ===== verification/Stream_ST.thy ===== *)
theory Stream_ST
  imports ST_Utils
begin

text \<open>
  The sound trigger stream, \<^verbatim>\<open>stream/StreamSoundTrigger/src/StreamSoundTrigger.cpp\<close>: loading a
  sound model, the state machine of six states whose \<^verbatim>\<open>ProcessEvent\<close> methods handle every request
  of a client, an engine, a device change or a card restart, and the calls that post the events.

  Engines, the voice UI interface and the reader of the detection buffer are reached by logged calls
  that the environment answers.  A null pointer that is followed, an index out of range or an
  exception no caller catches is the event \<open>OutOfBounds\<close> in the log.  Selector strings for graph
  payloads, debug dumps and clocks are left out.
\<close>

section \<open>Wake lock of the resource manager\<close>

definition RM_acquireWakeLock :: "unit io" where
  "RM_acquireWakeLock = do {
     lock ResourceManagerMutex;
     fd \<leftarrow> rmg wake_lock_fd;
     when_io (fd \<ge> 0) (do {
       n \<leftarrow> rmg wake_lock_cnt;
       upd_rm (wake_lock_cnt_update (\<lambda>_. n + 1));
       when_io (n + 1 = 1) (tell (St (WakeLockWrite True)))
     });
     unlock ResourceManagerMutex
   }"

definition RM_releaseWakeLock :: "unit io" where
  "RM_releaseWakeLock = do {
     lock ResourceManagerMutex;
     fd \<leftarrow> rmg wake_unlock_fd;
     when_io (fd \<ge> 0) (do {
       n \<leftarrow> rmg wake_lock_cnt;
       when_io (n > 0) (do {
         upd_rm (wake_lock_cnt_update (\<lambda>_. n - 1));
         when_io (n - 1 = 0) (tell (St (WakeLockWrite False)))
       })
     });
     unlock ResourceManagerMutex
   }"

section \<open>Constants and events\<close>

abbreviation (input) EBUSY :: int where "EBUSY \<equiv> 16"
abbreviation (input) RESTART_IGNORED :: int where "RESTART_IGNORED \<equiv> 1"
abbreviation (input) ENGINE_IDLE :: nat where "ENGINE_IDLE \<equiv> 0"
abbreviation (input) GMM_DETECTED :: nat where "GMM_DETECTED \<equiv> 1"
abbreviation (input) KEYWORD_DETECTION_SUCCESS :: nat where "KEYWORD_DETECTION_SUCCESS \<equiv> 2"
abbreviation (input) KEYWORD_DETECTION_REJECT :: nat where "KEYWORD_DETECTION_REJECT \<equiv> 4"
abbreviation (input) USER_VERIFICATION_SUCCESS :: nat where "USER_VERIFICATION_SUCCESS \<equiv> 8"
abbreviation (input) USER_VERIFICATION_REJECT :: nat where "USER_VERIFICATION_REJECT \<equiv> 16"
abbreviation (input) DETECTION_TYPE_SS :: nat where "DETECTION_TYPE_SS \<equiv> 30"
abbreviation (input) DETECTION_TYPE_ALL :: nat where "DETECTION_TYPE_ALL \<equiv> 287"
abbreviation (input) THRESHOLD_REACHED :: nat where "THRESHOLD_REACHED \<equiv> 256"
abbreviation (input) ST_MODULE_TYPE_HW :: nat where "ST_MODULE_TYPE_HW \<equiv> 101"
abbreviation (input) ST_MODULE_TYPE_CUSTOM_1 :: nat where "ST_MODULE_TYPE_CUSTOM_1 \<equiv> 102"
abbreviation (input) ST_MODULE_TYPE_CUSTOM_2 :: nat where "ST_MODULE_TYPE_CUSTOM_2 \<equiv> 103"
abbreviation (input) ST_MODEL_TYPE_SHIFT :: nat where "ST_MODEL_TYPE_SHIFT \<equiv> 16"
abbreviation (input) HIST_BUF_INBUF_COUNT :: nat where "HIST_BUF_INBUF_COUNT \<equiv> 1920"
abbreviation (input) ST_PARAM_KEY_KEYWORD_BUFFER :: nat where "ST_PARAM_KEY_KEYWORD_BUFFER \<equiv> 65537"
abbreviation (input) READER_DISABLED_ST :: nat where "READER_DISABLED_ST \<equiv> 0"
abbreviation (input) READER_PREPARED_ST :: nat where "READER_PREPARED_ST \<equiv> 2"

text \<open>Sizes of \<^verbatim>\<open>pal_st_sound_model\<close>, \<^verbatim>\<open>pal_st_phrase_sound_model\<close> and
  \<^verbatim>\<open>pal_st_recognition_config\<close> on a 64 bit platform, by their declarations.\<close>

abbreviation (input) sizeof_sound_model :: nat where "sizeof_sound_model \<equiv> 48"
abbreviation (input) sizeof_phrase_sound_model :: nat where "sizeof_phrase_sound_model \<equiv> 1296"

text \<open>The events with the data their configurations carry; the flags \<^verbatim>\<open>restart_\<close> and \<^verbatim>\<open>deferred_\<close>
  are only printed.\<close>

datatype (plugins only: code size) st_ev =
  ST_EV_LOAD_SOUND_MODEL pal_st_sound_model
| ST_EV_UNLOAD_SOUND_MODEL
| ST_EV_RECOGNITION_CONFIG pal_st_recognition_config
| ST_EV_START_RECOGNITION
| ST_EV_STOP_RECOGNITION
| ST_EV_DETECTED nat
| ST_EV_READ_BUFFER nat
| ST_EV_STOP_BUFFERING
| ST_EV_PAUSE
| ST_EV_RESUME
| ST_EV_DEVICE_CONNECTED nat
| ST_EV_DEVICE_DISCONNECTED nat
| ST_EV_SSR_OFFLINE
| ST_EV_SSR_ONLINE
| ST_EV_CONCURRENT_STREAM bool
| ST_EV_EC_REF "nat option" bool
| ST_EV_INTERNAL_PAUSE
| ST_EV_INTERNAL_RESUME
| ST_EV_FORCE_RECOGNITION
| ST_EV_FSTAGE_LOAD
| ST_EV_FSTAGE_UNLOAD

section \<open>Calls on the objects of a stream\<close>

definition eng :: "env \<Rightarrow> nat \<Rightarrow> nat \<Rightarrow> eng_op \<Rightarrow> int io" where
  "eng E s e op = call E (St (Eng s e op))"

definition gsl :: "env \<Rightarrow> nat \<Rightarrow> eng_op \<Rightarrow> int io" where
  "gsl E s op = do {
     g \<leftarrow> sst s gsl_engine;
     case g of None \<Rightarrow> do { tell OutOfBounds; return 0 } | Some e \<Rightarrow> eng E s e op
   }"

definition vui :: "env \<Rightarrow> nat \<Rightarrow> vui_op \<Rightarrow> int io" where
  "vui E s op = do {
     v \<leftarrow> sst s vui_intf;
     if v then call E (St (Vui s op)) else do { tell OutOfBounds; return 0 }
   }"

definition reader_do :: "nat \<Rightarrow> reader_op \<Rightarrow> unit io" where
  "reader_do s op = do {
     r \<leftarrow> sst s st_reader;
     when_io r (tell (St (Reader s op)))
   }"

definition TransitTo :: "nat \<Rightarrow> st_state_id_t \<Rightarrow> unit io" where
  "TransitTo s state_id =
     when_io (state_id \<noteq> ST_STATE_NONE) (upd_sst s (\<lambda>x. x\<lparr>prev_state := cur_state x, cur_state := state_id\<rparr>))"

definition StreamSoundTrigger_isActive :: "nat \<Rightarrow> bool io" where
  "StreamSoundTrigger_isActive s = do {
     c \<leftarrow> str s currentState;
     q \<leftarrow> sst s cur_state;
     return (c = STREAM_STARTED \<or> q = ST_STATE_BUFFERING \<or> q = ST_STATE_DETECTED)
   }"

definition StreamSoundTrigger_IsStreamInBuffering :: "env \<Rightarrow> nat \<Rightarrow> bool io" where
  "StreamSoundTrigger_IsStreamInBuffering E s = do {
     x \<leftarrow> sst s (\<lambda>x. x);
     if \<not> (capture_requested_flag x \<and> st_reader x \<and> cur_state x = ST_STATE_BUFFERING) then return False
     else do {
       en \<leftarrow> ask E (Reader s RIsEnabled);
       if en then return True else ask E (Reader s RIsPrepared)
     }
   }"

definition PostDelayedStop :: "nat \<Rightarrow> unit io" where
  "PostDelayedStop s = do {
     upd_sst s (pending_stop_update (\<lambda>_. True));
     lock (TimerMutex s);
     upd_sst s (timer_stop_waiting_update (\<lambda>_. False));
     tell (St (TimerNotify s True));
     unlock (TimerMutex s)
   }"

definition CancelDelayedStop :: "nat \<Rightarrow> unit io" where
  "CancelDelayedStop s = do {
     upd_sst s (pending_stop_update (\<lambda>_. False));
     lock (TimerMutex s);
     upd_sst s (timer_stop_waiting_update (\<lambda>_. True));
     tell (St (TimerNotify s False));
     unlock (TimerMutex s)
   }"

text \<open>The sleep monitor is voted for while a device is opened.\<close>

definition voted_open :: "env \<Rightarrow> nat \<Rightarrow> int io" where
  "voted_open E d = do {
     tell (VoteSleepMonitor True);
     r \<leftarrow> Device_open E d;
     tell (VoteSleepMonitor False);
     return r
   }"

definition drop_nlpi_vote :: "nat \<Rightarrow> unit io" where
  "drop_nlpi_vote s = do {
     f \<leftarrow> sst s force_nlpi_vote;
     when_io f (do {
       tell (St (VoteSleepMonitorForced False));
       upd_sst s (force_nlpi_vote_update (\<lambda>_. False))
     })
   }"

section \<open>Capture profile and device\<close>

definition ConfigSupportLPI :: "StreamSoundTrigger \<Rightarrow> bool" where
  "ConfigSupportLPI x =
     (case sm_cfg x of
        None \<Rightarrow> True
      | Some c \<Rightarrow>
          (case GetVUIFirstStageConfig c (model_type x) of None \<Rightarrow> True | Some f \<Rightarrow> fs_lpi_supported f) \<and>
          vc_lpi_enable c)"

definition GetAvailCaptureDevice :: "nat io" where
  "GetAvailCaptureDevice = do {
     sw \<leftarrow> stu support_device_switch;
     av \<leftarrow> rmg (\<lambda>rm. isDeviceAvailable rm PAL_DEVICE_IN_WIRED_HEADSET);
     return (if sw \<and> av then PAL_DEVICE_IN_HEADSET_VA_MIC else PAL_DEVICE_IN_HANDSET_VA_MIC)
   }"

text \<open>A mode the platform file gives no profile for makes \<^verbatim>\<open>map::at\<close> throw.\<close>

definition GetCurrentCaptureProfile :: "nat \<Rightarrow> CaptureProfile option io" where
  "GetCurrentCaptureProfile s = do {
     c \<leftarrow> sst s sm_cfg;
     case c of
       None \<Rightarrow> return None
     | Some c \<Rightarrow> do {
         spec \<leftarrow> sst s dattr_specified;
         avail \<leftarrow> GetAvailCaptureDevice;
         let headset = (case spec of
                          Some d \<Rightarrow> dev_id d = PAL_DEVICE_IN_WIRED_HEADSET
                        | None \<Rightarrow> avail = PAL_DEVICE_IN_HEADSET_VA_MIC);
         force \<leftarrow> stu CheckForForcedTransitToNonLPI;
         lpi \<leftarrow> sst s ConfigSupportLPI;
         use \<leftarrow> stu use_lpi;
         let m = (if force then ST_OPERATING_MODE_HIGH_PERF_AND_CHARGING
                  else if lpi \<and> use then ST_OPERATING_MODE_LOW_POWER else ST_OPERATING_MODE_HIGH_PERF);
         let p = vc_op_modes c (m, if headset then ST_INPUT_MODE_HEADSET else ST_INPUT_MODE_HANDSET);
         when_io (p = None) (tell OutOfBounds);
         return p
       }
   }"

text \<open>The table through which the utilities see this stream: its own profile is the one above.\<close>

definition self_vt :: "stream_vt \<Rightarrow> nat \<Rightarrow> stream_vt" where
  "self_vt V s = V\<lparr>sv_GetCurrentCaptureProfile :=
     (\<lambda>t. if t = s then GetCurrentCaptureProfile s else sv_GetCurrentCaptureProfile V t)\<rparr>"

text \<open>The three ways to find the device; \<open>strlcpy\<close> keeps 127 characters of the name.\<close>

definition device_specified :: "env \<Rightarrow> pal_device \<Rightarrow> nat option io" where
  "device_specified E attr = do {
     d \<leftarrow> Device_getInstance E attr;
     case d of
       None \<Rightarrow> do { tell OutOfBounds; return None }
     | Some d \<Rightarrow> do { Device_setDeviceAttributes d attr; return (Some d) }
   }"

definition device_of_profile :: "env \<Rightarrow> nat \<Rightarrow> CaptureProfile \<Rightarrow> nat option io" where
  "device_of_profile E s c = do {
     attr \<leftarrow> gets (\<lambda>w. (profile_device (stackdev E (wlog w)) (cp_device_id c) c)\<lparr>sndDevName := take 127 (cp_snd_name c)\<rparr>);
     d \<leftarrow> Device_getInstance E attr;
     case d of
       None \<Rightarrow> return None
     | Some d \<Rightarrow> do {
         r \<leftarrow> Device_insertStreamDeviceAttr E d (Some attr) (Some s);
         when_io (r = None) (tell OutOfBounds);
         upd_str s (mPalDevices_update (\<lambda>_. [d]));
         junk \<leftarrow> gets (\<lambda>w. stackdev E (wlog w));
         top \<leftarrow> Device_getTopPriorityDeviceAttr d;
         when_io (top = None) (tell OutOfBounds);
         device_specified E (case top of Some (r, Some (p, a)) \<Rightarrow> a | _ \<Rightarrow> junk)
       }
   }"

definition UpdateDeviceConfig :: "env \<Rightarrow> stream_vt \<Rightarrow> nat \<Rightarrow> int io" where
  "UpdateDeviceConfig E V s = do {
     p \<leftarrow> GetCurrentCaptureProfile s;
     upd_sst s (cap_prof_update (\<lambda>_. p));
     case p of
       None \<Rightarrow> return 0
     | Some c \<Rightarrow> do {
         upd_sst s (is_backend_shared_update (\<lambda>_. shared_mic (cp_device_id c)));
         ds \<leftarrow> str s mDevices;
         spec \<leftarrow> sst s dattr_specified;
         if ds \<noteq> [] then return 0
         else do {
           d \<leftarrow> (if \<not> shared_mic (cp_device_id c) then do { i \<leftarrow> GetAvailCaptureDevice; GetPalDevice E (self_vt V s) s i }
                else case spec of
                  Some a \<Rightarrow> device_specified E a
                | None \<Rightarrow> device_of_profile E s c);
           case d of
             None \<Rightarrow> return (- EINVAL)
           | Some d \<Rightarrow> do { upd_str s (mDevices_update (\<lambda>ds. ds @ [d])); return 0 }
         }
       }
   }"

text \<open>Channels, channel map, rate and width of the stream attributes; an array element beyond the
  model's list of map entries is not written.\<close>

definition attr_for_model :: "CaptureProfile \<Rightarrow> VUIStreamConfig \<Rightarrow> pal_stream_attributes \<Rightarrow> pal_stream_attributes" where
  "attr_for_model p c a =
     (let m = in_media_config a;
          n = (if cp_channels p = 1 \<and> vc_out_channels c > 1 then 1 else vc_out_channels c);
          chm = (if n = 2 then (ch_map m)[0 := PAL_CHMAP_CHANNEL_FL, 1 := PAL_CHMAP_CHANNEL_FR]
                 else (ch_map m)[0 := PAL_CHMAP_CHANNEL_FL])
      in a\<lparr>in_media_config := m\<lparr>channels := n, ch_map := chm, sample_rate := vc_sample_rate c,
             bit_width := vc_bit_width c\<rparr>\<rparr>)"

definition updateStreamAttributes :: "env \<Rightarrow> nat \<Rightarrow> unit io" where
  "updateStreamAttributes E s = do {
     a \<leftarrow> str s mStreamAttr;
     p \<leftarrow> sst s cap_prof;
     c \<leftarrow> sst s sm_cfg;
     case a of
       None \<Rightarrow> return ()
     | Some a \<Rightarrow>
        (case (p, c) of
           (Some p, Some c) \<Rightarrow> do {
             upd_str s (mStreamAttr_update (\<lambda>_. Some (attr_for_model p c a)));
             vui E s (VSetParameter ''PARAM_STREAM_ATTRIBUTES'');
             return ()
           }
         | _ \<Rightarrow> tell OutOfBounds)
   }"

section \<open>Sound models\<close>

definition UpdateModelId :: "nat \<Rightarrow> nat \<Rightarrow> unit io" where
  "UpdateModelId s type = do {
     i \<leftarrow> str s mInstanceID;
     when_io (IS_MODULE_TYPE_PDK type \<and> i \<noteq> 0)
       (upd_sst s (model_id_update (\<lambda>_. (type * 2 ^ ST_MODEL_TYPE_SHIFT + i) mod 2 ^ 32)))
   }"

definition getInstanceId :: "nat \<Rightarrow> StreamSoundTrigger \<Rightarrow> VUIStreamConfig \<Rightarrow> nat" where
  "getInstanceId instance x c =
     (if (IS_MODULE_TYPE_PDK (model_type x) \<and> vc_supported_first_stage_engine_count c = 1) \<or>
        (model_type x = ST_MODULE_TYPE_GMM \<and> vc_merge_first_stage_sound_models c) then 1
      else if IS_MODULE_TYPE_PDK (model_type x) then min instance (vc_supported_first_stage_engine_count c)
      else instance)"

text \<open>The size the copy of a model is allocated with, \<open>None\<close> for a model that is refused.  The
  opaque data is copied to its own offset, which is checked from below only.\<close>

definition sound_model_size :: "pal_st_sound_model \<Rightarrow> nat option" where
  "sound_model_size sm =
     (if sm_type sm = PAL_SOUND_MODEL_TYPE_KEYPHRASE then
        if sm_data_offset sm < sizeof_phrase_sound_model \<or> sm_data_size sm = 0 \<or> sm_num_phrases sm = 0 then None
        else Some (sizeof_phrase_sound_model + sm_data_size sm)
      else if sm_type sm = PAL_SOUND_MODEL_TYPE_GENERIC then
        if sm_data_size sm = 0 \<or> sm_data_offset sm < sizeof_sound_model then None
        else Some (sizeof_sound_model + sm_data_size sm)
      else None)"

text \<open>The model a client hands in is never the cached copy, so it is always copied.\<close>

definition UpdateSoundModel :: "env \<Rightarrow> nat \<Rightarrow> pal_st_sound_model \<Rightarrow> int io" where
  "UpdateSoundModel E s sm = do {
     upd_sst s (sound_model_type_update (\<lambda>_. sm_type sm));
     case sound_model_size sm of
       None \<Rightarrow> return (- EINVAL)
     | Some sz \<Rightarrow> do {
         fails \<leftarrow> call E (AllocFails sz);
         if fails \<noteq> 0 then do { upd_sst s (sm_config_update (\<lambda>_. None)); return (- ENOMEM) }
         else do {
           when_io (sm_data_offset sm + sm_data_size sm > sz) (tell OutOfBounds);
           upd_sst s (\<lambda>x. x\<lparr>sm_config := Some sm, recognition_mode :=
             (if sm_type sm = PAL_SOUND_MODEL_TYPE_KEYPHRASE then sm_recognition_mode sm
              else PAL_RECOGNITION_MODE_VOICE_TRIGGER)\<rparr>);
           c \<leftarrow> stu (\<lambda>u. stream_cfg_list u (vendor_uuid sm));
           upd_sst s (sm_cfg_update (\<lambda>_. c));
           return (if c = None then - EINVAL else 0)
         }
       }
   }"

text \<open>An engine is its address, 0 for the null pointer; so is the interface it uses, 1 being the
  one of the stream.\<close>

definition first_stage_engine :: "env \<Rightarrow> nat \<Rightarrow> nat \<Rightarrow> nat \<Rightarrow> nat \<Rightarrow> bool io" where
  "first_stage_engine E s sm module_type e = do {
     upd_sst s (gsl_engine_model_update (\<lambda>_. Some sm));
     i \<leftarrow> eng E s e EGetVoiceUIInterface;
     if i \<noteq> 0 \<and> i \<noteq> 1 then return False
     else do {
       UpdateModelId s module_type;
       vui E s (VSetParameter ''PARAM_FSTAGE_SOUND_MODEL_ID'');
       vui E s (VSetParameter ''PARAM_RECOGNITION_MODE'');
       return True
     }
   }"

definition HandleEngineLoad :: "env \<Rightarrow> nat \<Rightarrow> nat \<times> nat \<Rightarrow> nat \<Rightarrow> nat option io" where
  "HandleEngineLoad E s sm module_type =
     (case sm of (addr, type) \<Rightarrow> do {
        a \<leftarrow> call E (St (EngCreate s type module_type));
        if a = 0 then return None
        else do {
          let e = nat \<bar>a\<bar>;
          ok \<leftarrow> (if type = ST_SM_ID_SVA_F_STAGE_GMM then first_stage_engine E s addr module_type e else return True);
          if \<not> ok then return None
          else do {
            i \<leftarrow> eng E s e EGetVoiceUIInterface;
            when_io (i = 0) (do { eng E s e ESetVoiceUIInterface; return () });
            status \<leftarrow> eng E s e ELoadSoundModel;
            return (if status \<noteq> 0 then None else Some e)
          }
        }
      })"

text \<open>A bit mask of a 32 bit number.\<close>

definition masks :: "nat \<Rightarrow> nat \<Rightarrow> bool" where
  "masks a b \<longleftrightarrow> and a b \<noteq> 0"

definition notes_engine :: "nat \<Rightarrow> nat \<Rightarrow> nat" where
  "notes_engine type st =
     (if masks type ST_SM_ID_SVA_S_STAGE_KWD then or st KEYWORD_DETECTION_SUCCESS
      else if type = ST_SM_ID_SVA_S_STAGE_USER \<or> type = ST_SM_ID_SVA_S_STAGE_CTIUV
      then or st USER_VERIFICATION_SUCCESS else st)"

fun load_engines :: "env \<Rightarrow> nat \<Rightarrow> (nat \<times> nat) list \<Rightarrow> bool io" where
  "load_engines E s [] = return True"
| "load_engines E s ((addr, type) # l) = do {
     t \<leftarrow> sst s model_type;
     e \<leftarrow> HandleEngineLoad E s (addr, type) t;
     case e of
       None \<Rightarrow> return False
     | Some e \<Rightarrow> do {
         upd_sst s (engines_update (\<lambda>l. l @ [(type, e)]));
         upd_sst s (if type = ST_SM_ID_SVA_F_STAGE_GMM then gsl_engine_update (\<lambda>_. Some e)
                    else notification_state_update (notes_engine type));
         load_engines E s l
       }
   }"

text \<open>What \<^verbatim>\<open>error_exit\<close> undoes, and the end all paths share.\<close>

definition load_failed :: "env \<Rightarrow> nat \<Rightarrow> unit io" where
  "load_failed E s = do {
     es \<leftarrow> sst s engines;
     for_each es (\<lambda>(i, e). do { eng E s e EUnloadSoundModel; return () });
     upd_sst s (\<lambda>x. x\<lparr>engines := [], gsl_engine := None\<rparr>);
     v \<leftarrow> sst s vui_intf;
     when_io v (do { vui E s VDetachStream; upd_sst s (vui_intf_update (\<lambda>_. False)) })
   }"

definition GetVUIInterface :: "env \<Rightarrow> nat \<Rightarrow> nat \<Rightarrow> (int \<times> bool) io" where
  "GetVUIInterface E s module_type =
     (if module_type \<notin> {ST_MODULE_TYPE_GMM, ST_MODULE_TYPE_PDK, ST_MODULE_TYPE_MMA, ST_MODULE_TYPE_HIST_CAP,
        ST_MODULE_TYPE_HW, ST_MODULE_TYPE_CUSTOM_1, ST_MODULE_TYPE_CUSTOM_2}
      then return (- EINVAL, False)
      else do {
        (r, i) \<leftarrow> call_out E (St (Vui s VGetInterface));
        return (r, i \<noteq> 0)
      })"

text \<open>The first result says whether to go on; a plugin that answers 0 but leaves the interface null
  ends the load with status 0.\<close>

definition load_interface :: "env \<Rightarrow> nat \<Rightarrow> VUIStreamConfig \<Rightarrow> (bool \<times> int) io" where
  "load_interface E s c = do {
     upd_sst s (model_type_update (\<lambda>_. GetVUIModuleType c));
     (status, present) \<leftarrow> GetVUIInterface E s (GetVUIModuleType c);
     if status \<noteq> 0 \<or> \<not> present then return (False, status)
     else do {
       upd_sst s (vui_intf_update (\<lambda>_. True));
       (r, t) \<leftarrow> call_out E (St (Vui s (VGetParameter ''PARAM_FSTAGE_SOUND_MODEL_TYPE'')));
       if r \<noteq> 0 then return (False, r)
       else do {
         upd_sst s (model_type_update (\<lambda>_. nat \<bar>t\<bar>));
         if vc_ext_det_prop_list c = [] then return (True, 0)
         else do {
           r \<leftarrow> vui E s (VSetParameter ''PARAM_DETECTION_PROP_LIST'');
           return (r = 0, r)
         }
       }
     }
   }"

definition load_body :: "env \<Rightarrow> nat \<Rightarrow> pal_st_sound_model \<Rightarrow> (bool \<times> int) io" where
  "load_body E s sm = do {
     status \<leftarrow> UpdateSoundModel E s sm;
     c \<leftarrow> sst s sm_cfg;
     case c of
       None \<Rightarrow> return (False, status)
     | Some c \<Rightarrow>
         if status \<noteq> 0 then return (False, status)
         else do {
           (ok, status) \<leftarrow> load_interface E s c;
           if \<not> ok then return (False, status)
           else do {
             updateStreamAttributes E s;
             i \<leftarrow> call E (St (GetStreamInstanceID s));
             upd_str s (mInstanceID_update (\<lambda>_. nat (i mod 2 ^ 32)));
             status \<leftarrow> vui E s (VGetParameter ''PARAM_SOUND_MODEL_LIST'');
             l \<leftarrow> gets (\<lambda>w. soundmodels E (wlog w));
             ok \<leftarrow> load_engines E s l;
             return (ok, if ok then status else - EINVAL)
           }
         }
   }"

definition LoadSoundModel :: "env \<Rightarrow> nat \<Rightarrow> pal_st_sound_model \<Rightarrow> int io" where
  "LoadSoundModel E s sm = do {
     (ok, status) \<leftarrow> load_body E s sm;
     when_io (\<not> ok) (load_failed E s);
     upd_sst s (sm_config_update (\<lambda>_. None));
     return status
   }"

definition forget_pal_devices :: "nat \<Rightarrow> unit io" where
  "forget_pal_devices s = do {
     ds \<leftarrow> str s mPalDevices;
     for_each ds (\<lambda>d. Device_removeStreamDeviceAttr d s);
     upd_str s (mPalDevices_update (\<lambda>_. []))
   }"

text \<open>Closing the first device, if it was opened, and forgetting all of them; \<open>st\<close> is the status so
  far.\<close>

definition close_opened :: "nat \<Rightarrow> int \<Rightarrow> int io" where
  "close_opened s st = do {
     op \<leftarrow> sst s device_opened;
     ds \<leftarrow> str s mDevices;
     case ds of
       [] \<Rightarrow> return st
     | d # _ \<Rightarrow>
         if \<not> op then return st
         else do {
           r \<leftarrow> Device_close d;
           upd_sst s (device_opened_update (\<lambda>_. False));
           return r
         }
   }"

definition UnloadSoundModel :: "env \<Rightarrow> nat \<Rightarrow> int io" where
  "UnloadSoundModel E s = do {
     es \<leftarrow> sst s engines;
     status \<leftarrow> last_status 0 es (\<lambda>(i, e). eng E s e EUnloadSoundModel);
     forget_pal_devices s;
     status \<leftarrow> close_opened s status;
     upd_str s (mDevices_update (\<lambda>_. []));
     upd_sst s (engines_update (\<lambda>_. []));
     g \<leftarrow> sst s gsl_engine;
     when_io (g \<noteq> None) (do {
       gsl E s EResetBufferReaders;
       upd_sst s (\<lambda>x. x\<lparr>gsl_engine := None, reader_list := 0\<rparr>)
     });
     v \<leftarrow> sst s vui_intf;
     when_io v (do { vui E s VDetachStream; upd_sst s (vui_intf_update (\<lambda>_. False)) });
     tell (St (Vui s VRelease));
     reader_do s RDelete;
     upd_sst s (\<lambda>x. x\<lparr>st_reader := False, reader_list := 0\<rparr>);
     tell (ResetStreamInstanceID s);
     upd_sst s (notification_state_update (\<lambda>_. ENGINE_IDLE));
     return status
   }"

section \<open>Recognition configuration\<close>

abbreviation (input) sizeof_recognition_config :: nat where "sizeof_recognition_config \<equiv> 1000"

definition u32 :: "nat \<Rightarrow> nat" where
  "u32 n = n mod 2 ^ 32"

text \<open>A step that leaves the function on failure.\<close>

definition if_ok :: "int io \<Rightarrow> int io \<Rightarrow> int io" where
  "if_ok m k = do { r \<leftarrow> m; if r \<noteq> 0 then return r else k }"

definition UpdateRecognitionConfig :: "env \<Rightarrow> nat \<Rightarrow> pal_st_recognition_config \<Rightarrow> int io" where
  "UpdateRecognitionConfig E s c = do {
     fails \<leftarrow> call E (AllocFails (sizeof_recognition_config + rc_data_size c));
     if fails \<noteq> 0 then do { upd_sst s (rec_config_update (\<lambda>_. None)); return (- ENOMEM) }
     else do {
       when_io (rc_data_offset c > sizeof_recognition_config) (tell OutOfBounds);
       upd_sst s (rec_config_update (\<lambda>_. Some c));
       return 0
     }
   }"

definition same_phrase :: "pal_st_phrase_recognition_extra \<Rightarrow> pal_st_phrase_recognition_extra \<Rightarrow> bool" where
  "same_phrase p q \<longleftrightarrow> ph_id p = ph_id q \<and> ph_recognition_modes p = ph_recognition_modes q \<and>
     ph_confidence_level p = ph_confidence_level q \<and> ph_num_levels p = ph_num_levels q \<and>
     list_all (\<lambda>j. ph_levels p ! j = ph_levels q ! j) [0..<ph_num_levels p]"

definition compareRecognitionConfig :: "pal_st_recognition_config option \<Rightarrow> pal_st_recognition_config option \<Rightarrow> bool" where
  "compareRecognitionConfig cur new =
     (case (cur, new) of
        (Some c, Some n) \<Rightarrow>
          capture_handle c = capture_handle n \<and> capture_device c = capture_device n \<and>
          capture_requested c = capture_requested n \<and> num_phrases c = num_phrases n \<and>
          rc_data_size c = rc_data_size n \<and> rc_data_offset c = rc_data_offset n \<and>
          take (rc_data_size c) (rc_data c) = take (rc_data_size c) (rc_data n) \<and>
          list_all (\<lambda>i. same_phrase (phrases c ! i) (phrases n ! i)) [0..<num_phrases c]
      | _ \<Rightarrow> False)"

text \<open>Sizes for the memory mapped transfer and for the ring buffer, in 32 bit arithmetic; \<open>None\<close>
  is a division by zero.\<close>

definition hist_cap_len :: "VUIStreamConfig \<Rightarrow> pal_media_config \<Rightarrow> nat" where
  "hist_cap_len c m =
     (let len = u32 (vc_mmap_buffer_duration c div 1000 * sample_rate m * bit_width m * channels m) div 8;
          rm = len mod HIST_BUF_INBUF_COUNT
      in if rm > 0 then u32 (len + (HIST_BUF_INBUF_COUNT - rm)) else len)"

definition mmap_in_size :: "VUIStreamConfig \<Rightarrow> nat \<Rightarrow> nat option" where
  "mmap_in_size c hist =
     (let len = vc_mmap_buffer_duration c
      in if len = 0 then None
         else Some (u32 (vc_mmap_frame_length c * (u32_sub (u32 (hist + len)) 1 div len) * vc_sample_rate c *
                vc_bit_width c * vc_out_channels c) div (1000 * 8)))"

definition ring_size :: "VUIStreamConfig \<Rightarrow> nat \<Rightarrow> nat \<Rightarrow> nat" where
  "ring_size c hist pre =
     u32 (u32 (hist + pre + vc_client_capture_read_delay c) div 1000 * vc_sample_rate c * vc_bit_width c *
       vc_out_channels c) div 8"

definition mmap_buffers :: "nat \<Rightarrow> VUIStreamConfig \<Rightarrow> nat \<Rightarrow> int io" where
  "mmap_buffers s c hist = do {
     t \<leftarrow> sst s model_type;
     a \<leftarrow> str s mStreamAttr;
     if \<not> vc_mmap_enable c then return 0
     else if t = ST_MODULE_TYPE_HIST_CAP then
       (case a of
          None \<Rightarrow> do { tell OutOfBounds; return 0 }
        | Some a \<Rightarrow> do {
            upd_str s (\<lambda>x. x\<lparr>inBufCount := HIST_BUF_INBUF_COUNT,
              inBufSize := hist_cap_len c (in_media_config a) div HIST_BUF_INBUF_COUNT\<rparr>);
            return 0
          })
     else
       (case mmap_in_size c hist of
          None \<Rightarrow> do { tell OutOfBounds; return 0 }
        | Some n \<Rightarrow> do {
            upd_str s (inBufSize_update (\<lambda>_. n));
            if n = 0 then return (- EINVAL)
            else do {
              upd_str s (inBufCount_update (\<lambda>_. u32_sub (u32 (vc_mmap_buffer_duration c + vc_mmap_frame_length c)) 1
                 div vc_mmap_frame_length c));
              return 0
            }
          })
   }"

definition assign_readers :: "env \<Rightarrow> nat \<Rightarrow> int io" where
  "assign_readers E s = do {
     es \<leftarrow> sst s engines;
     until_fail es (\<lambda>(i, e).
       if i = ST_SM_ID_SVA_F_STAGE_GMM then do { upd_sst s (st_reader_update (\<lambda>_. True)); return 0 }
       else eng E s e ESetBufferReader)
   }"

text \<open>The two numbers a buffer configuration query stores.\<close>

definition buffer_config :: "env \<Rightarrow> nat \<Rightarrow> (nat \<times> nat) io" where
  "buffer_config E s = gets (\<lambda>w.
     (nat \<bar>outv E (wlog w) (St (Vui s (VGetParameter ''hist_buffer_duration'')))\<bar>,
      nat \<bar>outv E (wlog w) (St (Vui s (VGetParameter ''pre_roll_duration'')))\<bar>))"

definition ring_buffers :: "env \<Rightarrow> nat \<Rightarrow> VUIStreamConfig \<Rightarrow> int io" where
  "ring_buffers E s c = do {
     gsl E s EGetUpdatedBufConfig;
     (hist, pre) \<leftarrow> buffer_config E s;
     n \<leftarrow> sst s (\<lambda>x. length (engines x));
     if_ok (mmap_buffers s c hist)
      (if_ok (gsl E s (ECreateBuffer (ring_size c hist pre) n)) (do {
         upd_sst s (reader_list_update (\<lambda>_. n));
         assign_readers E s
       }))
   }"

definition send_config :: "env \<Rightarrow> nat \<Rightarrow> VUIStreamConfig \<Rightarrow> pal_st_recognition_config \<Rightarrow> int io" where
  "send_config E s c rc =
     if_ok (vui E s (VSetParameter ''PARAM_DEFAULT_BUFFER_CONFIG''))
     (if_ok (vui E s (VSetParameter ''PARAM_RECOGNITION_CONFIG''))
     (if_ok (vui E s (VGetParameter ''PARAM_FSTAGE_BUFFERING_CONFIG'')) (do {
        (hist, pre) \<leftarrow> buffer_config E s;
        let pre = (if pre = 0 then vc_pre_roll_duration c else pre);
        upd_sst s (\<lambda>x. x\<lparr>hist_buf_duration := hist, pre_roll_duration := pre\<rparr>);
        if_ok (gsl E s (EUpdateBufConfig (if hist = 0 then vc_capture_keyword c else hist) pre))
        (if_ok (ring_buffers E s c) (do {
           n \<leftarrow> sst s (\<lambda>x. length (engines x));
           let b = (capture_requested rc \<or> n \<noteq> 1);
           upd_sst s (capture_requested_flag_update (\<lambda>_. b));
           gsl E s (ESetCaptureRequested b);
           return 0
         }))
      })))"

text \<open>The configuration is a client's, or with \<open>None\<close> the stream's own, which is not copied.\<close>

definition SendRecognitionConfig :: "env \<Rightarrow> nat \<Rightarrow> pal_st_recognition_config option \<Rightarrow> int io" where
  "SendRecognitionConfig E s cfg = do {
     x \<leftarrow> sst s (\<lambda>x. x);
     if \<not> vui_intf x then return (- EINVAL)
     else do {
       status \<leftarrow>
         (case (case cfg of None \<Rightarrow> rec_config x | Some c \<Rightarrow> Some c, sm_cfg x) of
            (Some rc, Some c) \<Rightarrow>
              if_ok (if cfg = None then return 0 else UpdateRecognitionConfig E s rc) (send_config E s c rc)
          | (None, _) \<Rightarrow> return (- EINVAL)
          | (_, None) \<Rightarrow> do { tell OutOfBounds; return (- EINVAL) });
       when_io (status \<noteq> 0) (upd_sst s (rec_config_update (\<lambda>_. None)));
       return status
     }
   }"

section \<open>Notifying the client\<close>

text \<open>An abort is announced with both mutexes given up.  Its event is allocated by the type of the
  cached sound model; with none cached the function gives up.\<close>

definition notify_abort :: "env \<Rightarrow> stream_vt \<Rightarrow> nat \<Rightarrow> int io" where
  "notify_abort E V s = do {
     m \<leftarrow> sst s sm_config;
     fails \<leftarrow> (case m of
        None \<Rightarrow> return 1
      | Some m \<Rightarrow> if sm_type m = PAL_SOUND_MODEL_TYPE_KEYPHRASE \<or> sm_type m = PAL_SOUND_MODEL_TYPE_GENERIC
                  then call E (AllocFails 1) else return 1);
     if fails \<noteq> 0 then return (- ENOMEM)
     else do {
       cb \<leftarrow> sst s st_callback;
       when_io (cb \<noteq> 0) (do {
         upd_str s (currentState_update (\<lambda>_. STREAM_STOPPED));
         upd_sst s (is_abort_event_notifying_update (\<lambda>_. True));
         unlock (StreamMutex s);
         unlock ActiveStreamMutex;
         tell (St (ClientCallback s PAL_RECOGNITION_STATUS_ABORT));
         sv_callback V s;
         lock ActiveStreamMutex;
         lock (StreamMutex s);
         upd_sst s (is_abort_event_notifying_update (\<lambda>_. False))
       });
       return 0
     }
   }"

definition keyword_buffer :: "env \<Rightarrow> nat \<Rightarrow> unit io" where
  "keyword_buffer E s = do {
     x \<leftarrow> sst s (\<lambda>x. x);
     case rec_config x of
       None \<Rightarrow> tell OutOfBounds
     | Some rc \<Rightarrow>
         when_io (capture_requested rc \<or> length (engines x) > 1) (
           if \<not> st_reader x then tell OutOfBounds
           else do {
             (r, ei) \<leftarrow> call_out E (St (Vui s (VGetParameter ''PARAM_KEYWORD_INDEX'')));
             bs \<leftarrow> call E (St (Reader s RGetBufferSize));
             un \<leftarrow> (if ei \<noteq> 0 \<and> ei < bs then return ei
                    else do { u \<leftarrow> call E (St (Reader s RGetUnreadSize)); return (u mod bs) });
             when_io (bs = 0) (tell OutOfBounds);
             fails \<leftarrow> call E (AllocFails (nat un));
             when_io (fails = 0) (do {
               ret \<leftarrow> call E (St (Reader s (RGetKwData (nat un))));
               when_io (ret > 0) (do { vui E s (VSetParameter ''PARAM_FTRT_DATA''); return () })
             })
           })
   }"

text \<open>The loop around \<^verbatim>\<open>try_lock\<close> spins while the stream is still in one of the given states, so
  in those it ends with the mutex; otherwise the environment says whether it got it.\<close>

definition spin_lock :: "env \<Rightarrow> nat \<Rightarrow> st_state_id_t list \<Rightarrow> bool io" where
  "spin_lock E s states = do {
     q \<leftarrow> sst s cur_state;
     got \<leftarrow> (if q \<in> set states then return True else ask E (TryLock (StreamMutex s)));
     when_io got (lock (StreamMutex s));
     return got
   }"

definition call_client :: "env \<Rightarrow> stream_vt \<Rightarrow> nat \<Rightarrow> nat \<Rightarrow> unit io" where
  "call_client E V s detection = do {
     upd_str s (currentState_update (\<lambda>_. STREAM_STOPPED));
     unlock (StreamMutex s);
     tell (St (ClientCallback s detection));
     sv_callback V s;
     got \<leftarrow> spin_lock E s [ST_STATE_DETECTED, ST_STATE_BUFFERING];
     when_io (\<not> got) (upd_sst s (mutex_unlocked_after_cb_update (\<lambda>_. True)))
   }"

definition notify_detection :: "env \<Rightarrow> stream_vt \<Rightarrow> nat \<Rightarrow> nat \<Rightarrow> int io" where
  "notify_detection E V s detection = do {
     PostDelayedStop s;
     c \<leftarrow> sst s sm_cfg;
     when_io (c = None) (tell OutOfBounds);
     when_io (case c of None \<Rightarrow> False | Some c \<Rightarrow> ST_PARAM_KEY_KEYWORD_BUFFER \<in> set (vc_ext_det_prop_list c))
       (keyword_buffer E s);
     if_ok (vui E s (VSetParameter ''PARAM_DETECTION_RESULT'')) (do {
       (status, ev) \<leftarrow> call_out E (St (Vui s (VGetParameter ''PARAM_DETECTION_EVENT'')));
       cb \<leftarrow> sst s st_callback;
       if status \<noteq> 0 \<or> ev = 0 then return status
       else do { when_io (cb \<noteq> 0) (call_client E V s detection); return 0 }
     })
   }"

definition notifyClient :: "env \<Rightarrow> stream_vt \<Rightarrow> nat \<Rightarrow> nat \<Rightarrow> int io" where
  "notifyClient E V s detection =
     (if detection = PAL_RECOGNITION_STATUS_ABORT then notify_abort E V s else notify_detection E V s detection)"

section \<open>Steps the states share\<close>

definition FstageLoad :: "env \<Rightarrow> stream_vt \<Rightarrow> nat \<Rightarrow> int io" where
  "FstageLoad E V s = if_ok (UpdateDeviceConfig E V s) (do {
     updateStreamAttributes E s;
     gsl E s ELoadSoundModel
   })"

definition FstageUnload :: "env \<Rightarrow> nat \<Rightarrow> int io" where
  "FstageUnload E s = do {
     close_opened s 0;
     upd_str s (mDevices_update (\<lambda>_. []));
     shared \<leftarrow> sst s is_backend_shared;
     ps \<leftarrow> str s mPalDevices;
     when_io (shared \<and> ps \<noteq> []) (forget_pal_devices s);
     gsl E s EReconfigureDetectionGraph
   }"

definition stop_engines :: "env \<Rightarrow> nat \<Rightarrow> int io" where
  "stop_engines E s = do {
     es \<leftarrow> sst s engines;
     last_status 0 es (\<lambda>(i, e). eng E s e EStopRecognition)
   }"

text \<open>Start the engines in turn; the second result is the engines that did start.\<close>

fun start_each :: "(nat \<times> nat \<Rightarrow> int io) \<Rightarrow> (nat \<times> nat) list \<Rightarrow> nat list \<Rightarrow> (int \<times> nat list) io" where
  "start_each f [] started = return (0, started)"
| "start_each f (x # xs) started = do {
     r \<leftarrow> f x;
     if r \<noteq> 0 then return (r, started) else start_each f xs (started @ [snd x])
   }"

definition restart_engines :: "env \<Rightarrow> nat \<Rightarrow> int io" where
  "restart_engines E s = do {
     es \<leftarrow> sst s engines;
     until_fail es (\<lambda>(i, e). do {
       r \<leftarrow> eng E s e ERestartRecognition;
       if r = RESTART_IGNORED then eng E s e EStartRecognition else return r
     })
   }"

definition deregister_first :: "nat \<Rightarrow> unit io" where
  "deregister_first s = do {
     ds \<leftarrow> str s mDevices;
     case ds of [] \<Rightarrow> return () | d # _ \<Rightarrow> do { RM_deregisterDevice d s; return () }
   }"

definition stop_close_first :: "nat \<Rightarrow> int \<Rightarrow> int io" where
  "stop_close_first s st = do {
     ds \<leftarrow> str s mDevices;
     case ds of
       [] \<Rightarrow> return st
     | d # _ \<Rightarrow> do {
         Device_stop d;
         r \<leftarrow> Device_close d;
         upd_sst s (device_opened_update (\<lambda>_. False));
         return r
       }
   }"

text \<open>Undoing a start that failed half way.\<close>

definition start_undo :: "env \<Rightarrow> nat \<Rightarrow> nat list \<Rightarrow> unit io" where
  "start_undo E s started = do {
     for_each started (\<lambda>e. do { eng E s e EStopRecognition; return () });
     deregister_first s;
     stop_close_first s 0;
     return ()
   }"

definition IsSameDeviceType :: "bool \<Rightarrow> nat \<Rightarrow> nat \<Rightarrow> bool" where
  "IsSameDeviceType shared i cur =
     (let hs = {PAL_DEVICE_IN_HANDSET_VA_MIC, PAL_DEVICE_IN_SPEAKER_MIC, PAL_DEVICE_IN_HANDSET_MIC};
          hd = {PAL_DEVICE_IN_HEADSET_VA_MIC, PAL_DEVICE_IN_WIRED_HEADSET}
      in i = cur \<or> (shared \<and> ((i \<in> hs \<and> cur \<in> hs) \<or> (i \<in> hd \<and> cur \<in> hd))))"

definition runs_on :: "nat \<Rightarrow> nat \<Rightarrow> bool io" where
  "runs_on s i = do {
     ds \<leftarrow> str s mDevices;
     shared \<leftarrow> sst s is_backend_shared;
     case ds of
       [] \<Rightarrow> return False
     | d # _ \<Rightarrow> do { cur \<leftarrow> Device_getSndDeviceId d; return (IsSameDeviceType shared i cur) }
   }"

text \<open>Connecting: configure and open the device, then start it and attach it to the session.  The
  device is the second result, if there is one to go on with.\<close>

definition connect_setup :: "env \<Rightarrow> stream_vt \<Rightarrow> nat \<Rightarrow> (int \<times> nat option) io" where
  "connect_setup E V s = do {
     ds \<leftarrow> str s mDevices;
     if ds \<noteq> [] then return (- EINVAL, None)
     else do {
       status \<leftarrow> UpdateDeviceConfig E V s;
       ds \<leftarrow> str s mDevices;
       case ds of
         [] \<Rightarrow> return (status, None)
       | d # _ \<Rightarrow>
           if status \<noteq> 0 then return (status, None)
           else do {
             updateStreamAttributes E s;
             r \<leftarrow> gsl E s (ESetupSessionDevice d);
             if r \<noteq> 0 then do { upd_str s (mDevices_update butlast); return (r, None) }
             else do {
               op \<leftarrow> sst s device_opened;
               r \<leftarrow> (if op then return 0 else voted_open E d);
               if r \<noteq> 0 then return (r, None)
               else do { upd_sst s (device_opened_update (\<lambda>_. True)); return (0, Some d) }
             }
           }
     }
   }"

definition connect_device :: "env \<Rightarrow> nat \<Rightarrow> nat \<Rightarrow> bool \<Rightarrow> int io" where
  "connect_device E s d starting = do {
     r \<leftarrow> (if starting then Device_start E d else return 0);
     if r \<noteq> 0 then do {
       Device_close d;
       upd_sst s (device_opened_update (\<lambda>_. False));
       return r
     }
     else do {
       r \<leftarrow> gsl E s (EConnectSessionDevice d);
       when_io (r \<noteq> 0) (do {
         upd_str s (mDevices_update butlast);
         Device_close d;
         upd_sst s (device_opened_update (\<lambda>_. False))
       });
       return r
     }
   }"

text \<open>\<^verbatim>\<open>DisconnectEvent\<close>; \<open>dev_event\<close> says that the event is a device being disconnected.\<close>

definition DisconnectEvent :: "env \<Rightarrow> nat \<Rightarrow> bool \<Rightarrow> bool \<Rightarrow> int io" where
  "DisconnectEvent E s dev_event switching = do {
     ds \<leftarrow> str s mDevices;
     if ds = [] then return 0
     else do {
       CancelDelayedStop s;
       st \<leftarrow> stop_engines E s;
       st \<leftarrow> last_status st ds (\<lambda>d. do {
         RM_deregisterDevice d s;
         when_io dev_event (do { gsl E s (EDisconnectSessionDevice d switching); return () });
         Device_stop d;
         r \<leftarrow> Device_close d;
         upd_sst s (device_opened_update (\<lambda>_. False));
         return r
       });
       upd_str s (mDevices_update (\<lambda>_. []));
       return st
     }
   }"

definition ConnectEvent :: "env \<Rightarrow> stream_vt \<Rightarrow> nat \<Rightarrow> int io" where
  "ConnectEvent E V s = do {
     (status, d) \<leftarrow> connect_setup E V s;
     case d of
       None \<Rightarrow> return status
     | Some d \<Rightarrow> if_ok (connect_device E s d True) (do {
         RM_registerDevice d s;
         x \<leftarrow> sst s (\<lambda>x. x);
         (r, started) \<leftarrow>
           (if cur_state x = ST_STATE_BUFFERING
            then (if second_stage_processing x
                  then start_each (\<lambda>(i, e). eng E s e EStartRecognition) (engines x) [] else return (0, []))
            else do { upd_sst s (second_stage_processing_update (\<lambda>_. False)); return (0, []) });
         if r \<noteq> 0 then do { start_undo E s started; return r }
         else do { reader_do s RReset; return 0 }
       })
   }"

definition ec_ref :: "env \<Rightarrow> nat \<Rightarrow> nat option \<Rightarrow> bool \<Rightarrow> int io" where
  "ec_ref E s d is_enable = do {
     cached \<leftarrow> sst s ec_rx_dev;
     gsl E s (ESetECRef d is_enable (cached = None))
   }"

section \<open>The states\<close>

text \<open>\<open>self\<close> is \<^verbatim>\<open>ProcessInternalEvent\<close>: the event handled by the state the stream is in by then.\<close>

subsection \<open>Idle\<close>

definition Idle_load :: "env \<Rightarrow> stream_vt \<Rightarrow> nat \<Rightarrow> pal_st_sound_model \<Rightarrow> int io" where
  "Idle_load E V s sm = do {
     c \<leftarrow> stu (\<lambda>u. stream_cfg_list u (vendor_uuid sm));
     upd_sst s (sm_cfg_update (\<lambda>_. c));
     if c = None then return (- EINVAL)
     else if_ok (UpdateDeviceConfig E V s)
       (if_ok (LoadSoundModel E s sm) (do { TransitTo s ST_STATE_LOADED; return 0 }))
   }"

definition Idle_concurrent :: "env \<Rightarrow> stream_vt \<Rightarrow> (st_ev \<Rightarrow> int io) \<Rightarrow> nat \<Rightarrow> bool \<Rightarrow> int io" where
  "Idle_concurrent E V self s active = do {
     m \<leftarrow> sst s gsl_engine_model;
     if m = None then return 0
     else do {
       p \<leftarrow> GetCurrentCaptureProfile s;
       if p = None then return (- EINVAL)
       else if \<not> active then return 0
       else if_ok (FstageLoad E V s) (do {
         TransitTo s ST_STATE_LOADED;
         a \<leftarrow> StreamSoundTrigger_isActive s;
         if a then self ST_EV_START_RECOGNITION else return 0
       })
     }
   }"

definition StIdle_ProcessEvent :: "env \<Rightarrow> stream_vt \<Rightarrow> (st_ev \<Rightarrow> int io) \<Rightarrow> nat \<Rightarrow> st_ev \<Rightarrow> int io" where
  "StIdle_ProcessEvent E V self s ev =
     (case ev of
        ST_EV_LOAD_SOUND_MODEL sm \<Rightarrow> Idle_load E V s sm
      | ST_EV_UNLOAD_SOUND_MODEL \<Rightarrow> do {
          i \<leftarrow> str s mInstanceID;
          if i = 0 then return 0 else UnloadSoundModel E s
        }
      | ST_EV_PAUSE \<Rightarrow> do { upd_sst s (paused_update (\<lambda>_. True)); return 0 }
      | ST_EV_INTERNAL_PAUSE \<Rightarrow> do { upd_sst s (paused_update (\<lambda>_. True)); return 0 }
      | ST_EV_RESUME \<Rightarrow> do { upd_sst s (paused_update (\<lambda>_. False)); return 0 }
      | ST_EV_INTERNAL_RESUME \<Rightarrow> do { upd_sst s (paused_update (\<lambda>_. False)); return 0 }
      | ST_EV_READ_BUFFER n \<Rightarrow> return (- EIO)
      | ST_EV_DEVICE_DISCONNECTED i \<Rightarrow> do {
          b \<leftarrow> runs_on s i;
          when_io b (upd_str s (mDevices_update (\<lambda>_. [])));
          return 0
        }
      | ST_EV_DEVICE_CONNECTED i \<Rightarrow> do {
          ds \<leftarrow> str s mDevices;
          c \<leftarrow> sst s sm_cfg;
          if ds \<noteq> [] then return (- EINVAL)
          else if c = None then return 0
          else UpdateDeviceConfig E V s
        }
      | ST_EV_CONCURRENT_STREAM active \<Rightarrow> Idle_concurrent E V self s active
      | ST_EV_SSR_OFFLINE \<Rightarrow> do {
          upd_sst s (\<lambda>x. if state_for_restore x = ST_STATE_NONE then x\<lparr>state_for_restore := ST_STATE_IDLE\<rparr> else x);
          TransitTo s ST_STATE_SSR;
          return 0
        }
      | ST_EV_FSTAGE_LOAD \<Rightarrow> if_ok (FstageLoad E V s) (do { TransitTo s ST_STATE_LOADED; return 0 })
      | _ \<Rightarrow> return 0)"

subsection \<open>Loaded\<close>

definition has_lpi :: "string \<Rightarrow> bool" where
  "has_lpi n = list_ex (\<lambda>i. take 3 (drop i n) = ''lpi'') [0..<length n]"

text \<open>The common capture profile is brought up to date on a start only.\<close>

definition start_profile :: "stream_vt \<Rightarrow> nat \<Rightarrow> bool \<Rightarrow> unit io" where
  "start_profile V s is_start = do {
     x \<leftarrow> sst s (\<lambda>x. x);
     when_io (\<not> is_backend_shared x \<and> \<not> common_cp_update_disable x \<and> is_start) (do {
       upd \<leftarrow> UpdateSoundTriggerCaptureProfile (self_vt V s) s True;
       when_io upd (do { StopOtherDetectionStreams V s; StartOtherDetectionStreams V s; return () })
     })
   }"

text \<open>Apply the common profile to the device; \<open>False\<close> when there is none.  With a shared backend
  the vote reads the profile of no one.\<close>

definition start_attributes :: "nat \<Rightarrow> nat \<Rightarrow> bool io" where
  "start_attributes s d = do {
     shared \<leftarrow> sst s is_backend_shared;
     if shared then do { tell OutOfBounds; return True }
     else do {
       (r, a) \<leftarrow> Device_getDeviceAttributes d True None;
       cp \<leftarrow> GetSoundTriggerCaptureProfile;
       case (cp, a) of
         (Some p, Some a) \<Rightarrow> do {
           upd_dev d (UpdatedSndName_update (\<lambda>_. cp_snd_name p));
           Device_setDeviceAttributes d (a\<lparr>config := (config a)\<lparr>bit_width := cp_bitwidth p,
             channels := cp_channels p, sample_rate := cp_sample_rate p\<rparr>\<rparr>);
           upd_sst s (vote_lpi_update (\<lambda>_. has_lpi (cp_snd_name p)));
           return True
         }
       | _ \<Rightarrow> return False
     }
   }"

text \<open>Open and start the device and register it.\<close>

definition start_device :: "env \<Rightarrow> nat \<Rightarrow> nat \<Rightarrow> int io" where
  "start_device E s d = do {
     op \<leftarrow> sst s device_opened;
     if_ok (if op then return 0 else voted_open E d) (do {
       upd_sst s (device_opened_update (\<lambda>_. True));
       r \<leftarrow> Device_start E d;
       if r \<noteq> 0 then do {
         Device_close d;
         upd_sst s (device_opened_update (\<lambda>_. False));
         return r
       }
       else do { RM_registerDevice d s; return 0 }
     })
   }"

definition Loaded_start_engines :: "env \<Rightarrow> nat \<Rightarrow> int io" where
  "Loaded_start_engines E s = do {
     es \<leftarrow> sst s engines;
     (r, started) \<leftarrow> start_each (\<lambda>(i, e). eng E s e EStartRecognition) es [];
     if r \<noteq> 0 then do { start_undo E s started; return r }
     else do { reader_do s RReset; TransitTo s ST_STATE_ACTIVE; return 0 }
   }"

definition Loaded_start :: "env \<Rightarrow> stream_vt \<Rightarrow> nat \<Rightarrow> bool \<Rightarrow> int io" where
  "Loaded_start E V s is_start = do {
     x \<leftarrow> sst s (\<lambda>x. x);
     if paused x then return (- EBUSY)
     else if rec_config x = None then return (- EINVAL)
     else do {
       start_profile V s is_start;
       ds \<leftarrow> str s mDevices;
       case ds of
         [] \<Rightarrow> Loaded_start_engines E s
       | d # _ \<Rightarrow> do {
           ok \<leftarrow> start_attributes s d;
           if \<not> ok then do { start_undo E s []; return 0 }
           else if_ok (start_device E s d) (Loaded_start_engines E s)
         }
     }
   }"

definition Loaded_internal_resume :: "env \<Rightarrow> stream_vt \<Rightarrow> nat \<Rightarrow> int io" where
  "Loaded_internal_resume E V s = do {
     upd_sst s (paused_update (\<lambda>_. False));
     a \<leftarrow> StreamSoundTrigger_isActive s;
     rc \<leftarrow> sst s rec_config;
     if \<not> a then return 0
     else if_ok (if rc = None then return 0 else SendRecognitionConfig E s None) (Loaded_start E V s False)
   }"

definition may_run :: "nat \<Rightarrow> bool io" where
  "may_run s = do {
     a \<leftarrow> StreamSoundTrigger_isActive s;
     p \<leftarrow> sst s paused;
     return (a \<and> \<not> p)
   }"

fun release_devices :: "env \<Rightarrow> nat \<Rightarrow> nat list \<Rightarrow> int \<Rightarrow> int io" where
  "release_devices E s [] st = return st"
| "release_devices E s (d # ds) st = do {
     gsl E s (EDisconnectSessionDevice d False);
     op \<leftarrow> sst s device_opened;
     if \<not> op then release_devices E s ds st
     else do {
       r \<leftarrow> Device_close d;
       upd_sst s (device_opened_update (\<lambda>_. False));
       release_devices E s ds r
     }
   }"

definition Loaded_disconnect :: "env \<Rightarrow> nat \<Rightarrow> nat \<Rightarrow> int io" where
  "Loaded_disconnect E s i = do {
     b \<leftarrow> runs_on s i;
     ds \<leftarrow> str s mDevices;
     if \<not> b then return 0
     else do {
       st \<leftarrow> release_devices E s ds 0;
       upd_str s (mDevices_update (\<lambda>_. []));
       return st
     }
   }"

text \<open>The first stage engine decides itself whether it has to start.\<close>

definition Loaded_connect :: "env \<Rightarrow> stream_vt \<Rightarrow> nat \<Rightarrow> int io" where
  "Loaded_connect E V s = do {
     (status, d) \<leftarrow> connect_setup E V s;
     case d of
       None \<Rightarrow> return status
     | Some d \<Rightarrow> do {
         go \<leftarrow> may_run s;
         if_ok (connect_device E s d go) (do {
           when_io go (do { RM_registerDevice d s; return () });
           es \<leftarrow> sst s engines;
           (r, started) \<leftarrow> start_each (\<lambda>(i, e).
             if i = ST_SM_ID_SVA_F_STAGE_GMM then eng E s e ECheckForStartRecognition
             else if go then eng E s e EStartRecognition else return 0) es [];
           if r \<noteq> 0 then do { start_undo E s started; return r }
           else do {
             reader_do s RReset;
             upd_sst s (second_stage_processing_update (\<lambda>_. False));
             when_io go (TransitTo s ST_STATE_ACTIVE);
             return 0
           }
         })
       }
   }"

definition Loaded_concurrent :: "env \<Rightarrow> nat \<Rightarrow> bool \<Rightarrow> int io" where
  "Loaded_concurrent E s active = do {
     p \<leftarrow> GetCurrentCaptureProfile s;
     if p = None \<or> active then return (- EINVAL)
     else if_ok (FstageUnload E s) (do { TransitTo s ST_STATE_IDLE; return 0 })
   }"

definition StLoaded_ProcessEvent :: "env \<Rightarrow> stream_vt \<Rightarrow> (st_ev \<Rightarrow> int io) \<Rightarrow> nat \<Rightarrow> st_ev \<Rightarrow> int io" where
  "StLoaded_ProcessEvent E V self s ev =
     (case ev of
        ST_EV_UNLOAD_SOUND_MODEL \<Rightarrow> do {
          r \<leftarrow> UnloadSoundModel E s;
          TransitTo s ST_STATE_IDLE;
          return r
        }
      | ST_EV_RECOGNITION_CONFIG c \<Rightarrow> SendRecognitionConfig E s (Some c)
      | ST_EV_RESUME \<Rightarrow> do { upd_sst s (paused_update (\<lambda>_. False)); return 0 }
      | ST_EV_INTERNAL_RESUME \<Rightarrow> Loaded_internal_resume E V s
      | ST_EV_START_RECOGNITION \<Rightarrow> Loaded_start E V s True
      | ST_EV_PAUSE \<Rightarrow> do { upd_sst s (paused_update (\<lambda>_. True)); return 0 }
      | ST_EV_INTERNAL_PAUSE \<Rightarrow> do { upd_sst s (paused_update (\<lambda>_. True)); return 0 }
      | ST_EV_READ_BUFFER n \<Rightarrow> return (- EIO)
      | ST_EV_DEVICE_DISCONNECTED i \<Rightarrow> Loaded_disconnect E s i
      | ST_EV_DEVICE_CONNECTED i \<Rightarrow> Loaded_connect E V s
      | ST_EV_CONCURRENT_STREAM active \<Rightarrow> Loaded_concurrent E s active
      | ST_EV_SSR_OFFLINE \<Rightarrow> do {
          upd_sst s (\<lambda>x. if state_for_restore x = ST_STATE_NONE then x\<lparr>state_for_restore := ST_STATE_LOADED\<rparr> else x);
          r \<leftarrow> self ST_EV_FSTAGE_UNLOAD;
          TransitTo s ST_STATE_SSR;
          return r
        }
      | ST_EV_EC_REF d b \<Rightarrow> ec_ref E s d b
      | ST_EV_DETECTED t \<Rightarrow> stop_engines E s
      | ST_EV_FSTAGE_UNLOAD \<Rightarrow> do {
          r \<leftarrow> FstageUnload E s;
          TransitTo s ST_STATE_IDLE;
          return r
        }
      | _ \<Rightarrow> return 0)"

subsection \<open>Active\<close>

text \<open>Stopping from each of the three running states: what comes before \<^verbatim>\<open>TransitTo(LOADED)\<close>.\<close>

definition Active_halt :: "env \<Rightarrow> nat \<Rightarrow> int io" where
  "Active_halt E s = do {
     deregister_first s;
     r \<leftarrow> stop_engines E s;
     stop_close_first s r
   }"

definition Active_stop :: "env \<Rightarrow> stream_vt \<Rightarrow> nat \<Rightarrow> bool \<Rightarrow> int io" where
  "Active_stop E V s pausing = do {
     x \<leftarrow> sst s (\<lambda>x. x);
     upd \<leftarrow> (if \<not> is_backend_shared x \<and> \<not> common_cp_update_disable x \<and> \<not> pausing
            then UpdateSoundTriggerCaptureProfile (self_vt V s) s False else return False);
     when_io upd (do { StopOtherDetectionStreams V s; return () });
     r \<leftarrow> Active_halt E s;
     r \<leftarrow> (if upd then StartOtherDetectionStreams V s else return r);
     TransitTo s ST_STATE_LOADED;
     return r
   }"

definition Active_detected :: "env \<Rightarrow> stream_vt \<Rightarrow> nat \<Rightarrow> nat \<Rightarrow> int io" where
  "Active_detected E V s det = do {
     if det \<noteq> GMM_DETECTED \<and> det \<noteq> THRESHOLD_REACHED then return 0
     else do {
       x \<leftarrow> sst s (\<lambda>x. x);
       when_io (det = GMM_DETECTED \<and> rec_config x = None) (tell OutOfBounds);
       (if det = THRESHOLD_REACHED then do {
          upd_sst s (batchModeReadDone_update (\<lambda>_. False));
          TransitTo s ST_STATE_BUFFERING
        }
        else if \<not> (case rec_config x of None \<Rightarrow> False | Some rc \<Rightarrow> capture_requested rc) \<and> length (engines x) = 1
        then TransitTo s ST_STATE_DETECTED
        else do {
          when_io (length (engines x) > 1) (upd_sst s (second_stage_processing_update (\<lambda>_. True)));
          TransitTo s ST_STATE_BUFFERING;
          for_each (filter (\<lambda>(i, e). i \<noteq> ST_SM_ID_SVA_F_STAGE_GMM) (engines x))
            (\<lambda>(i, e). do { eng E s e (ESetDetected GMM_DETECTED); return () })
        });
       when_io (length (engines x) = 1) (do { notifyClient E V s PAL_RECOGNITION_STATUS_SUCCESS; return () });
       return 0
     }
   }"

text \<open>A configuration that differs: back to loaded, which sends it on.\<close>

definition reconfigure :: "(st_ev \<Rightarrow> int io) \<Rightarrow> nat \<Rightarrow> pal_st_recognition_config \<Rightarrow> int io \<Rightarrow> unit io \<Rightarrow> int io" where
  "reconfigure self s c halt release = do {
     rc \<leftarrow> sst s rec_config;
     if compareRecognitionConfig rc (Some c) then return 0
     else do {
       halt;
       TransitTo s ST_STATE_LOADED;
       r \<leftarrow> self (ST_EV_RECOGNITION_CONFIG c);
       release;
       return r
     }
   }"

definition Active_disconnect :: "env \<Rightarrow> nat \<Rightarrow> nat \<Rightarrow> int io" where
  "Active_disconnect E s i = do {
     b \<leftarrow> runs_on s i;
     ds \<leftarrow> str s mDevices;
     if \<not> b then return 0
     else do {
       st \<leftarrow> until_fail ds (\<lambda>d. do {
         RM_deregisterDevice d s;
         gsl E s (EDisconnectSessionDevice d False);
         if_ok (Device_stop d) (do {
           r \<leftarrow> Device_close d;
           upd_sst s (device_opened_update (\<lambda>_. False));
           return r
         })
       });
       upd_str s (mDevices_update (\<lambda>_. []));
       return st
     }
   }"

definition Active_connect :: "env \<Rightarrow> stream_vt \<Rightarrow> nat \<Rightarrow> int io" where
  "Active_connect E V s = do {
     (status, d) \<leftarrow> connect_setup E V s;
     case d of
       None \<Rightarrow> return status
     | Some d \<Rightarrow> if_ok (connect_device E s d True) (do { RM_registerDevice d s; return 0 })
   }"

definition Active_concurrent :: "(st_ev \<Rightarrow> int io) \<Rightarrow> nat \<Rightarrow> bool \<Rightarrow> int io" where
  "Active_concurrent self s active = do {
     p \<leftarrow> GetCurrentCaptureProfile s;
     if p = None \<or> active then return (- EINVAL)
     else if_ok (self ST_EV_STOP_RECOGNITION) (self (ST_EV_CONCURRENT_STREAM active))
   }"

text \<open>The card goes down: remember what to come back to, stop, unload the first stage.\<close>

definition ssr_offline :: "(st_ev \<Rightarrow> int io) \<Rightarrow> nat \<Rightarrow> (StreamSoundTrigger \<Rightarrow> st_state_id_t) \<Rightarrow> int io" where
  "ssr_offline self s restore = do {
     upd_sst s (\<lambda>x. if state_for_restore x = ST_STATE_NONE then x\<lparr>state_for_restore := restore x\<rparr> else x);
     self ST_EV_STOP_RECOGNITION;
     r \<leftarrow> self ST_EV_FSTAGE_UNLOAD;
     TransitTo s ST_STATE_SSR;
     return r
   }"

definition StActive_ProcessEvent :: "env \<Rightarrow> stream_vt \<Rightarrow> (st_ev \<Rightarrow> int io) \<Rightarrow> nat \<Rightarrow> st_ev \<Rightarrow> int io" where
  "StActive_ProcessEvent E V self s ev =
     (case ev of
        ST_EV_DETECTED t \<Rightarrow> Active_detected E V s t
      | ST_EV_PAUSE \<Rightarrow> do {
          upd_sst s (paused_update (\<lambda>_. True));
          Active_stop E V s True;
          notifyClient E V s PAL_RECOGNITION_STATUS_ABORT
        }
      | ST_EV_INTERNAL_PAUSE \<Rightarrow> do {
          upd_sst s (paused_update (\<lambda>_. True));
          Active_stop E V s True
        }
      | ST_EV_UNLOAD_SOUND_MODEL \<Rightarrow> do {
          Active_stop E V s False;
          self ST_EV_UNLOAD_SOUND_MODEL
        }
      | ST_EV_STOP_RECOGNITION \<Rightarrow> Active_stop E V s False
      | ST_EV_RECOGNITION_CONFIG c \<Rightarrow> reconfigure self s c (Active_halt E s) (return ())
      | ST_EV_EC_REF d b \<Rightarrow> ec_ref E s d b
      | ST_EV_READ_BUFFER n \<Rightarrow> return (- EIO)
      | ST_EV_DEVICE_DISCONNECTED i \<Rightarrow> Active_disconnect E s i
      | ST_EV_DEVICE_CONNECTED i \<Rightarrow> Active_connect E V s
      | ST_EV_CONCURRENT_STREAM active \<Rightarrow> Active_concurrent self s active
      | ST_EV_SSR_OFFLINE \<Rightarrow> ssr_offline self s (\<lambda>x. ST_STATE_ACTIVE)
      | ST_EV_FORCE_RECOGNITION \<Rightarrow> gsl E s EForceRecognition
      | _ \<Rightarrow> return 0)"

subsection \<open>Detected\<close>

definition Detected_halt :: "env \<Rightarrow> nat \<Rightarrow> int io" where
  "Detected_halt E s = do {
     deregister_first s;
     CancelDelayedStop s;
     r \<leftarrow> stop_engines E s;
     stop_close_first s r
   }"

text \<open>Restarting after a detection, from detected and from buffering.\<close>

definition rearm :: "env \<Rightarrow> nat \<Rightarrow> int io" where
  "rearm E s = do {
     CancelDelayedStop s;
     r \<leftarrow> restart_engines E s;
     reader_do s RReset;
     TransitTo s (if r = 0 then ST_STATE_ACTIVE else ST_STATE_LOADED);
     RM_releaseWakeLock;
     return r
   }"

text \<open>A stop, a pause or an unload in detected or buffering; \<open>rest\<close> is what the event asks for beyond
  stopping.\<close>

definition leave_detection :: "nat \<Rightarrow> int io \<Rightarrow> (int \<Rightarrow> int io) \<Rightarrow> int io" where
  "leave_detection s halt rest = do {
     r \<leftarrow> halt;
     TransitTo s ST_STATE_LOADED;
     r \<leftarrow> rest r;
     RM_releaseWakeLock;
     return r
   }"

definition StDetected_ProcessEvent :: "env \<Rightarrow> stream_vt \<Rightarrow> (st_ev \<Rightarrow> int io) \<Rightarrow> nat \<Rightarrow> st_ev \<Rightarrow> int io" where
  "StDetected_ProcessEvent E V self s ev =
     (case ev of
        ST_EV_START_RECOGNITION \<Rightarrow> rearm E s
      | ST_EV_PAUSE \<Rightarrow> do {
          CancelDelayedStop s;
          upd_sst s (paused_update (\<lambda>_. True));
          leave_detection s (Detected_halt E s) (\<lambda>r. notifyClient E V s PAL_RECOGNITION_STATUS_ABORT)
        }
      | ST_EV_INTERNAL_PAUSE \<Rightarrow> do {
          CancelDelayedStop s;
          upd_sst s (paused_update (\<lambda>_. True));
          leave_detection s (Detected_halt E s) return
        }
      | ST_EV_UNLOAD_SOUND_MODEL \<Rightarrow>
          leave_detection s (Detected_halt E s) (\<lambda>r. self ST_EV_UNLOAD_SOUND_MODEL)
      | ST_EV_STOP_RECOGNITION \<Rightarrow> leave_detection s (Detected_halt E s) return
      | ST_EV_RECOGNITION_CONFIG c \<Rightarrow> reconfigure self s c (Detected_halt E s) RM_releaseWakeLock
      | ST_EV_RESUME \<Rightarrow> do { upd_sst s (paused_update (\<lambda>_. False)); return 0 }
      | ST_EV_INTERNAL_RESUME \<Rightarrow> do { upd_sst s (paused_update (\<lambda>_. False)); return 0 }
      | ST_EV_CONCURRENT_STREAM active \<Rightarrow>
          leave_detection s (DisconnectEvent E s False False) (\<lambda>r. self (ST_EV_CONCURRENT_STREAM active))
      | ST_EV_DEVICE_DISCONNECTED i \<Rightarrow> DisconnectEvent E s True False
      | ST_EV_DEVICE_CONNECTED i \<Rightarrow> ConnectEvent E V s
      | ST_EV_SSR_OFFLINE \<Rightarrow> ssr_offline self s (\<lambda>x. ST_STATE_LOADED)
      | ST_EV_EC_REF d b \<Rightarrow> ec_ref E s d b
      | _ \<Rightarrow> return 0)"

subsection \<open>Buffering\<close>

definition Buffering_halt :: "env \<Rightarrow> nat \<Rightarrow> int io" where
  "Buffering_halt E s = do {
     deregister_first s;
     drop_nlpi_vote s;
     CancelDelayedStop s;
     r \<leftarrow> stop_engines E s;
     reader_do s RReset;
     stop_close_first s r
   }"

definition Buffering_read :: "env \<Rightarrow> nat \<Rightarrow> nat \<Rightarrow> int io" where
  "Buffering_read E s n = do {
     x \<leftarrow> sst s (\<lambda>x. x);
     if \<not> st_reader x then return (- EINVAL)
     else do {
       when_io (\<not> batchModeReadDone x) (do { gsl E s EReadIfBatchMode; return () });
       upd_sst s (batchModeReadDone_update (\<lambda>_. True));
       call E (St (Reader s (RRead n)))
     }
   }"

text \<open>The engines of the other kind are stopped when the second stage rejects.\<close>

definition stops_on :: "nat \<Rightarrow> nat \<Rightarrow> bool" where
  "stops_on det i \<longleftrightarrow>
     (det = USER_VERIFICATION_REJECT \<and> masks i ST_SM_ID_SVA_S_STAGE_KWD) \<or>
     (det = KEYWORD_DETECTION_REJECT \<and> (masks i ST_SM_ID_SVA_S_STAGE_USER \<or> masks i ST_SM_ID_SVA_S_STAGE_CTIUV))"

definition second_stage_rejects :: "env \<Rightarrow> stream_vt \<Rightarrow> nat \<Rightarrow> nat \<Rightarrow> int io" where
  "second_stage_rejects E V s det = do {
     x \<leftarrow> sst s (\<lambda>x. x);
     if rejection_notified x then return 0
     else do {
       r \<leftarrow> last_status 0 (filter (\<lambda>(i, e). stops_on det i) (engines x)) (\<lambda>(i, e). eng E s e EStopRecognition);
       upd_sst s (\<lambda>x. x\<lparr>second_stage_processing := False, detection_state := ENGINE_IDLE\<rparr>);
       notify \<leftarrow> stu notify_second_stage_failure;
       r \<leftarrow> (if notify then do {
              upd_sst s (rejection_notified_update (\<lambda>_. True));
              notifyClient E V s PAL_RECOGNITION_STATUS_FAILURE;
              reader_do s RReset;
              return r
            }
            else do {
              reader_do s RReset;
              r \<leftarrow> until_fail (engines x) (\<lambda>(i, e). eng E s e ERestartRecognition);
              TransitTo s (if r = 0 then ST_STATE_ACTIVE else ST_STATE_LOADED);
              return r
            });
       RM_releaseWakeLock;
       return r
     }
   }"

definition second_stage_accepts :: "env \<Rightarrow> stream_vt \<Rightarrow> nat \<Rightarrow> nat \<Rightarrow> int io" where
  "second_stage_accepts E V s det = do {
     when_io (det = KEYWORD_DETECTION_SUCCESS \<or> det = USER_VERIFICATION_SUCCESS)
       (upd_sst s (detection_state_update (\<lambda>d. or d det)));
     x \<leftarrow> sst s (\<lambda>x. x);
     when_io (detection_state x = notification_state x) (do {
       upd_sst s (\<lambda>x. x\<lparr>second_stage_processing := False, detection_state := ENGINE_IDLE\<rparr>);
       (case rec_config x of
          None \<Rightarrow> tell OutOfBounds
        | Some rc \<Rightarrow> when_io (\<not> capture_requested rc) (TransitTo s ST_STATE_DETECTED));
       notifyClient E V s PAL_RECOGNITION_STATUS_SUCCESS;
       return ()
     });
     return 0
   }"

definition Buffering_detected :: "env \<Rightarrow> stream_vt \<Rightarrow> nat \<Rightarrow> nat \<Rightarrow> int io" where
  "Buffering_detected E V s det =
     (if det = GMM_DETECTED then return 0
      else if det = KEYWORD_DETECTION_REJECT \<or> det = USER_VERIFICATION_REJECT
      then second_stage_rejects E V s det
      else second_stage_accepts E V s det)"

definition StBuffering_ProcessEvent :: "env \<Rightarrow> stream_vt \<Rightarrow> (st_ev \<Rightarrow> int io) \<Rightarrow> nat \<Rightarrow> st_ev \<Rightarrow> int io" where
  "StBuffering_ProcessEvent E V self s ev =
     (case ev of
        ST_EV_READ_BUFFER n \<Rightarrow> Buffering_read E s n
      | ST_EV_STOP_BUFFERING \<Rightarrow> do {
          drop_nlpi_vote s;
          reader_do s (RUpdateState READER_DISABLED_ST);
          upd_sst s (batchModeReadDone_update (\<lambda>_. False));
          PostDelayedStop s;
          return 0
        }
      | ST_EV_START_RECOGNITION \<Rightarrow> do { drop_nlpi_vote s; rearm E s }
      | ST_EV_RECOGNITION_CONFIG c \<Rightarrow> reconfigure self s c (Buffering_halt E s) RM_releaseWakeLock
      | ST_EV_PAUSE \<Rightarrow> do {
          upd_sst s (paused_update (\<lambda>_. True));
          leave_detection s (Buffering_halt E s) (\<lambda>r. notifyClient E V s PAL_RECOGNITION_STATUS_ABORT)
        }
      | ST_EV_INTERNAL_PAUSE \<Rightarrow> do {
          upd_sst s (paused_update (\<lambda>_. True));
          leave_detection s (Buffering_halt E s) return
        }
      | ST_EV_UNLOAD_SOUND_MODEL \<Rightarrow>
          leave_detection s (Buffering_halt E s) (\<lambda>r. self ST_EV_UNLOAD_SOUND_MODEL)
      | ST_EV_STOP_RECOGNITION \<Rightarrow> leave_detection s (Buffering_halt E s) return
      | ST_EV_DETECTED t \<Rightarrow> Buffering_detected E V s t
      | ST_EV_CONCURRENT_STREAM active \<Rightarrow> do {
          drop_nlpi_vote s;
          leave_detection s (do { r \<leftarrow> DisconnectEvent E s False False; reader_do s RReset; return r })
            (\<lambda>r. self (ST_EV_CONCURRENT_STREAM active))
        }
      | ST_EV_DEVICE_DISCONNECTED i \<Rightarrow> do {
          drop_nlpi_vote s;
          ss \<leftarrow> sst s second_stage_processing;
          r \<leftarrow> DisconnectEvent E s True ss;
          reader_do s RReset;
          return r
        }
      | ST_EV_DEVICE_CONNECTED i \<Rightarrow> do {
          r \<leftarrow> ConnectEvent E V s;
          ss \<leftarrow> sst s second_stage_processing;
          when_io (r = 0 \<and> ss) (do {
            TransitTo s ST_STATE_ACTIVE;
            upd_sst s (second_stage_processing_update (\<lambda>_. False))
          });
          return r
        }
      | ST_EV_SSR_OFFLINE \<Rightarrow>
          ssr_offline self s (\<lambda>x. if second_stage_processing x then ST_STATE_ACTIVE else ST_STATE_LOADED)
      | ST_EV_EC_REF d b \<Rightarrow> ec_ref E s d b
      | ST_EV_FORCE_RECOGNITION \<Rightarrow> do {
          b \<leftarrow> gsl E s EIsBatchMode;
          when_io (b \<noteq> 0) (do { gsl E s EForceRecognition; return () });
          return 0
        }
      | _ \<Rightarrow> return 0)"

subsection \<open>Subsystem restart\<close>

definition ssr_restore_target :: "Stream \<Rightarrow> st_state_id_t \<Rightarrow> st_state_id_t" where
  "ssr_restore_target x r =
     (if r \<noteq> ST_STATE_IDLE then r
      else if currentState x = STREAM_STARTED then ST_STATE_ACTIVE
      else if currentState x = STREAM_OPENED \<or> currentState x = STREAM_STOPPED then ST_STATE_LOADED
      else r)"

definition SSR_online :: "env \<Rightarrow> (st_ev \<Rightarrow> int io) \<Rightarrow> nat \<Rightarrow> int io" where
  "SSR_online E self s = do {
     TransitTo s ST_STATE_IDLE;
     x \<leftarrow> sst s (\<lambda>x. x);
     b \<leftarrow> str s (\<lambda>x. x);
     if gsl_engine_model x = None then return 0
     else do {
       let t = ssr_restore_target b (state_for_restore x);
       upd_sst s (state_for_restore_update (\<lambda>_. t));
       if_ok (if t = ST_STATE_LOADED \<or> t = ST_STATE_ACTIVE
              then if_ok (self ST_EV_FSTAGE_LOAD) (do {
                rc \<leftarrow> sst s rec_config;
                if rc = None then return 0 else SendRecognitionConfig E s None
              })
              else return 0)
       (if_ok (if t = ST_STATE_ACTIVE then self ST_EV_START_RECOGNITION else return 0) (do {
          upd_sst s (state_for_restore_update (\<lambda>_. ST_STATE_NONE));
          return 0
        }))
     }
   }"

text \<open>A request of the client while the card is down only moves the state to come back to.\<close>

definition ssr_client_step :: "nat \<Rightarrow> st_state_id_t \<Rightarrow> st_state_id_t \<Rightarrow> int io \<Rightarrow> int io" where
  "ssr_client_step s from_state to_state m = do {
     q \<leftarrow> sst s state_for_restore;
     if q \<noteq> from_state then return (- EINVAL)
     else if_ok m (do { upd_sst s (state_for_restore_update (\<lambda>_. to_state)); return 0 })
   }"

definition StSSR_ProcessEvent :: "env \<Rightarrow> stream_vt \<Rightarrow> (st_ev \<Rightarrow> int io) \<Rightarrow> nat \<Rightarrow> st_ev \<Rightarrow> int io" where
  "StSSR_ProcessEvent E V self s ev =
     (case ev of
        ST_EV_SSR_ONLINE \<Rightarrow> SSR_online E self s
      | ST_EV_LOAD_SOUND_MODEL sm \<Rightarrow>
          ssr_client_step s ST_STATE_IDLE ST_STATE_LOADED (UpdateSoundModel E s sm)
      | ST_EV_UNLOAD_SOUND_MODEL \<Rightarrow> ssr_client_step s ST_STATE_LOADED ST_STATE_IDLE (return 0)
      | ST_EV_RECOGNITION_CONFIG c \<Rightarrow>
          ssr_client_step s ST_STATE_LOADED ST_STATE_LOADED (UpdateRecognitionConfig E s c)
      | ST_EV_START_RECOGNITION \<Rightarrow> ssr_client_step s ST_STATE_LOADED ST_STATE_ACTIVE (do {
          rc \<leftarrow> sst s rec_config;
          return (if rc = None then - EINVAL else 0)
        })
      | ST_EV_STOP_RECOGNITION \<Rightarrow> ssr_client_step s ST_STATE_ACTIVE ST_STATE_LOADED (return 0)
      | ST_EV_PAUSE \<Rightarrow> do {
          upd_sst s (paused_update (\<lambda>_. True));
          notifyClient E V s PAL_RECOGNITION_STATUS_ABORT
        }
      | ST_EV_INTERNAL_PAUSE \<Rightarrow> do { upd_sst s (paused_update (\<lambda>_. True)); return 0 }
      | ST_EV_RESUME \<Rightarrow> do {
          c \<leftarrow> str s currentState;
          upd_sst s (\<lambda>x. if paused x then x\<lparr>paused := False, state_for_restore :=
            (if c = STREAM_STARTED then ST_STATE_ACTIVE else state_for_restore x)\<rparr> else x);
          return 0
        }
      | ST_EV_INTERNAL_RESUME \<Rightarrow> do {
          c \<leftarrow> str s currentState;
          upd_sst s (\<lambda>x. if paused x then x\<lparr>paused := False, state_for_restore :=
            (if c = STREAM_STARTED then ST_STATE_ACTIVE else state_for_restore x)\<rparr> else x);
          return 0
        }
      | ST_EV_READ_BUFFER n \<Rightarrow> return (- EIO)
      | _ \<Rightarrow> return 0)"

subsection \<open>Dispatch\<close>

text \<open>
  Events nest: a handler passes an event to the state it has moved the stream to.  The first
  argument bounds the depth of the nesting; \<open>ProcessEvent\<close> allows two, and below it is shown that
  more is never used.
\<close>

fun process :: "nat \<Rightarrow> env \<Rightarrow> stream_vt \<Rightarrow> nat \<Rightarrow> st_ev \<Rightarrow> int io" where
  "process 0 E V s ev = do { tell OutOfBounds; return 0 }"
| "process (Suc n) E V s ev = do {
     q \<leftarrow> sst s cur_state;
     case q of
       ST_STATE_NONE \<Rightarrow> do { tell OutOfBounds; return 0 }
     | ST_STATE_IDLE \<Rightarrow> StIdle_ProcessEvent E V (process n E V s) s ev
     | ST_STATE_LOADED \<Rightarrow> StLoaded_ProcessEvent E V (process n E V s) s ev
     | ST_STATE_ACTIVE \<Rightarrow> StActive_ProcessEvent E V (process n E V s) s ev
     | ST_STATE_DETECTED \<Rightarrow> StDetected_ProcessEvent E V (process n E V s) s ev
     | ST_STATE_BUFFERING \<Rightarrow> StBuffering_ProcessEvent E V (process n E V s) s ev
     | ST_STATE_SSR \<Rightarrow> StSSR_ProcessEvent E V (process n E V s) s ev
   }"

declare process.simps [simp del]

definition ProcessEvent :: "env \<Rightarrow> stream_vt \<Rightarrow> nat \<Rightarrow> st_ev \<Rightarrow> int io" where
  "ProcessEvent = process 2"

end
