(* ===== verification/ST_Calls.thy ===== *)
theory ST_Calls
  imports Stream_ST
begin

text \<open>
  The calls that post events to a sound trigger stream: those of a client (\<^verbatim>\<open>start\<close>, \<^verbatim>\<open>stop\<close>, \<^verbatim>\<open>close\<close>,
  \<^verbatim>\<open>read\<close>, \<^verbatim>\<open>setParameters\<close>), of an engine (\<^verbatim>\<open>SetEngineDetectionState\<close>), of its timer, of the
  resource manager (pausing, concurrency, device changes, echo reference, card restarts), and
  construction and destruction.  \<^verbatim>\<open>getParameters\<close> is not modelled.
\<close>

section \<open>Client calls\<close>

definition StreamSoundTrigger_close :: "env \<Rightarrow> stream_vt \<Rightarrow> nat \<Rightarrow> int io" where
  "StreamSoundTrigger_close E V s = do {
     lock (StreamMutex s);
     waiting \<leftarrow> sst s is_abort_event_notifying;
     when_io waiting (do { unlock (StreamMutex s); lock (StreamMutex s) });
     status \<leftarrow> ProcessEvent E V s ST_EV_UNLOAD_SOUND_MODEL;
     upd_sst s (sm_config_update (\<lambda>_. None));
     upd_str s (currentState_update (\<lambda>_. STREAM_IDLE));
     unlock (StreamMutex s);
     upd_str s (currentState_update (\<lambda>_. STREAM_IDLE));
     notified \<leftarrow> sst s conc_notified;
     when_io notified (do {
       tell (St (ConcurrentStreamStatus s False));
       upd_sst s (conc_notified_update (\<lambda>_. False))
     });
     return status
   }"

definition UpdateCaptureHandleInfo :: "nat \<Rightarrow> bool \<Rightarrow> unit io" where
  "UpdateCaptureHandleInfo s b = do {
     rc \<leftarrow> sst s rec_config;
     case rc of
       None \<Rightarrow> tell OutOfBounds
     | Some c \<Rightarrow> when_io (capture_requested c) (RegisterSTCaptureHandle (capture_handle c) s b)
   }"

definition StreamSoundTrigger_start_l :: "env \<Rightarrow> stream_vt \<Rightarrow> nat \<Rightarrow> int io" where
  "StreamSoundTrigger_start_l E V s = do {
     prev \<leftarrow> str s currentState;
     upd_str s (currentState_update (\<lambda>_. STREAM_STARTED));
     upd_sst s (rejection_notified_update (\<lambda>_. False));
     status \<leftarrow> ProcessEvent E V s ST_EV_START_RECOGNITION;
     (if status \<noteq> 0 then upd_str s (currentState_update (\<lambda>_. prev)) else UpdateCaptureHandleInfo s True);
     return status
   }"

text \<open>Whether the configuration of the model keeps the stream out of the low power island.\<close>

definition lpi_flag :: "nat \<Rightarrow> bool io" where
  "lpi_flag s = do {
     c \<leftarrow> sst s sm_cfg;
     case c of None \<Rightarrow> do { tell OutOfBounds; return True } | Some c \<Rightarrow> return (vc_lpi_enable c)
   }"

definition StreamSoundTrigger_start :: "env \<Rightarrow> stream_vt \<Rightarrow> nat \<Rightarrow> int io" where
  "StreamSoundTrigger_start E V s = do {
     lpi \<leftarrow> lpi_flag s;
     d \<leftarrow> (if lpi then return NO_DEFER else getSTDeferedSwitchState);
     if d = DEFER_LPI_NLPI_SWITCH then do { updateDeferredSTStreams s True; return 0 }
     else do {
       lock ActiveStreamMutex;
       lock (StreamMutex s);
       status \<leftarrow> StreamSoundTrigger_start_l E V s;
       unlock ActiveStreamMutex;
       unlock (StreamMutex s);
       return status
     }
   }"

definition StreamSoundTrigger_stop :: "env \<Rightarrow> stream_vt \<Rightarrow> nat \<Rightarrow> int io" where
  "StreamSoundTrigger_stop E V s = do {
     lpi \<leftarrow> lpi_flag s;
     if \<not> lpi then do { updateDeferredSTStreams s False; return 0 }
     else do {
       lock ActiveStreamMutex;
       lock (StreamMutex s);
       UpdateCaptureHandleInfo s False;
       upd_str s (currentState_update (\<lambda>_. STREAM_STOPPED));
       status \<leftarrow> ProcessEvent E V s ST_EV_STOP_RECOGNITION;
       unlock ActiveStreamMutex;
       unlock (StreamMutex s);
       return status
     }
   }"

text \<open>The first read of a detection: stop the timer, vote for the normal path, skip what the voice UI
  interface says to skip.\<close>

definition first_read :: "env \<Rightarrow> nat \<Rightarrow> unit io" where
  "first_read E s = do {
     x \<leftarrow> sst s (\<lambda>x. x);
     when_io (cur_state x = ST_STATE_BUFFERING \<and> \<not> force_nlpi_vote x) (do {
       CancelDelayedStop s;
       tell (St (VoteSleepMonitorForced True));
       upd_sst s (force_nlpi_vote_update (\<lambda>_. True));
       (r, off) \<leftarrow> call_out E (St (Vui s (VGetParameter ''PARAM_LAB_READ_OFFSET'')));
       when_io (off \<noteq> 0) (do {
         (if st_reader x then tell (St (Reader s (RAdvanceReadOffset (nat off)))) else tell OutOfBounds);
         vui E s (VSetParameter ''PARAM_LAB_READ_OFFSET'');
         return ()
       })
     })
   }"

definition read_sleep :: "VUIStreamConfig \<Rightarrow> nat \<Rightarrow> nat option" where
  "read_sleep c n =
     (let rate = u32 (vc_sample_rate c * vc_bit_width c * vc_out_channels c)
      in if rate = 0 then None else Some (u32 (n * 8 * 1000 mod 2 ^ 64 div rate)))"

definition StreamSoundTrigger_read :: "env \<Rightarrow> stream_vt \<Rightarrow> nat \<Rightarrow> nat option \<Rightarrow> int io" where
  "StreamSoundTrigger_read E V s buf =
     (case buf of
        None \<Rightarrow> return (- EINVAL)
      | Some n \<Rightarrow> do {
          lock (StreamMutex s);
          first_read E s;
          got \<leftarrow> ProcessEvent E V s (ST_EV_READ_BUFFER n);
          when_io (got > 0) (do { vui E s (VProcessLabData got); return () });
          unread \<leftarrow> (if got \<le> 0 then return 0 else call E (St (Reader s RGetUnreadSize)));
          c \<leftarrow> sst s sm_cfg;
          when_io (got \<le> 0 \<or> unread < int n)
            (case Option.bind c (\<lambda>c. read_sleep c n) of None \<Rightarrow> tell OutOfBounds | Some ms \<Rightarrow> tell (St (SleepMs ms)));
          unlock (StreamMutex s);
          return got
        })"

datatype (plugins only: code size) st_param =
  PAL_PARAM_ID_LOAD_SOUND_MODEL pal_st_sound_model
| PAL_PARAM_ID_RECOGNITION_CONFIG pal_st_recognition_config
| PAL_PARAM_ID_STOP_BUFFERING
| PAL_PARAM_ID_FORCE_RECOGNITION
| OTHER_PARAM

definition set_param :: "env \<Rightarrow> stream_vt \<Rightarrow> nat \<Rightarrow> st_param \<Rightarrow> int io" where
  "set_param E V s p =
     (case p of
        PAL_PARAM_ID_LOAD_SOUND_MODEL sm \<Rightarrow> do {
          r \<leftarrow> ProcessEvent E V s (ST_EV_LOAD_SOUND_MODEL sm);
          when_io (r = 0) (upd_str s (currentState_update (\<lambda>_. STREAM_OPENED)));
          return r
        }
      | PAL_PARAM_ID_RECOGNITION_CONFIG c \<Rightarrow> do {
          reader_do s RReset;
          ProcessEvent E V s (ST_EV_RECOGNITION_CONFIG c)
        }
      | PAL_PARAM_ID_STOP_BUFFERING \<Rightarrow> ProcessEvent E V s ST_EV_STOP_BUFFERING
      | PAL_PARAM_ID_FORCE_RECOGNITION \<Rightarrow> ProcessEvent E V s ST_EV_FORCE_RECOGNITION
      | OTHER_PARAM \<Rightarrow> return (- EINVAL))"

definition is_load :: "st_param \<Rightarrow> bool" where
  "is_load p = (case p of PAL_PARAM_ID_LOAD_SOUND_MODEL sm \<Rightarrow> True | _ \<Rightarrow> False)"

text \<open>\<open>None\<close> is a missing payload where one is needed.\<close>

definition StreamSoundTrigger_setParameters :: "env \<Rightarrow> stream_vt \<Rightarrow> nat \<Rightarrow> st_param option \<Rightarrow> int io" where
  "StreamSoundTrigger_setParameters E V s p =
     (case p of
        None \<Rightarrow> return (- EINVAL)
      | Some p \<Rightarrow> do {
          lock (StreamMutex s);
          r \<leftarrow> set_param E V s p;
          unlock (StreamMutex s);
          when_io (r = 0 \<and> is_load p) (do {
            tell (St (ConcurrentStreamStatus s True));
            upd_sst s (conc_notified_update (\<lambda>_. True))
          });
          return r
        })"

definition StreamSoundTrigger_registerCallBack :: "nat \<Rightarrow> nat \<Rightarrow> int io" where
  "StreamSoundTrigger_registerCallBack s cb = do {
     upd_sst s (st_callback_update (\<lambda>_. cb));
     return 0
   }"

definition StreamSoundTrigger_getCallBack :: "nat \<Rightarrow> bool \<Rightarrow> (int \<times> nat option) io" where
  "StreamSoundTrigger_getCallBack s present =
     (if \<not> present then return (- EINVAL, None) else do { cb \<leftarrow> sst s st_callback; return (0, Some cb) })"

definition StreamSoundTrigger_isSampleRateSupported :: "nat \<Rightarrow> int" where
  "StreamSoundTrigger_isSampleRateSupported r =
     (if r \<in> {8000, 16000, 32000, 44100, 48000, 96000, 192000, 384000} then 0 else - EINVAL)"

definition StreamSoundTrigger_isChannelSupported :: "nat \<Rightarrow> int" where
  "StreamSoundTrigger_isChannelSupported n = (if n \<in> {1, 2, 3, 4, 5, 6, 7, 8} then 0 else - EINVAL)"

definition StreamSoundTrigger_isBitWidthSupported :: "nat \<Rightarrow> int" where
  "StreamSoundTrigger_isBitWidthSupported n = (if n \<in> {16, 24, 32} then 0 else - EINVAL)"

text \<open>Both calls answer only while the stream is buffering.\<close>

definition mmap_query :: "env \<Rightarrow> nat \<Rightarrow> eng_op \<Rightarrow> int io" where
  "mmap_query E s op = do {
     lock (StreamMutex s);
     x \<leftarrow> sst s (\<lambda>x. x);
     r \<leftarrow> (if cur_state x \<noteq> ST_STATE_BUFFERING \<or> gsl_engine x = None then return (- EINVAL)
          else do { r \<leftarrow> gsl E s op; return (if r \<noteq> 0 then - EINVAL else 0) });
     unlock (StreamMutex s);
     return r
   }"

definition StreamSoundTrigger_createMmapBuffer :: "env \<Rightarrow> nat \<Rightarrow> int io" where
  "StreamSoundTrigger_createMmapBuffer E s = mmap_query E s EFillMmapBufInfo"

definition StreamSoundTrigger_GetMmapPosition :: "env \<Rightarrow> nat \<Rightarrow> int io" where
  "StreamSoundTrigger_GetMmapPosition E s = mmap_query E s EGetMmapPosition"

section \<open>Calls of the resource manager\<close>

text \<open>The two halves of a switch: the mutex taken by the first is given back by the second.\<close>

definition StreamSoundTrigger_HandleConcurrentStream :: "env \<Rightarrow> stream_vt \<Rightarrow> nat \<Rightarrow> bool \<Rightarrow> int io" where
  "StreamSoundTrigger_HandleConcurrentStream E V s active = do {
     when_io (\<not> active) (do { lock (StreamMutex s); upd_sst s (common_cp_update_disable_update (\<lambda>_. True)) });
     new_prof \<leftarrow> GetCurrentCaptureProfile s;
     x \<leftarrow> sst s (\<lambda>x. x);
     status \<leftarrow>
       (if cap_prof x = new_prof then return 0
        else if model_type x \<noteq> ST_MODULE_TYPE_HIST_CAP then ProcessEvent E V s (ST_EV_CONCURRENT_STREAM active)
        else case (if active then new_prof else cap_prof x) of
          None \<Rightarrow> do { tell OutOfBounds; return 0 }
        | Some p \<Rightarrow> ProcessEvent E V s ((if active then ST_EV_DEVICE_CONNECTED else ST_EV_DEVICE_DISCONNECTED) (cp_device_id p)));
     when_io active (do { upd_sst s (common_cp_update_disable_update (\<lambda>_. False)); unlock (StreamMutex s) });
     return status
   }"

definition ec_cache :: "nat option \<Rightarrow> bool \<Rightarrow> nat option \<Rightarrow> nat option" where
  "ec_cache d is_enable cached =
     (if is_enable then d else if cached = d \<or> d = None then None else cached)"

definition StreamSoundTrigger_setECRef_l :: "env \<Rightarrow> stream_vt \<Rightarrow> nat \<Rightarrow> nat option \<Rightarrow> bool \<Rightarrow> int io" where
  "StreamSoundTrigger_setECRef_l E V s d is_enable = do {
     x \<leftarrow> sst s (\<lambda>x. x);
     ds \<leftarrow> str s mDevices;
     let lab = (case sm_cfg x of None \<Rightarrow> False | Some c \<Rightarrow> GetEnableLPILabEC c (model_type x));
     case cap_prof x of
       None \<Rightarrow> return 0
     | Some p \<Rightarrow>
         if \<not> cp_is_ec_req p \<and> \<not> lab then return 0
         else do {
           ok \<leftarrow> (case (d, ds) of
                   (None, _) \<Rightarrow> return True
                 | (Some r, []) \<Rightarrow> do { tell OutOfBounds; return False }
                 | (Some r, t # _) \<Rightarrow> ask E (CheckECRef r t));
           if \<not> ok then return 0
           else if_ok (ProcessEvent E V s (ST_EV_EC_REF d is_enable)) (do {
             upd_sst s (ec_rx_dev_update (ec_cache d is_enable));
             return 0
           })
         }
   }"

definition StreamSoundTrigger_setECRef :: "env \<Rightarrow> stream_vt \<Rightarrow> nat \<Rightarrow> nat option \<Rightarrow> bool \<Rightarrow> int io" where
  "StreamSoundTrigger_setECRef E V s d is_enable = do {
     lock (StreamMutex s);
     use \<leftarrow> stu use_lpi;
     x \<leftarrow> sst s (\<lambda>x. x);
     let lab = (case sm_cfg x of None \<Rightarrow> False | Some c \<Rightarrow> GetEnableLPILabEC c (model_type x));
     when_io (use \<and> sm_cfg x = None) (tell OutOfBounds);
     r \<leftarrow> (if use \<and> ConfigSupportLPI x \<and> \<not> lab then return 0
          else StreamSoundTrigger_setECRef_l E V s d is_enable);
     unlock (StreamMutex s);
     return r
   }"

definition StreamSoundTrigger_DisconnectDevice :: "env \<Rightarrow> stream_vt \<Rightarrow> nat \<Rightarrow> nat \<Rightarrow> int io" where
  "StreamSoundTrigger_DisconnectDevice E V s i = do {
     lock (StreamMutex s);
     shared \<leftarrow> sst s is_backend_shared;
     when_io shared (forget_pal_devices s);
     tx \<leftarrow> stu isTxConcurrencyActive;
     if shared \<and> tx then return 0 else ProcessEvent E V s (ST_EV_DEVICE_DISCONNECTED i)
   }"

definition StreamSoundTrigger_ConnectDevice :: "env \<Rightarrow> stream_vt \<Rightarrow> nat \<Rightarrow> nat \<Rightarrow> int io" where
  "StreamSoundTrigger_ConnectDevice E V s i = do {
     shared \<leftarrow> sst s is_backend_shared;
     tx \<leftarrow> stu isTxConcurrencyActive;
     r \<leftarrow> (if shared \<and> tx then return 0 else ProcessEvent E V s (ST_EV_DEVICE_CONNECTED i));
     unlock (StreamMutex s);
     return r
   }"

definition StreamSoundTrigger_disconnectStreamDevice_l :: "env \<Rightarrow> stream_vt \<Rightarrow> nat \<Rightarrow> nat \<Rightarrow> int io" where
  "StreamSoundTrigger_disconnectStreamDevice_l E V s i = ProcessEvent E V s (ST_EV_DEVICE_DISCONNECTED i)"

definition StreamSoundTrigger_connectStreamDevice_l :: "env \<Rightarrow> stream_vt \<Rightarrow> nat \<Rightarrow> pal_device option \<Rightarrow> int io" where
  "StreamSoundTrigger_connectStreamDevice_l E V s dattr =
     (case dattr of
        None \<Rightarrow> return (- EINVAL)
      | Some a \<Rightarrow> do {
          upd_sst s (dattr_specified_update (\<lambda>_. Some a));
          r \<leftarrow> ProcessEvent E V s (ST_EV_DEVICE_CONNECTED (dev_id a));
          upd_sst s (dattr_specified_update (\<lambda>_. None));
          return r
        })"

text \<open>An internal pause keeps the mutex until the internal resume.\<close>

definition StreamSoundTrigger_Resume :: "env \<Rightarrow> stream_vt \<Rightarrow> nat \<Rightarrow> bool \<Rightarrow> int io" where
  "StreamSoundTrigger_Resume E V s is_internal = do {
     when_io (\<not> is_internal) (lock (StreamMutex s));
     ProcessEvent E V s ST_EV_FSTAGE_LOAD;
     r \<leftarrow> ProcessEvent E V s (if is_internal then ST_EV_INTERNAL_RESUME else ST_EV_RESUME);
     unlock (StreamMutex s);
     return r
   }"

definition StreamSoundTrigger_Pause :: "env \<Rightarrow> stream_vt \<Rightarrow> nat \<Rightarrow> bool \<Rightarrow> int io" where
  "StreamSoundTrigger_Pause E V s is_internal = do {
     lock (StreamMutex s);
     ProcessEvent E V s (if is_internal then ST_EV_INTERNAL_PAUSE else ST_EV_PAUSE);
     r \<leftarrow> ProcessEvent E V s ST_EV_FSTAGE_UNLOAD;
     when_io (\<not> is_internal) (unlock (StreamMutex s));
     return r
   }"

definition StreamSoundTrigger_ssrDownHandler :: "env \<Rightarrow> stream_vt \<Rightarrow> nat \<Rightarrow> int io" where
  "StreamSoundTrigger_ssrDownHandler E V s = do {
     lock (StreamMutex s);
     ok \<leftarrow> Stream_isStreamSSRDownFeasibile E s;
     r \<leftarrow> (if \<not> ok then return 0
          else do {
            upd_sst s (common_cp_update_disable_update (\<lambda>_. True));
            r \<leftarrow> ProcessEvent E V s ST_EV_SSR_OFFLINE;
            upd_sst s (common_cp_update_disable_update (\<lambda>_. False));
            return r
          });
     unlock (StreamMutex s);
     return r
   }"

definition StreamSoundTrigger_ssrUpHandler :: "env \<Rightarrow> stream_vt \<Rightarrow> nat \<Rightarrow> int io" where
  "StreamSoundTrigger_ssrUpHandler E V s = do {
     lock (StreamMutex s);
     skip \<leftarrow> str s skipSSRHandling;
     r \<leftarrow> (if skip then do { upd_str s (skipSSRHandling_update (\<lambda>_. False)); return 0 }
          else do {
            upd_sst s (common_cp_update_disable_update (\<lambda>_. True));
            r \<leftarrow> ProcessEvent E V s ST_EV_SSR_ONLINE;
            upd_sst s (common_cp_update_disable_update (\<lambda>_. False));
            return r
          });
     unlock (StreamMutex s);
     return r
   }"

section \<open>Engines and the timer\<close>

definition SetEngineDetectionState :: "env \<Rightarrow> stream_vt \<Rightarrow> nat \<Rightarrow> nat \<Rightarrow> int io" where
  "SetEngineDetectionState E V s det =
     (if \<not> masks det DETECTION_TYPE_ALL then return (- EINVAL)
      else do {
        got \<leftarrow> spin_lock E s [ST_STATE_ACTIVE, ST_STATE_BUFFERING];
        q \<leftarrow> sst s cur_state;
        if ((det = GMM_DETECTED \<or> det = THRESHOLD_REACHED) \<and> q \<noteq> ST_STATE_ACTIVE) \<or>
           (masks det DETECTION_TYPE_SS \<and> q \<noteq> ST_STATE_BUFFERING)
        then do { when_io got (unlock (StreamMutex s)); return (- EINVAL) }
        else do {
          when_io (det = GMM_DETECTED \<or> det = THRESHOLD_REACHED) (do {
            RM_acquireWakeLock;
            reader_do s (RUpdateState READER_PREPARED_ST)
          });
          es \<leftarrow> sst s engines;
          when_io (det = KEYWORD_DETECTION_SUCCESS \<or> det = KEYWORD_DETECTION_REJECT)
            (for_each (filter (\<lambda>(i, e). masks i ST_SM_ID_SVA_S_STAGE_USER) es)
              (\<lambda>(i, e). do { eng E s e (ESetDetected det); return () }));
          status \<leftarrow> ProcessEvent E V s (ST_EV_DETECTED det);
          unlocked \<leftarrow> sst s mutex_unlocked_after_cb;
          (if \<not> unlocked then unlock (StreamMutex s)
           else upd_sst s (mutex_unlocked_after_cb_update (\<lambda>_. False)));
          when_io (det = USER_VERIFICATION_REJECT \<or> det = KEYWORD_DETECTION_REJECT) (stHandleDeferredSwitch E V);
          return status
        }
      })"

definition InternalStopRecognition :: "env \<Rightarrow> stream_vt \<Rightarrow> nat \<Rightarrow> unit io" where
  "InternalStopRecognition E V s = do {
     lock (StreamMutex s);
     p \<leftarrow> sst s pending_stop;
     when_io p (do { ProcessEvent E V s ST_EV_STOP_RECOGNITION; return () });
     unlock (StreamMutex s)
   }"

text \<open>One turn of the timer thread, from the end of its timed wait: unless the wait was cancelled it
  stops the stream, with the timer mutex given up meanwhile.\<close>

definition timer_turn :: "env \<Rightarrow> stream_vt \<Rightarrow> nat \<Rightarrow> unit io" where
  "timer_turn E V s = do {
     lock (TimerMutex s);
     x \<leftarrow> sst s (\<lambda>x. x);
     when_io (\<not> timer_stop_waiting x \<and> \<not> exit_timer_thread x) (do {
       unlock (TimerMutex s);
       InternalStopRecognition E V s;
       lock (TimerMutex s)
     });
     unlock (TimerMutex s)
   }"

section \<open>The stream as the utilities see it\<close>

text \<open>Streams of type voice UI are sound trigger streams; the others are those of the table \<open>V\<close>.\<close>

definition by_class :: "nat \<Rightarrow> 'a io \<Rightarrow> 'a io \<Rightarrow> 'a io" where
  "by_class s own other = do {
     a \<leftarrow> str s mStreamAttr;
     if map_option stype a = Some PAL_STREAM_VOICE_UI then own else other
   }"

definition st_vt :: "env \<Rightarrow> stream_vt \<Rightarrow> stream_vt" where
  "st_vt E V = \<lparr>
     sv_isActive = (\<lambda>s. by_class s (StreamSoundTrigger_isActive s) (sv_isActive V s)),
     sv_IsStreamInBuffering = (\<lambda>s. by_class s (StreamSoundTrigger_IsStreamInBuffering E s) (sv_IsStreamInBuffering V s)),
     sv_ConfigSupportLPI = (\<lambda>s. by_class s (sst s ConfigSupportLPI) (sv_ConfigSupportLPI V s)),
     sv_GetCurrentCaptureProfile = (\<lambda>s. by_class s (GetCurrentCaptureProfile s) (sv_GetCurrentCaptureProfile V s)),
     sv_Pause = (\<lambda>s b. by_class s (StreamSoundTrigger_Pause E V s b) (sv_Pause V s b)),
     sv_Resume = (\<lambda>s b. by_class s (StreamSoundTrigger_Resume E V s b) (sv_Resume V s b)),
     sv_HandleConcurrentStream =
       (\<lambda>s b. by_class s (StreamSoundTrigger_HandleConcurrentStream E V s b) (sv_HandleConcurrentStream V s b)),
     sv_DisconnectDevice = (\<lambda>s d. by_class s (StreamSoundTrigger_DisconnectDevice E V s d) (sv_DisconnectDevice V s d)),
     sv_ConnectDevice = (\<lambda>s d. by_class s (StreamSoundTrigger_ConnectDevice E V s d) (sv_ConnectDevice V s d)),
     sv_start_l = (\<lambda>s. by_class s (StreamSoundTrigger_start_l E V s) (sv_start_l V s)),
     sv_callback = sv_callback V\<rparr>"

section \<open>Construction and destruction\<close>

definition StreamSoundTrigger_init :: "StreamSoundTrigger \<Rightarrow> StreamSoundTrigger" where
  "StreamSoundTrigger_init x = x\<lparr>st_reader := False, detection_state := ENGINE_IDLE, notification_state := ENGINE_IDLE,
     model_id := 0, sm_config := None, rec_config := None, recognition_mode := 0, paused := False,
     device_opened := False, pending_stop := False, capture_requested_flag := False, hist_buf_duration := 0,
     pre_roll_duration := 0, rejection_notified := False, mutex_unlocked_after_cb := False,
     common_cp_update_disable := False, second_stage_processing := False, is_backend_shared := False,
     is_abort_event_notifying := False, batchModeReadDone := False, gsl_engine_model := None, gsl_engine := None,
     vui_intf := False, sm_cfg := None, ec_rx_dev := None, conc_notified := False, vote_lpi := True,
     dattr_specified := None\<rparr>"

definition RM_getActiveStreamByType :: "nat \<Rightarrow> nat list io" where
  "RM_getActiveStreamByType t = do {
     lock ActiveStreamMutex;
     l \<leftarrow> rmg (\<lambda>rm. RM_getActiveStreamByType_l rm t);
     unlock ActiveStreamMutex;
     return l
   }"

text \<open>The second half of the constructor; \<open>V\<close> is the table of all streams.\<close>

definition new_registered :: "env \<Rightarrow> stream_vt \<Rightarrow> nat \<Rightarrow> unit io" where
  "new_registered E V s = do {
     card \<leftarrow> call E GetSoundCardState;
     upd_sst s (\<lambda>x. if card = 0
       then x\<lparr>cur_state := ST_STATE_SSR, prev_state := ST_STATE_NONE, state_for_restore := ST_STATE_IDLE\<rparr>
       else x\<lparr>cur_state := ST_STATE_IDLE, prev_state := ST_STATE_NONE, state_for_restore := ST_STATE_NONE\<rparr>);
     RM_registerStream s;
     l \<leftarrow> RM_getActiveStreamByType PAL_STREAM_VOICE_UI;
     when_io (length l = 1) (onVUIStreamRegistered V);
     n \<leftarrow> GetSTDisableConcurrencyCount PAL_STREAM_VOICE_UI;
     when_io (n \<noteq> Some 0) (upd_sst s (paused_update (\<lambda>_. True)));
     upd_sst s (\<lambda>x. x\<lparr>timer_stop_waiting := False, exit_timer_thread := False\<rparr>)
   }"

text \<open>\<open>None\<close> is an exception: the card is down, an allocation fails, or the device arguments are wrong.\<close>

definition StreamSoundTrigger_new :: "env \<Rightarrow> stream_vt \<Rightarrow> nat \<Rightarrow> pal_stream_attributes \<Rightarrow> nat option \<Rightarrow> bool option io" where
  "StreamSoundTrigger_new E V s sattr no_of_devices = do {
     base \<leftarrow> Stream_new E s;
     if base = None then return None
     else do {
       upd_sst s StreamSoundTrigger_init;
       upd_str s (\<lambda>x. x\<lparr>currentState := STREAM_IDLE, session := False, mDevices := []\<rparr>);
       fails \<leftarrow> call E (AllocFails 20);
       if fails \<noteq> 0 then return None
       else do {
         upd_str s (mVolumeData_update (\<lambda>_. Some \<lparr>no_of_volpair = 1, volume_pair = [\<lparr>channel_mask = 3, vol = 1\<rparr>]\<rparr>));
         if no_of_devices = None then return None
         else do {
           fails \<leftarrow> call E (AllocFails 0);
           if fails \<noteq> 0 then return None
           else do {
             upd_str s (mStreamAttr_update (\<lambda>_. Some sattr));
             if the no_of_devices > 1 then return None
             else do { new_registered E V s; return (Some True) }
           }
         }
       }
     }
   }"

definition StreamSoundTrigger_delete :: "env \<Rightarrow> stream_vt \<Rightarrow> nat \<Rightarrow> unit io" where
  "StreamSoundTrigger_delete E V s = do {
     lock (StreamMutex s);
     lock (TimerMutex s);
     upd_sst s (\<lambda>x. x\<lparr>exit_timer_thread := True, timer_stop_waiting := True\<rparr>);
     tell (St (TimerNotify s False));
     unlock (TimerMutex s);
     q \<leftarrow> sst s cur_state;
     when_io (q \<noteq> ST_STATE_IDLE) (do { UnloadSoundModel E s; return () });
     upd_sst s (engines_update (\<lambda>_. []));
     unlock (StreamMutex s);
     RM_deregisterStream s;
     l \<leftarrow> RM_getActiveStreamByType PAL_STREAM_VOICE_UI;
     when_io (l = []) (onVUIStreamDeregistered V);
     upd_sst s (\<lambda>x. x\<lparr>sm_config := None, rec_config := None\<rparr>);
     reader_do s RDelete;
     upd_sst s (st_reader_update (\<lambda>_. False));
     Stream_delete s
   }"

definition CreateSoundTriggerStream :: "env \<Rightarrow> stream_vt \<Rightarrow> nat \<Rightarrow> pal_stream_attributes \<Rightarrow> nat option \<Rightarrow> bool io" where
  "CreateSoundTriggerStream E V s sattr no_of_devices = do {
     r \<leftarrow> StreamSoundTrigger_new E V s sattr no_of_devices;
     return (r \<noteq> None)
   }"

section \<open>Queries\<close>

definition isLPIProfile :: "StreamSoundTrigger \<Rightarrow> bool" where
  "isLPIProfile x = (case cap_prof x of None \<Rightarrow> False | Some p \<Rightarrow> has_lpi (cp_snd_name p))"

definition isModelLoaded :: "StreamSoundTrigger \<Rightarrow> nat \<Rightarrow> bool" where
  "isModelLoaded x type = list_ex (\<lambda>(i, e). i = type) (engines x)"

definition StreamSoundTrigger_checkStreamMatch :: "world \<Rightarrow> nat \<Rightarrow> nat \<Rightarrow> bool" where
  "StreamSoundTrigger_checkStreamMatch w s ref =
     (case (mStreamAttr (wstr w s), mStreamAttr (wstr w ref)) of
        (Some a, Some b) \<Rightarrow> stype a = PAL_STREAM_VOICE_UI \<and> stype b = PAL_STREAM_VOICE_UI \<and>
          gsl_engine (wst w s) = gsl_engine (wst w ref)
      | _ \<Rightarrow> False)"

end
