(* ===== verification/ST_Nesting.thy ===== *)
theory ST_Nesting
  imports ST_Calls
begin

text \<open>
  How deep the events of a sound trigger stream nest: a handler may pass an event on to the state it
  has moved the stream to, but that state never passes it on again.  \<open>leaf q ev\<close> says that the state
  \<open>q\<close> handles \<open>ev\<close> without posting an event.
\<close>

section \<open>Programs that agree\<close>

text \<open>\<open>eqv P m m'\<close>: from the worlds in \<open>P\<close> both programs do the same.\<close>

definition eqv :: "(world \<Rightarrow> bool) \<Rightarrow> 'a io \<Rightarrow> 'a io \<Rightarrow> bool" where
  "eqv P m m' \<longleftrightarrow> (\<forall>w. P w \<longrightarrow> run_state m w = run_state m' w)"

named_theorems eqv_rules

lemma eqv_refl [eqv_rules]: "eqv P m m"
  by (simp add: eqv_def)

lemma eqv_bind:
  assumes "eqv P m m'" "valid P m R" "\<And>r. eqv (R r) (f r) (f' r)"
  shows "eqv P (State_Monad.bind m f) (State_Monad.bind m' f')"
  using assms by (auto simp: eqv_def valid_def split: prod.splits)

lemma eqv_then:
  assumes "\<And>r. eqv (\<lambda>_. True) (f r) (f' r)"
  shows "eqv P (State_Monad.bind m f) (State_Monad.bind m f')"
  by (rule eqv_bind [where R = "\<lambda>_ _. True"]) (simp_all add: eqv_refl valid_def assms)

lemma eqv_first:
  assumes "eqv P m m'" "\<And>r. eqv (\<lambda>_. True) (f r) (f' r)"
  shows "eqv P (State_Monad.bind m f) (State_Monad.bind m' f')"
  by (rule eqv_bind [where R = "\<lambda>_ _. True"]) (simp_all add: assms valid_def)

lemma eqv_if [eqv_rules]:
  "(b \<Longrightarrow> eqv P m m') \<Longrightarrow> (\<not> b \<Longrightarrow> eqv P n n') \<Longrightarrow> eqv P (if b then m else n) (if b then m' else n')"
  by simp

lemma eqv_if_ok:
  "eqv P m m' \<Longrightarrow> eqv (\<lambda>_. True) k k' \<Longrightarrow> eqv P (if_ok m k) (if_ok m' k')"
  unfolding if_ok_def by (rule eqv_first) (simp_all add: eqv_refl)

lemma eqv_pre: "eqv P m m' \<Longrightarrow> (\<And>w. Q w \<Longrightarrow> P w) \<Longrightarrow> eqv Q m m'"
  by (simp add: eqv_def)

section \<open>Leaves\<close>

fun leaf :: "st_state_id_t \<Rightarrow> st_ev \<Rightarrow> bool" where
  "leaf ST_STATE_IDLE (ST_EV_CONCURRENT_STREAM b) = False"
| "leaf ST_STATE_LOADED ST_EV_SSR_OFFLINE = False"
| "leaf ST_STATE_ACTIVE ev = (case ev of ST_EV_UNLOAD_SOUND_MODEL \<Rightarrow> False | ST_EV_RECOGNITION_CONFIG c \<Rightarrow> False
     | ST_EV_CONCURRENT_STREAM b \<Rightarrow> False | ST_EV_SSR_OFFLINE \<Rightarrow> False | _ \<Rightarrow> True)"
| "leaf ST_STATE_DETECTED ev = (case ev of ST_EV_UNLOAD_SOUND_MODEL \<Rightarrow> False | ST_EV_RECOGNITION_CONFIG c \<Rightarrow> False
     | ST_EV_CONCURRENT_STREAM b \<Rightarrow> False | ST_EV_SSR_OFFLINE \<Rightarrow> False | _ \<Rightarrow> True)"
| "leaf ST_STATE_BUFFERING ev = (case ev of ST_EV_UNLOAD_SOUND_MODEL \<Rightarrow> False | ST_EV_RECOGNITION_CONFIG c \<Rightarrow> False
     | ST_EV_CONCURRENT_STREAM b \<Rightarrow> False | ST_EV_SSR_OFFLINE \<Rightarrow> False | _ \<Rightarrow> True)"
| "leaf ST_STATE_SSR ST_EV_SSR_ONLINE = False"
| "leaf q ev = True"

lemma leaf_handlers:
  "leaf ST_STATE_IDLE ev \<Longrightarrow> StIdle_ProcessEvent E V f s ev = StIdle_ProcessEvent E V g s ev"
  "leaf ST_STATE_LOADED ev \<Longrightarrow> StLoaded_ProcessEvent E V f s ev = StLoaded_ProcessEvent E V g s ev"
  "leaf ST_STATE_ACTIVE ev \<Longrightarrow> StActive_ProcessEvent E V f s ev = StActive_ProcessEvent E V g s ev"
  "leaf ST_STATE_DETECTED ev \<Longrightarrow> StDetected_ProcessEvent E V f s ev = StDetected_ProcessEvent E V g s ev"
  "leaf ST_STATE_BUFFERING ev \<Longrightarrow> StBuffering_ProcessEvent E V f s ev = StBuffering_ProcessEvent E V g s ev"
  "leaf ST_STATE_SSR ev \<Longrightarrow> StSSR_ProcessEvent E V f s ev = StSSR_ProcessEvent E V g s ev"
  by (cases ev; simp add: StIdle_ProcessEvent_def StLoaded_ProcessEvent_def StActive_ProcessEvent_def
        StDetected_ProcessEvent_def StBuffering_ProcessEvent_def StSSR_ProcessEvent_def)+

lemma leaf_anywhere [simp]:
  "leaf q ST_EV_FSTAGE_UNLOAD" "leaf q ST_EV_FSTAGE_LOAD" "leaf q ST_EV_START_RECOGNITION"
  "leaf q ST_EV_STOP_RECOGNITION"
  by (cases q; simp)+

lemma leaf_loaded [simp]: "leaf ST_STATE_LOADED ev = (ev \<noteq> ST_EV_SSR_OFFLINE)"
  by (cases ev) simp_all

abbreviation in_state :: "nat \<Rightarrow> st_state_id_t \<Rightarrow> world \<Rightarrow> bool" where
  "in_state s q w \<equiv> cur_state (wst w s) = q"

lemma process_leaf:
  "eqv (\<lambda>w. leaf (cur_state (wst w s)) ev) (process (Suc n) E V s ev) (process (Suc m) E V s ev)"
proof -
  have "run_state (process (Suc n) E V s ev) w = run_state (process (Suc m) E V s ev) w"
    if "leaf (cur_state (wst w s)) ev" for w
    using that leaf_handlers [of ev E V "process n E V s" s "process m E V s"]
    by (cases "cur_state (wst w s)") (simp_all add: process.simps)
  then show ?thesis by (simp add: eqv_def)
qed

section \<open>The state a step ends in\<close>

lemma valid_transit:
  "q \<noteq> ST_STATE_NONE \<Longrightarrow> valid P (TransitTo s q) (\<lambda>_. in_state s q)"
  by (simp add: valid_def TransitTo_def)

lemma valid_last:
  "(\<And>r. valid (\<lambda>_. True) (f r) Q) \<Longrightarrow> valid P (State_Monad.bind m f) Q"
  by (rule valid_bind [where R = "\<lambda>_ _. True"]) (simp_all add: valid_def)

lemma Active_stop_loaded: "valid P (Active_stop E V s b) (\<lambda>_. in_state s ST_STATE_LOADED)"
  unfolding Active_stop_def
  by (rule valid_last, rule valid_last, rule valid_last, rule valid_last, rule valid_last,
      rule valid_bind, rule valid_transit, simp, rule valid_return)

lemma active_stop_run:
  "valid (in_state s ST_STATE_ACTIVE) (process (Suc n) E V s ST_EV_STOP_RECOGNITION) (\<lambda>_. in_state s ST_STATE_LOADED)"
  using Active_stop_loaded [of "\<lambda>_. True" E V s False]
  by (simp add: valid_def process.simps StActive_ProcessEvent_def)

section \<open>Handlers that pass events on\<close>

text \<open>Two ways to handle nested events that agree on leaves.\<close>

definition agree :: "nat \<Rightarrow> (st_ev \<Rightarrow> int io) \<Rightarrow> (st_ev \<Rightarrow> int io) \<Rightarrow> bool" where
  "agree s f g \<longleftrightarrow> (\<forall>ev. eqv (\<lambda>w. leaf (cur_state (wst w s)) ev) (f ev) (g ev))"

lemma agree_process: "agree s (process (Suc n) E V s) (process (Suc m) E V s)"
  by (simp add: agree_def process_leaf)

lemma agreeD: "agree s f g \<Longrightarrow> (\<And>w. P w \<Longrightarrow> leaf (cur_state (wst w s)) ev) \<Longrightarrow> eqv P (f ev) (g ev)"
  by (simp add: agree_def eqv_def)

lemma eqv_transit:
  assumes "agree s f g" "leaf q ev" "q \<noteq> ST_STATE_NONE" "\<And>r. eqv (\<lambda>_. True) (k r) (k' r)"
  shows "eqv P (do { TransitTo s q; r \<leftarrow> f ev; k r }) (do { TransitTo s q; r \<leftarrow> g ev; k' r })"
proof (rule eqv_bind [OF eqv_refl valid_transit [OF assms(3)]])
  show "eqv (in_state s q) (State_Monad.bind (f ev) k) (State_Monad.bind (g ev) k')"
    by (rule eqv_first [OF agreeD [OF assms(1)]]) (simp_all add: assms)
qed

lemma eqv_reconfigure:
  "agree s f g \<Longrightarrow> eqv P (reconfigure f s c halt rel) (reconfigure g s c halt rel)"
  unfolding reconfigure_def
  by (rule eqv_then, rule eqv_if, rule eqv_refl, rule eqv_then, rule eqv_transit) (simp_all add: eqv_refl)

lemma eqv_leave:
  assumes "agree s f g" "leaf ST_STATE_LOADED ev"
  shows "eqv P (leave_detection s halt (\<lambda>r. f ev)) (leave_detection s halt (\<lambda>r. g ev))"
  unfolding leave_detection_def
  by (rule eqv_then, rule eqv_transit) (use assms in \<open>simp_all add: eqv_refl\<close>)

lemma eqv_ssr_offline:
  assumes "agree s f g"
  shows "eqv P (ssr_offline f s h) (ssr_offline g s h)"
  unfolding ssr_offline_def
  by (rule eqv_then, rule eqv_first, rule agreeD [OF assms], simp, rule eqv_first, rule agreeD [OF assms], simp,
      rule eqv_refl)

lemma eqv_unload:
  assumes "agree s f g"
  shows "eqv P (do { Active_stop E V s b; f ST_EV_UNLOAD_SOUND_MODEL }) (do { Active_stop E V s b; g ST_EV_UNLOAD_SOUND_MODEL })"
  by (rule eqv_bind [OF eqv_refl Active_stop_loaded]) (rule agreeD [OF assms], simp)

lemma eqv_concurrent:
  "eqv (in_state s ST_STATE_ACTIVE) (Active_concurrent (process (Suc n) E V s) s b)
     (Active_concurrent (process (Suc m) E V s) s b)"
proof -
  let ?f = "process (Suc n) E V s" and ?g = "process (Suc m) E V s" and ?ev = "ST_EV_CONCURRENT_STREAM b"
  have "keeps (\<lambda>w. cur_state (wst w s)) (GetCurrentCaptureProfile s)"
    unfolding GetCurrentCaptureProfile_def GetAvailCaptureDevice_def
    by (rule kp_rules | simp)+
  then have 1: "valid (in_state s ST_STATE_ACTIVE) (GetCurrentCaptureProfile s) (\<lambda>_. in_state s ST_STATE_ACTIVE)"
    by (simp add: valid_def keeps_def)
  have 2: "eqv (in_state s ST_STATE_LOADED) (if r \<noteq> 0 then return r else ?f ?ev) (if r \<noteq> 0 then return r else ?g ?ev)"
    for r
    by (rule eqv_if, rule eqv_refl, rule agreeD [OF agree_process], simp)
  show ?thesis
    unfolding Active_concurrent_def if_ok_def
    by (rule eqv_bind [OF eqv_refl 1], rule eqv_if, rule eqv_refl,
        rule eqv_bind [OF _ active_stop_run 2], rule agreeD [OF agree_process], simp)
qed

lemma eqv_idle_concurrent:
  assumes "agree s f g"
  shows "eqv P (Idle_concurrent E V f s b) (Idle_concurrent E V g s b)"
  unfolding Idle_concurrent_def if_ok_def
  by (intro eqv_then eqv_if eqv_refl agreeD [OF assms]) simp

lemma eqv_online:
  assumes "agree s f g"
  shows "eqv P (SSR_online E f s) (SSR_online E g s)"
proof -
  note ld = agreeD [OF assms, where ev = ST_EV_FSTAGE_LOAD] agreeD [OF assms, where ev = ST_EV_START_RECOGNITION]
  show ?thesis
    unfolding SSR_online_def Let_def
    by (intro eqv_then eqv_if eqv_if_ok eqv_refl ld) simp_all
qed

lemma eqv_handlers:
  assumes "agree s f g"
  shows "eqv P (StIdle_ProcessEvent E V f s ev) (StIdle_ProcessEvent E V g s ev)"
    and "eqv P (StDetected_ProcessEvent E V f s ev) (StDetected_ProcessEvent E V g s ev)"
    and "eqv P (StBuffering_ProcessEvent E V f s ev) (StBuffering_ProcessEvent E V g s ev)"
    and "eqv P (StSSR_ProcessEvent E V f s ev) (StSSR_ProcessEvent E V g s ev)"
  using assms eqv_idle_concurrent eqv_reconfigure eqv_leave eqv_ssr_offline eqv_online
  by (cases ev; simp add: StIdle_ProcessEvent_def StDetected_ProcessEvent_def StBuffering_ProcessEvent_def
      StSSR_ProcessEvent_def eqv_refl eqv_then)+

lemma eqv_Loaded:
  assumes "agree s f g"
  shows "eqv P (StLoaded_ProcessEvent E V f s ev) (StLoaded_ProcessEvent E V g s ev)"
proof (cases "ev = ST_EV_SSR_OFFLINE")
  case True
  have "eqv P (do { upd_sst s h; r \<leftarrow> f ST_EV_FSTAGE_UNLOAD; k r }) (do { upd_sst s h; r \<leftarrow> g ST_EV_FSTAGE_UNLOAD; k r })"
    for h and k :: "int \<Rightarrow> int io"
    by (rule eqv_then, rule eqv_first, rule agreeD [OF assms], simp, rule eqv_refl)
  then show ?thesis by (simp add: True StLoaded_ProcessEvent_def)
next
  case False
  then show ?thesis using leaf_handlers(2) [of ev E V f s g] by (simp add: eqv_refl)
qed

lemma eqv_Active:
  "eqv (in_state s ST_STATE_ACTIVE) (StActive_ProcessEvent E V (process (Suc n) E V s) s ev)
     (StActive_ProcessEvent E V (process (Suc m) E V s) s ev)"
  using agree_process [of s n E V m] eqv_concurrent eqv_reconfigure eqv_unload eqv_ssr_offline
  by (cases ev; simp add: StActive_ProcessEvent_def eqv_refl)

lemma process_enough: "process (Suc (Suc n)) E V s ev = process (Suc (Suc m)) E V s ev"
proof -
  have a: "agree s (process (Suc n) E V s) (process (Suc m) E V s)" by (rule agree_process)
  have "run_state (process (Suc (Suc n)) E V s ev) w = run_state (process (Suc (Suc m)) E V s ev) w" for w
    using eqv_handlers [OF a, of "\<lambda>_. True" E V ev] eqv_Loaded [OF a, of "\<lambda>_. True" E V ev] eqv_Active [of s E V n ev m]
    by (cases "cur_state (wst w s)") (simp_all add: process.simps(2) [of "Suc n"] process.simps(2) [of "Suc m"] eqv_def)
  then show ?thesis by (simp add: state.expand ext)
qed


end
