(* ===== verification/ST_Frame.thy ===== *)
theory ST_Frame
  imports ST_Nesting
begin

text \<open>
  What the steps of a sound trigger stream leave alone, proved once for every observation that
  depends neither on the log, the devices, the stream objects and the utilities' globals nor, of the
  resource manager, on more than the wake lock, nor, of a sound trigger stream, on more than its state
  and the state it is restored to.
\<close>

section \<open>Observations\<close>

definition wake :: "RM \<Rightarrow> int \<times> int \<times> int" where
  "wake rm = (wake_lock_fd rm, wake_unlock_fd rm, wake_lock_cnt rm)"

definition core :: "StreamSoundTrigger \<Rightarrow> st_state_id_t \<times> st_state_id_t" where
  "core x = (cur_state x, state_for_restore x)"

locale st_obs =
  fixes f :: "world \<Rightarrow> 'b" and V :: stream_vt
  assumes f_log: "f (w\<lparr>wlog := l\<rparr>) = f w"
    and f_dev: "f (w\<lparr>wdev := x\<rparr>) = f w"
    and f_str: "f (w\<lparr>wstr := y\<rparr>) = f w"
    and f_stu: "f (w\<lparr>wstu := u\<rparr>) = f w"
    and f_rm: "wake rm = wake (wrm w) \<Longrightarrow> f (w\<lparr>wrm := rm\<rparr>) = f w"
    and f_sst: "core z = core (wst w t) \<Longrightarrow> f (w\<lparr>wst := (wst w)(t := z)\<rparr>) = f w"
    and f_queries: "keeps f (sv_isActive V t)" "keeps f (sv_IsStreamInBuffering V t)"
      "keeps f (sv_ConfigSupportLPI V t)" "keeps f (sv_GetCurrentCaptureProfile V t)"
    and f_commands: "keeps f (sv_Pause V t b)" "keeps f (sv_Resume V t b)"
      "keeps f (sv_HandleConcurrentStream V t b)" "keeps f (sv_DisconnectDevice V t d)"
      "keeps f (sv_ConnectDevice V t d)" "keeps f (sv_start_l V t)" "keeps f (sv_callback V t)"
begin

lemma f_upd_str: "keeps f (upd_str t h)"
  by (simp add: keeps_def f_str)

lemma f_upd_dev: "keeps f (upd_dev d h)"
  by (simp add: keeps_def f_dev)

lemma f_upd_stu: "keeps f (upd_stu h)"
  by (simp add: keeps_def f_stu)

lemma f_upd_rm: "(\<And>x. wake (h x) = wake x) \<Longrightarrow> keeps f (upd_rm h)"
  by (simp add: keeps_def f_rm)

lemma f_upd_sst: "(\<And>x. core (h x) = core x) \<Longrightarrow> keeps f (upd_sst t h)"
  by (simp add: keeps_def f_sst)

lemma f_log_steps:
  "keeps f (call E c)" "keeps f (call_out E c)" "keeps f (tell c)" "keeps f (lock k)" "keeps f (unlock k)"
  by (rule kp_log, rule f_log)+

lemma f_start_each: "(\<And>x. keeps f (g x)) \<Longrightarrow> keeps f (start_each g xs l)"
  by (induction xs arbitrary: l) (auto intro!: kp_bind kp_if kp_pure simp del: if_split)

lemma f_if_ok: "keeps f m \<Longrightarrow> keeps f k \<Longrightarrow> keeps f (if_ok m k)"
  unfolding if_ok_def by (rule kp_bind kp_if kp_pure | assumption)+

lemmas f_steps = f_upd_str f_upd_dev f_upd_stu f_upd_rm f_upd_sst f_log_steps f_start_each f_if_ok
  kp_bind kp_if kp_when kp_cases kp_let kp_pure kp_for_each kp_until_fail kp_last_status

subsection \<open>Devices and registers\<close>

lemma f_getInstance: "keeps f (Device_getInstance E a)"
  unfolding Device_getInstance_def Let_def by (rule f_steps | simp)+

lemma f_setMediaConfig: "keeps f (Device_setMediaConfig E be a)"
  by (rule kp_setMediaConfig) (simp_all add: f_log f_rm wake_def)

lemma f_device:
  "keeps f (Device_open E d)" "keeps f (Device_close d)" "keeps f (Device_start E d)" "keeps f (Device_stop d)"
  "keeps f (Device_getSndDeviceId d)" "keeps f (Device_setDeviceAttributes d a)"
  "keeps f (Device_getDeviceAttributes d b x)" "keeps f (Device_insertStreamDeviceAttr E d oa os)"
  "keeps f (Device_removeStreamDeviceAttr d s)"
  unfolding Device_open_def Device_first_open_def Device_close_def Device_start_def Device_start_l_def
    Device_first_start_def Device_stop_def Device_stop_l_def Device_getSndDeviceId_def
    Device_setDeviceAttributes_def Device_getDeviceAttributes_def Device_insertStreamDeviceAttr_def
    Device_removeStreamDeviceAttr_def Device_setCustomPayload_def getBeMixerControl_def
  by (rule f_getInstance f_setMediaConfig f_steps | simp add: wake_def)+

lemma f_top: "keeps f (Device_getTopPriorityDeviceAttr d)"
  unfolding Device_getTopPriorityDeviceAttr_def
  by (rule f_steps | simp add: wake_def updateSndName_def)+

lemma f_register: "keeps f (RM_registerDevice d s)" "keeps f (RM_deregisterDevice d s)"
  unfolding RM_registerDevice_def RM_deregisterDevice_def RM_registerDevice_l_def RM_deregisterDevice_l_def
    Device_getSndDeviceId_def Device_getDeviceCount_def
  by (rule f_steps | simp add: wake_def)+

lemmas f_basic = f_register f_device f_getInstance f_top f_steps

subsection \<open>Utilities\<close>

lemma f_self: "keeps f (sv_GetCurrentCaptureProfile (self_vt V s) t)"
  unfolding self_vt_def GetCurrentCaptureProfile_def GetAvailCaptureDevice_def
  by (auto intro!: f_queries f_steps)

lemma f_self_same:
  "sv_isActive (self_vt V s) = sv_isActive V" "sv_Pause (self_vt V s) = sv_Pause V" "sv_Resume (self_vt V s) = sv_Resume V"
  by (simp_all add: self_vt_def)

lemma f_profile_loop: "keeps f (profile_loop (self_vt V s) a b x be ts p)"
  by (induction ts arbitrary: p)
     (auto simp: f_self_same simp del: if_split intro!: kp_bind kp_if kp_pure f_queries f_self)

lemma f_attributes: "keeps f (Stream_getStreamAttributes s)"
  unfolding Stream_getStreamAttributes_def by (rule f_steps | simp)+

lemma f_by_priority: "keeps f (GetCaptureProfileByPriority (self_vt V s) x be)"
  unfolding GetCaptureProfileByPriority_def GetSVACaptureProfileByPriority_def GetACDCaptureProfileByPriority_def
    GetSPDCaptureProfileByPriority_def GetASRCaptureProfileByPriority_def profile_by_priority_def
  by (rule f_profile_loop f_attributes f_steps | simp)+

lemma f_common:
  "keeps f GetSoundTriggerCaptureProfile" "keeps f GetTXMacroCaptureProfile" "keeps f (settle_profiles p q)"
  unfolding GetSoundTriggerCaptureProfile_def GetTXMacroCaptureProfile_def settle_profiles_def
  by (rule f_steps | simp)+

lemma f_update_profile: "keeps f (UpdateSoundTriggerCaptureProfile (self_vt V s) s b)"
  unfolding UpdateSoundTriggerCaptureProfile_def
  by (rule f_attributes f_self f_by_priority f_common f_steps | simp)+

lemma f_act_on: "keeps f (act_on V action t st)"
  by (cases action) (auto intro!: kp_if kp_pure f_commands simp del: if_split)

lemma f_act_on_all: "keeps f (act_on_all V ty action ts st)"
  by (induction ts arbitrary: st)
     (auto simp: RM_isStreamActive_def simp del: if_split intro!: kp_bind kp_if kp_pure kp_cases f_attributes f_act_on)

lemma f_others: "keeps f (StopOtherDetectionStreams V s)" "keeps f (StartOtherDetectionStreams V s)"
  unfolding StopOtherDetectionStreams_def StartOtherDetectionStreams_def HandleDetectionStreamAction_def
  by (rule f_act_on_all f_steps | simp)+

lemma f_GetPalDevice: "keeps f (GetPalDevice E (self_vt V s) s i)"
  unfolding GetPalDevice_def
  by (rule f_attributes f_self f_common f_basic | simp)+

subsection \<open>Steps of the stream\<close>

lemma f_calls: "keeps f (eng E s e op)" "keeps f (gsl E s op)" "keeps f (vui E s v)" "keeps f (reader_do s r)"
  unfolding eng_def gsl_def vui_def reader_do_def by (rule f_steps | simp)+

lemma f_small:
  "keeps f (StreamSoundTrigger_isActive s)" "keeps f (PostDelayedStop s)" "keeps f (CancelDelayedStop s)"
  "keeps f (voted_open E d)" "keeps f (drop_nlpi_vote s)" "keeps f GetAvailCaptureDevice"
  "keeps f (GetCurrentCaptureProfile s)" "keeps f (updateStreamAttributes E s)" "keeps f (forget_pal_devices s)"
  "keeps f (close_opened s st)" "keeps f (ask E q)"
  unfolding StreamSoundTrigger_isActive_def PostDelayedStop_def CancelDelayedStop_def voted_open_def
    drop_nlpi_vote_def GetAvailCaptureDevice_def GetCurrentCaptureProfile_def updateStreamAttributes_def
    forget_pal_devices_def close_opened_def ask_def
  by (rule f_calls f_basic | simp add: core_def)+

lemma f_find_device: "keeps f (device_specified E a)" "keeps f (device_of_profile E s p)"
  unfolding device_specified_def device_of_profile_def
  by (rule f_basic | simp)+

lemma f_UpdateDeviceConfig: "keeps f (UpdateDeviceConfig E V s)"
  unfolding UpdateDeviceConfig_def
  by (rule f_find_device f_GetPalDevice f_small f_basic | simp add: core_def)+

lemmas f_stream = f_UpdateDeviceConfig f_small f_calls f_basic

subsection \<open>Sound models\<close>

lemma f_model:
  "keeps f (UpdateSoundModel E s sm)" "keeps f (UpdateModelId s t)" "keeps f (GetVUIInterface E s t)"
  unfolding UpdateSoundModel_def UpdateModelId_def GetVUIInterface_def
  by (rule f_stream | simp add: core_def)+

lemma f_HandleEngineLoad: "keeps f (HandleEngineLoad E s sm t)"
  unfolding HandleEngineLoad_def first_stage_engine_def
  by (rule f_model f_stream | simp add: core_def)+

lemma f_load_engines: "keeps f (load_engines E s l)"
proof (induction l)
  case (Cons x l)
  then show ?case
    by (cases x) (auto simp del: if_split intro!: kp_bind kp_cases kp_pure f_HandleEngineLoad f_upd_sst simp: core_def)
qed (simp add: kp_pure)

lemma f_LoadSoundModel: "keeps f (LoadSoundModel E s sm)"
  unfolding LoadSoundModel_def load_body_def load_interface_def load_failed_def
  by (rule f_model f_load_engines f_stream | simp add: core_def)+

lemma f_UnloadSoundModel: "keeps f (UnloadSoundModel E s)"
  unfolding UnloadSoundModel_def by (rule f_stream | simp add: core_def)+

lemma f_config:
  "keeps f (UpdateRecognitionConfig E s c)" "keeps f (SendRecognitionConfig E s oc)"
  unfolding SendRecognitionConfig_def UpdateRecognitionConfig_def send_config_def ring_buffers_def mmap_buffers_def
    assign_readers_def buffer_config_def
  by (rule f_stream | simp add: core_def split: option.split prod.split)+

subsection \<open>Client and engines\<close>

lemma f_notify: "keeps f (notifyClient E V s n)"
  unfolding notifyClient_def notify_abort_def notify_detection_def keyword_buffer_def call_client_def spin_lock_def
  by (rule f_commands f_stream | simp add: core_def)+

lemma f_fstage: "keeps f (FstageLoad E V s)" "keeps f (FstageUnload E s)"
  unfolding FstageLoad_def FstageUnload_def by (rule f_stream | simp add: core_def)+

lemma f_engines:
  "keeps f (stop_engines E s)" "keeps f (restart_engines E s)" "keeps f (deregister_first s)"
  "keeps f (stop_close_first s st)" "keeps f (runs_on s i)" "keeps f (ec_ref E s od b)"
  unfolding stop_engines_def restart_engines_def deregister_first_def stop_close_first_def runs_on_def ec_ref_def
  by (rule f_stream | simp add: core_def)+

lemma f_start_undo: "keeps f (start_undo E s l)"
  unfolding start_undo_def by (rule f_engines f_stream | simp add: core_def)+

lemma f_connect: "keeps f (connect_setup E V s)" "keeps f (connect_device E s d b)"
  unfolding connect_setup_def connect_device_def by (rule f_stream | simp add: core_def)+

lemma f_device_events: "keeps f (DisconnectEvent E s b c)" "keeps f (ConnectEvent E V s)"
  unfolding DisconnectEvent_def ConnectEvent_def
  by (rule f_connect f_start_undo f_engines f_stream | simp add: core_def)+

lemma f_halts: "keeps f (Active_halt E s)" "keeps f (Detected_halt E s)" "keeps f (Buffering_halt E s)"
  unfolding Active_halt_def Detected_halt_def Buffering_halt_def
  by (rule f_engines f_stream | simp)+

lemma f_start:
  "keeps f (start_profile V s b)" "keeps f (start_attributes s d)" "keeps f (start_device E s d)"
  unfolding start_profile_def start_attributes_def start_device_def
  by (rule f_update_profile f_others f_common f_stream | simp add: core_def)+

lemma f_release_devices: "keeps f (release_devices E s ds st)"
  by (induction ds arbitrary: st)
     (auto simp del: if_split intro!: kp_bind kp_if kp_pure f_calls f_device f_upd_sst simp: core_def)

lemma f_disconnects: "keeps f (Loaded_disconnect E s i)" "keeps f (Active_disconnect E s i)"
  unfolding Loaded_disconnect_def Active_disconnect_def
  by (rule f_release_devices f_engines f_stream | simp add: core_def)+

lemma f_Active_connect: "keeps f (Active_connect E V s)"
  unfolding Active_connect_def by (rule f_connect f_stream | simp)+

lemma f_Buffering_read: "keeps f (Buffering_read E s n)"
  unfolding Buffering_read_def by (rule f_stream | simp add: core_def)+

lemma f_may_run: "keeps f (may_run s)"
  unfolding may_run_def by (rule f_stream | simp)+

lemmas f_rules = f_may_run f_Buffering_read f_Active_connect f_disconnects f_start f_halts f_device_events f_connect
  f_start_undo f_engines f_fstage f_notify f_config f_UnloadSoundModel f_LoadSoundModel f_model f_others
  f_update_profile f_stream

end

end
