(* ===== verification/ST_States.thy ===== *)
theory ST_States
  imports ST_Frame
begin

text \<open>
  The state machine of a sound trigger stream.  \<open>st_next\<close> is the abstract machine over the six states,
  \<open>st_wake\<close> says what an event does to the wake lock and \<open>st_restore\<close> to the state a restart comes
  back to; every event refines all three, whatever the engines, the devices and the voice UI
  interface answer.
\<close>

section \<open>Triples over the machine\<close>

definition mstate :: "nat \<Rightarrow> world \<Rightarrow> (st_state_id_t \<times> st_state_id_t) \<times> int \<times> int \<times> int" where
  "mstate s w = (core (wst w s), wake (wrm w))"

definition mt :: "nat \<Rightarrow> (st_state_id_t \<times> st_state_id_t) \<times> int \<times> int \<times> int \<Rightarrow> 'a io \<Rightarrow>
    ('a \<Rightarrow> (st_state_id_t \<times> st_state_id_t) \<times> int \<times> int \<times> int \<Rightarrow> bool) \<Rightarrow> bool" where
  "mt s y m Q \<longleftrightarrow> (\<forall>w. mstate s w = y \<longrightarrow> Q (fst (run_state m w)) (mstate s (snd (run_state m w))))"

lemma mtD: "mt s y m Q \<Longrightarrow> mstate s w = y \<Longrightarrow> Q (fst (run_state m w)) (mstate s (snd (run_state m w)))"
  by (simp add: mt_def)

lemma mt_weaken: "mt s y m R \<Longrightarrow> (\<And>r y'. R r y' \<Longrightarrow> Q r y') \<Longrightarrow> mt s y m Q"
  by (simp add: mt_def)

lemma mt_bind:
  assumes "mt s y m R" "\<And>r y'. R r y' \<Longrightarrow> mt s y' (f r) Q"
  shows "mt s y (State_Monad.bind m f) Q"
  unfolding mt_def
proof (intro allI impI)
  fix w assume w: "mstate s w = y"
  obtain a w1 where a: "run_state m w = (a, w1)" by fastforce
  have "mt s (mstate s w1) (f a) Q" using mtD [OF assms(1) w] assms(2) by (simp add: a)
  then show "Q (fst (run_state (State_Monad.bind m f) w)) (mstate s (snd (run_state (State_Monad.bind m f) w)))"
    using mtD [of s "mstate s w1" "f a" Q w1] by (simp add: a)
qed

lemma mt_keep: "keeps (mstate s) m \<Longrightarrow> (\<And>r. Q r y) \<Longrightarrow> mt s y m Q"
  by (simp add: mt_def keeps_def)

lemma mt_bind_keep: "keeps (mstate s) m \<Longrightarrow> (\<And>r. mt s y (f r) Q) \<Longrightarrow> mt s y (State_Monad.bind m f) Q"
  by (rule mt_bind [where R = "\<lambda>_ y'. y' = y"]) (simp_all add: mt_keep)

lemma mt_return: "Q r y \<Longrightarrow> mt s y (return r) Q"
  by (simp add: mt_def)

lemma mt_if: "(b \<Longrightarrow> mt s y m Q) \<Longrightarrow> (\<not> b \<Longrightarrow> mt s y n Q) \<Longrightarrow> mt s y (if b then m else n) Q"
  by simp

lemma mt_option:
  "(v = None \<Longrightarrow> mt s y m Q) \<Longrightarrow> (\<And>x. v = Some x \<Longrightarrow> mt s y (f x) Q) \<Longrightarrow>
   mt s y (case v of None \<Rightarrow> m | Some x \<Rightarrow> f x) Q"
  by (cases v) simp_all

lemma mt_list:
  "(v = [] \<Longrightarrow> mt s y m Q) \<Longrightarrow> (\<And>x xs. v = x # xs \<Longrightarrow> mt s y (f x xs) Q) \<Longrightarrow>
   mt s y (case v of [] \<Rightarrow> m | x # xs \<Rightarrow> f x xs) Q"
  by (cases v) simp_all

lemma mt_split: "(\<And>a b. mt s y (f a b) Q) \<Longrightarrow> mt s y (case p of (a, b) \<Rightarrow> f a b) Q"
  by (cases p) simp

lemma mt_transit:
  "q' \<noteq> ST_STATE_NONE \<Longrightarrow> mt s ((q', t), x) (f ()) Q \<Longrightarrow> mt s ((q, t), x) (State_Monad.bind (TransitTo s q') f) Q"
  by (simp add: mt_def mstate_def core_def TransitTo_def)

lemma mt_sst:
  "(\<And>z. core z = y \<Longrightarrow> mt s (y, x) (g (h z)) Q) \<Longrightarrow> mt s (y, x) (State_Monad.bind (sst s h) g) Q"
  by (simp add: mt_def mstate_def)

lemma mt_upd:
  "(\<And>z. core z = y \<Longrightarrow> core (h z) = y') \<Longrightarrow> mt s (y', x) (f ()) Q \<Longrightarrow>
   mt s (y, x) (State_Monad.bind (upd_sst s h) f) Q"
  by (simp add: mt_def mstate_def)

lemma mt_park:
  assumes "\<And>z. core z = (q, t) \<Longrightarrow> mt s ((q, if t = ST_STATE_NONE then h z else t), x) (f ()) Q"
  shows "mt s ((q, t), x) (State_Monad.bind (upd_sst s (\<lambda>z.
    if state_for_restore z = ST_STATE_NONE then z\<lparr>state_for_restore := h z\<rparr> else z)) f) Q"
  using assms by (auto simp: mt_def mstate_def core_def)

definition released :: "int \<times> int \<times> int \<Rightarrow> int \<times> int \<times> int" where
  "released x = (case x of (a, b, n) \<Rightarrow> (a, b, if b \<ge> 0 \<and> n > 0 then n - 1 else n))"

definition acquired :: "int \<times> int \<times> int \<Rightarrow> int \<times> int \<times> int" where
  "acquired x = (case x of (a, b, n) \<Rightarrow> (a, b, if a \<ge> 0 then n + 1 else n))"

lemma mt_release:
  "mt s (y, released x) (f ()) Q \<Longrightarrow> mt s (y, x) (State_Monad.bind RM_releaseWakeLock f) Q"
  by (auto simp: mt_def mstate_def wake_def RM_releaseWakeLock_def released_def)

lemma mt_acquire:
  "mt s (y, acquired x) (f ()) Q \<Longrightarrow> mt s (y, x) (State_Monad.bind RM_acquireWakeLock f) Q"
  by (auto simp: mt_def mstate_def wake_def RM_acquireWakeLock_def acquired_def)

lemma mt_if_ok:
  assumes "mt s y m R" "\<And>r y'. R r y' \<Longrightarrow> r \<noteq> 0 \<Longrightarrow> Q r y'" "\<And>y'. R 0 y' \<Longrightarrow> mt s y' k Q"
  shows "mt s y (if_ok m k) Q"
  unfolding if_ok_def by (rule mt_bind [OF assms(1)], rule mt_if) (use assms in \<open>auto intro: mt_return\<close>)

lemma mt_if_ok_keep:
  "keeps (mstate s) m \<Longrightarrow> (\<And>r. r \<noteq> 0 \<Longrightarrow> Q r y) \<Longrightarrow> mt s y k Q \<Longrightarrow> mt s y (if_ok m k) Q"
  by (rule mt_if_ok [where R = "\<lambda>_ y'. y' = y"]) (simp_all add: mt_keep)

lemma bind_when_io:
  "State_Monad.bind (when_io b m) f = (if b then State_Monad.bind m f else f ())"
  by (simp add: when_io_def)

lemma bind_if_io:
  "State_Monad.bind (if b then m else n) f = (if b then State_Monad.bind m f else State_Monad.bind n f)"
  by simp

lemma mt_when:
  "(b \<Longrightarrow> mt s y (State_Monad.bind m f) Q) \<Longrightarrow> (\<not> b \<Longrightarrow> mt s y (f ()) Q) \<Longrightarrow>
   mt s y (State_Monad.bind (when_io b m) f) Q"
  by (simp add: bind_when_io)

lemma mt_bind_if:
  "(b \<Longrightarrow> mt s y (State_Monad.bind m f) Q) \<Longrightarrow> (\<not> b \<Longrightarrow> mt s y (State_Monad.bind n f) Q) \<Longrightarrow>
   mt s y (State_Monad.bind (if b then m else n) f) Q"
  by simp

lemma mt_bind_option:
  "(v = None \<Longrightarrow> mt s y (State_Monad.bind m f) Q) \<Longrightarrow> (\<And>a. v = Some a \<Longrightarrow> mt s y (State_Monad.bind (g a) f) Q) \<Longrightarrow>
   mt s y (State_Monad.bind (case v of None \<Rightarrow> m | Some a \<Rightarrow> g a) f) Q"
  by (cases v) simp_all

lemma mt_upd_any:
  assumes "\<And>z. core z = y \<Longrightarrow> mt s (core (h z), x) (f ()) Q"
  shows "mt s (y, x) (State_Monad.bind (upd_sst s h) f) Q"
  unfolding mt_def
proof (intro allI impI)
  fix w assume w: "mstate s w = (y, x)"
  let ?w = "w\<lparr>wst := (wst w)(s := h (wst w s))\<rparr>"
  have "mstate s ?w = (core (h (wst w s)), x)" "core (wst w s) = y" using w by (simp_all add: mstate_def)
  from mtD [OF assms [OF this(2)] this(1)]
  show "Q (fst (run_state (State_Monad.bind (upd_sst s h) f) w))
     (mstate s (snd (run_state (State_Monad.bind (upd_sst s h) f) w)))" by simp
qed

lemma mt_set_restore:
  "mt s ((q, u), x) (f ()) Q \<Longrightarrow>
   mt s ((q, t), x) (State_Monad.bind (upd_sst s (state_for_restore_update (\<lambda>_. u))) f) Q"
  by (simp add: mt_def mstate_def core_def)

lemma mt_assoc:
  "mt s y (State_Monad.bind m (\<lambda>r. State_Monad.bind (f r) g)) Q \<Longrightarrow>
   mt s y (State_Monad.bind (State_Monad.bind m f) g) Q"
  by (simp add: State_Monad.bind_assoc)

lemma mt_bind_return: "mt s y (f r) Q \<Longrightarrow> mt s y (State_Monad.bind (return r) f) Q"
  by simp

lemmas mt_wide = mt_when mt_bind_if mt_bind_option mt_assoc mt_bind_return

section \<open>The abstract machine\<close>

text \<open>\<open>st_next q ev r q'\<close>: a stream in \<open>q\<close> may be in \<open>q'\<close> after the event \<open>ev\<close> was handled with status \<open>r\<close>.\<close>

definition idle_next :: "st_ev \<Rightarrow> int \<Rightarrow> st_state_id_t \<Rightarrow> bool" where
  "idle_next ev r q' =
     (case ev of
        ST_EV_LOAD_SOUND_MODEL sm \<Rightarrow> q' = (if r = 0 then ST_STATE_LOADED else ST_STATE_IDLE)
      | ST_EV_FSTAGE_LOAD \<Rightarrow> q' = (if r = 0 then ST_STATE_LOADED else ST_STATE_IDLE)
      | ST_EV_CONCURRENT_STREAM b \<Rightarrow>
          q' = ST_STATE_IDLE \<or> (b \<and> q' = ST_STATE_LOADED) \<or> (b \<and> r = 0 \<and> q' = ST_STATE_ACTIVE)
      | ST_EV_SSR_OFFLINE \<Rightarrow> q' = ST_STATE_SSR
      | _ \<Rightarrow> q' = ST_STATE_IDLE)"

definition loaded_next :: "st_ev \<Rightarrow> int \<Rightarrow> st_state_id_t \<Rightarrow> bool" where
  "loaded_next ev r q' =
     (case ev of
        ST_EV_UNLOAD_SOUND_MODEL \<Rightarrow> q' = ST_STATE_IDLE
      | ST_EV_FSTAGE_UNLOAD \<Rightarrow> q' = ST_STATE_IDLE
      | ST_EV_START_RECOGNITION \<Rightarrow> q' = ST_STATE_LOADED \<or> (r = 0 \<and> q' = ST_STATE_ACTIVE)
      | ST_EV_INTERNAL_RESUME \<Rightarrow> q' = ST_STATE_LOADED \<or> (r = 0 \<and> q' = ST_STATE_ACTIVE)
      | ST_EV_DEVICE_CONNECTED i \<Rightarrow> q' = ST_STATE_LOADED \<or> (r = 0 \<and> q' = ST_STATE_ACTIVE)
      | ST_EV_CONCURRENT_STREAM b \<Rightarrow> q' = (if r = 0 then ST_STATE_IDLE else ST_STATE_LOADED) \<and> (b \<longrightarrow> r \<noteq> 0)
      | ST_EV_SSR_OFFLINE \<Rightarrow> q' = ST_STATE_SSR
      | _ \<Rightarrow> q' = ST_STATE_LOADED)"

definition active_next :: "st_ev \<Rightarrow> int \<Rightarrow> st_state_id_t \<Rightarrow> bool" where
  "active_next ev r q' =
     (case ev of
        ST_EV_DETECTED t \<Rightarrow>
          if t = THRESHOLD_REACHED then q' = ST_STATE_BUFFERING
          else if t = GMM_DETECTED then q' = ST_STATE_DETECTED \<or> q' = ST_STATE_BUFFERING
          else q' = ST_STATE_ACTIVE
      | ST_EV_PAUSE \<Rightarrow> q' = ST_STATE_LOADED
      | ST_EV_INTERNAL_PAUSE \<Rightarrow> q' = ST_STATE_LOADED
      | ST_EV_STOP_RECOGNITION \<Rightarrow> q' = ST_STATE_LOADED
      | ST_EV_UNLOAD_SOUND_MODEL \<Rightarrow> q' = ST_STATE_IDLE
      | ST_EV_RECOGNITION_CONFIG c \<Rightarrow> (r = 0 \<and> q' = ST_STATE_ACTIVE) \<or> q' = ST_STATE_LOADED
      | ST_EV_CONCURRENT_STREAM b \<Rightarrow>
          if r = 0 then \<not> b \<and> q' = ST_STATE_IDLE else q' = ST_STATE_ACTIVE \<or> (\<not> b \<and> q' = ST_STATE_LOADED)
      | ST_EV_SSR_OFFLINE \<Rightarrow> q' = ST_STATE_SSR
      | _ \<Rightarrow> q' = ST_STATE_ACTIVE)"

text \<open>What detected and buffering have in common.\<close>

definition running_next :: "st_state_id_t \<Rightarrow> st_ev \<Rightarrow> int \<Rightarrow> st_state_id_t \<Rightarrow> bool" where
  "running_next q ev r q' =
     (case ev of
        ST_EV_START_RECOGNITION \<Rightarrow> q' = (if r = 0 then ST_STATE_ACTIVE else ST_STATE_LOADED)
      | ST_EV_PAUSE \<Rightarrow> q' = ST_STATE_LOADED
      | ST_EV_INTERNAL_PAUSE \<Rightarrow> q' = ST_STATE_LOADED
      | ST_EV_STOP_RECOGNITION \<Rightarrow> q' = ST_STATE_LOADED
      | ST_EV_UNLOAD_SOUND_MODEL \<Rightarrow> q' = ST_STATE_IDLE
      | ST_EV_RECOGNITION_CONFIG c \<Rightarrow> (r = 0 \<and> q' = q) \<or> q' = ST_STATE_LOADED
      | ST_EV_CONCURRENT_STREAM b \<Rightarrow> q' = (if r = 0 then ST_STATE_IDLE else ST_STATE_LOADED)
      | ST_EV_SSR_OFFLINE \<Rightarrow> q' = ST_STATE_SSR
      | _ \<Rightarrow> q' = q)"

definition buffering_next :: "st_ev \<Rightarrow> int \<Rightarrow> st_state_id_t \<Rightarrow> bool" where
  "buffering_next ev r q' =
     (case ev of
        ST_EV_DETECTED t \<Rightarrow>
          q' = ST_STATE_BUFFERING \<or>
          ((t = KEYWORD_DETECTION_REJECT \<or> t = USER_VERIFICATION_REJECT) \<and>
             q' = (if r = 0 then ST_STATE_ACTIVE else ST_STATE_LOADED)) \<or>
          (t \<noteq> GMM_DETECTED \<and> t \<noteq> KEYWORD_DETECTION_REJECT \<and> t \<noteq> USER_VERIFICATION_REJECT \<and> q' = ST_STATE_DETECTED)
      | ST_EV_DEVICE_CONNECTED i \<Rightarrow> q' = ST_STATE_BUFFERING \<or> (r = 0 \<and> q' = ST_STATE_ACTIVE)
      | _ \<Rightarrow> running_next ST_STATE_BUFFERING ev r q')"

definition st_next :: "st_state_id_t \<Rightarrow> st_ev \<Rightarrow> int \<Rightarrow> st_state_id_t \<Rightarrow> bool" where
  "st_next q ev r q' =
     (case q of
        ST_STATE_NONE \<Rightarrow> q' = q
      | ST_STATE_IDLE \<Rightarrow> idle_next ev r q'
      | ST_STATE_LOADED \<Rightarrow> loaded_next ev r q'
      | ST_STATE_ACTIVE \<Rightarrow> active_next ev r q'
      | ST_STATE_DETECTED \<Rightarrow> running_next q ev r q'
      | ST_STATE_BUFFERING \<Rightarrow> buffering_next ev r q'
      | ST_STATE_SSR \<Rightarrow>
          if ev = ST_EV_SSR_ONLINE then q' = ST_STATE_IDLE \<or> q' = ST_STATE_LOADED \<or> (r = 0 \<and> q' = ST_STATE_ACTIVE)
          else q' = q)"

definition awake :: "st_state_id_t \<Rightarrow> bool" where
  "awake q \<longleftrightarrow> q = ST_STATE_DETECTED \<or> q = ST_STATE_BUFFERING"

text \<open>Leaving detected or buffering gives the wake lock up once; two events are out of step.\<close>

definition second_stage_rejection :: "st_ev \<Rightarrow> bool" where
  "second_stage_rejection ev \<longleftrightarrow> ev = ST_EV_DETECTED KEYWORD_DETECTION_REJECT \<or> ev = ST_EV_DETECTED USER_VERIFICATION_REJECT"

definition device_connected :: "st_ev \<Rightarrow> bool" where
  "device_connected ev \<longleftrightarrow> (\<exists>i. ev = ST_EV_DEVICE_CONNECTED i)"

definition st_wake :: "st_state_id_t \<Rightarrow> st_ev \<Rightarrow> int \<times> int \<times> int \<Rightarrow> st_state_id_t \<Rightarrow> int \<times> int \<times> int \<Rightarrow> bool" where
  "st_wake q ev x q' x' =
     (if awake q \<and> \<not> awake q' then x' = (if device_connected ev then x else released x)
      else x' = x \<or> (q = ST_STATE_BUFFERING \<and> second_stage_rejection ev \<and> x' = released x))"

text \<open>The state to come back to moves with the requests of the client while the card is down.\<close>

definition ssr_client :: "st_state_id_t \<Rightarrow> st_ev \<Rightarrow> int \<Rightarrow> st_state_id_t \<Rightarrow> bool" where
  "ssr_client t ev r t' =
     (case ev of
        ST_EV_LOAD_SOUND_MODEL sm \<Rightarrow> t' = (if r = 0 then ST_STATE_LOADED else t) \<and> (r = 0 \<longrightarrow> t = ST_STATE_IDLE)
      | ST_EV_UNLOAD_SOUND_MODEL \<Rightarrow> t' = (if r = 0 then ST_STATE_IDLE else t) \<and> (r = 0 \<longleftrightarrow> t = ST_STATE_LOADED)
      | ST_EV_START_RECOGNITION \<Rightarrow> t' = (if r = 0 then ST_STATE_ACTIVE else t) \<and> (r = 0 \<longrightarrow> t = ST_STATE_LOADED)
      | ST_EV_STOP_RECOGNITION \<Rightarrow> t' = (if r = 0 then ST_STATE_LOADED else t) \<and> (r = 0 \<longleftrightarrow> t = ST_STATE_ACTIVE)
      | ST_EV_RESUME \<Rightarrow> t' = t \<or> t' = ST_STATE_ACTIVE
      | ST_EV_INTERNAL_RESUME \<Rightarrow> t' = t \<or> t' = ST_STATE_ACTIVE
      | ST_EV_SSR_ONLINE \<Rightarrow> True
      | _ \<Rightarrow> t' = t)"

definition parked :: "st_state_id_t \<Rightarrow> st_state_id_t \<Rightarrow> bool" where
  "parked q t' =
     (case q of
        ST_STATE_DETECTED \<Rightarrow> t' = ST_STATE_LOADED
      | ST_STATE_BUFFERING \<Rightarrow> t' = ST_STATE_LOADED \<or> t' = ST_STATE_ACTIVE
      | _ \<Rightarrow> t' = q)"

definition st_restore :: "st_state_id_t \<Rightarrow> st_state_id_t \<Rightarrow> st_ev \<Rightarrow> int \<Rightarrow> st_state_id_t \<Rightarrow> bool" where
  "st_restore q t ev r t' =
     (if q = ST_STATE_SSR then ssr_client t ev r t'
      else if ev = ST_EV_SSR_OFFLINE \<and> q \<noteq> ST_STATE_NONE \<and> t = ST_STATE_NONE then parked q t'
      else t' = t)"

definition st_refines :: "st_state_id_t \<Rightarrow> st_state_id_t \<Rightarrow> int \<times> int \<times> int \<Rightarrow> st_ev \<Rightarrow> int \<Rightarrow>
    (st_state_id_t \<times> st_state_id_t) \<times> int \<times> int \<times> int \<Rightarrow> bool" where
  "st_refines q t x ev r y =
     (case y of ((q', t'), x') \<Rightarrow> st_next q ev r q' \<and> st_wake q ev x q' x' \<and> st_restore q t ev r t')"

lemmas next_defs = st_refines_def st_next_def idle_next_def loaded_next_def active_next_def running_next_def
  buffering_next_def st_wake_def awake_def second_stage_rejection_def device_connected_def st_restore_def
  ssr_client_def parked_def

section \<open>The events refine the machine\<close>

locale quiet_table = st_obs "mstate s" V for s :: nat and V :: stream_vt
begin

definition "refines self \<longleftrightarrow> (\<forall>q t x ev. leaf q ev \<longrightarrow> mt s ((q, t), x) (self ev) (st_refines q t x ev))"

lemmas step = mt_park mt_set_restore mt_transit mt_release mt_return mt_if mt_option mt_list mt_split mt_if_ok_keep mt_bind_keep mt_keep

lemma m_idle_load:
  "mt s ((ST_STATE_IDLE, t), x) (Idle_load E V s sm) (\<lambda>r y. y = ((if r = 0 then ST_STATE_LOADED else ST_STATE_IDLE, t), x))"
  unfolding Idle_load_def by (rule step f_rules | simp add: core_def)+

lemma m_start_engines:
  "mt s ((ST_STATE_LOADED, t), x) (Loaded_start_engines E s)
     (\<lambda>r y. y = ((if r = 0 then ST_STATE_ACTIVE else ST_STATE_LOADED, t), x))"
  unfolding Loaded_start_engines_def by (rule step f_rules | simp add: core_def)+

lemma m_start:
  "mt s ((ST_STATE_LOADED, t), x) (Loaded_start E V s b)
     (\<lambda>r y. y = ((ST_STATE_LOADED, t), x) \<or> r = 0 \<and> y = ((ST_STATE_ACTIVE, t), x))"
proof -
  note fin = mt_weaken [OF m_start_engines]
  show ?thesis
    unfolding Loaded_start_def
    by (rule fin step f_rules | simp add: core_def)+
qed

lemma refines_self:
  assumes "refines self" "leaf q ev" "\<And>r q' t' x'. st_refines q t x ev r ((q', t'), x') \<Longrightarrow> Q r ((q', t'), x')"
  shows "mt s ((q, t), x) (self ev) Q"
proof (rule mt_weaken)
  show "mt s ((q, t), x) (self ev) (st_refines q t x ev)" 
    using assms(1,2) unfolding refines_def by blast
  show "Q r y" if "st_refines q t x ev r y" for r y using that assms(3) by (cases y) auto
qed

lemma refines_bind:
  assumes "refines self" "leaf q ev"
    "\<And>r q' t' x'. st_refines q t x ev r ((q', t'), x') \<Longrightarrow> mt s ((q', t'), x') (f r) Q"
  shows "mt s ((q, t), x) (State_Monad.bind (self ev) f) Q"
  by (rule mt_bind, rule refines_self [OF assms(1,2)], assumption) (use assms(3) in auto)

lemma m_idle_concurrent:
  assumes "refines self"
  shows "mt s ((ST_STATE_IDLE, t), x) (Idle_concurrent E V self s b)
     (st_refines ST_STATE_IDLE t x (ST_EV_CONCURRENT_STREAM b))"
  unfolding Idle_concurrent_def
  by (rule refines_self [OF assms] step f_rules | simp add: core_def next_defs)+

lemma m_Idle:
  assumes "\<not> leaf ST_STATE_IDLE ev \<Longrightarrow> refines self"
  shows "mt s ((ST_STATE_IDLE, t), x) (StIdle_ProcessEvent E V self s ev) (st_refines ST_STATE_IDLE t x ev)"
proof -
  note fin = mt_weaken [OF m_idle_load] m_idle_concurrent [OF assms]
  show ?thesis
    by (cases ev; simp add: StIdle_ProcessEvent_def;
        (rule fin step f_rules | simp add: core_def next_defs split: if_splits)+)
qed

lemma m_internal_resume:
  "mt s ((ST_STATE_LOADED, t), x) (Loaded_internal_resume E V s)
     (\<lambda>r y. y = ((ST_STATE_LOADED, t), x) \<or> r = 0 \<and> y = ((ST_STATE_ACTIVE, t), x))"
proof -
  note fin = mt_weaken [OF m_start]
  show ?thesis
    unfolding Loaded_internal_resume_def
    by (rule fin step f_rules | simp add: core_def)+
qed

lemma m_loaded_connect:
  "mt s ((ST_STATE_LOADED, t), x) (Loaded_connect E V s)
     (\<lambda>r y. y = ((ST_STATE_LOADED, t), x) \<or> r = 0 \<and> y = ((ST_STATE_ACTIVE, t), x))"
  unfolding Loaded_connect_def
  by (rule mt_when step f_rules | simp add: core_def)+

lemma m_loaded_concurrent:
  "mt s ((ST_STATE_LOADED, t), x) (Loaded_concurrent E s b)
     (st_refines ST_STATE_LOADED t x (ST_EV_CONCURRENT_STREAM b))"
  unfolding Loaded_concurrent_def
  by (rule step f_rules | simp add: core_def next_defs)+

lemma m_Loaded:
  assumes "\<not> leaf ST_STATE_LOADED ev \<Longrightarrow> refines self"
  shows "mt s ((ST_STATE_LOADED, t), x) (StLoaded_ProcessEvent E V self s ev) (st_refines ST_STATE_LOADED t x ev)"
proof -
  note fin = mt_weaken [OF m_start] mt_weaken [OF m_internal_resume] mt_weaken [OF m_loaded_connect] m_loaded_concurrent
    refines_bind [OF assms]
  show ?thesis
    by (cases ev; simp add: StLoaded_ProcessEvent_def;
        (rule fin step f_rules | (auto simp: next_defs core_def split: if_splits; fail) | simp add: next_defs)+)
qed

lemma m_active_stop: "mt s ((q, t), x) (Active_stop E V s b) (\<lambda>r y. y = ((ST_STATE_LOADED, t), x))"
  unfolding Active_stop_def by (rule step f_rules | simp)+

lemma m_stop_bind:
  "(\<And>r. mt s ((ST_STATE_LOADED, t), x) (f r) Q) \<Longrightarrow> mt s ((q, t), x) (State_Monad.bind (Active_stop E V s b) f) Q"
  by (rule mt_bind [OF m_active_stop]) simp

lemma m_active_detected:
  "mt s ((ST_STATE_ACTIVE, t), x) (Active_detected E V s d) (st_refines ST_STATE_ACTIVE t x (ST_EV_DETECTED d))"
  unfolding Active_detected_def
  by (rule mt_bind_if mt_assoc step f_rules |
      simp add: core_def next_defs split: option.splits)+

lemma m_reconfigure:
  assumes "refines self" "keeps (mstate s) halt"
  shows "mt s ((ST_STATE_ACTIVE, t), x) (reconfigure self s c halt (return ()))
      (st_refines ST_STATE_ACTIVE t x (ST_EV_RECOGNITION_CONFIG c))"
    and "awake q \<Longrightarrow> mt s ((q, t), x) (reconfigure self s c halt RM_releaseWakeLock)
      (st_refines q t x (ST_EV_RECOGNITION_CONFIG c))"
  unfolding reconfigure_def
  by (rule refines_bind [OF assms(1)] assms(2) step f_rules | (auto simp: next_defs; fail) | simp add: next_defs)+

lemma m_active_concurrent:
  assumes "refines self"
  shows "mt s ((ST_STATE_ACTIVE, t), x) (Active_concurrent self s b)
      (st_refines ST_STATE_ACTIVE t x (ST_EV_CONCURRENT_STREAM b))"
  unfolding Active_concurrent_def if_ok_def
  by (rule refines_bind [OF assms(1)] refines_self [OF assms(1)] step f_rules | (auto simp: next_defs split: if_splits; fail)
     | simp add: next_defs)+

lemma m_self_stop:
  assumes "refines self" "q = ST_STATE_ACTIVE \<or> awake q"
  shows "mt s ((q, t), x) (self ST_EV_STOP_RECOGNITION)
      (\<lambda>r y. y = ((ST_STATE_LOADED, t), if awake q then released x else x))"
  by (rule refines_self [OF assms(1)]) (use assms(2) in \<open>auto simp: next_defs\<close>)

lemma m_self_unload:
  assumes "refines self"
  shows "mt s ((ST_STATE_LOADED, t), x) (self ST_EV_FSTAGE_UNLOAD) (\<lambda>r y. y = ((ST_STATE_IDLE, t), x))"
  by (rule refines_self [OF assms(1)]) (auto simp: next_defs)

lemma m_ssr_offline:
  assumes "refines self" "q = ST_STATE_ACTIVE \<or> awake q" "\<And>z. parked q (h z)"
  shows "mt s ((q, t), x) (ssr_offline self s h) (st_refines q t x ST_EV_SSR_OFFLINE)"
proof -
  have fin: "st_refines q t x ST_EV_SSR_OFFLINE r
      ((ST_STATE_SSR, if t = ST_STATE_NONE then h z else t), if awake q then released x else x)" for r z
    using assms(2) assms(3) [of z] by (auto simp: next_defs)
  show ?thesis
    unfolding ssr_offline_def
    by (rule mt_park, rule mt_bind [OF m_self_stop [OF assms(1,2)]], simp only:,
        rule mt_bind [OF m_self_unload [OF assms(1)]], simp only:, rule mt_transit, simp, rule mt_return, rule fin)
qed

lemma m_Active:
  assumes "\<not> leaf ST_STATE_ACTIVE ev \<Longrightarrow> refines self"
  shows "mt s ((ST_STATE_ACTIVE, t), x) (StActive_ProcessEvent E V self s ev) (st_refines ST_STATE_ACTIVE t x ev)"
proof -
  note fin = m_active_detected m_reconfigure(1) [OF assms] m_active_concurrent [OF assms] m_ssr_offline [OF assms]
    refines_self [OF assms]
    mt_weaken [OF m_active_stop] m_stop_bind
  show ?thesis
    by (cases ev; simp add: StActive_ProcessEvent_def;
        (rule fin step f_rules | (auto simp: next_defs core_def split: if_splits; fail) | simp add: next_defs)+)
qed

lemma m_rearm:
  "mt s ((q, t), x) (rearm E s) (\<lambda>r y. y = ((if r = 0 then ST_STATE_ACTIVE else ST_STATE_LOADED, t), released x))"
  unfolding rearm_def by (rule step f_rules | simp)+

lemma m_leave:
  assumes "keeps (mstate s) halt"
  shows "(\<And>r. keeps (mstate s) (rest r)) \<Longrightarrow>
      mt s ((q, t), x) (leave_detection s halt rest) (\<lambda>r y. y = ((ST_STATE_LOADED, t), released x))"
    and "refines self \<Longrightarrow>
      mt s ((q, t), x) (leave_detection s halt (\<lambda>r. self ST_EV_UNLOAD_SOUND_MODEL)) (\<lambda>r y. y = ((ST_STATE_IDLE, t), released x))"
    and "refines self \<Longrightarrow>
      mt s ((q, t), x) (leave_detection s halt (\<lambda>r. self (ST_EV_CONCURRENT_STREAM b)))
        (\<lambda>r y. y = ((if r = 0 then ST_STATE_IDLE else ST_STATE_LOADED, t), released x))"
  unfolding leave_detection_def
  by (rule refines_bind assms step f_rules | assumption | (auto simp: next_defs; fail) | simp add: next_defs)+

lemma m_Detected:
  assumes "\<not> leaf ST_STATE_DETECTED ev \<Longrightarrow> refines self"
  shows "mt s ((ST_STATE_DETECTED, t), x) (StDetected_ProcessEvent E V self s ev) (st_refines ST_STATE_DETECTED t x ev)"
proof -
  note fin = m_reconfigure(2) [OF assms] m_ssr_offline [OF assms] mt_weaken [OF m_rearm]
    mt_weaken [OF m_leave(2) [OF _ assms]] mt_weaken [OF m_leave(3) [OF _ assms]] mt_weaken [OF m_leave(1)]
  show ?thesis
    by (cases ev; simp add: StDetected_ProcessEvent_def;
        (rule fin step f_rules | (auto simp: next_defs core_def split: if_splits; fail) | simp add: next_defs)+)
qed

lemma m_rejects:
  "mt s ((ST_STATE_BUFFERING, t), x) (second_stage_rejects E V s d) (\<lambda>r y.
     y = ((ST_STATE_BUFFERING, t), x) \<or> y = ((ST_STATE_BUFFERING, t), released x) \<or>
     y = ((if r = 0 then ST_STATE_ACTIVE else ST_STATE_LOADED, t), released x))"
  unfolding second_stage_rejects_def
  by (rule mt_wide step f_rules | simp add: core_def)+

lemma m_accepts:
  "mt s ((ST_STATE_BUFFERING, t), x) (second_stage_accepts E V s d) (\<lambda>r y.
     y = ((ST_STATE_BUFFERING, t), x) \<or> y = ((ST_STATE_DETECTED, t), x))"
  unfolding second_stage_accepts_def
  by (rule mt_wide step f_rules | simp add: core_def)+

lemma m_buffering_detected:
  "mt s ((ST_STATE_BUFFERING, t), x) (Buffering_detected E V s d) (st_refines ST_STATE_BUFFERING t x (ST_EV_DETECTED d))"
  unfolding Buffering_detected_def
  by (rule mt_if mt_return mt_weaken [OF m_rejects] mt_weaken [OF m_accepts] | (auto simp: next_defs split: if_splits; fail))+

lemma m_Buffering:
  assumes "\<not> leaf ST_STATE_BUFFERING ev \<Longrightarrow> refines self"
  shows "mt s ((ST_STATE_BUFFERING, t), x) (StBuffering_ProcessEvent E V self s ev) (st_refines ST_STATE_BUFFERING t x ev)"
proof -
  note fin = m_reconfigure(2) [OF assms] m_ssr_offline [OF assms] mt_weaken [OF m_rearm] m_buffering_detected
    mt_weaken [OF m_leave(2) [OF _ assms]] mt_weaken [OF m_leave(3) [OF _ assms]] mt_weaken [OF m_leave(1)]
  show ?thesis
    by (cases ev; simp add: StBuffering_ProcessEvent_def;
        (rule fin mt_when mt_assoc step f_rules | (auto simp: next_defs core_def split: if_splits; fail) | simp add: next_defs)+)
qed

lemma m_client_step:
  assumes "keeps (mstate s) m"
  shows "mt s ((ST_STATE_SSR, t), x) (ssr_client_step s a b m) (\<lambda>r y.
     y = ((ST_STATE_SSR, if r = 0 then b else t), x) \<and> (r = 0 \<longrightarrow> t = a))"
  unfolding ssr_client_step_def
  by (rule mt_sst, rule mt_if, rule mt_return, simp, rule mt_if_ok_keep [OF assms], simp, rule mt_upd [where y' = "(ST_STATE_SSR, b)"])
    (auto simp: core_def intro!: mt_return)

lemma m_client_move:
  "mt s ((ST_STATE_SSR, t), x) (ssr_client_step s a b (return 0)) (\<lambda>r y.
     y = ((ST_STATE_SSR, if r = 0 then b else t), x) \<and> (r = 0 \<longleftrightarrow> t = a))"
  by (auto simp: mt_def mstate_def core_def ssr_client_step_def if_ok_def)

lemma m_online_load:
  assumes "refines self"
  shows "mt s ((ST_STATE_IDLE, u), x) (if b then if_ok (self ST_EV_FSTAGE_LOAD) (do {
                rc \<leftarrow> sst s rec_config;
                if rc = None then return 0 else SendRecognitionConfig E s None
              }) else return 0) (\<lambda>r y. y = ((ST_STATE_LOADED, u), x) \<or> (\<not> b \<or> r \<noteq> 0) \<and> y = ((ST_STATE_IDLE, u), x))"
  unfolding if_ok_def
  by (rule refines_bind [OF assms] step f_rules | (auto simp: next_defs core_def split: if_splits; fail) | simp add: next_defs)+

lemma m_online_tail:
  assumes "refines self" "q = ST_STATE_LOADED \<or> q = ST_STATE_IDLE \<and> \<not> b"
  shows "mt s ((q, u), x) (if_ok (if b then self ST_EV_START_RECOGNITION else return 0) (do {
          upd_sst s (state_for_restore_update (\<lambda>_. ST_STATE_NONE));
          return 0
        })) (\<lambda>r y. snd y = x \<and> (fst (fst y) = q \<or> r = 0 \<and> fst (fst y) = ST_STATE_ACTIVE))"
  unfolding if_ok_def using assms(2)
  by - (rule mt_bind_if refines_bind [OF assms(1)] step f_rules | (auto simp: next_defs core_def split: if_splits; fail)
      | (simp add: next_defs, elim disjE conjE, simp_all))+

lemma m_online:
  assumes "refines self"
  shows "mt s ((ST_STATE_SSR, t), x) (SSR_online E self s) (st_refines ST_STATE_SSR t x ST_EV_SSR_ONLINE)"
proof -
  have fin: "mt s y (if_ok (if b then self ST_EV_START_RECOGNITION else return 0) (do {
        upd_sst s (state_for_restore_update (\<lambda>_. ST_STATE_NONE)); return 0 }))
      (st_refines ST_STATE_SSR t x ST_EV_SSR_ONLINE)"
    if "y = ((q, u), x)" "q = ST_STATE_LOADED \<or> q = ST_STATE_IDLE \<and> \<not> b" for y q u b
    unfolding that(1) by (rule mt_weaken [OF m_online_tail [OF assms that(2)]]) (use that(2) in \<open>auto simp: next_defs\<close>)
  have load: "mt s ((ST_STATE_IDLE, T), x) (if_ok (if T = ST_STATE_LOADED \<or> T = ST_STATE_ACTIVE
      then if_ok (self ST_EV_FSTAGE_LOAD) (do {
        rc \<leftarrow> sst s rec_config; if rc = None then return 0 else SendRecognitionConfig E s None }) else return 0)
      (if_ok (if T = ST_STATE_ACTIVE then self ST_EV_START_RECOGNITION else return 0) (do {
        upd_sst s (state_for_restore_update (\<lambda>_. ST_STATE_NONE)); return 0 })))
      (st_refines ST_STATE_SSR t x ST_EV_SSR_ONLINE)" for T
    by (rule mt_if_ok [OF m_online_load [OF assms]], force simp: next_defs,
        erule disjE, erule fin, simp, elim conjE, erule fin, simp)
  show ?thesis
    unfolding SSR_online_def Let_def
    by (rule load step f_rules | simp add: next_defs)+
qed

lemma m_SSR:
  assumes "\<not> leaf ST_STATE_SSR ev \<Longrightarrow> refines self"
  shows "mt s ((ST_STATE_SSR, t), x) (StSSR_ProcessEvent E V self s ev) (st_refines ST_STATE_SSR t x ev)"
proof -
  note fin = m_online [OF assms] mt_weaken [OF m_client_move] mt_weaken [OF m_client_step] mt_upd_any
  show ?thesis
    by (cases ev; simp add: StSSR_ProcessEvent_def;
        (rule fin step f_rules | (auto simp: next_defs core_def split: if_splits; fail) | simp add: next_defs)+)
qed

lemma m_process:
  assumes "\<not> leaf q ev \<Longrightarrow> refines (process n E V s)"
  shows "mt s ((q, t), x) (process (Suc n) E V s ev) (st_refines q t x ev)"
proof -
  let ?self = "process n E V s"
  have "mt s ((q, t), x) (case q of
       ST_STATE_NONE \<Rightarrow> do { tell OutOfBounds; return 0 }
     | ST_STATE_IDLE \<Rightarrow> StIdle_ProcessEvent E V ?self s ev
     | ST_STATE_LOADED \<Rightarrow> StLoaded_ProcessEvent E V ?self s ev
     | ST_STATE_ACTIVE \<Rightarrow> StActive_ProcessEvent E V ?self s ev
     | ST_STATE_DETECTED \<Rightarrow> StDetected_ProcessEvent E V ?self s ev
     | ST_STATE_BUFFERING \<Rightarrow> StBuffering_ProcessEvent E V ?self s ev
     | ST_STATE_SSR \<Rightarrow> StSSR_ProcessEvent E V ?self s ev) (st_refines q t x ev)"
    using assms by (cases q) (auto simp: next_defs intro!: m_Idle m_Loaded m_Active m_Detected m_Buffering m_SSR step f_rules)
  then show ?thesis
    unfolding process.simps by (rule_tac mt_sst) (simp add: core_def)
qed

lemma m_ProcessEvent: "mt s ((q, t), x) (ProcessEvent E V s ev) (st_refines q t x ev)"
proof -
  have "refines (process 1 E V s)"
    unfolding refines_def One_nat_def by (blast intro: m_process)
  then show ?thesis
    using m_process [of q ev 1] by (simp add: ProcessEvent_def numeral_2_eq_2)
qed

end

section \<open>The state machine of a stream\<close>

text \<open>Another stream answers calls and the client's callback does not call back.\<close>

interpretation st_other: quiet_table s "other_vt E"
proof unfold_locales
  have log: "mstate s (w\<lparr>wlog := l\<rparr>) = mstate s w" for w l by (simp add: mstate_def)
  show "keeps (mstate s) (sv_isActive (other_vt E) t)" "keeps (mstate s) (sv_IsStreamInBuffering (other_vt E) t)"
    "keeps (mstate s) (sv_ConfigSupportLPI (other_vt E) t)" "keeps (mstate s) (sv_GetCurrentCaptureProfile (other_vt E) t)"
    "keeps (mstate s) (sv_Pause (other_vt E) t b)" "keeps (mstate s) (sv_Resume (other_vt E) t b)"
    "keeps (mstate s) (sv_HandleConcurrentStream (other_vt E) t b)" "keeps (mstate s) (sv_DisconnectDevice (other_vt E) t d)"
    "keeps (mstate s) (sv_ConnectDevice (other_vt E) t d)" "keeps (mstate s) (sv_start_l (other_vt E) t)"
    "keeps (mstate s) (sv_callback (other_vt E) t)" for t b d
    by (auto simp: other_vt_def ask_def intro!: kp_bind kp_pure kp_log log)
qed (simp_all add: mstate_def)

lemma event_refines:
  "st_refines (cur_state (wst w s)) (state_for_restore (wst w s)) (wake (wrm w)) ev
     (fst (run_state (ProcessEvent E (other_vt E) s ev) w))
     (mstate s (snd (run_state (ProcessEvent E (other_vt E) s ev) w)))"
  by (rule mtD [OF st_other.m_ProcessEvent]) (simp add: mstate_def core_def)



end
