(* ===== verification/ST_Demo.thy ===== *)
theory ST_Demo
  imports ST_Calls Pal_Demo
begin

text \<open>
  Worked examples of a sound trigger stream: one engine of the first stage and one of the second, the
  handset microphone, a platform where every call succeeds; and the definitions that evaluate its
  events.
\<close>

definition demo_profile :: CaptureProfile where
  "demo_profile = \<lparr>cp_name = ''P'', cp_device_id = PAL_DEVICE_IN_HANDSET_MIC, cp_sample_rate = 16000, cp_channels = 1,
     cp_bitwidth = 16, cp_snd_name = ''mic'', cp_is_ec_req = False, cp_backend = ''BE''\<rparr>"

definition demo_cfg :: VUIStreamConfig where
  "demo_cfg = \<lparr>vc_lpi_enable = True, vc_sample_rate = 16000, vc_bit_width = 16, vc_out_channels = 1, vc_capture_keyword = 0,
     vc_pre_roll_duration = 0, vc_client_capture_read_delay = 0, vc_mmap_enable = False, vc_mmap_buffer_duration = 0,
     vc_mmap_frame_length = 0, vc_merge_first_stage_sound_models = False, vc_supported_first_stage_engine_count = 1,
     vc_ext_det_prop_list = [], vc_op_modes = (\<lambda>m. Some demo_profile), vc_1st_stage_cfg_list = (\<lambda>t. None),
     vc_uuid_1st_stage_cfg = None\<rparr>"

definition demo_rec :: pal_st_recognition_config where
  "demo_rec = \<lparr>capture_handle = 1, capture_device = 31, capture_requested = False, num_phrases = 0, phrases = [],
     rc_data_size = 0, rc_data_offset = 0, rc_data = []\<rparr>"

definition demo_trigger :: "st_state_id_t \<Rightarrow> StreamSoundTrigger" where
  "demo_trigger q = demo_st\<lparr>cur_state := q, sm_cfg := Some demo_cfg, rec_config := Some demo_rec,
     engines := [(ST_SM_ID_SVA_F_STAGE_GMM, 1), (ST_SM_ID_SVA_S_STAGE_USER, 2)], gsl_engine := Some 1,
     second_stage_processing := True, dattr_specified := Some (demo_attr PAL_DEVICE_IN_HANDSET_MIC)\<rparr>"

definition trigger_world :: "st_state_id_t \<Rightarrow> nat list \<Rightarrow> int \<Rightarrow> world" where
  "trigger_world q ds n = (demo_world ds 2)\<lparr>wst := (\<lambda>s. demo_trigger q), wrm := demo_rm\<lparr>wake_lock_cnt := n\<rparr>\<rparr>"

lemmas trigger_defs = trigger_world_def demo_trigger_def demo_st_def demo_cfg_def demo_rec_def demo_profile_def

lemmas trigger_eval = ProcessEvent_def numeral_2_eq_2 process.simps StBuffering_ProcessEvent_def ConnectEvent_def
  connect_setup_def UpdateDeviceConfig_def GetCurrentCaptureProfile_def GetAvailCaptureDevice_def ConfigSupportLPI_def
  CheckForForcedTransitToNonLPI_def device_specified_def shared_mic_def updateStreamAttributes_def voted_open_def
  connect_device_def gsl_def vui_def eng_def reader_do_def Device_setDeviceAttributes_def if_ok_def
  RM_registerDevice_def RM_registerDevice_l_def TransitTo_def GetVUIFirstStageConfig_def IS_MODULE_TYPE_PDK_def
  isDeviceAvailable_def

end
