(* ===== verification/ST_Wake.thy ===== *)
theory ST_Wake
  imports ST_States ST_Demo
begin

text \<open>
  The wake lock of a sound trigger stream: taken when the first stage detects, held while the stream
  is detected or buffering, given up when it leaves both; and the two events after which the count
  no longer says so.
\<close>

section \<open>A detection\<close>

lemma first_stage_detection:
  "st_refines ST_STATE_ACTIVE t x (ST_EV_DETECTED d) r ((q', t'), x') \<Longrightarrow> d = GMM_DETECTED \<or> d = THRESHOLD_REACHED \<Longrightarrow>
   awake q' \<and> x' = x"
  by (auto simp: next_defs split: if_splits)

lemma later_detection:
  "st_refines q t x (ST_EV_DETECTED d) r ((q', t'), x') \<Longrightarrow> d \<noteq> GMM_DETECTED \<and> d \<noteq> THRESHOLD_REACHED \<Longrightarrow>
   d \<noteq> KEYWORD_DETECTION_REJECT \<and> d \<noteq> USER_VERIFICATION_REJECT \<Longrightarrow> awake q' = awake q \<and> x' = x"
  by (cases q) (auto simp: next_defs split: if_splits)

context st_obs
begin

lemma f_spin: "keeps f (spin_lock E s qs)"
  unfolding spin_lock_def by (rule f_stream | simp add: core_def)+

end

lemma mt_cur: "mt s ((q, t), x) (g q) Q \<Longrightarrow> mt s ((q, t), x) (State_Monad.bind (sst s cur_state) g) Q"
  by (simp add: mt_def mstate_def core_def)

context quiet_table
begin

lemma mt_ProcessEvent:
  "(\<And>r q' t' x'. st_refines q t x ev r ((q', t'), x') \<Longrightarrow> mt s ((q', t'), x') (f r) Q) \<Longrightarrow>
   mt s ((q, t), x) (State_Monad.bind (ProcessEvent E V s ev) f) Q"
  by (rule mt_bind [OF m_ProcessEvent]) auto

lemma m_detect_event:
  assumes "d \<noteq> KEYWORD_DETECTION_REJECT" "d \<noteq> USER_VERIFICATION_REJECT"
  shows "mt s ((q, t), x) (SetEngineDetectionState E V s d) (\<lambda>r y. y = ((q, t), x) \<or>
     (if d = GMM_DETECTED \<or> d = THRESHOLD_REACHED then q = ST_STATE_ACTIVE \<and> st_refines q t (acquired x) (ST_EV_DETECTED d) r y
      else st_refines q t x (ST_EV_DETECTED d) r y))"
  unfolding SetEngineDetectionState_def
  using assms
  by - (rule mt_return mt_if mt_when mt_cur mt_acquire mt_assoc mt_ProcessEvent f_spin step f_rules |
     simp add: core_def | blast)+

lemma m_detect:
  assumes "d \<noteq> KEYWORD_DETECTION_REJECT" "d \<noteq> USER_VERIFICATION_REJECT"
  shows "mt s ((q, t), x) (SetEngineDetectionState E V s d) (\<lambda>r y.
     snd y = (if \<not> awake q \<and> awake (fst (fst y)) then acquired x else x) \<and> (awake q \<longrightarrow> awake (fst (fst y))))"
proof (rule mt_weaken [OF m_detect_event [OF assms]], goal_cases)
  case (1 r y)
  obtain q' t' x' where y: "y = ((q', t'), x')" by (cases y) auto
  show ?case
    using 1 assms first_stage_detection [of t "acquired x" d r q' t' x'] later_detection [of q t x d r q' t' x']
    by (auto simp: y awake_def split: if_splits)
qed

end

section \<open>Runs\<close>

text \<open>What reaches a stream under its mutex: a detection of an engine, or any other event.\<close>

datatype st_op = Detection nat | Event st_ev

definition st_step :: "env \<Rightarrow> stream_vt \<Rightarrow> nat \<Rightarrow> st_op \<Rightarrow> int io" where
  "st_step E V s op = (case op of Detection d \<Rightarrow> SetEngineDetectionState E V s d | Event ev \<Rightarrow> ProcessEvent E V s ev)"

definition st_run :: "env \<Rightarrow> stream_vt \<Rightarrow> nat \<Rightarrow> st_op list \<Rightarrow> unit io" where
  "st_run E V s ops = for_each ops (\<lambda>op. do { st_step E V s op; return () })"

fun in_step :: "st_op \<Rightarrow> bool" where
  "in_step (Detection d) = (d \<noteq> KEYWORD_DETECTION_REJECT \<and> d \<noteq> USER_VERIFICATION_REJECT)"
| "in_step (Event (ST_EV_DETECTED d)) = False"
| "in_step (Event (ST_EV_DEVICE_CONNECTED i)) = False"
| "in_step (Event ev) = True"

text \<open>The lock files are open, and the count is that of the others and one while this stream is awake.\<close>

definition lock_held :: "int \<Rightarrow> st_state_id_t \<Rightarrow> int \<times> int \<times> int \<Rightarrow> bool" where
  "lock_held c q x \<longleftrightarrow> (case x of (a, b, n) \<Rightarrow> a \<ge> 0 \<and> b \<ge> 0 \<and> c \<ge> 0 \<and> n = c + (if awake q then 1 else 0))"

lemma held_moves:
  "lock_held c q x \<Longrightarrow> \<not> awake q \<Longrightarrow> awake q' \<Longrightarrow> lock_held c q' (acquired x)"
  "lock_held c q x \<Longrightarrow> awake q \<Longrightarrow> \<not> awake q' \<Longrightarrow> lock_held c q' (released x)"
  "lock_held c q x \<Longrightarrow> awake q = awake q' \<Longrightarrow> lock_held c q' x"
  by (auto simp: lock_held_def acquired_def released_def split: prod.splits)

lemma held_event:
  assumes "st_refines q t x ev r ((q', t'), x')" "in_step (Event ev)" "lock_held c q x"
  shows "lock_held c q' x'"
proof -
  have n: "\<not> second_stage_rejection ev" "\<not> device_connected ev" "\<And>d. ev \<noteq> ST_EV_DETECTED d"
    using assms(2) by (auto simp: second_stage_rejection_def device_connected_def)
  then have "awake q' \<Longrightarrow> awake q"
    using assms(1) by (cases ev; cases q; auto simp: next_defs split: if_splits)
  moreover have "x' = (if awake q \<and> \<not> awake q' then released x else x)"
    using assms(1) n by (simp add: st_refines_def st_wake_def split: if_splits)
  ultimately show ?thesis using held_moves [OF assms(3)] by (auto split: if_splits)
qed

lemma held_step:
  fixes E :: env
  assumes "in_step op" "lock_held c (cur_state (wst w s)) (wake (wrm w))"
  defines "w' \<equiv> snd (run_state (st_step E (other_vt E) s op) w)"
  shows "lock_held c (cur_state (wst w' s)) (wake (wrm w'))"
proof (cases op)
  case (Event ev)
  then show ?thesis
    using held_event [of "cur_state (wst w s)" "state_for_restore (wst w s)" "wake (wrm w)" ev _ "cur_state (wst w' s)"
        "state_for_restore (wst w' s)" "wake (wrm w')" c] event_refines [of w s ev E] assms
    by (simp add: st_step_def mstate_def core_def)
next
  case (Detection d)
  have "mt s (mstate s w) (SetEngineDetectionState E (other_vt E) s d) (\<lambda>r y.
     snd y = (if \<not> awake (cur_state (wst w s)) \<and> awake (fst (fst y)) then acquired (wake (wrm w)) else wake (wrm w)) \<and>
     (awake (cur_state (wst w s)) \<longrightarrow> awake (fst (fst y))))"
    unfolding mstate_def core_def by (rule st_other.m_detect) (use assms(1) Detection in auto)
  from mtD [OF this refl] have "wake (wrm w') =
      (if \<not> awake (cur_state (wst w s)) \<and> awake (cur_state (wst w' s)) then acquired (wake (wrm w)) else wake (wrm w))"
    "awake (cur_state (wst w s)) \<longrightarrow> awake (cur_state (wst w' s))"
    by (simp_all add: w'_def Detection st_step_def mstate_def core_def)
  then show ?thesis using held_moves(1,3) [OF assms(2), of "cur_state (wst w' s)"] by (auto split: if_splits)
qed

lemma held_run:
  fixes E :: env
  assumes "list_all in_step ops" "lock_held c (cur_state (wst w s)) (wake (wrm w))"
  defines "w' \<equiv> snd (run_state (st_run E (other_vt E) s ops) w)"
  shows "lock_held c (cur_state (wst w' s)) (wake (wrm w'))"
  using assms(1,2) unfolding w'_def st_run_def
proof (induction ops arbitrary: w)
  case (Cons op ops)
  have "lock_held c (cur_state (wst (snd (run_state (st_step E (other_vt E) s op) w)) s))
      (wake (wrm (snd (run_state (st_step E (other_vt E) s op) w))))"
    by (rule held_step) (use Cons.prems in auto)
  from Cons.IH [OF _ this] Cons.prems(1) show ?case by (auto split: prod.splits)
qed simp

text \<open>
  C15: While detections and events arrive in any order, the wake lock is held for this stream exactly
  while it is in detected or buffering: starting from such a count, after any number of detections of
  the first stage, detections confirmed by the second stage, starts, stops, pauses, resumes, loads,
  unloads, reads, configurations, concurrent streams, device disconnections and restarts of the
  card, the count is what the others hold and one more if and only if the stream is in one of the two
  states, whatever the engines and devices answer.  Two events are left out: a device connection and
  a rejection by the second stage.
\<close>

theorem wake_lock_follows_detection:
  fixes E :: env
  assumes "list_all in_step ops" "lock_held c (cur_state (wst w s)) (wake (wrm w))"
  defines "w' \<equiv> snd (run_state (st_run E (other_vt E) s ops) w)"
  shows "lock_held c (cur_state (wst w' s)) (wake (wrm w'))"
  unfolding w'_def by (rule held_run [OF assms(1,2)])

theorem wake_lock_follows_detection_witness:
  "lock_held 2 (cur_state (wst (snd (run_state (st_run demo_env (other_vt demo_env) 5
       [Detection GMM_DETECTED, Event ST_EV_STOP_BUFFERING, Event ST_EV_SSR_OFFLINE]) (trigger_world ST_STATE_ACTIVE [] 2))) 5))
     (wake (wrm (snd (run_state (st_run demo_env (other_vt demo_env) 5
       [Detection GMM_DETECTED, Event ST_EV_STOP_BUFFERING, Event ST_EV_SSR_OFFLINE]) (trigger_world ST_STATE_ACTIVE [] 2)))))"
  by (rule wake_lock_follows_detection) (simp_all add: lock_held_def trigger_defs wake_def awake_def demo_rm_def)

section \<open>A rejection by the second stage\<close>

context quiet_table
begin

lemma m_reject_notify:
  "mt s ((ST_STATE_BUFFERING, t), x) (do {
     upd_sst s (rejection_notified_update (\<lambda>_. True));
     notifyClient E V s PAL_RECOGNITION_STATUS_FAILURE;
     reader_do s RReset;
     RM_releaseWakeLock;
     return r
   }) (\<lambda>r y. y = ((ST_STATE_BUFFERING, t), released x))"
  by (rule step f_rules | simp add: core_def)+

lemma m_reject_stop:
  assumes "notify_second_stage_failure (wstu w)" "\<not> rejection_notified (wst w s)" "mstate s w = ((ST_STATE_BUFFERING, t), x)"
  shows "mstate s (snd (run_state (second_stage_rejects E V s d) w)) = ((ST_STATE_BUFFERING, t), released x)"
proof -
  let ?m = "last_status 0 (filter (\<lambda>(i, e). stops_on d i) (engines (wst w s))) (\<lambda>(i, e). eng E s e EStopRecognition)"
  obtain r w1 where m: "run_state ?m w = (r, w1)" by fastforce
  have "keeps (\<lambda>w. (wst w, wstu w, wrm w)) ?m"
    by (rule kp_last_status) (auto simp: eng_def intro!: kp_bind kp_log kp_pure split: prod.splits)
  then have 1: "wst w1 = wst w" "wstu w1 = wstu w" "wrm w1 = wrm w"
    using keepsD [OF _ m, of "\<lambda>w. (wst w, wstu w, wrm w)"] by simp_all
  let ?w = "w1\<lparr>wst := (wst w1)(s := (wst w1 s)\<lparr>second_stage_processing := False, detection_state := ENGINE_IDLE\<rparr>)\<rparr>"
  have "mstate s ?w = ((ST_STATE_BUFFERING, t), x)"
    using assms(3) 1 by (simp add: mstate_def core_def)
  from mtD [OF m_reject_notify this, of E r] show ?thesis
    using m 1 assms(1,2) by (simp add: second_stage_rejects_def split_def)
qed

end

text \<open>
  C39: A second stage that rejects a detection gives the wake lock up and leaves the stream buffering
  when the client is to be told: the stop, or any of the other events that end the buffering, then
  gives it up a second time.  The count goes down by two for the one the detection added, so the
  lock another detection stream holds is lost.
\<close>

theorem rejection_releases_twice:
  fixes E :: env
  assumes "cur_state (wst w s) = ST_STATE_BUFFERING" "\<not> rejection_notified (wst w s)"
    "notify_second_stage_failure (wstu w)" "d = KEYWORD_DETECTION_REJECT \<or> d = USER_VERIFICATION_REJECT"
  defines "w1 \<equiv> snd (run_state (ProcessEvent E (other_vt E) s (ST_EV_DETECTED d)) w)"
  defines "w2 \<equiv> snd (run_state (ProcessEvent E (other_vt E) s ST_EV_STOP_RECOGNITION) w1)"
  shows "cur_state (wst w1 s) = ST_STATE_BUFFERING \<and> cur_state (wst w2 s) = ST_STATE_LOADED \<and>
    wake (wrm w2) = released (released (wake (wrm w)))"
proof -
  have "mstate s w = ((ST_STATE_BUFFERING, state_for_restore (wst w s)), wake (wrm w))"
    using assms(1) by (simp add: mstate_def core_def)
  from st_other.m_reject_stop [OF assms(3,2) this, of E E d]
  have "mstate s w1 = ((ST_STATE_BUFFERING, state_for_restore (wst w s)), released (wake (wrm w)))"
    using assms(1,4) unfolding w1_def ProcessEvent_def numeral_2_eq_2
    by (auto simp: process.simps StBuffering_ProcessEvent_def Buffering_detected_def)
  then have 1: "cur_state (wst w1 s) = ST_STATE_BUFFERING" "wake (wrm w1) = released (wake (wrm w))"
    by (simp_all add: mstate_def core_def)
  have "cur_state (wst w2 s) = ST_STATE_LOADED \<and> wake (wrm w2) = released (wake (wrm w1))"
    using event_refines [of w1 s ST_EV_STOP_RECOGNITION E] 1(1)
    by (auto simp: w2_def mstate_def core_def next_defs split: if_splits)
  then show ?thesis using 1 by simp
qed

definition rejecting_world :: world where
  "rejecting_world = (trigger_world ST_STATE_BUFFERING [] 2)\<lparr>wstu := demo_stu\<lparr>notify_second_stage_failure := True\<rparr>\<rparr>"

theorem rejection_releases_twice_witness:
  "wake_lock_cnt (wrm (snd (run_state (ProcessEvent demo_env (other_vt demo_env) 5 ST_EV_STOP_RECOGNITION)
     (snd (run_state (ProcessEvent demo_env (other_vt demo_env) 5 (ST_EV_DETECTED KEYWORD_DETECTION_REJECT))
        rejecting_world))))) = 0 \<and> wake_lock_cnt (wrm rejecting_world) = 2"
proof -
  have "cur_state (wst rejecting_world 5) = ST_STATE_BUFFERING" "\<not> rejection_notified (wst rejecting_world 5)"
    "notify_second_stage_failure (wstu rejecting_world)"
    by (simp_all add: rejecting_world_def trigger_defs)
  note rejection_releases_twice [OF this, of KEYWORD_DETECTION_REJECT demo_env]
  then show ?thesis
    by (simp add: rejecting_world_def trigger_defs demo_rm_def wake_def released_def)
qed

section \<open>A device connected while buffering\<close>

text \<open>
  A device connected while a stream is buffering for its second stage takes the stream back to
  active, and the wake lock the detection took is not given up: the count stays up, and the next
  detection adds another.
\<close>

theorem connection_keeps_wake_lock:
  fixes E :: env and i :: nat
  assumes "cur_state (wst w s) = ST_STATE_BUFFERING"
  defines "w' \<equiv> snd (run_state (ProcessEvent E (other_vt E) s (ST_EV_DEVICE_CONNECTED i)) w)"
  shows "(cur_state (wst w' s) = ST_STATE_BUFFERING \<or> cur_state (wst w' s) = ST_STATE_ACTIVE) \<and>
    wake (wrm w') = wake (wrm w)"
  using event_refines [of w s "ST_EV_DEVICE_CONNECTED i" E] assms(1)
  by (auto simp: w'_def mstate_def core_def next_defs split: if_splits)

theorem connection_keeps_wake_lock_witness:
  "wake_lock_cnt (wrm (snd (run_state (ProcessEvent demo_env (other_vt demo_env) 5 (ST_EV_DEVICE_CONNECTED 31))
       (trigger_world ST_STATE_BUFFERING [] 1)))) = 1 \<and>
   cur_state (wst (snd (run_state (ProcessEvent demo_env (other_vt demo_env) 5 (ST_EV_DEVICE_CONNECTED 31))
        (trigger_world ST_STATE_BUFFERING [] 1))) 5) = ST_STATE_ACTIVE"
proof
  have "cur_state (wst (trigger_world ST_STATE_BUFFERING [] 1) 5) = ST_STATE_BUFFERING" by (simp add: trigger_defs)
  from connection_keeps_wake_lock [OF this, of demo_env 31]
  show "wake_lock_cnt (wrm (snd (run_state (ProcessEvent demo_env (other_vt demo_env) 5 (ST_EV_DEVICE_CONNECTED 31))
       (trigger_world ST_STATE_BUFFERING [] 1)))) = 1"
    by (simp add: wake_def trigger_world_def)
qed (simp add: trigger_eval trigger_defs device_eval demo_world_defs demo_stu_def)

end
