(* ===== verification/ST_Requests.thy ===== *)
theory ST_Requests
  imports ST_Demo
begin

text \<open>
  What the requests of a client to a sound trigger stream come to: the copy of a sound model, the
  abort event, the stop of a stream kept out of the low power island, the size of the ring buffer.
\<close>

text \<open>
  A sound model that is accepted is copied into a block of the size of its header and its data, to
  the offset the client gave.  The offset is compared with the size of the header from below only, so
  the copy runs over the end of the block exactly when the data does not start right after the
  header.
\<close>

theorem model_copy_in_bounds:
  assumes "sound_model_size sm = Some sz" and "ans E (wlog w) (AllocFails sz) = 0" and "OutOfBounds \<notin> set (wlog w)"
  shows "OutOfBounds \<in> set (wlog (snd (run_state (UpdateSoundModel E s sm) w))) \<longleftrightarrow>
    sm_data_offset sm > (if sm_type sm = PAL_SOUND_MODEL_TYPE_KEYPHRASE then sizeof_phrase_sound_model else sizeof_sound_model)"
  using assms by (auto simp: UpdateSoundModel_def sound_model_size_def split: if_splits)

definition demo_uuid :: SoundTriggerUUID where
  "demo_uuid = UUID 1 0 0 0 (Node 0 0 0 0 0 0)"

definition demo_model :: "SoundTriggerUUID \<Rightarrow> pal_st_sound_model" where
  "demo_model u = \<lparr>sm_type = PAL_SOUND_MODEL_TYPE_GENERIC, vendor_uuid = u, sm_data_size = 100, sm_data_offset = 200,
     sm_num_phrases = 0, sm_recognition_mode = 1\<rparr>"

theorem model_copy_in_bounds_witness:
  "OutOfBounds \<in> set (wlog (snd (run_state (UpdateSoundModel demo_env 5 (demo_model demo_uuid)) (trigger_world ST_STATE_IDLE [] 0))))"
  using model_copy_in_bounds [of "demo_model demo_uuid" 148 demo_env "trigger_world ST_STATE_IDLE [] 0" 5]
  by (simp add: sound_model_size_def demo_model_def trigger_defs demo_world_defs)

text \<open>
  C39: Loading a sound model throws the cached copy away whatever came of it, and without the copy the
  abort event cannot be made: until another model is handed in, telling the client of an abort fails
  with \<open>- ENOMEM\<close> before anything is done, for every stream and every environment.
\<close>

theorem no_abort_event_after_load:
  "run_state (do { LoadSoundModel E s sm; notifyClient E V s PAL_RECOGNITION_STATUS_ABORT }) w =
     (- ENOMEM, snd (run_state (LoadSoundModel E s sm) w))"
proof -
  obtain b w1 where b: "run_state (load_body E s sm) w = (b, w1)" by fastforce
  show ?thesis
    by (cases b) (simp add: LoadSoundModel_def notifyClient_def notify_abort_def b split: prod.splits)
qed

text \<open>
  Stopping a stream whose configuration keeps it out of the low power island answers 0 and only
  takes the stream off the list of deferred starts: a stream that runs goes on running, with its state,
  its engines, its devices and the wake lock as they were.
\<close>

theorem stop_outside_lpi:
  assumes "sm_cfg (wst w s) = Some c" and "\<not> vc_lpi_enable c"
  shows "\<exists>l. run_state (StreamSoundTrigger_stop E V s) w =
    (0, w\<lparr>wstu := mStartDeferredStreams_update (removeAll s) (wstu w), wlog := l\<rparr>)"
  using assms by (auto simp: StreamSoundTrigger_stop_def lpi_flag_def updateDeferredSTStreams_def)

definition outside_world :: world where
  "outside_world = (trigger_world ST_STATE_ACTIVE [31] 0)\<lparr>wst := (\<lambda>s. (demo_trigger ST_STATE_ACTIVE)\<lparr>
     sm_cfg := Some (demo_cfg\<lparr>vc_lpi_enable := False\<rparr>)\<rparr>)\<rparr>"

theorem stop_outside_lpi_witness:
  "cur_state (wst (snd (run_state (StreamSoundTrigger_stop demo_env (other_vt demo_env) 5) outside_world)) 5) = ST_STATE_ACTIVE"
proof -
  have "sm_cfg (wst outside_world 5) = Some (demo_cfg\<lparr>vc_lpi_enable := False\<rparr>)" by (simp add: outside_world_def)
  from stop_outside_lpi [OF this, of demo_env "other_vt demo_env"]
  obtain l where "run_state (StreamSoundTrigger_stop demo_env (other_vt demo_env) 5) outside_world =
    (0, outside_world\<lparr>wstu := mStartDeferredStreams_update (removeAll 5) (wstu outside_world), wlog := l\<rparr>)"
    by auto
  then show ?thesis by (simp add: outside_world_def demo_trigger_def)
qed

text \<open>
  The ring buffer of a detection holds whole seconds of audio.  As long as the 32 bit products do
  not wrap, its size is at most what the history, the pre-roll and the read delay together need, falls
  short of it by less than a second's worth and a byte, and is nothing at all when they are shorter than
  a second.
\<close>

theorem ring_size_bounds:
  fixes c :: VUIStreamConfig
  assumes "hist + pre + vc_client_capture_read_delay c = ms" and "ms < 2 ^ 32"
    and "vc_sample_rate c * vc_bit_width c * vc_out_channels c = rate" and "ms div 1000 * rate < 2 ^ 32"
  shows "8000 * ring_size c hist pre \<le> ms * rate \<and> ms * rate < 8000 * (ring_size c hist pre + 1) + 1000 * rate \<and>
    (ms < 1000 \<longrightarrow> ring_size c hist pre = 0)"
proof -
  have r: "ring_size c hist pre = (ms div 1000 * rate) div 8"
    using assms by (simp add: ring_size_def u32_def mult.assoc)
  define k where "k = ms div 1000 * rate"
  have "8 * (k div 8) \<le> k" "k < 8 * (k div 8) + 8" by simp_all
  moreover have "1000 * k \<le> ms * rate" unfolding k_def mult.assoc [symmetric] by (intro mult_right_mono) simp_all
  moreover have "ms * rate \<le> (1000 * (ms div 1000) + 1000) * rate" by (intro mult_right_mono) simp_all
  then have "ms * rate \<le> 1000 * k + 1000 * rate" by (simp add: k_def algebra_simps)
  moreover have "ring_size c hist pre = k div 8" using r by (simp add: k_def)
  moreover have "ms < 1000 \<Longrightarrow> k = 0" by (simp add: k_def)
  ultimately show ?thesis by auto
qed

theorem ring_size_bounds_witness: "ring_size demo_cfg 600 300 = 0"
  using ring_size_bounds [of 600 300 demo_cfg 900 256000] by (simp add: demo_cfg_def)

end
