(* ===== verification/Pal_Api.thy ===== *)
theory Pal_Api
  imports ST_Concurrency BT_Utils
begin

text \<open>
  The client interface, \<^verbatim>\<open>Pal.cpp\<close>, and what it uses of \<^verbatim>\<open>stream/src/Stream.cpp\<close> to make and
  destroy streams.  A handle is the address of a stream object, or \<open>None\<close> for a null pointer.
  The virtual methods of the stream classes are the table \<open>api_vt\<close>; the fields whose classes are
  modelled elsewhere are filled in \<^verbatim>\<open>Api_PCM\<close>.

  The resource manager instance is created before any call and never null, so that the
  checks for a missing instance, which every function makes, have no branch here.
\<close>

section \<open>The methods of a stream\<close>

record api_vt =
  av_create :: "nat \<Rightarrow> pal_stream_attributes \<Rightarrow> pal_device list \<Rightarrow> bool option io"
  av_delete :: "nat \<Rightarrow> unit io"
  av_open :: "nat \<Rightarrow> int io"
  av_close :: "nat \<Rightarrow> int io"
  av_start :: "nat \<Rightarrow> int io"
  av_stop :: "nat \<Rightarrow> int io"
  av_pause :: "nat \<Rightarrow> int io"
  av_resume :: "nat \<Rightarrow> int io"
  av_flush :: "nat \<Rightarrow> int io"
  av_suspend :: "nat \<Rightarrow> int io"
  av_drain :: "nat \<Rightarrow> nat \<Rightarrow> int io"
  av_write :: "nat \<Rightarrow> nat \<Rightarrow> int io"
  av_read :: "nat \<Rightarrow> nat \<Rightarrow> int io"
  av_getParameters :: "nat \<Rightarrow> nat \<Rightarrow> nat \<Rightarrow> int io"
  av_setParameters :: "nat \<Rightarrow> nat \<Rightarrow> bool \<Rightarrow> int io"
  av_setVolume :: "nat \<Rightarrow> pal_volume_data option \<Rightarrow> int io"
  av_mute :: "nat \<Rightarrow> bool \<Rightarrow> int io"
  av_addRemoveEffect :: "nat \<Rightarrow> nat \<Rightarrow> bool \<Rightarrow> int io"
  av_switchDevice :: "nat \<Rightarrow> pal_device list \<Rightarrow> int io"
  av_createMmapBuffer :: "nat \<Rightarrow> int \<Rightarrow> int io"
  av_GetMmapPosition :: "nat \<Rightarrow> int io"
  av_registerCallBack :: "nat \<Rightarrow> nat \<Rightarrow> nat \<Rightarrow> int io"
  av_HandleCallback :: "nat \<Rightarrow> nat \<Rightarrow> unit io"

section \<open>Blocking steps\<close>

text \<open>A step that may block, run by a single thread: if nothing else runs, a blocked step never
  ends, and the log says so.\<close>

definition or_hang :: "nat \<Rightarrow> 'a \<Rightarrow> (world \<Rightarrow> ('a \<times> world) option) \<Rightarrow> 'a io" where
  "or_hang s r f = State (\<lambda>w. case f w of Some p \<Rightarrow> p | None \<Rightarrow> (r, w\<lparr>wlog := Rm (Hang s) # wlog w\<rparr>))"

definition step_of :: "(world \<Rightarrow> 'a \<times> world) \<Rightarrow> 'a io" where
  "step_of f = State f"

lemma run_or_hang [simp]:
  "run_state (or_hang s r f) w = (case f w of Some p \<Rightarrow> p | None \<Rightarrow> (r, w\<lparr>wlog := Rm (Hang s) # wlog w\<rparr>))"
  by (simp add: or_hang_def)

lemma run_step_of [simp]: "run_state (step_of f) w = f w"
  by (simp add: step_of_def)

section \<open>Counted calls\<close>

text \<open>
  The frame of the calls that hold a reference on the stream while they use it.  The entry
  answers \<open>None\<close> for a handle that is not an active stream, and otherwise the status of taking
  the reference.
\<close>

definition stream_enter :: "nat \<Rightarrow> int option io" where
  "stream_enter s = do {
     lock ActiveStreamMutex;
     active \<leftarrow> RM_isActiveStream s;
     if \<not> active then do { unlock ActiveStreamMutex; return None }
     else do {
       r \<leftarrow> or_hang s (- EINVAL) (RM_increaseStreamUserCounter s);
       unlock ActiveStreamMutex;
       return (Some r)
     }
   }"

text \<open>An operation on the user counter, under its lock.\<close>

definition stream_step :: "nat \<Rightarrow> (nat \<Rightarrow> world \<Rightarrow> int \<times> world) \<Rightarrow> int io" where
  "stream_step s f = do {
     lock ActiveStreamMutex;
     r \<leftarrow> step_of (f s);
     unlock ActiveStreamMutex;
     return r
   }"

definition stream_leave :: "nat \<Rightarrow> unit io" where
  "stream_leave s = do { stream_step s RM_decreaseStreamUserCounter; return () }"

definition counted :: "nat \<Rightarrow> 'a io \<Rightarrow> ('a \<Rightarrow> int io) \<Rightarrow> int io" where
  "counted s body k = do {
     e \<leftarrow> stream_enter s;
     case e of
       None \<Rightarrow> return (- EINVAL)
     | Some r \<Rightarrow>
         if r \<noteq> 0 then return r
         else do { x \<leftarrow> body; stream_leave s; k x }
   }"

text \<open>\<^verbatim>\<open>sAttr\<close> starts as zeroes, which a stream without attributes leaves in place.\<close>

definition attr_type :: "nat \<Rightarrow> nat io" where
  "attr_type s = do {
     (st, a) \<leftarrow> Stream_getStreamAttributes s;
     return (case a of None \<Rightarrow> 0 | Some a \<Rightarrow> stype a)
   }"

abbreviation (input) PAL_NOTIFY_CALL_TRANSLATION_TEXT :: nat where "PAL_NOTIFY_CALL_TRANSLATION_TEXT \<equiv> 0"
abbreviation (input) PAL_NOTIFY_START :: nat where "PAL_NOTIFY_START \<equiv> 1"
abbreviation (input) PAL_NOTIFY_STOP :: nat where "PAL_NOTIFY_STOP \<equiv> 2"
abbreviation (input) PAL_NOTIFY_DEVICESWITCH :: nat where "PAL_NOTIFY_DEVICESWITCH \<equiv> 3"
abbreviation (input) PAL_MAX_CHANNELS_SUPPORTED :: nat where "PAL_MAX_CHANNELS_SUPPORTED \<equiv> 64"
abbreviation (input) PAL_PARAM_ID_STOP_BUFFERING :: nat where "PAL_PARAM_ID_STOP_BUFFERING \<equiv> 5"

definition notify_start_stop :: "env \<Rightarrow> nat \<Rightarrow> nat \<Rightarrow> nat list \<Rightarrow> int io" where
  "notify_start_stop E kind type palDevices = do {
     cb \<leftarrow> rmg callback_event;
     if \<not> cb then return 0
     else if type = PAL_STREAM_CALL_TRANSLATION then do {
       tell (Rm (EventCallback PAL_NOTIFY_CALL_TRANSLATION_TEXT [] [] False)); return 0
     }
     else do {
       failed \<leftarrow> (if palDevices = [] then return True
                  else do { a \<leftarrow> call E (AllocFails (4 * length palDevices)); return (a \<noteq> 0) });
       if failed then return (- ENOMEM)
       else do {
         ids \<leftarrow> gets (\<lambda>w. map (sndId w) palDevices);
         tell (Rm (EventCallback kind [] ids False));
         return 0
       }
     }
   }"

definition pal_stream_start :: "env \<Rightarrow> api_vt \<Rightarrow> stream_vt \<Rightarrow> nat option \<Rightarrow> int io" where
  "pal_stream_start E V SV h = (case h of
     None \<Rightarrow> return (- EINVAL)
   | Some s \<Rightarrow> counted s
       (do {
          t \<leftarrow> attr_type s;
          (_, ds) \<leftarrow> Stream_getAssociatedDevices s [];
          when_io (t = PAL_STREAM_VOICE_UI) (stHandleDeferredSwitch E SV);
          st \<leftarrow> av_start V s;
          return (t, ds, st)
        })
       (\<lambda>(t, ds, st). if st \<noteq> 0 then return st else notify_start_stop E PAL_NOTIFY_START t ds))"

definition pal_stream_stop :: "env \<Rightarrow> api_vt \<Rightarrow> nat option \<Rightarrow> int io" where
  "pal_stream_stop E V h = (case h of
     None \<Rightarrow> return (- EINVAL)
   | Some s \<Rightarrow> counted s
       (do {
          t \<leftarrow> attr_type s;
          (_, ds) \<leftarrow> Stream_getAssociatedDevices s [];
          Stream_setCachedState s STREAM_STOPPED;
          st \<leftarrow> av_stop V s;
          return (t, ds, st)
        })
       (\<lambda>(t, ds, st). if st \<noteq> 0 then return st else notify_start_stop E PAL_NOTIFY_STOP t ds))"

text \<open>\<open>n\<close> is the number of payload bytes behind the header of the client's block.\<close>

definition pal_stream_get_param :: "api_vt \<Rightarrow> nat option \<Rightarrow> nat \<Rightarrow> nat \<Rightarrow> int io" where
  "pal_stream_get_param V h param_id n = (case h of
     None \<Rightarrow> return (- EINVAL)
   | Some s \<Rightarrow> counted s (av_getParameters V s param_id n) return)"

definition pal_stream_set_param :: "env \<Rightarrow> api_vt \<Rightarrow> stream_vt \<Rightarrow> nat option \<Rightarrow> nat \<Rightarrow> bool \<Rightarrow> int io" where
  "pal_stream_set_param E V SV h param_id payload = (case h of
     None \<Rightarrow> return (- EINVAL)
   | Some s \<Rightarrow> counted s (av_setParameters V s param_id payload)
       (\<lambda>st. if st \<noteq> 0 then return st
             else do {
               when_io (param_id = PAL_PARAM_ID_STOP_BUFFERING) (stHandleDeferredSwitch E SV);
               return st
             }))"

definition pal_stream_set_volume :: "api_vt \<Rightarrow> nat option \<Rightarrow> pal_volume_data option \<Rightarrow> int io" where
  "pal_stream_set_volume V h volume = (case (h, volume) of
     (Some s, Some v) \<Rightarrow>
       if no_of_volpair v > PAL_MAX_CHANNELS_SUPPORTED then return (- EINVAL)
       else counted s
         (do {
            lock (StreamMutex s);
            st \<leftarrow> av_setVolume V s (Some v);
            unlock (StreamMutex s);
            return st
          }) return
   | _ \<Rightarrow> return (- EINVAL))"

definition pal_stream_set_mute :: "api_vt \<Rightarrow> nat option \<Rightarrow> bool \<Rightarrow> int io" where
  "pal_stream_set_mute V h b = (case h of
     None \<Rightarrow> return (- EINVAL)
   | Some s \<Rightarrow> counted s (av_mute V s b) return)"

definition pal_stream_drain :: "api_vt \<Rightarrow> nat option \<Rightarrow> nat \<Rightarrow> int io" where
  "pal_stream_drain V h t = (case h of
     None \<Rightarrow> return (- EINVAL)
   | Some s \<Rightarrow> counted s (av_drain V s t) return)"

text \<open>A session's event reaches its stream with a reference held, too.\<close>

definition Stream_mixerEventCallbackEntry :: "api_vt \<Rightarrow> nat \<Rightarrow> nat \<Rightarrow> unit io" where
  "Stream_mixerEventCallbackEntry V hdl event_id = do {
     counted hdl (av_HandleCallback V hdl event_id) (\<lambda>_. return 0);
     return ()
   }"

section \<open>Switching devices\<close>

text \<open>Devices that are switched to even if the stream already runs on them.\<close>

definition always_switched :: "nat \<Rightarrow> bool" where
  "always_switched i \<longleftrightarrow>
     i = PAL_DEVICE_OUT_BLUETOOTH_A2DP \<or> i = PAL_DEVICE_OUT_BLUETOOTH_SCO \<or>
     i = PAL_DEVICE_IN_BLUETOOTH_SCO_HEADSET \<or>
     i = PAL_DEVICE_OUT_USB_DEVICE \<or> i = PAL_DEVICE_OUT_USB_HEADSET \<or>
     i = PAL_DEVICE_OUT_WIRED_HEADSET \<or> i = PAL_DEVICE_OUT_WIRED_HEADPHONE \<or>
     i = PAL_DEVICE_OUT_AUX_DIGITAL \<or> i = PAL_DEVICE_OUT_AUX_DIGITAL_1 \<or> i = PAL_DEVICE_OUT_HDMI"

text \<open>Whether some requested device is the device \<open>d\<close> under another custom key.\<close>

fun key_differs :: "nat \<Rightarrow> nat \<Rightarrow> pal_device list \<Rightarrow> bool io" where
  "key_differs s d [] = return False"
| "key_differs s d (a # as) = do {
     i \<leftarrow> Device_getSndDeviceId d;
     if i = dev_id a then do {
       (_, cur) \<leftarrow> Device_getDeviceAttributes d True (Some s);
       if map_option custom_key cur \<noteq> Some (custom_key a) then return True else key_differs s d as
     }
     else key_differs s d as
   }"

fun force_switch :: "nat \<Rightarrow> pal_device list \<Rightarrow> bool \<Rightarrow> nat list \<Rightarrow> bool io" where
  "force_switch s as forced [] = return forced"
| "force_switch s as forced (d # ds) = do {
     b \<leftarrow> key_differs s d as;
     if forced \<or> b then return True else force_switch s as forced ds
   }"

text \<open>Whether the stream already runs on exactly the requested devices.\<close>

definition same_devices :: "nat \<Rightarrow> pal_device list \<Rightarrow> nat list \<Rightarrow> nat list \<Rightarrow> bool io" where
  "same_devices s as aDevices palDevices =
     (if aDevices = [] \<or> palDevices = [] then return False
      else do {
        muted \<leftarrow> str s a2dpMuted;
        forced \<leftarrow> force_switch s as muted palDevices;
        ids \<leftarrow> gets (\<lambda>w. (sndId w ` set aDevices, sndId w ` set palDevices));
        return (\<not> forced \<and> \<not> (\<exists>a\<in>set as. always_switched (dev_id a)) \<and>
                fst ids = dev_id ` set as \<and> snd ids = dev_id ` set as)
      })"

fun device_configs :: "env \<Rightarrow> pal_stream_attributes option \<Rightarrow> pal_device list \<Rightarrow> (int \<times> pal_device list) io" where
  "device_configs E sa [] = return (0, [])"
| "device_configs E sa (a # as) = do {
     junk \<leftarrow> gets (\<lambda>w. ch_map (config (stackdev E (wlog w))));
     c \<leftarrow> RM_getDeviceConfig E junk a sa;
     case c of
       None \<Rightarrow> do { tell OutOfBounds; return (- EINVAL, []) }
     | Some (st, b) \<Rightarrow>
         if st \<noteq> 0 then return (st, [])
         else do { (st, bs) \<leftarrow> device_configs E sa as; return (st, b # bs) }
   }"

definition notify_switch :: "env \<Rightarrow> nat list \<Rightarrow> pal_device list \<Rightarrow> int io" where
  "notify_switch E aDevices as = do {
     cb \<leftarrow> rmg callback_event;
     if \<not> cb then return 0
     else do {
       f \<leftarrow> call E (AllocFails (4 * length aDevices));
       if f \<noteq> 0 then return (- ENOMEM)
       else do {
         prev \<leftarrow> gets (\<lambda>w. map (sndId w) aDevices);
         f \<leftarrow> call E (AllocFails (4 * length as));
         if f \<noteq> 0 then return (- ENOMEM)
         else do {
           tell (Rm (EventCallback PAL_NOTIFY_DEVICESWITCH prev (map dev_id as) False));
           return 0
         }
       }
     }
   }"

definition set_device_body :: "env \<Rightarrow> api_vt \<Rightarrow> nat \<Rightarrow> pal_device list \<Rightarrow> int io" where
  "set_device_body E V s as = do {
     (_, sa) \<leftarrow> Stream_getStreamAttributes s;
     let t = (case sa of None \<Rightarrow> 0 | Some a \<Rightarrow> stype a);
     if t = PAL_STREAM_VOICE_UI \<or> t = PAL_STREAM_VOICE_CALL_RECORD \<or>
        t = PAL_STREAM_VOICE_CALL_MUSIC \<or> t = PAL_STREAM_CALL_TRANSLATION
     then return 0
     else do {
       lock (StreamMutex s);
       (_, aDevices) \<leftarrow> Stream_getAssociatedDevices s [];
       (_, palDevices) \<leftarrow> Stream_getPalDevices s [];
       same \<leftarrow> same_devices s as aDevices palDevices;
       unlock (StreamMutex s);
       if same then return 0
       else do {
         f \<leftarrow> call E (AllocFails (length as));
         if f \<noteq> 0 then return (- ENOMEM)
         else do {
           (st, pDevices) \<leftarrow> device_configs E sa as;
           if st \<noteq> 0 then return st
           else do {
             st \<leftarrow> av_switchDevice V s pDevices;
             if st \<noteq> 0 then return st else notify_switch E aDevices as
           }
         }
       }
     }
   }"

definition pal_stream_set_device :: "env \<Rightarrow> api_vt \<Rightarrow> nat option \<Rightarrow> pal_device list option \<Rightarrow> int io" where
  "pal_stream_set_device E V h devices = (case (h, devices) of
     (Some s, Some (a # as)) \<Rightarrow> do {
       e \<leftarrow> stream_enter s;
       case e of
         None \<Rightarrow> return (if dev_id a = PAL_DEVICE_NONE then 0 else - EINVAL)
       | Some r \<Rightarrow>
           if r \<noteq> 0 then return r
           else do {
             st \<leftarrow> set_device_body E V s (a # as);
             stream_leave s;
             return st
           }
     }
   | _ \<Rightarrow> return (- EINVAL))"

section \<open>Calls without a reference\<close>

text \<open>These calls use the handle as it is, active or not.\<close>

definition direct :: "nat option \<Rightarrow> (nat \<Rightarrow> int io) \<Rightarrow> int io" where
  "direct h f = (case h of None \<Rightarrow> return (- EINVAL) | Some s \<Rightarrow> f s)"

definition pal_stream_pause :: "api_vt \<Rightarrow> nat option \<Rightarrow> int io" where
  "pal_stream_pause V h = direct h (av_pause V)"

definition pal_stream_resume :: "api_vt \<Rightarrow> nat option \<Rightarrow> int io" where
  "pal_stream_resume V h = direct h (av_resume V)"

definition pal_stream_flush :: "api_vt \<Rightarrow> nat option \<Rightarrow> int io" where
  "pal_stream_flush V h = direct h (av_flush V)"

definition pal_stream_suspend :: "api_vt \<Rightarrow> nat option \<Rightarrow> int io" where
  "pal_stream_suspend V h = direct h (av_suspend V)"

definition pal_stream_write :: "api_vt \<Rightarrow> nat option \<Rightarrow> nat option \<Rightarrow> int io" where
  "pal_stream_write V h buf =
     (case buf of None \<Rightarrow> return (- EINVAL) | Some n \<Rightarrow> direct h (\<lambda>s. av_write V s n))"

definition pal_stream_read :: "api_vt \<Rightarrow> nat option \<Rightarrow> nat option \<Rightarrow> int io" where
  "pal_stream_read V h buf =
     (case buf of None \<Rightarrow> return (- EINVAL) | Some n \<Rightarrow> direct h (\<lambda>s. av_read V s n))"

definition pal_add_remove_effect :: "api_vt \<Rightarrow> nat option \<Rightarrow> nat \<Rightarrow> bool \<Rightarrow> int io" where
  "pal_add_remove_effect V h effect enable = direct h (\<lambda>s. av_addRemoveEffect V s effect enable)"

definition pal_stream_get_mmap_position :: "api_vt \<Rightarrow> nat option \<Rightarrow> int io" where
  "pal_stream_get_mmap_position V h = direct h (av_GetMmapPosition V)"

definition pal_stream_create_mmap_buffer :: "api_vt \<Rightarrow> nat option \<Rightarrow> int \<Rightarrow> int io" where
  "pal_stream_create_mmap_buffer V h n = direct h (\<lambda>s. av_createMmapBuffer V s n)"

text \<open>The size of the buffers is kept in the stream.  Without attributes the call decides by an
  uninitialised structure.\<close>

definition pal_stream_set_buffer_size :: "nat option \<Rightarrow> buf_cfg option \<Rightarrow> buf_cfg option \<Rightarrow> int io" where
  "pal_stream_set_buffer_size h icfg ocfg = direct h (\<lambda>s. do {
     a \<leftarrow> str s mStreamAttr;
     x \<leftarrow> str s id;
     case a of
       None \<Rightarrow> do { tell OutOfBounds; return (- EINVAL) }
     | Some a \<Rightarrow>
         (case Stream_setBufInfo a icfg ocfg x of
            None \<Rightarrow> do { tell OutOfBounds; return (- EINVAL) }
          | Some (st, y, _, _) \<Rightarrow> do { upd_str s (\<lambda>_. y); return st })
   })"

definition pal_stream_get_buffer_size :: "nat option \<Rightarrow> nat option \<Rightarrow> nat option \<Rightarrow> (int \<times> nat option \<times> nat option) io" where
  "pal_stream_get_buffer_size h isz osz = (case h of
     None \<Rightarrow> return (- EINVAL, isz, osz)
   | Some s \<Rightarrow> do {
       a \<leftarrow> str s mStreamAttr;
       case a of
         None \<Rightarrow> return (- EINVAL, isz, osz)
       | Some a \<Rightarrow> return (Stream_getBufSize a isz osz)
     })"

text \<open>The number of devices is the answer; an empty list is copied from the address of a missing
  first element.\<close>

definition pal_stream_get_device :: "nat option \<Rightarrow> nat \<Rightarrow> bool \<Rightarrow> (int \<times> pal_device list) io" where
  "pal_stream_get_device h no_of_devices has_devices = (case h of
     None \<Rightarrow> return (- EINVAL, [])
   | Some s \<Rightarrow>
       if \<not> has_devices then return (- EINVAL, [])
       else do {
         (_, ds) \<leftarrow> Stream_getAssociatedDevices s [];
         if no_of_devices < length ds then return (- EINVAL, [])
         else do {
           as \<leftarrow> gets (\<lambda>w. map (\<lambda>d. deviceAttr (wdev w d)) ds);
           for_each ds (\<lambda>d. do { Device_getDeviceAttributes d True None; return () });
           return (int (length ds), as)
         }
       })"

text \<open>The time stamp is read with the active stream lock held throughout.\<close>

definition pal_get_timestamp :: "env \<Rightarrow> nat option \<Rightarrow> bool \<Rightarrow> int io" where
  "pal_get_timestamp E h has_result = direct h (\<lambda>s. do {
     lock ActiveStreamMutex;
     active \<leftarrow> RM_isActiveStream s;
     st \<leftarrow> (if active then Stream_getTimestamp E s has_result else return (- EINVAL));
     unlock ActiveStreamMutex;
     return st
   })"

definition pal_stream_set_custom_param :: "env \<Rightarrow> nat option \<Rightarrow> string \<Rightarrow> int io" where
  "pal_stream_set_custom_param E h p = direct h (\<lambda>s. do {
     (st, _) \<leftarrow> Stream_getStreamType s;
     if st \<noteq> 0 then return st else Stream_setCustomParam E s p
   })"

definition pal_stream_get_custom_param :: "env \<Rightarrow> nat option \<Rightarrow> string \<Rightarrow> int io" where
  "pal_stream_get_custom_param E h p = direct h (\<lambda>s. do {
     (st, _) \<leftarrow> Stream_getStreamType s;
     if st \<noteq> 0 then return st else Stream_getCustomParam E s p
   })"

section \<open>Making and destroying streams\<close>

abbreviation (input) haptics_key :: string where "haptics_key \<equiv> ''haptics-over-wsa''"

definition usb_or_bt :: "nat \<Rightarrow> bool" where
  "usb_or_bt i \<longleftrightarrow> i = PAL_DEVICE_OUT_USB_DEVICE \<or> i = PAL_DEVICE_OUT_USB_HEADSET \<or>
     i = PAL_DEVICE_IN_USB_DEVICE \<or> i = PAL_DEVICE_IN_USB_HEADSET \<or> isBtDevice i"

text \<open>The devices of an ultrasound stream are fixed: the first plays, the others record.\<close>

definition chosen_id :: "RM \<Rightarrow> nat \<Rightarrow> nat \<Rightarrow> nat \<Rightarrow> nat" where
  "chosen_id rm t i d =
     (if t = PAL_STREAM_ULTRASOUND \<or> t = PAL_STREAM_SENSOR_PCM_RENDERER
      then if i = 0 then if isUPDVirtualPortEnabled rm then PAL_DEVICE_OUT_ULTRASOUND
                         else PAL_DEVICE_OUT_ULTRASOUND_DEDICATED
           else PAL_DEVICE_IN_ULTRASOUND_MIC
      else d)"

definition DUMMY_SND_CARD :: nat where
  "DUMMY_SND_CARD = 10"

fun create_devices :: "env \<Rightarrow> bool \<Rightarrow> pal_stream_attributes \<Rightarrow> nat \<Rightarrow> pal_device list \<Rightarrow> (int \<times> pal_device list) io" where
  "create_devices E wsa sAttr i [] = return (0, [])"
| "create_devices E wsa sAttr i (d # ds) = do {
     id \<leftarrow> rmg (\<lambda>rm. chosen_id rm (stype sAttr) i (dev_id d));
     let key = (if stype sAttr = PAL_STREAM_HAPTICS \<and> wsa then haptics_key else custom_key d);
     let a = (zero_attr id)\<lparr>card_id := (if usb_or_bt id then card_id d else 0), custom_key := key\<rparr>;
     r \<leftarrow> (if card_id a = DUMMY_SND_CARD then return (0, a)
          else do {
            junk \<leftarrow> gets (\<lambda>w. ch_map (config (stackdev E (wlog w))));
            c \<leftarrow> RM_getDeviceConfig E junk a (Some sAttr);
            case c of
              None \<Rightarrow> do { tell OutOfBounds; return (- EINVAL, a) }
            | Some (st, b) \<Rightarrow>
                if st \<noteq> 0 then return (st, b)
                else do {
                  lock ActiveStreamMutex;
                  tell (Rm (CheckGroupDevConfig id));
                  unlock ActiveStreamMutex;
                  return (0, b)
                }
          });
     if fst r \<noteq> 0 then return (fst r, [])
     else do { (st, bs) \<leftarrow> create_devices E wsa sAttr (i + 1) ds; return (st, snd r # bs) }
   }"

text \<open>The check of \<^verbatim>\<open>isStreamSupported\<close> on a fresh stream, or on none at all.\<close>

definition stream_supported :: "env \<Rightarrow> nat \<Rightarrow> bool \<Rightarrow> nat \<Rightarrow> bool io" where
  "stream_supported E s exists_it n = do {
     a \<leftarrow> str s mStreamAttr;
     ok \<leftarrow> call E (Rm (IsStreamSupported s));
     rmg (\<lambda>rm. RM_isStreamSupported rm (if exists_it then Some a else None) n True (ok \<noteq> 0))
   }"

text \<open>One attempt: load the plugin of the type, let it make the object at the address \<open>s\<close>, check
  it.  The first result says that the plugin itself failed to make the object.  A constructor
  may throw, which nothing catches: \<open>None\<close>.\<close>

definition create_attempt ::
    "env \<Rightarrow> api_vt \<Rightarrow> nat \<Rightarrow> pal_stream_attributes \<Rightarrow> pal_device list \<Rightarrow> (bool \<times> bool) option io" where
  "create_attempt E V s sAttr ds = do {
     st \<leftarrow> call E (Rm (OpenPlugin (stype sAttr)));
     r \<leftarrow> (if st = 0 then av_create V s sAttr ds else return (Some False));
     case r of
       None \<Rightarrow> return None
     | Some made \<Rightarrow>
         if st = 0 \<and> \<not> made then return (Some (True, False))
         else do {
           ok \<leftarrow> stream_supported E s made (length ds);
           when_io (\<not> ok \<and> made) (av_delete V s);
           return (Some (False, ok))
         }
   }"

definition no_device_types :: "nat list" where
  "no_device_types = [PAL_STREAM_NON_TUNNEL, PAL_STREAM_CONTEXT_PROXY, PAL_STREAM_COMMON_PROXY,
     PAL_STREAM_VOICE_CALL_MUSIC, PAL_STREAM_VOICE_CALL_RECORD]"

text \<open>
  \<^verbatim>\<open>Stream::create\<close>: whether an object was made, and the type it was asked for, which the
  fallback changes in the caller's attributes.  \<open>wsa\<close> is \<^verbatim>\<open>IsHapticsThroughWSA\<close>.
  A sensor stream copies one device, also into an empty array.
\<close>

definition create_stream :: "env \<Rightarrow> api_vt \<Rightarrow> nat \<Rightarrow> pal_stream_attributes \<Rightarrow> pal_device list \<Rightarrow> (bool \<times> nat) option io" where
  "create_stream E V s sAttr ds = do {
     r \<leftarrow> create_attempt E V s sAttr ds;
     case r of
       None \<Rightarrow> return None
     | Some (null, ok) \<Rightarrow>
         if null \<or> ok \<or> stype sAttr \<noteq> PAL_STREAM_VOICE_RECOGNITION then return (Some (ok, stype sAttr))
         else do {
           r \<leftarrow> create_attempt E V s (sAttr\<lparr>stype := PAL_STREAM_DEEP_BUFFER\<rparr>) ds;
           return (map_option (\<lambda>(_, ok). (ok, PAL_STREAM_DEEP_BUFFER)) r)
         }
   }"

definition Stream_create :: "env \<Rightarrow> api_vt \<Rightarrow> bool \<Rightarrow> nat \<Rightarrow> pal_stream_attributes option \<Rightarrow> nat \<Rightarrow>
    pal_device list option \<Rightarrow> (bool \<times> nat) option io" where
  "Stream_create E V wsa s sAttr noOfDevices dAttr = do {
     lock BaseStreamMutex;
     r \<leftarrow> (case sAttr of
       None \<Rightarrow> return (Some (False, 0))
     | Some sAttr \<Rightarrow>
       if noOfDevices > 0 \<and> dAttr = None then return (Some (False, stype sAttr))
       else do {
         f \<leftarrow> call E (AllocFails noOfDevices);
         (if f \<noteq> 0 then return (Some (False, stype sAttr))
              else if stype sAttr \<in> set no_device_types
              then create_stream E V s sAttr (replicate noOfDevices (zero_attr 0))
              else let ds = take noOfDevices (case dAttr of None \<Rightarrow> [] | Some ds \<Rightarrow> ds)
                   in if stype sAttr = PAL_STREAM_SENSOR_PCM_DATA then
                        (case ds of
                           [] \<Rightarrow> do { tell OutOfBounds; create_stream E V s sAttr [] }
                         | d # _ \<Rightarrow> create_stream E V s sAttr (d # replicate (noOfDevices - 1) (zero_attr 0)))
                      else do {
                        (st, ds) \<leftarrow> create_devices E wsa sAttr 0 ds;
                        if st \<noteq> 0 then return (Some (False, stype sAttr))
                        else do {
                          combo \<leftarrow> rmg is_multiple_sample_rate_combo_supported;
                          when_io (noOfDevices = 1 \<and> \<not> combo)
                            (tell (Rm (CheckHeadsetDevConfig (case ds of [] \<Rightarrow> 0 | d # _ \<Rightarrow> dev_id d))));
                          create_stream E V s sAttr ds
                        }
                      })
       });
     unlock BaseStreamMutex;
     return r
   }"

definition Stream_destroy :: "env \<Rightarrow> api_vt \<Rightarrow> nat option \<Rightarrow> int io" where
  "Stream_destroy E V h = (case h of
     None \<Rightarrow> return (- EINVAL)
   | Some s \<Rightarrow> do {
       (st, t) \<leftarrow> Stream_getStreamType s;
       if st \<noteq> 0 then return st
       else do {
         av_delete V s;
         call E (Rm (ClosePlugin t))
       }
     })"

definition Stream_handleStreamCreateFailure :: "nat \<Rightarrow> nat option \<Rightarrow> unit io" where
  "Stream_handleStreamCreateFailure t cb = (case cb of
     None \<Rightarrow> return ()
   | Some c \<Rightarrow> when_io (t = PAL_STREAM_COMPRESSED) (tell (Rm (CreateFailureCallback c))))"

definition notify_concurrent_stream :: "stream_vt \<Rightarrow> nat \<Rightarrow> bool \<Rightarrow> unit io" where
  "notify_concurrent_stream SV s active = HandleConcurrencyForSoundTriggerStreams SV s active"

text \<open>The address \<open>s\<close> is the one the allocator hands out.\<close>

definition open_stream :: "env \<Rightarrow> api_vt \<Rightarrow> stream_vt \<Rightarrow> nat \<Rightarrow> nat \<Rightarrow> nat option \<Rightarrow> nat \<Rightarrow> (int \<times> nat option) io" where
  "open_stream E V SV s t cb ck = do {
     st \<leftarrow> av_open V s;
     if st \<noteq> 0 then do {
       av_close V s;
       Stream_handleStreamCreateFailure t cb;
       Stream_destroy E V (Some s);
       return (st, None)
     }
     else do {
       t \<leftarrow> attr_type s;
       when_io (\<not> isStStream t) (notify_concurrent_stream SV s True);
       (case cb of None \<Rightarrow> return 0 | Some c \<Rightarrow> av_registerCallBack V s c ck);
       stream_step s RM_initStreamUserCounter;
       return (0, Some s)
     }
   }"

definition pal_stream_open :: "env \<Rightarrow> api_vt \<Rightarrow> stream_vt \<Rightarrow> bool \<Rightarrow> nat \<Rightarrow> pal_stream_attributes option \<Rightarrow> nat \<Rightarrow>
    pal_device list option \<Rightarrow> nat option \<Rightarrow> nat \<Rightarrow> (int \<times> nat option) option io" where
  "pal_stream_open E V SV wsa s attributes no_of_devices devices cb ck =
     (if attributes = None then return (Some (- EINVAL, None))
      else do {
        r \<leftarrow> Stream_create E V wsa s attributes no_of_devices devices;
        case r of
          None \<Rightarrow> return None
        | Some (made, t) \<Rightarrow>
            if \<not> made
            then do { Stream_handleStreamCreateFailure t cb; return (Some (- EINVAL, None)) }
            else do { x \<leftarrow> open_stream E V SV s t cb ck; return (Some x) }
      })"

text \<open>
  \<^verbatim>\<open>deactivateStreamUserCounter\<close> as one program: the wait for the last user ends only when
  another thread lets go of the stream.
\<close>

definition RM_deactivateStreamUserCounter :: "nat \<Rightarrow> int io" where
  "RM_deactivateStreamUserCounter s = do {
     r \<leftarrow> stream_step s deactivateStreamUserCounter_enter;
     if r \<noteq> 0 then return r
     else or_hang s 0 (\<lambda>w. map_option (\<lambda>w. (0, w)) (deactivateStreamUserCounter_exit s w))
   }"

definition close_check :: "nat \<Rightarrow> bool io" where
  "close_check s = do {
     lock ActiveStreamMutex;
     active \<leftarrow> RM_isActiveStream s;
     unlock ActiveStreamMutex;
     return active
   }"

definition close_notify :: "stream_vt \<Rightarrow> nat \<Rightarrow> unit io" where
  "close_notify SV s = do {
     t \<leftarrow> attr_type s;
     when_io (\<not> isStStream t) (notify_concurrent_stream SV s False);
     when_io (t = PAL_STREAM_VOICE_CALL) (upd_stu (IsCRSCallEnabled_update (\<lambda>_. False)))
   }"

definition pal_stream_close :: "env \<Rightarrow> api_vt \<Rightarrow> stream_vt \<Rightarrow> nat option \<Rightarrow> int io" where
  "pal_stream_close E V SV h = (case h of
     None \<Rightarrow> return (- EINVAL)
   | Some s \<Rightarrow> do {
       active \<leftarrow> close_check s;
       if \<not> active then return (- EINVAL)
       else do {
         Stream_setCachedState s STREAM_IDLE;
         st \<leftarrow> av_close V s;
         r \<leftarrow> RM_deactivateStreamUserCounter s;
         if r \<noteq> 0 then return 0
         else do {
           close_notify SV s;
           stream_step s RM_eraseStreamUserCounter;
           Stream_destroy E V (Some s)
         }
       }
     })"

section \<open>Start-up, events and global parameters\<close>

text \<open>
  \<^verbatim>\<open>pal_init\<close> and \<^verbatim>\<open>pal_deinit\<close>.  Getting the resource manager instance may throw, which is a
  non-zero answer here.
\<close>

definition init_steps :: "env \<Rightarrow> int io" where
  "init_steps E = do {
     e \<leftarrow> call E (Rm RmGetInstance);
     if e \<noteq> 0 then return (- EINVAL)
     else do {
       r \<leftarrow> call E (Rm InitSndMonitor);
       if r \<noteq> 0 then return r
       else do {
         tell (Rm RmInit);
         r \<leftarrow> call E (Rm InitContextManager);
         if r \<noteq> 0 then return r else call E (Rm InitHapticsInterface)
       }
     }
   }"

definition pal_init :: "env \<Rightarrow> int io" where
  "pal_init E = do {
     lock PalMutex;
     n \<leftarrow> gets pal_init_ref_cnt;
     modify (pal_init_ref_cnt_update (\<lambda>n. n + 1));
     r \<leftarrow> (if n > 0 then return 0 else init_steps E);
     unlock PalMutex;
     return r
   }"

definition pal_deinit :: "env \<Rightarrow> unit io" where
  "pal_deinit E = do {
     lock PalMutex;
     n \<leftarrow> gets pal_init_ref_cnt;
     when_io (n > 0) (do {
       modify (pal_init_ref_cnt_update (\<lambda>n. n - 1));
       when_io (n - 1 = 0) (do {
         e \<leftarrow> call E (Rm RmGetInstance);
         when_io (e = 0) (do { tell (Rm DeInitContextManager); tell (Rm RmDeinit) })
       })
     });
     unlock PalMutex
   }"

text \<open>\<^verbatim>\<open>getActiveStream\<close> without a device: every active stream that is not idle and has a device,
  by type.\<close>

definition RM_getActiveStream_any :: "world \<Rightarrow> nat list" where
  "RM_getActiveStream_any w =
     concat (map (\<lambda>t. filter (\<lambda>s. currentState (wstr w s) \<noteq> STREAM_IDLE \<and> mDevices (wstr w s) \<noteq> [])
                       (RM_getActiveStreamByType_l (wrm w) t)) [0..<PAL_STREAM_MAX])"

fun announce_streams :: "env \<Rightarrow> nat list \<Rightarrow> int io" where
  "announce_streams E [] = return 0"
| "announce_streams E (s # ss) = do {
     (_, ds) \<leftarrow> Stream_getAssociatedDevices s [];
     attr_type s;
     f \<leftarrow> (if ds = [] then return 0 else call E (AllocFails (4 * length ds)));
     if f \<noteq> 0 then return (- ENOMEM)
     else do {
       ids \<leftarrow> gets (\<lambda>w. map (sndId w) ds);
       tell (Rm (EventCallback PAL_NOTIFY_START [] ids True));
       announce_streams E ss
     }
   }"

definition pal_register_for_events :: "env \<Rightarrow> bool \<Rightarrow> int io" where
  "pal_register_for_events E cb = do {
     upd_rm (callback_event_update (\<lambda>_. cb));
     if \<not> cb then return 0
     else do {
       lock ResourceManagerMutex;
       streams \<leftarrow> gets RM_getActiveStream_any;
       unlock ResourceManagerMutex;
       announce_streams E streams
     }
   }"

definition pal_register_global_callback :: "bool \<Rightarrow> int io" where
  "pal_register_global_callback cb = do {
     when_io cb (upd_rm (globalCb_update (\<lambda>_. True)));
     return 0
   }"

definition pal_set_param :: "env \<Rightarrow> nat \<Rightarrow> int io" where
  "pal_set_param E param_id = call E (Rm (RmSetParameter param_id))"

definition pal_get_param :: "env \<Rightarrow> nat \<Rightarrow> int io" where
  "pal_get_param E param_id = call E (Rm (RmGetParameter param_id))"

definition pal_set_custom_param :: "env \<Rightarrow> string \<Rightarrow> int io" where
  "pal_set_custom_param E p = call E (Rm (RmCustomParam True p))"

definition pal_get_custom_param :: "env \<Rightarrow> string \<Rightarrow> int io" where
  "pal_get_custom_param E p = call E (Rm (RmCustomParam False p))"

definition pal_not_implemented :: "int io" where
  "pal_not_implemented = return (- ENOSYS)"

definition pal_cshm_alloc :: "env \<Rightarrow> nat \<Rightarrow> (int \<times> int) io" where
  "pal_cshm_alloc E sz = call_out E (Rm (CshmAlloc sz))"

definition pal_cshm_dealloc :: "env \<Rightarrow> nat \<Rightarrow> int io" where
  "pal_cshm_dealloc E memID = call E (Rm (CshmDealloc memID))"

end
