(* ===== verification/RM_Ssr.thy ===== *)
theory RM_Ssr
  imports Pal_Api
begin

text \<open>
  The restarts of the sound card and the votes for the sleep monitor in
  \<^verbatim>\<open>resource_manager/src/ResourceManager.cpp\<close>.  The monitor of the sound card puts the states of
  the card into a queue, and a worker thread (\<^verbatim>\<open>ssrHandlingLoop\<close>) takes every registered stream
  down or up.
\<close>

section \<open>The sleep monitor\<close>

text \<open>The commands of the driver; their numbers belong to a kernel header.\<close>

abbreviation (input) ACTIVITY_START :: nat where "ACTIVITY_START \<equiv> 0"
abbreviation (input) ACTIVITY_STOP :: nat where "ACTIVITY_STOP \<equiv> 1"
abbreviation (input) ACTIVITY_LPI_START :: nat where "ACTIVITY_LPI_START \<equiv> 2"
abbreviation (input) ACTIVITY_LPI_STOP :: nat where "ACTIVITY_LPI_STOP \<equiv> 3"

definition vote_of :: "int \<Rightarrow> vote_type_t" where
  "vote_of n = (if n = 0 then LPI_VOTE else if n = 1 then NLPI_VOTE else AVOID_VOTE)"

text \<open>What to vote for: an error, nothing, or one of the two kinds.\<close>

definition vote_kind :: "env \<Rightarrow> nat option \<Rightarrow> bool \<Rightarrow> (int + vote_type_t option) io" where
  "vote_kind E h force = (case h of
     None \<Rightarrow> return (Inr (Some NLPI_VOTE))
   | Some s \<Rightarrow> do {
       (ret, t) \<leftarrow> Stream_getStreamType s;
       if ret \<noteq> 0 then return (Inl ret)
       else do {
         v \<leftarrow> (if force then return NLPI_VOTE
              else do { n \<leftarrow> call E (Rm (VoteType s)); return (vote_of n) });
         v \<leftarrow> (if v = AVOID_VOTE then rmg (\<lambda>rm. sleep_monitor_vote_type rm t) else return v);
         return (Inr (if v = AVOID_VOTE then None else Some v))
       }
     })"

text \<open>The driver is called with the mutex given up.\<close>

definition sleep_ioctl :: "env \<Rightarrow> nat \<Rightarrow> int io" where
  "sleep_ioctl E c = do {
     unlock SleepMonitorMutex;
     r \<leftarrow> call E (Rm (SleepMonIoctl c));
     lock SleepMonitorMutex;
     return r
   }"

definition vote_lpi :: "env \<Rightarrow> bool \<Rightarrow> int io" where
  "vote_lpi E up =
     (if up then do {
        upd_rm (lpi_counter_update (\<lambda>n. n + 1));
        n \<leftarrow> rmg lpi_counter;
        if n \<ge> 1 then sleep_ioctl E ACTIVITY_LPI_START else return 0
      }
      else do {
        upd_rm (lpi_counter_update (\<lambda>n. n - 1));
        n \<leftarrow> rmg lpi_counter;
        if n \<ge> 0 then sleep_ioctl E ACTIVITY_LPI_STOP
        else do { when_io (n < 0) (upd_rm (lpi_counter_update (\<lambda>_. 0))); return 0 }
      })"

definition vote_nlpi :: "env \<Rightarrow> bool \<Rightarrow> int io" where
  "vote_nlpi E up =
     (if up then do {
        upd_rm (nlpi_counter_update (\<lambda>n. n + 1));
        n \<leftarrow> rmg nlpi_counter;
        if n = 1 then sleep_ioctl E ACTIVITY_START else return 0
      }
      else do {
        upd_rm (nlpi_counter_update (\<lambda>n. n - 1));
        n \<leftarrow> rmg nlpi_counter;
        if n = 0 then sleep_ioctl E ACTIVITY_STOP
        else do { when_io (n < 0) (upd_rm (nlpi_counter_update (\<lambda>_. 0))); return 0 }
      })"

definition RM_voteSleepMonitor :: "env \<Rightarrow> nat option \<Rightarrow> bool \<Rightarrow> bool \<Rightarrow> int io" where
  "RM_voteSleepMonitor E h up force = do {
     fd \<leftarrow> rmg sleepmon_fd;
     if fd = - 1 then return (- EINVAL)
     else do {
       k \<leftarrow> vote_kind E h force;
       case k of
         Inl ret \<Rightarrow> return ret
       | Inr None \<Rightarrow> return 0
       | Inr (Some v) \<Rightarrow> do {
           lock SleepMonitorMutex;
           ret \<leftarrow> (if v = LPI_VOTE then vote_lpi E up else vote_nlpi E up);
           unlock SleepMonitorMutex;
           return ret
         }
     }
   }"

section \<open>Restarts of the card\<close>

text \<open>\<^verbatim>\<open>isStreamSupportedInsndCardStandy\<close> is a lookup in a list of the platform file.\<close>

definition RM_isSsrDownFeasible :: "nat list \<Rightarrow> RM \<Rightarrow> nat \<Rightarrow> bool" where
  "RM_isSsrDownFeasible standby_streams rm t \<longleftrightarrow> \<not> (cardState rm = CARD_STATUS_STANDBY \<and> t \<in> set standby_streams)"

text \<open>The two virtual methods of a stream.\<close>

record ssr_vt =
  sr_down :: "nat \<Rightarrow> int io"
  sr_up :: "nat \<Rightarrow> int io"

text \<open>The type of the stream is a variable of the thread, which keeps its value when a stream has
  no attributes.\<close>

fun ssr_down_all :: "env \<Rightarrow> ssr_vt \<Rightarrow> nat \<Rightarrow> nat list \<Rightarrow> nat io" where
  "ssr_down_all E V t [] = return t"
| "ssr_down_all E V t (s # ss) = do {
     r \<leftarrow> or_hang s (- EINVAL) (RM_increaseStreamUserCounter s);
     if r \<noteq> 0 then ssr_down_all E V t ss
     else do {
       sr_down V s;
       (ret, t') \<leftarrow> Stream_getStreamType s;
       let t = (if ret \<noteq> 0 then t else t');
       when_io (t = PAL_STREAM_NON_TUNNEL) (do { RM_voteSleepMonitor E (Some s) False False; return () });
       step_of (RM_decreaseStreamUserCounter s);
       ssr_down_all E V t ss
     }
   }"

fun ssr_up_all :: "ssr_vt \<Rightarrow> nat list \<Rightarrow> unit io" where
  "ssr_up_all V [] = return ()"
| "ssr_up_all V (s # ss) = do {
     r \<leftarrow> or_hang s (- EINVAL) (RM_increaseStreamUserCounter s);
     if r \<noteq> 0 then ssr_up_all V ss
     else do {
       sr_up V s;
       step_of (RM_decreaseStreamUserCounter s);
       ssr_up_all V ss
     }
   }"

text \<open>The context manager closes and opens streams of its own; it is called without the lock.\<close>

definition ctx_handler :: "env \<Rightarrow> rm_event \<Rightarrow> unit io" where
  "ctx_handler E e = do {
     on \<leftarrow> rmg isContextManagerEnabled;
     when_io on (do {
       unlock ActiveStreamMutex;
       call E (Rm e);
       lock ActiveStreamMutex
     })
   }"

text \<open>One state of the card, with the active stream lock held: \<open>prev\<close> is the state handled before.\<close>

definition ssr_inner :: "env \<Rightarrow> ssr_vt \<Rightarrow> nat \<times> nat \<Rightarrow> nat \<Rightarrow> nat list \<Rightarrow> (nat \<times> nat) io" where
  "ssr_inner E V v state ss = (case v of (prev, t) \<Rightarrow>
     (if ss = [] then do {
        when_io (state = CARD_STATUS_ONLINE) (ctx_handler E CtxSsrUp);
        return (state, t)
      }
      else if state = prev then return (prev, t)
      else if PAL_CARD_STATUS_DOWN (int state) then do {
        t \<leftarrow> ssr_down_all E V t ss;
        ctx_handler E CtxSsrDown;
        return (state, t)
      }
      else if PAL_CARD_STATUS_UP (int state) then do {
        ctx_handler E CtxSsrUp;
        tell (Rm UpdateCaptureProfiles);
        ss \<leftarrow> rmg mActiveStreams;
        ssr_up_all V ss;
        return (state, t)
      }
      else return (prev, t)))"

definition ssr_message :: "env \<Rightarrow> ssr_vt \<Rightarrow> nat \<times> nat \<Rightarrow> nat \<Rightarrow> (nat \<times> nat) io" where
  "ssr_message E V v state = do {
     lock ActiveStreamMutex;
     upd_rm (cardState_update (\<lambda>_. state));
     cb \<leftarrow> rmg globalCb;
     when_io (state \<noteq> fst v \<and> cb) (tell (Rm (GlobalCallback state)));
     ss \<leftarrow> rmg mActiveStreams;
     v \<leftarrow> ssr_inner E V v state ss;
     unlock ActiveStreamMutex;
     return v
   }"

text \<open>One turn of the loop, entered and left with the mutex of the queue; \<open>None\<close> is the end of the
  thread.\<close>

definition ssr_turn :: "env \<Rightarrow> ssr_vt \<Rightarrow> nat \<times> nat \<Rightarrow> (nat \<times> nat) option io" where
  "ssr_turn E V v = do {
     q \<leftarrow> rmg msgQ;
     when_io (q = []) (tell (Rm CvWait));
     q \<leftarrow> rmg msgQ;
     case q of
       [] \<Rightarrow> return (Some v)
     | state # q' \<Rightarrow> do {
         upd_rm (msgQ_update (\<lambda>_. q'));
         unlock CvMutex;
         if state = CARD_STATUS_NONE then return None
         else do {
           v \<leftarrow> ssr_message E V v state;
           lock CvMutex;
           return (Some v)
         }
       }
   }"

text \<open>The first \<open>n\<close> turns.\<close>

fun ssr_turns :: "env \<Rightarrow> ssr_vt \<Rightarrow> nat \<Rightarrow> nat \<times> nat \<Rightarrow> (nat \<times> nat) option io" where
  "ssr_turns E V 0 v = return (Some v)"
| "ssr_turns E V (Suc n) v = do {
     r \<leftarrow> ssr_turn E V v;
     case r of None \<Rightarrow> return None | Some v \<Rightarrow> ssr_turns E V n v
   }"

definition RM_ssrHandlingLoop :: "env \<Rightarrow> ssr_vt \<Rightarrow> nat \<Rightarrow> nat \<Rightarrow> (nat \<times> nat) option io" where
  "RM_ssrHandlingLoop E V n junk = do { lock CvMutex; ssr_turns E V n (CARD_STATUS_ONLINE, junk) }"

definition RM_ssrHandler :: "nat \<Rightarrow> unit io" where
  "RM_ssrHandler state = do {
     lock CvMutex;
     upd_rm (msgQ_update (\<lambda>q. q @ [state]));
     unlock CvMutex;
     tell (Rm CvNotify)
   }"

section \<open>Votes and the state of the monitor\<close>

definition ioctls :: "nat \<Rightarrow> event list \<Rightarrow> int" where
  "ioctls c l = int (length (filter (\<lambda>e. e = Rm (SleepMonIoctl c)) l))"

text \<open>What the driver has been told: that the island is left, at most once, and how often it is
  used.\<close>

definition votes_told :: "world \<Rightarrow> bool" where
  "votes_told w \<longleftrightarrow>
     nlpi_counter (wrm w) \<ge> 0 \<and> lpi_counter (wrm w) \<ge> 0 \<and>
     ioctls ACTIVITY_START (wlog w) - ioctls ACTIVITY_STOP (wlog w) = (if nlpi_counter (wrm w) > 0 then 1 else 0) \<and>
     ioctls ACTIVITY_LPI_START (wlog w) - ioctls ACTIVITY_LPI_STOP (wlog w) = lpi_counter (wrm w)"

lemma ioctls_Cons [simp]: "ioctls c (e # l) = (if e = Rm (SleepMonIoctl c) then 1 else 0) + ioctls c l"
  by (simp add: ioctls_def)

datatype vote_op = VoteOp "nat option" bool bool

fun vote_run :: "env \<Rightarrow> vote_op list \<Rightarrow> world \<Rightarrow> world" where
  "vote_run E [] w = w"
| "vote_run E (VoteOp h up force # ops) w = vote_run E ops (snd (run_state (RM_voteSleepMonitor E h up force) w))"

lemma vote_kind_run:
  "\<exists>l. snd (run_state (vote_kind E h force) w) = w\<lparr>wlog := l\<rparr> \<and> (\<forall>c. ioctls c l = ioctls c (wlog w))"
  by (rule exI [of _ "wlog (snd (run_state (vote_kind E h force) w))"])
     (auto simp: vote_kind_def Stream_getStreamType_def split: option.split)

lemma vote_told: "votes_told w \<Longrightarrow> votes_told (snd (run_state (RM_voteSleepMonitor E h up force) w))"
proof -
  assume v: "votes_told w"
  obtain k l where k: "run_state (vote_kind E h force) w = (k, w\<lparr>wlog := l\<rparr>)" "\<forall>c. ioctls c l = ioctls c (wlog w)"
    using vote_kind_run [of E h force w] by (metis prod.collapse)
  have v': "votes_told (w\<lparr>wlog := l\<rparr>)" using v k(2) by (simp add: votes_told_def)
  show ?thesis
    using v v' k by (cases up)
      (auto simp: RM_voteSleepMonitor_def vote_lpi_def vote_nlpi_def sleep_ioctl_def votes_told_def
        split: sum.split option.split if_splits)
qed

text \<open>
  C8: However streams vote for and against keeping the DSP awake, an excess of votes against
  included, the sleep monitor has been told of activity outside the low power island exactly while
  the count of votes is positive, and once; and of activity inside it exactly as often as the count
  says. No count becomes negative.
\<close>

theorem sleep_votes_told:
  assumes "nlpi_counter (wrm w) = 0" and "lpi_counter (wrm w) = 0" and "wlog w = []"
  shows "votes_told (vote_run E ops w)"
proof -
  have "votes_told w \<Longrightarrow> votes_told (vote_run E ops w)" for w
    by (induction E ops w rule: vote_run.induct) (simp_all add: vote_told)
  moreover have "votes_told w" using assms by (simp add: votes_told_def ioctls_def)
  ultimately show ?thesis .
qed

theorem sleep_votes_told_witness:
  "votes_told (vote_run demo_env [VoteOp None True False, VoteOp (Some 5) False True, VoteOp (Some 5) False True] (demo_world [3] 1))"
  by (rule sleep_votes_told) (simp_all add: demo_defs)

end
