(* ===== verification/Api_Threads.thy ===== *)
theory Api_Threads
  imports Pal_Api
begin

text \<open>
  Client threads, running calls of \<^verbatim>\<open>Pal.cpp\<close> at the same time.  The state is the world and, for
  every thread, where in a call it is.  A step is one section of a call that no other thread can
  interrupt, because it runs under the active stream lock, or the work a call does between two
  sections, of which only the effect on the life of the stream objects matters.

  The theory shows that a call that holds a reference never uses a destroyed object, whatever the
  interleaving, that every call that has begun can be finished, and how a second closer breaks
  the first rule for itself.
\<close>

section \<open>Threads\<close>

text \<open>
  Where a thread is: outside of any call; in a counted call, before (\<open>Calling\<close>) and after the
  method of the stream has run (\<open>Returning\<close>); in \<^verbatim>\<open>pal_stream_close\<close>, after the handle was found
  active (\<open>Closing\<close>), after the counter was deactivated (\<open>Waiting\<close>), after the last user was
  waited for and the semaphore destroyed (\<open>Erasing\<close>), after the counter was erased
  (\<open>Destroying\<close>); in \<^verbatim>\<open>pal_stream_open\<close>, after the object was made (\<open>Opening\<close>).
\<close>

datatype phase =
  Idle | Calling nat | Returning nat | Closing nat | Waiting nat | Erasing nat | Destroying nat | Opening nat

type_synonym threads = "nat \<Rightarrow> phase"

text \<open>What the calls share of the streams: which are registered, their user counters and their
  semaphores.\<close>

definition life :: "world \<Rightarrow> nat list \<times> (nat \<Rightarrow> (nat \<times> bool) option) \<times> (nat \<Rightarrow> int option)" where
  "life w = (mActiveStreams (wrm w), mActiveStreamUserCounter (wrm w), \<lambda>s. mInUse (wstr w s))"

abbreviation live :: "world \<Rightarrow> nat \<Rightarrow> bool" where
  "live w s \<equiv> s \<in> set (mActiveStreams (wrm w))"

text \<open>The object at \<open>s\<close> appears and goes.\<close>

definition made :: "nat \<Rightarrow> world \<Rightarrow> world \<Rightarrow> bool" where
  "made s w w' \<longleftrightarrow> life w' = (fst (life w) @ [s], snd (life w))"

definition unmade :: "nat \<Rightarrow> world \<Rightarrow> world \<Rightarrow> bool" where
  "unmade s w w' \<longleftrightarrow> life w' = (remove1 s (fst (life w)), snd (life w))"

text \<open>The steps that begin a call, and those that carry on.\<close>

inductive begins :: "world \<times> threads \<Rightarrow> world \<times> threads \<Rightarrow> bool" where
  b_enter: "ph t = Idle \<Longrightarrow> run_state (stream_enter s) w = (e, w') \<Longrightarrow>
    begins (w, ph) (w', ph(t := if e = Some 0 then Calling s else Idle))"
| b_check: "ph t = Idle \<Longrightarrow> run_state (close_check s) w = (active, w') \<Longrightarrow>
    begins (w, ph) (w', ph(t := if active then Closing s else Idle))"
| b_make: "ph t = Idle \<Longrightarrow> \<not> live w s \<Longrightarrow> made s w w' \<Longrightarrow> begins (w, ph) (w', ph(t := Opening s))"
| b_other: "life w' = life w \<Longrightarrow> begins (w, ph) (w', ph)"

inductive goes_on :: "world \<times> threads \<Rightarrow> world \<times> threads \<Rightarrow> bool" where
  g_method: "ph t = Calling s \<Longrightarrow> life w' = life w \<Longrightarrow> goes_on (w, ph) (w', ph(t := Returning s))"
| g_leave: "ph t = Returning s \<Longrightarrow> run_state (stream_leave s) w = (x, w') \<Longrightarrow>
    goes_on (w, ph) (w', ph(t := Idle))"
| g_deactivate: "ph t = Closing s \<Longrightarrow> life w1 = life w \<Longrightarrow>
    run_state (stream_step s deactivateStreamUserCounter_enter) w1 = (r, w') \<Longrightarrow>
    goes_on (w, ph) (w', ph(t := if r = 0 then Waiting s else Idle))"
| g_wait: "ph t = Waiting s \<Longrightarrow> deactivateStreamUserCounter_exit s w = Some w' \<Longrightarrow>
    goes_on (w, ph) (w', ph(t := Erasing s))"
| g_erase: "ph t = Erasing s \<Longrightarrow> life w1 = life w \<Longrightarrow>
    run_state (stream_step s RM_eraseStreamUserCounter) w1 = (r, w') \<Longrightarrow>
    goes_on (w, ph) (w', ph(t := Destroying s))"
| g_destroy: "ph t = Destroying s \<Longrightarrow> unmade s w w' \<Longrightarrow> goes_on (w, ph) (w', ph(t := Idle))"
| g_open_failed: "ph t = Opening s \<Longrightarrow> unmade s w w' \<Longrightarrow> goes_on (w, ph) (w', ph(t := Idle))"
| g_opened: "ph t = Opening s \<Longrightarrow> life w1 = life w \<Longrightarrow>
    run_state (stream_step s RM_initStreamUserCounter) w1 = (r, w') \<Longrightarrow>
    goes_on (w, ph) (w', ph(t := Idle))"

definition api_step :: "world \<times> threads \<Rightarrow> world \<times> threads \<Rightarrow> bool" where
  "api_step st st' \<longleftrightarrow> begins st st' \<or> goes_on st st'"

definition no_streams :: "world \<Rightarrow> bool" where
  "no_streams w \<longleftrightarrow> life w = ([], \<lambda>s. None, \<lambda>s. None)"

definition all_idle :: threads where
  "all_idle = (\<lambda>t. Idle)"

inductive api_reach :: "world \<times> threads \<Rightarrow> bool" where
  r_start: "no_streams w \<Longrightarrow> api_reach (w, all_idle)"
| r_step: "api_reach st \<Longrightarrow> api_step st st' \<Longrightarrow> api_reach st'"

section \<open>Counting threads\<close>

fun about :: "nat \<Rightarrow> phase \<Rightarrow> bool" where
  "about s Idle \<longleftrightarrow> True"
| "about s (Calling x) \<longleftrightarrow> x = s"
| "about s (Returning x) \<longleftrightarrow> x = s"
| "about s (Closing x) \<longleftrightarrow> x = s"
| "about s (Waiting x) \<longleftrightarrow> x = s"
| "about s (Erasing x) \<longleftrightarrow> x = s"
| "about s (Destroying x) \<longleftrightarrow> x = s"
| "about s (Opening x) \<longleftrightarrow> x = s"

definition user :: "nat \<Rightarrow> phase \<Rightarrow> bool" where
  "user s p \<longleftrightarrow> p = Calling s \<or> p = Returning s"

definition bare :: "nat \<Rightarrow> phase \<Rightarrow> bool" where
  "bare s p \<longleftrightarrow> p = Opening s \<or> p = Destroying s"

definition busy :: "threads \<Rightarrow> nat set" where
  "busy ph = {t. ph t \<noteq> Idle}"

definition num :: "threads \<Rightarrow> (phase \<Rightarrow> bool) \<Rightarrow> int" where
  "num ph P = int (card {t. P (ph t)})"

lemma finite_num: "finite (busy ph) \<Longrightarrow> \<not> P Idle \<Longrightarrow> finite {t. P (ph t)}"
  by (rule finite_subset [of _ "busy ph"]) (auto simp: busy_def)

lemma busy_upd: "finite (busy ph) \<Longrightarrow> finite (busy (ph(t := x)))"
  by (rule finite_subset [of _ "insert t (busy ph)"]) (auto simp: busy_def)

lemma num_upd:
  assumes "finite (busy ph)" "\<not> P Idle"
  shows "num (ph(t := x)) P = num ph P - of_bool (P (ph t)) + of_bool (P x)"
proof -
  let ?A = "{u. P (ph u)}"
  have f: "finite ?A" using assms by (rule finite_num)
  have e: "{u. P ((ph(t := x)) u)} = (if P x then insert t (?A - {t}) else ?A - {t})" by auto
  have "int (card (?A - {t})) = int (card ?A) - of_bool (P (ph t))"
  proof (cases "P (ph t)")
    case True
    then show ?thesis using card_Suc_Diff1 [OF f, of t] by simp
  qed simp
  moreover have "card (insert t (?A - {t})) = Suc (card (?A - {t}))"
    by (rule card_insert_disjoint) (use f in auto)
  ultimately show ?thesis unfolding num_def e by simp
qed

lemma num_pos: "finite (busy ph) \<Longrightarrow> \<not> P Idle \<Longrightarrow> P (ph t) \<Longrightarrow> num ph P > 0"
  using finite_num [of ph P] by (auto simp: num_def card_gt_0_iff)

lemma num_nonneg [simp]: "num ph P \<ge> 0"
  by (simp add: num_def)

lemma num_posD: "num ph P > 0 \<Longrightarrow> \<exists>t. P (ph t)"
  by (auto simp: num_def card_gt_0_iff)

lemma phase_kinds [simp]:
  "\<not> user s Idle" "\<not> bare s Idle" "user s (Calling x) \<longleftrightarrow> x = s" "user s (Returning x) \<longleftrightarrow> x = s"
  "\<not> user s (Closing x)" "\<not> user s (Waiting x)" "\<not> user s (Erasing x)" "\<not> user s (Destroying x)"
  "\<not> user s (Opening x)" "bare s (Opening x) \<longleftrightarrow> x = s" "bare s (Destroying x) \<longleftrightarrow> x = s"
  "\<not> bare s (Calling x)" "\<not> bare s (Returning x)" "\<not> bare s (Closing x)" "\<not> bare s (Waiting x)"
  "\<not> bare s (Erasing x)"
  by (auto simp: user_def bare_def)

section \<open>The invariant\<close>

text \<open>
  For every stream: its counter is the number of threads that hold a reference; exactly one
  thread waits for the last user, or has seen it go, according to the state of the semaphore;
  and while there is no counter the object, if it exists, belongs to one thread alone.
\<close>

definition draining :: "world \<Rightarrow> nat \<Rightarrow> bool" where
  "draining w s \<longleftrightarrow> (\<exists>n. counter w s = Some (n, False)) \<and> sem w s \<noteq> None"

definition drained :: "world \<Rightarrow> nat \<Rightarrow> bool" where
  "drained w s \<longleftrightarrow> (\<exists>n. counter w s = Some (n, False)) \<and> sem w s = None"

definition slot_inv :: "nat \<Rightarrow> world \<Rightarrow> threads \<Rightarrow> bool" where
  "slot_inv s w ph \<longleftrightarrow>
     num ph (user s) = (case counter w s of None \<Rightarrow> 0 | Some c \<Rightarrow> int (fst c)) \<and>
     num ph (\<lambda>p. p = Waiting s) = of_bool (draining w s) \<and>
     num ph (\<lambda>p. p = Erasing s) = of_bool (drained w s) \<and>
     num ph (bare s) = of_bool (live w s \<and> counter w s = None) \<and>
     uc_inv s w \<and> (counter w s \<noteq> None \<longrightarrow> live w s)"

definition api_inv :: "world \<times> threads \<Rightarrow> bool" where
  "api_inv st \<longleftrightarrow> finite (busy (snd st)) \<and> distinct (mActiveStreams (wrm (fst st))) \<and>
     (\<forall>s. slot_inv s (fst st) (snd st))"

text \<open>What a stream's part of the invariant reads of the world.\<close>

definition slot :: "world \<Rightarrow> nat \<Rightarrow> bool \<times> (nat \<times> bool) option \<times> int option" where
  "slot w s = (live w s, counter w s, sem w s)"

lemma slot_cong:
  assumes "slot w' s = slot w s"
  shows "slot_inv s w' ph = slot_inv s w ph"
  using assms by (auto simp: slot_inv_def slot_def draining_def drained_def uc_inv_def)

lemma life_slot: "life w' = life w \<Longrightarrow> slot w' s = slot w s"
  by (auto simp: life_def slot_def fun_eq_iff)

lemma num_other:
  assumes "finite (busy ph)" "\<not> P Idle" "\<not> P (ph t)" "\<not> P x"
  shows "num (ph(t := x)) P = num ph P"
  using num_upd [of ph P t x] assms by simp

lemma slot_other:
  assumes "finite (busy ph)" "about s (ph t)" "about s x" "s' \<noteq> s"
  shows "slot_inv s' w (ph(t := x)) = slot_inv s' w ph"
proof -
  have "\<not> user s' p" "\<not> bare s' p" "p \<noteq> Waiting s'" "p \<noteq> Erasing s'" if "about s p" for p
    using that assms(4) by (cases p; auto)+
  then have "num (ph(t := x)) (user s') = num ph (user s')" "num (ph(t := x)) (bare s') = num ph (bare s')"
    "num (ph(t := x)) (\<lambda>p. p = Waiting s') = num ph (\<lambda>p. p = Waiting s')"
    "num (ph(t := x)) (\<lambda>p. p = Erasing s') = num ph (\<lambda>p. p = Erasing s')"
    using assms(1-3) by (auto intro!: num_other)
  then show ?thesis by (simp add: slot_inv_def)
qed

lemma api_inv_step:
  assumes inv: "api_inv (w, ph)" and ab: "about s (ph t)" "about s x"
    and "\<And>s'. s' \<noteq> s \<Longrightarrow> slot w' s' = slot w s'" and "distinct (mActiveStreams (wrm w'))"
    and "slot_inv s w' (ph(t := x))"
  shows "api_inv (w', ph(t := x))"
proof -
  have f: "finite (busy ph)" using inv by (simp add: api_inv_def)
  have "slot_inv s' w' (ph(t := x))" for s'
  proof (cases "s' = s")
    case False
    then have "slot_inv s' w' (ph(t := x)) = slot_inv s' w (ph(t := x))"
      by (intro slot_cong assms(4))
    also have "\<dots> = slot_inv s' w ph" by (rule slot_other [OF f ab False])
    finally show ?thesis using inv by (simp add: api_inv_def)
  qed (simp add: assms(6))
  then show ?thesis using assms(5) busy_upd [OF f] by (simp add: api_inv_def)
qed

section \<open>The effect of a section on the life of the streams\<close>

definition upd_life :: "nat \<Rightarrow> (nat \<times> bool) option \<Rightarrow> int option \<Rightarrow> world \<Rightarrow> world \<Rightarrow> bool" where
  "upd_life s c v w w' \<longleftrightarrow>
     life w' = (fst (life w), (fst (snd (life w)))(s := c), (snd (snd (life w)))(s := v))"

lemma life_log [simp]: "life (w\<lparr>wlog := l\<rparr>) = life w"
  by (simp add: life_def)

lemma upd_lifeD:
  assumes "upd_life s c v w w'"
  shows "mActiveStreams (wrm w') = mActiveStreams (wrm w)" "counter w' s = c" "sem w' s = v"
    "s' \<noteq> s \<Longrightarrow> slot w' s' = slot w s'"
  using assms by (auto simp: upd_life_def life_def slot_def fun_eq_iff)

lemma lifeD:
  assumes "life w' = life w"
  shows "mActiveStreams (wrm w') = mActiveStreams (wrm w)" "counter w' s = counter w s" "sem w' s = sem w s"
  using assms by (auto simp: life_def fun_eq_iff)

lemma upd_life_from: "life w1 = life w \<Longrightarrow> upd_life s c v w1 w' \<Longrightarrow> upd_life s c v w w'"
  by (simp add: upd_life_def)

lemma enter_life:
  assumes "run_state (stream_enter s) w = (e, w')" "uc_inv s w"
  shows "e = Some 0 \<Longrightarrow> \<exists>n. counter w s = Some (n, True) \<and> upd_life s (Some (Suc n, True)) (Some 0) w w'"
    "e \<noteq> Some 0 \<Longrightarrow> life w' = life w"
proof -
  note d = stream_enter_def RM_isActiveStream_def RM_increaseStreamUserCounter_def Stream_waitStreamSmph_def
  show "\<exists>n. counter w s = Some (n, True) \<and> upd_life s (Some (Suc n, True)) (Some 0) w w'" if e: "e = Some 0"
  proof -
    obtain n where n: "counter w s = Some (n, True)"
      using assms(1) e by (auto simp: d split: if_splits option.splits prod.splits bool.splits)
    then have "sem w s = Some (if n = 0 then 1 else 0)"
      using assms(2) by (auto simp: uc_inv_def split: option.splits)
    then have "upd_life s (Some (Suc n, True)) (Some 0) w w'"
      using assms(1) e n
      by (cases "n = 0") (auto simp: d upd_life_def life_def set_counter_def set_sem_def fun_eq_iff split: if_splits)
    then show ?thesis using n by blast
  qed
  show "life w' = life w" if "e \<noteq> Some 0"
    using assms that
    by (auto simp: d uc_inv_def split: if_splits option.splits prod.splits bool.splits)
qed

lemma run_stream_step:
  "run_state (stream_step s f) w =
    (fst (f s (w\<lparr>wlog := Lock ActiveStreamMutex # wlog w\<rparr>)),
     (snd (f s (w\<lparr>wlog := Lock ActiveStreamMutex # wlog w\<rparr>)))\<lparr>wlog := Unlock ActiveStreamMutex #
        wlog (snd (f s (w\<lparr>wlog := Lock ActiveStreamMutex # wlog w\<rparr>)))\<rparr>)"
  by (simp add: stream_step_def split: prod.splits)

lemmas section_defs = run_stream_step upd_life_def life_def set_counter_def set_sem_def fun_eq_iff

lemma leave_life:
  assumes "run_state (stream_leave s) w = (x, w')" "counter w s = Some (Suc n, b)" "uc_inv s w"
  shows "upd_life s (Some (n, b)) (Some (if n = 0 then 1 else 0)) w w'"
  using assms
  by (cases "n = 0")
     (auto simp: stream_leave_def RM_decreaseStreamUserCounter_def Stream_postStreamSmph_def uc_inv_def
        section_defs split: option.splits prod.splits)

lemma deactivate_life:
  assumes "run_state (stream_step s deactivateStreamUserCounter_enter) w = (r, w')"
  shows "r = 0 \<Longrightarrow> \<exists>n. counter w s = Some (n, True) \<and> upd_life s (Some (n, False)) (sem w s) w w'"
    "r \<noteq> 0 \<Longrightarrow> life w' = life w"
  using assms
  by (auto simp: deactivateStreamUserCounter_enter_def section_defs split: option.splits prod.splits bool.splits)

lemma wait_life:
  assumes "deactivateStreamUserCounter_exit s w = Some w'" "sem w s = Some v"
  shows "v > 0 \<and> upd_life s (counter w s) None w w'"
  using assms
  by (auto simp: deactivateStreamUserCounter_exit_def Stream_waitStreamSmph_def section_defs split: if_splits)

lemma erase_life:
  assumes "run_state (stream_step s RM_eraseStreamUserCounter) w = (r, w')"
  shows "upd_life s None (sem w s) w w'"
  using assms by (auto simp: RM_eraseStreamUserCounter_def section_defs split: option.splits)

lemma init_life:
  assumes "run_state (stream_step s RM_initStreamUserCounter) w = (r, w')" "counter w s = None"
  shows "upd_life s (Some (0, True)) (Some 1) w w'"
  using assms by (auto simp: RM_initStreamUserCounter_def section_defs)

lemma check_life:
  assumes "run_state (close_check s) w = (active, w')"
  shows "life w' = life w" "active = live w s"
  using assms by (auto simp: close_check_def RM_isActiveStream_def)

lemma made_slots:
  assumes "made s w w'"
  shows "mActiveStreams (wrm w') = mActiveStreams (wrm w) @ [s]" "counter w' s' = counter w s'" "sem w' s' = sem w s'"
    "s' \<noteq> s \<Longrightarrow> slot w' s' = slot w s'"
  using assms by (auto simp: made_def life_def slot_def fun_eq_iff)

lemma unmade_slots:
  assumes "unmade s w w'"
  shows "mActiveStreams (wrm w') = remove1 s (mActiveStreams (wrm w))" "counter w' s' = counter w s'"
    "sem w' s' = sem w s'" "s' \<noteq> s \<Longrightarrow> slot w' s' = slot w s'"
  using assms by (auto simp: unmade_def life_def slot_def fun_eq_iff)

section \<open>Every step keeps the invariant\<close>

lemma inv_base: "api_inv (w, ph) \<Longrightarrow> finite (busy ph)" "api_inv (w, ph) \<Longrightarrow> distinct (mActiveStreams (wrm w))"
  by (simp_all add: api_inv_def)

lemma inv_slot: "api_inv (w, ph) \<Longrightarrow> slot_inv s w ph"
  by (simp add: api_inv_def)

lemma inv_uc: "api_inv (w, ph) \<Longrightarrow> uc_inv s w"
  by (simp add: api_inv_def slot_inv_def)

lemma inv_at:
  assumes inv: "api_inv (w, ph)"
  shows "user s (ph t) \<Longrightarrow> \<exists>n b. counter w s = Some (Suc n, b)"
    "ph t = Waiting s \<Longrightarrow> draining w s" "ph t = Erasing s \<Longrightarrow> drained w s"
    "bare s (ph t) \<Longrightarrow> live w s \<and> counter w s = None"
proof -
  note f = inv_base(1) [OF inv] and c = inv_slot [OF inv, of s, unfolded slot_inv_def]
  show "\<exists>n b. counter w s = Some (Suc n, b)" if "user s (ph t)"
  proof -
    have "num ph (user s) > 0" using num_pos [of ph "user s" t] f that by simp
    then show ?thesis using c by (cases "counter w s") (auto simp: gr0_conv_Suc)
  qed
  show "draining w s" if "ph t = Waiting s"
    using num_pos [of ph "\<lambda>p. p = Waiting s" t] f that c by (cases "draining w s") auto
  show "drained w s" if "ph t = Erasing s"
    using num_pos [of ph "\<lambda>p. p = Erasing s" t] f that c by (cases "drained w s") auto
  show "live w s \<and> counter w s = None" if "bare s (ph t)"
    using num_pos [of ph "bare s" t] f that c by (cases "live w s \<and> counter w s = None") auto
qed

lemma inv_life: "api_inv (w, ph) \<Longrightarrow> life w' = life w \<Longrightarrow> api_inv (w', ph)"
  unfolding api_inv_def fst_conv snd_conv lifeD(1) [of w' w] slot_cong [OF life_slot, of w' w] by blast

text \<open>The counts of a stream after one thread has moved.\<close>

lemma slot_inv_upd:
  assumes inv: "api_inv (w, ph)"
  shows "slot_inv s w' (ph(t := x)) \<longleftrightarrow>
     num ph (user s) - of_bool (user s (ph t)) + of_bool (user s x) =
       (case counter w' s of None \<Rightarrow> 0 | Some c \<Rightarrow> int (fst c)) \<and>
     num ph (\<lambda>p. p = Waiting s) - of_bool (ph t = Waiting s) + of_bool (x = Waiting s) = of_bool (draining w' s) \<and>
     num ph (\<lambda>p. p = Erasing s) - of_bool (ph t = Erasing s) + of_bool (x = Erasing s) = of_bool (drained w' s) \<and>
     num ph (bare s) - of_bool (bare s (ph t)) + of_bool (bare s x) = of_bool (live w' s \<and> counter w' s = None) \<and>
     uc_inv s w' \<and> (counter w' s \<noteq> None \<longrightarrow> live w' s)"
  using num_upd [OF inv_base(1) [OF inv]] by (simp add: slot_inv_def)

lemma inv_set:
  assumes inv: "api_inv (w, ph)" and "upd_life s c v w w'" "about s (ph t)" "about s x"
    and "slot_inv s w' (ph(t := x))"
  shows "api_inv (w', ph(t := x))"
  by (rule api_inv_step [OF inv assms(3,4) _ _ assms(5)])
     (simp_all add: upd_lifeD [OF assms(2)] inv_base(2) [OF inv])

lemma inv_same:
  assumes inv: "api_inv (w, ph)" and l: "life w' = life w" and "about s (ph t)" "about s x"
    and "slot_inv s w' (ph(t := x))"
  shows "api_inv (w', ph(t := x))"
  by (rule api_inv_step [OF inv assms(3,4) _ _ assms(5)])
     (simp_all add: life_slot [OF l] lifeD(1) [OF l] inv_base(2) [OF inv])

lemma counts_of:
  assumes "api_inv (w, ph)"
  shows "num ph (user s) = (case counter w s of None \<Rightarrow> 0 | Some c \<Rightarrow> int (fst c))"
    "num ph (\<lambda>p. p = Waiting s) = of_bool (draining w s)"
    "num ph (\<lambda>p. p = Erasing s) = of_bool (drained w s)"
    "num ph (bare s) = of_bool (live w s \<and> counter w s = None)"
    "uc_inv s w" "counter w s \<noteq> None \<Longrightarrow> live w s"
  using inv_slot [OF assms] by (simp_all add: slot_inv_def)

lemmas slot_kinds = draining_def drained_def uc_inv_def

lemma inv_begins:
  assumes "begins st st'" "api_inv st"
  shows "api_inv st'"
  using assms
proof (cases rule: begins.cases)
  case (b_enter ph t s w e w')
  have inv: "api_inv (w, ph)" using assms(2) b_enter(1) by simp
  note c = counts_of [OF inv, of s]
  show ?thesis
  proof (cases "e = Some 0")
    case True
    then obtain n where n: "counter w s = Some (n, True)"
      and u: "upd_life s (Some (Suc n, True)) (Some 0) w w'"
      using enter_life(1) [OF b_enter(4) c(5)] by blast
    have "api_inv (w', ph(t := Calling s))"
      using b_enter(3) c n
      by (intro inv_set [OF inv u]) (auto simp: slot_inv_upd [OF inv] upd_lifeD [OF u] slot_kinds)
    then show ?thesis using b_enter(2) True by simp
  next
    case False
    then show ?thesis
      using inv_life [OF inv enter_life(2) [OF b_enter(4) c(5)]] b_enter(2,3) by (simp add: fun_upd_idem)
  qed
next
  case (b_check ph t s w active w')
  have inv: "api_inv (w, ph)" using assms(2) b_check(1) by simp
  note c = counts_of [OF inv, of s] and l = check_life(1) [OF b_check(4)]
  have "api_inv (w', ph(t := if active then Closing s else Idle))"
    using b_check(3) c
    by (intro inv_same [OF inv l, of s]) (auto simp: slot_inv_upd [OF inv] lifeD [OF l] slot_kinds)
  then show ?thesis using b_check(2) by simp
next
  case (b_make ph t w s w')
  have inv: "api_inv (w, ph)" using assms(2) b_make(1) by simp
  note c = counts_of [OF inv, of s] and m = made_slots [OF b_make(5)]
  have "counter w s = None" using c(6) b_make(4) by blast
  then have "api_inv (w', ph(t := Opening s))"
    using b_make(3,4) c inv_base(2) [OF inv]
    by (intro api_inv_step [OF inv, of s]) (auto simp: slot_inv_upd [OF inv] m slot_kinds)
  then show ?thesis using b_make(2) by simp
next
  case (b_other w' w ph)
  then show ?thesis using inv_life assms(2) by simp
qed

lemma inv_unmade:
  assumes inv: "api_inv (w, ph)" and b: "bare s (ph t)" and u: "unmade s w w'"
  shows "api_inv (w', ph(t := Idle))"
proof -
  have n: "live w s" "counter w s = None" using inv_at(4) [OF inv b] by auto
  have p: "\<not> user s (ph t)" "ph t \<noteq> Waiting s" "ph t \<noteq> Erasing s" "about s (ph t)"
    using b by (auto simp: bare_def)
  show ?thesis
    using n p b counts_of [OF inv, of s] inv_base(2) [OF inv]
    by (intro api_inv_step [OF inv, of s]) (auto simp: slot_inv_upd [OF inv] unmade_slots [OF u] slot_kinds)
qed

lemma inv_method:
  assumes inv: "api_inv (w, ph)" and p: "ph t = Calling s" and l: "life w' = life w"
  shows "api_inv (w', ph(t := Returning s))"
  using p counts_of [OF inv, of s]
  by (intro inv_same [OF inv l, of s]) (auto simp: slot_inv_upd [OF inv] lifeD [OF l] slot_kinds)

lemma inv_leave:
  assumes inv: "api_inv (w, ph)" and p: "ph t = Returning s" and r: "run_state (stream_leave s) w = (x, w')"
  shows "api_inv (w', ph(t := Idle))"
proof -
  obtain n b where n: "counter w s = Some (Suc n, b)" using inv_at(1) [OF inv, of s t] p by auto
  note u = leave_life [OF r n inv_uc [OF inv]]
  have "sem w s = Some 0" using inv_uc [OF inv, of s] n by (auto simp: uc_inv_def split: option.splits)
  then show ?thesis
    using p n counts_of [OF inv, of s]
    by (intro inv_set [OF inv u]) (auto simp: slot_inv_upd [OF inv] upd_lifeD [OF u] slot_kinds)
qed

lemma inv_deactivate:
  assumes inv: "api_inv (w, ph)" and p: "ph t = Closing s" and l1: "life w1 = life w"
    and r: "run_state (stream_step s deactivateStreamUserCounter_enter) w1 = (r, w')"
  shows "api_inv (w', ph(t := if r = 0 then Waiting s else Idle))"
proof (cases "r = 0")
  case True
  then obtain n where n: "counter w s = Some (n, True)"
    and u1: "upd_life s (Some (n, False)) (sem w1 s) w1 w'"
    using deactivate_life(1) [OF r] lifeD(2) [OF l1] by auto
  note u = upd_life_from [OF l1 u1]
  have "sem w s = Some (if n = 0 then 1 else 0)"
    using inv_uc [OF inv, of s] n by (auto simp: uc_inv_def split: option.splits)
  then have "api_inv (w', ph(t := Waiting s))"
    using p n counts_of [OF inv, of s]
    by (intro inv_set [OF inv u]) (auto simp: slot_inv_upd [OF inv] upd_lifeD [OF u] lifeD [OF l1] slot_kinds)
  then show ?thesis using True by simp
next
  case False
  then have e: "life w' = life w" using deactivate_life(2) [OF r] l1 by simp
  have "api_inv (w', ph(t := Idle))"
    using p counts_of [OF inv, of s]
    by (intro inv_same [OF inv e, of s]) (auto simp: slot_inv_upd [OF inv] lifeD [OF e] slot_kinds)
  then show ?thesis using False by simp
qed

lemma inv_wait:
  assumes inv: "api_inv (w, ph)" and p: "ph t = Waiting s"
    and r: "deactivateStreamUserCounter_exit s w = Some w'"
  shows "api_inv (w', ph(t := Erasing s))"
proof -
  obtain n v where n: "counter w s = Some (n, False)" "sem w s = Some v"
    using inv_at(2) [OF inv p] by (auto simp: draining_def)
  have v: "v > 0" and u: "upd_life s (counter w s) None w w'" using wait_life [OF r n(2)] by auto
  have "n = 0" using inv_uc [OF inv, of s] n v by (auto simp: uc_inv_def split: if_splits)
  then show ?thesis
    using p n counts_of [OF inv, of s]
    by (intro inv_set [OF inv u]) (auto simp: slot_inv_upd [OF inv] upd_lifeD [OF u] slot_kinds)
qed

lemma inv_erase:
  assumes inv: "api_inv (w, ph)" and p: "ph t = Erasing s" and l1: "life w1 = life w"
    and r: "run_state (stream_step s RM_eraseStreamUserCounter) w1 = (r, w')"
  shows "api_inv (w', ph(t := Destroying s))"
proof -
  note u = upd_life_from [OF l1 erase_life [OF r]]
  obtain n where n: "counter w s = Some (n, False)" "sem w s = None"
    using inv_at(3) [OF inv p] by (auto simp: drained_def)
  then show ?thesis
    using p counts_of [OF inv, of s]
    by (intro inv_set [OF inv u]) (auto simp: slot_inv_upd [OF inv] upd_lifeD [OF u] lifeD [OF l1] slot_kinds)
qed

lemma inv_opened:
  assumes inv: "api_inv (w, ph)" and p: "ph t = Opening s" and l1: "life w1 = life w"
    and r: "run_state (stream_step s RM_initStreamUserCounter) w1 = (r, w')"
  shows "api_inv (w', ph(t := Idle))"
proof -
  have n: "live w s" "counter w s = None" using inv_at(4) [OF inv, of s t] p by auto
  then have "counter w1 s = None" using lifeD(2) [OF l1] by simp
  note u = upd_life_from [OF l1 init_life [OF r this]]
  show ?thesis
    using p n counts_of [OF inv, of s]
    by (intro inv_set [OF inv u]) (auto simp: slot_inv_upd [OF inv] upd_lifeD [OF u] slot_kinds)
qed

lemma inv_goes_on: "goes_on st st' \<Longrightarrow> api_inv st \<Longrightarrow> api_inv st'"
proof (induction rule: goes_on.induct)
  case g_destroy then show ?case by (intro inv_unmade [of _ _ _ _ _]) simp_all
next
  case g_open_failed then show ?case by (intro inv_unmade [of _ _ _ _ _]) simp_all
qed (rule inv_method inv_leave inv_deactivate inv_wait inv_erase inv_opened; assumption)+

lemma inv_start: "no_streams w \<Longrightarrow> api_inv (w, all_idle)"
  by (auto simp: api_inv_def no_streams_def all_idle_def busy_def life_def slot_inv_def num_def slot_kinds fun_eq_iff)

lemma api_reach_inv: "api_reach st \<Longrightarrow> api_inv st"
  by (induction rule: api_reach.induct) (auto simp: api_step_def inv_start dest: inv_begins inv_goes_on)

section \<open>Safety\<close>

lemma num_one:
  assumes "finite (busy ph)" "\<not> P Idle" "num ph P \<le> 1" "P (ph t)" "P (ph u)"
  shows "u = t"
proof -
  have f: "finite {x. P (ph x)}" using assms(1,2) by (rule finite_num)
  have "card {t, u} \<le> card {x. P (ph x)}" by (rule card_mono [OF f]) (use assms(4,5) in auto)
  then show ?thesis using assms(3) by (cases "u = t") (auto simp: num_def)
qed

text \<open>The thread that alone may end the life of a stream.\<close>

definition owner :: "nat \<Rightarrow> phase \<Rightarrow> bool" where
  "owner s p \<longleftrightarrow> p = Waiting s \<or> p = Erasing s \<or> bare s p"

lemma owner_unique:
  assumes inv: "api_inv (w, ph)" and o: "owner s (ph t)" "owner s (ph u)"
  shows "u = t"
proof -
  note f = inv_base(1) [OF inv] and c = counts_of [OF inv, of s] and a = inv_at [OF inv]
  have x: "\<not> (draining w s \<and> drained w s)" "\<not> (draining w s \<and> counter w s = None)"
    "\<not> (drained w s \<and> counter w s = None)"
    by (auto simp: draining_def drained_def)
  consider "ph t = Waiting s" "ph u = Waiting s" | "ph t = Erasing s" "ph u = Erasing s"
    | "bare s (ph t)" "bare s (ph u)"
    using o a(2) [of t s] a(3) [of t s] a(4) [of s t] a(2) [of u s] a(3) [of u s] a(4) [of s u] x
    unfolding owner_def by blast
  then show ?thesis
    using num_one [of ph "\<lambda>p. p = Waiting s" t u] num_one [of ph "\<lambda>p. p = Erasing s" t u]
      num_one [of ph "bare s" t u] f c(2-4) by cases simp_all
qed

lemma owner_alive: "api_inv (w, ph) \<Longrightarrow> owner s (ph t) \<Longrightarrow> live w s"
  using inv_at(2-4) [of w ph] counts_of(6) [of w ph s] unfolding owner_def draining_def drained_def by fastforce

text \<open>
  C2: A call of a client that holds a reference never uses a destroyed stream, in whatever way
  the calls of all threads interleave: the object a thread runs a method on is registered and
  its user counter positive, taking a reference never blocks while the active stream lock is
  held, at most one thread is past the point of no return of a close or an open, its object
  exists, and when it destroys the object no other thread holds a reference to it.
\<close>

theorem counted_calls_safe:
  assumes "api_reach (w, ph)"
  shows "(user s (ph t) \<longrightarrow> live w s \<and> RM_getStreamUserCounter s w > 0) \<and>
    RM_increaseStreamUserCounter s w \<noteq> None \<and>
    (owner s (ph t) \<longrightarrow> live w s \<and> (\<forall>u. owner s (ph u) \<longrightarrow> u = t)) \<and>
    (ph t = Destroying s \<longrightarrow> \<not> user s (ph u))"
proof -
  have inv: "api_inv (w, ph)" using assms by (rule api_reach_inv)
  have "RM_increaseStreamUserCounter s w \<noteq> None"
    using inv_uc [OF inv, of s]
    by (auto simp: uc_inv_def RM_increaseStreamUserCounter_def Stream_waitStreamSmph_def
        split: option.splits bool.splits if_splits)
  moreover have "user s (ph t) \<longrightarrow> live w s \<and> RM_getStreamUserCounter s w > 0"
    using inv_at(1) [OF inv, of s t] counts_of(6) [OF inv, of s] by (auto simp: RM_getStreamUserCounter_def)
  moreover have "ph t = Destroying s \<longrightarrow> \<not> user s (ph u)"
    using inv_at(1) [OF inv, of s u] inv_at(4) [OF inv, of s t] by auto
  ultimately show ?thesis using owner_unique [OF inv] owner_alive [OF inv] by blast
qed

section \<open>Progress\<close>

text \<open>How many steps a thread is away from the end of its call at most.\<close>

fun weight :: "phase \<Rightarrow> nat" where
  "weight Idle = 0"
| "weight (Calling s) = 2"
| "weight (Returning s) = 1"
| "weight (Closing s) = 4"
| "weight (Waiting s) = 3"
| "weight (Erasing s) = 2"
| "weight (Destroying s) = 1"
| "weight (Opening s) = 1"

definition total :: "threads \<Rightarrow> nat" where
  "total ph = (\<Sum>t\<in>busy ph. weight (ph t))"

lemma total_upd:
  assumes "finite (busy ph)" "weight x < weight (ph t)"
  shows "total (ph(t := x)) < total ph"
proof -
  have t: "t \<in> busy ph" using assms(2) by (cases "ph t") (simp_all add: busy_def)
  have o: "total (ph(t := x)) = (\<Sum>u\<in>busy ph. weight ((ph(t := x)) u))"
    unfolding total_def by (rule sum.mono_neutral_left) (use assms(1) t in \<open>auto simp: busy_def\<close>)
  show ?thesis
    unfolding o unfolding total_def by (rule sum_strict_mono_ex1) (use assms t in auto)
qed

lemma goes_on_total: "goes_on st st' \<Longrightarrow> finite (busy (snd st)) \<Longrightarrow> total (snd st') < total (snd st)"
  by (induction rule: goes_on.induct) (auto intro!: total_upd)

lemma goes_on_steps:
  assumes "(goes_on ^^ n) st st'" "api_inv st"
  shows "n + total (snd st') \<le> total (snd st) \<and> api_inv st'"
  using assms
proof (induction n arbitrary: st')
  case (Suc n)
  then obtain st1 where s: "(goes_on ^^ n) st st1" "goes_on st1 st'" by auto
  then have "n + total (snd st1) \<le> total (snd st)" "api_inv st1" using Suc.IH Suc.prems(2) by auto
  then show ?case using goes_on_total [OF s(2)] inv_goes_on [OF s(2)] by (auto simp: api_inv_def)
qed simp

lemma user_moves: "user s (ph t) \<Longrightarrow> \<exists>st'. goes_on (w, ph) st'"
  unfolding user_def using g_method [of ph t s w w] g_leave [of ph t s w, OF _ surjective_pairing] by blast

text \<open>A closer waits only for threads that can go on.\<close>

lemma waiting_moves:
  assumes inv: "api_inv (w, ph)" and p: "ph t = Waiting s"
  shows "\<exists>st'. goes_on (w, ph) st'"
proof (cases "deactivateStreamUserCounter_exit s w")
  case None
  obtain n v where n: "counter w s = Some (n, False)" "sem w s = Some v"
    using inv_at(2) [OF inv p] by (auto simp: draining_def)
  then have "n > 0"
    using None inv_uc [OF inv, of s]
    by (auto simp: deactivateStreamUserCounter_exit_def Stream_waitStreamSmph_def uc_inv_def split: if_splits)
  then have "num ph (user s) > 0" using counts_of(1) [OF inv, of s] n by simp
  then show ?thesis using num_posD user_moves by blast
next
  case (Some w')
  then show ?thesis using g_wait [of ph t s w w'] p by blast
qed

lemma busy_moves:
  assumes inv: "api_inv (w, ph)" and "ph t \<noteq> Idle"
  shows "\<exists>st'. goes_on (w, ph) st'"
proof -
  obtain w' where u: "\<And>s. unmade s w (w' s)"
    by (rule that [of "\<lambda>s. w\<lparr>wrm := (wrm w)\<lparr>mActiveStreams := remove1 s (mActiveStreams (wrm w))\<rparr>\<rparr>"])
       (simp add: unmade_def life_def)
  show ?thesis
  proof (cases "ph t")
    case (Calling s) then show ?thesis by (intro user_moves [of s ph t]) simp
  next
    case (Returning s) then show ?thesis by (intro user_moves [of s ph t]) simp
  next
    case (Closing s) then show ?thesis using g_deactivate [OF _ refl surjective_pairing] by blast
  next
    case (Waiting s) then show ?thesis by (rule waiting_moves [OF inv])
  next
    case (Erasing s) then show ?thesis using g_erase [OF _ refl surjective_pairing] by blast
  next
    case (Destroying s) then show ?thesis using g_destroy [OF _ u] by blast
  next
    case (Opening s) then show ?thesis using g_open_failed [OF _ u] by blast
  qed (use assms(2) in simp)
qed


section \<open>Examples\<close>

text \<open>Thread 0 opens the stream 4; then thread 1 enters a call on it.\<close>

definition ex_none :: world where
  "ex_none = (demo_world [3] 1)\<lparr>wstr := (\<lambda>s. (demo_stream [3] 1)\<lparr>mInUse := None\<rparr>)\<rparr>"

definition ex_made :: world where
  "ex_made = ex_none\<lparr>wrm := (wrm ex_none)\<lparr>mActiveStreams := [4]\<rparr>\<rparr>"

definition ex_open :: world where
  "ex_open = snd (run_state (stream_step 4 RM_initStreamUserCounter) ex_made)"

definition ex_used :: world where
  "ex_used = snd (run_state (stream_enter 4) ex_open)"

lemmas ex_defs = ex_none_def ex_made_def ex_open_def ex_used_def demo_defs run_stream_step
  set_counter_def set_sem_def

lemma idle_upd [simp]: "all_idle(t := Idle) = all_idle" "all_idle t = Idle"
  by (simp_all add: all_idle_def fun_eq_iff)

lemma reach_begin: "api_reach st \<Longrightarrow> begins st st' \<Longrightarrow> api_reach st'"
  using r_step [of st] by (simp add: api_step_def)

lemma reach_on: "api_reach st \<Longrightarrow> goes_on st st' \<Longrightarrow> api_reach st'"
  using r_step [of st] by (simp add: api_step_def)

lemma reach_open: "api_reach (ex_open, all_idle)"
proof -
  have a: "api_reach (ex_none, all_idle)" by (rule r_start) (simp add: no_streams_def life_def ex_defs)
  have b: "begins (ex_none, all_idle) (ex_made, all_idle(0 := Opening 4))"
    by (rule b_make) (simp_all add: made_def life_def ex_defs)
  have c: "goes_on (ex_made, all_idle(0 := Opening 4)) (ex_open, (all_idle(0 := Opening 4))(0 := Idle))"
    unfolding ex_open_def by (rule g_opened [OF _ refl surjective_pairing]) simp
  show ?thesis using reach_on [OF reach_begin [OF a b] c] by simp
qed

lemma reach_used: "api_reach (ex_used, all_idle(1 := Calling 4))"
proof -
  have e: "run_state (stream_enter 4) ex_open = (Some 0, ex_used)"
    by (simp add: stream_enter_def RM_isActiveStream_def RM_increaseStreamUserCounter_def
        Stream_waitStreamSmph_def RM_initStreamUserCounter_def ex_defs)
  have b: "begins (ex_open, all_idle) (ex_used, all_idle(1 := if Some 0 = Some (0::int) then Calling 4 else Idle))"
    by (rule b_enter [OF _ e]) simp
  show ?thesis using reach_begin [OF reach_open b] by simp
qed

theorem counted_calls_safe_witness: "live ex_used 4 \<and> RM_getStreamUserCounter 4 ex_used > 0"
  using counted_calls_safe [OF reach_used, of 4 1] by simp


text \<open>Two threads close the stream 4: both find the handle active, then the second runs its
  close to the end.\<close>

definition race_checked :: world where
  "race_checked = snd (run_state (close_check 4) (snd (run_state (close_check 4) ex_open)))"

definition race_deactivated :: world where
  "race_deactivated = snd (run_state (stream_step 4 deactivateStreamUserCounter_enter) race_checked)"

definition race_drained :: world where
  "race_drained = set_sem 4 None (set_sem 4 (Some 0) race_deactivated)"

definition race_erased :: world where
  "race_erased = snd (run_state (stream_step 4 RM_eraseStreamUserCounter) race_drained)"

definition race_destroyed :: world where
  "race_destroyed = race_erased\<lparr>wrm := (wrm race_erased)\<lparr>mActiveStreams := []\<rparr>\<rparr>"

lemmas race_defs = race_checked_def race_deactivated_def race_drained_def race_erased_def race_destroyed_def
  close_check_def RM_isActiveStream_def RM_initStreamUserCounter_def deactivateStreamUserCounter_enter_def
  RM_eraseStreamUserCounter_def ex_defs

lemma race_reach_checked: "api_reach (race_checked, all_idle(1 := Closing 4, 2 := Closing 4))"
proof -
  let ?w = "snd (run_state (close_check 4) ex_open)"
  have r: "run_state (close_check 4) ex_open = (True, ?w)" "run_state (close_check 4) ?w = (True, race_checked)"
    by (simp_all add: race_defs)
  have "api_reach (?w, all_idle(1 := Closing 4))"
    using reach_begin [OF reach_open b_check [OF _ r(1), of _ 1]] by simp
  from reach_begin [OF this b_check [OF _ r(2), of _ 2]] show ?thesis by simp
qed

lemma race_reach_drained: "api_reach (race_drained, all_idle(1 := Closing 4, 2 := Erasing 4))"
proof -
  let ?ph = "all_idle(1 := Closing 4, 2 := Closing 4)"
  have r: "run_state (stream_step 4 deactivateStreamUserCounter_enter) race_checked = (0, race_deactivated)"
    by (simp add: race_defs)
  have x: "deactivateStreamUserCounter_exit 4 race_deactivated = Some race_drained"
    by (simp add: deactivateStreamUserCounter_exit_def Stream_waitStreamSmph_def race_defs)
  have a: "goes_on (race_checked, ?ph) (race_deactivated, ?ph(2 := if 0 = (0::int) then Waiting 4 else Idle))"
    by (rule g_deactivate [OF _ refl r]) simp
  have b: "goes_on (race_deactivated, ?ph(2 := Waiting 4)) (race_drained, (?ph(2 := Waiting 4))(2 := Erasing 4))"
    by (rule g_wait [OF _ x]) simp
  have "api_reach (race_deactivated, ?ph(2 := Waiting 4))" using reach_on [OF race_reach_checked a] by simp
  from reach_on [OF this b] show ?thesis by simp
qed

text \<open>
  C26: Two threads that close the same stream race: a state is reachable in which one of them has
  found the handle active and is about to call the methods of the stream, while the other has
  destroyed the object. The reference a counted call takes is missing here.
\<close>

theorem concurrent_close_uses_freed:
  "api_reach (race_destroyed, all_idle(1 := Closing 4)) \<and> \<not> live race_destroyed 4"
proof -
  let ?ph = "all_idle(1 := Closing 4, 2 := Erasing 4)"
  have a: "goes_on (race_drained, ?ph) (race_erased, ?ph(2 := Destroying 4))"
    unfolding race_erased_def by (rule g_erase [OF _ refl surjective_pairing]) simp
  have b: "goes_on (race_erased, ?ph(2 := Destroying 4)) (race_destroyed, (?ph(2 := Destroying 4))(2 := Idle))"
    by (rule g_destroy) (simp_all add: unmade_def life_def race_defs)
  have i: "all_idle(1 := Closing 4, 2 := Idle) = all_idle(1 := Closing 4)"
    by (simp add: fun_eq_iff all_idle_def)
  have "api_reach (race_destroyed, all_idle(1 := Closing 4))"
    using reach_on [OF reach_on [OF race_reach_drained a] b] i by simp
  then show ?thesis by (simp add: race_destroyed_def)
qed

end
