(* ===== verification/Api_Refine.thy ===== *)
theory Api_Refine
  imports Api_Threads
begin

text \<open>
  A single client, one call after the other, is one of the interleavings of \<^verbatim>\<open>Api_Threads\<close>: the
  programs of \<^verbatim>\<open>Pal_Api\<close> take exactly the steps the threads take.  The stream classes enter as a
  contract: their methods leave the registers and the user counters alone, the constructor
  registers the object and the destructor takes it out.
\<close>

section \<open>What the utilities for sound trigger streams leave alone\<close>

locale calm_streams =
  fixes SV :: stream_vt and f :: "world \<Rightarrow> 'b"
  assumes calm_log: "f (w\<lparr>wlog := l\<rparr>) = f w"
    and calm_stu: "f (w\<lparr>wstu := u\<rparr>) = f w"
    and calm_queries: "keeps f (sv_isActive SV t)" "keeps f (sv_IsStreamInBuffering SV t)"
      "keeps f (sv_GetCurrentCaptureProfile SV t)" "keeps f (sv_ConfigSupportLPI SV t)"
    and calm_calls: "keeps f (sv_Pause SV t b)" "keeps f (sv_Resume SV t b)"
      "keeps f (sv_HandleConcurrentStream SV t b)" "keeps f (sv_DisconnectDevice SV t i)"
      "keeps f (sv_ConnectDevice SV t i)" "keeps f (sv_start_l SV t)"
begin

lemma c_upd_stu: "keeps f (upd_stu g)"
  by (simp add: keeps_def calm_stu)

lemmas c_steps = kp_log [of f, OF calm_log] kp_bind kp_if kp_when kp_cases kp_let kp_pure c_upd_stu

lemma c_attributes: "keeps f (Stream_getStreamAttributes s)"
  unfolding Stream_getStreamAttributes_def by (rule c_steps)+

lemma c_profile_loop: "keeps f (profile_loop SV na om s be ts p)"
  by (induction ts arbitrary: p) (auto simp del: if_split intro!: c_steps calm_queries)

lemma c_profiles: "keeps f (GetCaptureProfileByPriority SV s be)" "keeps f (settle_profiles st tx)"
  unfolding GetCaptureProfileByPriority_def GetSVACaptureProfileByPriority_def
    GetACDCaptureProfileByPriority_def GetSPDCaptureProfileByPriority_def
    GetASRCaptureProfileByPriority_def profile_by_priority_def settle_profiles_def
  by (rule c_steps c_attributes c_profile_loop)+

lemma c_act_on: "keeps f (act_on SV a t st)"
  by (cases "(SV, a, t, st)" rule: act_on.cases) (auto simp del: if_split intro!: c_steps calm_calls)

lemma c_act_on_all: "keeps f (act_on_all SV ty a ts st)"
  by (induction ts arbitrary: st)
     (auto simp del: if_split simp: RM_isStreamActive_def intro!: c_steps c_attributes c_act_on)

lemma c_action: "keeps f (HandleDetectionStreamAction SV ty a)"
  unfolding HandleDetectionStreamAction_def by (rule c_steps c_act_on_all)+

lemma c_act_for_types: "keeps f (act_for_types SV a ts)"
  by (induction ts) (auto intro!: c_steps c_action)

lemma c_switch: "keeps f (handleConcurrentStreamSwitch SV ts)"
  unfolding handleConcurrentStreamSwitch_def refresh_profiles_def
  by (rule c_steps c_act_for_types c_profiles)+

lemma c_any_buffering: "keeps f (any_buffering SV ts)"
  by (induction ts) (auto simp del: if_split intro!: c_steps calm_queries)

lemma c_buffering: "keeps f (RM_isAnyStreamBuffering SV)"
  unfolding RM_isAnyStreamBuffering_def by (rule c_steps c_any_buffering)+

lemma c_resources: "keeps f (resources_available l)"
  by (induction l rule: resources_available.induct) (auto intro!: c_steps)

lemma c_start_deferred: "keeps f (start_deferred SV l)"
  by (induction l) (auto intro!: c_steps calm_calls)

lemma c_deferred: "keeps f (stHandleDeferredSwitch E SV)"
  unfolding stHandleDeferredSwitch_def deferred_switch_def ask_def
  by (rule c_steps c_buffering c_switch c_start_deferred)+

lemma c_pause_resume: "keeps f (HandleStreamPauseResume SV ty b)"
  unfolding HandleStreamPauseResume_def by (rule c_steps c_action)+

lemma c_pause_types: "keeps f (pause_types SV c b ts n)"
  by (induction ts arbitrary: n) (auto simp del: if_split intro!: c_steps c_pause_resume)

lemma c_info: "keeps f (GetConcurrencyInfo SV s)"
  unfolding GetConcurrencyInfo_def by (rule c_steps c_attributes calm_queries)+

lemma c_plan: "keeps f (plan_switch s b l)"
  unfolding plan_switch_def registerNLPIStream_def deregisterNLPIStream_def by (rule c_steps)+

lemma c_defer: "keeps f (checkAndUpdateDeferSwitchState SV b)"
  unfolding checkAndUpdateDeferSwitchState_def by (rule c_steps c_buffering)+

lemma c_concurrency: "keeps f (HandleConcurrencyForSoundTriggerStreams SV s b)"
  unfolding HandleConcurrencyForSoundTriggerStreams_def conc_plan_def conc_settle_def
  by (rule c_steps c_info c_plan c_defer c_resources c_switch c_pause_types)+

end

section \<open>What is observed\<close>

text \<open>What is observed of the streams: their life, and which have attributes.\<close>

definition owned :: "world \<Rightarrow> (nat list \<times> (nat \<Rightarrow> (nat \<times> bool) option) \<times> (nat \<Rightarrow> int option)) \<times> nat set" where
  "owned w = (life w, {s. mStreamAttr (wstr w s) \<noteq> None})"

definition has_attr :: "world \<Rightarrow> nat \<Rightarrow> bool" where
  "has_attr w s \<longleftrightarrow> mStreamAttr (wstr w s) \<noteq> None"

lemma ownedD:
  assumes "owned w' = owned w"
  shows "life w' = life w" "has_attr w' s = has_attr w s"
  using assms by (auto simp: owned_def has_attr_def)

lemma has_attr_log [simp]: "has_attr (w\<lparr>wlog := l\<rparr>) s = has_attr w s"
  by (simp add: has_attr_def)

lemma owned_log [simp]: "owned (w\<lparr>wlog := l\<rparr>) = owned w"
  by (simp add: owned_def life_def)

section \<open>The calls of a single client\<close>

text \<open>The states of a single client between two calls: reachable, nobody else in a call, and every
  stream has attributes.\<close>

definition between :: "world \<Rightarrow> bool" where
  "between w \<longleftrightarrow> api_reach (w, all_idle) \<and> (\<forall>s. live w s \<longrightarrow> has_attr w s)"

lemma reach_other: "api_reach (w, ph) \<Longrightarrow> life w' = life w \<Longrightarrow> api_reach (w', ph)"
  by (rule reach_begin, assumption) (rule b_other)

lemma between_kept:
  assumes "between w" "owned w' = owned w"
  shows "between w'"
proof -
  note o = ownedD [OF assms(2)]
  have "api_reach (w', all_idle)" using assms(1) reach_other [OF _ o(1)] by (simp add: between_def)
  then show ?thesis using assms(1) by (simp add: between_def o(2) lifeD(1) [OF o(1)])
qed

lemma between_keeps: "between w \<Longrightarrow> keeps owned m \<Longrightarrow> between (snd (run_state m w))"
  using between_kept keeps_snd by blast

text \<open>No section registers a stream or touches its attributes.\<close>

definition known :: "world \<Rightarrow> nat list \<times> nat set" where
  "known w = (mActiveStreams (wrm w), {s. has_attr w s})"

lemma knownD:
  "known w' = known w \<Longrightarrow> mActiveStreams (wrm w') = mActiveStreams (wrm w)"
  "known w' = known w \<Longrightarrow> has_attr w' s = has_attr w s"
  by (auto simp: known_def)

lemma known_sections:
  "known (snd (run_state (stream_enter s) w)) = known w"
  "known (snd (run_state (stream_leave s) w)) = known w"
  "known (snd (run_state (stream_step s RM_eraseStreamUserCounter) w)) = known w"
  "known (snd (run_state (stream_step s RM_initStreamUserCounter) w)) = known w"
  "known (snd (run_state (stream_step s deactivateStreamUserCounter_enter) w)) = known w"
  "deactivateStreamUserCounter_exit s w = Some w' \<Longrightarrow> known w' = known w"
  by (auto simp: known_def has_attr_def stream_enter_def stream_leave_def RM_isActiveStream_def run_stream_step
      uc_defs split: option.splits bool.splits if_splits prod.splits)

lemma known_owned: "owned w' = owned w \<Longrightarrow> known w' = known w"
  using ownedD [of w' w] lifeD(1) [of w' w] by (simp add: known_def)

lemma betweenI:
  assumes "between w" "known w' = known w" "api_reach (w', all_idle)"
  shows "between w'"
  using assms knownD [OF assms(2)] by (simp add: between_def)

text \<open>A counted call enters, runs its method and leaves.\<close>

lemma counted_path:
  assumes b: "between w" and m: "keeps owned body" and k: "\<And>x. keeps owned (k x)"
  shows "between (snd (run_state (counted s body k) w))"
proof -
  obtain e w1 where e: "run_state (stream_enter s) w = (e, w1)" by fastforce
  have k1: "known w1 = known w" using known_sections(1) [of s w] e by simp
  have reach: "api_reach (w, all_idle)" and inv: "api_inv (w, all_idle)"
    using b api_reach_inv by (auto simp: between_def)
  show ?thesis
  proof (cases "e = Some 0")
    case False
    then have "owned w1 = owned w"
      using enter_life(2) [OF e inv_uc [OF inv]] k1 by (simp add: owned_def known_def has_attr_def)
    then have "between w1" using between_kept [OF b] by simp
    then show ?thesis using False by (simp add: counted_def e split: option.split)
  next
    case True
    obtain x w2 where x: "run_state body w1 = (x, w2)" by fastforce
    obtain y w3 where y: "run_state (stream_leave s) w2 = (y, w3)" by (rule prod.exhaust)
    have o: "owned w2 = owned w1" by (rule keepsD [OF m x])
    have "api_reach (w1, all_idle(0 := Calling s))"
      using reach_begin [OF reach b_enter [OF _ e, of all_idle 0]] True by simp
    from reach_on [OF this g_method [OF _ ownedD(1) [OF o], of _ 0 s]]
    have r2: "api_reach (w2, all_idle(0 := Returning s))" by simp
    from reach_on [OF r2 g_leave [OF _ y, of _ 0]] have r3: "api_reach (w3, all_idle)" by simp
    have "known w3 = known w" using known_sections(2) [of s w2] y known_owned [OF o] k1 by simp
    then have "between w3" using betweenI [OF b _ r3] by simp
    then show ?thesis using between_keeps [OF _ k] True by (simp add: counted_def e x y)
  qed
qed

section \<open>Sequences of calls\<close>

datatype api_op =
  OpenOp nat pal_stream_attributes "pal_device list" "nat option" nat | CloseOp nat | StartOp nat | StopOp nat
| GetParamOp nat nat nat | SetParamOp nat nat bool | SetVolumeOp nat pal_volume_data | SetMuteOp nat bool
| DrainOp nat nat | SetDeviceOp nat "pal_device list" | PauseOp nat | ResumeOp nat | FlushOp nat
| SuspendOp nat | WriteOp nat nat | ReadOp nat nat | EffectOp nat nat bool | TimestampOp nat bool
| MmapPositionOp nat | MmapBufferOp nat int | MixerEventOp nat nat

text \<open>One call; the result is \<open>False\<close> if it ends in an exception.\<close>

definition done_with :: "'a io \<Rightarrow> bool io" where
  "done_with m = do { m; return True }"

fun api_do :: "env \<Rightarrow> api_vt \<Rightarrow> stream_vt \<Rightarrow> bool \<Rightarrow> api_op \<Rightarrow> bool io" where
  "api_do E V SV wsa (OpenOp s a ds cb ck) = do {
     r \<leftarrow> pal_stream_open E V SV wsa s (Some a) (length ds) (Some ds) cb ck;
     return (r \<noteq> None)
   }"
| "api_do E V SV wsa (CloseOp h) = done_with (pal_stream_close E V SV (Some h))"
| "api_do E V SV wsa (StartOp h) = done_with (pal_stream_start E V SV (Some h))"
| "api_do E V SV wsa (StopOp h) = done_with (pal_stream_stop E V (Some h))"
| "api_do E V SV wsa (GetParamOp h p n) = done_with (pal_stream_get_param V (Some h) p n)"
| "api_do E V SV wsa (SetParamOp h p b) = done_with (pal_stream_set_param E V SV (Some h) p b)"
| "api_do E V SV wsa (SetVolumeOp h v) = done_with (pal_stream_set_volume V (Some h) (Some v))"
| "api_do E V SV wsa (SetMuteOp h b) = done_with (pal_stream_set_mute V (Some h) b)"
| "api_do E V SV wsa (DrainOp h t) = done_with (pal_stream_drain V (Some h) t)"
| "api_do E V SV wsa (SetDeviceOp h ds) = done_with (pal_stream_set_device E V (Some h) (Some ds))"
| "api_do E V SV wsa (PauseOp h) = done_with (pal_stream_pause V (Some h))"
| "api_do E V SV wsa (ResumeOp h) = done_with (pal_stream_resume V (Some h))"
| "api_do E V SV wsa (FlushOp h) = done_with (pal_stream_flush V (Some h))"
| "api_do E V SV wsa (SuspendOp h) = done_with (pal_stream_suspend V (Some h))"
| "api_do E V SV wsa (WriteOp h n) = done_with (pal_stream_write V (Some h) (Some n))"
| "api_do E V SV wsa (ReadOp h n) = done_with (pal_stream_read V (Some h) (Some n))"
| "api_do E V SV wsa (EffectOp h e b) = done_with (pal_add_remove_effect V (Some h) e b)"
| "api_do E V SV wsa (TimestampOp h b) = done_with (pal_get_timestamp E (Some h) b)"
| "api_do E V SV wsa (MmapPositionOp h) = done_with (pal_stream_get_mmap_position V (Some h))"
| "api_do E V SV wsa (MmapBufferOp h n) = done_with (pal_stream_create_mmap_buffer V (Some h) n)"
| "api_do E V SV wsa (MixerEventOp h e) = done_with (Stream_mixerEventCallbackEntry V h e)"

text \<open>A run; an exception ends it.  \<open>fresh_opens\<close>: the allocator hands out addresses that are not
  in use, and every stream is opened with a device.\<close>

fun api_run :: "env \<Rightarrow> api_vt \<Rightarrow> stream_vt \<Rightarrow> bool \<Rightarrow> api_op list \<Rightarrow> bool io" where
  "api_run E V SV wsa [] = return True"
| "api_run E V SV wsa (op # ops) = do {
     ok \<leftarrow> api_do E V SV wsa op;
     if ok then api_run E V SV wsa ops else return False
   }"

fun fresh_op :: "api_op \<Rightarrow> world \<Rightarrow> bool" where
  "fresh_op (OpenOp s a ds cb ck) w \<longleftrightarrow> \<not> live w s \<and> ds \<noteq> []"
| "fresh_op op w \<longleftrightarrow> True"

fun fresh_opens :: "env \<Rightarrow> api_vt \<Rightarrow> stream_vt \<Rightarrow> bool \<Rightarrow> api_op list \<Rightarrow> world \<Rightarrow> bool" where
  "fresh_opens E V SV wsa [] w \<longleftrightarrow> True"
| "fresh_opens E V SV wsa (op # ops) w \<longleftrightarrow>
     fresh_op op w \<and> fresh_opens E V SV wsa ops (snd (run_state (api_do E V SV wsa op) w))"

definition created_at :: "nat \<Rightarrow> bool \<Rightarrow> world \<Rightarrow> world \<Rightarrow> bool" where
  "created_at s ok w w' \<longleftrightarrow> (if ok then made s w w' \<and> has_attr w' s else life w' = life w) \<and>
     (\<forall>x. x \<noteq> s \<longrightarrow> has_attr w' x = has_attr w x)"

lemma created_after: "owned w1 = owned w \<Longrightarrow> created_at s ok w1 w' \<Longrightarrow> created_at s ok w w'"
  using ownedD [of w1 w] by (auto simp: created_at_def made_def)

lemma created_before: "created_at s ok w w1 \<Longrightarrow> owned w' = owned w1 \<Longrightarrow> created_at s ok w w'"
  using ownedD [of w' w1] by (auto simp: created_at_def made_def)

lemma created_fresh: "created_at s False w w' \<Longrightarrow> live w' s = live w s"
  using lifeD(1) [of w' w] by (simp add: created_at_def)

lemma made_unmade: "made s w w1 \<Longrightarrow> unmade s w1 w' \<Longrightarrow> \<not> live w s \<Longrightarrow> life w' = life w"
  by (auto simp: made_def unmade_def life_def remove1_append)

text \<open>Between two calls of a single client nobody holds a reference: the registered streams are
  exactly those with a free, active counter.\<close>

lemma between_counters:
  assumes "between w"
  shows "live w s \<longleftrightarrow> counter w s = Some (0, True)" "live w s \<longrightarrow> sem w s = Some 1"
proof -
  have inv: "api_inv (w, all_idle)" using assms api_reach_inv by (simp add: between_def)
  have n: "num all_idle P = 0" if "\<not> P Idle" for P using that by (simp add: num_def all_idle_def)
  have z: "num all_idle (user s) = 0" "num all_idle (bare s) = 0" by (simp_all add: n)
  note c = counts_of [OF inv, of s, unfolded z]
  have d: "\<not> draining w s" "\<not> drained w s"
    using c(2,3) n [of "\<lambda>p. p = Waiting s"] n [of "\<lambda>p. p = Erasing s"] by (auto split: if_splits)
  show "live w s \<longleftrightarrow> counter w s = Some (0, True)"
    using c d by (cases "counter w s") (auto simp: draining_def drained_def)
  then show "live w s \<longrightarrow> sem w s = Some 1"
    using c(5) by (auto simp: uc_inv_def split: option.splits)
qed

section \<open>The contract of a stream class\<close>

locale stream_class = calm_streams SV owned for SV :: stream_vt +
  fixes V :: api_vt
  assumes cls_methods: "keeps owned (av_open V s)" "keeps owned (av_close V s)" "keeps owned (av_start V s)"
      "keeps owned (av_stop V s)" "keeps owned (av_pause V s)" "keeps owned (av_resume V s)"
      "keeps owned (av_flush V s)" "keeps owned (av_suspend V s)"
    and cls_data: "keeps owned (av_drain V s n)" "keeps owned (av_write V s n)" "keeps owned (av_read V s n)"
      "keeps owned (av_getParameters V s n m)" "keeps owned (av_setParameters V s n b)"
      "keeps owned (av_setVolume V s v)" "keeps owned (av_mute V s b)"
      "keeps owned (av_addRemoveEffect V s n b)" "keeps owned (av_switchDevice V s ds)"
      "keeps owned (av_createMmapBuffer V s k)" "keeps owned (av_GetMmapPosition V s)"
      "keeps owned (av_registerCallBack V s n m)" "keeps owned (av_HandleCallback V s n)"
    and cls_create: "run_state (av_create V s a ds) w = (Some ok, w') \<Longrightarrow> ds \<noteq> [] \<Longrightarrow> \<not> live w s \<Longrightarrow>
      (if ok then made s w w' \<and> has_attr w' s else life w' = life w) \<and> (\<forall>x. x \<noteq> s \<longrightarrow> has_attr w' x = has_attr w x)"
    and cls_delete: "run_state (av_delete V s) w = (x, w') \<Longrightarrow> has_attr w s \<Longrightarrow>
      unmade s w w' \<and> (\<forall>x. x \<noteq> s \<longrightarrow> has_attr w' x = has_attr w x)"
begin

lemma o_upd_str: "(\<And>x. mInUse (g x) = mInUse x \<and> mStreamAttr (g x) = mStreamAttr x) \<Longrightarrow> keeps owned (upd_str s g)"
  by (auto simp: keeps_def owned_def life_def fun_eq_iff)

lemma o_upd_rm:
  "(\<And>x. mActiveStreams (g x) = mActiveStreams x \<and> mActiveStreamUserCounter (g x) = mActiveStreamUserCounter x) \<Longrightarrow>
   keeps owned (upd_rm g)"
  by (auto simp: keeps_def owned_def life_def)

lemma o_upd_dev: "keeps owned (upd_dev d g)"
  by (simp add: keeps_def owned_def life_def)

lemmas o_steps = o_upd_str o_upd_rm o_upd_dev c_steps cls_methods cls_data c_deferred c_concurrency kp_for_each

lemma o_device:
  "keeps owned (Device_getInstance E a)" "keeps owned (Device_getSndDeviceId d)"
  "keeps owned (Device_getDeviceAttributes d b x)"
  unfolding Device_getInstance_def Device_getSndDeviceId_def Device_getDeviceAttributes_def Let_def
  by (rule o_steps | simp)+

lemma o_config: "keeps owned (RM_getDeviceConfig E j a sa)"
  unfolding RM_getDeviceConfig_def by (rule o_device o_steps | simp)+

lemma o_small:
  "keeps owned (attr_type s)" "keeps owned (Stream_getAssociatedDevices s l)" "keeps owned (Stream_getPalDevices s l)"
  "keeps owned (notify_start_stop E k t ds)" "keeps owned (notify_switch E ds as)"
  "keeps owned (Stream_setCachedState s st)" "keeps owned (Stream_getStreamType s)"
  unfolding attr_type_def Stream_getStreamAttributes_def Stream_getAssociatedDevices_def Stream_getPalDevices_def
    notify_start_stop_def notify_switch_def Stream_setCachedState_def Stream_getStreamType_def
  by (rule o_steps | simp)+

lemma o_same: "keeps owned (same_devices s as ds ps)"
proof -
  have k: "keeps owned (key_differs s d as)" for d
    by (induction as) (auto simp del: if_split intro!: o_device o_steps)
  have "keeps owned (force_switch s as b ps)" for b ps
    by (induction ps) (auto simp del: if_split intro!: k o_steps)
  then show ?thesis unfolding same_devices_def by (intro o_steps) auto
qed

lemma o_configs: "keeps owned (device_configs E sa as)"
  by (induction as) (auto simp del: if_split intro!: o_config o_steps)

lemma o_set_device: "keeps owned (set_device_body E V s as)"
  unfolding set_device_body_def Stream_getStreamAttributes_def
  by (rule o_same o_configs o_small o_steps | simp)+

lemmas o_rules = o_set_device o_small o_steps

subsection \<open>Opening\<close>

lemma create_attempt_path:
  assumes r: "run_state (create_attempt E V s a ds) w = (Some (null, ok), w')" and ds: "ds \<noteq> []" and f: "\<not> live w s"
  shows "created_at s ok w w'"
proof -
  let ?w0 = "w\<lparr>wlog := Rm (OpenPlugin (stype a)) # wlog w\<rparr>"
  have supp: "keeps owned (stream_supported E s b n)" for b n
    unfolding stream_supported_def by (rule o_steps)+
  show ?thesis
  proof (cases "ans E (wlog w) (Rm (OpenPlugin (stype a))) = 0")
    case False
    then obtain w1 where "run_state (stream_supported E s False (length ds)) ?w0 = (ok, w1)" "w' = w1"
      using r by (auto simp: create_attempt_def split: prod.splits)
    then have "owned w' = owned w" using keepsD [OF supp] by fastforce
    moreover have "\<not> ok"
      using False r by (auto simp: create_attempt_def stream_supported_def RM_isStreamSupported_def)
    ultimately show ?thesis using ownedD [of w' w] by (simp add: created_at_def)
  next
    case True
    obtain b w1 where c: "run_state (av_create V s a ds) ?w0 = (Some b, w1)"
      using r True by (auto simp: create_attempt_def split: prod.splits option.splits)
    have c1: "created_at s b w w1"
      using cls_create [OF c ds] f by (cases b) (simp_all add: created_at_def made_def has_attr_def)
    show ?thesis
    proof (cases b)
      case False
      then show ?thesis using r True c c1 by (simp add: create_attempt_def)
    next
      case b: True
      obtain w2 where s2: "run_state (stream_supported E s True (length ds)) w1 = (ok, w2)"
        and w': "w' = (if ok then w2 else snd (run_state (av_delete V s) w2))"
        using r True c b by (auto simp: create_attempt_def split: prod.splits if_splits)
      have c2: "created_at s True w w2" using created_before [OF c1] keepsD [OF supp s2] b by simp
      show ?thesis
      proof (cases ok)
        case False
        then have d: "run_state (av_delete V s) w2 = (fst (run_state (av_delete V s) w2), w')"
          using w' by (simp add: prod_eq_iff)
        show ?thesis
          using cls_delete [OF d] c2 False made_unmade [of s w w2 w'] f by (auto simp: created_at_def)
      qed (use c2 w' in simp)
    qed
  qed
qed

lemma create_stream_path:
  assumes r: "run_state (create_stream E V s a ds) w = (Some (ok, t), w')" and ds: "ds \<noteq> []" and f: "\<not> live w s"
  shows "created_at s ok w w'"
proof -
  obtain null ok1 w1 where a: "run_state (create_attempt E V s a ds) w = (Some (null, ok1), w1)"
    using r by (auto simp: create_stream_def split: prod.splits option.splits)
  note c1 = create_attempt_path [OF a ds f]
  show ?thesis
  proof (cases "null \<or> ok1 \<or> stype a \<noteq> PAL_STREAM_VOICE_RECOGNITION")
    case True
    then show ?thesis using r a c1 by (auto simp: create_stream_def)
  next
    case False
    then obtain n2 w2 where b: "run_state (create_attempt E V s (a\<lparr>stype := PAL_STREAM_DEEP_BUFFER\<rparr>) ds) w1 = (Some (n2, ok), w2)"
      "w' = w2"
      using r a by (auto simp: create_stream_def split: prod.splits option.splits)
    have c1': "created_at s False w w1" using c1 False by simp
    have "created_at s ok w1 w2" using create_attempt_path [OF b(1) ds] created_fresh [OF c1'] f by simp
    then show ?thesis using c1' b(2) by (auto simp: created_at_def made_def)
  qed
qed

lemma create_devices_length:
  "run_state (create_devices E wsa a i ds) w = ((0, bs), w') \<Longrightarrow> length bs = length ds"
proof (induction ds arbitrary: i w bs)
  case (Cons d ds)
  then show ?case
    by (auto elim!: run_bindE simp: Let_def split: prod.splits if_splits)
qed simp

lemma o_create_devices: "keeps owned (create_devices E wsa a i ds)"
  by (induction ds arbitrary: i) (auto simp del: if_split simp: Let_def intro!: o_config o_steps)

lemma Stream_create_path:
  assumes r: "run_state (Stream_create E V wsa s (Some a) (length ds) (Some ds)) w = (Some (ok, t), w')"
    and ds: "ds \<noteq> []" and f: "\<not> live w s"
  shows "created_at s ok w w'"
proof -
  let ?w0 = "w\<lparr>wlog := AllocFails (length ds) # Lock BaseStreamMutex # wlog w\<rparr>"
  have inner: "created_at s ok w w1" if c: "run_state (create_stream E V s a ds') w0 = (Some (ok, t), w1)"
    and o: "owned w0 = owned w" and "ds' \<noteq> []" for ds' w0 w1
  proof (rule created_after [OF o create_stream_path [OF c \<open>ds' \<noteq> []\<close>]])
    show "\<not> live w0 s" using f lifeD(1) [OF ownedD(1) [OF o]] by simp
  qed
  have unl: "created_at s b w w1 \<Longrightarrow> created_at s b w (w1\<lparr>wlog := l\<rparr>)" for b w1 l
    by (rule created_before) simp_all
  show ?thesis
  proof (cases "ans E (Lock BaseStreamMutex # wlog w) (AllocFails (length ds)) = 0")
    case False
    then show ?thesis using r by (auto simp: Stream_create_def created_at_def has_attr_def)
  next
    case alloc: True
    consider "stype a \<in> set no_device_types" | "stype a \<notin> set no_device_types" "stype a = PAL_STREAM_SENSOR_PCM_DATA"
      | "stype a \<notin> set no_device_types" "stype a \<noteq> PAL_STREAM_SENSOR_PCM_DATA" by blast
    then show ?thesis
    proof cases
      case 1
      then show ?thesis
        using r alloc ds by (auto simp: Stream_create_def split: prod.splits intro!: unl inner)
    next
      case 2
      then show ?thesis
        using r alloc ds by (auto simp: Stream_create_def split: prod.splits list.splits intro!: unl inner)
    next
      case 3
      obtain st bs w1 where d: "run_state (create_devices E wsa a 0 ds) ?w0 = ((st, bs), w1)" by (metis prod.exhaust)
      have o: "owned w1 = owned w" using keepsD [OF o_create_devices d] by simp
      show ?thesis
      proof (cases "st = 0")
        case False
        have "created_at s False w w1" by (simp add: created_at_def ownedD [OF o])
        then show ?thesis
          using r alloc 3 d False by (auto simp: Stream_create_def intro!: unl)
      next
        case True
        then have "bs \<noteq> []" using create_devices_length [of E wsa a 0 ds ?w0 bs w1] d ds by auto
        then show ?thesis
          using r alloc 3 d True o
          by (auto simp: Stream_create_def split: prod.splits if_splits intro!: unl inner)
      qed
    qed
  qed
qed

lemma o_open_parts:
  "keeps owned (Stream_handleStreamCreateFailure t cb)" "keeps owned (notify_concurrent_stream SV s b)"
  "keeps owned (close_notify SV s)"
  unfolding Stream_handleStreamCreateFailure_def notify_concurrent_stream_def close_notify_def
  by (rule o_small o_steps)+

text \<open>Deleting an object whose only owner is the deleting thread.\<close>

lemma destroy_path:
  assumes r: "run_state (Stream_destroy E V (Some s)) w = (x, w')" and "has_attr w s"
  shows "unmade s w w' \<and> (\<forall>z. z \<noteq> s \<longrightarrow> has_attr w' z = has_attr w z)"
proof -
  obtain y w1 where d: "run_state (av_delete V s) w = (y, w1)" by (rule prod.exhaust)
  have "owned w' = owned w1"
    using r assms(2) d
    by (auto simp: Stream_destroy_def Stream_getStreamType_def has_attr_def split: option.splits)
  then show ?thesis
    using cls_delete [OF d assms(2)] ownedD [of w' w1] by (auto simp: unmade_def)
qed

lemma unmade_live: "unmade s w w' \<Longrightarrow> distinct (mActiveStreams (wrm w)) \<Longrightarrow> live w' z \<longleftrightarrow> live w z \<and> z \<noteq> s"
  by (auto simp: unmade_def life_def)

lemma between_destroyed:
  assumes b: "\<And>z. live w z \<Longrightarrow> has_attr w z" and ph: "all_idle(0 := p) = ph" and bare: "bare s p"
    and reach: "api_reach (w, ph)" and d: "run_state (Stream_destroy E V (Some s)) w = (x, w')"
  shows "between w'"
proof -
  have inv: "api_inv (w, ph)" using reach by (rule api_reach_inv)
  have "bare s (ph 0)" using ph bare by auto
  then have "live w s" using inv_at(4) [OF inv] by blast
  then have u: "unmade s w w'" and at: "\<forall>z. z \<noteq> s \<longrightarrow> has_attr w' z = has_attr w z"
    using destroy_path [OF d] b by blast+
  have "goes_on (w, ph) (w', ph(0 := Idle))"
    using g_destroy [of ph 0 s w w'] g_open_failed [of ph 0 s w w'] u bare ph by (auto simp: bare_def)
  then have "api_reach (w', all_idle)" using reach_on [OF reach] ph by auto
  then show ?thesis
    using at b unmade_live [OF u inv_base(2) [OF inv]] by (auto simp: between_def)
qed

lemma open_stream_path:
  assumes b: "between w" and c: "created_at s True w w0" and f: "\<not> live w s"
    and r: "run_state (open_stream E V SV s t cb ck) w0 = (x, w')"
  shows "between w'"
proof -
  have m: "made s w w0" using c by (simp add: created_at_def)
  have at: "has_attr w0 z" if "live w0 z" for z
    using c b that made_slots(1) [OF m] by (cases "z = s") (auto simp: created_at_def between_def)
  have reach: "api_reach (w0, all_idle(0 := Opening s))"
    using b f m by (intro reach_begin [OF _ b_make]) (auto simp: between_def)
  obtain st w1 where o: "run_state (av_open V s) w0 = (st, w1)" by (rule prod.exhaust)
  note o1 = keepsD [OF cls_methods(1) o]
  show ?thesis
  proof (cases "st = 0")
    case False
    let ?pre = "do { av_close V s; Stream_handleStreamCreateFailure t cb }"
    obtain y w2 where p: "run_state ?pre w1 = (y, w2)" by (rule prod.exhaust)
    have "keeps owned ?pre" by (rule o_open_parts o_steps)+
    from keepsD [OF this p] have o2: "owned w2 = owned w0" using o1 by simp
    obtain z w3 where d: "run_state (Stream_destroy E V (Some s)) w2 = (z, w3)" by (rule prod.exhaust)
    have "w' = w3" using r o p d False by (auto simp: open_stream_def split: prod.splits)
    moreover have "between w3"
    proof (rule between_destroyed [OF _ refl _ _ d])
      show "api_reach (w2, all_idle(0 := Opening s))" by (rule reach_other [OF reach ownedD(1) [OF o2]])
      show "live w2 z \<Longrightarrow> has_attr w2 z" for z using at ownedD(2) [OF o2] lifeD(1) [OF ownedD(1) [OF o2]] by simp
    qed simp
    ultimately show ?thesis by simp
  next
    case True
    let ?pre = "do { t \<leftarrow> attr_type s; when_io (\<not> isStStream t) (notify_concurrent_stream SV s True);
       (case cb of None \<Rightarrow> return 0 | Some c \<Rightarrow> av_registerCallBack V s c ck) }"
    obtain y w2 where p: "run_state ?pre w1 = (y, w2)" by (rule prod.exhaust)
    have "keeps owned ?pre" by (rule o_open_parts o_small o_steps)+
    from keepsD [OF this p] have o2: "owned w2 = owned w0" using o1 by simp
    obtain z w3 where d: "run_state (stream_step s RM_initStreamUserCounter) w2 = (z, w3)" by (rule prod.exhaust)
    have "w' = w3" using r o p d True by (auto simp: open_stream_def split: prod.splits)
    moreover have "api_reach (w3, all_idle)"
      using reach_on [OF reach g_opened [OF _ ownedD(1) [OF o2] d, of _ 0]] by simp
    moreover have "known w3 = known w0" using known_sections(4) [of s w2] d known_owned [OF o2] by simp
    ultimately show ?thesis using at knownD [of w3 w0] by (simp add: between_def)
  qed
qed

lemma open_path:
  assumes b: "between w" and f: "\<not> live w s" and ds: "ds \<noteq> []"
    and r: "run_state (pal_stream_open E V SV wsa s (Some a) (length ds) (Some ds) cb ck) w = (Some x, w')"
  shows "between w'"
proof -
  obtain ok t w0 where c: "run_state (Stream_create E V wsa s (Some a) (length ds) (Some ds)) w = (Some (ok, t), w0)"
    using r by (auto simp: pal_stream_open_def split: prod.splits option.splits)
  note cr = Stream_create_path [OF c ds f]
  show ?thesis
  proof (cases ok)
    case True
    obtain y w1 where o: "run_state (open_stream E V SV s t cb ck) w0 = (y, w1)" by (rule prod.exhaust)
    then have "w' = w1" using r c True by (auto simp: pal_stream_open_def)
    then show ?thesis using open_stream_path [OF b _ f o] cr True by simp
  next
    case False
    then have l: "life w0 = life w" and at: "\<forall>x. x \<noteq> s \<longrightarrow> has_attr w0 x = has_attr w x"
      using cr by (auto simp: created_at_def)
    have "has_attr w0 z" if "live w z" for z
      using b f at that by (cases "z = s") (auto simp: between_def)
    then have "between w0"
      using b reach_other [OF _ l] lifeD(1) [OF l] by (simp add: between_def)
    moreover obtain y w1 where o: "run_state (Stream_handleStreamCreateFailure t cb) w0 = (y, w1)" by (rule prod.exhaust)
    moreover have "w' = w1" using r c o False by (auto simp: pal_stream_open_def)
    ultimately show ?thesis using between_kept keepsD [OF o_open_parts(1) o] by simp
  qed
qed

subsection \<open>Closing\<close>

lemma wait_alone:
  assumes reach: "api_reach (w, all_idle(0 := Waiting s))"
  obtains w' where "deactivateStreamUserCounter_exit s w = Some w'"
proof -
  have inv: "api_inv (w, all_idle(0 := Waiting s))" by (rule api_reach_inv [OF reach])
  obtain n v where n: "counter w s = Some (n, False)" "sem w s = Some v"
    using inv_at(2) [OF inv, of 0 s] by (auto simp: draining_def)
  have "num (all_idle(0 := Waiting s)) (user s) = 0" by (simp add: num_def all_idle_def)
  then have "n = 0" using counts_of(1) [OF inv, of s] n by simp
  then have "v = 1" using inv_uc [OF inv, of s] n by (simp add: uc_inv_def)
  then show thesis
    using that n by (auto simp: deactivateStreamUserCounter_exit_def Stream_waitStreamSmph_def)
qed

lemma close_tail_path:
  assumes reach: "api_reach (w, all_idle(0 := Waiting s))" and at: "\<And>z. live w z \<Longrightarrow> has_attr w z"
    and e: "deactivateStreamUserCounter_exit s w = Some w1"
    and r: "run_state (do { close_notify SV s; stream_step s RM_eraseStreamUserCounter; Stream_destroy E V (Some s) }) w1 = (x, w')"
  shows "between w'"
proof -
  obtain y w2 where n: "run_state (close_notify SV s) w1 = (y, w2)" by (rule prod.exhaust)
  obtain z w3 where d: "run_state (stream_step s RM_eraseStreamUserCounter) w2 = (z, w3)" by (rule prod.exhaust)
  have o: "owned w2 = owned w1" by (rule keepsD [OF o_open_parts(3) n])
  have "api_reach (w1, all_idle(0 := Erasing s))" using reach_on [OF reach g_wait [OF _ e, of _ 0]] by simp
  from reach_on [OF this g_erase [OF _ ownedD(1) [OF o] d, of _ 0]]
  have reach3: "api_reach (w3, all_idle(0 := Destroying s))" by simp
  have k: "known w3 = known w"
    using known_sections(6) [OF e] known_owned [OF o] known_sections(3) [of s w2] d by simp
  have "run_state (Stream_destroy E V (Some s)) w3 = (x, w')" using r n d by simp
  then show ?thesis
    using at knownD [OF k] by (intro between_destroyed [OF _ refl _ reach3]) auto
qed

lemma close_path:
  assumes b: "between w" and r: "run_state (pal_stream_close E V SV (Some s)) w = (x, w')"
  shows "between w'"
proof -
  obtain act w1 where c: "run_state (close_check s) w = (act, w1)" by (rule prod.exhaust)
  have o1: "owned w1 = owned w"
    using c by (auto simp: close_check_def RM_isActiveStream_def)
  show ?thesis
  proof (cases act)
    case False
    then show ?thesis using r c between_kept [OF b o1] by (simp add: pal_stream_close_def)
  next
    case True
    let ?pre = "do { Stream_setCachedState s STREAM_IDLE; av_close V s }"
    obtain st w2 where p: "run_state ?pre w1 = (st, w2)" by (rule prod.exhaust)
    obtain r3 w3 where d: "run_state (stream_step s deactivateStreamUserCounter_enter) w2 = (r3, w3)" by (rule prod.exhaust)
    have o2: "owned w2 = owned w1" by (rule keepsD [OF _ p]) (rule o_small o_steps)+
    have reach1: "api_reach (w1, all_idle(0 := Closing s))"
      using reach_begin [OF _ b_check [OF _ c, of _ 0]] b True by (simp add: between_def)
    note reach3 = reach_on [OF reach1 g_deactivate [OF _ ownedD(1) [OF o2] d, of _ 0]]
    have k3: "known w3 = known w"
      using known_sections(5) [of s w2] d known_owned [OF o2] known_owned [OF o1] by simp
    have r': "run_state (do { r \<leftarrow> (if r3 \<noteq> 0 then return r3 else or_hang s 0 (\<lambda>w. map_option (\<lambda>w. (0, w)) (deactivateStreamUserCounter_exit s w)));
        if r \<noteq> 0 then return 0
        else do { close_notify SV s; stream_step s RM_eraseStreamUserCounter; Stream_destroy E V (Some s) } }) w3 = (x, w')"
      using r c True p d by (auto simp: pal_stream_close_def RM_deactivateStreamUserCounter_def split: prod.splits)
    show ?thesis
    proof (cases "r3 = 0")
      case False
      then show ?thesis using r' betweenI [OF b k3] reach3 by simp
    next
      case True
      then have reach4: "api_reach (w3, all_idle(0 := Waiting s))" using reach3 by simp
      then obtain w4 where e: "deactivateStreamUserCounter_exit s w3 = Some w4" by (rule wait_alone)
      show ?thesis
      proof (rule close_tail_path [OF reach4 _ e])
        show "live w3 z \<Longrightarrow> has_attr w3 z" for z using b knownD [OF k3] by (simp add: between_def)
      qed (use r' True e in simp)
    qed
  qed
qed

subsection \<open>Every call\<close>

lemma o_timestamp: "keeps owned (Stream_getTimestamp E s b)"
  unfolding Stream_getTimestamp_def by (rule o_steps)+

lemma o_direct: "(\<And>s. keeps owned (g s)) \<Longrightarrow> keeps owned (direct h g)"
  unfolding direct_def by (rule o_steps | assumption)+

lemma counted_ops:
  assumes b: "between w"
  shows "between (snd (run_state (pal_stream_start E V SV (Some s)) w))"
    "between (snd (run_state (pal_stream_stop E V (Some s)) w))"
    "between (snd (run_state (pal_stream_get_param V (Some s) p n) w))"
    "between (snd (run_state (pal_stream_set_param E V SV (Some s) p c) w))"
    "between (snd (run_state (pal_stream_set_volume V (Some s) (Some v)) w))"
    "between (snd (run_state (pal_stream_set_mute V (Some s) c) w))"
    "between (snd (run_state (pal_stream_drain V (Some s) n) w))"
  unfolding pal_stream_start_def pal_stream_stop_def pal_stream_get_param_def pal_stream_set_param_def
    pal_stream_set_volume_def pal_stream_set_mute_def pal_stream_drain_def option.case prod.case
  using b by (auto intro!: counted_path o_small o_steps simp del: if_split split del: if_split)
     (cases "no_of_volpair v > 64"; auto intro!: counted_path o_steps)

lemma mixer_event: "between w \<Longrightarrow> between (snd (run_state (Stream_mixerEventCallbackEntry V s e) w))"
  unfolding Stream_mixerEventCallbackEntry_def
  using counted_path [OF _ cls_data(13), of w "\<lambda>_. return 0" s s e] by (auto simp: kp_pure split: prod.splits)

lemma set_device_path:
  assumes b: "between w"
  shows "between (snd (run_state (pal_stream_set_device E V (Some s) (Some ds)) w))"
proof (cases ds)
  case Nil
  then show ?thesis using b by (simp add: pal_stream_set_device_def)
next
  case (Cons a as)
  let ?c = "counted s (set_device_body E V s ds) return"
  obtain e w1 where e: "run_state (stream_enter s) w = (e, w1)" by (rule prod.exhaust)
  have "snd (run_state (pal_stream_set_device E V (Some s) (Some ds)) w) = snd (run_state ?c w)"
    using Cons by (simp add: pal_stream_set_device_def counted_def e split: option.split prod.split)
  then show ?thesis using counted_path [OF b o_set_device kp_pure(1)] by simp
qed

lemma direct_ops:
  "keeps owned (pal_stream_pause V h)" "keeps owned (pal_stream_resume V h)" "keeps owned (pal_stream_flush V h)"
  "keeps owned (pal_stream_suspend V h)" "keeps owned (pal_stream_write V h b)" "keeps owned (pal_stream_read V h b)"
  "keeps owned (pal_add_remove_effect V h e c)" "keeps owned (pal_get_timestamp E h c)"
  "keeps owned (pal_stream_get_mmap_position V h)" "keeps owned (pal_stream_create_mmap_buffer V h k)"
  unfolding pal_stream_pause_def pal_stream_resume_def pal_stream_flush_def pal_stream_suspend_def
    pal_stream_write_def pal_stream_read_def pal_add_remove_effect_def pal_get_timestamp_def
    pal_stream_get_mmap_position_def pal_stream_create_mmap_buffer_def RM_isActiveStream_def
  by (rule o_direct o_timestamp o_steps)+

lemma run_done [simp]: "run_state (done_with m) w = (True, snd (run_state m w))"
  by (simp add: done_with_def split: prod.splits)

lemma op_path:
  assumes b: "between w" and f: "fresh_op op w" and r: "run_state (api_do E V SV wsa op) w = (True, w')"
  shows "between w'"
proof (cases op)
  case (OpenOp s a ds cb ck)
  then show ?thesis
    using r f open_path [OF b, of s ds E wsa a cb ck] by (auto split: prod.splits)
next
  case (CloseOp s)
  then show ?thesis using r close_path [OF b, of E s] by (auto simp: prod_eq_iff)
qed (use r counted_ops [OF b] set_device_path [OF b] mixer_event [OF b] direct_ops [THEN between_keeps [OF b]] in auto)

lemma run_path:
  assumes "between w" "fresh_opens E V SV wsa ops w" "run_state (api_run E V SV wsa ops) w = (True, w')"
  shows "between w'"
  using assms
proof (induction ops arbitrary: w)
  case (Cons op ops)
  obtain ok w1 where o: "run_state (api_do E V SV wsa op) w = (ok, w1)" by (rule prod.exhaust)
  then have ok using Cons.prems(3) by (cases ok) simp_all
  then have "between w1" using op_path [OF Cons.prems(1), of op E wsa w1] Cons.prems(2) o by simp
  then show ?case using Cons.IH [of w1] Cons.prems o \<open>ok\<close> by simp
qed simp

end

end
