(* ===== verification/Api_PCM.thy ===== *)
theory Api_PCM
  imports Api_Refine PCM_Frame Pal_Demo
begin

text \<open>
  The client interface on PCM streams: the methods of \<^verbatim>\<open>StreamPCM\<close> fill the table of virtual
  methods, and meet the contract of a stream class.  \<^verbatim>\<open>Stream::switchDevice\<close> is a call that leaves
  the model.
\<close>

section \<open>The table of a PCM stream\<close>

abbreviation (input) PAL_PARAM_ID_DEVICE_MUTE :: nat where "PAL_PARAM_ID_DEVICE_MUTE \<equiv> 47"

text \<open>The pointer to the payload is moved by the size of the header, four bytes, in units of the
  header: the structure of eight bytes is looked for sixteen bytes behind the start of the block,
  twelve behind its place.\<close>

definition StreamPCM_getParameters :: "nat \<Rightarrow> nat \<Rightarrow> nat \<Rightarrow> int io" where
  "StreamPCM_getParameters s param_id n = do {
     when_io (param_id = PAL_PARAM_ID_DEVICE_MUTE \<and> 4 + n < 16 + 8) (tell OutOfBounds);
     return 0
   }"

definition pcm_api :: "env \<Rightarrow> api_vt" where
  "pcm_api E = \<lparr>
     av_create = (\<lambda>s a ds. CreatePCMStream E s (Some a) (Some ds)),
     av_delete = StreamPCM_delete,
     av_open = StreamPCM_open E (Device_vt E), av_close = StreamPCM_close E (Device_vt E),
     av_start = StreamPCM_start E (Device_vt E), av_stop = StreamPCM_stop E (Device_vt E),
     av_pause = StreamPCM_pause E, av_resume = StreamPCM_resume E, av_flush = StreamPCM_flush E,
     av_suspend = (\<lambda>s. return 0), av_drain = (\<lambda>s t. return 0),
     av_write = StreamPCM_write E, av_read = StreamPCM_read E,
     av_getParameters = StreamPCM_getParameters, av_setParameters = StreamPCM_setParameters E,
     av_setVolume = StreamPCM_setVolume E, av_mute = StreamPCM_mute E,
     av_addRemoveEffect = StreamPCM_addRemoveEffect E,
     av_switchDevice = (\<lambda>s ds. call E (Rm (SwitchDevice s (map dev_id ds)))),
     av_createMmapBuffer = StreamPCM_createMmapBuffer E (Device_vt E),
     av_GetMmapPosition = StreamPCM_GetMmapPosition E,
     av_registerCallBack = StreamPCM_registerCallBack,
     av_HandleCallback = (\<lambda>s e. return ())\<rparr>"

section \<open>Methods\<close>

interpretation ow: quiet_obs owned
  by unfold_locales (auto simp: owned_def life_def fun_eq_iff)

lemma ow_upd_str:
  "(\<And>x. mInUse (g x) = mInUse x \<and> mStreamAttr (g x) = mStreamAttr x) \<Longrightarrow> keeps owned (upd_str s g)"
  by (auto simp: keeps_def owned_def life_def fun_eq_iff)

lemma ow_register: "keeps owned (RM_registerDevice d s)" "keeps owned (RM_deregisterDevice d s)"
  unfolding RM_registerDevice_def RM_registerDevice_l_def RM_deregisterDevice_def RM_deregisterDevice_l_def
    Device_getDeviceCount_def Device_getSndDeviceId_def
  by (rule ow.q_steps kp_upd_rm | simp add: owned_def life_def)+

lemmas ow_rules = ow_upd_str ow_register ow.q_rules

lemma ow_open: "keeps owned (StreamPCM_open E (Device_vt E) s)"
  unfolding StreamPCM_open_def open_idle_def Device_vt_def by (rule ow_rules | simp)+

lemma ow_stop: "keeps owned (StreamPCM_stop E (Device_vt E) s)"
  unfolding StreamPCM_stop_def by (rule ow.base_quiet.q_stop_by_direction ow_rules | simp)+

lemma ow_close: "keeps owned (StreamPCM_close E (Device_vt E) s)"
  unfolding StreamPCM_close_def close_stop_def
  by (rule ow_stop ow.base_quiet.q_vt ow_rules | simp)+

lemma ow_start: "keeps owned (StreamPCM_start E (Device_vt E) s)"
  unfolding StreamPCM_start_def start_register_def
  by (rule ow.base_quiet.q_start_by_direction ow_rules | simp)+

lemma ow_pause: "keeps owned (StreamPCM_pause E s)"
  unfolding StreamPCM_pause_def StreamPCM_pause_l_def by (rule ow_rules | simp)+

lemma ow_write: "keeps owned (StreamPCM_write E s n)"
  unfolding StreamPCM_write_def write_resumes_def drop_buffer_def by (rule ow_rules | simp)+

lemma ow_data:
  "keeps owned (StreamPCM_getParameters s p n)" "keeps owned (StreamPCM_GetMmapPosition E s)"
  "keeps owned (StreamPCM_registerCallBack s c k)"
  unfolding StreamPCM_getParameters_def StreamPCM_GetMmapPosition_def StreamPCM_registerCallBack_def
  by (rule ow_rules | simp)+

section \<open>Construction and destruction\<close>

lemma register_life:
  assumes "run_state (RM_registerStream s) w = (r, w')" "has_attr w s"
  shows "made s w w' \<and> has_attr w' x = has_attr w x"
  using assms
  by (auto simp: RM_registerStream_def Stream_getStreamType_def has_attr_def made_def life_def register_stream_def)

lemma deregister_life:
  assumes "run_state (RM_deregisterStream s) w = (r, w')"
  shows "if has_attr w s then unmade s w w' else life w' = life w" "has_attr w' x = has_attr w x"
  using assms
  by (auto simp: RM_deregisterStream_def Stream_getStreamType_def has_attr_def unmade_def life_def
      deregister_stream_def Let_def split: option.splits prod.splits)

lemma ow_removals: "keeps owned (for_each ps (\<lambda>d. Device_removeStreamDeviceAttr d s))"
  by (rule ow_rules)+

lemma delete_life:
  assumes r: "run_state (StreamPCM_delete s) w = (x, w')"
  shows "if has_attr w s then unmade s w w' else life w' = life w" "y \<noteq> s \<Longrightarrow> has_attr w' y = has_attr w y"
proof -
  let ?pre = "do { upd_str s (cachedState_update (\<lambda>_. STREAM_IDLE)); upd_rm (isProxyRecordActive_update (\<lambda>_. False));
     tell (ResetStreamInstanceID s) }"
  let ?post = "do { ps \<leftarrow> str s mPalDevices; for_each ps (\<lambda>d. Device_removeStreamDeviceAttr d s);
     ds \<leftarrow> str s mDevices; for_each ds (\<lambda>d. tell (RestoreDevice d)) }"
  obtain a w1 where 1: "run_state ?pre w = (a, w1)" by (rule prod.exhaust)
  obtain b w2 where 2: "run_state (RM_deregisterStream s) w1 = (b, w2)" by (rule prod.exhaust)
  obtain c w3 where 3: "run_state ?post w2 = (c, w3)" by (rule prod.exhaust)
  have 4: "run_state (Stream_delete s) w3 = (x, w')"
    using r 1 2 3 by (auto simp: StreamPCM_delete_def split: prod.splits)
  have o1: "owned w1 = owned w" by (rule keepsD [OF _ 1]) (rule ow_rules | simp)+
  have o3: "owned w3 = owned w2" by (rule keepsD [OF _ 3]) (rule ow_rules | simp)+
  have l4: "life w' = life w3" "y \<noteq> s \<Longrightarrow> has_attr w' y = has_attr w3 y" for y
    using 4 by (auto simp: Stream_delete_def life_def has_attr_def fun_eq_iff split: if_splits)
  show "if has_attr w s then unmade s w w' else life w' = life w" "y \<noteq> s \<Longrightarrow> has_attr w' y = has_attr w y"
    using deregister_life [OF 2] ownedD [OF o1] ownedD [OF o3] l4 by (auto simp: unmade_def split: if_splits)
qed

text \<open>The loop over the devices registers the stream with the first one; a device that cannot be
  had takes the registration back.\<close>

lemma new_failed_life:
  assumes r: "run_state (new_failed s reg) w = (x, w')" and "has_attr w s"
  shows "if reg then unmade s w w' else life w' = life w" "\<not> has_attr w' s" "y \<noteq> s \<Longrightarrow> has_attr w' y = has_attr w y"
proof -
  let ?post = "do { ps \<leftarrow> str s mPalDevices; for_each ps (\<lambda>d. Device_removeStreamDeviceAttr d s); lock (StreamMutex s) }"
  obtain b w2 where 2: "run_state (RM_deregisterStream s) (w\<lparr>wlog := Unlock (StreamMutex s) # wlog w\<rparr>) = (b, w2)"
    by (rule prod.exhaust)
  obtain c w3 where 3: "run_state ?post w2 = (c, w3)" by (rule prod.exhaust)
  have o3: "owned w3 = owned w2" by (rule keepsD [OF _ 3]) (rule ow_rules | simp)+
  define w4 where "w4 = (if reg then w3 else w)"
  have w': "w' = w4\<lparr>wstr := (wstr w4)(s := (wstr w4 s)\<lparr>mStreamAttr := None, mVolumeData := None, session := False\<rparr>),
      wlog := Sess s SDelete # wlog w4\<rparr>"
    using r 2 3 by (auto simp: new_failed_def w4_def split: prod.splits)
  have l: "life w' = life w4" "\<not> has_attr w' s" "y \<noteq> s \<Longrightarrow> has_attr w' y = has_attr w4 y" for y
    by (auto simp: w' life_def has_attr_def fun_eq_iff)
  show "if reg then unmade s w w' else life w' = life w" "\<not> has_attr w' s" "y \<noteq> s \<Longrightarrow> has_attr w' y = has_attr w y"
    using deregister_life [OF 2] ownedD [OF o3] l assms(2) by (auto simp: w4_def unmade_def split: if_splits)
qed

definition underway :: "nat \<Rightarrow> bool \<Rightarrow> world \<Rightarrow> world \<Rightarrow> bool" where
  "underway s reg w0 w \<longleftrightarrow> (if reg then made s w0 w else life w = life w0) \<and> has_attr w s \<and>
     (\<forall>y. y \<noteq> s \<longrightarrow> has_attr w y = has_attr w0 y)"

definition given_up :: "nat \<Rightarrow> world \<Rightarrow> world \<Rightarrow> bool" where
  "given_up s w0 w \<longleftrightarrow> life w = life w0 \<and> \<not> has_attr w s \<and> (\<forall>y. y \<noteq> s \<longrightarrow> has_attr w y = has_attr w0 y)"

lemma underway_kept: "underway s reg w0 w \<Longrightarrow> owned w' = owned w \<Longrightarrow> underway s reg w0 w'"
  using ownedD [of w' w] by (auto simp: underway_def made_def)

lemma underway_registered:
  assumes "underway s reg w0 w" "run_state (when_io (\<not> reg) (do { RM_registerStream s; return () })) w = (x, w')"
  shows "underway s True w0 w'"
proof (cases reg)
  case False
  obtain r w1 where "run_state (RM_registerStream s) w = (r, w1)" by (rule prod.exhaust)
  moreover have "w' = w1" using assms(2) False calculation by simp
  ultimately show ?thesis
    using assms(1) False register_life [of s w r w1] by (auto simp: underway_def made_def)
qed (use assms in simp)

lemma underway_failed:
  assumes u: "underway s reg w0 w" and "\<not> live w0 s" and r: "run_state (new_failed s reg) w = (x, w')"
  shows "given_up s w0 w'"
proof -
  have "has_attr w s" using u by (simp add: underway_def)
  note f = new_failed_life [OF r this]
  show ?thesis
    using f u made_unmade [of s w0 w w'] assms(2) by (auto simp: underway_def given_up_def split: if_splits)
qed

text \<open>One round of the loop, before and after the registration.\<close>

definition note_device :: "nat \<Rightarrow> nat \<Rightarrow> unit io" where
  "note_device s d = do { upd_str s (mPalDevices_update (\<lambda>ds. ds @ [d])); unlock (StreamMutex s) }"

definition use_device :: "nat \<Rightarrow> nat \<Rightarrow> pal_device \<Rightarrow> unit io" where
  "use_device s d a = do { tell (UpdateDeviceConfig d); lock (StreamMutex s);
     when_io (dev_id a = PAL_DEVICE_IN_RECORD_PROXY) (upd_rm (isProxyRecordActive_update (\<lambda>_. True)));
     upd_str s (mDevices_update (\<lambda>ds. ds @ [d])) }"

lemma ow_round: "keeps owned (note_device s d)" "keeps owned (use_device s d a)"
  unfolding note_device_def use_device_def by (rule ow_rules | simp)+

lemma new_devices_round:
  "new_devices E s reg (a # as) = do {
     inst \<leftarrow> Device_getInstance E a;
     case inst of
       None \<Rightarrow> do { new_failed s reg; return (Some False) }
     | Some d \<Rightarrow> do {
         r \<leftarrow> Device_insertStreamDeviceAttr E d (Some a) (Some s);
         case r of
           None \<Rightarrow> return None
         | Some _ \<Rightarrow> do {
             note_device s d;
             when_io (\<not> reg) (do { RM_registerStream s; return () });
             use_device s d a;
             new_devices E s True as
           }
       }
   }"
  by (simp add: note_device_def use_device_def cong: option.case_cong)

lemma new_devices_life:
  assumes "underway s reg w0 w" "\<not> live w0 s" "run_state (new_devices E s reg ds) w = (Some ok, w')"
  shows "if ok then underway s (reg \<or> ds \<noteq> []) w0 w' else given_up s w0 w'"
  using assms(1,3)
proof (induction ds arbitrary: reg w)
  case (Cons a as)
  obtain i w1 where i: "run_state (Device_getInstance E a) w = (i, w1)" by (rule prod.exhaust)
  have u1: "underway s reg w0 w1" using Cons.prems(1) keepsD [OF ow.q_getInstance i] by (rule underway_kept)
  show ?case
  proof (cases i)
    case None
    obtain x w2 where "run_state (new_failed s reg) w1 = (x, w2)" by (rule prod.exhaust)
    then show ?thesis
      using Cons.prems(2) i None underway_failed [OF u1 assms(2)] unfolding new_devices_round by auto
  next
    case (Some d)
    let ?r = "when_io (\<not> reg) (do { RM_registerStream s; return () })"
    obtain e w2 where e: "run_state (Device_insertStreamDeviceAttr E d (Some a) (Some s)) w1 = (e, w2)" by (rule prod.exhaust)
    obtain x3 w3 where 3: "run_state (note_device s d) w2 = (x3, w3)" by (rule prod.exhaust)
    obtain x4 w4 where 4: "run_state ?r w3 = (x4, w4)" by (rule prod.exhaust)
    obtain x5 w5 where 5: "run_state (use_device s d a) w4 = (x5, w5)" by (rule prod.exhaust)
    have "e \<noteq> None" using Cons.prems(2) i Some e unfolding new_devices_round by (cases e) auto
    then have r: "run_state (new_devices E s True as) w5 = (Some ok, w')"
      using Cons.prems(2) unfolding new_devices_round
      by (auto simp only: run_state_bind i Some e 3 4 5 prod.case option.case)
    have "owned w2 = owned w1" by (rule keepsD [OF _ e]) (rule ow_rules)
    moreover have "owned w3 = owned w2" by (rule keepsD [OF ow_round(1) 3])
    ultimately have "underway s True w0 w4" using underway_registered [OF _ 4] underway_kept [OF u1] by simp
    moreover have "owned w5 = owned w4" by (rule keepsD [OF ow_round(2) 5])
    ultimately have "underway s True w0 w5" by (rule underway_kept)
    from Cons.IH [OF this r] show ?thesis by (cases ok) simp_all
  qed
qed simp

definition prepare_devices :: "nat \<Rightarrow> pal_device list \<Rightarrow> unit io" where
  "prepare_devices s ds = do {
     upd_str s (session_update (\<lambda>_. True));
     when_io (length ds > 1) (for_each ds (\<lambda>a. upd_str s (isComboHeadsetActive_update (\<lambda>_. combo_device a))))
   }"

lemma new_attributes_life:
  assumes r: "run_state (new_attributes E s a ds) w = (Some ok, w')" and "ds \<noteq> []" "\<not> live w s" "\<not> has_attr w s"
  shows "if ok then underway s True w w' else given_up s w w'"
proof -
  let ?l1 = "AllocFails 12 # wlog w" and ?l2 = "AllocFails 0 # AllocFails 12 # wlog w"
  let ?A1 = "ans E (wlog w) (AllocFails 12) = 0" and ?A2 = "ans E ?l1 (AllocFails 0) = 0"
    and ?A3 = "ans E ?l2 (MakeSession (stype a)) = 0"
  show ?thesis
  proof (cases "?A1 \<and> ?A2 \<and> ?A3")
    case False
    then show ?thesis
      using r assms(4)
      by (auto simp: new_attributes_def given_up_def has_attr_def life_def fun_eq_iff split: if_splits)
  next
    case True
    define w1 where "w1 = w\<lparr>wstr := (wstr w)(s := (wstr w s)\<lparr>mVolumeData := Some unity_volume,
        mStreamAttr := Some (clamp_channels a)\<rparr>), wlog := MakeSession (stype a) # ?l2\<rparr>"
    obtain x w2 where p: "run_state (prepare_devices s ds) w1 = (x, w2)" by (rule prod.exhaust)
    have n: "run_state (new_devices E s False ds) w2 = (Some ok, w')"
      using r True p by (simp add: new_attributes_def prepare_devices_def w1_def)
    have "underway s False w w1" by (auto simp: w1_def underway_def life_def has_attr_def fun_eq_iff)
    moreover have "owned w2 = owned w1"
      by (rule keepsD [OF _ p]) (unfold prepare_devices_def, (rule ow_rules | simp)+)
    ultimately have "underway s False w w2" by (rule underway_kept)
    from new_devices_life [OF this assms(3) n] assms(2) show ?thesis by (cases ok) simp_all
  qed
qed

lemma new_init:
  "keeps (\<lambda>w. mInitialized (wstr w s)) (new_attributes E s a ds)"
proof -
  let ?i = "\<lambda>w. mInitialized (wstr w s)"
  have st: "keeps ?i m" if "keeps wstr m" for m :: "'x io" using that by (simp add: keeps_def)
  have d: "keeps ?i (Device_getInstance E a)" "keeps ?i (Device_insertStreamDeviceAttr E d oa os)"
    "keeps ?i (Device_removeStreamDeviceAttr d s)" for a d oa os
    unfolding Device_getInstance_def Device_insertStreamDeviceAttr_def Device_removeStreamDeviceAttr_def Let_def
    by (rule kp_rules | simp)+
  have r: "keeps ?i (RM_registerStream s)" "keeps ?i (RM_deregisterStream s)"
    unfolding RM_registerStream_def RM_deregisterStream_def Stream_getStreamType_def by (rule kp_rules | simp)+
  have f: "keeps ?i (new_failed s reg)" for reg
    unfolding new_failed_def by (rule d r kp_rules | simp)+
  have "keeps ?i (new_devices E s reg ds)" for reg
    by (induction ds arbitrary: reg)
       (auto intro!: d r f kp_rules simp del: if_split)
  then show ?thesis
    unfolding new_attributes_def by (intro kp_rules | simp)+
qed

lemma create_life:
  assumes r: "run_state (CreatePCMStream E s (Some a) (Some ds)) w = (Some ok, w')" and "ds \<noteq> []" "\<not> live w s"
  shows "created_at s ok w w'"
proof -
  define w1 where "w1 = w\<lparr>wlog := Lock (StreamMutex s) # GetSoundCardState # wlog w,
      wstr := (wstr w)(s := (Stream_init (wstr w s))\<lparr>session := False, mGainLevel := - 1,
      mStreamAttr := None, mDevices := [], currentState := STREAM_IDLE, cachedState := STREAM_IDLE\<rparr>)\<rparr>"
  obtain x w2 where n: "run_state (new_attributes E s a ds) w1 = (x, w2)" by (rule prod.exhaust)
  have card: "\<not> PAL_CARD_STATUS_DOWN (ans E (wlog w) GetSoundCardState)"
    using r by (auto simp: CreatePCMStream_def StreamPCM_new_def Stream_new_def)
  obtain b where b: "x = Some b"
    using r n card by (cases x) (auto simp: CreatePCMStream_def StreamPCM_new_def Stream_new_def w1_def)
  have w1: "life w1 = life w" "\<not> has_attr w1 s" "\<And>y. y \<noteq> s \<Longrightarrow> has_attr w1 y = has_attr w y"
    by (auto simp: w1_def life_def has_attr_def Stream_init_def fun_eq_iff)
  have l: "if b then underway s True w1 w2 else given_up s w1 w2"
    using new_attributes_life [OF n [unfolded b] assms(2)] w1 lifeD(1) [OF w1(1)] assms(3) by simp
  show ?thesis
  proof (cases b)
    case True
    then have "ok" "w' = w2\<lparr>wstr := (wstr w2)(s := (wstr w2 s)\<lparr>mInitialized := True\<rparr>), wlog := Unlock (StreamMutex s) # wlog w2\<rparr>"
      using r n b card by (auto simp: CreatePCMStream_def StreamPCM_new_def Stream_new_def w1_def)
    moreover have "owned w' = owned w2" using calculation(2) by (auto simp: owned_def life_def fun_eq_iff)
    ultimately show ?thesis
      using l True w1 ownedD [of w' w2] by (auto simp: created_at_def underway_def made_def)
  next
    case False
    have i: "\<not> mInitialized (wstr w2 s)"
      using keepsD [OF new_init n] by (simp add: w1_def Stream_init_def)
    obtain z w3 where d: "run_state (StreamPCM_delete s) (w2\<lparr>wlog := Unlock (StreamMutex s) # wlog w2\<rparr>) = (z, w3)"
      by (rule prod.exhaust)
    have "\<not> ok" "w' = w3"
      using r n b card False i d by (auto simp: CreatePCMStream_def StreamPCM_new_def Stream_new_def w1_def)
    then show ?thesis
      using delete_life [OF d] l False w1 by (auto simp: created_at_def given_up_def)
  qed
qed

section \<open>The contract holds\<close>

lemma owned_stu [simp]: "owned (w\<lparr>wstu := u\<rparr>) = owned w"
  by (simp add: owned_def life_def)

interpretation pcm_class: stream_class "other_vt E" "pcm_api E" for E
proof
  show "(if ok then made s w w' \<and> has_attr w' s else life w' = life w) \<and> (\<forall>x. x \<noteq> s \<longrightarrow> has_attr w' x = has_attr w x)"
    if "run_state (av_create (pcm_api E) s a ds) w = (Some ok, w')" "ds \<noteq> []" "\<not> live w s" for s a ds w ok w'
    using create_life [of E s a ds w ok w'] that by (simp add: pcm_api_def created_at_def)
  show "unmade s w w' \<and> (\<forall>x. x \<noteq> s \<longrightarrow> has_attr w' x = has_attr w x)"
    if "run_state (av_delete (pcm_api E) s) w = (x, w')" "has_attr w s" for s w x w'
    using delete_life [of s w x w'] that by (simp add: pcm_api_def)
qed (auto simp: pcm_api_def other_vt_def ask_def
    intro!: ow_open ow_stop ow_close ow_start ow_pause ow_write ow_data ow.q_simple_ops ow.q_setVolume
      ow.base_quiet.q_createMmapBuffer ow.q_steps)


text \<open>One stream on a USB device, which has no entry in the platform file, is opened.\<close>

definition usb_device :: pal_device where
  "usb_device = (zero_attr PAL_DEVICE_OUT_USB_DEVICE)\<lparr>card_id := 10\<rparr>"

definition client_attrs :: pal_stream_attributes where
  "client_attrs = demo_attrs PAL_STREAM_DEEP_BUFFER 1"

lemmas client_eval = Stream_create_def no_device_types_def chosen_id_def usb_or_bt_def usb_device_def
  DUMMY_SND_CARD_def zero_attr_def client_attrs_def Let_def CreatePCMStream_def StreamPCM_new_def Stream_new_def
  new_attributes_def Device_insertStreamDeviceAttr_def Device_getInstance_def getDeviceInfo_def
  PAL_CARD_STATUS_DOWN_def PAL_CARD_STATUS_UP_def ex_defs

lemma client_device: "run_state (create_devices demo_env False client_attrs 0 [usb_device]) w = ((0, [usb_device]), w)"
  by (simp add: client_eval) 

lemma client_create:
  "\<exists>w'. run_state (CreatePCMStream demo_env 4 (Some client_attrs) (Some [usb_device])) (ex_none\<lparr>wlog := l\<rparr>) = (Some True, w')"
  by (simp add: client_eval split: prod.split)

lemma attempt_ends:
  assumes "ans E (wlog w) (Rm (OpenPlugin (stype a))) = 0"
    and "run_state (av_create V s a ds) (w\<lparr>wlog := Rm (OpenPlugin (stype a)) # wlog w\<rparr>) = (Some ok, w')"
  shows "fst (run_state (create_attempt E V s a ds) w) \<noteq> None"
  using assms by (auto simp: create_attempt_def split: prod.split simp del: not_None_eq)

lemma create_ends:
  assumes "fst (run_state (create_attempt E V s a ds) w) \<noteq> None" and "stype a \<noteq> PAL_STREAM_VOICE_RECOGNITION"
  shows "fst (run_state (create_stream E V s a ds) w) \<noteq> None"
  using assms by (auto simp: create_stream_def split: prod.split)

lemma open_ends:
  assumes "fst (run_state (Stream_create E V wsa s (Some a) (length ds) (Some ds)) w) \<noteq> None"
  shows "fst (run_state (api_run E V SV wsa [OpenOp s a ds cb ck]) w)"
proof -
  obtain m t w' where "run_state (Stream_create E V wsa s (Some a) (length ds) (Some ds)) w = (Some (m, t), w')"
    using assms by (metis not_None_eq prod.collapse)
  then show ?thesis by (cases m) (auto simp: pal_stream_open_def split: prod.split simp del: not_None_eq)
qed

lemma client_run: "fst (run_state (api_run demo_env (pcm_api demo_env) (other_vt demo_env) False
    [OpenOp 4 client_attrs [usb_device] None 0]) ex_none)"
proof (rule open_ends)
  define w where "w = ex_none\<lparr>wlog := AllocFails 1 # Lock BaseStreamMutex # wlog ex_none\<rparr>"
  have n: "stype client_attrs = PAL_STREAM_DEEP_BUFFER" and m: "is_multiple_sample_rate_combo_supported (wrm ex_none)"
    by (simp_all add: client_attrs_def demo_attrs_def ex_defs)
  obtain w' where c: "run_state (CreatePCMStream demo_env 4 (Some client_attrs) (Some [usb_device]))
      (w\<lparr>wlog := Rm (OpenPlugin PAL_STREAM_DEEP_BUFFER) # wlog w\<rparr>) = (Some True, w')"
    using client_create by (auto simp: w_def)
  have "fst (run_state (create_attempt demo_env (pcm_api demo_env) 4 client_attrs [usb_device]) w) \<noteq> None"
    by (rule attempt_ends [of _ _ _ _ _ _ True w']) (simp_all add: c n pcm_api_def)
  from create_ends [OF this]
  have "fst (run_state (create_stream demo_env (pcm_api demo_env) 4 client_attrs [usb_device]) w) \<noteq> None"
    by (simp add: n)
  then show "fst (run_state (Stream_create demo_env (pcm_api demo_env) False 4 (Some client_attrs) (length [usb_device]) (Some [usb_device])) ex_none) \<noteq> None"
    by (auto simp: Stream_create_def client_device n no_device_types_def w_def m split: prod.split
      simp del: create_devices.simps not_None_eq)
qed


section \<open>Opening without a device\<close>

text \<open>A program that does not register the stream.\<close>

definition stays_out :: "nat \<Rightarrow> 'a io \<Rightarrow> bool" where
  "stays_out s m \<longleftrightarrow> (\<forall>w. \<not> live w s \<longrightarrow> \<not> live (snd (run_state m w)) s)"

lemma so_bind: "stays_out s m \<Longrightarrow> (\<And>x. stays_out s (g x)) \<Longrightarrow> stays_out s (State_Monad.bind m g)"
  by (fastforce simp: stays_out_def split: prod.splits)

lemma so_if: "(b \<Longrightarrow> stays_out s m) \<Longrightarrow> (\<not> b \<Longrightarrow> stays_out s n) \<Longrightarrow> stays_out s (if b then m else n)"
  by simp

lemma so_cases:
  "stays_out s m \<Longrightarrow> (\<And>x. stays_out s (h x)) \<Longrightarrow> stays_out s (case v of None \<Rightarrow> m | Some x \<Rightarrow> h x)"
  "(\<And>a b. stays_out s (k a b)) \<Longrightarrow> stays_out s (case p of (a, b) \<Rightarrow> k a b)"
  by (auto split: option.split prod.split)

lemma so_when: "(b \<Longrightarrow> stays_out s m) \<Longrightarrow> stays_out s (when_io b m)"
  by (simp add: stays_out_def)

lemma so_keeps: "keeps (\<lambda>w. mActiveStreams (wrm w)) m \<Longrightarrow> stays_out s m"
  by (simp add: stays_out_def keeps_def)

lemma so_owned: "keeps owned m \<Longrightarrow> stays_out s m"
  by (simp add: stays_out_def) (metis keeps_snd lifeD(1) ownedD(1))

lemma so_deregister: "stays_out s (RM_deregisterStream s)"
  by (auto simp: stays_out_def RM_deregisterStream_def Stream_getStreamType_def deregister_stream_def Let_def
      dest: in_set_remove1 [THEN iffD1, rotated] notin_set_remove1 split: option.splits prod.splits)

lemmas so_steps = so_bind so_if so_cases so_when so_deregister

lemma so_simple: "stays_out s (return x)" "stays_out s (call E e)" "stays_out s (tell e)" "stays_out s (lock l)"
  "stays_out s (unlock l)" "stays_out s (str y g)" "stays_out s (rmg h)" "stays_out s (gets f)"
  by (auto simp: stays_out_def)

lemma so_upd: "stays_out s (upd_str x g)" "stays_out s (upd_dev d h)"
    "(\<And>r. mActiveStreams (k r) = mActiveStreams r) \<Longrightarrow> stays_out s (upd_rm k)"
  by (auto simp: stays_out_def)

lemma so_for_each: "(\<And>x. stays_out s (g x)) \<Longrightarrow> stays_out s (for_each xs g)"
  by (induction xs) (auto intro!: so_bind so_simple)

lemma so_delete: "stays_out s (StreamPCM_delete s)"
  unfolding StreamPCM_delete_def Stream_delete_def Device_removeStreamDeviceAttr_def
  by (intro so_steps so_simple so_upd so_for_each) simp_all

lemma so_create: "stays_out s (CreatePCMStream E s (Some a) (Some []))"
  unfolding CreatePCMStream_def StreamPCM_new_def new_attributes_def Stream_new_def option.case prod.case new_devices.simps
  by (intro so_steps so_simple so_upd so_for_each so_delete)

lemma so_open: "stays_out s (pal_stream_open E (pcm_api E) (other_vt E) wsa s (Some a) 0 (Some []) cb ck)"
proof -
  have k: "mActiveStreams (wrm (snd (run_state (stream_step s RM_initStreamUserCounter) w))) = mActiveStreams (wrm w)" for w
    using knownD(1) [OF known_sections(4) [of s w]] .
  have i: "stays_out s (stream_step s RM_initStreamUserCounter)" by (simp add: stays_out_def k)
  have d: "stays_out s (av_delete (pcm_api E) s)" by (simp add: pcm_api_def so_delete)
  have c: "stays_out s (av_create (pcm_api E) s b [])" for b by (simp add: pcm_api_def so_create)
  have a: "stays_out s (create_attempt E (pcm_api E) s b [])" for b
    unfolding create_attempt_def stream_supported_def by (intro so_steps so_simple so_upd d c)
  have c: "stays_out s (create_stream E (pcm_api E) s b [])" for b
    unfolding create_stream_def by (intro so_steps so_simple a)
  have "stays_out s (Stream_destroy E (pcm_api E) (Some s))"
    unfolding Stream_destroy_def Stream_getStreamType_def option.case by (intro so_steps so_simple d)
  then have "stays_out s (open_stream E (pcm_api E) (other_vt E) s t cb ck)" for t
    unfolding open_stream_def by (intro so_steps so_simple i
      so_owned [OF pcm_class.cls_methods(1)] so_owned [OF pcm_class.cls_methods(2)]
      so_owned [OF pcm_class.cls_data(12)] so_owned [OF pcm_class.o_open_parts(1)]
      so_owned [OF pcm_class.o_open_parts(2)] so_owned [OF pcm_class.o_small(1)])
  moreover have "stays_out s (Stream_handleStreamCreateFailure t cb)" for t
    by (rule so_owned) (rule pcm_class.o_open_parts)
  ultimately show ?thesis
    unfolding pal_stream_open_def Stream_create_def option.case Let_def take_Nil create_devices.simps
      bind_left_identity prod.case
    by (auto simp del: if_split intro!: so_steps so_simple c)
qed

text \<open>
  C27: A PCM stream that is opened without a device is lost: the constructor registers the stream in
  the loop over its devices, so the handle that \<^verbatim>\<open>pal_stream_open\<close> hands out with status zero is
  not a registered stream, and neither starting nor closing it works.
\<close>

theorem open_without_device_is_lost:
  assumes "run_state (pal_stream_open E (pcm_api E) (other_vt E) wsa s (Some a) 0 (Some []) cb ck) w = (Some (0, Some s), w')"
    and "\<not> live w s"
  shows "\<not> live w' s \<and>
    fst (run_state (pal_stream_start E (pcm_api E) (other_vt E) (Some s)) w') = - EINVAL \<and>
    fst (run_state (pal_stream_close E (pcm_api E) (other_vt E) (Some s)) w') = - EINVAL"
proof -
  have "\<not> live w' s" using so_open assms unfolding stays_out_def by (metis snd_conv)
  then show ?thesis
    by (simp add: pal_stream_start_def pal_stream_close_def counted_def stream_enter_def close_check_def RM_isActiveStream_def)
qed


text \<open>A platform on which everything succeeds, also the check of a stream.\<close>

definition yes_env :: env where
  "yes_env = demo_env\<lparr>ans := (\<lambda>l e. case e of Rm (IsStreamSupported s) \<Rightarrow> 1 | _ \<Rightarrow> ans demo_env l e)\<rparr>"

lemma yes_ans [simp]:
  "ans yes_env l c = (case c of Rm (IsStreamSupported s) \<Rightarrow> 1 | GetSoundCardState \<Rightarrow> 1 | MixerGetCtl n \<Rightarrow> 1 | _ \<Rightarrow> 0)"
  by (simp add: yes_env_def split: event.split rm_event.split)

definition bare_world :: world where
  "bare_world = ex_none\<lparr>wrm := (wrm ex_none)\<lparr>maxSessionMap := (\<lambda>t. Some 8)\<rparr>\<rparr>"

definition bare_stream :: "Stream" where
  "bare_stream = (Stream_init (wstr ex_none 4))\<lparr>session := True, mGainLevel := - 1, mStreamAttr := Some (clamp_channels client_attrs),
     mVolumeData := Some unity_volume,
     mDevices := [], mPalDevices := [], currentState := STREAM_IDLE, cachedState := STREAM_IDLE, mInitialized := True\<rparr>"

lemma bare_create:
  "\<exists>l. run_state (CreatePCMStream yes_env 4 (Some client_attrs) (Some [])) (bare_world\<lparr>wlog := k\<rparr>) =
     (Some True, bare_world\<lparr>wstr := (wstr bare_world)(4 := bare_stream), wlog := l\<rparr>)"
  by (simp add: CreatePCMStream_def StreamPCM_new_def new_attributes_def Stream_new_def PAL_CARD_STATUS_DOWN_def PAL_CARD_STATUS_UP_def
    bare_stream_def bare_world_def ex_defs Stream_init_def)


abbreviation (input) bare_at :: "Stream \<Rightarrow> event list \<Rightarrow> world" where
  "bare_at x l \<equiv> bare_world\<lparr>wstr := (wstr bare_world)(4 := x), wlog := l\<rparr>"

lemma bare_attempt:
  "\<exists>l. run_state (create_attempt yes_env (pcm_api yes_env) 4 client_attrs []) (bare_world\<lparr>wlog := k\<rparr>) =
     (Some (False, True), bare_at bare_stream l)"
proof -
  obtain l where "run_state (CreatePCMStream yes_env 4 (Some client_attrs) (Some [])) (bare_world\<lparr>wlog := Rm (OpenPlugin (stype client_attrs)) # k\<rparr>) =
     (Some True, bare_at bare_stream l)" using bare_create by blast
  moreover have "RM_isStreamSupported (wrm bare_world) (Some (mStreamAttr bare_stream)) 0 True True"
    by (simp add: RM_isStreamSupported_def RM_getActiveStreamByType_l_def sz_sub_def bare_world_def bare_stream_def client_attrs_def clamp_channels_def ex_defs)
  ultimately show ?thesis
    by (auto simp: create_attempt_def pcm_api_def stream_supported_def)
qed

lemma bare_open:
  "\<exists>l. run_state (StreamPCM_open yes_env (Device_vt yes_env) 4) (bare_at bare_stream k) =
     (0, bare_at (bare_stream\<lparr>currentState := STREAM_INIT\<rparr>) l)"
  by (simp add: pcm_eval bare_stream_def bare_world_def ex_defs client_attrs_def clamp_channels_def Stream_init_def)


lemma bare_opened:
  "fst (run_state (open_stream yes_env (pcm_api yes_env) (other_vt yes_env) 4 t None 0) (bare_at bare_stream k)) = (0, Some 4)"
proof -
  obtain l where "run_state (StreamPCM_open yes_env (Device_vt yes_env) 4) (bare_at bare_stream k) =
     (0, bare_at (bare_stream\<lparr>currentState := STREAM_INIT\<rparr>) l)" using bare_open by blast
  then show ?thesis by (simp add: open_stream_def pcm_api_def split: prod.split)
qed

theorem open_without_device_is_lost_witness:
  "\<exists>w'. run_state (pal_stream_open yes_env (pcm_api yes_env) (other_vt yes_env) False 4 (Some client_attrs) 0 (Some []) None 0)
      bare_world = (Some (0, Some 4), w') \<and> \<not> live w' 4"
proof -
  let ?k = "AllocFails 0 # Lock BaseStreamMutex # wlog bare_world"
  have n: "stype client_attrs = PAL_STREAM_DEEP_BUFFER" "is_multiple_sample_rate_combo_supported (wrm bare_world)"
      "\<not> live bare_world 4"
    by (simp_all add: client_attrs_def bare_world_def ex_defs)
  obtain l where "run_state (create_attempt yes_env (pcm_api yes_env) 4 client_attrs []) (bare_world\<lparr>wlog := ?k\<rparr>) =
      (Some (False, True), bare_at bare_stream l)" using bare_attempt by blast
  then have "fst (run_state (pal_stream_open yes_env (pcm_api yes_env) (other_vt yes_env) False 4 (Some client_attrs) 0 (Some []) None 0)
      bare_world) = Some (0, Some 4)"
    using bare_opened [of PAL_STREAM_DEEP_BUFFER "Unlock BaseStreamMutex # l"]
    by (auto simp: pal_stream_open_def Stream_create_def create_stream_def n no_device_types_def split: prod.split)
  then show ?thesis
    using open_without_device_is_lost [of yes_env False 4 client_attrs None 0 bare_world] n(3) by (auto simp: prod_eq_iff)
qed

end
