(* ===== verification/PCM_Restart.thy ===== *)
theory PCM_Restart
  imports RM_Ssr Api_PCM PCM_States
begin

text \<open>
  Restarts of the sound card with PCM streams: the worker thread of the resource manager
  (\<^verbatim>\<open>RM_Ssr\<close>) over the handlers of the PCM stream.
\<close>

definition pcm_ssr :: "env \<Rightarrow> ssr_vt" where
  "pcm_ssr E = \<lparr>sr_down = StreamPCM_ssrDownHandler E (Device_vt E), sr_up = StreamPCM_ssrUpHandler E (Device_vt E)\<rparr>"

section \<open>What the handlers leave alone\<close>

text \<open>The life of the streams, the queue of card states, and the state of one stream \<open>x\<close>.\<close>

definition ssr_obs :: "world \<Rightarrow> ((nat list \<times> (nat \<Rightarrow> (nat \<times> bool) option) \<times> (nat \<Rightarrow> int option)) \<times> nat set) \<times> nat list \<times> nat" where
  "ssr_obs w = (owned w, msgQ (wrm w), cardState (wrm w))"

definition seen :: "nat \<Rightarrow> world \<Rightarrow>
    (((nat list \<times> (nat \<Rightarrow> (nat \<times> bool) option) \<times> (nat \<Rightarrow> int option)) \<times> nat set) \<times> nat list \<times> nat) \<times> stream_state_t" where
  "seen x w = (ssr_obs w, state_of x w)"

lemma keeps_obs: "keeps (seen x) m \<Longrightarrow> keeps ssr_obs m"
  by (simp add: keeps_def seen_def)

interpretation se: quiet_obs "seen x" for x
  by unfold_locales (auto simp: seen_def ssr_obs_def state_of_def owned_def life_def fun_eq_iff)

lemma se_upd_str:
  "s \<noteq> x \<Longrightarrow> (\<And>z. mInUse (g z) = mInUse z \<and> mStreamAttr (g z) = mStreamAttr z) \<Longrightarrow> keeps (seen x) (upd_str s g)"
  by (auto simp: keeps_def seen_def ssr_obs_def state_of_def owned_def life_def fun_eq_iff)

lemma se_register: "keeps (seen x) (RM_registerDevice d s)" "keeps (seen x) (RM_deregisterDevice d s)"
  unfolding RM_registerDevice_def RM_registerDevice_l_def RM_deregisterDevice_def RM_deregisterDevice_l_def
    Device_getDeviceCount_def Device_getSndDeviceId_def
  by (rule se.q_steps kp_upd_rm | simp add: seen_def ssr_obs_def state_of_def owned_def life_def)+

lemmas se_rules = se_upd_str se_register se.q_rules

lemma se_open: "s \<noteq> x \<Longrightarrow> keeps (seen x) (StreamPCM_open E (Device_vt E) s)"
  unfolding StreamPCM_open_def open_idle_def Device_vt_def by (rule se_rules | simp)+

lemma se_stop: "s \<noteq> x \<Longrightarrow> keeps (seen x) (StreamPCM_stop E (Device_vt E) s)"
  unfolding StreamPCM_stop_def by (rule se.base_quiet.q_stop_by_direction se_rules | simp)+

lemma se_close: "s \<noteq> x \<Longrightarrow> keeps (seen x) (StreamPCM_close E (Device_vt E) s)"
  unfolding StreamPCM_close_def close_stop_def
  by (rule se_stop se.base_quiet.q_vt se_rules | simp)+

lemma se_start: "s \<noteq> x \<Longrightarrow> keeps (seen x) (StreamPCM_start E (Device_vt E) s)"
  unfolding StreamPCM_start_def start_register_def
  by (rule se.base_quiet.q_start_by_direction se_rules | simp)+

lemma se_pause: "s \<noteq> x \<Longrightarrow> keeps (seen x) (StreamPCM_pause E s)"
  unfolding StreamPCM_pause_def StreamPCM_pause_l_def by (rule se_rules | simp)+

lemma se_handlers:
  "s \<noteq> x \<Longrightarrow> keeps (seen x) (sr_down (pcm_ssr E) s)" "s \<noteq> x \<Longrightarrow> keeps (seen x) (sr_up (pcm_ssr E) s)"
  unfolding pcm_ssr_def ssr_vt.simps StreamPCM_ssrDownHandler_def StreamPCM_ssrUpHandler_def ssr_close_def
    Stream_isStreamSSRDownFeasibile_def ssr_restore_def ssr_open_start_def
  by (rule se_open se_stop se_close se_start se_pause se_rules | simp)+

lemma obs_handlers: "keeps ssr_obs (sr_down (pcm_ssr E) s)" "keeps ssr_obs (sr_up (pcm_ssr E) s)"
  by (rule keeps_obs [where x = "Suc s"], rule se_handlers, simp)+

lemma se_vote: "keeps (seen x) (RM_voteSleepMonitor E h b c)"
  unfolding RM_voteSleepMonitor_def vote_kind_def vote_lpi_def vote_nlpi_def sleep_ioctl_def Stream_getStreamType_def
  by (rule se.q_steps | simp add: se.q_steps split: sum.split option.split)+

section \<open>One stream at a time\<close>

text \<open>Nobody is inside a call on a stream.\<close>

definition calm :: "world \<Rightarrow> bool" where
  "calm w \<longleftrightarrow> (\<forall>s. live w s \<longrightarrow> counter w s = Some (0, True) \<and> sem w s = Some 1)"

lemma obsD:
  assumes "ssr_obs w' = ssr_obs w"
  shows "live w' s \<longleftrightarrow> live w s" "counter w' s = counter w s" "sem w' s = sem w s" "calm w' = calm w"
    "mActiveStreams (wrm w') = mActiveStreams (wrm w)"
proof -
  have "owned w' = owned w" using assms by (simp add: ssr_obs_def)
  note l = lifeD [OF ownedD(1) [OF this]]
  show "live w' s \<longleftrightarrow> live w s" by (simp add: l(1))
  show "counter w' s = counter w s" "sem w' s = sem w s" by (rule l(2), rule l(3))
  show "mActiveStreams (wrm w') = mActiveStreams (wrm w)" by (rule l(1))
  show "calm w' = calm w" unfolding calm_def l ..
qed

definition entered :: "nat \<Rightarrow> world \<Rightarrow> world" where
  "entered s w = set_counter s (Some (1, True)) (set_sem s (Some 0) w)"

definition left :: "nat \<Rightarrow> world \<Rightarrow> world" where
  "left s w = set_sem s (Some 1) (set_counter s (Some (0, True)) w)"

lemma enter_run: "calm w \<Longrightarrow> live w s \<Longrightarrow> RM_increaseStreamUserCounter s w = Some (0, entered s w)"
  by (simp add: calm_def entered_def RM_increaseStreamUserCounter_def Stream_waitStreamSmph_def)

lemma leave_run:
  assumes "ssr_obs w' = ssr_obs (entered s w)"
  shows "RM_decreaseStreamUserCounter s w' = (0, left s w')"
  using obsD(2,3) [OF assms, of s]
  by (simp add: entered_def left_def RM_decreaseStreamUserCounter_def Stream_postStreamSmph_def set_counter_def set_sem_def)

lemma entered_left_simps [simp]:
  "mActiveStreams (wrm (entered s w)) = mActiveStreams (wrm w)" "mActiveStreams (wrm (left s w)) = mActiveStreams (wrm w)"
  "counter (entered s w) x = (if x = s then Some (1, True) else counter w x)"
  "counter (left s w) x = (if x = s then Some (0, True) else counter w x)"
  "sem (entered s w) x = (if x = s then Some 0 else sem w x)" "sem (left s w) x = (if x = s then Some 1 else sem w x)"
  "mStreamAttr (wstr (entered s w) x) = mStreamAttr (wstr w x)" "mStreamAttr (wstr (left s w) x) = mStreamAttr (wstr w x)"
  "msgQ (wrm (entered s w)) = msgQ (wrm w)" "msgQ (wrm (left s w)) = msgQ (wrm w)"
  "cardState (wrm (entered s w)) = cardState (wrm w)" "cardState (wrm (left s w)) = cardState (wrm w)"
  "state_of x (entered s w) = state_of x w" "state_of x (left s w) = state_of x w"
  by (simp_all add: entered_def left_def set_counter_def set_sem_def state_of_def)

lemma left_entered:
  assumes c: "calm w" "live w s" and o: "ssr_obs w' = ssr_obs (entered s w)"
  shows "ssr_obs (left s w') = ssr_obs w"
proof -
  have h: "{x. mStreamAttr (wstr w' x) \<noteq> None} = {x. mStreamAttr (wstr w x) \<noteq> None}"
    "msgQ (wrm w') = msgQ (wrm w)" "cardState (wrm w') = cardState (wrm w)"
    using o by (simp_all add: ssr_obs_def owned_def)
  have "counter w s = Some (0, True)" "sem w s = Some 1" using c by (auto simp: calm_def)
  then have "counter (left s w') x = counter w x" "sem (left s w') x = sem w x" for x
    using obsD(2,3) [OF o, of x] by auto
  then have "life (left s w') = life w" using obsD(5) [OF o] by (simp add: life_def fun_eq_iff)
  then show ?thesis using h by (simp add: ssr_obs_def owned_def)
qed

lemma ssr_one:
  assumes c: "calm w" and l: "live w s" and k: "\<And>y. y \<noteq> s \<Longrightarrow> keeps (seen y) m"
  obtains r w1 where "run_state m (entered s w) = (r, w1)" "RM_decreaseStreamUserCounter s w1 = (0, left s w1)"
    "ssr_obs (left s w1) = ssr_obs w" "\<And>x. x \<noteq> s \<Longrightarrow> state_of x (left s w1) = state_of x w"
    "state_of s (left s w1) = state_of s w1"
proof -
  obtain r w1 where r: "run_state m (entered s w) = (r, w1)" by (rule prod.exhaust)
  have v: "seen y w1 = seen y (entered s w)" if "y \<noteq> s" for y using keepsD [OF k [OF that] r] .
  have o: "ssr_obs w1 = ssr_obs (entered s w)" using v [of "Suc s"] by (simp add: seen_def)
  show thesis
  proof (rule that [OF r leave_run [OF o]])
    show "state_of x (left s w1) = state_of x w" if "x \<noteq> s" for x
      using v [OF that] by (simp add: seen_def)
  qed (simp_all add: left_entered [OF c l o])
qed

section \<open>All streams\<close>

text \<open>What a pass over the streams \<open>ss\<close> does: everything observed is as before, the states of other
  streams too, and the states of these satisfy \<open>P\<close>.\<close>

definition passed :: "(stream_state_t \<Rightarrow> bool) \<Rightarrow> nat list \<Rightarrow> world \<Rightarrow> world \<Rightarrow> bool" where
  "passed P ss w w' \<longleftrightarrow> ssr_obs w' = ssr_obs w \<and>
     (\<forall>x. if x \<in> set ss then P (state_of x w') else state_of x w' = state_of x w)"

lemma passed_Cons:
  assumes "ssr_obs w1 = ssr_obs w" "\<And>x. x \<noteq> s \<Longrightarrow> state_of x w1 = state_of x w" "P (state_of s w1)"
    "passed P ss w1 w'"
  shows "passed P (s # ss) w w'"
  using assms unfolding passed_def by (auto split: if_splits)

definition down_body :: "env \<Rightarrow> ssr_vt \<Rightarrow> nat \<Rightarrow> nat \<Rightarrow> nat io" where
  "down_body E V t s = do {
     sr_down V s;
     (ret, t') \<leftarrow> Stream_getStreamType s;
     let t = (if ret \<noteq> 0 then t else t');
     when_io (t = PAL_STREAM_NON_TUNNEL) (do { RM_voteSleepMonitor E (Some s) False False; return () });
     return t
   }"

lemma down_step:
  assumes "RM_increaseStreamUserCounter s w = Some (0, w0)" "run_state (down_body E V t s) w0 = (t1, w1)"
    "RM_decreaseStreamUserCounter s w1 = (0, w2)"
  shows "run_state (ssr_down_all E V t (s # ss)) w = run_state (ssr_down_all E V t1 ss) w2"
  using assms by (auto simp: down_body_def Let_def split: prod.splits)

lemma se_body: "s \<noteq> y \<Longrightarrow> keeps (seen y) (down_body E (pcm_ssr E) t s)"
  unfolding down_body_def Stream_getStreamType_def by (rule se_vote se_handlers se.q_steps | simp)+

lemma body_state:
  assumes "run_state (down_body E (pcm_ssr E) t s) w = (t1, w1)"
  shows "state_of s w1 = state_of s (snd (run_state (sr_down (pcm_ssr E) s) w))"
proof -
  obtain r w0 where d: "run_state (sr_down (pcm_ssr E) s) w = (r, w0)" by (rule prod.exhaust)
  let ?rest = "do { (ret, t') \<leftarrow> Stream_getStreamType s; let t = (if ret \<noteq> 0 then t else t');
     when_io (t = PAL_STREAM_NON_TUNNEL) (do { RM_voteSleepMonitor E (Some s) False False; return () }); return t }"
  have "run_state ?rest w0 = (t1, w1)" using assms d by (simp add: down_body_def)
  moreover have "keeps (seen s) ?rest"
    unfolding Stream_getStreamType_def by (rule se_vote se.q_steps | simp)+
  ultimately have "seen s w1 = seen s w0" by (rule keepsD [rotated])
  then show ?thesis using d by (simp add: seen_def)
qed

lemma down_all:
  assumes "calm w" "\<forall>s\<in>set ss. live w s" and P: "\<And>s w. P (state_of s (snd (run_state (sr_down (pcm_ssr E) s) w)))"
  shows "passed P ss w (snd (run_state (ssr_down_all E (pcm_ssr E) t ss) w))"
  using assms(1,2)
proof (induction ss arbitrary: w t)
  case Nil
  then show ?case by (simp add: passed_def)
next
  case (Cons s ss)
  then have l: "live w s" by simp
  obtain t1 w1 where r: "run_state (down_body E (pcm_ssr E) t s) (entered s w) = (t1, w1)"
    "RM_decreaseStreamUserCounter s w1 = (0, left s w1)" and o: "ssr_obs (left s w1) = ssr_obs w"
    "\<And>x. x \<noteq> s \<Longrightarrow> state_of x (left s w1) = state_of x w" "state_of s (left s w1) = state_of s w1"
    by (rule ssr_one [OF Cons.prems(1) l, of "down_body E (pcm_ssr E) t s"]) (use se_body in auto)
  have "passed P ss (left s w1) (snd (run_state (ssr_down_all E (pcm_ssr E) t1 ss) (left s w1)))"
    by (rule Cons.IH) (use Cons.prems obsD [OF o(1)] in auto)
  moreover have "P (state_of s (left s w1))" using P body_state [OF r(1)] o(3) by simp
  ultimately show ?case
    using passed_Cons [OF o(1,2)] down_step [OF enter_run [OF Cons.prems(1) l] r] by simp
qed

lemma up_all:
  assumes "calm w" "\<forall>s\<in>set ss. live w s"
  shows "passed (\<lambda>_. True) ss w (snd (run_state (ssr_up_all (pcm_ssr E) ss) w))"
  using assms
proof (induction ss arbitrary: w)
  case Nil
  then show ?case by (simp add: passed_def)
next
  case (Cons s ss)
  then have l: "live w s" by simp
  obtain r w1 where r: "run_state (sr_up (pcm_ssr E) s) (entered s w) = (r, w1)"
    "RM_decreaseStreamUserCounter s w1 = (0, left s w1)" and o: "ssr_obs (left s w1) = ssr_obs w"
    "\<And>x. x \<noteq> s \<Longrightarrow> state_of x (left s w1) = state_of x w"
    by (rule ssr_one [OF Cons.prems(1) l, of "sr_up (pcm_ssr E) s"]) (use se_handlers(2) in auto)
  have "passed (\<lambda>_. True) ss (left s w1) (snd (run_state (ssr_up_all (pcm_ssr E) ss) (left s w1)))"
    by (rule Cons.IH) (use Cons.prems obsD [OF o(1)] in auto)
  then show ?case
    using passed_Cons [OF o(1,2)] r enter_run [OF Cons.prems(1) l] by simp
qed

section \<open>The queue\<close>

lemma ssr_ctx: "keeps (seen x) (ctx_handler E e)"
  unfolding ctx_handler_def by (rule se.q_steps)+

definition valid_state :: "nat \<Rightarrow> bool" where
  "valid_state n \<longleftrightarrow> n = CARD_STATUS_OFFLINE \<or> n = CARD_STATUS_ONLINE \<or> n = CARD_STATUS_STANDBY"

lemma inner_run:
  assumes c: "calm w" and v: "valid_state state" and ss: "ss = mActiveStreams (wrm w)"
    and r: "run_state (ssr_inner E (pcm_ssr E) (prev, t) state ss) w = (v', w')"
  shows "fst v' = state \<and> ssr_obs w' = ssr_obs w"
    "state \<noteq> prev \<Longrightarrow> PAL_CARD_STATUS_DOWN (int state) \<Longrightarrow> (\<And>s w. P (state_of s (snd (run_state (sr_down (pcm_ssr E) s) w)))) \<Longrightarrow>
     live w x \<Longrightarrow> P (state_of x w')"
proof -
  have ctx: "ssr_obs (snd (run_state (ctx_handler E e) u)) = ssr_obs u" "state_of y (snd (run_state (ctx_handler E e) u)) = state_of y u" for e u y
    using keeps_snd [OF ssr_ctx, of y E e u] by (simp_all add: seen_def)
  have down: "passed Q ss w (snd (run_state (ssr_down_all E (pcm_ssr E) t ss) w))"
    if "\<And>s w. Q (state_of s (snd (run_state (sr_down (pcm_ssr E) s) w)))" for Q
    by (rule down_all [OF c]) (simp_all add: ss that)
  show "fst v' = state \<and> ssr_obs w' = ssr_obs w"
  proof (cases "ss = [] \<or> state = prev \<or> PAL_CARD_STATUS_DOWN (int state)")
    case True
    then show ?thesis
      using r down [of "\<lambda>_. True"] ctx by (auto simp: ssr_inner_def passed_def when_io_def split: prod.splits if_splits)
        (metis snd_conv)+
  next
    case False
    then have up: "state = CARD_STATUS_ONLINE" "PAL_CARD_STATUS_UP (int state)"
      using v by (auto simp: valid_state_def PAL_CARD_STATUS_DOWN_def PAL_CARD_STATUS_UP_def)
    obtain w1 where w1: "run_state (ctx_handler E CtxSsrUp) w = ((), w1)" by (metis old.unit.exhaust prod.exhaust)
    then have o: "ssr_obs w1 = ssr_obs w" using ctx(1) [of CtxSsrUp w] by simp
    let ?w2 = "w1\<lparr>wlog := Rm UpdateCaptureProfiles # wlog w1\<rparr>"
    have o2: "ssr_obs ?w2 = ssr_obs w" using o by (simp add: ssr_obs_def)
    obtain z w3 where u: "run_state (ssr_up_all (pcm_ssr E) (mActiveStreams (wrm ?w2))) ?w2 = (z, w3)" by (rule prod.exhaust)
    have "passed (\<lambda>_. True) (mActiveStreams (wrm ?w2)) ?w2 (snd (run_state (ssr_up_all (pcm_ssr E) (mActiveStreams (wrm ?w2))) ?w2))"
      by (rule up_all) (use c obsD(4) [OF o2] in auto)
    then have "ssr_obs w3 = ssr_obs w" using o2 u by (simp add: passed_def)
    moreover have "v' = (state, t)" "w' = w3"
      using r False up(2) w1 u by (simp_all add: ssr_inner_def)
    ultimately show ?thesis by simp
  qed
  show "P (state_of x w')" if "state \<noteq> prev" "PAL_CARD_STATUS_DOWN (int state)" "live w x"
    and p: "\<And>s w. P (state_of s (snd (run_state (sr_down (pcm_ssr E) s) w)))"
  proof -
    obtain t1 w1 where d: "run_state (ssr_down_all E (pcm_ssr E) t ss) w = (t1, w1)" by (rule prod.exhaust)
    obtain z w2 where x: "run_state (ctx_handler E CtxSsrDown) w1 = (z, w2)" by (rule prod.exhaust)
    have n: "x \<in> set ss" "ss \<noteq> []" using that(3) ss by auto
    have "w' = w2" using r n(2) that(1,2) d x by (simp add: ssr_inner_def)
    moreover have "state_of x w2 = state_of x w1" using ctx(2) [of x CtxSsrDown w1] x by simp
    moreover have "P (state_of x w1)" using down [of P, OF p] d n(1) by (simp add: passed_def)
    ultimately show ?thesis by simp
  qed
qed

text \<open>One state of the card.\<close>

definition card_set :: "nat \<Rightarrow> event list \<Rightarrow> world \<Rightarrow> world" where
  "card_set n l w = w\<lparr>wrm := (wrm w)\<lparr>cardState := n\<rparr>, wlog := l\<rparr>"

lemma card_set_simps [simp]:
  "owned (card_set n l w) = owned w" "state_of x (card_set n l w) = state_of x w"
  "msgQ (wrm (card_set n l w)) = msgQ (wrm w)" "cardState (wrm (card_set n l w)) = n"
  "mActiveStreams (wrm (card_set n l w)) = mActiveStreams (wrm w)" "calm (card_set n l w) = calm w"
  by (simp_all add: card_set_def owned_def life_def state_of_def calm_def)

lemma message_inner:
  "\<exists>l. run_state (ssr_message E V (prev, t) state) w =
     (case run_state (ssr_inner E V (prev, t) state (mActiveStreams (wrm w))) (card_set state l w) of
        (v, w') \<Rightarrow> (v, w'\<lparr>wlog := Unlock ActiveStreamMutex # wlog w'\<rparr>))"
proof (cases "state \<noteq> prev \<and> globalCb (wrm w)")
  case True
  then show ?thesis
    by (intro exI [of _ "Rm (GlobalCallback state) # Lock ActiveStreamMutex # wlog w"])
       (simp add: ssr_message_def card_set_def split: prod.split)
next
  case False
  have "w\<lparr>wlog := l, wrm := (wrm w)\<lparr>cardState := state\<rparr>\<rparr> = card_set state l w" for l
    by (simp add: card_set_def)
  then show ?thesis
    using False by (intro exI [of _ "Lock ActiveStreamMutex # wlog w"]) (auto simp: ssr_message_def split: prod.split)
qed

lemma message_run:
  assumes c: "calm w" and v: "valid_state state"
    and r: "run_state (ssr_message E (pcm_ssr E) (prev, t) state) w = (v', w')"
  shows "fst v' = state" "owned w' = owned w" "msgQ (wrm w') = msgQ (wrm w)" "cardState (wrm w') = state"
    "state \<noteq> prev \<Longrightarrow> PAL_CARD_STATUS_DOWN (int state) \<Longrightarrow> (\<And>s w. P (state_of s (snd (run_state (sr_down (pcm_ssr E) s) w)))) \<Longrightarrow>
     live w x \<Longrightarrow> P (state_of x w')"
proof -
  obtain l where m: "run_state (ssr_message E (pcm_ssr E) (prev, t) state) w =
     (case run_state (ssr_inner E (pcm_ssr E) (prev, t) state (mActiveStreams (wrm w))) (card_set state l w) of
        (v, w') \<Rightarrow> (v, w'\<lparr>wlog := Unlock ActiveStreamMutex # wlog w'\<rparr>))" using message_inner by blast
  obtain v1 w1 where i: "run_state (ssr_inner E (pcm_ssr E) (prev, t) state (mActiveStreams (wrm w))) (card_set state l w) = (v1, w1)"
    by (rule prod.exhaust)
  have w': "v' = v1" "w' = w1\<lparr>wlog := Unlock ActiveStreamMutex # wlog w1\<rparr>" using m r i by auto
  have c': "calm (card_set state l w)" using c by simp
  note run = inner_run [OF c' v _ i]
  have o: "fst v1 = state" "ssr_obs w1 = ssr_obs (card_set state l w)" using run(1) by simp_all
  then show "fst v' = state" "owned w' = owned w" "msgQ (wrm w') = msgQ (wrm w)" "cardState (wrm w') = state"
    using w' by (simp_all add: ssr_obs_def)
  show "P (state_of x w')" if "state \<noteq> prev" "PAL_CARD_STATUS_DOWN (int state)"
    "\<And>s w. P (state_of s (snd (run_state (sr_down (pcm_ssr E) s) w)))" "live w x"
    using run(2) [of P x, OF _ that(1,2)] that(3,4) w' by (simp add: state_of_def)
qed

lemma turns_run:
  assumes "calm w" "list_all valid_state (msgQ (wrm w))" "length (msgQ (wrm w)) = n"
  shows "\<exists>v' w'. run_state (ssr_turns E (pcm_ssr E) n v) w = (Some v', w') \<and> fst v' = last (fst v # msgQ (wrm w)) \<and>
    owned w' = owned w \<and> msgQ (wrm w') = [] \<and> cardState (wrm w') = last (cardState (wrm w) # msgQ (wrm w))"
  using assms
proof (induction n arbitrary: w v)
  case 0
  then show ?case by simp
next
  case (Suc n)
  then obtain state q where q: "msgQ (wrm w) = state # q" by (cases "msgQ (wrm w)") auto
  obtain prev t where v: "v = (prev, t)" by (rule prod.exhaust)
  let ?w0 = "w\<lparr>wrm := (wrm w)\<lparr>msgQ := q\<rparr>, wlog := Unlock CvMutex # wlog w\<rparr>"
  have vs: "valid_state state" "list_all valid_state q" using Suc.prems(2) q by simp_all
  then have ns: "state \<noteq> CARD_STATUS_NONE" by (auto simp: valid_state_def)
  have c0: "calm ?w0" using Suc.prems(1) by (simp add: calm_def)
  obtain v1 w1 where m: "run_state (ssr_message E (pcm_ssr E) (prev, t) state) ?w0 = (v1, w1)" by (rule prod.exhaust)
  note run = message_run [OF c0 vs(1) m]
  let ?w2 = "w1\<lparr>wlog := Lock CvMutex # wlog w1\<rparr>"
  have o: "owned ?w2 = owned w" using run(2) by (simp add: owned_def life_def)
  have c2: "calm ?w2" using Suc.prems(1) lifeD [OF ownedD(1) [OF o]] unfolding calm_def by simp
  obtain v2 w3 where r: "run_state (ssr_turns E (pcm_ssr E) n v1) ?w2 = (Some v2, w3)" "fst v2 = last (fst v1 # msgQ (wrm ?w2))"
    "owned w3 = owned ?w2" "msgQ (wrm w3) = []" "cardState (wrm w3) = last (cardState (wrm ?w2) # msgQ (wrm ?w2))"
    using Suc.IH [of ?w2 v1] c2 run(3) vs(2) Suc.prems(3) q by auto
  have "run_state (ssr_turns E (pcm_ssr E) (Suc n) v) w = (Some v2, w3)"
    using q ns m r(1) v by (simp add: ssr_turn_def)
  then show ?case using r(2-5) run q o by auto
qed

section \<open>One stream over a restart\<close>

definition cached_of :: "nat \<Rightarrow> world \<Rightarrow> stream_state_t \<times> bool" where
  "cached_of s w = (cachedState (wstr w s), skipSSRHandling (wstr w s))"

lemma keeps_cached: "keeps wstr m \<Longrightarrow> keeps (cached_of s) m"
  by (simp add: keeps_def cached_of_def)

lemma ca_upd: "(\<And>x. cachedState (g x) = cachedState x \<and> skipSSRHandling (g x) = skipSSRHandling x) \<Longrightarrow> keeps (cached_of s) (upd_str t g)"
  by (auto simp: keeps_def cached_of_def)

lemma ca_log: "keeps (cached_of s) (call E c)" "keeps (cached_of s) (tell c)" "keeps (cached_of s) (lock k)" "keeps (cached_of s) (unlock k)"
  by (simp_all add: keeps_def cached_of_def)

lemmas ca_steps = ca_upd ca_log kp_register [THEN keeps_cached] kp_device_str [THEN keeps_cached]
  kp_bind kp_if kp_when kp_cases kp_let kp_pure kp_for_each kp_last_status

lemma ca_run_on: "(\<And>d. keeps (cached_of s) (g d)) \<Longrightarrow> keeps (cached_of s) (run_on r ds g)"
  by (induction ds arbitrary: r) (auto simp del: if_split intro!: ca_steps)

lemma ca_stop: "keeps (cached_of s) (StreamPCM_stop E (Device_vt E) s)"
  unfolding StreamPCM_stop_def stop_by_direction_def stop_output_def stop_input_def stop_loopback_def
    StreamPCM_direction_def mmap_skips_def on_side_def Device_getSndDeviceId_def Device_vt_def dev_vt.simps
  by (rule ca_run_on ca_steps | simp)+

lemma ca_vt: "keeps (cached_of s) (vt_stop (Device_vt E) d)" "keeps (cached_of s) (vt_close (Device_vt E) d)"
  by (simp_all add: Device_vt_def kp_device_str [THEN keeps_cached])

lemma ca_close: "keeps (cached_of s) (StreamPCM_close E (Device_vt E) s)"
  unfolding StreamPCM_close_def close_stop_def mmap_skips_def Device_getSndDeviceId_def
  by (rule ca_stop ca_vt ca_steps | simp)+

lemma ca_ssr_close: "keeps (cached_of s) (ssr_close E (Device_vt E) s st)"
  unfolding ssr_close_def by (rule ca_stop ca_close ca_steps | simp)+

definition feasible :: "env \<Rightarrow> bool" where
  "feasible E \<longleftrightarrow> (\<forall>l t. ans E l (IsSsrDownFeasible t) \<noteq> 0)"

lemma down_run:
  assumes f: "feasible E" and r: "run_state (sr_down (pcm_ssr E) s) w = (r, w')"
  shows "state_of s w' = STREAM_IDLE"
    "cached_of s w' = (if cachedState (wstr w s) = STREAM_IDLE then state_of s w else cachedState (wstr w s), skipSSRHandling (wstr w s))"
proof -
  let ?l = "IsSsrDownFeasible (stream_type w s) # Lock (StreamMutex s) # wlog w"
  let ?w0 = "w\<lparr>wstr := (wstr w)(s := if cachedState (wstr w s) = STREAM_IDLE then (wstr w s)\<lparr>cachedState := currentState (wstr w s)\<rparr> else wstr w s),
    wlog := Unlock (StreamMutex s) # ?l\<rparr>"
  obtain r1 w1 where c: "run_state (ssr_close E (Device_vt E) s (currentState (wstr w s))) ?w0 = (r1, w1)" by (rule prod.exhaust)
  have w': "w' = w1\<lparr>wstr := (wstr w1)(s := (wstr w1 s)\<lparr>currentState := STREAM_IDLE\<rparr>)\<rparr>"
    using r c f by (simp add: pcm_ssr_def StreamPCM_ssrDownHandler_def Stream_isStreamSSRDownFeasibile_def feasible_def stream_type_def
        split: if_splits)
  show "state_of s w' = STREAM_IDLE" by (simp add: w' state_of_def)
  have "cached_of s w' = cached_of s w1" by (simp add: w' cached_of_def)
  also have "\<dots> = cached_of s ?w0" by (rule keepsD [OF ca_ssr_close c])
  finally show "cached_of s w' = (if cachedState (wstr w s) = STREAM_IDLE then state_of s w else cachedState (wstr w s), skipSSRHandling (wstr w s))"
    by (simp add: cached_of_def state_of_def)
qed

text \<open>Where a stream that was in a state may be after a restart, depending on how much of it works.
  A stopped stream is not opened again.\<close>

fun restart_states :: "stream_state_t \<Rightarrow> stream_state_t set" where
  "restart_states STREAM_INIT = {STREAM_IDLE, STREAM_INIT}"
| "restart_states STREAM_STARTED = {STREAM_IDLE, STREAM_INIT, STREAM_STARTED}"
| "restart_states STREAM_PAUSED = {STREAM_IDLE, STREAM_INIT, STREAM_STARTED, STREAM_PAUSED}"
| "restart_states _ = {STREAM_IDLE}"

lemma valid_run: "valid P m Q \<Longrightarrow> P w \<Longrightarrow> run_state m w = (r, w') \<Longrightarrow> Q r w'"
  by (auto simp: valid_def)

lemma st_mono: "valid P m Q \<Longrightarrow> (\<And>r w. Q r w \<Longrightarrow> Q' r w) \<Longrightarrow> valid P m Q'"
  unfolding valid_def by blast

lemma st_case: "(\<And>x. x \<in> X \<Longrightarrow> valid (\<lambda>w. state_of s w = x) m Q) \<Longrightarrow> valid (\<lambda>w. state_of s w \<in> X) m Q"
  unfolding valid_def by blast

lemma open_from_idle:
  "valid (\<lambda>w. state_of s w = STREAM_IDLE) (StreamPCM_open E (Device_vt E) s) (\<lambda>_ w. state_of s w \<in> {STREAM_IDLE, STREAM_INIT})"
  by (rule st_mono [OF base_blind.sv_open]) auto

lemma open_start_from_idle:
  "valid (\<lambda>w. state_of s w = STREAM_IDLE) (ssr_open_start E (Device_vt E) s)
     (\<lambda>_ w. state_of s w \<in> {STREAM_IDLE, STREAM_INIT, STREAM_STARTED})"
  unfolding ssr_open_start_def
proof (rule valid_bind [OF open_from_idle], rule valid_if)
  show "valid (\<lambda>w. state_of s w \<in> {STREAM_IDLE, STREAM_INIT}) (return r) (\<lambda>_ w. state_of s w \<in> {STREAM_IDLE, STREAM_INIT, STREAM_STARTED})" for r :: int
    by (auto simp: valid_def)
  have start: "valid (\<lambda>w. state_of s w = x) (StreamPCM_start E (Device_vt E) s) (\<lambda>_ w. state_of s w \<in> {STREAM_IDLE, STREAM_INIT, STREAM_STARTED})"
    if "x \<in> {STREAM_IDLE, STREAM_INIT}" for x
    by (rule st_mono [OF base_blind.sv_start]) (use that in \<open>auto split: if_splits\<close>)
  show "valid (\<lambda>w. state_of s w \<in> {STREAM_IDLE, STREAM_INIT})
    (do { unlock ActiveStreamMutex; r \<leftarrow> StreamPCM_start E (Device_vt E) s; lock ActiveStreamMutex; return r })
    (\<lambda>_ w. state_of s w \<in> {STREAM_IDLE, STREAM_INIT, STREAM_STARTED})"
  proof (rule st_case, rule sv_keep)
    fix x assume x: "x \<in> {STREAM_IDLE, STREAM_INIT}"
    show "valid (\<lambda>w. state_of s w = x) (do { r \<leftarrow> StreamPCM_start E (Device_vt E) s; lock ActiveStreamMutex; return r })
      (\<lambda>_ w. state_of s w \<in> {STREAM_IDLE, STREAM_INIT, STREAM_STARTED})"
      by (rule valid_bind [OF start [OF x]]) (simp add: valid_def state_of_def)
  qed (rule state_rules)
qed

lemma restored:
  "valid (\<lambda>w. state_of s w = STREAM_IDLE) (ssr_restore E (Device_vt E) s c) (\<lambda>_ w. state_of s w \<in> restart_states c)"
proof (cases c)
  case STREAM_PAUSED
  have pause: "valid (\<lambda>w. state_of s w \<in> {STREAM_IDLE, STREAM_INIT, STREAM_STARTED})
      (do { st \<leftarrow> str s currentState; if r \<noteq> 0 \<or> st \<noteq> STREAM_STARTED then return r else StreamPCM_pause E s })
      (\<lambda>_ w. state_of s w \<in> restart_states c)" for r :: int
  proof (rule st_case, rule sv_str, rule valid_if)
    fix x assume "x \<in> {STREAM_IDLE, STREAM_INIT, STREAM_STARTED}"
    then show "valid (\<lambda>w. state_of s w = x) (return r) (\<lambda>_ w. state_of s w \<in> restart_states c)"
      by (auto simp: STREAM_PAUSED valid_def)
    show "valid (\<lambda>w. state_of s w = x) (StreamPCM_pause E s) (\<lambda>_ w. state_of s w \<in> restart_states c)"
      by (rule st_mono [OF sv_pause]) (use \<open>x \<in> _\<close> in \<open>auto simp: STREAM_PAUSED\<close>)
  qed
  show ?thesis
    using valid_bind [OF open_start_from_idle pause] by (simp add: ssr_restore_def STREAM_PAUSED)
qed (use open_from_idle [of s E] open_start_from_idle [of s E] in \<open>auto simp: ssr_restore_def valid_def\<close>)

lemma up_run:
  assumes i: "state_of s w = STREAM_IDLE" and k: "\<not> skipSSRHandling (wstr w s)"
    and r: "run_state (sr_up (pcm_ssr E) s) w = (r, w')"
  shows "state_of s w' \<in> restart_states (cachedState (wstr w s))" "cachedState (wstr w' s) = STREAM_IDLE"
proof -
  let ?c = "cachedState (wstr w s)"
  let ?w0 = "w\<lparr>wlog := Unlock (StreamMutex s) # Lock (StreamMutex s) # wlog w\<rparr>"
  obtain r1 w1 where c: "run_state (ssr_restore E (Device_vt E) s ?c) ?w0 = (r1, w1)" by (rule prod.exhaust)
  have w': "w' = w1\<lparr>wstr := (wstr w1)(s := (wstr w1 s)\<lparr>cachedState := STREAM_IDLE\<rparr>)\<rparr>"
    using r c k by (simp add: pcm_ssr_def StreamPCM_ssrUpHandler_def split: if_splits)
  have "state_of s w1 \<in> restart_states ?c"
    by (rule valid_run [OF restored _ c]) (use i in \<open>simp add: state_of_def\<close>)
  then show "state_of s w' \<in> restart_states ?c" by (simp add: w' state_of_def)
  show "cachedState (wstr w' s) = STREAM_IDLE" by (simp add: w')
qed

section \<open>Properties\<close>

lemma ex_between: "between ex_open"
  using reach_open by (auto simp: between_def has_attr_def ex_defs RM_initStreamUserCounter_def)

definition ex_restart :: world where
  "ex_restart = ex_open\<lparr>wrm := (wrm ex_open)\<lparr>msgQ := [CARD_STATUS_OFFLINE, CARD_STATUS_ONLINE]\<rparr>\<rparr>"

lemma ex_restart_between: "between ex_restart"
  by (rule between_kept [OF ex_between]) (simp add: ex_restart_def owned_def life_def)

definition quiet_env :: env where
  "quiet_env = demo_env\<lparr>ans := (\<lambda>l e. case e of IsSsrDownFeasible _ \<Rightarrow> 1 | _ \<Rightarrow> ans demo_env l e)\<rparr>"

lemma quiet_feasible: "feasible quiet_env"
  by (simp add: feasible_def quiet_env_def)





text \<open>
  C7: When the card is reported offline after it was online, and no stream type is exempt, the
  thread leaves every registered PCM stream idle.
\<close>

theorem offline_idles_all:
  assumes "between w" and "feasible E" and "prev \<noteq> CARD_STATUS_OFFLINE"
    and "run_state (ssr_message E (pcm_ssr E) (prev, t) CARD_STATUS_OFFLINE) w = (v, w')" and "live w s"
  shows "currentState (wstr w' s) = STREAM_IDLE"
proof -
  have c: "calm w" using between_counters [OF assms(1)] by (simp add: calm_def)
  have "state_of s (snd (run_state (sr_down (pcm_ssr E) s) w)) = STREAM_IDLE" for s w
    by (rule down_run(1) [OF assms(2) prod.collapse [symmetric]])
  then have "state_of s w' = STREAM_IDLE"
    by (intro message_run(5) [OF c _ assms(4), where P = "\<lambda>z. z = STREAM_IDLE"])
       (use assms(3,5) in \<open>simp_all add: valid_state_def PAL_CARD_STATUS_DOWN_def\<close>)
  then show ?thesis by (simp add: state_of_def)
qed

theorem offline_idles_all_witness:
  "currentState (wstr (snd (run_state (ssr_message quiet_env (pcm_ssr quiet_env) (CARD_STATUS_ONLINE, 0) CARD_STATUS_OFFLINE) ex_open)) 4) =
    STREAM_IDLE"
  by (rule offline_idles_all [OF ex_between quiet_feasible _ prod.collapse [symmetric]])
     (simp_all add: ex_defs RM_initStreamUserCounter_def)

end
