(* ===== verification/RM_Instances.thy ===== *)
theory RM_Instances
  imports Pal_Stream
begin

unbundle bit_operations_syntax

text \<open>
  The numbering of streams in \<^verbatim>\<open>resource_manager/src/ResourceManager.cpp\<close>:
  \<^verbatim>\<open>getStreamInstanceID\<close> and \<^verbatim>\<open>resetStreamInstanceID\<close>.  The pools of ordinary streams are 64-bit
  masks, one for each type and direction, but the mask of an identifier is made by the C++
  expression \<^verbatim>\<open>1 << i\<close>, a 32-bit signed integer that is widened: bit 31 stands for all bits above
  it.  A shift by 32 or more has no meaning, and neither has an index outside an array; the result
  is then \<open>None\<close>.
\<close>

section \<open>The pools\<close>

definition one_shl :: "nat \<Rightarrow> 64 word" where
  "one_shl i = scast (push_bit i (1 :: 32 word))"

definition not_one_shl :: "nat \<Rightarrow> 64 word" where
  "not_one_shl i = scast (NOT (push_bit i (1 :: 32 word)))"

definition MAX_STREAM_INSTANCES :: nat where
  "MAX_STREAM_INSTANCES = 64"

fun free_bit :: "nat list \<Rightarrow> 64 word \<Rightarrow> nat option option" where
  "free_bit [] m = Some None"
| "free_bit (i # is) m =
     (if i \<ge> 32 then None else if m AND one_shl i = 0 then Some (Some i) else free_bit is m)"

text \<open>An ordinary stream: the status, the identifier it keeps, and the mask.\<close>

definition ordinary_get :: "bool \<Rightarrow> nat \<Rightarrow> 64 word \<Rightarrow> (int \<times> nat \<times> 64 word) option" where
  "ordinary_get inp status m =
     (if status = 0 then
        if m = - 1 then Some (- EINVAL, 0, m)
        else (case free_bit [0..<MAX_STREAM_INSTANCES] m of
                None \<Rightarrow> None
              | Some None \<Rightarrow> Some (0, 0, m)
              | Some (Some i) \<Rightarrow> Some (int i + 1, i + 1, m OR one_shl i))
      else if inp then
        if status > 32 then None else Some (to_i32 (int status), status, m OR one_shl (status - 1))
      else Some (to_i32 (int status), status, m))"

definition ordinary_reset :: "nat \<Rightarrow> 64 word \<Rightarrow> 64 word option" where
  "ordinary_reset sid m = (if sid > 32 then None else Some (m AND not_one_shl (sid - 1)))"

text \<open>Sound trigger streams: a list of identifiers for each stream configuration.\<close>

fun take_unused :: "nat \<Rightarrow> (nat \<times> bool) list \<Rightarrow> (int \<times> (nat \<times> bool) list) option" where
  "take_unused 0 l = Some (0, l)"
| "take_unused (Suc n) [] = None"
| "take_unused (Suc n) ((i, used) # l) =
     (if \<not> used then Some (int i, (i, True) # l)
      else map_option (map_prod id (Cons (i, used))) (take_unused n l))"

fun give_back :: "nat \<Rightarrow> nat \<Rightarrow> (nat \<times> bool) list \<Rightarrow> (nat \<times> bool) list option" where
  "give_back 0 sid l = Some l"
| "give_back (Suc n) sid [] = None"
| "give_back (Suc n) sid ((i, used) # l) =
     (if i = sid then Some ((i, False) # l) else map_option (Cons (i, used)) (give_back n sid l))"

definition instance_list :: "nat \<Rightarrow> (nat \<times> bool) list" where
  "instance_list n = map (\<lambda>i. (i, False)) [1..<n + 1]"

fun st_get :: "nat \<Rightarrow> string \<Rightarrow> (string \<times> (nat \<times> bool) list) list \<Rightarrow>
    (int \<times> (string \<times> (nat \<times> bool) list) list) option" where
  "st_get n sel [] = map_option (\<lambda>(r, l). (r, [(sel, l)])) (take_unused n (instance_list n))"
| "st_get n sel ((k, l) # ls) =
     (if k = sel then map_option (\<lambda>(r, l). (r, (k, l) # ls)) (take_unused n l)
      else map_option (map_prod id (Cons (k, l))) (st_get n sel ls))"

fun st_reset :: "nat \<Rightarrow> string \<Rightarrow> nat \<Rightarrow> (string \<times> (nat \<times> bool) list) list \<Rightarrow>
    (string \<times> (nat \<times> bool) list) list option" where
  "st_reset n sel sid [] = Some []"
| "st_reset n sel sid ((k, l) # ls) =
     (if k = sel then map_option (\<lambda>l. (k, l) # ls) (give_back n sid l)
      else map_option (Cons (k, l)) (st_reset n sel sid ls))"

section \<open>The two operations\<close>

definition is_input :: "pal_stream_attributes \<Rightarrow> bool" where
  "is_input a \<longleftrightarrow> direction a = PAL_AUDIO_INPUT"

definition pool :: "pal_stream_attributes \<Rightarrow> RM \<Rightarrow> 64 word" where
  "pool a rm = (if is_input a then in_stream_instances rm else stream_instances rm) (stype a - 1)"

definition set_pool :: "pal_stream_attributes \<Rightarrow> 64 word \<Rightarrow> RM \<Rightarrow> RM" where
  "set_pool a m rm =
     (if is_input a then rm\<lparr>in_stream_instances := (in_stream_instances rm)(stype a - 1 := m)\<rparr>
      else rm\<lparr>stream_instances := (stream_instances rm)(stype a - 1 := m)\<rparr>)"

text \<open>The switch over the stream type: status, identifier of the stream, resource manager.\<close>

definition instance_get :: "pal_stream_attributes \<Rightarrow> string \<Rightarrow> nat \<Rightarrow> RM \<Rightarrow> (int \<times> nat \<times> RM) option" where
  "instance_get a sel sid rm =
     (if stype a = PAL_STREAM_VOICE_UI then
        if sel = [] then Some (0, sid, rm)
        else map_option (\<lambda>(r, ls). (r, sid, rm\<lparr>STInstancesLists := ls\<rparr>))
               (st_get (max_session_num rm) sel (STInstancesLists rm))
      else if stype a = PAL_STREAM_NON_TUNNEL then
        if sid \<noteq> 0 then Some (0, sid, rm)
        else (case getAvailableNTStreamInstance (max_nt_sessions rm) a (mNTStreamInstancesList rm) of
                (r, m) \<Rightarrow> Some (r, if r < 0 then sid else nat r, rm\<lparr>mNTStreamInstancesList := m\<rparr>))
      else if stype a = 0 then None
      else map_option (\<lambda>(r, sid, m). (r, sid, set_pool a m rm)) (ordinary_get (is_input a) sid (pool a rm)))"

definition instance_reset :: "pal_stream_attributes \<Rightarrow> string \<Rightarrow> nat \<Rightarrow> nat \<Rightarrow> RM \<Rightarrow> (nat \<times> RM) option" where
  "instance_reset a sel own sid rm =
     (if stype a = PAL_STREAM_VOICE_UI then
        if sel = [] then Some (own, rm)
        else map_option (\<lambda>ls. (own, rm\<lparr>STInstancesLists := ls\<rparr>))
               (st_reset (max_session_num rm) sel sid (STInstancesLists rm))
      else if stype a = PAL_STREAM_NON_TUNNEL then
        let p = getNTPathForStreamAttr a; m = mNTStreamInstancesList rm
        in Some (0, rm\<lparr>mNTStreamInstancesList :=
             m(p := (if m p own \<noteq> None then (m p)(own \<mapsto> False) else m p))\<rparr>)
      else if stype a = 0 then None
      else map_option (\<lambda>m. (0, set_pool a m rm)) (ordinary_reset sid (pool a rm)))"

definition RM_getStreamInstanceID :: "nat \<Rightarrow> int option io" where
  "RM_getStreamInstanceID s = do {
     (status, a) \<leftarrow> Stream_getStreamAttributes s;
     case a of
       None \<Rightarrow> return (Some status)
     | Some a \<Rightarrow>
         if stype a \<ge> PAL_STREAM_MAX then return (Some (- EINVAL))
         else do {
           lock ResourceManagerMutex;
           sel \<leftarrow> str s mStreamSelector;
           sid \<leftarrow> str s mInstanceID;
           r \<leftarrow> rmg (instance_get a sel sid);
           case r of
             None \<Rightarrow> return None
           | Some (status, sid, rm) \<Rightarrow> do {
               upd_str s (mInstanceID_update (\<lambda>_. sid));
               upd_rm (\<lambda>_. rm);
               unlock ResourceManagerMutex;
               return (Some status)
             }
         }
   }"

definition RM_resetStreamInstanceID_of :: "nat \<Rightarrow> nat \<Rightarrow> int option io" where
  "RM_resetStreamInstanceID_of s sInstanceID =
     (if sInstanceID < 1 then return (Some (- EINVAL))
      else do {
        (status, a) \<leftarrow> Stream_getStreamAttributes s;
        case a of
          None \<Rightarrow> return (Some status)
        | Some a \<Rightarrow>
            if stype a \<ge> PAL_STREAM_MAX then return (Some (- EINVAL))
            else do {
              lock ResourceManagerMutex;
              sel \<leftarrow> str s mStreamSelector;
              own \<leftarrow> str s mInstanceID;
              r \<leftarrow> rmg (instance_reset a sel own sInstanceID);
              case r of
                None \<Rightarrow> return None
              | Some (sid, rm) \<Rightarrow> do {
                  upd_str s (mInstanceID_update (\<lambda>_. sid));
                  upd_rm (\<lambda>_. rm);
                  unlock ResourceManagerMutex;
                  return (Some 0)
                }
            }
      })"

definition RM_resetStreamInstanceID :: "nat option \<Rightarrow> int option io" where
  "RM_resetStreamInstanceID h = (case h of
     None \<Rightarrow> return (Some (- EINVAL))
   | Some s \<Rightarrow> do { sid \<leftarrow> str s mInstanceID; RM_resetStreamInstanceID_of s sid })"

section \<open>Lemmas on the masks\<close>

lemma bit_one_shl: "i < 32 \<Longrightarrow> bit (one_shl i) j \<longleftrightarrow> j < 64 \<and> (j = i \<or> i = 31 \<and> j \<ge> 31)"
  by (auto simp: one_shl_def bit_signed_iff bit_exp_iff min_def)

lemma bit_not_one_shl: "i < 32 \<Longrightarrow> bit (not_one_shl i) j \<longleftrightarrow> j < 64 \<and> \<not> (j = i \<or> i = 31 \<and> j \<ge> 31)"
  by (auto simp: not_one_shl_def bit_signed_iff bit_exp_iff bit_not_iff min_def)

text \<open>The bits above 31 repeat bit 31.\<close>

definition widened :: "64 word \<Rightarrow> bool" where
  "widened m \<longleftrightarrow> (\<forall>j. 31 \<le> j \<and> j < 64 \<longrightarrow> bit m j = bit m 31)"

lemma widenedD: "widened m \<Longrightarrow> 31 \<le> j \<Longrightarrow> j < 64 \<Longrightarrow> bit m j = bit m 31"
  unfolding widened_def by blast

lemma widenedI: "(\<And>j. 31 \<le> j \<Longrightarrow> j < 64 \<Longrightarrow> bit m j = bit m 31) \<Longrightarrow> widened m"
  unfolding widened_def by blast

lemma widened_kept:
  assumes "widened m" "i < 32"
  shows "widened (m OR one_shl i)" "widened (m AND not_one_shl i)"
proof -
  have "bit (m OR one_shl i) j = bit (m OR one_shl i) 31" "bit (m AND not_one_shl i) j = bit (m AND not_one_shl i) 31"
    if "31 \<le> j" "j < 64" for j
    using that assms(2) widenedD [OF assms(1) that] by (auto simp: bit_or_iff bit_and_iff bit_one_shl bit_not_one_shl)
  then show "widened (m OR one_shl i)" "widened (m AND not_one_shl i)" by (blast intro: widenedI)+
qed

lemma widened_0: "widened 0"
  by (rule widenedI) simp

lemma disjoint_one_shl:
  assumes "widened m" "i < 32"
  shows "m AND one_shl i = 0 \<longleftrightarrow> \<not> bit m i"
proof
  assume "m AND one_shl i = 0"
  then have "\<not> bit (m AND one_shl i) i" by simp
  then show "\<not> bit m i" using assms(2) by (simp add: bit_and_iff bit_one_shl)
next
  assume n: "\<not> bit m i"
  have "\<not> bit (m AND one_shl i) j" for j
    using n assms widenedD [OF assms(1), of j] by (auto simp: bit_and_iff bit_one_shl)
  then show "m AND one_shl i = 0" by (simp add: bit_eq_iff)
qed

lemma full_iff:
  assumes w: "widened m"
  shows "m = - 1 \<longleftrightarrow> (\<forall>i<32. bit m i)"
proof
  assume a: "\<forall>i<32. bit m i"
  have "bit m j" if "j < 64" for j
    using a widenedD [OF w, of j] that by (cases "j < 32") auto
  then show "m = - 1" by (simp add: bit_eq_iff)
next
  assume "m = - 1"
  then show "\<forall>i<32. bit m i" by simp
qed

lemma free_bit_upt:
  assumes "widened m" "a \<le> i" "i < 32" "\<not> bit m i" "\<And>j. a \<le> j \<Longrightarrow> j < i \<Longrightarrow> bit m j"
  shows "free_bit [a..<64] m = Some (Some i)"
  using assms
proof (induction "i - a" arbitrary: a)
  case 0
  then show ?case by (simp add: upt_conv_Cons disjoint_one_shl)
next
  case (Suc n)
  then have "a < i" by simp
  moreover have "bit m a" using Suc.prems(5) calculation by simp
  moreover have "free_bit [Suc a..<64] m = Some (Some i)"
    by (rule Suc.hyps(1)) (use Suc.prems Suc.hyps(2) calculation in auto)
  ultimately show ?case using Suc.prems by (simp add: upt_conv_Cons disjoint_one_shl)
qed

section \<open>What a pool of identifiers promises\<close>

text \<open>
  The contract of a pool with the identifiers from 1 to \<open>cap\<close>: the smallest free one is chosen, none
  exactly if all are taken; marking takes it and clearing gives it back.  The holders are the streams;
  a stream that holds nothing has the number zero.
\<close>

definition smallest_free :: "nat set \<Rightarrow> nat" where
  "smallest_free T = (LEAST i. 1 \<le> i \<and> i \<notin> T)"

lemma smallest_freeI:
  "1 \<le> i \<Longrightarrow> i \<notin> T \<Longrightarrow> (\<And>j. 1 \<le> j \<Longrightarrow> j < i \<Longrightarrow> j \<in> T) \<Longrightarrow> smallest_free T = i"
  unfolding smallest_free_def by (rule Least_equality) (auto simp: not_less [symmetric])

lemma smallest_free_in:
  assumes "T \<noteq> {1..cap}" "T \<subseteq> {1..cap}"
  shows "smallest_free T \<in> {1..cap} - T" "\<And>j. 1 \<le> j \<Longrightarrow> j < smallest_free T \<Longrightarrow> j \<in> T"
proof -
  obtain i where i: "1 \<le> i" "i \<le> cap" "i \<notin> T" using assms by force
  have l: "1 \<le> smallest_free T \<and> smallest_free T \<notin> T"
    unfolding smallest_free_def by (rule LeastI [of "\<lambda>i. 1 \<le> i \<and> i \<notin> T" i]) (use i in auto)
  moreover have "smallest_free T \<le> i" unfolding smallest_free_def by (rule Least_le) (use i in auto)
  ultimately show "smallest_free T \<in> {1..cap} - T" using i by auto
  show "j \<in> T" if "1 \<le> j" "j < smallest_free T" for j
    using not_less_Least [of j "\<lambda>i. 1 \<le> i \<and> i \<notin> T"] that by (auto simp: smallest_free_def)
qed

locale id_pool =
  fixes pick :: "'p \<Rightarrow> nat option" and mark clear :: "nat \<Rightarrow> 'p \<Rightarrow> 'p"
    and taken :: "'p \<Rightarrow> nat set" and cap :: nat and ok :: "'p \<Rightarrow> bool"
  assumes in_range: "ok p \<Longrightarrow> taken p \<subseteq> {1..cap}"
    and pick_least: "ok p \<Longrightarrow> pick p = (if taken p = {1..cap} then None else Some (smallest_free (taken p)))"
    and mark_taken: "ok p \<Longrightarrow> 1 \<le> i \<Longrightarrow> i \<le> cap \<Longrightarrow> ok (mark i p) \<and> taken (mark i p) = insert i (taken p)"
    and clear_taken: "ok p \<Longrightarrow> i \<in> taken p \<Longrightarrow> ok (clear i p) \<and> taken (clear i p) = taken p - {i}"
begin

text \<open>The holders and the pool agree, and no identifier is held twice.\<close>

definition fair :: "(nat \<Rightarrow> nat) \<Rightarrow> 'p \<Rightarrow> bool" where
  "fair h p \<longleftrightarrow> ok p \<and> taken p = range h - {0} \<and> (\<forall>s s'. h s = h s' \<longrightarrow> h s \<noteq> 0 \<longrightarrow> s = s')"

lemma fair_taken: "fair h p \<Longrightarrow> taken p = range h - {0}" "fair h p \<Longrightarrow> ok p"
  by (simp_all add: fair_def)

lemma fairI:
  "ok p \<Longrightarrow> taken p = range h - {0} \<Longrightarrow> (\<And>x y. h x = h y \<Longrightarrow> h x \<noteq> 0 \<Longrightarrow> x = y) \<Longrightarrow> fair h p"
  unfolding fair_def by blast

lemma fair_start: "ok p \<Longrightarrow> taken p = {} \<Longrightarrow> fair (\<lambda>s. 0) p"
  by (simp add: fair_def)

lemma fair_bound: "fair h p \<Longrightarrow> h s \<le> cap"
  using in_range [of p] by (cases "h s = 0") (auto simp: fair_def subset_iff)

lemma fair_unique: "fair h p \<Longrightarrow> h s = h s' \<Longrightarrow> h s \<noteq> 0 \<Longrightarrow> s = s'"
  by (simp add: fair_def)

lemma pick_fresh: "ok p \<Longrightarrow> pick p = Some i \<Longrightarrow> 1 \<le> i \<and> i \<le> cap \<and> i \<notin> taken p"
  using pick_least [of p] smallest_free_in(1) [OF _ in_range, of p] by (auto split: if_splits)

lemma fair_mark:
  assumes f: "fair h p" and c: "pick p = Some i" and z: "h s = 0"
  shows "fair (h(s := i)) (mark i p)"
proof (rule fairI)
  have i: "1 \<le> i" "i \<le> cap" "i \<notin> taken p" using pick_fresh f c by (auto simp: fair_def)
  note m = mark_taken [of p i] f [unfolded fair_def]
  show "ok (mark i p)" using m i by simp
  have "range (h(s := i)) - {0} = insert i (range h - {0})"
    using z i by (auto simp: image_iff)
  then show "taken (mark i p) = range (h(s := i)) - {0}" using m i by simp
  have "h y \<noteq> i" for y using i(1,3) f by (auto simp: fair_def)
  then show "x = y" if "(h(s := i)) x = (h(s := i)) y" "(h(s := i)) x \<noteq> 0" for x y
    using that fair_unique [OF f, of x y] by (auto split: if_splits)
qed

lemma fair_remark: "fair h p \<Longrightarrow> h s \<noteq> 0 \<Longrightarrow> fair h (mark (h s) p)"
  using mark_taken [of p "h s"] fair_bound [of h p s] by (auto simp: fair_def)

lemma fair_clear:
  assumes f: "fair h p" and n: "h s \<noteq> 0"
  shows "fair (h(s := 0)) (clear (h s) p)"
proof (rule fairI)
  note m = clear_taken [of p "h s"] f [unfolded fair_def]
  show "ok (clear (h s) p)" using m n by simp
  have "range (h(s := 0)) = insert 0 (h ` (- {s}))" by (auto simp: image_iff)
  moreover have "h ` (- {s}) = range h - {h s}" using fair_unique [OF f, of s] n by blast
  ultimately have "range (h(s := 0)) - {0} = range h - {0} - {h s}" by auto
  then show "taken (clear (h s) p) = range (h(s := 0)) - {0}" using m n by simp
  show "x = y" if "(h(s := 0)) x = (h(s := 0)) y" "(h(s := 0)) x \<noteq> 0" for x y
    using that fair_unique [OF f, of x y] by (auto split: if_splits)
qed

text \<open>A pool is exhausted exactly when \<open>cap\<close> streams hold an identifier.\<close>

lemma exhausted_iff:
  assumes f: "fair h p"
  shows "pick p = None \<longleftrightarrow> card {s. h s \<noteq> 0} = cap"
proof -
  let ?H = "{s. h s \<noteq> 0}"
  have inj: "inj_on h ?H" using f by (auto simp: fair_def inj_on_def)
  have im: "h ` ?H = taken p" using f by (auto simp: fair_def)
  have sub: "taken p \<subseteq> {1..cap}" using f in_range [of p] by (simp add: fair_def)
  have "card ?H = card (taken p)" using card_image [OF inj] im by simp
  moreover have "card (taken p) = cap \<longleftrightarrow> taken p = {1..cap}"
    using card_subset_eq [OF _ sub] by auto
  ultimately show ?thesis using pick_least [of p] f by (auto simp: fair_def)
qed

end

section \<open>The three pools\<close>

definition ord_pick :: "64 word \<Rightarrow> nat option" where
  "ord_pick m = (case free_bit [0..<MAX_STREAM_INSTANCES] m of Some (Some i) \<Rightarrow> if m = - 1 then None else Some (i + 1) | _ \<Rightarrow> None)"

definition ord_taken :: "64 word \<Rightarrow> nat set" where
  "ord_taken m = {i. 1 \<le> i \<and> i \<le> 32 \<and> bit m (i - 1)}"

lemma ord_full:
  assumes "widened m"
  shows "ord_taken m = {1..32} \<longleftrightarrow> m = - 1"
proof -
  have "ord_taken m = {1..32} \<longleftrightarrow> (\<forall>i\<in>{1..32}. bit m (i - 1))" by (auto simp: ord_taken_def)
  also have "\<dots> \<longleftrightarrow> (\<forall>i<32. bit m i)"
  proof (intro iffI allI impI)
    fix i :: nat assume a: "\<forall>i\<in>{1..32}. bit m (i - 1)" and "i < 32"
    then have "Suc i \<in> {1..32}" by simp
    from bspec [OF a this] show "bit m i" by simp
  next
    assume "\<forall>i<32. bit m i"
    then show "\<forall>i\<in>{1..32}. bit m (i - 1)" by auto
  qed
  finally show ?thesis using full_iff [OF assms] by simp
qed

lemma ord_free:
  assumes w: "widened m" and n: "m \<noteq> - 1"
  shows "free_bit [0..<MAX_STREAM_INSTANCES] m = Some (Some (smallest_free (ord_taken m) - 1))"
    "1 \<le> smallest_free (ord_taken m)" "smallest_free (ord_taken m) \<le> 32"
proof -
  have sub: "ord_taken m \<noteq> {1..32}" "ord_taken m \<subseteq> {1..32}" using ord_full [OF w] n by (auto simp: ord_taken_def)
  note i = smallest_free_in [OF sub]
  show r: "1 \<le> smallest_free (ord_taken m)" "smallest_free (ord_taken m) \<le> 32" using i(1) by auto
  show "free_bit [0..<MAX_STREAM_INSTANCES] m = Some (Some (smallest_free (ord_taken m) - 1))"
    unfolding MAX_STREAM_INSTANCES_def
  proof (rule free_bit_upt [OF w])
    show "\<not> bit m (smallest_free (ord_taken m) - 1)" using i(1) by (auto simp: ord_taken_def)
    show "bit m j" if "j < smallest_free (ord_taken m) - 1" for j
      using i(2) [of "j + 1"] that by (auto simp: ord_taken_def)
  qed (use r in auto)
qed

lemma bit_marks:
  "1 \<le> i \<Longrightarrow> i \<le> 32 \<Longrightarrow> 1 \<le> j \<Longrightarrow> j \<le> 32 \<Longrightarrow> bit (m OR one_shl (i - 1)) (j - 1) \<longleftrightarrow> bit m (j - 1) \<or> j = i"
  "1 \<le> i \<Longrightarrow> i \<le> 32 \<Longrightarrow> 1 \<le> j \<Longrightarrow> j \<le> 32 \<Longrightarrow> bit (m AND not_one_shl (i - 1)) (j - 1) \<longleftrightarrow> bit m (j - 1) \<and> j \<noteq> i"
  by (auto simp: bit_or_iff bit_and_iff bit_one_shl bit_not_one_shl)

interpretation ord_pool: id_pool ord_pick "\<lambda>i m. m OR one_shl (i - 1)" "\<lambda>i m. m AND not_one_shl (i - 1)"
  ord_taken 32 widened
proof
  show "ord_taken m \<subseteq> {1..32}" for m by (auto simp: ord_taken_def)
  show "ord_pick m = (if ord_taken m = {1..32} then None else Some (smallest_free (ord_taken m)))"
    if "widened m" for m
    using ord_full [OF that] ord_free [OF that] by (auto simp: ord_pick_def split: option.splits)
  show "widened (m OR one_shl (i - 1)) \<and> ord_taken (m OR one_shl (i - 1)) = insert i (ord_taken m)"
    if "widened m" "1 \<le> i" "i \<le> 32" for m i
    using widened_kept(1) [OF that(1), of "i - 1"] that bit_marks(1) [OF that(2,3)] by (auto simp: ord_taken_def)
  show "widened (m AND not_one_shl (i - 1)) \<and> ord_taken (m AND not_one_shl (i - 1)) = ord_taken m - {i}"
    if "widened m" "i \<in> ord_taken m" for m i
  proof -
    have i: "1 \<le> i" "i \<le> 32" using that(2) by (auto simp: ord_taken_def)
    then show ?thesis
      using widened_kept(2) [OF that(1), of "i - 1"] bit_marks(2) [OF i] by (auto simp: ord_taken_def)
  qed
qed

lemma ordinary_get_pick:
  "widened m \<Longrightarrow> ordinary_get inp 0 m =
     Some (case ord_pick m of None \<Rightarrow> (- EINVAL, 0, m) | Some i \<Rightarrow> (int i, i, m OR one_shl (i - 1)))"
  using ord_free [of m] by (auto simp: ordinary_get_def ord_pick_def split: option.splits)

text \<open>The identifiers of non-tunnel streams: a map that says which are in use.\<close>

definition nt_pick :: "nat \<Rightarrow> (nat \<Rightarrow> bool option) \<Rightarrow> nat option" where
  "nt_pick n m = (let r = fst (nt_instance_loop [1..<n + 1] m) in if r < 0 then None else Some (nat r))"

definition nt_taken :: "nat \<Rightarrow> (nat \<Rightarrow> bool option) \<Rightarrow> nat set" where
  "nt_taken n m = {i. 1 \<le> i \<and> i \<le> n \<and> m i = Some True}"

lemma nt_loop_full: "\<forall>i\<in>set is. m i = Some True \<Longrightarrow> nt_instance_loop is m = (- EINVAL, m)"
  by (induction "is") auto

lemma nt_loop_upt:
  assumes "a \<le> i" "i < b" "m i \<noteq> Some True" "\<And>j. a \<le> j \<Longrightarrow> j < i \<Longrightarrow> m j = Some True"
  shows "nt_instance_loop [a..<b] m = (int i, m(i \<mapsto> True))"
  using assms
proof (induction "i - a" arbitrary: a)
  case 0
  then have "a = i" by simp
  then show ?case using 0 by (auto simp: upt_conv_Cons split: option.splits)
next
  case (Suc n)
  then have "a < i" by simp
  moreover have "m a = Some True" using Suc.prems(4) calculation by simp
  moreover have "nt_instance_loop [Suc a..<b] m = (int i, m(i \<mapsto> True))"
    by (rule Suc.hyps(1)) (use Suc.prems Suc.hyps(2) calculation in auto)
  ultimately show ?case using Suc.prems by (simp add: upt_conv_Cons)
qed

lemma nt_loop_pick:
  "nt_instance_loop [1..<n + 1] m =
     (if nt_taken n m = {1..n} then (- EINVAL, m)
      else (int (smallest_free (nt_taken n m)), m(smallest_free (nt_taken n m) \<mapsto> True)))"
proof (cases "nt_taken n m = {1..n}")
  case True
  have "m i = Some True" if "i \<in> set [1..<n + 1]" for i
  proof -
    have "i \<in> nt_taken n m" unfolding True using that by auto
    then show ?thesis by (simp add: nt_taken_def)
  qed
  then show ?thesis using nt_loop_full [of "[1..<n + 1]" m] True by simp
next
  case False
  have sub: "nt_taken n m \<subseteq> {1..n}" by (auto simp: nt_taken_def)
  note i = smallest_free_in [OF False sub]
  let ?i = "smallest_free (nt_taken n m)"
  have "m j = Some True" if "1 \<le> j" "j < ?i" for j using i(2) [OF that] by (simp add: nt_taken_def)
  moreover have "1 \<le> ?i" "?i \<le> n" "m ?i \<noteq> Some True" using i(1) by (simp_all add: nt_taken_def)
  ultimately have "nt_instance_loop [1..<n + 1] m = (int ?i, m(?i \<mapsto> True))" by (intro nt_loop_upt) auto
  then show ?thesis using False by simp
qed

lemma getAvailable_pick:
  "getAvailableNTStreamInstance n a ms =
     (let p = getNTPathForStreamAttr a in
      case nt_pick n (ms p) of None \<Rightarrow> (- EINVAL, ms) | Some i \<Rightarrow> (int i, ms(p := (ms p)(i \<mapsto> True))))"
  unfolding getAvailableNTStreamInstance_def nt_pick_def Let_def nt_loop_pick by simp

interpretation nt_pool: id_pool "nt_pick n" "\<lambda>i m. m(i \<mapsto> True)" "\<lambda>i m. m(i \<mapsto> False)" "nt_taken n" n "\<lambda>_. True" for n
proof
  show "nt_pick n m = (if nt_taken n m = {1..n} then None else Some (smallest_free (nt_taken n m)))" for m
    unfolding nt_pick_def nt_loop_pick by (simp add: Let_def)
qed (auto simp: nt_taken_def)

text \<open>The identifiers of one sound trigger configuration: a list with a flag for each.\<close>

definition st_pick :: "nat \<Rightarrow> (nat \<times> bool) list \<Rightarrow> nat option" where
  "st_pick n l = (case take_unused n l of Some (r, _) \<Rightarrow> if r = 0 then None else Some (nat r) | None \<Rightarrow> None)"

definition st_mark :: "bool \<Rightarrow> nat \<Rightarrow> (nat \<times> bool) list \<Rightarrow> (nat \<times> bool) list" where
  "st_mark b i l = map (\<lambda>(j, u). (j, if j = i then b else u)) l"

definition st_taken :: "(nat \<times> bool) list \<Rightarrow> nat set" where
  "st_taken l = {i. (i, True) \<in> set l}"

definition numbered :: "nat \<Rightarrow> (nat \<times> bool) list \<Rightarrow> bool" where
  "numbered n l \<longleftrightarrow> map fst l = [1..<n + 1]"

lemma st_mark_other: "i \<notin> fst ` set l \<Longrightarrow> st_mark b i l = l"
  by (induction l) (auto simp: st_mark_def)

lemma take_unused_from:
  assumes "map fst l = [a..<b]"
  shows "take_unused (b - a) l =
    (if \<forall>x\<in>set l. snd x then Some (0, l)
     else let i = (LEAST i. a \<le> i \<and> (i, True) \<notin> set l) in Some (int i, st_mark True i l))"
  using assms
proof (induction l arbitrary: a)
  case Nil
  then have "length [a..<b] = length (map fst ([] :: (nat \<times> bool) list))" by (simp only:)
  then have "b - a = 0" by (simp only: length_upt list.map list.size)
  then show ?case by simp
next
  case (Cons x l)
  have e: "[a..<b] = fst x # map fst l" using Cons.prems by simp
  then have l: "map fst l = [Suc a..<b]" unfolding upt_eq_Cons_conv by (metis Suc_eq_plus1)
  have "a < b" using e unfolding upt_eq_Cons_conv by (rule conjunct1)
  obtain u where x: "x = (a, u)" using e unfolding upt_eq_Cons_conv by (cases x) simp
  obtain n where n: "b - a = Suc n" "b - Suc a = n" using \<open>a < b\<close> by (metis Suc_diff_Suc)
  have a: "a \<notin> fst ` set l" by (simp flip: set_map add: l)
  show ?case
  proof (cases u)
    case False
    have "(LEAST i. a \<le> i \<and> (i, True) \<notin> set (x # l)) = a"
      by (rule Least_equality) (use x False a in \<open>auto simp: image_iff\<close>)
    then show ?thesis using x n False st_mark_other [OF a] by (simp add: Let_def st_mark_def)
  next
    case True
    have "(a \<le> i \<and> (i, True) \<notin> set (x # l)) = (Suc a \<le> i \<and> (i, True) \<notin> set l)" for i
      using x True a by (auto simp: image_iff le_less Suc_le_eq)
    then have e: "(LEAST i. a \<le> i \<and> (i, True) \<notin> set (x # l)) = (LEAST i. Suc a \<le> i \<and> (i, True) \<notin> set l)" by simp
    have ne: "(LEAST i. Suc a \<le> i \<and> (i, True) \<notin> set l) \<noteq> a" if "\<not> (\<forall>x\<in>set l. snd x)"
    proof -
      obtain i where "i > Max (fst ` set l \<union> {a})" using gt_ex by blast
      then have "Suc a \<le> i \<and> (i, True) \<notin> set l" by (force simp: image_iff)
      from LeastI [of "\<lambda>i. Suc a \<le> i \<and> (i, True) \<notin> set l", OF this] show ?thesis by auto
    qed
    show ?thesis
      unfolding e using x n True Cons.IH [OF l] ne by (auto simp: Let_def st_mark_def)
  qed
qed

lemma take_unused_pick:
  assumes "numbered n l"
  shows "take_unused n l =
    (if st_taken l = {1..n} then Some (0, l)
     else Some (int (smallest_free (st_taken l)), st_mark True (smallest_free (st_taken l)) l))"
proof -
  have m: "map fst l = [1..<n + 1]" using assms by (simp add: numbered_def)
  have f: "fst ` set l = {1..n}"
    unfolding set_map [symmetric] m by auto
  have "(\<forall>x\<in>set l. snd x) \<longleftrightarrow> st_taken l = {1..n}"
  proof
    assume "\<forall>x\<in>set l. snd x"
    then have "st_taken l = fst ` set l" by (force simp: st_taken_def image_iff)
    then show "st_taken l = {1..n}" using f by simp
  next
    assume t: "st_taken l = {1..n}"
    have d: "distinct (map fst l)" unfolding m by simp
    show "\<forall>x\<in>set l. snd x"
    proof
      fix x assume x: "x \<in> set l"
      then have "fst x \<in> st_taken l" unfolding t f [symmetric] by simp
      then have "(fst x, True) \<in> set l" by (simp add: st_taken_def)
      then show "snd x" using eq_key_imp_eq_value [OF d, of "fst x" True "snd x"] x by simp
    qed
  qed
  moreover have "(LEAST i. 1 \<le> i \<and> (i, True) \<notin> set l) = smallest_free (st_taken l)"
    by (simp add: smallest_free_def st_taken_def)
  ultimately show ?thesis using take_unused_from [OF m] by (simp add: Let_def)
qed

lemma st_mark_fst: "map fst (st_mark b i l) = map fst l"
  by (induction l) (auto simp: st_mark_def)

lemma st_taken_mark:
  "st_taken (st_mark b i l) = (if b \<and> i \<in> fst ` set l then insert i (st_taken l) else st_taken l - {i})"
  by (force simp: st_mark_def st_taken_def image_iff split: if_splits)

interpretation st_pool: id_pool "st_pick n" "st_mark True" "st_mark False" st_taken n "numbered n" for n
proof
  have f: "fst ` set l = {1..n}" if "numbered n l" for l
    using that unfolding numbered_def set_map [symmetric] by (metis atLeastLessThanSuc_atLeastAtMost set_upt Suc_eq_plus1)
  show "st_taken l \<subseteq> {1..n}" if "numbered n l" for l
    unfolding f [OF that, symmetric] by (force simp: st_taken_def)
  then show "st_pick n l = (if st_taken l = {1..n} then None else Some (smallest_free (st_taken l)))"
    if "numbered n l" for l
    using that smallest_free_in(1) [of "st_taken l" n]
    by (cases "st_taken l = {1..n}") (simp_all add: st_pick_def take_unused_pick)
  show "numbered n (st_mark True i l) \<and> st_taken (st_mark True i l) = insert i (st_taken l)"
    if "numbered n l" "1 \<le> i" "i \<le> n" for l i
    using that f [OF that(1)] by (simp add: numbered_def st_mark_fst st_taken_mark)
  show "numbered n (st_mark False i l) \<and> st_taken (st_mark False i l) = st_taken l - {i}"
    if "numbered n l" for l i
    using that by (simp add: numbered_def st_mark_fst st_taken_mark)
qed

section \<open>The numbering of all streams\<close>

definition ordinary :: "pal_stream_attributes \<Rightarrow> bool" where
  "ordinary a \<longleftrightarrow> stype a \<noteq> PAL_STREAM_VOICE_UI \<and> stype a \<noteq> PAL_STREAM_NON_TUNNEL"

text \<open>The identifiers the streams of one pool hold; the pool of type \<open>k + 1\<close> has index \<open>k\<close>.\<close>

definition ord_holds :: "bool \<Rightarrow> nat \<Rightarrow> (nat \<Rightarrow> Stream) \<Rightarrow> nat \<Rightarrow> nat" where
  "ord_holds inp k S s = (case mStreamAttr (S s) of
     Some a \<Rightarrow> if ordinary a \<and> is_input a = inp \<and> stype a = k + 1 then mInstanceID (S s) else 0
   | None \<Rightarrow> 0)"

definition nt_holds :: "nat \<Rightarrow> (nat \<Rightarrow> Stream) \<Rightarrow> nat \<Rightarrow> nat" where
  "nt_holds p S s = (case mStreamAttr (S s) of
     Some a \<Rightarrow> if stype a = PAL_STREAM_NON_TUNNEL \<and> getNTPathForStreamAttr a = p then mInstanceID (S s) else 0
   | None \<Rightarrow> 0)"

definition fair_numbers :: "(nat \<Rightarrow> Stream) \<Rightarrow> RM \<Rightarrow> bool" where
  "fair_numbers S rm \<longleftrightarrow>
     (\<forall>k. ord_pool.fair (ord_holds True k S) (in_stream_instances rm k)) \<and>
     (\<forall>k. ord_pool.fair (ord_holds False k S) (stream_instances rm k)) \<and>
     (\<forall>p. nt_pool.fair (max_nt_sessions rm) (nt_holds p S) (mNTStreamInstancesList rm p)) \<and>
     (\<forall>l\<in>snd ` set (STInstancesLists rm). numbered (max_session_num rm) l)"

lemma holds_upd:
  assumes "mStreamAttr (S s) = Some a"
  shows "ord_holds inp k (S(s := (S s)\<lparr>mInstanceID := i\<rparr>)) =
      (if ordinary a \<and> is_input a = inp \<and> stype a = k + 1 then (ord_holds inp k S)(s := i) else ord_holds inp k S)"
    "nt_holds p (S(s := (S s)\<lparr>mInstanceID := i\<rparr>)) =
      (if stype a = PAL_STREAM_NON_TUNNEL \<and> getNTPathForStreamAttr a = p then (nt_holds p S)(s := i) else nt_holds p S)"
  using assms by (auto simp: ord_holds_def nt_holds_def fun_eq_iff split: option.split)

lemma holds_same:
  assumes "mStreamAttr (S s) = Some a" "stype a \<noteq> 0"
  shows "ordinary a \<Longrightarrow> ord_holds (is_input a) (stype a - 1) S s = mInstanceID (S s)"
    "stype a = PAL_STREAM_NON_TUNNEL \<Longrightarrow> nt_holds (getNTPathForStreamAttr a) S s = mInstanceID (S s)"
  using assms by (auto simp: ord_holds_def nt_holds_def)

lemma instance_list_numbered: "numbered n (instance_list n)"
  by (simp add: numbered_def instance_list_def comp_def)

lemma take_unused_numbered:
  "numbered n l \<Longrightarrow> \<exists>r l'. take_unused n l = Some (r, l') \<and> numbered n l'"
  by (cases "st_taken l = {1..n}") (auto simp: take_unused_pick numbered_def st_mark_fst)

lemma st_get_numbered:
  "\<forall>l\<in>snd ` set ls. numbered n l \<Longrightarrow>
   \<exists>r ls'. st_get n sel ls = Some (r, ls') \<and> (\<forall>l\<in>snd ` set ls'. numbered n l)"
proof (induction ls)
  case Nil
  then show ?case using take_unused_numbered [OF instance_list_numbered, of n] by fastforce
next
  case (Cons x ls)
  obtain k l where x: "x = (k, l)" by (rule prod.exhaust)
  then show ?case using Cons take_unused_numbered [of n l] by (cases "k = sel") auto
qed

lemma give_back_numbered:
  "numbered n l \<Longrightarrow> \<exists>l'. give_back n i l = Some l' \<and> numbered n l'"
proof -
  have "map fst l = [a..<b] \<Longrightarrow> \<exists>l'. give_back (b - a) i l = Some l' \<and> map fst l' = [a..<b]" for a b
  proof (induction l arbitrary: a)
    case Nil
    then have "length [a..<b] = 0" by simp
    then show ?case by simp
  next
    case (Cons x l)
    obtain j u where x: "x = (j, u)" by (rule prod.exhaust)
    have e: "[a..<b] = j # map fst l" using Cons.prems x by simp
    then have l: "map fst l = [Suc a..<b]" unfolding upt_eq_Cons_conv by (metis Suc_eq_plus1)
    have "a < b" using e unfolding upt_eq_Cons_conv by (rule conjunct1)
    then obtain n where n: "b - a = Suc n" "b - Suc a = n" by (metis Suc_diff_Suc)
    show ?case using Cons.IH [OF l] n x e l by auto
  qed
  then show "numbered n l \<Longrightarrow> ?thesis" unfolding numbered_def by fastforce
qed

lemma st_reset_numbered:
  "\<forall>l\<in>snd ` set ls. numbered n l \<Longrightarrow>
   \<exists>ls'. st_reset n sel i ls = Some ls' \<and> (\<forall>l\<in>snd ` set ls'. numbered n l)"
proof (induction ls)
  case (Cons x ls)
  obtain k l where x: "x = (k, l)" by (rule prod.exhaust)
  then show ?case using Cons give_back_numbered [of n l i] by (cases "k = sel") auto
qed simp

lemma fair_pool:
  "fair_numbers S rm \<Longrightarrow> ord_pool.fair (ord_holds (is_input a) (stype a - 1) S) (pool a rm)"
  by (cases "is_input a") (simp_all add: fair_numbers_def pool_def)

lemma fair_set_pool:
  assumes f: "fair_numbers S rm" and a: "mStreamAttr (S s) = Some a" "stype a \<noteq> 0" "ordinary a"
    and n: "ord_pool.fair ((ord_holds (is_input a) (stype a - 1) S)(s := i)) m"
  shows "fair_numbers (S(s := (S s)\<lparr>mInstanceID := i\<rparr>)) (set_pool a m rm)"
proof -
  obtain j where "stype a = Suc j" using a(2) not0_implies_Suc by blast
  then show ?thesis
    using f n a(3) by (cases "is_input a") (auto simp: fair_numbers_def set_pool_def holds_upd [of S s, OF a(1)] ordinary_def)
qed

lemma fair_lists: "fair_numbers S rm \<Longrightarrow> \<forall>l\<in>snd ` set (STInstancesLists rm). numbered (max_session_num rm) l"
  by (simp add: fair_numbers_def)

lemma fair_others:
  "fair_numbers S rm \<Longrightarrow> \<forall>l\<in>snd ` set ls. numbered (max_session_num rm) l \<Longrightarrow> fair_numbers S (rm\<lparr>STInstancesLists := ls\<rparr>)"
  by (simp add: fair_numbers_def)

lemma fair_set_nt:
  assumes f: "fair_numbers S rm" and a: "mStreamAttr (S s) = Some a" "stype a = PAL_STREAM_NON_TUNNEL"
    and n: "nt_pool.fair (max_nt_sessions rm) ((nt_holds (getNTPathForStreamAttr a) S)(s := i)) m"
  shows "fair_numbers (S(s := (S s)\<lparr>mInstanceID := i\<rparr>))
    (rm\<lparr>mNTStreamInstancesList := (mNTStreamInstancesList rm)(getNTPathForStreamAttr a := m)\<rparr>)"
  using f n a(2) by (auto simp: fair_numbers_def holds_upd [of S s, OF a(1)] ordinary_def)

lemma same_id: "S(s := (S s)\<lparr>mInstanceID := mInstanceID (S s)\<rparr>) = S"
  by simp

lemma nt_get:
  assumes f: "fair_numbers S rm" and a: "mStreamAttr (S s) = Some a" "stype a = PAL_STREAM_NON_TUNNEL"
  shows "\<exists>r i rm'. instance_get a sel (mInstanceID (S s)) rm = Some (r, i, rm') \<and>
    fair_numbers (S(s := (S s)\<lparr>mInstanceID := i\<rparr>)) rm'"
proof (cases "mInstanceID (S s) = 0")
  case False
  then show ?thesis using f a by (simp add: instance_get_def)
next
  case True
  let ?p = "getNTPathForStreamAttr a" and ?n = "max_nt_sessions rm"
  let ?m = "mNTStreamInstancesList rm ?p"
  have fp: "nt_pool.fair ?n (nt_holds ?p S) ?m" using f by (simp add: fair_numbers_def)
  have h: "nt_holds ?p S s = 0" using holds_same(2) [of S s, OF a(1)] a True by simp
  show ?thesis
  proof (cases "nt_pick ?n ?m")
    case None
    then show ?thesis
      using f a True same_id [of S s] by (simp add: instance_get_def getAvailable_pick Let_def)
  next
    case (Some i)
    have "fair_numbers (S(s := (S s)\<lparr>mInstanceID := i\<rparr>))
        (rm\<lparr>mNTStreamInstancesList := (mNTStreamInstancesList rm)(?p := ?m(i \<mapsto> True))\<rparr>)"
      by (rule fair_set_nt [of S rm s, OF f a]) (rule nt_pool.fair_mark [OF fp Some h])
    then show ?thesis
      using Some a True by (simp add: instance_get_def getAvailable_pick Let_def)
  qed
qed

lemma ord_get:
  assumes f: "fair_numbers S rm" and a: "mStreamAttr (S s) = Some a" "stype a \<noteq> 0" "ordinary a"
  shows "\<exists>r i rm'. instance_get a sel (mInstanceID (S s)) rm = Some (r, i, rm') \<and>
    fair_numbers (S(s := (S s)\<lparr>mInstanceID := i\<rparr>)) rm'"
proof -
  let ?h = "ord_holds (is_input a) (stype a - 1) S" and ?m = "pool a rm"
  note fp = fair_pool [OF f, of a]
  have h: "?h s = mInstanceID (S s)" by (rule holds_same(1) [of S s, OF a])
  have w: "widened ?m" by (rule ord_pool.fair_taken(2) [OF fp])
  have g: "instance_get a sel i rm = map_option (\<lambda>(r, sid, m). (r, sid, set_pool a m rm)) (ordinary_get (is_input a) i ?m)" for i
    using a by (simp add: instance_get_def ordinary_def)
  note set = fair_set_pool [of S rm s, OF f a]
  show ?thesis
  proof (cases "mInstanceID (S s) = 0")
    case True
    then have same: "?h(s := 0) = ?h" using h by (simp add: fun_eq_iff)
    show ?thesis
    proof (cases "ord_pick ?m")
      case None
      then show ?thesis using set [of 0 ?m] fp same True by (simp add: g ordinary_get_pick [OF w])
    next
      case (Some i)
      then show ?thesis
        using set [OF ord_pool.fair_mark [OF fp Some]] h True by (simp add: g ordinary_get_pick [OF w])
    qed
  next
    case False
    let ?i = "mInstanceID (S s)"
    have same: "?h(s := ?i) = ?h" using h by (simp add: fun_eq_iff)
    have "?i \<le> 32" using ord_pool.fair_bound [OF fp, of s] h by simp
    moreover have "ord_pool.fair ?h (?m OR one_shl (?i - 1))"
      using ord_pool.fair_remark [OF fp, of s] h False by simp
    ultimately show ?thesis
      using False set [of ?i] same fp by (auto simp: g ordinary_get_def)
  qed
qed

lemma get_fair:
  assumes f: "fair_numbers S rm" and a: "mStreamAttr (S s) = Some a" "stype a \<noteq> 0"
  shows "\<exists>r i rm'. instance_get a sel (mInstanceID (S s)) rm = Some (r, i, rm') \<and>
    fair_numbers (S(s := (S s)\<lparr>mInstanceID := i\<rparr>)) rm'"
proof (cases "ordinary a")
  case True
  then show ?thesis by (rule ord_get [of S rm s, OF f a])
next
  case False
  show ?thesis
  proof (cases "stype a = PAL_STREAM_NON_TUNNEL")
    case True
    then show ?thesis by (rule nt_get [of S rm s, OF f a(1)])
  next
    case nt: False
    then have v: "stype a = PAL_STREAM_VOICE_UI" using False by (auto simp: ordinary_def)
    obtain r ls where "st_get (max_session_num rm) sel (STInstancesLists rm) = Some (r, ls)"
      "\<forall>l\<in>snd ` set ls. numbered (max_session_num rm) l"
      using st_get_numbered [OF fair_lists [OF f], of sel] by blast
    then show ?thesis using v f fair_others [OF f] same_id [of S s] by (auto simp: instance_get_def)
  qed
qed

lemma reset_fair:
  assumes f: "fair_numbers S rm" and a: "mStreamAttr (S s) = Some a" "stype a \<noteq> 0"
    and n: "mInstanceID (S s) \<noteq> 0"
  shows "\<exists>i rm'. instance_reset a sel (mInstanceID (S s)) (mInstanceID (S s)) rm = Some (i, rm') \<and>
    fair_numbers (S(s := (S s)\<lparr>mInstanceID := i\<rparr>)) rm'"
proof -
  consider "ordinary a" | "stype a = PAL_STREAM_NON_TUNNEL" | "stype a = PAL_STREAM_VOICE_UI"
    by (auto simp: ordinary_def)
  then show ?thesis
  proof cases
    case 1
    let ?h = "ord_holds (is_input a) (stype a - 1) S" and ?m = "pool a rm"
    note fp = fair_pool [OF f, of a]
    have h: "?h s = mInstanceID (S s)" by (rule holds_same(1) [of S s, OF a 1])
    have "mInstanceID (S s) \<le> 32" using ord_pool.fair_bound [OF fp, of s] h by simp
    moreover have "fair_numbers (S(s := (S s)\<lparr>mInstanceID := 0\<rparr>)) (set_pool a (?m AND not_one_shl (mInstanceID (S s) - 1)) rm)"
      using fair_set_pool [of S rm s, OF f a 1 ord_pool.fair_clear [OF fp, of s]] h n by simp
    ultimately show ?thesis using 1 a by (auto simp: instance_reset_def ordinary_def ordinary_reset_def)
  next
    case 2
    let ?p = "getNTPathForStreamAttr a" and ?i = "mInstanceID (S s)"
    let ?m = "mNTStreamInstancesList rm ?p"
    have fp: "nt_pool.fair (max_nt_sessions rm) (nt_holds ?p S) ?m" using f by (simp add: fair_numbers_def)
    have h: "nt_holds ?p S s = ?i" by (rule holds_same(2) [of S s, OF a 2])
    then have "?i \<in> nt_taken (max_nt_sessions rm) ?m" using fp n by (auto simp: nt_pool.fair_def) (metis rangeI)
    then have "?m ?i = Some True" by (simp add: nt_taken_def)
    moreover have "nt_pool.fair (max_nt_sessions rm) ((nt_holds ?p S)(s := 0)) (?m(?i \<mapsto> False))"
      using nt_pool.fair_clear [OF fp, of s] h n by simp
    ultimately show ?thesis
      using fair_set_nt [of S rm s, OF f a(1) 2] 2 by (auto simp: instance_reset_def Let_def)
  next
    case 3
    obtain ls where "st_reset (max_session_num rm) sel (mInstanceID (S s)) (STInstancesLists rm) = Some ls"
      "\<forall>l\<in>snd ` set ls. numbered (max_session_num rm) l"
      using st_reset_numbered [OF fair_lists [OF f], of sel] by blast
    then show ?thesis using 3 f fair_others [OF f] same_id [of S s] by (auto simp: instance_reset_def)
  qed
qed

datatype inst_op = GetId nat | ResetId nat

fun inst_do :: "inst_op \<Rightarrow> int option io" where
  "inst_do (GetId s) = RM_getStreamInstanceID s"
| "inst_do (ResetId s) = RM_resetStreamInstanceID (Some s)"

fun inst_run :: "inst_op list \<Rightarrow> world \<Rightarrow> world option" where
  "inst_run [] w = Some w"
| "inst_run (op # ops) w = (case run_state (inst_do op) w of
     (None, _) \<Rightarrow> None
   | (Some _, w) \<Rightarrow> inst_run ops w)"

text \<open>The types of the streams are numbered from one, as in the enumeration.\<close>

definition typed :: "world \<Rightarrow> bool" where
  "typed w \<longleftrightarrow> (\<forall>s a. mStreamAttr (wstr w s) = Some a \<longrightarrow> stype a \<noteq> 0)"

lemma get_run:
  assumes "mStreamAttr (wstr w s) = Some a" "stype a < PAL_STREAM_MAX"
    and "instance_get a (mStreamSelector (wstr w s)) (mInstanceID (wstr w s)) (wrm w) = Some (r, i, rm)"
  shows "run_state (RM_getStreamInstanceID s) w = (Some r, w\<lparr>wstr := (wstr w)(s := (wstr w s)\<lparr>mInstanceID := i\<rparr>),
    wrm := rm, wlog := Unlock ResourceManagerMutex # Lock ResourceManagerMutex # wlog w\<rparr>)"
  using assms by (simp add: RM_getStreamInstanceID_def Stream_getStreamAttributes_def)

lemma reset_run:
  assumes "mStreamAttr (wstr w s) = Some a" "stype a < PAL_STREAM_MAX" "mInstanceID (wstr w s) \<noteq> 0"
    and "instance_reset a (mStreamSelector (wstr w s)) (mInstanceID (wstr w s)) (mInstanceID (wstr w s)) (wrm w) = Some (i, rm)"
  shows "run_state (RM_resetStreamInstanceID (Some s)) w = (Some 0, w\<lparr>wstr := (wstr w)(s := (wstr w s)\<lparr>mInstanceID := i\<rparr>),
    wrm := rm, wlog := Unlock ResourceManagerMutex # Lock ResourceManagerMutex # wlog w\<rparr>)"
  using assms
  by (simp add: RM_resetStreamInstanceID_def RM_resetStreamInstanceID_of_def Stream_getStreamAttributes_def)

lemma refused_run:
  assumes "\<And>a. mStreamAttr (wstr w s) = Some a \<Longrightarrow> \<not> stype a < PAL_STREAM_MAX"
  shows "run_state (RM_getStreamInstanceID s) w = (Some (- EINVAL), w)"
    "run_state (RM_resetStreamInstanceID (Some s)) w = (Some (- EINVAL), w)"
  using assms
  by (auto simp: RM_getStreamInstanceID_def RM_resetStreamInstanceID_def RM_resetStreamInstanceID_of_def
      Stream_getStreamAttributes_def not_less split: option.split)

lemma inst_do_fair:
  assumes f: "fair_numbers (wstr w) (wrm w)" and t: "typed w"
  obtains r w' where "run_state (inst_do op) w = (Some r, w')" "fair_numbers (wstr w') (wrm w')" "typed w'"
proof -
  define s where "s = (case op of GetId s \<Rightarrow> s | ResetId s \<Rightarrow> s)"
  define upd where "upd i rm = w\<lparr>wstr := (wstr w)(s := (wstr w s)\<lparr>mInstanceID := i\<rparr>), wrm := rm,
    wlog := Unlock ResourceManagerMutex # Lock ResourceManagerMutex # wlog w\<rparr>" for i rm
  have t': "typed (upd i rm)" for i rm using t by (auto simp: typed_def upd_def)
  show thesis
  proof (cases "\<exists>a. mStreamAttr (wstr w s) = Some a \<and> stype a < PAL_STREAM_MAX")
    case False
    then show thesis using that [of "- EINVAL" w] refused_run [of w s] f t by (cases op) (auto simp: s_def)
  next
    case True
    then obtain a where a: "mStreamAttr (wstr w s) = Some a" "stype a < PAL_STREAM_MAX" by blast
    then have n: "stype a \<noteq> 0" using t by (auto simp: typed_def)
    show thesis
    proof (cases op)
      case (GetId x)
      obtain r i rm where g: "instance_get a (mStreamSelector (wstr w s)) (mInstanceID (wstr w s)) (wrm w) = Some (r, i, rm)"
        "fair_numbers ((wstr w)(s := (wstr w s)\<lparr>mInstanceID := i\<rparr>)) rm"
        using get_fair [of "wstr w" "wrm w" s, OF f a(1) n] by blast
      show thesis
        by (rule that [of r "upd i rm"]) (use g GetId get_run [of w s, OF a g(1)] t' in \<open>simp_all add: s_def upd_def\<close>)
    next
      case (ResetId x)
      show thesis
      proof (cases "mInstanceID (wstr w s) = 0")
        case True
        show thesis
          by (rule that [of "- EINVAL" w])
             (use ResetId True f t in \<open>simp_all add: s_def RM_resetStreamInstanceID_def RM_resetStreamInstanceID_of_def\<close>)
      next
        case False
        obtain i rm where g: "instance_reset a (mStreamSelector (wstr w s)) (mInstanceID (wstr w s)) (mInstanceID (wstr w s)) (wrm w) = Some (i, rm)"
          "fair_numbers ((wstr w)(s := (wstr w s)\<lparr>mInstanceID := i\<rparr>)) rm"
          using reset_fair [of "wstr w" "wrm w" s, OF f a(1) n False] by blast
        show thesis
          by (rule that [of 0 "upd i rm"]) (use g ResetId reset_run [of w s, OF a False g(1)] t' in \<open>simp_all add: s_def upd_def\<close>)
      qed
    qed
  qed
qed

lemma inst_run_fair:
  assumes "fair_numbers (wstr w) (wrm w)" "typed w"
  shows "\<exists>w'. inst_run ops w = Some w' \<and> fair_numbers (wstr w') (wrm w') \<and> typed w'"
  using assms
proof (induction ops arbitrary: w)
  case (Cons op ops)
  obtain r w1 where "run_state (inst_do op) w = (Some r, w1)" "fair_numbers (wstr w1) (wrm w1)" "typed w1"
    by (rule inst_do_fair [OF Cons.prems, of op])
  then show ?case using Cons.IH [of w1] by simp
qed simp

text \<open>No stream has a number, and every pool is empty.\<close>

definition no_numbers :: "world \<Rightarrow> bool" where
  "no_numbers w \<longleftrightarrow> (\<forall>s. mInstanceID (wstr w s) = 0) \<and>
     (\<forall>k. in_stream_instances (wrm w) k = 0 \<and> stream_instances (wrm w) k = 0) \<and>
     (\<forall>p i. mNTStreamInstancesList (wrm w) p i \<noteq> Some True) \<and> STInstancesLists (wrm w) = []"

lemma no_numbers_fair:
  assumes "no_numbers w"
  shows "fair_numbers (wstr w) (wrm w)"
proof -
  have h: "ord_holds inp k (wstr w) = (\<lambda>s. 0)" "nt_holds p (wstr w) = (\<lambda>s. 0)" for inp k p
    using assms by (auto simp: no_numbers_def ord_holds_def nt_holds_def fun_eq_iff split: option.splits)
  show ?thesis
    using assms ord_pool.fair_start [OF widened_0] nt_pool.fair_start
    by (simp add: fair_numbers_def h no_numbers_def ord_taken_def nt_taken_def)
qed

text \<open>Two streams that draw from the same pool.\<close>

definition same_pool :: "pal_stream_attributes \<Rightarrow> pal_stream_attributes \<Rightarrow> bool" where
  "same_pool a b \<longleftrightarrow> stype a = stype b \<and>
     (if stype a = PAL_STREAM_NON_TUNNEL then getNTPathForStreamAttr a = getNTPathForStreamAttr b
      else stype a \<noteq> PAL_STREAM_VOICE_UI \<and> is_input a = is_input b)"


lemma image_nonzero: "h ` {x. h x \<noteq> 0} = range h - {0 :: nat}"
  by auto

text \<open>The streams of the type and direction of \<open>a\<close> that hold a number.\<close>

definition owners :: "pal_stream_attributes \<Rightarrow> world \<Rightarrow> nat set" where
  "owners a w = {x. ord_holds (is_input a) (stype a - 1) (wstr w) x \<noteq> 0}"

text \<open>
  C26: The numbers of ordinary streams run from 1 to 32, although the pools have 64 bits: a stream
  without a number gets the smallest that no stream of its type and direction holds, and \<^verbatim>\<open>-EINVAL\<close>
  exactly if 32 of them hold one.
\<close>

theorem next_stream_number:
  assumes "no_numbers w" and "typed w" and "inst_run ops w = Some w'"
    and "mStreamAttr (wstr w' s) = Some a" and "ordinary a" and "stype a < PAL_STREAM_MAX" and "mInstanceID (wstr w' s) = 0"
  shows "fst (run_state (RM_getStreamInstanceID s) w') =
    Some (if card (owners a w') = 32 then - EINVAL
          else int (smallest_free ((\<lambda>x. mInstanceID (wstr w' x)) ` owners a w')))"
proof -
  let ?h = "ord_holds (is_input a) (stype a - 1) (wstr w')" and ?m = "pool a (wrm w')"
  have f: "fair_numbers (wstr w') (wrm w')" and t: "typed w'"
    using inst_run_fair [OF no_numbers_fair [OF assms(1)] assms(2), of ops] assms(3) by auto
  note fp = fair_pool [OF f, of a]
  have n: "stype a \<noteq> 0" using t assms(4) by (auto simp: typed_def)
  have "mInstanceID (wstr w' x) = ?h x" if "x \<in> owners a w'" for x
    using that by (auto simp: owners_def ord_holds_def split: option.splits if_splits)
  then have e: "(\<lambda>x. mInstanceID (wstr w' x)) ` owners a w' = ?h ` owners a w'" by (rule image_cong [OF refl])
  have "?h ` owners a w' = range ?h - {0}" unfolding owners_def by (rule image_nonzero)
  from trans [OF trans [OF e this] ord_pool.fair_taken(1) [OF fp, symmetric]]
  have k: "(\<lambda>x. mInstanceID (wstr w' x)) ` owners a w' = ord_taken ?m" .
  have w: "widened ?m" by (rule ord_pool.fair_taken(2) [OF fp])
  have pick: "ord_pick ?m = (if card (owners a w') = 32 then None else Some (smallest_free (ord_taken ?m)))"
    using ord_pool.exhausted_iff [OF fp] ord_pool.pick_least [OF w] by (auto simp: owners_def split: if_splits)
  have "instance_get a sel 0 (wrm w') = map_option (\<lambda>(r, sid, m). (r, sid, set_pool a m (wrm w'))) (ordinary_get (is_input a) 0 ?m)" for sel
    using assms(5) n by (simp add: instance_get_def ordinary_def)
  then show ?thesis
    using get_run [of w' s a, OF assms(4,6)] assms(7) pick k by (simp add: ordinary_get_pick [OF w])
qed

text \<open>Two streams ask, the first one gives its number back and asks again.\<close>

lemma demo_numbers: "no_numbers (demo_world [3] 1)" "typed (demo_world [3] 1)"
  by (simp_all add: no_numbers_def typed_def demo_defs)


theorem next_stream_number_witness:
  "fst (run_state (RM_getStreamInstanceID 5) (demo_world [3] 1)) =
    Some (if card (owners (demo_attrs PAL_STREAM_DEEP_BUFFER 1) (demo_world [3] 1)) = 32 then - EINVAL
          else int (smallest_free ((\<lambda>x. mInstanceID (wstr (demo_world [3] 1) x)) `
                 owners (demo_attrs PAL_STREAM_DEEP_BUFFER 1) (demo_world [3] 1))))"
  by (rule next_stream_number [OF demo_numbers, of "[]"]) (simp_all add: ordinary_def demo_defs)

end
