(* ===== verification/RM_EC.thy ===== *)
theory RM_EC
  imports Pal_Api
begin

text \<open>
  Echo references in \<^verbatim>\<open>resource_manager/src/ResourceManager.cpp\<close>: which playback device a capture
  stream cancels the echo of, and the counts of playback streams kept for each capture device,
  playback device and capture stream.
\<close>

section \<open>The counts\<close>

text \<open>\<^verbatim>\<open>ec_ref_count_map\<close> of a capture device is a map sorted by playback device; reading a missing key
  inserts it.  Its values list capture streams with their counts.\<close>

type_synonym ec_map = "(nat \<times> (nat \<times> int) list) list"

definition ec_get :: "ec_map \<Rightarrow> nat \<Rightarrow> (nat \<times> int) list" where
  "ec_get m k = (case map_of m k of None \<Rightarrow> [] | Some l \<Rightarrow> l)"

fun ec_put :: "nat \<Rightarrow> (nat \<times> int) list \<Rightarrow> ec_map \<Rightarrow> ec_map" where
  "ec_put k l [] = [(k, l)]"
| "ec_put k l ((k', l') # m) =
     (if k = k' then (k, l) # m else if k < k' then (k, l) # (k', l') # m else (k', l') # ec_put k l m)"

fun ec_erase :: "nat \<Rightarrow> (nat \<times> int) list \<Rightarrow> (nat \<times> int) list" where
  "ec_erase s [] = []"
| "ec_erase s ((t, n) # l) = (if t = s then l else (t, n) # ec_erase s l)"

fun dev_index :: "nat \<Rightarrow> deviceIn list \<Rightarrow> nat option" where
  "dev_index i [] = None"
| "dev_index i (d # ds) = (if dv_deviceId d = i then Some 0 else map_option Suc (dev_index i ds))"

text \<open>The entry of a stream under one playback device: \<open>None\<close> when it has none, otherwise the new
  count and the new list.\<close>

fun ec_pair :: "nat \<Rightarrow> int \<Rightarrow> (nat \<times> int) list \<Rightarrow> (int \<times> (nat \<times> int) list) option" where
  "ec_pair s c [] = None"
| "ec_pair s c ((t, n) # l) =
     (if t = s then
        Some (if c > 0 then (n + c, (t, n + c) # l)
              else if c = 0 then let n' = (if n > 0 then n - 1 else n) in (n', if n' = 0 then l else (t, n') # l)
              else (0, (t, n) # l))
      else map_option (\<lambda>(r, l'). (r, (t, n) # l')) (ec_pair s c l))"

text \<open>A capture stream that stops loses its entry under one playback device or under all.\<close>

fun ec_txstop :: "nat option \<Rightarrow> nat \<Rightarrow> ec_map \<Rightarrow> bool \<times> ec_map" where
  "ec_txstop rx s [] = (False, [])"
| "ec_txstop rx s ((k, l) # m) =
     (if rx \<noteq> None \<and> rx \<noteq> Some k then let (f, m') = ec_txstop rx s m in (f, (k, l) # m')
      else let f = (s \<in> fst ` set l); l' = ec_erase s l
           in if f \<and> rx \<noteq> None then (True, (k, l') # m)
              else let (f', m') = ec_txstop rx s m in (f \<or> f', (k, l') # m'))"

text \<open>\<^verbatim>\<open>updateECDeviceMap\<close> on device ids.  After a fruitless search of a stopping stream the variable
  of the playback device holds the last one of the map.\<close>

definition ec_update_map :: "nat option \<Rightarrow> nat \<Rightarrow> int \<Rightarrow> bool \<Rightarrow> ec_map \<Rightarrow> int \<times> ec_map" where
  "ec_update_map rx s c is_txstop m =
     (let k = (if is_txstop then (if m = [] then 0 else fst (last m)) else (case rx of None \<Rightarrow> 0 | Some k \<Rightarrow> k));
          (r, m) = (if is_txstop then let (f, m') = ec_txstop rx s m in (if f then Some 0 else None, m')
                    else case ec_pair s c (ec_get m k) of
                           None \<Rightarrow> (None, ec_put k (ec_get m k) m)
                         | Some (n, l) \<Rightarrow> (Some n, ec_put k l m))
      in case r of
           Some n \<Rightarrow> (n, m)
         | None \<Rightarrow> if c = 0 then (- EINVAL, m)
                   else if c > 0 then (c, ec_put k (ec_get m k @ [(s, c)]) m)
                   else (0, m))"

definition ec_update :: "nat option \<Rightarrow> nat \<Rightarrow> nat \<Rightarrow> int \<Rightarrow> bool \<Rightarrow> deviceIn list \<Rightarrow> int \<times> deviceIn list" where
  "ec_update rx tx s c is_txstop infos =
     (case dev_index tx infos of
        None \<Rightarrow> (- EINVAL, infos)
      | Some i \<Rightarrow> let (r, m) = ec_update_map rx s c is_txstop (dv_ec_ref_count_map (infos ! i))
                  in (r, infos[i := (infos ! i)\<lparr>dv_ec_ref_count_map := m\<rparr>]))"

definition RM_updateECDeviceMap :: "nat option \<Rightarrow> nat option \<Rightarrow> nat option \<Rightarrow> int \<Rightarrow> bool \<Rightarrow> int io" where
  "RM_updateECDeviceMap rx_dev tx_dev tx_str c is_txstop =
     (case (tx_dev, tx_str) of
        (Some tx, Some s) \<Rightarrow>
          if rx_dev = None \<and> \<not> is_txstop then return (- EINVAL)
          else do {
            rx \<leftarrow> gets (\<lambda>w. map_option (sndId w) rx_dev);
            t \<leftarrow> Device_getSndDeviceId tx;
            r \<leftarrow> rmg (\<lambda>rm. fst (ec_update rx t s c is_txstop (deviceInfo rm)));
            upd_rm (deviceInfo_update (\<lambda>infos. snd (ec_update rx t s c is_txstop infos)));
            return r
          }
      | _ \<Rightarrow> return (- EINVAL))"

definition RM_updateECDeviceMap_l :: "nat option \<Rightarrow> nat option \<Rightarrow> nat option \<Rightarrow> int \<Rightarrow> bool \<Rightarrow> int io" where
  "RM_updateECDeviceMap_l rx_dev tx_dev tx_str c is_txstop = do {
     lock ResourceManagerMutex;
     r \<leftarrow> RM_updateECDeviceMap rx_dev tx_dev tx_str c is_txstop;
     unlock ResourceManagerMutex;
     return r
   }"

section \<open>Which devices and streams\<close>

definition RM_isExternalECRefEnabled :: "RM \<Rightarrow> nat \<Rightarrow> bool" where
  "RM_isExternalECRefEnabled rm rx =
     (case dev_index rx (deviceInfo rm) of None \<Rightarrow> False | Some i \<Rightarrow> dv_isExternalECRefEnabled (deviceInfo rm ! i))"

definition RM_isExternalECSupported :: "world \<Rightarrow> nat option \<Rightarrow> bool" where
  "RM_isExternalECSupported w tx_dev =
     (case tx_dev of
        None \<Rightarrow> False
      | Some d \<Rightarrow>
          (case dev_index (sndId w d) (deviceInfo (wrm w)) of
             None \<Rightarrow> False
           | Some i \<Rightarrow> list_ex (RM_isExternalECRefEnabled (wrm w)) (dv_rx_dev_ids (deviceInfo (wrm w) ! i))))"

definition RM_checkECRef :: "world \<Rightarrow> nat option \<Rightarrow> nat option \<Rightarrow> bool" where
  "RM_checkECRef w rx_dev tx_dev =
     (case (rx_dev, tx_dev) of
        (Some r, Some t) \<Rightarrow>
          list_ex (\<lambda>d. dv_deviceId d = sndId w t \<and> sndId w r \<in> set (dv_rx_dev_ids d)) (deviceInfo (wrm w))
      | _ \<Rightarrow> False)"

text \<open>The setting of the platform file: in general, for a stream type, for a custom key.\<close>

definition ec_setting :: "deviceIn list \<Rightarrow> nat \<Rightarrow> nat \<Rightarrow> string \<Rightarrow> bool" where
  "ec_setting infos i t key =
     (case find (\<lambda>d. dv_deviceId d = i) infos of
        None \<Rightarrow> True
      | Some d \<Rightarrow>
          (case find (\<lambda>u. uc_type u = t) (dv_usecase d) of
             None \<Rightarrow> dv_ec_enable d
           | Some u \<Rightarrow>
               (case find (\<lambda>c. cc_key c = key) (uc_config u) of
                  None \<Rightarrow> uc_ec_enable u
                | Some c \<Rightarrow> cc_ec_enable c)))"

definition RM_getECEnableSetting :: "nat \<Rightarrow> nat \<Rightarrow> (int \<times> bool) io" where
  "RM_getECEnableSetting tx_dev s = do {
     t \<leftarrow> gets (\<lambda>w. stream_type w s);
     (status, a) \<leftarrow> Device_getDeviceAttributes tx_dev True None;
     if status \<noteq> 0 then return (status, True)
     else do {
       i \<leftarrow> Device_getSndDeviceId tx_dev;
       infos \<leftarrow> rmg deviceInfo;
       return (status, ec_setting infos i t (case a of None \<Rightarrow> [] | Some a \<Rightarrow> custom_key a))
     }
   }"

definition RM_isDeviceActive_l :: "world \<Rightarrow> nat \<Rightarrow> nat \<Rightarrow> bool" where
  "RM_isDeviceActive_l w d s \<longleftrightarrow> (d, s) \<in> set (active_devices (wrm w))"

definition stream_runs :: "world \<Rightarrow> nat \<Rightarrow> bool" where
  "stream_runs w s \<longleftrightarrow> currentState (wstr w s) = STREAM_STARTED \<or> currentState (wstr w s) = STREAM_PAUSED"

text \<open>The attributes of a stream, read into a variable that keeps its value on failure.\<close>

definition attr_or :: "world \<Rightarrow> pal_stream_attributes \<Rightarrow> nat \<Rightarrow> pal_stream_attributes" where
  "attr_or w a s = (case mStreamAttr (wstr w s) of None \<Rightarrow> a | Some b \<Rightarrow> b)"

text \<open>The first active playback device, of a running stream, that a capture device has as reference.\<close>

fun find_rx_dev :: "world \<Rightarrow> nat list \<Rightarrow> nat \<Rightarrow> nat list \<Rightarrow> nat option" where
  "find_rx_dev w txs rx_str [] = None"
| "find_rx_dev w txs rx_str (d # ds) =
     (if \<not> RM_isDeviceActive_l w d rx_str \<or> \<not> stream_runs w rx_str then find_rx_dev w txs rx_str ds
      else let rx = (if sndId w d > PAL_DEVICE_OUT_MIN \<and> sndId w d < PAL_DEVICE_OUT_MAX then Some d else None)
           in if list_ex (\<lambda>t. RM_checkECRef w rx (Some t)) txs then rx else find_rx_dev w txs rx_str ds)"

fun find_rx :: "world \<Rightarrow> nat \<Rightarrow> nat list \<Rightarrow> pal_stream_attributes \<Rightarrow> nat list \<Rightarrow> nat option" where
  "find_rx w tx_type txs a [] = None"
| "find_rx w tx_type txs a (s # ss) =
     (let a = attr_or w a s
      in if direction a \<noteq> PAL_AUDIO_INPUT \<and> getEcRefStatus (txEcInfo (wrm w)) tx_type (stype a)
         then case find_rx_dev w txs s (mDevices (wstr w s)) of
                None \<Rightarrow> find_rx w tx_type txs a ss
              | Some d \<Rightarrow> Some d
         else find_rx w tx_type txs a ss)"

definition RM_getActiveEchoReferenceRxDevices_l :: "world \<Rightarrow> pal_stream_attributes \<Rightarrow> nat \<Rightarrow> nat option" where
  "RM_getActiveEchoReferenceRxDevices_l w junk s =
     (case mStreamAttr (wstr w s) of
        None \<Rightarrow> None
      | Some a \<Rightarrow>
          if direction a \<noteq> PAL_AUDIO_INPUT then None
          else find_rx w (stype a) (mDevices (wstr w s)) junk (mActiveStreams (wrm w)))"

definition RM_getActiveEchoReferenceRxDevices :: "pal_stream_attributes \<Rightarrow> nat \<Rightarrow> nat option io" where
  "RM_getActiveEchoReferenceRxDevices junk s = do {
     lock ResourceManagerMutex;
     d \<leftarrow> gets (\<lambda>w. RM_getActiveEchoReferenceRxDevices_l w junk s);
     unlock ResourceManagerMutex;
     return d
   }"

text \<open>The capture streams that may use \<open>rx_dev\<close>.\<close>

definition uses_rx :: "world \<Rightarrow> nat \<Rightarrow> nat \<Rightarrow> bool" where
  "uses_rx w rx_dev s =
     list_ex (\<lambda>d. RM_isDeviceActive_l w d s \<and>
                  RM_checkECRef w (Some rx_dev)
                    (if sndId w d > PAL_DEVICE_IN_MIN \<and> sndId w d < PAL_DEVICE_IN_MAX then Some d else None))
       (mDevices (wstr w s))"

fun concurrent_tx :: "world \<Rightarrow> nat \<Rightarrow> nat \<Rightarrow> pal_stream_attributes \<Rightarrow> nat list \<Rightarrow> nat list" where
  "concurrent_tx w rx_type rx_dev a [] = []"
| "concurrent_tx w rx_type rx_dev a (s # ss) =
     (let a = attr_or w a s;
          rest = concurrent_tx w rx_type rx_dev a ss
      in if stype a = PAL_STREAM_PROXY \<or> stype a = PAL_STREAM_ULTRA_LOW_LATENCY \<or> stype a = PAL_STREAM_GENERIC then rest
         else if direction a = PAL_AUDIO_INPUT \<and> getEcRefStatus (txEcInfo (wrm w)) (stype a) rx_type \<and> uses_rx w rx_dev s
         then s # rest
         else rest)"

definition RM_getConcurrentTxStream_l :: "world \<Rightarrow> pal_stream_attributes \<Rightarrow> nat \<Rightarrow> nat \<Rightarrow> nat list" where
  "RM_getConcurrentTxStream_l w junk rx_str rx_dev =
     (case mStreamAttr (wstr w rx_str) of
        None \<Rightarrow> []
      | Some a \<Rightarrow>
          if direction a = PAL_AUDIO_OUTPUT \<or> direction a = PAL_AUDIO_INPUT_OUTPUT
          then concurrent_tx w (stype a) rx_dev junk (mActiveStreams (wrm w))
          else [])"

definition RM_getConcurrentTxStream :: "pal_stream_attributes \<Rightarrow> nat \<Rightarrow> nat \<Rightarrow> nat list io" where
  "RM_getConcurrentTxStream junk rx_str rx_dev = do {
     lock ResourceManagerMutex;
     l \<leftarrow> gets (\<lambda>w. RM_getConcurrentTxStream_l w junk rx_str rx_dev);
     unlock ResourceManagerMutex;
     return l
   }"

section \<open>Setting and clearing echo references\<close>

text \<open>\<^verbatim>\<open>setECRef_l\<close> and \<^verbatim>\<open>setECRef\<close> of a stream; the latter takes the mutex of the stream.\<close>

definition setECRef_l :: "env \<Rightarrow> nat \<Rightarrow> nat option \<Rightarrow> bool \<Rightarrow> int io" where
  "setECRef_l E s d on = call E (Rm (StreamSetECRef s d on))"

definition setECRef :: "env \<Rightarrow> nat \<Rightarrow> nat option \<Rightarrow> bool \<Rightarrow> int io" where
  "setECRef E s d on = do {
     lock (StreamMutex s);
     r \<leftarrow> setECRef_l E s d on;
     unlock (StreamMutex s);
     return r
   }"

text \<open>How many running playback streams on the device count for a capture stream of type \<open>t\<close>.\<close>

fun count_rx :: "world \<Rightarrow> nat \<Rightarrow> nat \<Rightarrow> pal_stream_attributes \<Rightarrow> nat list \<Rightarrow> int" where
  "count_rx w t d a [] = 0"
| "count_rx w t d a (s # ss) =
     (if \<not> RM_isDeviceActive_l w d s \<or> \<not> stream_runs w s then count_rx w t d a ss
      else let a = attr_or w a s
           in (if direction a \<noteq> PAL_AUDIO_INPUT \<and> getEcRefStatus (txEcInfo (wrm w)) t (stype a) then 1 else 0) +
              count_rx w t d a ss)"

definition RM_checkandEnableECForTXStream_l ::
    "env \<Rightarrow> pal_stream_attributes \<Rightarrow> nat option \<Rightarrow> nat option \<Rightarrow> bool \<Rightarrow> int io" where
  "RM_checkandEnableECForTXStream_l E junk tx_dev tx_stream ec_on =
     (case (tx_dev, tx_stream) of
        (Some d, Some s) \<Rightarrow> do {
          (status, a) \<leftarrow> Stream_getStreamAttributes s;
          case a of
            None \<Rightarrow> return (- EINVAL)
          | Some a \<Rightarrow> do {
              (status, setting) \<leftarrow> RM_getECEnableSetting d s;
              if status \<noteq> 0 \<or> \<not> setting then return status
              else do {
                rx \<leftarrow> gets (\<lambda>w. if ec_on then RM_getActiveEchoReferenceRxDevices_l w junk s else None);
                if ec_on \<and> rx = None then return status
                else do {
                  n \<leftarrow> gets (\<lambda>w. case rx of None \<Rightarrow> 0 | Some r \<Rightarrow> count_rx w (stype a) r junk (RM_getActiveStream_l w r));
                  n \<leftarrow> RM_updateECDeviceMap rx (Some d) (Some s) n (\<not> ec_on);
                  if n \<le> 0 \<and> ec_on then return status
                  else do {
                    unlock ResourceManagerMutex;
                    status \<leftarrow> setECRef_l E s rx ec_on;
                    lock ResourceManagerMutex;
                    if status = - ENODEV then return 0
                    else do {
                      when_io (status \<noteq> 0 \<and> ec_on) (do { RM_updateECDeviceMap rx (Some d) (Some s) 0 ec_on; return () });
                      return status
                    }
                  }
                }
              }
            }
        }
      | _ \<Rightarrow> return (- EINVAL))"

text \<open>One capture stream of \<^verbatim>\<open>checkandEnableECForRXStream_l\<close>; \<open>status\<close> is the variable of the
  function.\<close>

definition ec_for_tx :: "env \<Rightarrow> nat \<Rightarrow> bool \<Rightarrow> int \<Rightarrow> nat \<Rightarrow> int io" where
  "ec_for_tx E rx_dev ec_on status s = do {
     active \<leftarrow> RM_isStreamActive s;
     ds \<leftarrow> str s mDevices;
     if \<not> active \<or> ds = [] then return status
     else do {
       (status, a) \<leftarrow> Stream_getStreamAttributes s;
       if status \<noteq> 0 then return (- EINVAL)
       else do {
         let tx_dev = hd ds;
         (status, setting) \<leftarrow> RM_getECEnableSetting tx_dev s;
         if status \<noteq> 0 \<or> \<not> setting then return status
         else do {
           let want = (if ec_on then 1 else 0);
           n \<leftarrow> RM_updateECDeviceMap (Some rx_dev) (Some tx_dev) (Some s) want False;
           if n \<noteq> want then return status
           else do {
             unlock ResourceManagerMutex;
             status \<leftarrow> setECRef_l E s (Some rx_dev) ec_on;
             lock ResourceManagerMutex;
             if status \<noteq> 0 \<and> ec_on then do {
               RM_updateECDeviceMap (Some rx_dev) (Some tx_dev) (Some s) 0 False;
               return (if status = - ENODEV then 0 else status)
             }
             else return status
           }
         }
       }
     }
   }"

fun ec_for_all :: "env \<Rightarrow> nat \<Rightarrow> bool \<Rightarrow> int \<Rightarrow> nat list \<Rightarrow> int io" where
  "ec_for_all E rx_dev ec_on status [] = return status"
| "ec_for_all E rx_dev ec_on status (s # ss) = do {
     status \<leftarrow> ec_for_tx E rx_dev ec_on status s;
     ec_for_all E rx_dev ec_on status ss
   }"

definition RM_checkandEnableECForRXStream_l ::
    "env \<Rightarrow> pal_stream_attributes \<Rightarrow> nat option \<Rightarrow> nat option \<Rightarrow> bool \<Rightarrow> int io" where
  "RM_checkandEnableECForRXStream_l E junk rx_dev rx_stream ec_on =
     (case (rx_dev, rx_stream) of
        (Some d, Some s) \<Rightarrow> do {
          (status, a) \<leftarrow> Stream_getStreamAttributes s;
          if status \<noteq> 0 then return status
          else do {
            l \<leftarrow> gets (\<lambda>w. RM_getConcurrentTxStream_l w junk s d);
            ec_for_all E d ec_on status l
          }
        }
      | _ \<Rightarrow> return (- EINVAL))"

text \<open>A voice call has its own playback device as reference.\<close>

definition ec_voice_call :: "env \<Rightarrow> nat \<Rightarrow> nat \<Rightarrow> bool \<Rightarrow> unit io" where
  "ec_voice_call E d s enable = do {
     status \<leftarrow> setECRef_l E s (Some d) enable;
     ds \<leftarrow> str s mDevices;
     when_io (status = 0) (for_each ds (\<lambda>t. do {
       i \<leftarrow> Device_getSndDeviceId t;
       when_io (i > PAL_DEVICE_IN_MIN \<and> i < PAL_DEVICE_IN_MAX) (do {
         RM_updateECDeviceMap (Some d) (Some t) (Some s) (if enable then 1 else 0) False;
         return ()
       })
     }))
   }"

definition RM_checkandEnableEC_l :: "env \<Rightarrow> pal_stream_attributes \<Rightarrow> nat option \<Rightarrow> nat option \<Rightarrow> bool \<Rightarrow> int io" where
  "RM_checkandEnableEC_l E junk d s enable =
     (case (d, s) of
        (Some dv, Some st) \<Rightarrow> do {
          (status, a) \<leftarrow> Stream_getStreamAttributes st;
          case a of
            None \<Rightarrow> return status
          | Some a \<Rightarrow>
              if stype a = PAL_STREAM_PROXY \<or>
                 (stype a = PAL_STREAM_ULTRA_LOW_LATENCY \<or> stype a = PAL_STREAM_GENERIC) \<and> direction a = PAL_AUDIO_INPUT
              then return status
              else if direction a = PAL_AUDIO_INPUT then RM_checkandEnableECForTXStream_l E junk d s enable
              else if direction a = PAL_AUDIO_OUTPUT then RM_checkandEnableECForRXStream_l E junk d s enable
              else if direction a = PAL_AUDIO_INPUT_OUTPUT then do {
                i \<leftarrow> Device_getSndDeviceId dv;
                if i < PAL_DEVICE_OUT_MAX then do {
                  when_io (stype a = PAL_STREAM_VOICE_CALL) (ec_voice_call E dv st enable);
                  RM_checkandEnableECForRXStream_l E junk d s enable
                }
                else return status
              }
              else return status
        }
      | _ \<Rightarrow> return (- EINVAL))"

section \<open>External echo references\<close>

text \<open>The counts of \<open>s\<close> under devices without an external reference are dropped; the last device
  with a positive count is the result.\<close>

fun clear_internal :: "env \<Rightarrow> RM \<Rightarrow> nat \<Rightarrow> nat option \<Rightarrow> ec_map \<Rightarrow> (nat option \<times> ec_map) io" where
  "clear_internal E rm s rx [] = return (rx, [])"
| "clear_internal E rm s rx ((k, l) # m) =
     (if RM_isExternalECRefEnabled rm k then do {
        (rx, m) \<leftarrow> clear_internal E rm s rx m;
        return (rx, (k, l) # m)
      }
      else do {
        rx \<leftarrow> (case map_of l s of
                 None \<Rightarrow> return rx
               | Some n \<Rightarrow>
                   if n > 0 then do {
                     cfg \<leftarrow> gets (\<lambda>w. deviceAttr (wdev w k));
                     Device_getInstance E (cfg\<lparr>dev_id := k\<rparr>)
                   }
                   else return rx);
        (rx, m) \<leftarrow> clear_internal E rm s rx m;
        return (rx, (k, ec_erase s l) # m)
      })"

definition RM_clearInternalECRefCounts :: "env \<Rightarrow> nat option \<Rightarrow> nat option \<Rightarrow> nat option io" where
  "RM_clearInternalECRefCounts E tx_str tx_dev =
     (case (tx_str, tx_dev) of
        (Some s, Some d) \<Rightarrow> do {
          t \<leftarrow> Device_getSndDeviceId d;
          rm \<leftarrow> rmg (\<lambda>rm. rm);
          case dev_index t (deviceInfo rm) of
            None \<Rightarrow> return None
          | Some i \<Rightarrow> do {
              (rx, m) \<leftarrow> clear_internal E rm s None (dv_ec_ref_count_map (deviceInfo rm ! i));
              upd_rm (deviceInfo_update (\<lambda>l. l[i := (l ! i)\<lparr>dv_ec_ref_count_map := m\<rparr>]));
              return rx
            }
        }
      | _ \<Rightarrow> return None)"

text \<open>\<^verbatim>\<open>checkStreamMatch\<close> is virtual: the parameter \<open>matches\<close>, \<open>Stream_checkStreamMatch\<close> for
  most classes.\<close>

definition disable_for :: "env \<Rightarrow> (world \<Rightarrow> nat \<Rightarrow> nat \<Rightarrow> bool) \<Rightarrow> nat \<Rightarrow> nat \<Rightarrow> nat \<Rightarrow> unit io" where
  "disable_for E matches s x d = do {
     ext \<leftarrow> gets (\<lambda>w. RM_isExternalECSupported w (Some d));
     when_io ext (do {
       rx \<leftarrow> RM_clearInternalECRefCounts E (Some x) (Some d);
       same \<leftarrow> gets (\<lambda>w. matches w x s);
       when_io (rx \<noteq> None \<and> \<not> same) (do {
         switching \<leftarrow> rmg isDeviceSwitch;
         (if switching then setECRef_l E x rx False else setECRef E x rx False);
         return ()
       })
     })
   }"

definition RM_disableInternalECRefs :: "env \<Rightarrow> (world \<Rightarrow> nat \<Rightarrow> nat \<Rightarrow> bool) \<Rightarrow> nat \<Rightarrow> unit io" where
  "RM_disableInternalECRefs E matches s = do {
     ss \<leftarrow> rmg mActiveStreams;
     for_each ss (\<lambda>x. do {
       (status, a) \<leftarrow> Stream_getStreamAttributes x;
       case a of
         None \<Rightarrow> return ()
       | Some a \<Rightarrow> do {
           ds \<leftarrow> str x mDevices;
           when_io (direction a = PAL_AUDIO_INPUT) (for_each ds (disable_for E matches s x))
         }
     })
   }"

definition RM_restoreInternalECRefs :: "env \<Rightarrow> pal_stream_attributes \<Rightarrow> unit io" where
  "RM_restoreInternalECRefs E junk = do {
     ss \<leftarrow> rmg mActiveStreams;
     for_each ss (\<lambda>x. do {
       (status, a) \<leftarrow> Stream_getStreamAttributes x;
       case a of
         None \<Rightarrow> return ()
       | Some a \<Rightarrow> do {
           ds \<leftarrow> str x mDevices;
           when_io (direction a = PAL_AUDIO_INPUT) (for_each ds (\<lambda>d. do {
             lock ResourceManagerMutex;
             active \<leftarrow> gets (\<lambda>w. RM_isDeviceActive_l w d x);
             when_io active (do { RM_checkandEnableEC_l E junk (Some d) (Some x) True; return () });
             unlock ResourceManagerMutex
           }))
         }
     })
   }"

section \<open>The counts as a function\<close>

text \<open>Abstractly the counts are a function of the capture device, the playback device and the
  capture stream.  A stream has at most one entry, and no count is zero.\<close>

definition cnt :: "(nat \<times> int) list \<Rightarrow> nat \<Rightarrow> int" where
  "cnt l s = (case map_of l s of None \<Rightarrow> 0 | Some n \<Rightarrow> n)"

definition entries_ok :: "(nat \<times> int) list \<Rightarrow> bool" where
  "entries_ok l \<longleftrightarrow> distinct (map fst l) \<and> (\<forall>p\<in>set l. snd p > 0)"

definition map_ok :: "ec_map \<Rightarrow> bool" where
  "map_ok m \<longleftrightarrow> sorted_wrt (<) (map fst m) \<and> (\<forall>p\<in>set m. entries_ok (snd p))"

definition ec_ok :: "deviceIn list \<Rightarrow> bool" where
  "ec_ok infos \<longleftrightarrow> (\<forall>d\<in>set infos. map_ok (dv_ec_ref_count_map d))"

definition ec_count :: "deviceIn list \<Rightarrow> nat \<Rightarrow> nat \<Rightarrow> nat \<Rightarrow> int" where
  "ec_count infos tx rx s =
     (case dev_index tx infos of None \<Rightarrow> 0 | Some i \<Rightarrow> cnt (ec_get (dv_ec_ref_count_map (infos ! i)) rx) s)"

lemma cnt_simps [simp]: "cnt [] s = 0" "cnt ((t, n) # l) s = (if s = t then n else cnt l s)"
  by (simp_all add: cnt_def)

lemma cnt_none: "s \<notin> fst ` set l \<Longrightarrow> cnt l s = 0"
  by (induction l) auto

lemma cnt_pos: "entries_ok l \<Longrightarrow> s \<in> fst ` set l \<longleftrightarrow> cnt l s > 0" "entries_ok l \<Longrightarrow> cnt l s \<ge> 0"
  by (induction l) (auto simp: entries_ok_def)

lemma entries_simps [simp]:
  "entries_ok []" "entries_ok ((t, n) # l) \<longleftrightarrow> t \<notin> fst ` set l \<and> n > 0 \<and> entries_ok l"
  by (auto simp: entries_ok_def)

lemma map_simps [simp]:
  "map_ok []" "map_ok ((k, l) # m) \<longleftrightarrow> (\<forall>k'\<in>fst ` set m. k < k') \<and> entries_ok l \<and> map_ok m"
  by (auto simp: map_ok_def)

lemma ec_get_simps [simp]: "ec_get [] k = []" "ec_get ((k', l) # m) k = (if k = k' then l else ec_get m k)"
  by (simp_all add: ec_get_def)

lemma get_ok: "map_ok m \<Longrightarrow> entries_ok (ec_get m k)"
  by (induction m) auto

lemma get_none: "k \<notin> fst ` set m \<Longrightarrow> ec_get m k = []"
  by (induction m) auto

lemma put_get [simp]: "ec_get (ec_put k l m) k' = (if k' = k then l else ec_get m k')"
  by (induction k l m rule: ec_put.induct) auto

lemma put_keys [simp]: "fst ` set (ec_put k l m) = insert k (fst ` set m)"
  by (induction k l m rule: ec_put.induct) auto

lemma put_ok: "map_ok m \<Longrightarrow> entries_ok l \<Longrightarrow> map_ok (ec_put k l m)"
  by (induction k l m rule: ec_put.induct) auto

lemma erase_keys: "fst ` set (ec_erase s l) \<subseteq> fst ` set l"
  by (induction s l rule: ec_erase.induct) auto

lemma erase_ok: "entries_ok l \<Longrightarrow> entries_ok (ec_erase s l)"
  by (induction s l rule: ec_erase.induct) (use erase_keys in fastforce)+

lemma erase_cnt: "entries_ok l \<Longrightarrow> cnt (ec_erase s l) s' = (if s' = s then 0 else cnt l s')"
  by (induction s l rule: ec_erase.induct) (auto simp: cnt_none)

lemma pair_none: "ec_pair s c l = None \<longleftrightarrow> s \<notin> fst ` set l"
  by (induction s c l rule: ec_pair.induct) auto

text \<open>The count after a call that adds \<open>c\<close> or, with \<open>c = 0\<close>, takes one away.\<close>

definition bumped :: "int \<Rightarrow> int \<Rightarrow> int" where
  "bumped c n = (if c > 0 then n + c else max 0 (n - 1))"

lemma pair_keys: "ec_pair s c l = Some (r, l') \<Longrightarrow> fst ` set l' \<subseteq> fst ` set l"
proof (induction s c l arbitrary: l' rule: ec_pair.induct)
  case (2 s c t n l)
  show ?case
  proof (cases "t = s")
    case True
    then show ?thesis using 2(2) by (auto simp: Let_def split: if_splits)
  next
    case False
    then obtain l1 where "ec_pair s c l = Some (r, l1)" "l' = (t, n) # l1" using 2(2) by auto
    then show ?thesis using 2(1) [OF False] by auto
  qed
qed simp

lemma pair_some:
  assumes "ec_pair s c l = Some (r, l')" "entries_ok l" "c \<ge> 0"
  shows "entries_ok l' \<and> r = bumped c (cnt l s) \<and> cnt l' x = (if x = s then r else cnt l x)"
  using assms
proof (induction s c l arbitrary: l' rule: ec_pair.induct)
  case (2 s c t n l)
  show ?case
  proof (cases "t = s")
    case True
    then have l: "s \<notin> fst ` set l" "n > 0" "entries_ok l" using 2(3) by auto
    consider "c > 0" | "c = 0" "n = 1" | "c = 0" "n > 1" using 2(4) l(2) by linarith
    then show ?thesis using 2(2) True l cnt_none [OF l(1)] by cases (auto simp: bumped_def Let_def)
  next
    case False
    then obtain l1 where l1: "ec_pair s c l = Some (r, l1)" "l' = (t, n) # l1" using 2(2) by auto
    then show ?thesis using 2(1) [OF False l1(1)] 2(3,4) pair_keys [OF l1(1)] False by auto
  qed
qed simp

text \<open>Which playback devices a call for a stopping capture stream means.\<close>

definition meant :: "nat option \<Rightarrow> nat \<Rightarrow> bool" where
  "meant rx k \<longleftrightarrow> rx = None \<or> rx = Some k"

lemma txstop_map:
  "map_ok m \<Longrightarrow> ec_txstop rx s m =
     (\<exists>p\<in>set m. meant rx (fst p) \<and> s \<in> fst ` set (snd p), map (\<lambda>(k, l). (k, if meant rx k then ec_erase s l else l)) m)"
proof (induction rx s m rule: ec_txstop.induct)
  case (2 rx s k l m)
  have k: "\<forall>p\<in>set m. fst p \<noteq> k" and m: "map_ok m" using 2(3) by auto
  consider (other) "rx \<noteq> None \<and> rx \<noteq> Some k" | (here) "rx = Some k" | (all) "rx = None" by auto
  then show ?case
  proof cases
    case other
    then show ?thesis using 2(1) [OF other m] by (auto simp: meant_def)
  next
    case here
    have id: "map (\<lambda>(k, l). (k, if meant rx k then ec_erase s l else l)) m = m"
      using k here by (intro map_idI) (auto simp: meant_def)
    have no: "\<not> (\<exists>p\<in>set m. meant rx (fst p) \<and> s \<in> fst ` set (snd p))" using k here by (auto simp: meant_def)
    show ?thesis
    proof (cases "s \<in> fst ` set l")
      case True
      then show ?thesis using here id by (simp add: meant_def Let_def)
    next
      case False
      have "ec_txstop rx s m = (False, m)" using 2(2) [OF _ refl refl _ m] here False id no by simp
      then show ?thesis using here False id no by (simp add: meant_def Let_def)
    qed
  next
    case all
    have "ec_txstop rx s m =
      (\<exists>p\<in>set m. meant rx (fst p) \<and> s \<in> fst ` set (snd p), map (\<lambda>(k, l). (k, if meant rx k then ec_erase s l else l)) m)"
      using 2(2) [OF _ refl refl _ m] all by simp
    then show ?thesis using all by (simp add: meant_def Let_def)
  qed
qed simp

lemma get_map: "g k [] = [] \<Longrightarrow> ec_get (map (\<lambda>(k, l). (k, g k l)) m) k = g k (ec_get m k)"
  by (induction m) auto

lemma map_ok_map: "map_ok m \<Longrightarrow> (\<And>k l. entries_ok l \<Longrightarrow> entries_ok (g k l)) \<Longrightarrow> map_ok (map (\<lambda>(k, l). (k, g k l)) m)"
  by (induction m) fastforce+

lemma found_cnt: "map_ok m \<Longrightarrow> (\<exists>p\<in>set m. P (fst p) \<and> s \<in> fst ` set (snd p)) \<longleftrightarrow> (\<exists>k. P k \<and> cnt (ec_get m k) s > 0)"
proof (induction m)
  case (Cons p m)
  obtain k l where p: "p = (k, l)" by (rule prod.exhaust)
  have k: "k \<notin> fst ` set m" using Cons.prems p by auto
  have "(\<exists>x. P x \<and> cnt (ec_get (p # m) x) s > 0) \<longleftrightarrow> (P k \<and> cnt l s > 0) \<or> (\<exists>x. P x \<and> cnt (ec_get m x) s > 0)"
    using get_none [OF k] by (auto simp: p)
  then show ?case using Cons p cnt_pos(1) [of l s] by simp
qed simp

lemma txstop:
  assumes "ec_txstop rx s m = (f, m')" "map_ok m"
  shows "map_ok m'" "f \<longleftrightarrow> (\<exists>k. meant rx k \<and> cnt (ec_get m k) s > 0)"
    "cnt (ec_get m' k) x = (if x = s \<and> meant rx k then 0 else cnt (ec_get m k) x)"
proof -
  have r: "f \<longleftrightarrow> (\<exists>p\<in>set m. meant rx (fst p) \<and> s \<in> fst ` set (snd p))"
    "m' = map (\<lambda>(k, l). (k, if meant rx k then ec_erase s l else l)) m"
    using assms txstop_map by auto
  show "map_ok m'" unfolding r(2) by (rule map_ok_map [OF assms(2)]) (simp add: erase_ok)
  show "f \<longleftrightarrow> (\<exists>k. meant rx k \<and> cnt (ec_get m k) s > 0)"
    unfolding r(1) by (rule found_cnt [OF assms(2)])
  show "cnt (ec_get m' k) x = (if x = s \<and> meant rx k then 0 else cnt (ec_get m k) x)"
    unfolding r(2) by (subst get_map) (auto simp: erase_cnt [OF get_ok [OF assms(2)]])
qed

lemma cnt_snoc: "s \<notin> fst ` set l \<Longrightarrow> cnt (l @ [(s, c)]) y = (if y = s then c else cnt l y)"
  by (induction l) auto

lemma entries_snoc: "entries_ok l \<Longrightarrow> s \<notin> fst ` set l \<Longrightarrow> c > 0 \<Longrightarrow> entries_ok (l @ [(s, c)])"
  by (auto simp: entries_ok_def)

lemma update_map_count:
  assumes u: "ec_update_map (Some k) s c False m = (r, m')" and m: "map_ok m" and c: "c \<ge> 0"
  shows "map_ok m' \<and>
    cnt (ec_get m' k') x = (if k' = k \<and> x = s then bumped c (cnt (ec_get m k) s) else cnt (ec_get m k') x) \<and>
    r = (if c = 0 \<and> cnt (ec_get m k) s = 0 then - EINVAL else bumped c (cnt (ec_get m k) s))"
proof (cases "ec_pair s c (ec_get m k)")
  case None
  note g = get_ok [OF m, of k]
  have n: "s \<notin> fst ` set (ec_get m k)" using None pair_none by blast
  note n' = cnt_none [OF n]
  show ?thesis
  proof (cases "c = 0")
    case True
    then have "r = - EINVAL" "m' = ec_put k (ec_get m k) m" using u None by (auto simp: ec_update_map_def)
    then show ?thesis using True n' put_ok [OF m g] by (simp add: bumped_def)
  next
    case False
    then have "c > 0" using c by simp
    then have r: "r = c" "m' = ec_put k (ec_get m k @ [(s, c)]) (ec_put k (ec_get m k) m)"
      using u None by (auto simp: ec_update_map_def)
    show ?thesis
      using \<open>c > 0\<close> n' put_ok [OF put_ok [OF m g] entries_snoc [OF g n \<open>c > 0\<close>]]
      by (simp add: r bumped_def cnt_snoc [OF n])
  qed
next
  case (Some p)
  note g = get_ok [OF m, of k]
  obtain n l where p: "p = (n, l)" by (rule prod.exhaust)
  note q = pair_some [OF Some [unfolded p] g c]
  have "s \<in> fst ` set (ec_get m k)" using Some pair_none [of s c "ec_get m k"] by auto
  then have pos: "cnt (ec_get m k) s > 0" using cnt_pos(1) [OF g] by blast
  have r: "r = n" "m' = ec_put k l m" using u Some p by (auto simp: ec_update_map_def)
  show ?thesis using pos q [of s] q [of x] put_ok [OF m, of l k] by (simp add: r)
qed

lemma update_map_stop:
  assumes "ec_update_map rx s 0 True m = (r, m')" "map_ok m"
  shows "map_ok m'" "cnt (ec_get m' k) x = (if x = s \<and> meant rx k then 0 else cnt (ec_get m k) x)"
    "r = (if \<exists>k. meant rx k \<and> cnt (ec_get m k) s > 0 then 0 else - EINVAL)"
proof -
  obtain f m1 where t: "ec_txstop rx s m = (f, m1)" by (rule prod.exhaust)
  then have "m' = m1" "r = (if f then 0 else - EINVAL)"
    using assms(1) by (auto simp: ec_update_map_def split: if_splits)
  then show "map_ok m'" "cnt (ec_get m' k) x = (if x = s \<and> meant rx k then 0 else cnt (ec_get m k) x)"
    "r = (if \<exists>k. meant rx k \<and> cnt (ec_get m k) s > 0 then 0 else - EINVAL)"
    using txstop [OF t assms(2)] by simp_all
qed

lemma dev_index_nth: "dev_index t infos = Some i \<Longrightarrow> i < length infos \<and> dv_deviceId (infos ! i) = t"
  by (induction infos arbitrary: i) (auto split: if_splits)

lemma dev_index_set: "dev_index t (infos[i := (infos ! i)\<lparr>dv_ec_ref_count_map := m\<rparr>]) = dev_index t infos"
  by (induction infos arbitrary: i) (auto split: nat.split)

lemma count_set:
  assumes "dev_index tx infos = Some i"
  shows "ec_count (infos[i := (infos ! i)\<lparr>dv_ec_ref_count_map := m\<rparr>]) t k s =
    (if t = tx then cnt (ec_get m k) s else ec_count infos t k s)"
  using assms dev_index_nth [OF assms] dev_index_nth [of t infos]
  by (auto simp: ec_count_def dev_index_set nth_list_update split: option.split)

lemma ok_set: "ec_ok infos \<Longrightarrow> map_ok m \<Longrightarrow> ec_ok (infos[i := (infos ! i)\<lparr>dv_ec_ref_count_map := m\<rparr>])"
  using set_update_subset_insert [of infos i] by (fastforce simp: ec_ok_def)

lemma ec_update_index:
  assumes "ec_update rx tx s c stop infos = (r, infos')" "dev_index tx infos = Some i"
  obtains m where "ec_update_map rx s c stop (dv_ec_ref_count_map (infos ! i)) = (r, m)"
    "infos' = infos[i := (infos ! i)\<lparr>dv_ec_ref_count_map := m\<rparr>]"
  using assms by (auto simp: ec_update_def split: prod.splits)

lemma ec_update_dev: "ec_update rx tx s c stop infos = (r, infos') \<Longrightarrow> dev_index t infos' = dev_index t infos"
  by (auto simp: ec_update_def dev_index_set split: option.splits prod.splits)

lemma ec_update_count:
  assumes u: "ec_update (Some k) tx s c False infos = (r, infos')" and ok: "ec_ok infos" and c: "c \<ge> 0"
  shows "ec_ok infos' \<and>
    ec_count infos' t j x = (if (t, j, x) = (tx, k, s) \<and> dev_index tx infos \<noteq> None
      then bumped c (ec_count infos tx k s) else ec_count infos t j x) \<and>
    r = (if dev_index tx infos = None \<or> c = 0 \<and> ec_count infos tx k s = 0 then - EINVAL
         else bumped c (ec_count infos tx k s))"
proof (cases "dev_index tx infos")
  case None
  then show ?thesis using u ok by (simp add: ec_update_def)
next
  case (Some i)
  obtain m where m: "ec_update_map (Some k) s c False (dv_ec_ref_count_map (infos ! i)) = (r, m)"
    "infos' = infos[i := (infos ! i)\<lparr>dv_ec_ref_count_map := m\<rparr>]"
    by (rule ec_update_index [OF u Some])
  have "map_ok (dv_ec_ref_count_map (infos ! i))" using ok dev_index_nth [OF Some] by (simp add: ec_ok_def)
  note v = update_map_count [OF m(1) this c]
  have n: "ec_count infos tx j x = cnt (ec_get (dv_ec_ref_count_map (infos ! i)) j) x" for j x
    by (simp add: ec_count_def Some)
  have "ec_ok infos'" using ok_set [OF ok] v by (simp add: m(2))
  moreover have "ec_count infos' t j x = (if (t, j, x) = (tx, k, s) then bumped c (ec_count infos tx k s) else ec_count infos t j x)"
    using v [of j x] v [of k s] by (auto simp: m(2) count_set [OF Some] n)
  ultimately show ?thesis using v [of k s] by (simp add: Some n)
qed

lemma ec_update_stop:
  assumes u: "ec_update rx tx s 0 True infos = (r, infos')" and ok: "ec_ok infos"
  shows "ec_ok infos' \<and>
    ec_count infos' t j x = (if t = tx \<and> x = s \<and> (rx = None \<or> rx = Some j) then 0 else ec_count infos t j x)"
proof (cases "dev_index tx infos")
  case None
  then show ?thesis using u ok by (simp add: ec_update_def ec_count_def)
next
  case (Some i)
  obtain m where m: "ec_update_map rx s 0 True (dv_ec_ref_count_map (infos ! i)) = (r, m)"
    "infos' = infos[i := (infos ! i)\<lparr>dv_ec_ref_count_map := m\<rparr>]"
    by (rule ec_update_index [OF u Some])
  have "map_ok (dv_ec_ref_count_map (infos ! i))" using ok dev_index_nth [OF Some] by (simp add: ec_ok_def)
  note v = update_map_stop [OF m(1) this]
  have n: "ec_count infos tx j x = cnt (ec_get (dv_ec_ref_count_map (infos ! i)) j) x" for j x
    by (simp add: ec_count_def Some)
  show ?thesis using ok_set [OF ok v(1)] n by (auto simp: m(2) count_set [OF Some] v(2) meant_def)
qed

text \<open>
  C19: The counts kept for echo references behave as one number for each capture device, playback
  device and capture stream, whatever the lists and maps that store them look like: adding adds to
  exactly one number and returns it, taking away subtracts one from it, reports an error when it was
  zero already and never makes it negative, and a stopping capture stream has its numbers under the
  given device, or under all, set to zero. No stream is ever listed twice or with a count of zero.
\<close>

theorem ec_counts_refined:
  assumes "ec_ok infos" and "dev_index tx infos = Some i" and "ec_update rx tx s c stop infos = (r, infos')"
    and "if stop then c = 0 else c \<ge> 0 \<and> rx = Some k"
  shows "ec_ok infos' \<and>
    (if stop
     then (\<forall>t j x. ec_count infos' t j x =
             (if t = tx \<and> x = s \<and> (rx = None \<or> rx = Some j) then 0 else ec_count infos t j x))
     else (\<forall>t j x. ec_count infos' t j x =
             (if (t, j, x) = (tx, k, s) then bumped c (ec_count infos tx k s) else ec_count infos t j x)) \<and>
          r = (if c = 0 \<and> ec_count infos tx k s = 0 then - EINVAL else ec_count infos' tx k s))"
proof (cases stop)
  case True
  then have "ec_update rx tx s 0 True infos = (r, infos')" using assms(3,4) by simp
  then show ?thesis using ec_update_stop [OF _ assms(1)] True by auto
next
  case False
  then have "ec_update (Some k) tx s c False infos = (r, infos')" "c \<ge> 0" using assms(3,4) by simp_all
  note u = ec_update_count [OF this(1) assms(1) this(2)]
  show ?thesis using False u [of tx k s] u assms(2) by simp
qed

text \<open>A microphone with two playback devices, the first of which is the reference of stream 7 twice.\<close>

definition demo_mic :: deviceIn where
  "demo_mic = \<lparr>dv_deviceId = 34, dv_max_channel = 2, dv_channel = 1, dv_samplerate = 48000, dv_usecase = [],
     dv_sndDevName = ''mic'', dv_isExternalECRefEnabled = False, dv_isUSBUUIdBasedTuningEnabled = False,
     dv_fractionalSRSupported = False, dv_bit_width = 16, dv_bitFormatSupported = 1, dv_is32BitSupported = True,
     dv_ec_enable = True, dv_rx_dev_ids = [2, 3], dv_ec_ref_count_map = [(2, [(7, 2)]), (3, [])]\<rparr>"

theorem ec_counts_refined_witness:
  "\<exists>r infos. ec_update (Some 2) 34 7 0 False [demo_mic] = (r, infos) \<and> ec_ok infos \<and>
    ec_count infos 34 2 7 = bumped 0 (ec_count [demo_mic] 34 2 7) \<and> r = ec_count infos 34 2 7"
proof -
  obtain r infos where u: "ec_update (Some 2) 34 7 0 False [demo_mic] = (r, infos)" by (rule prod.exhaust)
  have h: "ec_ok [demo_mic]" "dev_index 34 [demo_mic] = Some 0" "ec_count [demo_mic] 34 2 7 = 2"
    by (simp_all add: ec_ok_def demo_mic_def ec_count_def)
  show ?thesis using ec_counts_refined [OF h(1,2) u, of 2] u h(3) by auto
qed

end
