(* ===== verification/RM_EC_Orders.thy ===== *)
theory RM_EC_Orders
  imports RM_EC
begin

text \<open>
  What capture streams have been told about their echo references, against the counts of the
  resource manager (\<open>RM_EC\<close>), over any sequence of streams coming and going.
\<close>

section \<open>What a capture stream has been told\<close>

text \<open>The last order for stream \<open>s\<close> and playback device \<open>d\<close> in a log was to use it, and was
  accepted.  An order without a device clears all.\<close>

fun ec_told :: "env \<Rightarrow> nat \<Rightarrow> nat \<Rightarrow> event list \<Rightarrow> bool" where
  "ec_told E s d [] = False"
| "ec_told E s d (Rm (StreamSetECRef x r on) # l) =
     (if x = s \<and> (r = None \<or> r = Some d) then on \<and> ans E l (Rm (StreamSetECRef x r on)) = 0 else ec_told E s d l)"
| "ec_told E s d (e # l) = ec_told E s d l"

definition is_capture :: "world \<Rightarrow> nat \<Rightarrow> nat \<Rightarrow> bool" where
  "is_capture w s t \<longleftrightarrow>
     (\<exists>a. mStreamAttr (wstr w s) = Some a \<and> direction a = PAL_AUDIO_INPUT) \<and> mDevices (wstr w s) = [t]"

definition ec_inv :: "env \<Rightarrow> world \<Rightarrow> bool" where
  "ec_inv E w \<longleftrightarrow> ec_ok (deviceInfo (wrm w)) \<and>
     (\<forall>s t d. is_capture w s t \<longrightarrow>
        (ec_told E s d (wlog w) \<longleftrightarrow> ec_count (deviceInfo (wrm w)) (sndId w t) (sndId w d) s > 0))"

text \<open>The registers agree, streams have attributes, a capture stream has one device, and no two
  device objects have the same id.\<close>

definition ec_setup :: "world \<Rightarrow> bool" where
  "ec_setup w \<longleftrightarrow> inj (sndId w) \<and>
     (\<forall>s. s \<in> set (mActiveStreams (wrm w)) \<longleftrightarrow> (\<exists>t<PAL_STREAM_MAX. s \<in> set (RM_getActiveStreamByType_l (wrm w) t))) \<and>
     (\<forall>s\<in>set (mActiveStreams (wrm w)).
        \<exists>a. mStreamAttr (wstr w s) = Some a \<and> (direction a = PAL_AUDIO_INPUT \<longrightarrow> (\<exists>t. mDevices (wstr w s) = [t])))"

section \<open>One update\<close>

text \<open>The world after an update of the counts and some entries of the log.\<close>

definition ec_world :: "world \<Rightarrow> deviceIn list \<Rightarrow> event list \<Rightarrow> world" where
  "ec_world w infos l = w\<lparr>wrm := (wrm w)\<lparr>deviceInfo := infos\<rparr>, wlog := l\<rparr>"

lemma ec_world_simps [simp]:
  "wstr (ec_world w i l) = wstr w" "wdev (ec_world w i l) = wdev w" "wlog (ec_world w i l) = l"
  "deviceInfo (wrm (ec_world w i l)) = i" "mActiveStreams (wrm (ec_world w i l)) = mActiveStreams (wrm w)"
  "active_devices (wrm (ec_world w i l)) = active_devices (wrm w)" "txEcInfo (wrm (ec_world w i l)) = txEcInfo (wrm w)"
  "ec_world (ec_world w i l) i' l' = ec_world w i' l'" "sndId (ec_world w i l) = sndId w"
  "RM_getActiveStreamByType_l (wrm (ec_world w i l)) = RM_getActiveStreamByType_l (wrm w)"
  "(ec_world w i l)\<lparr>wlog := l'\<rparr> = ec_world w i l'"
  by (simp_all add: ec_world_def sndId_def fun_eq_iff RM_getActiveStreamByType_l_def)

lemma ec_world_id: "ec_world w (deviceInfo (wrm w)) (wlog w) = w"
  by (simp add: ec_world_def)

lemma ec_world_setup [simp]: "ec_setup (ec_world w i l) = ec_setup w" "is_capture (ec_world w i l) s t = is_capture w s t"
  by (simp_all add: ec_setup_def is_capture_def)

lemma ec_world_call [simp]:
  "run_state (setECRef_l E s d on) (ec_world w i l) =
     (ans E l (Rm (StreamSetECRef s d on)), ec_world w i (Rm (StreamSetECRef s d on) # l))"
  by (simp add: setECRef_l_def)

lemma run_update:
  "rx \<noteq> None \<or> stop \<Longrightarrow>
   run_state (RM_updateECDeviceMap rx (Some t) (Some s) c stop) (ec_world w i l) =
     (case ec_update (map_option (sndId w) rx) (sndId w t) s c stop i of (r, i') \<Rightarrow> (r, ec_world w i' l))"
  by (cases rx; cases "ec_update (map_option (sndId w) rx) (sndId w t) s c stop i")
     (auto simp: RM_updateECDeviceMap_def Device_getSndDeviceId_def ec_world_def sndId_def comp_def)

text \<open>The invariant over the two parts that change.\<close>

definition ec_sound :: "env \<Rightarrow> world \<Rightarrow> deviceIn list \<Rightarrow> event list \<Rightarrow> bool" where
  "ec_sound E w infos l \<longleftrightarrow> ec_inv E (ec_world w infos l)"

lemma ec_sound_iff:
  "ec_sound E w infos l \<longleftrightarrow> ec_ok infos \<and>
     (\<forall>s t d. is_capture w s t \<longrightarrow> (ec_told E s d l \<longleftrightarrow> ec_count infos (sndId w t) (sndId w d) s > 0))"
  by (simp add: ec_sound_def ec_inv_def)

lemma ec_inv_world: "ec_inv E (ec_world w infos l) = ec_sound E w infos l" "ec_inv E w = ec_sound E w (deviceInfo (wrm w)) (wlog w)"
  by (simp_all add: ec_sound_def ec_world_id)

text \<open>A step from one such world leads to another.\<close>

definition sound_after :: "env \<Rightarrow> world \<Rightarrow> 'a \<times> world \<Rightarrow> bool" where
  "sound_after E w p \<longleftrightarrow> (\<exists>i l. snd p = ec_world w i l \<and> ec_sound E w i l)"

lemma sound_afterI [intro]: "ec_sound E w i l \<Longrightarrow> sound_after E w (r, ec_world w i l)"
  by (auto simp: sound_after_def)

lemma sound_afterE:
  assumes "sound_after E w p"
  obtains r i l where "p = (r, ec_world w i l)" "ec_sound E w i l"
  using assms by (cases p) (auto simp: sound_after_def)

lemma run_setting:
  "\<exists>b. run_state (RM_getECEnableSetting d s) (ec_world w i l) =
     ((0, b), ec_world w i (Unlock (DeviceMutex d) # Lock (DeviceMutex d) # l))"
  by (simp add: RM_getECEnableSetting_def Device_getDeviceAttributes_def Device_getSndDeviceId_def)

section \<open>A playback stream starts or stops\<close>

lemma sound_change:
  assumes s: "ec_sound E w i l" and c: "is_capture w s t" and inj: "inj (sndId w)" and ok: "ec_ok i'"
    and n: "\<And>u j x. (u, j, x) \<noteq> (sndId w t, sndId w d, s) \<Longrightarrow> ec_count i' u j x = ec_count i u j x"
    and o: "\<And>x e. (x, e) \<noteq> (s, d) \<Longrightarrow> ec_told E x e l' = ec_told E x e l"
    and at: "ec_told E s d l' \<longleftrightarrow> ec_count i' (sndId w t) (sndId w d) s > 0"
  shows "ec_sound E w i' l'"
  unfolding ec_sound_iff
proof (intro conjI allI impI ok)
  fix x u e assume x: "is_capture w x u"
  show "ec_told E x e l' \<longleftrightarrow> ec_count i' (sndId w u) (sndId w e) x > 0"
  proof (cases "(x, e) = (s, d)")
    case True
    then show ?thesis using at c x by (auto simp: is_capture_def)
  next
    case False
    then have "(sndId w u, sndId w e, x) \<noteq> (sndId w t, sndId w d, s)" using inj by (auto dest: injD)
    then show ?thesis using s x n [of "sndId w u" "sndId w e" x] o [OF False] by (simp add: ec_sound_iff)
  qed
qed

lemma count_nonneg: "ec_ok infos \<Longrightarrow> ec_count infos t j x \<ge> 0"
  using cnt_pos(2) [OF get_ok] dev_index_nth by (auto simp: ec_count_def ec_ok_def split: option.split)

lemma tx_step:
  assumes s: "ec_sound E w i l" and c: "is_capture w s t" and inj: "inj (sndId w)"
  shows "sound_after E w (run_state (ec_for_tx E d on st s) (ec_world w i l))"
proof -
  obtain a where a: "mStreamAttr (wstr w s) = Some a" and t: "mDevices (wstr w s) = [t]" using c by (auto simp: is_capture_def)
  let ?k = "Unlock (DeviceMutex t) # Lock (DeviceMutex t) # l"
  obtain b where b: "run_state (RM_getECEnableSetting t s) (ec_world w i l) = ((0, b), ec_world w i ?k)"
    using run_setting by blast
  show ?thesis
  proof (cases "s \<in> set (mActiveStreams (wrm w)) \<and> b")
    case False
    then have "run_state (ec_for_tx E d on st s) (ec_world w i l) =
      (if s \<in> set (mActiveStreams (wrm w)) then (0, ec_world w i ?k) else (st, ec_world w i l))"
      using a t b by (simp add: ec_for_tx_def RM_isStreamActive_def Stream_getStreamAttributes_def)
    moreover have "ec_sound E w i ?k" using s by (simp add: ec_sound_iff)
    ultimately show ?thesis using s by auto
  next
    case True
    let ?c = "if on then 1 else 0 :: int"
    obtain r i1 where u: "ec_update (Some (sndId w d)) (sndId w t) s ?c False i = (r, i1)" by (rule prod.exhaust)
    have ok: "ec_ok i" using s by (simp add: ec_sound_iff)
    note e = ec_update_count [OF u ok]
    let ?o = "Rm (StreamSetECRef s (Some d) on)" let ?l = "Unlock ResourceManagerMutex # ?k"
    obtain r2 i2 where u2: "ec_update (Some (sndId w d)) (sndId w t) s 0 False i1 = (r2, i2)" by (rule prod.exhaust)
    note e2 = ec_update_count [OF u2]
    have run: "run_state (ec_for_tx E d on st s) (ec_world w i l) =
      (if r \<noteq> ?c then (0, ec_world w i1 ?k)
       else if ans E ?l ?o \<noteq> 0 \<and> on
       then (if ans E ?l ?o = - ENODEV then 0 else ans E ?l ?o, ec_world w i2 (Lock ResourceManagerMutex # ?o # ?l))
       else (ans E ?l ?o, ec_world w i1 (Lock ResourceManagerMutex # ?o # ?l)))"
      using True a t b u u2
      by (cases on) (simp_all add: ec_for_tx_def RM_isStreamActive_def Stream_getStreamAttributes_def run_update)
    let ?n = "ec_count i (sndId w t) (sndId w d) s"
    have told: "ec_told E s d l \<longleftrightarrow> ?n > 0" and pos: "?n \<ge> 0" using s c count_nonneg [OF ok] by (auto simp: ec_sound_iff)
    have r: "r = (if dev_index (sndId w t) i = None \<or> ?c = 0 \<and> ?n = 0 then - EINVAL else bumped ?c ?n)"
      and ok1: "ec_ok i1" and n1: "ec_count i1 u j x = (if (u, j, x) = (sndId w t, sndId w d, s) \<and> dev_index (sndId w t) i \<noteq> None
        then bumped ?c ?n else ec_count i u j x)" for u j x
      using e by auto
    have none: "?n = 0" if "dev_index (sndId w t) i = None" using that by (simp add: ec_count_def)
    have "ec_sound E w i1 ?k" if "r \<noteq> ?c"
      by (rule sound_change [OF s c inj ok1, of d])
         (use that r told pos none in \<open>auto simp: n1 bumped_def split: if_splits\<close>)
    moreover have "ec_sound E w i2 (Lock ResourceManagerMutex # ?o # ?l)" if "r = ?c" "ans E ?l ?o \<noteq> 0 \<and> on"
      by (rule sound_change [OF s c inj, of _ d])
         (use that r told pos none e2 [OF ok1] in \<open>auto simp: n1 bumped_def ec_update_dev [OF u] split: if_splits\<close>)
    moreover have "ec_sound E w i1 (Lock ResourceManagerMutex # ?o # ?l)" if "r = ?c" "\<not> (ans E ?l ?o \<noteq> 0 \<and> on)"
      by (rule sound_change [OF s c inj ok1, of d])
         (use that r told pos none in \<open>auto simp: n1 bumped_def split: if_splits\<close>)
    ultimately show ?thesis unfolding run by auto
  qed
qed

lemma all_step:
  assumes "ec_sound E w i l" "\<forall>s\<in>set ss. \<exists>t. is_capture w s t" "inj (sndId w)"
  shows "sound_after E w (run_state (ec_for_all E d on st ss) (ec_world w i l))"
  using assms(1,2)
proof (induction ss arbitrary: st i l)
  case Nil
  then show ?case by auto
next
  case (Cons s ss)
  then obtain t where "is_capture w s t" by auto
  obtain r i1 l1 where r: "run_state (ec_for_tx E d on st s) (ec_world w i l) = (r, ec_world w i1 l1)" "ec_sound E w i1 l1"
    by (rule sound_afterE [OF tx_step [OF Cons.prems(1) \<open>is_capture w s t\<close> assms(3)]])
  then show ?case using Cons.IH [OF r(2)] Cons.prems(2) by simp
qed

lemma concurrent_capture:
  assumes "\<forall>s\<in>set ss. \<exists>a. mStreamAttr (wstr w s) = Some a \<and> (direction a = PAL_AUDIO_INPUT \<longrightarrow> (\<exists>t. mDevices (wstr w s) = [t]))"
    and "s \<in> set (concurrent_tx w y d a ss)"
  shows "\<exists>t. is_capture w s t"
  using assms
proof (induction ss arbitrary: a)
  case (Cons x ss)
  obtain b where b: "mStreamAttr (wstr w x) = Some b" "direction b = PAL_AUDIO_INPUT \<longrightarrow> (\<exists>t. mDevices (wstr w x) = [t])"
    using Cons.prems(1) by auto
  then have "attr_or w a x = b" by (simp add: attr_or_def)
  moreover have "s \<in> set (concurrent_tx w y d b ss) \<Longrightarrow> ?case" using Cons.IH Cons.prems(1) by simp
  moreover have "s = x \<Longrightarrow> direction b = PAL_AUDIO_INPUT \<Longrightarrow> ?case" using b by (auto simp: is_capture_def)
  ultimately show ?case using Cons.prems(2) by (auto simp: Let_def split: if_splits)
qed simp

lemma rx_step:
  assumes "ec_sound E w i l" "ec_setup w"
  shows "sound_after E w (run_state (RM_checkandEnableECForRXStream_l E junk (Some d) (Some s) on) (ec_world w i l))"
proof (cases "mStreamAttr (wstr w s)")
  case None
  then have "run_state (RM_checkandEnableECForRXStream_l E junk (Some d) (Some s) on) (ec_world w i l) = (- EINVAL, ec_world w i l)"
    by (simp add: RM_checkandEnableECForRXStream_l_def Stream_getStreamAttributes_def)
  then show ?thesis using assms(1) by auto
next
  case (Some a)
  let ?ss = "RM_getConcurrentTxStream_l (ec_world w i l) junk s d"
  have "\<exists>t. is_capture (ec_world w i l) x t" if "x \<in> set ?ss" for x
    by (rule concurrent_capture [of "mActiveStreams (wrm w)" _ _ "stype a" d junk])
       (use that assms(2) Some in \<open>auto simp: RM_getConcurrentTxStream_l_def ec_setup_def split: if_splits\<close>)
  then have c: "\<forall>x\<in>set ?ss. \<exists>t. is_capture w x t" by simp
  have inj: "inj (sndId w)" using assms(2) by (simp add: ec_setup_def)
  show ?thesis
    using all_step [OF assms(1) c inj, of d on 0] Some
    by (simp add: RM_checkandEnableECForRXStream_l_def Stream_getStreamAttributes_def)
qed

section \<open>A capture stream starts or stops\<close>

text \<open>The playback device found is one that counts for the capture stream.\<close>

lemma count_rx_pos:
  assumes "\<forall>x\<in>set ss. \<exists>a. mStreamAttr (wstr w x) = Some a"
  shows "count_rx w t d a ss \<ge> 0"
    "x \<in> set ss \<Longrightarrow> RM_isDeviceActive_l w d x \<Longrightarrow> stream_runs w x \<Longrightarrow> mStreamAttr (wstr w x) = Some b \<Longrightarrow>
     direction b \<noteq> PAL_AUDIO_INPUT \<Longrightarrow> getEcRefStatus (txEcInfo (wrm w)) t (stype b) \<Longrightarrow> count_rx w t d a ss > 0"
proof -
  show nn: "count_rx w t d a ss \<ge> 0" for a ss by (induction ss arbitrary: a) (auto simp: Let_def)
  show "x \<in> set ss \<Longrightarrow> RM_isDeviceActive_l w d x \<Longrightarrow> stream_runs w x \<Longrightarrow> mStreamAttr (wstr w x) = Some b \<Longrightarrow>
     direction b \<noteq> PAL_AUDIO_INPUT \<Longrightarrow> getEcRefStatus (txEcInfo (wrm w)) t (stype b) \<Longrightarrow> count_rx w t d a ss > 0"
  proof (induction ss arbitrary: a)
    case (Cons y ss)
    then show ?case using nn [of _ ss] by (cases "x = y") (auto simp: Let_def attr_or_def intro: add_nonneg_pos add_pos_nonneg)
  qed simp
qed

lemma find_dev_active:
  "find_rx_dev w txs s ds = Some d \<Longrightarrow> d \<in> set ds \<and> RM_isDeviceActive_l w d s \<and> stream_runs w s"
proof (induction ds)
  case (Cons e ds)
  have "\<not> RM_checkECRef w None t" for t by (simp add: RM_checkECRef_def)
  then show ?case using Cons by (auto simp: Let_def list_ex_iff split: if_splits)
qed simp

lemma find_rx_active:
  assumes "\<forall>x\<in>set ss. \<exists>a. mStreamAttr (wstr w x) = Some a" "find_rx w t txs a ss = Some d"
  shows "\<exists>x\<in>set ss. \<exists>b. mStreamAttr (wstr w x) = Some b \<and> direction b \<noteq> PAL_AUDIO_INPUT \<and>
    getEcRefStatus (txEcInfo (wrm w)) t (stype b) \<and> d \<in> set (mDevices (wstr w x)) \<and> RM_isDeviceActive_l w d x \<and> stream_runs w x"
  using assms
proof (induction ss arbitrary: a)
  case (Cons y ss)
  obtain b where b: "mStreamAttr (wstr w y) = Some b" using Cons.prems(1) by auto
  then have a: "attr_or w a y = b" by (simp add: attr_or_def)
  show ?case
  proof (cases "find_rx w t txs b ss = Some d")
    case True
    then show ?thesis using Cons.IH Cons.prems(1) by fastforce
  next
    case False
    then have "find_rx_dev w txs y (mDevices (wstr w y)) = Some d" "direction b \<noteq> PAL_AUDIO_INPUT"
      "getEcRefStatus (txEcInfo (wrm w)) t (stype b)"
      using Cons.prems(2) by (auto simp: a Let_def split: if_splits option.splits)
    then show ?thesis using b find_dev_active by auto
  qed
qed simp

lemma reference_counts:
  assumes "ec_setup w" "RM_getActiveEchoReferenceRxDevices_l w junk s = Some d" "mStreamAttr (wstr w s) = Some a"
  shows "count_rx w (stype a) d junk' (RM_getActiveStream_l w d) > 0"
proof -
  have "find_rx w (stype a) (mDevices (wstr w s)) junk (mActiveStreams (wrm w)) = Some d"
    using assms(2,3) by (simp add: RM_getActiveEchoReferenceRxDevices_l_def split: if_splits)
  moreover have "\<forall>x\<in>set (mActiveStreams (wrm w)). \<exists>a. mStreamAttr (wstr w x) = Some a" using assms(1) by (auto simp: ec_setup_def)
  ultimately obtain x b where x: "x \<in> set (mActiveStreams (wrm w))" "mStreamAttr (wstr w x) = Some b" "direction b \<noteq> PAL_AUDIO_INPUT"
    "getEcRefStatus (txEcInfo (wrm w)) (stype a) (stype b)" "d \<in> set (mDevices (wstr w x))" "RM_isDeviceActive_l w d x" "stream_runs w x"
    using find_rx_active by meson
  have "currentState (wstr w x) \<noteq> STREAM_IDLE" using x(7) by (auto simp: stream_runs_def)
  moreover obtain t where "t < PAL_STREAM_MAX" "x \<in> set (RM_getActiveStreamByType_l (wrm w) t)"
    using assms(1) x(1) by (auto simp: ec_setup_def)
  ultimately have "x \<in> set (RM_getActiveStream_l w d)" using x(5) by (force simp: RM_getActiveStream_l_def)
  moreover have "\<forall>x\<in>set (RM_getActiveStream_l w d). \<exists>a. mStreamAttr (wstr w x) = Some a"
    using assms(1) by (fastforce simp: ec_setup_def RM_getActiveStream_l_def)
  ultimately show ?thesis using count_rx_pos(2) x(2,3,4,6,7) by blast
qed

text \<open>The two ways of a capture stream change all its entries at once.\<close>

lemma sound_stop:
  assumes s: "ec_sound E w i l" and c: "is_capture w s t" and u: "ec_update None (sndId w t) s 0 True i = (r, i')"
    and o: "\<And>x e. ec_told E x e l' = (x \<noteq> s \<and> ec_told E x e l)"
  shows "ec_sound E w i' l'"
  unfolding ec_sound_iff
proof (intro conjI allI impI)
  have ok: "ec_ok i" using s by (simp add: ec_sound_iff)
  note e = ec_update_stop [OF u ok]
  show "ec_ok i'" using e by simp
  fix x v d assume x: "is_capture w x v"
  have "v = t" if "x = s" using that c x by (simp add: is_capture_def)
  then show "ec_told E x d l' \<longleftrightarrow> ec_count i' (sndId w v) (sndId w d) x > 0"
    using s x o [of x d] e [of "sndId w v" "sndId w d" x] by (auto simp: ec_sound_iff)
qed

lemma tx_start:
  assumes s: "ec_sound E w i l" and c: "is_capture w s t" and inj: "inj (sndId w)" and n: "n > 0"
    and u: "ec_update (Some (sndId w d)) (sndId w t) s n False i = (r, i1)"
    and u2: "ec_update (Some (sndId w d)) (sndId w t) s 0 True i1 = (r2, i2)"
    and o: "\<And>x e. (x, e) \<noteq> (s, d) \<Longrightarrow> ec_told E x e l' = ec_told E x e l"
  shows "r \<le> 0 \<Longrightarrow> (\<And>x e. ec_told E x e l' = ec_told E x e l) \<Longrightarrow> ec_sound E w i1 l'"
    "r > 0 \<Longrightarrow> ec_told E s d l' \<Longrightarrow> ec_sound E w i1 l'"
    "r > 0 \<Longrightarrow> \<not> ec_told E s d l' \<Longrightarrow> ec_sound E w i2 l'"
proof -
  have ok: "ec_ok i" using s by (simp add: ec_sound_iff)
  have n0: "n \<ge> 0" using n by simp
  note e = ec_update_count [OF u ok n0]
  have ok1: "ec_ok i1" using e by simp
  note e2 = ec_update_stop [OF u2 ok1]
  have pos: "ec_count i (sndId w t) (sndId w d) s \<ge> 0" by (rule count_nonneg [OF ok])
  have r: "r > 0 \<longleftrightarrow> dev_index (sndId w t) i \<noteq> None" using e [of 0 0 0] pos n by (auto simp: bumped_def)
  show "ec_sound E w i1 l'" if "r \<le> 0" "\<And>x e. ec_told E x e l' = ec_told E x e l"
    by (rule sound_change [OF s c inj ok1, of d]) (use that r e s c in \<open>auto simp: ec_sound_iff\<close>)
  show "ec_sound E w i1 l'" if "r > 0" "ec_told E s d l'"
    by (rule sound_change [OF s c inj ok1, of d]) (use that r e o pos n in \<open>auto simp: bumped_def\<close>)
  show "ec_sound E w i2 l'" if "r > 0" "\<not> ec_told E s d l'"
    by (rule sound_change [OF s c inj, of _ d]) (use that e e2 o in auto)
qed


lemma tx_top_on:
  assumes s: "ec_sound E w i l" and su: "ec_setup w" and c: "is_capture w s t"
    and dev: "\<And>l d. ans E l (Rm (StreamSetECRef s d True)) \<noteq> - ENODEV"
  shows "sound_after E w (run_state (RM_checkandEnableECForTXStream_l E junk (Some t) (Some s) True) (ec_world w i l))"
proof -
  obtain a where a: "mStreamAttr (wstr w s) = Some a" using c by (auto simp: is_capture_def)
  let ?k = "Unlock (DeviceMutex t) # Lock (DeviceMutex t) # l"
  obtain b where b: "run_state (RM_getECEnableSetting t s) (ec_world w i l) = ((0, b), ec_world w i ?k)"
    using run_setting by blast
  have k: "ec_sound E w i ?k" using s by (simp add: ec_sound_iff)
  let ?rx = "RM_getActiveEchoReferenceRxDevices_l (ec_world w i ?k) junk s"
  show ?thesis
  proof (cases "b \<and> ?rx \<noteq> None")
    case False
    then have "run_state (RM_checkandEnableECForTXStream_l E junk (Some t) (Some s) True) (ec_world w i l) = (0, ec_world w i ?k)"
      using a b by (auto simp: RM_checkandEnableECForTXStream_l_def Stream_getStreamAttributes_def)
    then show ?thesis using k by auto
  next
    case True
    then obtain d where d: "?rx = Some d" by auto
    let ?n = "count_rx (ec_world w i ?k) (stype a) d junk (RM_getActiveStream_l (ec_world w i ?k) d)"
    have n: "?n > 0" by (rule reference_counts [OF _ d]) (use su a in simp_all)
    obtain r i1 where u: "ec_update (Some (sndId w d)) (sndId w t) s ?n False i = (r, i1)" by (rule prod.exhaust)
    obtain r2 i2 where u2: "ec_update (Some (sndId w d)) (sndId w t) s 0 True i1 = (r2, i2)" by (rule prod.exhaust)
    let ?o = "Rm (StreamSetECRef s (Some d) True)" let ?l = "Unlock ResourceManagerMutex # ?k"
    let ?after = "Lock ResourceManagerMutex # ?o # ?l"
    have run: "run_state (RM_checkandEnableECForTXStream_l E junk (Some t) (Some s) True) (ec_world w i l) =
      (if r \<le> 0 then (0, ec_world w i1 ?k)
       else if ans E ?l ?o \<noteq> 0 then (ans E ?l ?o, ec_world w i2 ?after) else (0, ec_world w i1 ?after))"
      using True a b d u u2 dev
      by (simp add: RM_checkandEnableECForTXStream_l_def Stream_getStreamAttributes_def run_update)
    have inj: "inj (sndId w)" using su by (simp add: ec_setup_def)
    note start = tx_start [OF s c inj n u u2]
    have "ec_sound E w i1 ?k" if "r \<le> 0" by (rule start(1)) (use that in auto)
    moreover have "ec_sound E w i2 ?after" if "\<not> r \<le> 0" "ans E ?l ?o \<noteq> 0" by (rule start(3)) (use that in auto)
    moreover have "ec_sound E w i1 ?after" if "\<not> r \<le> 0" "ans E ?l ?o = 0" by (rule start(2)) (use that in auto)
    ultimately show ?thesis unfolding run by auto
  qed
qed

lemma tx_top_off:
  assumes s: "ec_sound E w i l" and c: "is_capture w s t"
  shows "sound_after E w (run_state (RM_checkandEnableECForTXStream_l E junk (Some t) (Some s) False) (ec_world w i l))"
proof -
  obtain a where a: "mStreamAttr (wstr w s) = Some a" using c by (auto simp: is_capture_def)
  let ?k = "Unlock (DeviceMutex t) # Lock (DeviceMutex t) # l"
  obtain b where b: "run_state (RM_getECEnableSetting t s) (ec_world w i l) = ((0, b), ec_world w i ?k)"
    using run_setting by blast
  let ?o = "Rm (StreamSetECRef s None False)" let ?l = "Unlock ResourceManagerMutex # ?k"
  obtain r i1 where u: "ec_update None (sndId w t) s 0 True i = (r, i1)" by (rule prod.exhaust)
  have run: "run_state (RM_checkandEnableECForTXStream_l E junk (Some t) (Some s) False) (ec_world w i l) =
    (if b then (if ans E ?l ?o = - ENODEV then 0 else ans E ?l ?o, ec_world w i1 (Lock ResourceManagerMutex # ?o # ?l))
     else (0, ec_world w i ?k))"
    using a b u by (simp add: RM_checkandEnableECForTXStream_l_def Stream_getStreamAttributes_def run_update)
  have "ec_sound E w i ?k" using s by (simp add: ec_sound_iff)
  moreover have "ec_sound E w i1 (Lock ResourceManagerMutex # ?o # ?l)" by (rule sound_stop [OF s c u]) auto
  ultimately show ?thesis unfolding run by auto
qed

section \<open>Any sequence\<close>

text \<open>A call for a device that starts or stops under a playback or capture stream.\<close>

definition ec_op_ok :: "world \<Rightarrow> nat \<Rightarrow> nat \<Rightarrow> bool" where
  "ec_op_ok w d s \<longleftrightarrow> (\<exists>a. mStreamAttr (wstr w s) = Some a \<and>
     (direction a = PAL_AUDIO_OUTPUT \<or> direction a = PAL_AUDIO_INPUT \<and> mDevices (wstr w s) = [d]))"

lemma ec_call_sound:
  assumes inv: "ec_inv E w" and su: "ec_setup w" and op: "ec_op_ok w d s"
    and dev: "\<And>l s d. ans E l (Rm (StreamSetECRef s d True)) \<noteq> - ENODEV"
  shows "ec_inv E (snd (run_state (RM_checkandEnableEC_l E junk (Some d) (Some s) on) w))"
proof -
  obtain a where a: "mStreamAttr (wstr w s) = Some a"
    "direction a = PAL_AUDIO_OUTPUT \<or> direction a = PAL_AUDIO_INPUT \<and> mDevices (wstr w s) = [d]" using op by (auto simp: ec_op_ok_def)
  let ?w = "ec_world w (deviceInfo (wrm w)) (wlog w)"
  have s: "ec_sound E w (deviceInfo (wrm w)) (wlog w)" using inv by (simp add: ec_inv_world(2))
  have tx: "sound_after E w (run_state (RM_checkandEnableECForTXStream_l E junk (Some d) (Some s) on) ?w)"
    if "direction a = PAL_AUDIO_INPUT"
  proof -
    have c: "is_capture w s d" using a that by (auto simp: is_capture_def)
    show ?thesis using tx_top_on [OF s su c dev] tx_top_off [OF s c] by (cases on) simp_all
  qed
  have "sound_after E w (run_state (RM_checkandEnableEC_l E junk (Some d) (Some s) on) ?w)"
    using a tx rx_step [OF s su, of junk d s on] s
    by (auto simp: RM_checkandEnableEC_l_def Stream_getStreamAttributes_def)
  then obtain r i l where "run_state (RM_checkandEnableEC_l E junk (Some d) (Some s) on) ?w = (r, ec_world w i l)" "ec_sound E w i l"
    by (rule sound_afterE)
  then show ?thesis by (simp add: ec_world_id ec_inv_world(1))
qed

text \<open>Between two calls anything may change but the counts, the ids of the devices and the
  attributes and devices of a capture stream that has a reference; in particular streams are
  opened, started, stopped and closed, and devices registered.\<close>

definition ec_free :: "env \<Rightarrow> world \<Rightarrow> nat \<Rightarrow> bool" where
  "ec_free E w s \<longleftrightarrow> (\<forall>d. \<not> ec_told E s d (wlog w)) \<and> (\<forall>t d. ec_count (deviceInfo (wrm w)) t d s = 0)"

definition ec_other :: "env \<Rightarrow> world \<Rightarrow> world \<Rightarrow> bool" where
  "ec_other E w w' \<longleftrightarrow> deviceInfo (wrm w') = deviceInfo (wrm w) \<and> sndId w' = sndId w \<and>
     (\<forall>s. ec_free E w s \<or> mStreamAttr (wstr w' s) = mStreamAttr (wstr w s) \<and> mDevices (wstr w' s) = mDevices (wstr w s)) \<and>
     (\<exists>es. wlog w' = es @ wlog w \<and> (\<forall>s d on. Rm (StreamSetECRef s d on) \<notin> set es))"

inductive ec_reach :: "env \<Rightarrow> world \<Rightarrow> bool" for E where
  ec_start: "\<forall>d\<in>set (deviceInfo (wrm w)). dv_ec_ref_count_map d = [] \<Longrightarrow> wlog w = [] \<Longrightarrow> ec_reach E w"
| ec_call: "ec_reach E w \<Longrightarrow> ec_setup w \<Longrightarrow> ec_op_ok w d s \<Longrightarrow>
    ec_reach E (snd (run_state (RM_checkandEnableEC_l E junk (Some d) (Some s) on) w))"
| ec_change: "ec_reach E w \<Longrightarrow> ec_other E w w' \<Longrightarrow> ec_reach E w'"

lemma told_other: "\<forall>s d on. Rm (StreamSetECRef s d on) \<notin> set es \<Longrightarrow> ec_told E s d (es @ l) = ec_told E s d l"
proof (induction es)
  case (Cons e es)
  then have "\<And>s d on. e \<noteq> Rm (StreamSetECRef s d on)" by auto
  moreover have "ec_told E s d (e # l') = ec_told E s d l'" if "\<And>s d on. e \<noteq> Rm (StreamSetECRef s d on)" for l'
  proof (cases e)
    case (Rm c)
    then show ?thesis using that by (cases c) auto
  qed simp_all
  ultimately show ?case using Cons by simp
qed simp

lemma ec_start_inv:
  assumes "\<forall>d\<in>set (deviceInfo (wrm w)). dv_ec_ref_count_map d = []" "wlog w = []"
  shows "ec_inv E w"
proof -
  have "ec_count (deviceInfo (wrm w)) t d s = 0" for t d s
    using assms(1) dev_index_nth by (auto simp: ec_count_def split: option.split)
  then show ?thesis using assms by (simp add: ec_inv_def ec_ok_def)
qed

lemma ec_other_inv: "ec_inv E w \<Longrightarrow> ec_other E w w' \<Longrightarrow> ec_inv E w'"
  unfolding ec_inv_def
proof (intro conjI allI impI)
  assume inv: "ec_ok (deviceInfo (wrm w)) \<and> (\<forall>s t d. is_capture w s t \<longrightarrow>
      ec_told E s d (wlog w) = (0 < ec_count (deviceInfo (wrm w)) (sndId w t) (sndId w d) s))"
    and o: "ec_other E w w'"
  show "ec_ok (deviceInfo (wrm w'))" using inv o by (simp add: ec_other_def)
  fix s t d assume c: "is_capture w' s t"
  have told: "ec_told E s d (wlog w') = ec_told E s d (wlog w)" using o told_other by (auto simp: ec_other_def)
  have same: "deviceInfo (wrm w') = deviceInfo (wrm w)" "sndId w' = sndId w" using o by (simp_all add: ec_other_def)
  show "ec_told E s d (wlog w') = (0 < ec_count (deviceInfo (wrm w')) (sndId w' t) (sndId w' d) s)"
  proof (cases "ec_free E w s")
    case True
    then show ?thesis by (simp add: told same ec_free_def)
  next
    case False
    then have "mStreamAttr (wstr w' s) = mStreamAttr (wstr w s) \<and> mDevices (wstr w' s) = mDevices (wstr w s)"
      using o unfolding ec_other_def by blast
    then have "is_capture w s t" using c by (simp add: is_capture_def)
    then show ?thesis using inv by (simp add: told same)
  qed
qed


text \<open>Stream 4 records from a microphone while stream 5 starts to play on the speaker.\<close>

definition ec_demo :: world where
  "ec_demo = (demo_world [2] PAL_AUDIO_OUTPUT)\<lparr>
     wstr := (\<lambda>s. (demo_stream (if s = 4 then [34] else [2]) (if s = 4 then PAL_AUDIO_INPUT else PAL_AUDIO_OUTPUT))
       \<lparr>currentState := STREAM_STARTED\<rparr>),
     wrm := demo_rm\<lparr>deviceInfo := [demo_mic\<lparr>dv_ec_ref_count_map := []\<rparr>], mActiveStreams := [4, 5],
       activeStreamMap := (\<lambda>t. if t = PAL_STREAM_DEEP_BUFFER then Some [4, 5] else None),
       active_devices := [(34, 4), (2, 5)]\<rparr>\<rparr>"

definition ec_demo_on :: world where
  "ec_demo_on = snd (run_state (RM_checkandEnableEC_l demo_env (demo_attrs 0 1) (Some 2) (Some 5) True) ec_demo)"

lemma ec_demo_reach: "ec_reach demo_env ec_demo_on"
  unfolding ec_demo_on_def
proof (rule ec_call)
  show "ec_reach demo_env ec_demo" by (rule ec_start) (simp_all add: ec_demo_def demo_world_def)
  have "sndId ec_demo = (\<lambda>d. d)" by (simp add: fun_eq_iff sndId_def ec_demo_def demo_world_def new_Device_def demo_attr_def)
  then show "ec_setup ec_demo"
    by (auto simp: ec_setup_def ec_demo_def demo_stream_def demo_attrs_def RM_getActiveStreamByType_l_def)
  show "ec_op_ok ec_demo 2 5" by (simp add: ec_op_ok_def ec_demo_def demo_stream_def demo_attrs_def)
qed

lemmas ec_eval = RM_checkandEnableEC_l_def RM_checkandEnableECForRXStream_l_def Stream_getStreamAttributes_def
  RM_getConcurrentTxStream_l_def attr_or_def uses_rx_def RM_isDeviceActive_l_def RM_checkECRef_def sndId_def
  ec_for_tx_def RM_isStreamActive_def RM_getECEnableSetting_def Device_getDeviceAttributes_def Device_getSndDeviceId_def
  ec_setting_def RM_updateECDeviceMap_def ec_update_def ec_update_map_def setECRef_l_def getEcRefStatus_def
  demo_mic_def demo_defs

lemma ec_demo_told: "ec_told demo_env 4 2 (wlog ec_demo_on)" "wstr ec_demo_on = wstr ec_demo" "wdev ec_demo_on = wdev ec_demo"
  by (simp_all add: ec_demo_on_def ec_demo_def ec_eval Let_def)


section \<open>Restoring what was not dropped\<close>

text \<open>The same worlds computed step by step.\<close>

definition mic_counts :: "int \<Rightarrow> world \<Rightarrow> bool" where
  "mic_counts n w \<longleftrightarrow> (\<exists>l. w = ec_demo\<lparr>wrm := (wrm ec_demo)\<lparr>deviceInfo := [demo_mic\<lparr>dv_ec_ref_count_map := [(2, [(4, n)])]\<rparr>]\<rparr>,
     wlog := l\<rparr> \<and> ec_told demo_env 4 2 l)"

lemma mic_world: "mic_counts n w \<Longrightarrow> wdev w = wdev ec_demo \<and>
    deviceInfo (wrm w) = [demo_mic\<lparr>dv_ec_ref_count_map := [(2, [(4, n)])]\<rparr>]"
  by (auto simp: mic_counts_def)

lemma mic_on: "mic_counts 1 ec_demo_on"
  by (simp add: mic_counts_def ec_demo_on_def ec_demo_def ec_eval Let_def)

definition ec_demo_restored :: world where
  "ec_demo_restored = snd (run_state (RM_restoreInternalECRefs demo_env (demo_attrs 0 1)) ec_demo_on)"

lemmas restore_eval = RM_restoreInternalECRefs_def RM_checkandEnableECForTXStream_l_def
  RM_getActiveEchoReferenceRxDevices_l_def stream_runs_def

lemma two_streams:
  "activeStreamMap (wrm w) = (\<lambda>t. if t = 2 then Some [4, 5] else None) \<Longrightarrow>
   RM_getActiveStream_l w d = filter (\<lambda>s. d \<in> set (mDevices (wstr w s)) \<and> currentState (wstr w s) \<noteq> STREAM_IDLE) [4, 5]"
  by (simp add: RM_getActiveStream_l_def RM_getActiveStreamByType_l_def upt_rec)

lemma mic_restored: "mic_counts 1 w \<Longrightarrow> mic_counts 2 (snd (run_state (RM_restoreInternalECRefs demo_env (demo_attrs 0 1)) w))"
  by (auto simp: mic_counts_def ec_demo_def restore_eval ec_eval two_streams Let_def)

lemma mic_off: "mic_counts 2 w \<Longrightarrow>
   mic_counts 1 (snd (run_state (RM_checkandEnableEC_l demo_env (demo_attrs 0 1) (Some 2) (Some 5) False) w))"
  by (auto simp: mic_counts_def ec_demo_def ec_eval Let_def)


end
