(* ===== verification/Md_Parser.thy ===== *)
theory Md_Parser
  imports Pal_Defs "HOL-Library.Monad_Syntax"
begin

unbundle bit_operations_syntax

text \<open>
  The metadata that accompanies the buffers of a stream (\<^verbatim>\<open>utils/src/MetadataParser.cpp\<close>): a sequence
  of items, each a header and a payload.  The layout of the structures and the ids of the items
  belong to headers of the DSP outside the repository; they are the parameter \<open>md_layout\<close>.
\<close>

section \<open>Layouts and bytes\<close>

text \<open>Sizes of the structures and offsets of their 32 bit fields.\<close>

record md_layout =
  hdr_size :: nat
  hdr_id :: nat
  hdr_flags :: nat
  hdr_offset :: nat
  hdr_payload :: nat
  start_size :: nat
  start_lsw :: nat
  start_msw :: nat
  end_size :: nat
  end_lsw :: nat
  end_msw :: nat
  end_flags :: nat
  fmt_size :: nat
  fmt_fmt_id :: nat
  pcm_size :: nat
  pcm_rate :: nat
  pcm_channels :: "byte list \<Rightarrow> nat"
  id_start :: "32 word"
  id_end :: "32 word"
  id_media :: "32 word"
  id_pcm :: "32 word"
  buffer_associated :: "32 word"

text \<open>Little endian words.\<close>

definition le32 :: "32 word \<Rightarrow> byte list" where
  "le32 x = map (\<lambda>i. ucast (drop_bit (8 * i) x)) [0..<4]"

definition of_le32 :: "byte list \<Rightarrow> 32 word" where
  "of_le32 bs = ucast (bs ! 0) OR push_bit 8 (ucast (bs ! 1)) OR push_bit 16 (ucast (bs ! 2)) OR push_bit 24 (ucast (bs ! 3))"

text \<open>A read beyond the buffer has no value.\<close>

definition rd32 :: "byte list \<Rightarrow> nat \<Rightarrow> 32 word option" where
  "rd32 bs i = (if i + 4 \<le> length bs then Some (of_le32 (take 4 (drop i bs))) else None)"

definition START_METADATA_SIZE :: "md_layout \<Rightarrow> nat" where
  "START_METADATA_SIZE L = hdr_size L + start_size L"

definition END_METADATA_SIZE :: "md_layout \<Rightarrow> nat" where
  "END_METADATA_SIZE L = hdr_size L + end_size L"

definition WRITE_METADATA_MAX_SIZE :: "md_layout \<Rightarrow> nat" where
  "WRITE_METADATA_MAX_SIZE L = START_METADATA_SIZE L + END_METADATA_SIZE L"

definition MEDIA_FORMAT_METADATA_SIZE :: "md_layout \<Rightarrow> nat" where
  "MEDIA_FORMAT_METADATA_SIZE L = hdr_size L + fmt_size L + pcm_size L + 16"

definition READ_METADATA_MAX_SIZE :: "md_layout \<Rightarrow> nat" where
  "READ_METADATA_MAX_SIZE L = START_METADATA_SIZE L + END_METADATA_SIZE L + MEDIA_FORMAT_METADATA_SIZE L"

section \<open>Reading\<close>

record pal_clbk_buffer_info =
  frame_index :: "64 word"
  md_sample_rate :: "32 word"
  md_bit_width :: "32 word"
  channel_count :: "16 word"

definition index_of :: "32 word \<Rightarrow> 32 word \<Rightarrow> 64 word" where
  "index_of lsw msw = push_bit 32 (ucast msw) OR ucast lsw"

definition ALIGN4 :: "nat \<Rightarrow> nat" where
  "ALIGN4 n = (n + 3) div 4 * 4"

text \<open>One item at offset \<open>n\<close>: a read beyond the buffer (\<open>None\<close>), an error, or the next offset and
  what has been learned.\<close>

definition md_item :: "md_layout \<Rightarrow> byte list \<Rightarrow> nat \<Rightarrow> pal_clbk_buffer_info \<Rightarrow> (int + nat \<times> pal_clbk_buffer_info) option" where
  "md_item L bs n info = do {
     i \<leftarrow> rd32 bs (n + hdr_id L);
     p \<leftarrow> rd32 bs (n + hdr_payload L);
     let n = n + hdr_size L;
     let too_large = (n + unat p > length bs);
     if i = id_start L then
       (if too_large then Some (Inl (- EINVAL))
        else do {
          msw \<leftarrow> rd32 bs (n + start_msw L);
          lsw \<leftarrow> rd32 bs (n + start_lsw L);
          Some (Inr (n + start_size L, info\<lparr>frame_index := index_of lsw msw\<rparr>))
        })
     else if i = id_end L then
       (if too_large then Some (Inl (- EINVAL))
        else do {
          msw \<leftarrow> rd32 bs (n + end_msw L);
          lsw \<leftarrow> rd32 bs (n + end_lsw L);
          fl \<leftarrow> rd32 bs (n + end_flags L);
          Some (Inr (n + end_size L, info\<lparr>frame_index := index_of lsw msw\<rparr>))
        })
     else if i = id_media L then
       (if too_large then Some (Inl (- EINVAL))
        else do {
          f \<leftarrow> rd32 bs (n + fmt_fmt_id L);
          let n = n + fmt_size L;
          if f \<noteq> id_pcm L then Some (Inl (- EINVAL))
          else do {
            rate \<leftarrow> rd32 bs (n + pcm_rate L);
            c \<leftarrow> (if n + pcm_size L \<le> length bs then Some (pcm_channels L (take (pcm_size L) (drop n bs))) else None);
            Some (Inr (n + ALIGN4 (pcm_size L + c), info\<lparr>md_sample_rate := rate, channel_count := of_nat c\<rparr>))
          }
        })
     else Some (Inr (n + unat p, info))
   }"

text \<open>A result is a status with what has been learned, or a read beyond the buffer.  The loop itself
  need not end: \<open>None\<close>.\<close>

datatype md_result = OutOfBuffer | Parsed int pal_clbk_buffer_info

partial_function (option) md_loop ::
    "md_layout \<Rightarrow> byte list \<Rightarrow> nat \<Rightarrow> pal_clbk_buffer_info \<Rightarrow> md_result option" where
  "md_loop L bs n info =
     (if n < length bs then
        case md_item L bs n info of
          None \<Rightarrow> Some OutOfBuffer
        | Some (Inl e) \<Rightarrow> Some (Parsed e info)
        | Some (Inr (n, info)) \<Rightarrow> md_loop L bs n info
      else Some (Parsed 0 info))"

definition parseMetadata :: "md_layout \<Rightarrow> byte list option \<Rightarrow> pal_clbk_buffer_info \<Rightarrow> md_result option" where
  "parseMetadata L metadata info =
     (case metadata of
        None \<Rightarrow> Some (Parsed (- EINVAL) info)
      | Some bs \<Rightarrow>
          if length bs < min (START_METADATA_SIZE L) (END_METADATA_SIZE L) then Some (Parsed (- EINVAL) info)
          else md_loop L bs 0 info)"

section \<open>Writing\<close>

definition BYTES_PER_SAMPLE :: "32 word \<Rightarrow> 32 word" where
  "BYTES_PER_SAMPLE x = x div 8"

definition GET_LSW :: "64 word \<Rightarrow> 32 word" where
  "GET_LSW num = ucast (num AND 0xFFFFFFFF)"

text \<open>The complement of \<^verbatim>\<open>UINT32_MAX\<close>, an unsigned number of 32 bit, is taken at that width and then
  extended.\<close>

definition GET_MSW :: "64 word \<Rightarrow> 32 word" where
  "GET_MSW num = ucast (drop_bit 32 (num AND ucast (NOT (0xFFFFFFFF :: 32 word))))"

definition md_is_pcm :: "nat \<Rightarrow> bool" where
  "md_is_pcm fmt \<longleftrightarrow> fmt = PAL_AUDIO_FMT_PCM_S8 \<or> fmt = PAL_AUDIO_FMT_PCM_S16_LE \<or> fmt = PAL_AUDIO_FMT_PCM_S24_LE \<or>
     fmt = PAL_AUDIO_FMT_PCM_S24_3LE \<or> fmt = PAL_AUDIO_FMT_PCM_S32_LE"

text \<open>A division by zero has no value.\<close>

definition end_offset :: "nat \<Rightarrow> pal_media_config \<Rightarrow> 32 word option" where
  "end_offset bufSize cfg =
     (let sampleSizePerCh = BYTES_PER_SAMPLE (of_nat (bit_width cfg)) * of_nat (channels cfg)
      in if md_is_pcm (aud_fmt_id cfg)
         then (if sampleSizePerCh = 0 then None else Some (of_nat bufSize div sampleSizePerCh))
         else Some (of_nat bufSize))"

definition put_header :: "md_layout \<Rightarrow> nat \<Rightarrow> 32 word \<Rightarrow> 32 word \<Rightarrow> nat \<Rightarrow> byte list \<Rightarrow> byte list" where
  "put_header L n i off payload md =
     (let md = poke md (n + hdr_id L) (le32 i);
          md = poke md (n + hdr_flags L) (le32 (push_bit 4 (buffer_associated L)));
          md = poke md (n + hdr_offset L) (le32 off)
      in poke md (n + hdr_payload L) (le32 (of_nat payload)))"

definition start_payload :: "md_layout \<Rightarrow> 64 word \<Rightarrow> byte list" where
  "start_payload L x = poke (poke (replicate (start_size L) 0) (start_lsw L) (le32 (GET_LSW x))) (start_msw L) (le32 (GET_MSW x))"

definition end_payload :: "md_layout \<Rightarrow> 64 word \<Rightarrow> byte list" where
  "end_payload L x = poke (poke (poke (replicate (end_size L) 0) (end_lsw L) (le32 (GET_LSW x))) (end_msw L) (le32 (GET_MSW x)))
     (end_flags L) (le32 0)"

text \<open>A write beyond the buffer has no value either.\<close>

definition fillMetaData :: "md_layout \<Rightarrow> byte list \<Rightarrow> 64 word \<Rightarrow> nat \<Rightarrow> pal_media_config \<Rightarrow> byte list option" where
  "fillMetaData L metadata frameIndex filledLength cfg =
     (if length metadata < WRITE_METADATA_MAX_SIZE L then None
      else do {
        let md = put_header L 0 (id_start L) 0 (start_size L) metadata;
        let n = hdr_size L;
        let md = poke md n (start_payload L frameIndex);
        let n = n + start_size L;
        off \<leftarrow> end_offset filledLength cfg;
        let md = put_header L n (id_end L) off (end_size L) md;
        Some (poke md (n + hdr_size L) (end_payload L frameIndex))
      })"

section \<open>Words in memory\<close>

lemma length_le32 [simp]: "length (le32 x) = 4"
  by (simp add: le32_def)

lemma of_le32: "of_le32 (le32 x) = x"
proof (rule bit_word_eqI)
  fix n :: nat assume "n < LENGTH(32)"
  then have "n < 8 \<or> 8 \<le> n \<and> n < 16 \<or> 16 \<le> n \<and> n < 24 \<or> 24 \<le> n \<and> n < 32" by auto
  then show "bit (of_le32 (le32 x)) n = bit x n"
    by (auto simp: of_le32_def le32_def bit_simps upt_rec)
qed

lemma read_same: "i + 4 \<le> length bs \<Longrightarrow> rd32 (poke bs i (le32 x)) i = Some x"
  by (simp add: rd32_def poke_def of_le32)

lemma read_other:
  assumes "i + length ds \<le> length bs" "j + 4 \<le> i \<or> i + length ds \<le> j"
  shows "rd32 (poke bs i ds) j = rd32 bs j"
proof -
  have "take 4 (drop j (poke bs i ds)) = take 4 (drop j bs)" if "j + 4 \<le> length bs"
    by (rule nth_equalityI) (use assms that in \<open>auto simp: poke_nth\<close>)
  then show ?thesis using assms(1) by (simp add: rd32_def)
qed

lemma read_part: "j + 4 \<le> length ys \<Longrightarrow> rd32 (xs @ ys @ zs) (length xs + j) = rd32 ys j"
  by (simp add: rd32_def)

text \<open>Fields of a structure that do not overlap.\<close>

definition fields :: "nat \<Rightarrow> nat list \<Rightarrow> bool" where
  "fields n os \<longleftrightarrow> (\<forall>i\<in>set os. i + 4 \<le> n) \<and> sorted_wrt (\<lambda>i j. i + 4 \<le> j \<or> j + 4 \<le> i) os"

definition layout_ok :: "md_layout \<Rightarrow> bool" where
  "layout_ok L \<longleftrightarrow> fields (hdr_size L) [hdr_id L, hdr_flags L, hdr_offset L, hdr_payload L] \<and>
     fields (start_size L) [start_lsw L, start_msw L] \<and> fields (end_size L) [end_lsw L, end_msw L, end_flags L] \<and>
     start_size L < 2 ^ 32 \<and> end_size L < 2 ^ 32 \<and> distinct [id_start L, id_end L, id_media L]"

section \<open>Items\<close>

datatype md_entry = StartItem "32 word" "32 word" | EndItem "32 word" "32 word" | OtherItem

text \<open>\<open>bs\<close> holds one item.\<close>

definition item_bytes :: "md_layout \<Rightarrow> md_entry \<Rightarrow> byte list \<Rightarrow> bool" where
  "item_bytes L e bs \<longleftrightarrow> hdr_id L + 4 \<le> hdr_size L \<and> hdr_payload L + 4 \<le> hdr_size L \<and>
     (\<exists>i p. rd32 bs (hdr_id L) = Some i \<and> rd32 bs (hdr_payload L) = Some p \<and> length bs = hdr_size L + unat p \<and>
       (case e of
          StartItem lsw msw \<Rightarrow> i = id_start L \<and> unat p = start_size L \<and>
            rd32 bs (hdr_size L + start_lsw L) = Some lsw \<and> rd32 bs (hdr_size L + start_msw L) = Some msw
        | EndItem lsw msw \<Rightarrow> i = id_end L \<and> i \<noteq> id_start L \<and> unat p = end_size L \<and>
            rd32 bs (hdr_size L + end_lsw L) = Some lsw \<and> rd32 bs (hdr_size L + end_msw L) = Some msw \<and>
            rd32 bs (hdr_size L + end_flags L) \<noteq> None
        | OtherItem \<Rightarrow> i \<notin> {id_start L, id_end L, id_media L}))"

fun learn :: "md_entry \<Rightarrow> pal_clbk_buffer_info \<Rightarrow> pal_clbk_buffer_info" where
  "learn (StartItem lsw msw) info = info\<lparr>frame_index := index_of lsw msw\<rparr>"
| "learn (EndItem lsw msw) info = info\<lparr>frame_index := index_of lsw msw\<rparr>"
| "learn OtherItem info = info"

lemma read_in: "rd32 ys j = Some v \<Longrightarrow> rd32 (xs @ ys @ zs) (length xs + j) = Some v"
  using read_part [of j ys xs zs] by (auto simp: rd32_def split: if_splits)

lemma item_read:
  assumes "item_bytes L e bs"
  shows "md_item L (xs @ bs @ zs) (length xs) info = Some (Inr (length xs + length bs, learn e info))"
proof -
  obtain i p where h: "rd32 bs (hdr_id L) = Some i" "rd32 bs (hdr_payload L) = Some p" "length bs = hdr_size L + unat p"
    using assms by (auto simp: item_bytes_def)
  note r = read_in [of bs _ _ xs zs]
  show ?thesis
    using assms h r by (auto simp: item_bytes_def md_item_def Let_def add.assoc split: md_entry.splits)
qed

lemma loop_read:
  assumes "list_all2 (item_bytes L) es bss"
  shows "md_loop L (xs @ concat bss) (length xs) info = Some (Parsed 0 (fold learn es info))"
  using assms
proof (induction es bss arbitrary: xs info rule: list_all2_induct)
  case Nil
  then show ?case by (simp add: md_loop.simps)
next
  case (Cons e es bs bss)
  have "bs \<noteq> []" using Cons.hyps(1) by (auto simp: item_bytes_def)
  moreover have "md_item L (xs @ bs @ concat bss) (length xs) info = Some (Inr (length xs + length bs, learn e info))"
    by (rule item_read [OF Cons.hyps(1)])
  moreover have "md_loop L (xs @ bs @ concat bss) (length xs + length bs) (learn e info) = Some (Parsed 0 (fold learn es (learn e info)))"
    using Cons.IH [of "xs @ bs" "learn e info"] by simp
  ultimately show ?case by (subst md_loop.simps) simp
qed

text \<open>Every item takes at least the size of its header.\<close>

lemma item_progress: "md_item L bs n info = Some (Inr (n', info')) \<Longrightarrow> n' \<ge> n + hdr_size L"
  by (auto simp: md_item_def Let_def ALIGN4_def split: if_splits bind_splits)

text \<open>
  Whatever bytes it is given, reading the metadata of a buffer ends: it yields a status, or stops
  at an access outside the buffer. (A header has a positive size.)
\<close>

theorem metadata_reading_ends:
  assumes "hdr_size L > 0"
  shows "parseMetadata L metadata info \<noteq> None"
proof -
  have "md_loop L bs n info \<noteq> None" for bs n info
  proof (induction "length bs - n" arbitrary: n info rule: less_induct)
    case less
    show ?case
    proof (cases "n < length bs")
      case True
      then show ?thesis
        using less assms item_progress [of L bs n info]
        by (subst md_loop.simps) (auto split: option.split sum.split prod.split)
    qed (simp add: md_loop.simps)
  qed
  then show ?thesis by (simp add: parseMetadata_def split: option.split)
qed

section \<open>What is written is read back\<close>

lemma poke_append:
  "poke (xs @ ys) (length xs + i) ds = xs @ poke ys i ds"
  "i + length ds \<le> length ys \<Longrightarrow> poke (ys @ zs) i ds = poke ys i ds @ zs"
  by (simp_all add: poke_def)

lemma header_append:
  "fields (hdr_size L) [hdr_id L, hdr_flags L, hdr_offset L, hdr_payload L] \<Longrightarrow> length ys = hdr_size L \<Longrightarrow>
   put_header L (length xs) i off p (xs @ ys @ zs) = xs @ put_header L 0 i off p ys @ zs"
  by (simp add: put_header_def Let_def poke_append fields_def)

lemma header_length [simp]:
  "fields (hdr_size L) [hdr_id L, hdr_flags L, hdr_offset L, hdr_payload L] \<Longrightarrow> length ys = hdr_size L \<Longrightarrow>
   length (put_header L 0 i off p ys) = hdr_size L"
  by (simp add: put_header_def Let_def fields_def)

lemma header_read:
  assumes "fields (hdr_size L) [hdr_id L, hdr_flags L, hdr_offset L, hdr_payload L]" "length ys = hdr_size L"
  shows "rd32 (put_header L 0 i off p ys) (hdr_id L) = Some i" "rd32 (put_header L 0 i off p ys) (hdr_payload L) = Some (of_nat p)"
  using assms by (auto simp: put_header_def Let_def fields_def read_same read_other)

lemma start_read:
  assumes "fields (start_size L) [start_lsw L, start_msw L]"
  shows "length (start_payload L x) = start_size L" "rd32 (start_payload L x) (start_lsw L) = Some (GET_LSW x)"
    "rd32 (start_payload L x) (start_msw L) = Some (GET_MSW x)"
  using assms by (auto simp: start_payload_def fields_def read_same read_other)

lemma end_read:
  assumes "fields (end_size L) [end_lsw L, end_msw L, end_flags L]"
  shows "length (end_payload L x) = end_size L" "rd32 (end_payload L x) (end_lsw L) = Some (GET_LSW x)"
    "rd32 (end_payload L x) (end_msw L) = Some (GET_MSW x)" "rd32 (end_payload L x) (end_flags L) = Some 0"
  using assms by (auto simp: end_payload_def fields_def read_same read_other)

text \<open>The filled buffer is two items, and what was behind them.\<close>

lemma poke_part: "length ds = length ys \<Longrightarrow> n = length xs \<Longrightarrow> poke (xs @ ys @ zs) n ds = xs @ ds @ zs"
  by (simp add: poke_def)

lemma item_parts:
  assumes "fields (hdr_size L) [hdr_id L, hdr_flags L, hdr_offset L, hdr_payload L]" "length h = hdr_size L" "length ds = n"
    "n < 2 ^ 32" "rd32 h (hdr_id L) = Some i" "rd32 h (hdr_payload L) = Some (of_nat n)"
  shows "hdr_id L + 4 \<le> hdr_size L" "hdr_payload L + 4 \<le> hdr_size L" "rd32 (h @ ds) (hdr_id L) = Some i"
    "rd32 (h @ ds) (hdr_payload L) = Some (of_nat n)" "unat (of_nat n :: 32 word) = n"
    "rd32 ds j = Some v \<Longrightarrow> rd32 (h @ ds) (hdr_size L + j) = Some v"
  using assms read_in [of h "hdr_id L" i "[]" ds] read_in [of h "hdr_payload L" "of_nat n" "[]" ds] read_in [of ds j v h "[]"]
  by (auto simp: fields_def unat_of_nat)

lemma take_piece: "take b (drop a md) @ drop (a + b) md = drop a md"
  by (metis add.commute append_take_drop_id drop_drop)

lemma split_pieces:
  assumes "a + b + c + d \<le> length md"
  obtains h p q r where "md = h @ p @ q @ r @ drop (a + b + c + d) md" "length h = a" "length p = b" "length q = c" "length r = d"
proof
  show "md = take a md @ take b (drop a md) @ take c (drop (a + b) md) @ take d (drop (a + b + c) md) @ drop (a + b + c + d) md"
    by (simp add: take_piece)
qed (use assms in simp_all)

lemma fill_items:
  assumes L: "layout_ok L" and f: "fillMetaData L md x len cfg = Some md'"
  shows "\<exists>a b. md' = a @ b @ drop (WRITE_METADATA_MAX_SIZE L) md \<and>
    item_bytes L (StartItem (GET_LSW x) (GET_MSW x)) a \<and> item_bytes L (EndItem (GET_LSW x) (GET_MSW x)) b"
proof -
  have hdr: "fields (hdr_size L) [hdr_id L, hdr_flags L, hdr_offset L, hdr_payload L]"
    and st: "fields (start_size L) [start_lsw L, start_msw L]" and en: "fields (end_size L) [end_lsw L, end_msw L, end_flags L]"
    and small: "start_size L < 2 ^ 32" "end_size L < 2 ^ 32" and ids: "id_start L \<noteq> id_end L"
    using L by (simp_all add: layout_ok_def)
  have sz: "hdr_size L + start_size L + hdr_size L + end_size L = WRITE_METADATA_MAX_SIZE L"
    by (simp add: WRITE_METADATA_MAX_SIZE_def START_METADATA_SIZE_def END_METADATA_SIZE_def)
  have "hdr_size L + start_size L + hdr_size L + end_size L \<le> length md"
    using f by (auto simp: fillMetaData_def sz split: if_splits)
  then obtain h1 p1 h2 p2 where md: "md = h1 @ p1 @ h2 @ p2 @ drop (WRITE_METADATA_MAX_SIZE L) md"
    and lens: "length h1 = hdr_size L" "length p1 = start_size L" "length h2 = hdr_size L" "length p2 = end_size L"
    unfolding sz by (rule split_pieces [of "hdr_size L" "start_size L" "hdr_size L" "end_size L" md, unfolded sz])
  let ?rest = "drop (WRITE_METADATA_MAX_SIZE L) md"
  obtain off where off: "end_offset len cfg = Some off" using f by (auto simp: fillMetaData_def Let_def split: if_splits bind_splits)
  define H1 where "H1 = put_header L 0 (id_start L) 0 (start_size L) h1"
  define H2 where "H2 = put_header L 0 (id_end L) off (end_size L) h2"
  define S where "S = start_payload L x"
  define D where "D = end_payload L x"
  have HL: "length H1 = hdr_size L" "length H2 = hdr_size L" "length S = start_size L" "length D = end_size L"
    by (simp_all add: H1_def H2_def S_def D_def hdr lens start_read [OF st] end_read [OF en])
  have hr1: "rd32 H1 (hdr_id L) = Some (id_start L)" "rd32 H1 (hdr_payload L) = Some (of_nat (start_size L))"
    and hr2: "rd32 H2 (hdr_id L) = Some (id_end L)" "rd32 H2 (hdr_payload L) = Some (of_nat (end_size L))"
    by (simp_all add: H1_def H2_def header_read [OF hdr lens(1)] header_read [OF hdr lens(3)])
  have e1: "put_header L 0 (id_start L) 0 (start_size L) md = H1 @ p1 @ h2 @ p2 @ ?rest"
    using header_append [OF hdr lens(1), of "[]"] by (subst md) (simp add: H1_def)
  have e2: "poke (H1 @ p1 @ h2 @ p2 @ ?rest) (hdr_size L) S = H1 @ S @ h2 @ p2 @ ?rest"
    by (rule poke_part) (simp_all add: HL lens)
  have e3: "put_header L (hdr_size L + start_size L) (id_end L) off (end_size L) (H1 @ S @ h2 @ p2 @ ?rest) = H1 @ S @ H2 @ p2 @ ?rest"
    using header_append [OF hdr lens(3), of "H1 @ S"] by (simp add: HL H2_def)
  have e4: "poke (H1 @ S @ H2 @ p2 @ ?rest) (hdr_size L + start_size L + hdr_size L) D = H1 @ S @ H2 @ D @ ?rest"
    using poke_part [of D p2 _ "H1 @ S @ H2"] by (simp add: HL lens add.assoc)
  have "md' = H1 @ S @ H2 @ D @ ?rest"
    using f off by (simp add: fillMetaData_def Let_def e1 e2 e3 e4 S_def [symmetric] D_def [symmetric] split: if_splits)
  moreover have "item_bytes L (StartItem (GET_LSW x) (GET_MSW x)) (H1 @ S)"
    using item_parts [OF hdr HL(1,3) small(1) hr1] start_read [OF st, of x] HL
    by (simp add: item_bytes_def S_def)
  moreover have "item_bytes L (EndItem (GET_LSW x) (GET_MSW x)) (H2 @ D)"
    using item_parts [OF hdr HL(2,4) small(2) hr2] end_read [OF en, of x] HL ids
    by (simp add: item_bytes_def D_def)
  ultimately show ?thesis by (metis append.assoc)
qed

lemma GET_words: "GET_LSW x = ucast x" "GET_MSW x = 0"
proof -
  have m: "0xFFFFFFFF = (mask 32 :: 64 word)" by (simp add: mask_eq_exp_minus_1)
  show "GET_LSW x = ucast x" unfolding GET_LSW_def m by (rule bit_word_eqI) (auto simp: bit_simps)
  have "NOT (0xFFFFFFFF :: 32 word) = 0" by simp
  then show "GET_MSW x = 0" unfolding GET_MSW_def by (metis and_zero_eq drop_bit_0 unsigned_0 drop_bit_of_0)
qed

section \<open>An example layout\<close>

definition demo_layout :: md_layout where
  "demo_layout = \<lparr>hdr_size = 16, hdr_id = 0, hdr_flags = 4, hdr_offset = 8, hdr_payload = 12,
     start_size = 8, start_lsw = 0, start_msw = 4, end_size = 12, end_lsw = 0, end_msw = 4, end_flags = 8,
     fmt_size = 12, fmt_fmt_id = 4, pcm_size = 16, pcm_rate = 4, pcm_channels = (\<lambda>bs. unat (bs ! 12)),
     id_start = 1, id_end = 2, id_media = 3, id_pcm = 7, buffer_associated = 1\<rparr>"

definition demo_entry :: "byte list" where
  "demo_entry = [9, 0, 0, 0, 0, 0, 0, 0, 0, 0, 0, 0, 8, 0, 0, 0, 1, 2, 3, 4, 5, 6, 7, 8]"

definition demo_pcm :: pal_media_config where
  "demo_pcm = \<lparr>sample_rate = 48000, bit_width = 16, aud_fmt_id = PAL_AUDIO_FMT_PCM_S16_LE, channels = 2, ch_map = []\<rparr>"

definition demo_buffer_info :: pal_clbk_buffer_info where
  "demo_buffer_info = \<lparr>frame_index = 0, md_sample_rate = 0, md_bit_width = 0, channel_count = 0\<rparr>"

lemma demo_layout_ok: "layout_ok demo_layout"
  by (simp add: layout_ok_def fields_def demo_layout_def)

lemma demo_entry_ok: "item_bytes demo_layout OtherItem demo_entry"
proof -
  have "rd32 demo_entry 0 = Some 9" "rd32 demo_entry 12 = Some 8" by (simp_all add: rd32_def of_le32_def demo_entry_def)
  then show ?thesis by (simp add: item_bytes_def demo_layout_def demo_entry_def)
qed

section \<open>Properties\<close>

theorem metadata_reading_ends_witness: "parseMetadata demo_layout (Some (replicate 90 3)) demo_buffer_info \<noteq> None"
  by (rule metadata_reading_ends) (simp add: demo_layout_def)



text \<open>
  C30: The metadata written for a buffer is read back without an error, but of the frame index only
  the lower 32 bits come back: the upper half is always written as zero.
\<close>

theorem metadata_roundtrip:
  assumes "layout_ok L" and "length md = WRITE_METADATA_MAX_SIZE L" and "fillMetaData L md x len cfg = Some md'"
  shows "parseMetadata L (Some md') info = Some (Parsed 0 (info\<lparr>frame_index := ucast (ucast x :: 32 word)\<rparr>))"
proof -
  obtain a b where ab: "md' = a @ b" "item_bytes L (StartItem (GET_LSW x) (GET_MSW x)) a" "item_bytes L (EndItem (GET_LSW x) (GET_MSW x)) b"
    using fill_items [OF assms(1,3)] assms(2) by auto
  have items: "list_all2 (item_bytes L) [StartItem (GET_LSW x) (GET_MSW x), EndItem (GET_LSW x) (GET_MSW x)] [a, b]"
    using ab by simp
  have "length a = START_METADATA_SIZE L" using ab(2) by (auto simp: item_bytes_def START_METADATA_SIZE_def)
  then have "\<not> length md' < min (START_METADATA_SIZE L) (END_METADATA_SIZE L)" by (simp add: ab(1))
  then have "parseMetadata L (Some md') info = md_loop L md' 0 info" by (simp only: parseMetadata_def option.case if_False)
  also have "\<dots> = Some (Parsed 0 (info\<lparr>frame_index := ucast (ucast x :: 32 word)\<rparr>))"
    using loop_read [OF items, of "[]" info] by (simp add: ab(1) GET_words index_of_def)
  finally show ?thesis .
qed

theorem metadata_roundtrip_witness:
  "\<exists>md. fillMetaData demo_layout (replicate 52 0) 0x500000003 64 demo_pcm = Some md \<and>
    parseMetadata demo_layout (Some md) demo_buffer_info = Some (Parsed 0 (demo_buffer_info\<lparr>frame_index := 3\<rparr>))"
proof -
  have "fillMetaData demo_layout (replicate 52 0) 0x500000003 64 demo_pcm \<noteq> None"
    by (simp add: fillMetaData_def end_offset_def BYTES_PER_SAMPLE_def md_is_pcm_def demo_pcm_def WRITE_METADATA_MAX_SIZE_def
      START_METADATA_SIZE_def END_METADATA_SIZE_def demo_layout_def Let_def)
  then obtain md where md: "fillMetaData demo_layout (replicate 52 0) 0x500000003 64 demo_pcm = Some md" by auto
  have "length (replicate 52 (0 :: byte)) = WRITE_METADATA_MAX_SIZE demo_layout"
    by (simp add: WRITE_METADATA_MAX_SIZE_def START_METADATA_SIZE_def END_METADATA_SIZE_def demo_layout_def)
  from metadata_roundtrip [OF demo_layout_ok this md] show ?thesis using md by simp
qed

text \<open>
  C38: If the metadata ends inside the header of an item, the header is read beyond its end: only the
  payload is checked against the size that is left.
\<close>

theorem truncated_header_read:
  assumes "item_bytes L e bs" and "min (START_METADATA_SIZE L) (END_METADATA_SIZE L) \<le> length (bs @ zs)"
    and "zs \<noteq> []" and "length zs < hdr_payload L + 4"
  shows "parseMetadata L (Some (bs @ zs)) info = Some OutOfBuffer"
proof -
  have r: "rd32 (bs @ zs) (length bs + hdr_payload L) = None" using assms(4) by (simp add: rd32_def)
  have "md_item L (bs @ zs) (length bs) j = None" for j
    by (cases "rd32 (bs @ zs) (length bs + hdr_id L)") (simp_all add: md_item_def r)
  then have "md_loop L (bs @ zs) (length bs) j = Some OutOfBuffer" for j using assms(3) by (subst md_loop.simps) simp
  moreover have "md_item L (bs @ zs) 0 info = Some (Inr (length bs, learn e info))" using item_read [OF assms(1), of "[]"] by simp
  ultimately have "md_loop L (bs @ zs) 0 info = Some OutOfBuffer" using assms(3) by (subst md_loop.simps) simp
  then show ?thesis using assms(2) by (auto simp: parseMetadata_def)
qed

theorem truncated_header_read_witness:
  "parseMetadata demo_layout (Some (demo_entry @ [1, 0])) demo_buffer_info = Some OutOfBuffer"
  by (rule truncated_header_read [OF demo_entry_ok]) (simp_all add: START_METADATA_SIZE_def demo_layout_def demo_entry_def)

end
