(* ===== verification/Plugin_Manager.thy ===== *)
theory Plugin_Manager
  imports Pal_Prelude
begin

text \<open>
  The plugin manager (\<^verbatim>\<open>plugins/PluginManager/src/PluginManager.cpp\<close>): streams, sessions, devices,
  controls and configurations are libraries that are loaded when their first user comes and unloaded
  when the last one goes.  The dynamic linker is the parameter \<open>linker\<close>.
\<close>

section \<open>State\<close>

text \<open>A pointer of a registered item: the memory of an item is not initialised when it is filled
  from the configuration file.\<close>

datatype 'a pointer = Garbage | Null | Ptr 'a

datatype pal_plugin_manager_t =
  PAL_PLUGIN_MANAGER_STREAM | PAL_PLUGIN_MANAGER_SESSION | PAL_PLUGIN_MANAGER_DEVICE
| PAL_PLUGIN_MANAGER_CONTROL | PAL_PLUGIN_MANAGER_CONFIG

text \<open>A handle of the linker is the name of the library: opening a library twice gives the same
  handle.\<close>

record pm_item_t =
  handle :: "string pointer"
  libName :: string
  keyNames :: "string list"
  entryFunction :: string
  plugin :: "nat pointer"
  refCount :: "32 word"

datatype dl_event = DlOpen string | DlFailed string | DlSym string string | DlClose "string pointer"

record PluginManager =
  registered :: "pal_plugin_manager_t \<Rightarrow> pm_item_t list"
  dl_log :: "dl_event list"

text \<open>What the linker answers, from everything asked before.\<close>

record linker =
  dl_opens :: "dl_event list \<Rightarrow> string \<Rightarrow> bool"
  dl_symbol :: "dl_event list \<Rightarrow> string \<Rightarrow> string \<Rightarrow> nat option"

section \<open>Registering\<close>

fun add_key :: "string \<Rightarrow> string \<Rightarrow> pm_item_t list \<Rightarrow> pm_item_t list option" where
  "add_key lib key [] = None"
| "add_key lib key (r # rs) =
     (if libName r = lib then Some (r\<lparr>keyNames := keyNames r @ [key]\<rparr> # rs) else map_option (Cons r) (add_key lib key rs))"

definition registeredPlugin :: "pm_item_t \<Rightarrow> pal_plugin_manager_t \<Rightarrow> PluginManager \<Rightarrow> PluginManager" where
  "registeredPlugin item t pm =
     pm\<lparr>registered := (registered pm)(t :=
       (case add_key (libName item) (hd (keyNames item)) (registered pm t) of
          Some l \<Rightarrow> l
        | None \<Rightarrow> registered pm t @ [item\<lparr>refCount := 0\<rparr>]))\<rparr>"

text \<open>The callback of the XML parser; an element without a name is an access to an empty vector,
  which has no value.  The element \<^verbatim>\<open>control\<close> has a type but is not accepted.\<close>

definition PmNameToType :: "string \<Rightarrow> pal_plugin_manager_t option" where
  "PmNameToType name =
     (if name = ''stream'' then Some PAL_PLUGIN_MANAGER_STREAM
      else if name = ''session'' then Some PAL_PLUGIN_MANAGER_SESSION
      else if name = ''device'' then Some PAL_PLUGIN_MANAGER_DEVICE
      else if name = ''config'' then Some PAL_PLUGIN_MANAGER_CONFIG
      else if name = ''control'' then Some PAL_PLUGIN_MANAGER_CONTROL
      else None)"

fun item_attrs :: "(string \<times> string) list \<Rightarrow> pm_item_t \<Rightarrow> pm_item_t" where
  "item_attrs [] item = item"
| "item_attrs ((a, v) # as) item =
     item_attrs as
       (if a = ''name'' then item\<lparr>keyNames := keyNames item @ [v]\<rparr>
        else if a = ''lib'' then item\<lparr>libName := v\<rparr>
        else if a = ''entryFunction'' then item\<lparr>entryFunction := v\<rparr>
        else item)"

definition new_item :: "32 word \<Rightarrow> pm_item_t" where
  "new_item junk = \<lparr>handle = Garbage, libName = [], keyNames = [], entryFunction = [], plugin = Garbage, refCount = junk\<rparr>"

definition startElement :: "32 word \<Rightarrow> string \<Rightarrow> (string \<times> string) list \<Rightarrow> PluginManager \<Rightarrow> PluginManager option" where
  "startElement junk name attrs pm =
     (if name = ''stream'' \<or> name = ''session'' \<or> name = ''device'' \<or> name = ''config'' then
        let item = item_attrs attrs (new_item junk)
        in if keyNames item = [] then None
           else if hd (keyNames item) \<noteq> [] \<and> libName item \<noteq> [] \<and> entryFunction item \<noteq> [] then
             (case PmNameToType name of Some t \<Rightarrow> Some (registeredPlugin item t pm) | None \<Rightarrow> None)
           else Some pm
      else Some pm)"

section \<open>Opening and closing\<close>

text \<open>The first item that has the key.\<close>

fun find_key :: "string \<Rightarrow> pm_item_t list \<Rightarrow> nat option" where
  "find_key key [] = None"
| "find_key key (r # rs) = (if key \<in> set (keyNames r) then Some 0 else map_option Suc (find_key key rs))"

text \<open>Loading a library that has no user: the item, whether to go on, and what was asked.\<close>

definition load_item :: "linker \<Rightarrow> dl_event list \<Rightarrow> pm_item_t \<Rightarrow> bool \<times> pm_item_t \<times> dl_event list" where
  "load_item K l item =
     (let lib = libName item
      in if dl_opens K l lib then
           let l' = DlSym lib (entryFunction item) # DlOpen lib # l
           in case dl_symbol K (DlOpen lib # l) lib (entryFunction item) of
                None \<Rightarrow> (False, item\<lparr>handle := Ptr lib, plugin := Null\<rparr>, DlClose (Ptr lib) # l')
              | Some f \<Rightarrow> (True, item\<lparr>handle := Ptr lib, plugin := Ptr f\<rparr>, l')
         else (True, item\<lparr>handle := Null\<rparr>, DlFailed lib # l))"

definition set_item :: "pal_plugin_manager_t \<Rightarrow> nat \<Rightarrow> pm_item_t \<Rightarrow> dl_event list \<Rightarrow> PluginManager \<Rightarrow> PluginManager" where
  "set_item t i item l pm = pm\<lparr>registered := (registered pm)(t := (registered pm t)[i := item]), dl_log := l\<rparr>"

text \<open>The result is the status and the pointer of the caller, \<open>p\<close> before the call.\<close>

definition openPlugin ::
    "linker \<Rightarrow> pal_plugin_manager_t \<Rightarrow> string \<Rightarrow> nat pointer \<Rightarrow> PluginManager \<Rightarrow> (int \<times> nat pointer) \<times> PluginManager" where
  "openPlugin K t key p pm =
     (case find_key key (registered pm t) of
        None \<Rightarrow> ((if p = Null then - EINVAL else 0, p), pm)
      | Some i \<Rightarrow>
          let item = registered pm t ! i;
              (go, item, l) = (if refCount item = 0 then load_item K (dl_log pm) item else (True, item, dl_log pm))
          in if \<not> go then ((- EINVAL, p), set_item t i item l pm)
             else ((if plugin item = Null then - EINVAL else 0, plugin item),
                   set_item t i (item\<lparr>refCount := refCount item + 1\<rparr>) l pm))"

definition close_item :: "pm_item_t \<Rightarrow> dl_event list \<Rightarrow> pm_item_t \<times> dl_event list" where
  "close_item item l =
     (if refCount item > 0 then
        let item = item\<lparr>refCount := refCount item - 1\<rparr>
        in if refCount item = 0
           then (item\<lparr>handle := (if handle item \<noteq> Null then Null else handle item), plugin := Null\<rparr>,
                 if handle item \<noteq> Null then DlClose (handle item) # l else l)
           else (item, l)
      else (item, l))"

definition closePlugin :: "pal_plugin_manager_t \<Rightarrow> string \<Rightarrow> PluginManager \<Rightarrow> int \<times> PluginManager" where
  "closePlugin t key pm =
     (case find_key key (registered pm t) of
        None \<Rightarrow> (- EINVAL, pm)
      | Some i \<Rightarrow> let (item, l) = close_item (registered pm t ! i) (dl_log pm) in (0, set_item t i item l pm))"

section \<open>The end of the program\<close>

fun deinitPluginItems :: "pm_item_t list \<Rightarrow> dl_event list \<Rightarrow> pm_item_t list \<times> dl_event list" where
  "deinitPluginItems [] l = ([], l)"
| "deinitPluginItems (r # rs) l =
     (let l = (if handle r \<noteq> Null then DlClose (handle r) # l else l);
          (rs, l) = deinitPluginItems rs l
      in (r\<lparr>handle := Null, plugin := Null, refCount := 0\<rparr> # rs, l))"

definition deinit_type :: "pal_plugin_manager_t \<Rightarrow> PluginManager \<Rightarrow> PluginManager" where
  "deinit_type t pm =
     (let (items, l) = deinitPluginItems (registered pm t) (dl_log pm)
      in pm\<lparr>registered := (registered pm)(t := items), dl_log := l\<rparr>)"

definition PluginManager_destroy :: "PluginManager \<Rightarrow> PluginManager" where
  "PluginManager_destroy pm =
     deinit_type PAL_PLUGIN_MANAGER_CONFIG (deinit_type PAL_PLUGIN_MANAGER_CONTROL (deinit_type PAL_PLUGIN_MANAGER_DEVICE
       (deinit_type PAL_PLUGIN_MANAGER_SESSION (deinit_type PAL_PLUGIN_MANAGER_STREAM pm))))"

section \<open>Loaded and used\<close>

text \<open>How often the linker has opened a library more than it has closed it.\<close>

fun balance :: "string \<Rightarrow> dl_event list \<Rightarrow> int" where
  "balance lib [] = 0"
| "balance lib (DlOpen x # l) = (if x = lib then 1 else 0) + balance lib l"
| "balance lib (DlClose h # l) = (if h = Ptr lib then - 1 else 0) + balance lib l"
| "balance lib (_ # l) = balance lib l"

text \<open>The items of one type that have users and hold the library.\<close>

definition holds :: "string \<Rightarrow> pm_item_t \<Rightarrow> int" where
  "holds lib r = (if refCount r \<noteq> 0 \<and> handle r = Ptr lib then 1 else 0)"

definition tsum :: "(pal_plugin_manager_t \<Rightarrow> int) \<Rightarrow> int" where
  "tsum f = f PAL_PLUGIN_MANAGER_STREAM + f PAL_PLUGIN_MANAGER_SESSION + f PAL_PLUGIN_MANAGER_DEVICE +
     f PAL_PLUGIN_MANAGER_CONTROL + f PAL_PLUGIN_MANAGER_CONFIG"

definition users :: "string \<Rightarrow> PluginManager \<Rightarrow> int" where
  "users lib pm = tsum (\<lambda>t. \<Sum>r\<leftarrow>registered pm t. holds lib r)"

definition pm_inv :: "nat \<Rightarrow> PluginManager \<Rightarrow> bool" where
  "pm_inv n pm \<longleftrightarrow>
     (\<forall>t. \<forall>r\<in>set (registered pm t). unat (refCount r) \<le> n \<and> (refCount r \<noteq> 0 \<longrightarrow> handle r \<noteq> Garbage)) \<and>
     (\<forall>lib. balance lib (dl_log pm) = users lib pm)"

lemma tsum_upd: "tsum (\<lambda>t. f ((g(u := x)) t)) = tsum (\<lambda>t. f (g t)) - f (g u) + f x"
  by (cases u) (simp_all add: tsum_def)

lemma sum_list_set: "i < length xs \<Longrightarrow> (\<Sum>r\<leftarrow>xs[i := x]. f r) = (\<Sum>r\<leftarrow>xs. f r) - f (xs ! i) + (f x :: int)"
  by (induction xs arbitrary: i) (auto split: nat.split)

lemma users_set:
  "i < length (registered pm t) \<Longrightarrow>
   users lib (set_item t i item l pm) = users lib pm - holds lib (registered pm t ! i) + holds lib item"
  using tsum_upd [of "\<lambda>rs. \<Sum>r\<leftarrow>rs. holds lib r" "registered pm" t "(registered pm t)[i := item]"]
  by (simp add: users_def set_item_def sum_list_set)

lemma find_key_some: "find_key key rs = Some i \<Longrightarrow> i < length rs \<and> key \<in> set (keyNames (rs ! i))"
  by (induction rs arbitrary: i) (auto split: if_splits)

lemma find_key_set:
  "find_key key rs = Some i \<Longrightarrow> keyNames r = keyNames (rs ! i) \<Longrightarrow> find_key key (rs[i := r]) = Some i"
  by (induction rs arbitrary: i) (auto split: if_splits)

lemma add_key_items:
  "add_key lib key rs = Some rs' \<Longrightarrow> (\<Sum>r\<leftarrow>rs'. holds x r) = (\<Sum>r\<leftarrow>rs. holds x r) \<and>
   (\<forall>r'\<in>set rs'. \<exists>r\<in>set rs. refCount r' = refCount r \<and> handle r' = handle r \<and> libName r' = libName r \<and> plugin r' = plugin r)"
proof (induction rs arbitrary: rs')
  case (Cons r rs)
  show ?case
  proof (cases "libName r = lib")
    case True
    then show ?thesis using Cons.prems by (auto simp: holds_def)
  next
    case False
    then obtain rs1 where "add_key lib key rs = Some rs1" "rs' = r # rs1" using Cons.prems by auto
    then show ?thesis using Cons.IH by auto
  qed
qed simp

lemma pm_inv_set:
  assumes "pm_inv n pm" "i < length (registered pm t)" "unat (refCount item) \<le> m" "n \<le> m"
    "refCount item \<noteq> 0 \<longrightarrow> handle item \<noteq> Garbage"
    "\<And>lib. balance lib l - balance lib (dl_log pm) = holds lib item - holds lib (registered pm t ! i)"
  shows "pm_inv m (set_item t i item l pm)"
  unfolding pm_inv_def
proof (intro conjI allI ballI)
  fix u r assume r: "r \<in> set (registered (set_item t i item l pm) u)"
  then have "r = item \<or> r \<in> set (registered pm u)"
    by (auto simp: set_item_def dest: set_update_subset_insert [THEN subsetD] split: if_splits)
  then show "unat (refCount r) \<le> m" "refCount r \<noteq> 0 \<longrightarrow> handle r \<noteq> Garbage"
    using assms(1,3,4,5) by (auto simp: pm_inv_def) (meson le_trans)+
next
  fix lib
  show "balance lib (dl_log (set_item t i item l pm)) = users lib (set_item t i item l pm)"
    using assms(1) assms(6) [of lib] by (simp add: users_set [OF assms(2)] pm_inv_def) (simp add: set_item_def)
qed

lemma inv_mono: "pm_inv n pm \<Longrightarrow> n \<le> m \<Longrightarrow> pm_inv m pm"
  unfolding pm_inv_def by (meson le_trans)

lemma inv_open:
  assumes "pm_inv n pm" "Suc n < 2 ^ 32"
  shows "pm_inv (Suc n) (snd (openPlugin K t key p pm))"
proof (cases "find_key key (registered pm t)")
  case None
  then show ?thesis using inv_mono [OF assms(1)] by (simp add: openPlugin_def)
next
  case (Some i)
  let ?item = "registered pm t ! i"
  have i: "i < length (registered pm t)" using find_key_some [OF Some] by simp
  then have b: "unat (refCount ?item) \<le> n" "refCount ?item \<noteq> 0 \<longrightarrow> handle ?item \<noteq> Garbage"
    using assms(1) nth_mem [OF i] unfolding pm_inv_def by blast+
  have nz: "unat (refCount ?item + 1) = Suc (unat (refCount ?item))" using b(1) assms(2)
    by (simp add: unat_word_ariths)
  then have nz': "refCount ?item + 1 \<noteq> 0" by (metis Zero_not_Suc unat_0)
  show ?thesis
  proof (cases "refCount ?item = 0")
    case False
    have "snd (openPlugin K t key p pm) = set_item t i (?item\<lparr>refCount := refCount ?item + 1\<rparr>) (dl_log pm) pm"
      using False Some by (simp add: openPlugin_def Let_def)
    then show ?thesis using pm_inv_set [OF assms(1) i] False b nz nz' by (simp add: holds_def)
  next
    case True
    obtain go item l where ld: "load_item K (dl_log pm) ?item = (go, item, l)" by (rule prod_cases3)
    have o: "snd (openPlugin K t key p pm) = set_item t i (if go then item\<lparr>refCount := refCount item + 1\<rparr> else item) l pm"
      using True Some ld by (simp add: openPlugin_def Let_def)
    show ?thesis unfolding o
      by (rule pm_inv_set [OF assms(1) i])
         (use ld True b nz nz' in \<open>auto simp: load_item_def Let_def holds_def split: if_splits option.splits\<close>)
  qed
qed

lemma inv_close:
  assumes "pm_inv n pm"
  shows "pm_inv n (snd (closePlugin t key pm))"
proof (cases "find_key key (registered pm t)")
  case None
  then show ?thesis using assms by (simp add: closePlugin_def)
next
  case (Some i)
  let ?item = "registered pm t ! i"
  have i: "i < length (registered pm t)" using find_key_some [OF Some] by simp
  then have b: "unat (refCount ?item) \<le> n" "refCount ?item \<noteq> 0 \<longrightarrow> handle ?item \<noteq> Garbage"
    using assms nth_mem [OF i] unfolding pm_inv_def by blast+
  obtain item l where c: "close_item ?item (dl_log pm) = (item, l)" by (rule prod.exhaust)
  have less: "unat (refCount ?item - 1) \<le> n" if "refCount ?item > 0"
    using b(1) that by (metis le_trans less_imp_le word_gt_0 measure_unat)
  have "snd (closePlugin t key pm) = set_item t i item l pm" using Some c by (simp add: closePlugin_def)
  moreover have "pm_inv n (set_item t i item l pm)"
    by (rule pm_inv_set [OF assms i])
       (use c b less in \<open>auto simp: close_item_def Let_def holds_def word_gt_0 split: if_splits\<close>)
  ultimately show ?thesis by simp
qed

lemma inv_register:
  assumes "pm_inv n pm"
  shows "pm_inv n (registeredPlugin item t pm)"
proof (cases "add_key (libName item) (hd (keyNames item)) (registered pm t)")
  case None
  then have r: "registeredPlugin item t pm = pm\<lparr>registered := (registered pm)(t := registered pm t @ [item\<lparr>refCount := 0\<rparr>])\<rparr>"
    by (simp add: registeredPlugin_def)
  have "users lib (registeredPlugin item t pm) = users lib pm" for lib
    using tsum_upd [of "\<lambda>rs. \<Sum>r\<leftarrow>rs. holds lib r" "registered pm" t] by (simp add: r users_def holds_def)
  then show ?thesis using assms by (auto simp: pm_inv_def r split: if_splits)
next
  case (Some l)
  then have r: "registeredPlugin item t pm = pm\<lparr>registered := (registered pm)(t := l)\<rparr>" by (simp add: registeredPlugin_def)
  note k = add_key_items [OF Some]
  have "users lib (registeredPlugin item t pm) = users lib pm" for lib
    using tsum_upd [of "\<lambda>rs. \<Sum>r\<leftarrow>rs. holds lib r" "registered pm" t] k [of lib] by (simp add: r users_def)
  moreover have "unat (refCount x) \<le> n \<and> (refCount x \<noteq> 0 \<longrightarrow> handle x \<noteq> Garbage)" if "x \<in> set l" for x
    using k that assms by (metis pm_inv_def)
  ultimately show ?thesis using assms by (auto simp: pm_inv_def r split: if_splits)
qed

text \<open>What happens to the manager: an element of the configuration file is read (one without a name
  aside, which is undefined), a plugin is opened, or one is closed.\<close>

datatype pm_op =
  PmElement "32 word" string "(string \<times> string) list" | PmOpen pal_plugin_manager_t string "nat pointer"
| PmClose pal_plugin_manager_t string

fun pm_step :: "linker \<Rightarrow> pm_op \<Rightarrow> PluginManager \<Rightarrow> PluginManager" where
  "pm_step K (PmElement junk name attrs) pm = (case startElement junk name attrs pm of None \<Rightarrow> pm | Some pm' \<Rightarrow> pm')"
| "pm_step K (PmOpen t key p) pm = snd (openPlugin K t key p pm)"
| "pm_step K (PmClose t key) pm = snd (closePlugin t key pm)"

definition pm_empty :: PluginManager where
  "pm_empty = \<lparr>registered = (\<lambda>t. []), dl_log = []\<rparr>"

lemma inv_element: "pm_inv n pm \<Longrightarrow> startElement junk name attrs pm = Some pm' \<Longrightarrow> pm_inv n pm'"
  by (auto simp: startElement_def Let_def inv_register split: if_splits option.splits)

lemma inv_run: "pm_inv n pm \<Longrightarrow> n + length ops < 2 ^ 32 \<Longrightarrow> pm_inv (n + length ops) (fold (pm_step K) ops pm)"
proof (induction ops arbitrary: n pm)
  case (Cons op ops)
  have "pm_inv (Suc n) (pm_step K op pm)"
    using Cons.prems inv_mono [OF Cons.prems(1), of "Suc n"] inv_open inv_close inv_element
    by (cases op) (auto split: option.split)
  then show ?case using Cons.IH [of "Suc n"] Cons.prems by simp
qed simp

lemma inv_empty: "pm_inv 0 pm_empty"
  by (simp add: pm_inv_def pm_empty_def users_def tsum_def)

text \<open>With a linker that finds every library, a plugin with users has its library and entry point.\<close>

definition in_use_ok :: "pm_item_t \<Rightarrow> bool" where
  "in_use_ok r \<longleftrightarrow> (refCount r \<noteq> 0 \<longrightarrow> handle r = Ptr (libName r) \<and> (\<exists>f. plugin r = Ptr f))"

definition pm_ready :: "PluginManager \<Rightarrow> bool" where
  "pm_ready pm \<longleftrightarrow> (\<forall>t. \<forall>r\<in>set (registered pm t). in_use_ok r)"

lemma ready_set: "pm_ready pm \<Longrightarrow> in_use_ok item \<Longrightarrow> pm_ready (set_item t i item l pm)"
  by (auto simp: pm_ready_def set_item_def dest: set_update_subset_insert [THEN subsetD])

lemma ready_item: "pm_ready pm \<Longrightarrow> find_key key (registered pm t) = Some i \<Longrightarrow> in_use_ok (registered pm t ! i)"
  using find_key_some nth_mem unfolding pm_ready_def by blast

lemma ready_open:
  assumes "pm_ready pm" "\<And>l lib. dl_opens K l lib"
  shows "pm_ready (snd (openPlugin K t key p pm))"
proof (cases "find_key key (registered pm t)")
  case None
  then show ?thesis using assms(1) by (simp add: openPlugin_def)
next
  case (Some i)
  note item = ready_item [OF assms(1) Some]
  show ?thesis
    using Some item assms(2)
    by (auto simp: openPlugin_def load_item_def Let_def in_use_ok_def split: option.split intro!: ready_set [OF assms(1)])
qed

lemma ready_close:
  assumes "pm_ready pm"
  shows "pm_ready (snd (closePlugin t key pm))"
proof (cases "find_key key (registered pm t)")
  case None
  then show ?thesis using assms by (simp add: closePlugin_def)
next
  case (Some i)
  then show ?thesis
    using ready_item [OF assms Some]
    by (auto simp: closePlugin_def close_item_def Let_def in_use_ok_def word_gt_0 intro!: ready_set [OF assms])
qed

lemma ready_register: "pm_ready pm \<Longrightarrow> pm_ready (registeredPlugin item t pm)"
proof (cases "add_key (libName item) (hd (keyNames item)) (registered pm t)")
  case (Some l)
  assume r: "pm_ready pm"
  have "in_use_ok x" if "x \<in> set l" for x
    using add_key_items [OF Some] that r unfolding pm_ready_def in_use_ok_def by metis
  then show ?thesis using r Some by (auto simp: pm_ready_def registeredPlugin_def)
qed (auto simp: pm_ready_def registeredPlugin_def in_use_ok_def)

lemma ready_run:
  assumes "\<And>l lib. dl_opens K l lib"
  shows "pm_ready pm \<Longrightarrow> pm_ready (fold (pm_step K) ops pm)"
proof (induction ops arbitrary: pm)
  case (Cons op ops)
  have "pm_ready pm'" if "startElement junk name attrs pm = Some pm'" for junk name attrs pm'
    using that Cons.prems by (auto simp: startElement_def Let_def ready_register split: if_splits option.splits)
  then have "pm_ready (pm_step K op pm)"
    using Cons.prems ready_open [OF _ assms] ready_close by (cases op) (auto split: option.split)
  then show ?case using Cons.IH by simp
qed simp

text \<open>A configuration file with one plugin, a linker that finds everything and one that finds nothing.\<close>

definition demo_file :: "pm_op list" where
  "demo_file = [PmElement 5 ''stream'' [(''name'', ''LL''), (''lib'', ''a.so''), (''entryFunction'', ''Create'')]]"

definition demo_linker :: "bool \<Rightarrow> linker" where
  "demo_linker b = \<lparr>dl_opens = (\<lambda>l lib. b), dl_symbol = (\<lambda>l lib f. Some 7)\<rparr>"

definition demo_item :: pm_item_t where
  "demo_item = (new_item 0)\<lparr>libName := ''a.so'', keyNames := [''LL''], entryFunction := ''Create''\<rparr>"

definition demo_manager :: PluginManager where
  "demo_manager = pm_empty\<lparr>registered := (\<lambda>t. if t = PAL_PLUGIN_MANAGER_STREAM then [demo_item] else [])\<rparr>"

lemma demo_read: "fold (pm_step K) demo_file pm_empty = demo_manager"
  by (simp add: demo_file_def startElement_def registeredPlugin_def PmNameToType_def new_item_def Let_def demo_manager_def
    demo_item_def pm_empty_def fun_eq_iff)

text \<open>
  C28: Over any sequence of fewer than 2^32 elements of the configuration file, openings and closings,
  with libraries that fail to load or lack their entry point among them, the dynamic linker has
  opened each library exactly as often, without closing it, as there are plugins that hold it and
  have users: a library is loaded when the first user of a plugin comes, never again while it has
  users, and unloaded when the last one goes. If every library can be loaded, each plugin that has
  users does hold its own library, and its entry point.
\<close>

theorem plugins_loaded_while_used:
  assumes "length ops < 2 ^ 32" and "pm = fold (pm_step K) ops pm_empty"
  shows "balance lib (dl_log pm) = users lib pm \<and>
    ((\<forall>l x. dl_opens K l x) \<longrightarrow> (\<forall>t. \<forall>r\<in>set (registered pm t).
       refCount r \<noteq> 0 \<longrightarrow> handle r = Ptr (libName r) \<and> (\<exists>f. plugin r = Ptr f)))"
proof (intro conjI impI)
  show "balance lib (dl_log pm) = users lib pm" using inv_run [OF inv_empty, of ops K] assms by (simp add: pm_inv_def)
  assume "\<forall>l x. dl_opens K l x"
  then have "pm_ready pm" using ready_run [of K pm_empty ops] assms(2) by (simp add: pm_ready_def pm_empty_def)
  then show "\<forall>t. \<forall>r\<in>set (registered pm t). refCount r \<noteq> 0 \<longrightarrow> handle r = Ptr (libName r) \<and> (\<exists>f. plugin r = Ptr f)"
    by (simp add: pm_ready_def in_use_ok_def)
qed

theorem plugins_loaded_while_used_witness:
  "balance ''a.so'' (dl_log (snd (openPlugin (demo_linker True) PAL_PLUGIN_MANAGER_STREAM ''LL'' Null demo_manager))) = 1"
proof -
  let ?ops = "demo_file @ [PmOpen PAL_PLUGIN_MANAGER_STREAM ''LL'' Null]"
  have "length ?ops < 2 ^ 32" by (simp add: demo_file_def)
  from plugins_loaded_while_used [OF this refl, of "''a.so''" "demo_linker True"]
  show ?thesis
    by (simp add: demo_read users_def tsum_def holds_def openPlugin_def load_item_def set_item_def demo_manager_def
      demo_item_def new_item_def demo_linker_def pm_empty_def Let_def)
qed

text \<open>
  C37: When a library cannot be loaded for the first user of its plugin, opening the plugin still
  answers 0 and hands out the uninitialised pointer of the item; the failed attempt counts as a user,
  so the library is not tried again for the next one.
\<close>

theorem failed_load_hands_out_garbage:
  assumes "find_key key (registered pm t) = Some i" and "refCount (registered pm t ! i) = 0"
    and "plugin (registered pm t ! i) = Garbage" and "\<not> dl_opens K (dl_log pm) (libName (registered pm t ! i))"
    and "openPlugin K t key p pm = (r, pm')"
  shows "r = (0, Garbage) \<and> refCount (registered pm' t ! i) = 1 \<and>
    openPlugin K t key p pm' = ((0, Garbage), set_item t i ((registered pm' t ! i)\<lparr>refCount := 2\<rparr>) (dl_log pm') pm')"
proof -
  let ?item = "registered pm t ! i"
  have i: "i < length (registered pm t)" and key: "key \<in> set (keyNames ?item)" using find_key_some [OF assms(1)] by simp_all
  have r: "r = (0, Garbage)" "pm' = set_item t i (?item\<lparr>handle := Null, refCount := 1\<rparr>) (DlFailed (libName ?item) # dl_log pm) pm"
    using assms by (auto simp: openPlugin_def load_item_def Let_def)
  have item: "registered pm' t ! i = ?item\<lparr>handle := Null, refCount := 1\<rparr>" using i by (simp add: r(2) set_item_def)
  have "find_key key (registered pm' t) = Some i"
    using assms(1) find_key_set [of key "registered pm t" i] by (simp add: r(2) set_item_def)
  then show ?thesis using assms(3) by (simp add: r(1) item openPlugin_def Let_def)
qed

theorem failed_load_hands_out_garbage_witness:
  "fst (openPlugin (demo_linker False) PAL_PLUGIN_MANAGER_STREAM ''LL'' Null demo_manager) = (0, Garbage)"
proof -
  obtain r pm' where o: "openPlugin (demo_linker False) PAL_PLUGIN_MANAGER_STREAM ''LL'' Null demo_manager = (r, pm')" by (rule prod.exhaust)
  have "find_key ''LL'' (registered demo_manager PAL_PLUGIN_MANAGER_STREAM) = Some 0"
    by (simp add: demo_manager_def demo_item_def)
  from failed_load_hands_out_garbage [OF this _ _ _ o] have "r = (0, Garbage)"
    by (simp add: demo_manager_def demo_item_def new_item_def demo_linker_def)
  then show ?thesis by (simp add: o)
qed

text \<open>
  The first user of a plugin gets its entry point, and when he closes the plugin again without
  anybody else having opened it, the library is unloaded, nothing else has changed, and the plugin
  can be opened again.
\<close>

theorem plugin_open_close:
  assumes "find_key key (registered pm t) = Some i" and "refCount (registered pm t ! i) = 0"
    and "\<And>l. dl_opens K l (libName (registered pm t ! i))"
    and "\<And>l. dl_symbol K l (libName (registered pm t ! i)) (entryFunction (registered pm t ! i)) = Some f"
    and "openPlugin K t key p pm = (r, pm1)" and "closePlugin t key pm1 = (st, pm2)"
  shows "r = (0, Ptr f) \<and> st = 0 \<and>
    registered pm2 = (registered pm)(t := (registered pm t)[i := (registered pm t ! i)\<lparr>handle := Null, plugin := Null\<rparr>]) \<and>
    (\<forall>lib. balance lib (dl_log pm2) = balance lib (dl_log pm)) \<and> fst (openPlugin K t key p pm2) = (0, Ptr f)"
proof -
  let ?item = "registered pm t ! i" let ?lib = "libName ?item"
  let ?used = "?item\<lparr>handle := Ptr ?lib, plugin := Ptr f, refCount := 1\<rparr>"
  have i: "i < length (registered pm t)" using find_key_some [OF assms(1)] by simp
  have r: "r = (0, Ptr f)" "pm1 = set_item t i ?used (DlSym ?lib (entryFunction ?item) # DlOpen ?lib # dl_log pm) pm"
    using assms(1-5) by (auto simp: openPlugin_def load_item_def Let_def)
  have k1: "find_key key (registered pm1 t) = Some i" "registered pm1 t ! i = ?used"
    using assms(1) find_key_set [OF assms(1), of ?used] i by (simp_all add: r(2) set_item_def)
  let ?closed = "?item\<lparr>handle := Null, plugin := Null\<rparr>"
  have "close_item ?used (dl_log pm1) = (?closed, DlClose (Ptr ?lib) # dl_log pm1)"
    using assms(2) by (simp add: close_item_def Let_def word_gt_0)
  then have c: "st = 0" "pm2 = set_item t i ?closed (DlClose (Ptr ?lib) # dl_log pm1) pm1"
    using assms(6) k1 by (auto simp: closePlugin_def)
  have k2: "find_key key (registered pm2 t) = Some i" "registered pm2 t ! i = ?closed"
    using find_key_set [OF k1(1), of ?closed] k1(2) i by (simp_all add: c(2) r(2) set_item_def)
  have "fst (openPlugin K t key p pm2) = (0, Ptr f)"
    using k2 assms(2-4) by (simp add: openPlugin_def load_item_def Let_def)
  then show ?thesis using r c by (auto simp: set_item_def)
qed

theorem plugin_open_close_witness:
  "\<exists>r pm1 st pm2. openPlugin (demo_linker True) PAL_PLUGIN_MANAGER_STREAM ''LL'' Null demo_manager = (r, pm1) \<and>
    closePlugin PAL_PLUGIN_MANAGER_STREAM ''LL'' pm1 = (st, pm2) \<and> r = (0, Ptr 7) \<and> st = 0"
proof -
  obtain r pm1 where o: "openPlugin (demo_linker True) PAL_PLUGIN_MANAGER_STREAM ''LL'' Null demo_manager = (r, pm1)" by (rule prod.exhaust)
  obtain st pm2 where c: "closePlugin PAL_PLUGIN_MANAGER_STREAM ''LL'' pm1 = (st, pm2)" by (rule prod.exhaust)
  have "find_key ''LL'' (registered demo_manager PAL_PLUGIN_MANAGER_STREAM) = Some 0"
    by (simp add: demo_manager_def demo_item_def)
  from plugin_open_close [OF this _ _ _ o c, of 7] show ?thesis
    using o c by (simp add: demo_manager_def demo_item_def new_item_def demo_linker_def)
qed

text \<open>Plugins that nobody has ever opened.\<close>

definition fresh :: "PluginManager \<Rightarrow> bool" where
  "fresh pm \<longleftrightarrow> (\<forall>t. \<forall>r\<in>set (registered pm t). handle r = Garbage)"

lemma fresh_element: "fresh pm \<Longrightarrow> startElement junk name attrs pm = Some pm' \<Longrightarrow> fresh pm'"
proof -
  assume f: "fresh pm" and e: "startElement junk name attrs pm = Some pm'"
  have g: "handle (item_attrs as item) = handle item" for as item
    by (induction as item rule: item_attrs.induct) auto
  have "fresh (registeredPlugin item t pm)" if "handle item = Garbage" for item t
  proof (cases "add_key (libName item) (hd (keyNames item)) (registered pm t)")
    case None
    then show ?thesis using f that by (auto simp: registeredPlugin_def fresh_def)
  next
    case (Some l)
    then show ?thesis using f add_key_items [OF Some] by (auto simp: registeredPlugin_def fresh_def)
  qed
  then show "fresh pm'"
    using f e g by (auto simp: startElement_def Let_def new_item_def split: if_splits option.splits)
qed

lemma fresh_run: "fresh pm \<Longrightarrow> \<forall>op\<in>set ops. \<exists>junk name attrs. op = PmElement junk name attrs \<Longrightarrow> fresh (fold (pm_step K) ops pm)"
proof (induction ops arbitrary: pm)
  case (Cons op ops)
  have "fresh (pm_step K op pm)" using Cons.prems fresh_element by (auto split: option.split)
  then show ?case using Cons by simp
qed simp

lemma deinit_fresh:
  "\<forall>r\<in>set rs. handle r = Garbage \<Longrightarrow> snd (deinitPluginItems rs l) = replicate (length rs) (DlClose Garbage) @ l"
  by (induction rs arbitrary: l) (simp_all add: Let_def case_prod_beta replicate_app_Cons_same)

lemma deinit_log:
  "\<forall>r\<in>set (registered pm t). handle r = Garbage \<Longrightarrow>
   dl_log (deinit_type t pm) = replicate (length (registered pm t)) (DlClose Garbage) @ dl_log pm \<and>
   (u \<noteq> t \<longrightarrow> registered (deinit_type t pm) u = registered pm u)"
  using deinit_fresh by (auto simp: deinit_type_def split: prod.splits) (metis snd_conv)

text \<open>
  When the program ends without having used some plugins, the destructor of the manager closes
  uninitialised handles, one for each plugin of the configuration file that was never opened: if
  none was opened, for each of them.
\<close>

theorem exit_closes_garbage:
  assumes "\<forall>op\<in>set ops. \<exists>junk name attrs. op = PmElement junk name attrs" and "pm = fold (pm_step K) ops pm_empty"
  shows "int (length (filter (\<lambda>e. e = DlClose Garbage) (dl_log (PluginManager_destroy pm)))) =
    int (length (filter (\<lambda>e. e = DlClose Garbage) (dl_log pm))) + tsum (\<lambda>t. int (length (registered pm t)))"
proof -
  have "fresh pm_empty" by (simp add: fresh_def pm_empty_def)
  then have g: "\<forall>r\<in>set (registered pm t). handle r = Garbage" for t
    using fresh_run [OF _ assms(1)] assms(2) by (auto simp: fresh_def)
  show ?thesis unfolding PluginManager_destroy_def tsum_def
    by (simp add: deinit_log g)
qed

theorem exit_closes_garbage_witness:
  "length (filter (\<lambda>e. e = DlClose Garbage) (dl_log (PluginManager_destroy demo_manager))) = 1"
proof -
  have e: "\<forall>op\<in>set demo_file. \<exists>junk name attrs. op = PmElement junk name attrs" by (simp add: demo_file_def)
  show ?thesis using exit_closes_garbage [OF e demo_read [symmetric]]
    by (simp add: demo_manager_def pm_empty_def tsum_def)
qed

end
